(* ===== verification/Prelude.thy ===== *)
theory Prelude
  imports Complex_Main "HOL-Library.AList" "HOL-Library.Sublist"
begin

text \<open>
  Shared vocabulary of the development.

  \<^item> Clock readings, durations, money and rates are Python floats in the sources; the model
    computes with exact rationals (type \<^typ>\<open>rat\<close>), so rounding is not modelled.
  \<^item> A Python dict is an association list in insertion order: \<open>d[k] = v\<close> is
    \<^const>\<open>AList.update\<close> (overwrites in place, otherwise appends), \<open>d.get(k)\<close> is
    \<^const>\<open>map_of\<close>, \<open>del d[k]\<close> and \<open>d.pop(k, None)\<close> are \<^const>\<open>AList.delete\<close>.
  \<^item> An operation that may raise returns a value of a sum type, \<^const>\<open>Inl\<close> the exception.
  \<^item> The generic locales at the end carry an invariant (\<open>step_system\<close>) or a
    reflexive and transitive relation (\<open>step_order\<close>) from one operation to a whole run of
    operations; every component with state interprets one of them.
\<close>

type_synonym time = rat
type_synonym ('k, 'v) dict = "('k \<times> 'v) list"

named_theorems op_defs "definitions of the operations of a component"
named_theorems frame "fields an operation leaves unchanged"

section \<open>Python strings\<close>

definition lower_char :: "char \<Rightarrow> char" where
  "lower_char c =
     (let n = (of_char c :: nat) in if 65 \<le> n \<and> n \<le> 90 then char_of (n + 32) else c)"

definition lower :: "string \<Rightarrow> string" where
  "lower s = map lower_char s"

definition is_space :: "char \<Rightarrow> bool" where
  "is_space c = (let n = (of_char c :: nat) in n = 32 \<or> (9 \<le> n \<and> n \<le> 13) \<or> (28 \<le> n \<and> n \<le> 31))"

definition strip :: "string \<Rightarrow> string" where
  "strip s = rev (dropWhile is_space (rev (dropWhile is_space s)))"

definition startswith :: "string \<Rightarrow> string \<Rightarrow> bool" where
  "startswith s p = (take (length p) s = p)"

fun contains :: "string \<Rightarrow> string \<Rightarrow> bool" where
  "contains [] p = (p = [])"
| "contains (c # s) p = (startswith (c # s) p \<or> contains s p)"

fun split_on :: "char \<Rightarrow> string \<Rightarrow> string list" where
  "split_on sep [] = [[]]"
| "split_on sep (c # s) =
     (if c = sep then [] # split_on sep s
      else (case split_on sep s of [] \<Rightarrow> [[c]] | w # ws \<Rightarrow> (c # w) # ws))"

fun str_of_nat :: "nat \<Rightarrow> string" where
  "str_of_nat n =
     (if n < 10 then [char_of (48 + n)] else str_of_nat (n div 10) @ [char_of (48 + n mod 10)])"

declare str_of_nat.simps [simp del]

definition str_of_int :: "int \<Rightarrow> string" where
  "str_of_int i = (if i < 0 then ''-'' @ str_of_nat (nat (- i)) else str_of_nat (nat i))"

text \<open>Python truth of an optional string and of an optional number.\<close>

definition truthy_str :: "string option \<Rightarrow> bool" where
  "truthy_str s = (case s of None \<Rightarrow> False | Some t \<Rightarrow> t \<noteq> [])"

definition truthy_num :: "rat option \<Rightarrow> bool" where
  "truthy_num x = (case x of None \<Rightarrow> False | Some r \<Rightarrow> r \<noteq> 0)"

definition dict_get :: "('k, 'v) dict \<Rightarrow> 'k \<Rightarrow> 'v \<Rightarrow> 'v" where
  "dict_get d k v = (case map_of d k of None \<Rightarrow> v | Some w \<Rightarrow> w)"

text \<open>A run of operations: the events are applied from left to right.\<close>

definition run :: "('s \<Rightarrow> 'e \<Rightarrow> 's) \<Rightarrow> 's \<Rightarrow> 'e list \<Rightarrow> 's" where
  "run f s es = foldl f s es"

text \<open>How many steps of a run have a property, each judged in the state it is taken in.\<close>

fun count_steps :: "('s \<Rightarrow> 'e \<Rightarrow> 's) \<Rightarrow> ('s \<Rightarrow> 'e \<Rightarrow> bool) \<Rightarrow> 's \<Rightarrow> 'e list \<Rightarrow> nat" where
  "count_steps f P s [] = 0"
| "count_steps f P s (e # es) = (if P s e then 1 else 0) + count_steps f P (f s e) es"

section \<open>Generic lemmas\<close>

lemma run_Nil [simp]: "run f s [] = s"
  by (simp add: run_def)

lemma run_Cons [simp]: "run f s (e # es) = run f (f s e) es"
  by (simp add: run_def)

lemma run_append: "run f s (xs @ ys) = run f (run f s xs) ys"
  by (simp add: run_def)

lemma lower_idem [simp]: "lower (lower s) = lower s"
proof -
  have "lower_char (lower_char c) = lower_char c" for c
    by (auto simp: lower_char_def Let_def of_char_of)
  then show ?thesis by (simp add: lower_def)
qed

lemma length_lower [simp]: "length (lower s) = length s"
  by (simp add: lower_def)

text \<open>Python dicts as association lists.\<close>

lemma map_of_update [simp]:
  "map_of (AList.update k v d) k' = (if k' = k then Some v else map_of d k')"
  by (simp add: AList.update_conv' fun_upd_def)

lemma map_of_delete [simp]:
  "map_of (AList.delete k d) k' = (if k' = k then None else map_of d k')"
  by (simp add: AList.delete_conv' fun_upd_def)

lemma dict_get_update [simp]:
  "dict_get (AList.update k v d) k' w = (if k' = k then v else dict_get d k' w)"
  by (simp add: dict_get_def)

lemma dict_get_delete [simp]:
  "dict_get (AList.delete k d) k' w = (if k' = k then w else dict_get d k' w)"
  by (simp add: dict_get_def)

lemma dict_get_Nil [simp]: "dict_get [] k w = w"
  by (simp add: dict_get_def)

lemma distinct_fst_update [intro]:
  "distinct (map fst d) \<Longrightarrow> distinct (map fst (AList.update k v d))"
  by (rule AList.distinct_update)

lemma distinct_fst_delete [intro]:
  "distinct (map fst d) \<Longrightarrow> distinct (map fst (AList.delete k d))"
  by (rule AList.distinct_delete)

lemma distinct_fst_filter [intro]:
  "distinct (map fst d) \<Longrightarrow> distinct (map fst (filter P d))"
  by (induction d) auto

lemma fst_comp_pair [simp]: "fst \<circ> (\<lambda>(k, v). (k, f k v)) = fst"
  by auto

lemma distinct_fst_map_snd:
  "distinct (map fst (map (\<lambda>(k, v). (k, f k v)) d)) = distinct (map fst d)"
  by (simp add: comp_def split_beta)

lemma map_of_map_snd: "map_of (map (\<lambda>(k, v). (k, f k v)) d) k = map_option (f k) (map_of d k)"
  by (induction d) auto

lemma map_of_filter_distinct:
  "distinct (map fst d) \<Longrightarrow>
   map_of (filter P d) k = (case map_of d k of None \<Rightarrow> None | Some v \<Rightarrow> if P (k, v) then Some v else None)"
proof (induction d)
  case (Cons p d)
  then show ?case
    by (cases p) (auto split: option.splits dest: map_of_SomeD, (metis fst_conv image_eqI map_of_SomeD)+)
qed simp

lemma in_set_update:
  "(k', v') \<in> set (AList.update k v d) \<Longrightarrow> (k', v') = (k, v) \<or> (k', v') \<in> set d"
  by (induction d) (auto split: if_splits)

lemma in_set_delete: "x \<in> set (AList.delete k d) \<Longrightarrow> x \<in> set d"
  by (auto simp: AList.delete_eq)

lemma sum_list_update:
  fixes f :: "'v \<Rightarrow> rat"
  shows "map_of d k = None \<Longrightarrow>
    sum_list (map (\<lambda>p. f (snd p)) (AList.update k v d)) = sum_list (map (\<lambda>p. f (snd p)) d) + f v"
  by (induction d) (auto split: if_splits)

lemma sum_list_delete:
  fixes f :: "'v \<Rightarrow> rat"
  shows "distinct (map fst d) \<Longrightarrow> map_of d k = Some v \<Longrightarrow>
    sum_list (map (\<lambda>p. f (snd p)) (AList.delete k d)) = sum_list (map (\<lambda>p. f (snd p)) d) - f v"
proof (induction d)
  case (Cons p d)
  show ?case
  proof (cases "fst p = k")
    case True
    with Cons.prems have "k \<notin> fst ` set d" by auto
    then have "filter (\<lambda>(k', _). k \<noteq> k') d = d"
      by (auto simp: filter_id_conv image_iff split_beta)
    with True Cons.prems show ?thesis by (cases p) (simp add: AList.delete_eq)
  next
    case False
    with Cons show ?thesis by (auto simp: AList.delete_eq)
  qed
qed simp

section \<open>Generic locales\<close>

text \<open>An invariant kept by every admissible operation holds after every run.\<close>

locale step_system =
  fixes step :: "'s \<Rightarrow> 'e \<Rightarrow> 's"
    and ok :: "'e \<Rightarrow> bool"
    and inv :: "'s \<Rightarrow> bool"
  assumes step_inv: "inv s \<Longrightarrow> ok e \<Longrightarrow> inv (step s e)"
begin

lemma run_inv: "inv s \<Longrightarrow> list_all ok es \<Longrightarrow> inv (run step s es)"
  by (induction es arbitrary: s) (auto intro: step_inv)

end

text \<open>A preorder every operation climbs relates the start and the end of every run.\<close>

locale step_order = step_system +
  fixes le :: "'s \<Rightarrow> 's \<Rightarrow> bool"
  assumes le_refl: "le s s"
    and le_trans: "le s t \<Longrightarrow> le t u \<Longrightarrow> le s u"
    and step_le: "inv s \<Longrightarrow> ok e \<Longrightarrow> le s (step s e)"
begin

lemma run_le: "inv s \<Longrightarrow> list_all ok es \<Longrightarrow> le s (run step s es)"
proof (induction es arbitrary: s)
  case Nil
  show ?case by (simp add: le_refl)
next
  case (Cons e es)
  then have "le s (step s e)" and "le (step s e) (run step (step s e) es)"
    by (auto intro: step_le step_inv)
  then show ?case by (auto intro: le_trans)
qed

end

end
