(* ===== verification/Errors.thy ===== *)
theory Errors
  imports Prelude
begin

text \<open>
  The exceptions of \<^verbatim>\<open>errors.py\<close> (and the two of \<^verbatim>\<open>storage/sqlite.py\<close>) as one
  datatype, one constructor per class, with the data a handler or a caller reads.
  Message texts are not modelled except where a component inspects them.

  Python handlers select by class: \<open>except BreakerOpenError\<close> also catches
  \<open>BreakerForcedOpenError\<close>, and \<open>except NoHealthyRouteError\<close> also catches
  \<open>NoCandidateMatchesError\<close>; the \<open>is_\<dots>\<close> predicates below are those handlers.
\<close>

datatype gateway_error =
    CircuitBreakerGatewayError
  | BreakerOpenError string time
  | BreakerForcedOpenError string
  | ProbeAdmissionDeniedError string
  | DeadlineExceededError time time
  | NoHealthyRouteError string
  | NoCandidateMatchesError string
  | CycleDetectedError string "string list"
  | NonRecoverableFailureError string
  | RetryBudgetExhaustedError
  | FallbackBudgetExhaustedError
  | SchemaValidationError
  | UnsafeToolCallError string
  | IndeterminateToolOperationError string string
  | ToolOperationProtocolError int
  | ContextOverflowError int int
  | ProtocolTranslationError
  | ConfigurationError
  | ContinuationProtocolError int
  | DurableStoreError
  | LeaseUnavailableError
  | RuntimeError
  | ValueError
  | KeyError
  | IndexError
  | AttributeError
  | TypeError
  | ZeroDivisionError
  | UpstreamError

type_synonym 'a result = "gateway_error + 'a"

definition is_breaker_open_error :: "gateway_error \<Rightarrow> bool" where
  "is_breaker_open_error e =
     (case e of BreakerOpenError _ _ \<Rightarrow> True | BreakerForcedOpenError _ \<Rightarrow> True | _ \<Rightarrow> False)"

definition is_no_healthy_route_error :: "gateway_error \<Rightarrow> bool" where
  "is_no_healthy_route_error e =
     (case e of NoHealthyRouteError _ \<Rightarrow> True | NoCandidateMatchesError _ \<Rightarrow> True | _ \<Rightarrow> False)"

definition is_durable_store_error :: "gateway_error \<Rightarrow> bool" where
  "is_durable_store_error e =
     (case e of DurableStoreError \<Rightarrow> True | LeaseUnavailableError \<Rightarrow> True | _ \<Rightarrow> False)"

end
