(* ===== verification/Models.thy ===== *)
theory Models
  imports Errors
begin

text \<open>
  The data of \<^verbatim>\<open>models.py\<close>: the failure taxonomy and the attempt record.  Enum members keep
  their Python names with a prefix \<open>R_\<close>; \<open>FailoverReason.value\<close> is \<open>reason_value\<close>.
\<close>

datatype failure_category =
    INFRASTRUCTURE | RATE_LIMIT | REQUEST_INCOMPATIBILITY | SEMANTIC_AGENT_FAILURE
  | CLIENT_FAULT | UNKNOWN_CATEGORY

datatype failover_reason =
    R_rate_limit | R_upstream_rate_limit | R_billing | R_auth | R_model_not_found | R_overloaded
  | R_server_error | R_timeout | R_ssl_cert_verification | R_payload_too_large | R_output_cap_exceeded
  | R_context_overflow | R_waf_blocked | R_connection_refused | R_schema_incompatible
  | R_malformed_tool_call | R_empty_completion | R_client_error | R_unknown

fun reason_value :: "failover_reason \<Rightarrow> string" where
  "reason_value R_rate_limit = ''rate_limit''"
| "reason_value R_upstream_rate_limit = ''upstream_rate_limit''"
| "reason_value R_billing = ''billing''"
| "reason_value R_auth = ''auth''"
| "reason_value R_model_not_found = ''model_not_found''"
| "reason_value R_overloaded = ''overloaded''"
| "reason_value R_server_error = ''server_error''"
| "reason_value R_timeout = ''timeout''"
| "reason_value R_ssl_cert_verification = ''ssl_cert_verification''"
| "reason_value R_payload_too_large = ''payload_too_large''"
| "reason_value R_output_cap_exceeded = ''output_cap_exceeded''"
| "reason_value R_context_overflow = ''context_overflow''"
| "reason_value R_waf_blocked = ''waf_blocked''"
| "reason_value R_connection_refused = ''connection_refused''"
| "reason_value R_schema_incompatible = ''schema_incompatible''"
| "reason_value R_malformed_tool_call = ''malformed_tool_call''"
| "reason_value R_empty_completion = ''empty_completion''"
| "reason_value R_client_error = ''client_error''"
| "reason_value R_unknown = ''unknown''"

record failure_classification =
  fc_category :: failure_category
  fc_reason :: failover_reason
  fc_should_fallback :: bool
  fc_retryable :: bool
  fc_poisons_health :: bool
  fc_is_permanent :: bool
  fc_status_code :: "int option"
  fc_retry_after_seconds :: "rat option"
  fc_message :: string
  fc_token_limit :: "int option"
  fc_account_wide :: bool

record attempt_record =
  ar_attempt_id :: string
  ar_request_id :: string
  ar_provider :: string
  ar_model :: string
  ar_endpoint_id :: string
  ar_attempt_index :: nat
  ar_fallback_index :: nat
  ar_latency_ms :: rat
  ar_status_code :: "int option"
  ar_success :: bool
  ar_failure :: "failure_classification option"
  ar_compacted :: bool

text \<open>\<open>AttemptRecord.finish\<close>: \<open>started\<close> and \<open>now\<close> are the two readings of the monotonic clock.\<close>

definition finish ::
  "time \<Rightarrow> time \<Rightarrow> bool \<Rightarrow> int option \<Rightarrow> failure_classification option \<Rightarrow> attempt_record \<Rightarrow> attempt_record" where
  "finish started now ok code failure r =
     r\<lparr>ar_latency_ms := max 0 ((now - started) * 1000), ar_success := ok,
       ar_status_code := code, ar_failure := failure\<rparr>"

lemma reason_value_inj: "reason_value a = reason_value b \<longleftrightarrow> a = b"
  by (cases a; cases b) simp_all

end
