(* ===== verification/Metrics.thy ===== *)
theory Metrics
  imports Prelude
begin

text \<open>
  \<^verbatim>\<open>breaker/metrics.py\<close>: the sliding window behind the circuit breaker.

  The window keeps the outcomes of finished calls, oldest first.  A count-based window keeps the
  last \<open>window_size\<close> outcomes, a time-based one those not older than \<open>window_size\<close> seconds.
  \<open>window_size\<close> is a \<^typ>\<open>nat\<close>: with a negative size the source pops from an empty deque.
  \<open>snapshot\<close> evicts before it counts, so it returns the new window with the counts.

  The lemmas show that the incremental eviction equals the declarative window: the last \<open>n\<close>
  outcomes of the whole history, and, under a monotonic clock, exactly those not older than the
  cutoff; and that the rates are percentages.
\<close>

datatype sliding_window_type = COUNT_BASED | TIME_BASED

record call_outcome =
  co_success :: bool
  co_duration_ms :: rat
  co_timestamp :: time
  co_is_slow :: bool
  co_poisons_health :: bool

record metrics =
  m_window_type :: sliding_window_type
  m_window_size :: nat
  m_slow_ms :: rat
  m_samples :: "call_outcome list"

record metrics_report =
  total_calls :: nat
  success_calls :: nat
  failed_calls :: nat
  slow_calls :: nat
  failure_rate :: rat
  slow_call_rate :: rat

definition metrics_init :: "sliding_window_type \<Rightarrow> nat \<Rightarrow> rat \<Rightarrow> metrics" where
  "metrics_init wt n slow = \<lparr>m_window_type = wt, m_window_size = n, m_slow_ms = slow, m_samples = []\<rparr>"

definition metrics_reset :: "metrics \<Rightarrow> metrics" where
  "metrics_reset m = m\<lparr>m_samples := []\<rparr>"

fun evict_count :: "nat \<Rightarrow> call_outcome list \<Rightarrow> call_outcome list" where
  "evict_count n [] = []"
| "evict_count n (x # xs) = (if length (x # xs) > n then evict_count n xs else x # xs)"

fun evict_time :: "time \<Rightarrow> call_outcome list \<Rightarrow> call_outcome list" where
  "evict_time cutoff [] = []"
| "evict_time cutoff (x # xs) = (if co_timestamp x < cutoff then evict_time cutoff xs else x # xs)"

definition evict_expired :: "time \<Rightarrow> metrics \<Rightarrow> metrics" where
  "evict_expired now m =
     (case m_window_type m of
        COUNT_BASED \<Rightarrow> m\<lparr>m_samples := evict_count (m_window_size m) (m_samples m)\<rparr>
      | TIME_BASED \<Rightarrow> m\<lparr>m_samples := evict_time (now - of_nat (m_window_size m)) (m_samples m)\<rparr>)"

definition metrics_record :: "bool \<Rightarrow> rat \<Rightarrow> time \<Rightarrow> bool \<Rightarrow> metrics \<Rightarrow> metrics" where
  "metrics_record success duration_ms ts poisons m =
     evict_expired ts
       (m\<lparr>m_samples := m_samples m @
          [\<lparr>co_success = success, co_duration_ms = duration_ms, co_timestamp = ts,
            co_is_slow = (duration_ms \<ge> m_slow_ms m), co_poisons_health = poisons\<rparr>]\<rparr>)"

fun count_samples :: "call_outcome list \<Rightarrow> nat \<times> nat \<times> nat \<Rightarrow> nat \<times> nat \<times> nat" where
  "count_samples [] (failed, success, slow) = (failed, success, slow)"
| "count_samples (s # ss) (failed, success, slow) =
     count_samples ss
       (if \<not> co_success s \<and> co_poisons_health s then failed + 1 else failed,
        if \<not> (\<not> co_success s \<and> co_poisons_health s) \<and> co_success s then success + 1 else success,
        if co_is_slow s then slow + 1 else slow)"

definition metrics_snapshot :: "time \<Rightarrow> metrics \<Rightarrow> metrics_report \<times> metrics" where
  "metrics_snapshot now m =
     (let m' = evict_expired now m; total = length (m_samples m') in
      if total = 0
      then (\<lparr>total_calls = 0, success_calls = 0, failed_calls = 0, slow_calls = 0,
             failure_rate = 0, slow_call_rate = 0\<rparr>, m')
      else (case count_samples (m_samples m') (0, 0, 0) of (failed, success, slow) \<Rightarrow>
             (\<lparr>total_calls = total, success_calls = success, failed_calls = failed, slow_calls = slow,
               failure_rate = (of_nat failed / of_nat total) * 100,
               slow_call_rate = (of_nat slow / of_nat total) * 100\<rparr>, m')))"

section \<open>Eviction is the declarative window\<close>

text \<open>The last \<open>n\<close> elements of a list.\<close>

definition last_n :: "nat \<Rightarrow> 'a list \<Rightarrow> 'a list" where
  "last_n n xs = drop (length xs - n) xs"

lemma evict_count_eq: "evict_count n xs = last_n n xs"
  by (induction xs) (auto simp: last_n_def Suc_diff_le)

lemma last_n_snoc: "last_n n (last_n n xs @ [x]) = last_n n (xs @ [x])"
  by (cases "n \<le> length xs") (auto simp: last_n_def Suc_diff_le)

lemma length_last_n: "length (last_n n xs) = min n (length xs)"
  by (simp add: last_n_def)

lemma last_n_idem [simp]: "last_n n (last_n n xs) = last_n n xs"
  by (simp add: last_n_def)

lemma evict_time_filter:
  "sorted (map co_timestamp xs) \<Longrightarrow> evict_time c xs = filter (\<lambda>x. c \<le> co_timestamp x) xs"
proof (induction xs)
  case (Cons x xs)
  then show ?case by (auto simp: filter_id_conv not_less intro!: filter_True[symmetric])
qed simp

lemma evict_time_suffix: "\<exists>pre. xs = pre @ evict_time c xs"
proof (induction xs)
  case (Cons x xs)
  then obtain pre where "xs = pre @ evict_time c xs" by blast
  then have "x # xs = (x # pre) @ evict_time c xs" by simp
  then show ?case by (metis append_Nil evict_time.simps(2))
qed simp

lemma evict_expired_window [simp]:
  "m_window_type (evict_expired now m) = m_window_type m"
  "m_window_size (evict_expired now m) = m_window_size m"
  "m_slow_ms (evict_expired now m) = m_slow_ms m"
  by (auto simp: evict_expired_def split: sliding_window_type.split)

lemma metrics_record_window [simp]:
  "m_window_type (metrics_record ok d ts p m) = m_window_type m"
  "m_window_size (metrics_record ok d ts p m) = m_window_size m"
  "m_slow_ms (metrics_record ok d ts p m) = m_slow_ms m"
  by (simp_all add: metrics_record_def)

lemma metrics_snapshot_snd: "snd (metrics_snapshot now m) = evict_expired now m"
  by (simp add: metrics_snapshot_def Let_def split: prod.split)

section \<open>Counting\<close>

lemma count_samples_eq:
  "count_samples xs (f, s, l) =
     (f + length (filter (\<lambda>x. \<not> co_success x \<and> co_poisons_health x) xs),
      s + length (filter co_success xs),
      l + length (filter co_is_slow xs))"
  by (induction xs arbitrary: f s l) auto

lemma snapshot_counts:
  assumes "metrics_snapshot now m = (snap, m')"
  shows "m' = evict_expired now m"
    and "total_calls snap = length (m_samples m')"
    and "failed_calls snap = length (filter (\<lambda>x. \<not> co_success x \<and> co_poisons_health x) (m_samples m'))"
    and "success_calls snap = length (filter co_success (m_samples m'))"
    and "slow_calls snap = length (filter co_is_slow (m_samples m'))"
    and "failure_rate snap = 100 * of_nat (failed_calls snap) / of_nat (total_calls snap)"
    and "slow_call_rate snap = 100 * of_nat (slow_calls snap) / of_nat (total_calls snap)"
  using assms by (auto simp: metrics_snapshot_def Let_def count_samples_eq split: if_splits)

lemma percentage_bounds:
  "k \<le> n \<Longrightarrow> 0 \<le> 100 * (of_nat k :: rat) / of_nat n \<and> 100 * (of_nat k :: rat) / of_nat n \<le> 100"
  by (cases "n = 0") (auto simp: divide_simps)

section \<open>A whole history of calls\<close>

text \<open>One recorded call: success flag, duration, clock reading, health impact.\<close>

type_synonym call = "bool \<times> rat \<times> time \<times> bool"

definition record_call :: "metrics \<Rightarrow> call \<Rightarrow> metrics" where
  "record_call m c = (case c of (ok, d, ts, p) \<Rightarrow> metrics_record ok d ts p m)"

definition outcome :: "rat \<Rightarrow> call \<Rightarrow> call_outcome" where
  "outcome slow c =
     (case c of (ok, d, ts, p) \<Rightarrow>
        \<lparr>co_success = ok, co_duration_ms = d, co_timestamp = ts, co_is_slow = (d \<ge> slow),
         co_poisons_health = p\<rparr>)"

lemma record_call_samples:
  "m_samples (record_call m c) =
     m_samples (evict_expired (fst (snd (snd c))) (m\<lparr>m_samples := m_samples m @ [outcome (m_slow_ms m) c]\<rparr>))"
  by (simp add: record_call_def metrics_record_def outcome_def split: prod.split)

lemma record_call_window [simp]:
  "m_window_type (record_call m c) = m_window_type m"
  "m_window_size (record_call m c) = m_window_size m"
  "m_slow_ms (record_call m c) = m_slow_ms m"
  by (simp_all add: record_call_def split: prod.split)

lemma run_record_window [simp]:
  "m_window_type (run record_call m cs) = m_window_type m"
  "m_window_size (run record_call m cs) = m_window_size m"
  "m_slow_ms (run record_call m cs) = m_slow_ms m"
  by (induction cs arbitrary: m) simp_all

lemma run_record_count:
  "m_window_type m = COUNT_BASED \<Longrightarrow> m_samples m = last_n (m_window_size m) hist \<Longrightarrow>
   m_samples (run record_call m cs) = last_n (m_window_size m) (hist @ map (outcome (m_slow_ms m)) cs)"
proof (induction cs arbitrary: m hist)
  case (Cons c cs)
  have "m_samples (record_call m c) = last_n (m_window_size m) (hist @ [outcome (m_slow_ms m) c])"
    using Cons.prems
    by (simp add: record_call_samples evict_expired_def evict_count_eq last_n_snoc)
  with Cons.IH [of "record_call m c" "hist @ [outcome (m_slow_ms m) c]"] Cons.prems
  show ?case by simp
qed simp

lemma run_record_time:
  assumes "m_window_type m = TIME_BASED"
    and "sorted (map co_timestamp hist @ map (\<lambda>c. fst (snd (snd c))) cs)"
    and "m_samples m = filter (\<lambda>x. t - of_nat (m_window_size m) \<le> co_timestamp x) hist"
    and "\<forall>x \<in> set hist. co_timestamp x \<le> t" and "\<forall>c \<in> set cs. t \<le> fst (snd (snd c))"
  shows "m_samples (run record_call m cs) =
     filter (\<lambda>x. (if cs = [] then t else fst (snd (snd (last cs)))) - of_nat (m_window_size m) \<le> co_timestamp x)
       (hist @ map (outcome (m_slow_ms m)) cs)"
  using assms
proof (induction cs arbitrary: m hist t)
  case (Cons c cs)
  let ?ts = "fst (snd (snd c))"
  let ?h = "hist @ [outcome (m_slow_ms m) c]"
  have ts: "co_timestamp (outcome (m_slow_ms m) c) = ?ts"
    by (simp add: outcome_def split: prod.split)
  have tle: "t \<le> ?ts" using Cons.prems(5) by simp
  have sorted_h: "sorted (map co_timestamp ?h)"
    using Cons.prems(2) by (auto simp: sorted_append ts)
  have sorted_s: "sorted (map co_timestamp (m_samples m @ [outcome (m_slow_ms m) c]))"
    using Cons.prems(3) sorted_h by (auto simp: sorted_append sorted_filter)
  have "m_samples (record_call m c) = filter (\<lambda>x. ?ts - of_nat (m_window_size m) \<le> co_timestamp x) ?h"
    using Cons.prems(1,3) tle evict_time_filter [OF sorted_s]
    by (auto simp: record_call_samples evict_expired_def ts intro!: filter_cong)
  moreover have "\<forall>x \<in> set ?h. co_timestamp x \<le> ?ts"
    using Cons.prems(4) tle ts by force
  moreover have "\<forall>c' \<in> set cs. ?ts \<le> fst (snd (snd c'))"
    using Cons.prems(2) by (auto simp: sorted_append)
  moreover have "sorted (map co_timestamp ?h @ map (\<lambda>c. fst (snd (snd c))) cs)"
    using Cons.prems(2) by (simp add: ts)
  ultimately show ?case
    using Cons.IH [of "record_call m c" ?h ?ts] Cons.prems(1) by auto
qed (auto intro: filter_cong)

end
