(* ===== verification/Breaker.thy ===== *)
theory Breaker
  imports Models Metrics
begin

text \<open>
  \<^verbatim>\<open>breaker/circuit_breaker.py\<close>, \<^verbatim>\<open>breaker/state.py\<close>, \<^verbatim>\<open>breaker/registry.py\<close> and the breaker
  synchronisation of \<^verbatim>\<open>storage/cluster.py\<close> (without a redis client).

  A breaker is a record of its fields; each method is a function of the clock reading \<open>now\<close>
  and the breaker.  A method runs under the breaker's lock, so it is one atomic step, and all
  clock reads of one call return the same value.  Raised exceptions are \<^const>\<open>Inl\<close> results;
  \<open>acquire_permission\<close> updates the breaker before it raises.  The listeners of a transition
  are observers: the model keeps the emitted events in \<open>cb_events\<close>.  The optional cluster
  store is the shared map \<open>cb_cluster\<close>; other pods change it through \<open>ClusterWrite\<close>.
  The texts of the transition reasons are a datatype with the values they print.
\<close>

datatype cb_state = CLOSED | OPEN | HALF_OPEN | FORCED_OPEN | DISABLED | METRICS_ONLY

datatype transition_reason =
    WaitElapsed time
  | RemoteTrip
  | ProbeTimeout
  | ProbesSucceeded int
  | ProbeFailed
  | FailureRateTrip rat nat nat
  | SlowRateTrip rat nat nat
  | AdminOpen | AdminClosed | AdminDisabled | ResetToClosed

record cb_config =
  failure_rate_threshold :: rat
  slow_call_rate_threshold :: rat
  slow_call_duration_ms :: rat
  minimum_number_of_calls :: nat
  sliding_window_type :: sliding_window_type
  sliding_window_size :: nat
  wait_duration_open_ms :: rat
  half_open_max_calls :: int
  max_half_open_duration_ms :: rat

record transition_event =
  ev_breaker_id :: string
  ev_from :: cb_state
  ev_to :: cb_state
  ev_timestamp :: time
  ev_reason :: transition_reason
  ev_snapshot :: metrics_report

record cluster_breaker_record =
  cbr_state :: cb_state
  cbr_error_count :: int
  cbr_trip_timestamp :: time

type_synonym cluster_breakers = "(string, cluster_breaker_record) dict"

record breaker =
  cb_id :: string
  cb_config :: cb_config
  cb_state :: cb_state
  opened_at :: time
  half_open_entered_at :: time
  half_open_in_flight :: int
  half_open_successes :: int
  cb_metrics :: metrics
  cb_cluster :: "cluster_breakers option"
  cb_events :: "transition_event list"

definition default_config :: cb_config where
  "default_config =
     \<lparr>failure_rate_threshold = 50, slow_call_rate_threshold = 100, slow_call_duration_ms = 120000,
      minimum_number_of_calls = 10, sliding_window_type = COUNT_BASED, sliding_window_size = 20,
      wait_duration_open_ms = 30000, half_open_max_calls = 2, max_half_open_duration_ms = 10000\<rparr>"

definition new_breaker :: "string \<Rightarrow> cb_config \<Rightarrow> cluster_breakers option \<Rightarrow> breaker" where
  "new_breaker breaker_id cfg cluster =
     \<lparr>cb_id = breaker_id, cb_config = cfg, cb_state = CLOSED, opened_at = 0,
      half_open_entered_at = 0, half_open_in_flight = 0, half_open_successes = 0,
      cb_metrics = metrics_init (sliding_window_type cfg) (sliding_window_size cfg) (slow_call_duration_ms cfg),
      cb_cluster = cluster, cb_events = []\<rparr>"

definition wait_seconds :: "breaker \<Rightarrow> time" where
  "wait_seconds b = wait_duration_open_ms (cb_config b) / 1000"

definition sync_breaker_state ::
  "string \<Rightarrow> cb_state \<Rightarrow> int \<Rightarrow> time \<Rightarrow> cluster_breakers \<Rightarrow> cluster_breakers" where
  "sync_breaker_state provider st errs ts c =
     AList.update provider \<lparr>cbr_state = st, cbr_error_count = errs, cbr_trip_timestamp = ts\<rparr> c"

definition get_cluster_breaker_state :: "string \<Rightarrow> cluster_breakers \<Rightarrow> cluster_breaker_record option" where
  "get_cluster_breaker_state provider c = map_of c provider"

definition emit_transition ::
  "time \<Rightarrow> cb_state \<Rightarrow> cb_state \<Rightarrow> transition_reason \<Rightarrow> breaker \<Rightarrow> breaker" where
  "emit_transition now from to reason b =
     (case metrics_snapshot now (cb_metrics b) of (snap, m) \<Rightarrow>
        b\<lparr>cb_metrics := m,
          cb_cluster := map_option (sync_breaker_state (cb_id b) to \<lfloor>failure_rate snap\<rfloor> now) (cb_cluster b),
          cb_events := cb_events b @
            [\<lparr>ev_breaker_id = cb_id b, ev_from = from, ev_to = to, ev_timestamp = now,
              ev_reason = reason, ev_snapshot = snap\<rparr>]\<rparr>)"

definition remote_open :: "breaker \<Rightarrow> bool" where
  "remote_open b =
     (case cb_cluster b of
        None \<Rightarrow> False
      | Some c \<Rightarrow> (case get_cluster_breaker_state (cb_id b) c of
                    None \<Rightarrow> False | Some r \<Rightarrow> cbr_state r = OPEN))"

definition check_and_update_state :: "time \<Rightarrow> breaker \<Rightarrow> breaker" where
  "check_and_update_state now b =
     (if cb_state b = CLOSED \<and> remote_open b
      then emit_transition now CLOSED OPEN RemoteTrip (b\<lparr>cb_state := OPEN, opened_at := now\<rparr>)
      else if cb_state b = OPEN
      then (if now \<ge> opened_at b + wait_seconds b
            then emit_transition now OPEN HALF_OPEN (WaitElapsed (wait_seconds b))
                   (b\<lparr>cb_state := HALF_OPEN, half_open_entered_at := now,
                      half_open_in_flight := 0, half_open_successes := 0\<rparr>)
            else b)
      else if cb_state b = HALF_OPEN
      then (if now - half_open_entered_at b > max_half_open_duration_ms (cb_config b) / 1000
               \<and> half_open_in_flight b = 0
            then emit_transition now HALF_OPEN OPEN ProbeTimeout (b\<lparr>cb_state := OPEN, opened_at := now\<rparr>)
            else b)
      else b)"

definition acquire_permission :: "time \<Rightarrow> breaker \<Rightarrow> bool result \<times> breaker" where
  "acquire_permission now b0 =
     (let b = check_and_update_state now b0 in
      case cb_state b of
        FORCED_OPEN \<Rightarrow> (Inl (BreakerForcedOpenError (cb_id b)), b)
      | DISABLED \<Rightarrow> (Inr True, b)
      | METRICS_ONLY \<Rightarrow> (Inr True, b)
      | CLOSED \<Rightarrow> (Inr True, b)
      | OPEN \<Rightarrow> (Inl (BreakerOpenError (cb_id b) (max 0 (opened_at b + wait_seconds b - now))), b)
      | HALF_OPEN \<Rightarrow>
          (if half_open_in_flight b \<ge> half_open_max_calls (cb_config b)
           then (Inl (ProbeAdmissionDeniedError (cb_id b)), b)
           else (Inr True, b\<lparr>half_open_in_flight := half_open_in_flight b + 1\<rparr>)))"

definition evaluate_closed_thresholds :: "time \<Rightarrow> breaker \<Rightarrow> breaker" where
  "evaluate_closed_thresholds now b =
     (if cb_state b \<noteq> CLOSED then b
      else (case metrics_snapshot now (cb_metrics b) of (snap, m) \<Rightarrow>
        let b' = b\<lparr>cb_metrics := m\<rparr>; total = total_calls snap; cfg = cb_config b in
        if total < minimum_number_of_calls cfg then b'
        else if failure_rate snap \<ge> failure_rate_threshold cfg
        then emit_transition now CLOSED OPEN (FailureRateTrip (failure_rate snap) (failed_calls snap) total)
               (b'\<lparr>cb_state := OPEN, opened_at := now\<rparr>)
        else if slow_call_rate snap \<ge> slow_call_rate_threshold cfg
        then emit_transition now CLOSED OPEN (SlowRateTrip (slow_call_rate snap) (slow_calls snap) total)
               (b'\<lparr>cb_state := OPEN, opened_at := now\<rparr>)
        else b'))"

definition record_success :: "time \<Rightarrow> rat \<Rightarrow> breaker \<Rightarrow> breaker" where
  "record_success now duration_ms b0 =
     (let b = check_and_update_state now b0 in
      if cb_state b = HALF_OPEN
      then (let b1 = b\<lparr>half_open_in_flight := max 0 (half_open_in_flight b - 1),
                       half_open_successes := half_open_successes b + 1\<rparr> in
            if half_open_successes b1 \<ge> half_open_max_calls (cb_config b1)
            then (let b2 = b1\<lparr>cb_state := CLOSED, cb_metrics := metrics_reset (cb_metrics b1),
                              half_open_in_flight := 0, half_open_successes := 0\<rparr> in
                  emit_transition now HALF_OPEN CLOSED (ProbesSucceeded (half_open_successes b2)) b2)
            else b1)
      else (let b1 = b\<lparr>cb_metrics := metrics_record True duration_ms now True (cb_metrics b)\<rparr> in
            if cb_state b1 = CLOSED then evaluate_closed_thresholds now b1 else b1))"

definition poisons :: "failure_classification option \<Rightarrow> bool" where
  "poisons fc = (case fc of None \<Rightarrow> True | Some c \<Rightarrow> fc_poisons_health c)"

definition record_failure :: "time \<Rightarrow> rat \<Rightarrow> failure_classification option \<Rightarrow> breaker \<Rightarrow> breaker" where
  "record_failure now duration_ms fc b0 =
     (let b = check_and_update_state now b0 in
      if cb_state b = HALF_OPEN
      then (let b1 = b\<lparr>half_open_in_flight := max 0 (half_open_in_flight b - 1)\<rparr> in
            if poisons fc
            then emit_transition now HALF_OPEN OPEN ProbeFailed
                   (b1\<lparr>cb_state := OPEN, opened_at := now, half_open_in_flight := 0, half_open_successes := 0\<rparr>)
            else b1)
      else (let b1 = b\<lparr>cb_metrics := metrics_record False duration_ms now (poisons fc) (cb_metrics b)\<rparr> in
            if cb_state b1 = CLOSED \<and> poisons fc then evaluate_closed_thresholds now b1 else b1))"

definition force_open :: "time \<Rightarrow> breaker \<Rightarrow> breaker" where
  "force_open now b = emit_transition now (cb_state b) FORCED_OPEN AdminOpen (b\<lparr>cb_state := FORCED_OPEN\<rparr>)"

definition force_closed :: "time \<Rightarrow> breaker \<Rightarrow> breaker" where
  "force_closed now b =
     emit_transition now (cb_state b) CLOSED AdminClosed
       (b\<lparr>cb_state := CLOSED, cb_metrics := metrics_reset (cb_metrics b)\<rparr>)"

definition disable :: "time \<Rightarrow> breaker \<Rightarrow> breaker" where
  "disable now b = emit_transition now (cb_state b) DISABLED AdminDisabled (b\<lparr>cb_state := DISABLED\<rparr>)"

definition reset :: "time \<Rightarrow> breaker \<Rightarrow> breaker" where
  "reset now b =
     (let b' = b\<lparr>cb_state := CLOSED, opened_at := 0, half_open_in_flight := 0,
                 half_open_successes := 0, cb_metrics := metrics_reset (cb_metrics b)\<rparr> in
      if cb_state b \<noteq> CLOSED then emit_transition now (cb_state b) CLOSED ResetToClosed b' else b')"

record breaker_report =
  bs_id :: string
  bs_state :: cb_state
  bs_metrics :: metrics_report
  bs_remaining_wait :: time
  bs_in_flight :: int
  bs_successes :: int

definition breaker_snapshot :: "time \<Rightarrow> breaker \<Rightarrow> breaker_report \<times> breaker" where
  "breaker_snapshot now b0 =
     (let b = check_and_update_state now b0 in
      case metrics_snapshot now (cb_metrics b) of (snap, m) \<Rightarrow>
        (\<lparr>bs_id = cb_id b, bs_state = cb_state b, bs_metrics = snap,
          bs_remaining_wait = (if cb_state b = OPEN then max 0 (opened_at b + wait_seconds b - now) else 0),
          bs_in_flight = half_open_in_flight b, bs_successes = half_open_successes b\<rparr>,
         b\<lparr>cb_metrics := m\<rparr>))"

text \<open>The calls a breaker can receive, each with the clock reading at which it runs.\<close>

datatype cb_call =
    ReadState
  | Acquire
  | RecordSuccess rat
  | RecordFailure rat "failure_classification option"
  | ForceOpen | ForceClosed | Disable | Reset
  | Snapshot
  | ClusterWrite cluster_breakers

fun cb_step :: "breaker \<Rightarrow> time \<times> cb_call \<Rightarrow> breaker" where
  "cb_step b (now, ReadState) = check_and_update_state now b"
| "cb_step b (now, Acquire) = snd (acquire_permission now b)"
| "cb_step b (now, RecordSuccess d) = record_success now d b"
| "cb_step b (now, RecordFailure d fc) = record_failure now d fc b"
| "cb_step b (now, ForceOpen) = force_open now b"
| "cb_step b (now, ForceClosed) = force_closed now b"
| "cb_step b (now, Disable) = disable now b"
| "cb_step b (now, Reset) = reset now b"
| "cb_step b (now, Snapshot) = snd (breaker_snapshot now b)"
| "cb_step b (now, ClusterWrite c) = b\<lparr>cb_cluster := map_option (\<lambda>_. c) (cb_cluster b)\<rparr>"

section \<open>The registry\<close>

record breaker_registry =
  reg_default_config :: cb_config
  reg_breakers :: "(string, breaker) dict"

definition registry_get_or_create ::
  "string \<Rightarrow> cb_config option \<Rightarrow> breaker_registry \<Rightarrow> breaker \<times> breaker_registry" where
  "registry_get_or_create breaker_id config r =
     (case map_of (reg_breakers r) breaker_id of
        Some b \<Rightarrow> (b, r)
      | None \<Rightarrow>
          (let cfg = (case config of None \<Rightarrow> reg_default_config r | Some c \<Rightarrow> c);
               b = new_breaker breaker_id cfg None
           in (b, r\<lparr>reg_breakers := AList.update breaker_id b (reg_breakers r)\<rparr>)))"

definition registry_get :: "string \<Rightarrow> breaker_registry \<Rightarrow> breaker option" where
  "registry_get breaker_id r = map_of (reg_breakers r) breaker_id"

definition registry_reset_all :: "time \<Rightarrow> breaker_registry \<Rightarrow> breaker_registry" where
  "registry_reset_all now r = r\<lparr>reg_breakers := map (\<lambda>(k, b). (k, reset now b)) (reg_breakers r)\<rparr>"

text \<open>A caller keeps a reference to the breaker it fetched; its method calls act on the registry.\<close>

definition registry_put :: "string \<Rightarrow> breaker \<Rightarrow> breaker_registry \<Rightarrow> breaker_registry" where
  "registry_put breaker_id b r = r\<lparr>reg_breakers := AList.update breaker_id b (reg_breakers r)\<rparr>"

section \<open>What the breaker promises\<close>

text \<open>The bound on the probe permits, and the success count of an unfinished probe phase.\<close>

definition permits_bounded :: "breaker \<Rightarrow> bool" where
  "permits_bounded b \<longleftrightarrow>
     0 \<le> half_open_in_flight b \<and> half_open_in_flight b \<le> max 0 (half_open_max_calls (cb_config b)) \<and>
     (cb_state b = HALF_OPEN \<longrightarrow>
        0 \<le> half_open_successes b \<and> half_open_successes b < max 1 (half_open_max_calls (cb_config b)))"

text \<open>The six-state machine: which transition may be taken for which reason.\<close>

inductive fsm :: "cb_state \<Rightarrow> transition_reason \<Rightarrow> cb_state \<Rightarrow> bool" where
  remote_trip: "fsm CLOSED RemoteTrip OPEN"
| failure_trip: "fsm CLOSED (FailureRateTrip r f n) OPEN"
| slow_trip: "fsm CLOSED (SlowRateTrip r f n) OPEN"
| wait_elapsed: "fsm OPEN (WaitElapsed w) HALF_OPEN"
| probe_timeout: "fsm HALF_OPEN ProbeTimeout OPEN"
| probe_failed: "fsm HALF_OPEN ProbeFailed OPEN"
| probes_succeeded: "fsm HALF_OPEN (ProbesSucceeded k) CLOSED"
| admin_open: "fsm s AdminOpen FORCED_OPEN"
| admin_closed: "fsm s AdminClosed CLOSED"
| admin_disabled: "fsm s AdminDisabled DISABLED"
| admin_reset: "s \<noteq> CLOSED \<Longrightarrow> fsm s ResetToClosed CLOSED"

code_pred fsm .

inductive_simps fsm_to_half_open: "fsm s r HALF_OPEN"
inductive_cases fsm_from_forced_open: "fsm FORCED_OPEN r t"

fun fsm_path :: "cb_state \<Rightarrow> transition_event list \<Rightarrow> cb_state \<Rightarrow> bool" where
  "fsm_path s [] t = (s = t)"
| "fsm_path s (e # es) t = (ev_from e = s \<and> fsm s (ev_reason e) (ev_to e) \<and> fsm_path (ev_to e) es t)"

definition log_extends :: "breaker \<Rightarrow> breaker \<Rightarrow> bool" where
  "log_extends b b' \<longleftrightarrow>
     (\<exists>evs. cb_events b' = cb_events b @ evs \<and> fsm_path (cb_state b) evs (cb_state b'))"

text \<open>The calls that neither complete an upstream call nor administrate the breaker.\<close>

fun passive_call :: "time \<times> cb_call \<Rightarrow> bool" where
  "passive_call (now, ReadState) = True"
| "passive_call (now, Acquire) = True"
| "passive_call (now, Snapshot) = True"
| "passive_call (now, ClusterWrite c) = True"
| "passive_call _ = False"

fun admin_call :: "time \<times> cb_call \<Rightarrow> bool" where
  "admin_call (now, ForceOpen) = True"
| "admin_call (now, ForceClosed) = True"
| "admin_call (now, Disable) = True"
| "admin_call (now, Reset) = True"
| "admin_call _ = False"

text \<open>A concrete breaker for the witnesses: three calls admitted while CLOSED, one of which trips it.\<close>

definition stale_config :: cb_config where
  "stale_config = default_config\<lparr>minimum_number_of_calls := 1\<rparr>"

definition neutral_failure :: failure_classification where
  "neutral_failure =
     \<lparr>fc_category = REQUEST_INCOMPATIBILITY, fc_reason = R_payload_too_large, fc_should_fallback = True,
      fc_retryable = False, fc_poisons_health = False, fc_is_permanent = False, fc_status_code = Some 413,
      fc_retry_after_seconds = None, fc_message = [], fc_token_limit = None, fc_account_wide = False\<rparr>"

definition stale_breaker :: breaker where
  "stale_breaker = run cb_step (new_breaker ''b'' stale_config None)
     [(0, Acquire), (0, Acquire), (0, Acquire), (1, RecordFailure 5 None)]"

section \<open>Frame lemmas\<close>

lemma emit_transition_frame [simp]:
  "cb_id (emit_transition now f t r b) = cb_id b"
  "cb_config (emit_transition now f t r b) = cb_config b"
  "cb_state (emit_transition now f t r b) = cb_state b"
  "opened_at (emit_transition now f t r b) = opened_at b"
  "half_open_entered_at (emit_transition now f t r b) = half_open_entered_at b"
  "half_open_in_flight (emit_transition now f t r b) = half_open_in_flight b"
  "half_open_successes (emit_transition now f t r b) = half_open_successes b"
  "cb_metrics (emit_transition now f t r b) = evict_expired now (cb_metrics b)"
  by (simp_all add: emit_transition_def metrics_snapshot_snd split: prod.split)
    (metis metrics_snapshot_snd snd_conv)

lemma emit_transition_path:
  "fsm f r t \<Longrightarrow>
   \<exists>evs. cb_events (emit_transition now f t r b) = cb_events b @ evs \<and> fsm_path f evs t"
  by (simp add: emit_transition_def split: prod.split)

lemma check_config [simp]: "cb_config (check_and_update_state now b) = cb_config b"
  by (simp add: check_and_update_state_def)

lemma evaluate_config [simp]: "cb_config (evaluate_closed_thresholds now b) = cb_config b"
  by (simp add: evaluate_closed_thresholds_def Let_def split: prod.split)

lemma acquire_config [simp]: "cb_config (snd (acquire_permission now b)) = cb_config b"
  by (simp add: acquire_permission_def Let_def split: cb_state.split)

lemma record_success_config [simp]: "cb_config (record_success now d b) = cb_config b"
  by (simp add: record_success_def Let_def)

lemma record_failure_config [simp]: "cb_config (record_failure now d fc b) = cb_config b"
  by (simp add: record_failure_def Let_def)

lemma admin_config [simp]:
  "cb_config (force_open now b) = cb_config b" "cb_config (force_closed now b) = cb_config b"
  "cb_config (disable now b) = cb_config b" "cb_config (reset now b) = cb_config b"
  by (simp_all add: force_open_def force_closed_def disable_def reset_def Let_def)

lemma snapshot_config [simp]: "cb_config (snd (breaker_snapshot now b)) = cb_config b"
  by (simp add: breaker_snapshot_def Let_def split: prod.split)

lemma cb_step_config [simp]: "cb_config (cb_step b e) = cb_config b"
  by (cases "(b, e)" rule: cb_step.cases) simp_all

lemma run_cb_config [simp]: "cb_config (run cb_step b es) = cb_config b"
  by (induction es arbitrary: b) simp_all

section \<open>The permit invariant\<close>

lemma check_permits: "permits_bounded b \<Longrightarrow> permits_bounded (check_and_update_state now b)"
  by (auto simp: permits_bounded_def check_and_update_state_def)

lemma evaluate_permits: "permits_bounded b \<Longrightarrow> permits_bounded (evaluate_closed_thresholds now b)"
  by (auto simp: permits_bounded_def evaluate_closed_thresholds_def Let_def split: prod.splits)

lemma acquire_permits: "permits_bounded b \<Longrightarrow> permits_bounded (snd (acquire_permission now b))"
  using check_permits [of b now]
  by (auto simp: permits_bounded_def acquire_permission_def Let_def split: cb_state.splits)

lemma record_success_permits:
  assumes "permits_bounded b"
  shows "permits_bounded (record_success now d b)"
proof -
  let ?b = "check_and_update_state now b"
  have inv: "permits_bounded ?b" using assms by (rule check_permits)
  show ?thesis
  proof (cases "cb_state ?b = HALF_OPEN")
    case True
    with inv show ?thesis by (auto simp: record_success_def permits_bounded_def Let_def)
  next
    case False
    with inv show ?thesis
      by (auto simp: record_success_def Let_def intro!: evaluate_permits) (simp_all add: permits_bounded_def)
  qed
qed

lemma record_failure_permits:
  assumes "permits_bounded b"
  shows "permits_bounded (record_failure now d fc b)"
proof -
  let ?b = "check_and_update_state now b"
  have inv: "permits_bounded ?b" using assms by (rule check_permits)
  show ?thesis
  proof (cases "cb_state ?b = HALF_OPEN")
    case True
    with inv show ?thesis by (auto simp: record_failure_def permits_bounded_def Let_def)
  next
    case False
    with inv show ?thesis
      by (auto simp: record_failure_def Let_def intro!: evaluate_permits) (simp_all add: permits_bounded_def)
  qed
qed

lemma admin_permits:
  assumes "permits_bounded b"
  shows "permits_bounded (force_open now b)" "permits_bounded (force_closed now b)"
    "permits_bounded (disable now b)" "permits_bounded (reset now b)"
  using assms
  by (auto simp: permits_bounded_def force_open_def force_closed_def disable_def reset_def Let_def)

lemma snapshot_permits: "permits_bounded b \<Longrightarrow> permits_bounded (snd (breaker_snapshot now b))"
  using check_permits [of b now]
  by (auto simp: breaker_snapshot_def permits_bounded_def Let_def split: prod.split)

lemma cb_step_permits: "permits_bounded b \<Longrightarrow> permits_bounded (cb_step b e)"
  by (cases "(b, e)" rule: cb_step.cases)
    (simp_all add: check_permits acquire_permits record_success_permits record_failure_permits
      admin_permits snapshot_permits, simp add: permits_bounded_def)

section \<open>The event log is a path of the state machine\<close>

lemma fsm_path_append: "fsm_path s xs t \<Longrightarrow> fsm_path t ys u \<Longrightarrow> fsm_path s (xs @ ys) u"
  by (induction xs arbitrary: s) auto

lemma log_extends_refl: "log_extends b b"
  by (auto simp: log_extends_def)

lemma log_extends_trans: "log_extends a b \<Longrightarrow> log_extends b c \<Longrightarrow> log_extends a c"
  unfolding log_extends_def by (metis append_assoc fsm_path_append)

lemma log_extends_emit:
  assumes "fsm f r t" "cb_state b = f" "cb_events b' = cb_events b" "cb_state b' = t"
  shows "log_extends b (emit_transition now f t r b')"
  using emit_transition_path [OF assms(1), of now b'] assms(2-4) by (simp add: log_extends_def)

lemma log_extends_silent:
  "cb_events b' = cb_events b \<Longrightarrow> cb_state b' = cb_state b \<Longrightarrow> log_extends b b'"
  by (simp add: log_extends_def)

lemma check_log: "log_extends b (check_and_update_state now b)"
  by (auto simp: check_and_update_state_def intro: log_extends_refl log_extends_emit fsm.intros)

lemma evaluate_log: "log_extends b (evaluate_closed_thresholds now b)"
  by (auto simp: evaluate_closed_thresholds_def Let_def split: prod.split
      intro!: log_extends_emit fsm.intros intro: log_extends_refl log_extends_silent)

lemma acquire_log: "log_extends b (snd (acquire_permission now b))"
  using check_log [of b now]
  by (auto simp: acquire_permission_def Let_def split: cb_state.split
      elim!: log_extends_trans intro: log_extends_silent)

lemma evaluate_log_record:
  "log_extends b (evaluate_closed_thresholds now (b\<lparr>cb_metrics := m\<rparr>))"
  using evaluate_log [of "b\<lparr>cb_metrics := m\<rparr>" now] by (simp add: log_extends_def)

lemma record_success_log: "log_extends b (record_success now d b)"
  by (rule log_extends_trans [OF check_log [of b now]])
    (auto simp: record_success_def Let_def
      intro!: log_extends_emit fsm.intros evaluate_log_record intro: log_extends_silent)

lemma record_failure_log: "log_extends b (record_failure now d fc b)"
  by (rule log_extends_trans [OF check_log [of b now]])
    (auto simp: record_failure_def Let_def
      intro!: log_extends_emit fsm.intros evaluate_log_record intro: log_extends_silent)

lemma admin_log:
  "log_extends b (force_open now b)" "log_extends b (force_closed now b)"
  "log_extends b (disable now b)" "log_extends b (reset now b)"
  by (auto simp: force_open_def force_closed_def disable_def reset_def Let_def
      intro!: log_extends_emit fsm.intros intro: log_extends_silent)

lemma snapshot_log: "log_extends b (snd (breaker_snapshot now b))"
  by (rule log_extends_trans [OF check_log [of b now]])
    (auto simp: breaker_snapshot_def Let_def split: prod.split intro: log_extends_silent)

lemma cb_step_log: "log_extends b (cb_step b e)"
  by (cases "(b, e)" rule: cb_step.cases)
    (simp_all add: check_log acquire_log record_success_log record_failure_log admin_log snapshot_log
      log_extends_silent)

interpretation cb: step_order cb_step "\<lambda>_. True" permits_bounded log_extends
  by unfold_locales (auto intro: cb_step_permits log_extends_refl cb_step_log elim: log_extends_trans)

lemma new_breaker_permits: "permits_bounded (new_breaker i cfg c)"
  by (simp add: permits_bounded_def new_breaker_def)

lemma list_all_True [simp]: "list_all (\<lambda>_. True) xs"
  by (induction xs) simp_all

section \<open>Behaviour of the single states\<close>

lemma check_half_open_busy:
  "cb_state b = HALF_OPEN \<Longrightarrow> 0 < half_open_in_flight b \<Longrightarrow> check_and_update_state now b = b"
  by (simp add: check_and_update_state_def)

lemma check_forced_open: "cb_state b = FORCED_OPEN \<Longrightarrow> check_and_update_state now b = b"
  by (simp add: check_and_update_state_def)

lemma check_closed_local:
  "cb_state b = CLOSED \<Longrightarrow> \<not> remote_open b \<Longrightarrow> check_and_update_state now b = b"
  by (simp add: check_and_update_state_def)

lemma check_open_elapsed:
  assumes "cb_state b = OPEN" and "opened_at b + wait_seconds b \<le> now"
  shows "cb_state (check_and_update_state now b) = HALF_OPEN"
    and "half_open_in_flight (check_and_update_state now b) = 0"
    and "half_open_successes (check_and_update_state now b) = 0"
  using assms by (simp_all add: check_and_update_state_def)

lemma acquires_half_open:
  assumes "cb_state b = HALF_OPEN" and "0 < half_open_in_flight b"
    and "half_open_in_flight b + int (length ts) \<le> half_open_max_calls (cb_config b)"
  shows "cb_state (run cb_step b (map (\<lambda>t. (t, Acquire)) ts)) = HALF_OPEN"
    and "half_open_in_flight (run cb_step b (map (\<lambda>t. (t, Acquire)) ts)) = half_open_in_flight b + int (length ts)"
    and "half_open_successes (run cb_step b (map (\<lambda>t. (t, Acquire)) ts)) = half_open_successes b"
  using assms
  by (induction ts arbitrary: b) (simp_all add: acquire_permission_def check_half_open_busy)

lemma successes_half_open:
  assumes "cb_state b = HALF_OPEN" and "half_open_in_flight b = int (length ds)" and "ds \<noteq> []"
    and "half_open_successes b + int (length ds) = half_open_max_calls (cb_config b)"
  shows "cb_state (run cb_step b (map (\<lambda>(t, d). (t, RecordSuccess d)) ds)) = CLOSED
    \<and> m_samples (cb_metrics (run cb_step b (map (\<lambda>(t, d). (t, RecordSuccess d)) ds))) = []"
  using assms
proof (induction ds arbitrary: b)
  case (Cons x ds)
  obtain t d where x: "x = (t, d)" by (cases x)
  have busy: "check_and_update_state t b = b"
    using Cons.prems(1,2) by (intro check_half_open_busy) simp_all
  show ?case
  proof (cases "ds = []")
    case True
    with Cons.prems x busy show ?thesis
      by (simp add: record_success_def evict_expired_def metrics_reset_def split: sliding_window_type.split)
  next
    case False
    then have "1 \<le> int (length ds)" by (cases ds) simp_all
    with Cons.prems x busy have "cb_step b (t, RecordSuccess d) =
        b\<lparr>half_open_in_flight := int (length ds), half_open_successes := half_open_successes b + 1\<rparr>"
      by (simp add: record_success_def Let_def)
    with Cons.IH [of "cb_step b (t, RecordSuccess d)"] Cons.prems False x show ?thesis by simp
  qed
qed simp

lemma evict_expired_idem [simp]: "evict_expired now (evict_expired now m) = evict_expired now m"
proof -
  have "evict_time c (evict_time c xs) = evict_time c xs" for c and xs :: "call_outcome list"
    by (induction xs) auto
  then show ?thesis
    by (auto simp: evict_expired_def evict_count_eq split: sliding_window_type.split)
qed

lemma evict_expired_record [simp]:
  "evict_expired now (metrics_record ok d now p m) = metrics_record ok d now p m"
  by (simp add: metrics_record_def)

lemma evaluate_trips_iff:
  assumes "cb_state b = CLOSED" and "evict_expired now (cb_metrics b) = cb_metrics b"
  defines "w \<equiv> m_samples (cb_metrics b)"
  shows "cb_state (evaluate_closed_thresholds now b) =
    (if minimum_number_of_calls (cb_config b) \<le> length w \<and>
        (failure_rate_threshold (cb_config b)
           \<le> 100 * of_nat (length (filter (\<lambda>x. \<not> co_success x \<and> co_poisons_health x) w)) / of_nat (length w) \<or>
         slow_call_rate_threshold (cb_config b)
           \<le> 100 * of_nat (length (filter co_is_slow w)) / of_nat (length w))
     then OPEN else CLOSED)"
proof -
  obtain snap m' where s: "metrics_snapshot now (cb_metrics b) = (snap, m')"
    by (cases "metrics_snapshot now (cb_metrics b)")
  from snapshot_counts [OF s] assms(2) have
    "total_calls snap = length w"
    "failure_rate snap = 100 * of_nat (length (filter (\<lambda>x. \<not> co_success x \<and> co_poisons_health x) w)) / of_nat (length w)"
    "slow_call_rate snap = 100 * of_nat (length (filter co_is_slow w)) / of_nat (length w)"
    by (simp_all add: w_def)
  with assms(1) s show ?thesis
    by (auto simp: evaluate_closed_thresholds_def Let_def)
qed

section \<open>Properties\<close>

text \<open>
  C10: after any sequence of calls on a new breaker, at any clock readings and under any writes of
  other pods to the cluster store, the number of probe permits in flight is never negative and
  never exceeds \<open>half_open_max_calls\<close>.
\<close>

theorem breaker_probe_permits_bounded:
  "let b = run cb_step (new_breaker i cfg cl) es
   in 0 \<le> half_open_in_flight b \<and> half_open_in_flight b \<le> max 0 (half_open_max_calls cfg)"
  using cb.run_inv [OF new_breaker_permits, of es i cfg cl]
  by (simp add: permits_bounded_def Let_def) (simp add: new_breaker_def)

text \<open>
  The emitted transition events of a breaker always form a path of the six-state machine from
  CLOSED to the present state: every change of state is announced, with a reason that allows it.
\<close>

theorem breaker_log_is_fsm_path:
  "let b = run cb_step (new_breaker i cfg cl) es in fsm_path CLOSED (cb_events b) (cb_state b)"
  using cb.run_le [OF new_breaker_permits, of es i cfg cl]
  by (auto simp: log_extends_def new_breaker_def Let_def)

text \<open>
  An OPEN breaker rejects a call, with the remaining wait, until the wait duration has passed;
  from then on it admits the call as a probe (unless no probes are configured) and counts it.
\<close>

theorem open_admits_after_wait:
  assumes "cb_state b = OPEN"
  shows "let h = check_and_update_state now b in
    acquire_permission now b =
     (if now < opened_at b + wait_seconds b
      then (Inl (BreakerOpenError (cb_id b) (opened_at b + wait_seconds b - now)), b)
      else if half_open_max_calls (cb_config b) \<le> 0 then (Inl (ProbeAdmissionDeniedError (cb_id b)), h)
      else (Inr True, h\<lparr>half_open_in_flight := 1\<rparr>)) \<and>
    cb_state h = (if now < opened_at b + wait_seconds b then OPEN else HALF_OPEN)"
proof -
  have "cb_id (check_and_update_state now b) = cb_id b"
    by (simp add: check_and_update_state_def)
  moreover have "now < opened_at b + wait_seconds b \<Longrightarrow> check_and_update_state now b = b"
    using assms by (simp add: check_and_update_state_def)
  ultimately show ?thesis
    using assms check_open_elapsed [OF assms, of now]
    by (auto simp: acquire_permission_def Let_def not_less)
qed

theorem open_admits_after_wait_witness:
  "cb_state stale_breaker = OPEN \<and>
   fst (acquire_permission 5 stale_breaker) = Inl (BreakerOpenError ''b'' 26) \<and>
   fst (acquire_permission 31 stale_breaker) = Inr True"
proof -
  have h: "cb_state stale_breaker = OPEN" by code_simp
  have v: "opened_at stale_breaker = 1" "wait_seconds stale_breaker = 30" "cb_id stale_breaker = ''b''"
    "half_open_max_calls (cb_config stale_breaker) = 2" by code_simp+
  show ?thesis
    using h v open_admits_after_wait [OF h, of 5] open_admits_after_wait [OF h, of 31]
    by (simp add: Let_def)
qed

text \<open>
  A CLOSED breaker trips on a health-poisoning failure exactly when its window, with the
  failure in it, has the minimum number of calls and reaches the failure or slow-call threshold;
  a failure that does not poison health never trips it.
\<close>

theorem closed_trips_iff_threshold:
  assumes "cb_state b = CLOSED" and "\<not> remote_open b"
  shows "let w = m_samples (metrics_record False d now (poisons fc) (cb_metrics b)) in
    cb_state (record_failure now d fc b) =
    (if poisons fc \<and> minimum_number_of_calls (cb_config b) \<le> length w \<and>
        (failure_rate_threshold (cb_config b)
           \<le> 100 * of_nat (length (filter (\<lambda>x. \<not> co_success x \<and> co_poisons_health x) w)) / of_nat (length w) \<or>
         slow_call_rate_threshold (cb_config b)
           \<le> 100 * of_nat (length (filter co_is_slow w)) / of_nat (length w))
     then OPEN else CLOSED)"
  using assms(1,2)
    evaluate_trips_iff [of "b\<lparr>cb_metrics := metrics_record False d now (poisons fc) (cb_metrics b)\<rparr>" now]
  by (cases "poisons fc") (simp_all add: record_failure_def check_closed_local Let_def)

theorem closed_trips_iff_threshold_witness:
  "cb_state (record_failure 1 5 None (new_breaker ''b'' stale_config None)) = OPEN \<and>
   cb_state (record_failure 1 5 (Some neutral_failure) (new_breaker ''b'' stale_config None)) = CLOSED"
proof -
  let ?b = "new_breaker ''b'' stale_config None"
  have h: "cb_state ?b = CLOSED" "\<not> remote_open ?b" by code_simp+
  have v: "m_samples (metrics_record False 5 1 (poisons None) (cb_metrics ?b)) =
      [\<lparr>co_success = False, co_duration_ms = 5, co_timestamp = 1, co_is_slow = False, co_poisons_health = True\<rparr>]"
    "poisons None" "\<not> poisons (Some neutral_failure)" "minimum_number_of_calls (cb_config ?b) = 1"
    "failure_rate_threshold (cb_config ?b) = 50" by code_simp+
  show ?thesis
    using v closed_trips_iff_threshold [OF h, of 5 1 None]
      closed_trips_iff_threshold [OF h, of 5 1 "Some neutral_failure"]
    by (simp add: Let_def)
qed

text \<open>
  C11: recovery. Once the wait of an OPEN breaker is over, \<open>half_open_max_calls\<close> admitted probes
  that all succeed, at whatever times, close the breaker and leave it with an empty window.
\<close>

theorem probes_close_breaker:
  assumes "cb_state b = OPEN" and "opened_at b + wait_seconds b \<le> t"
    and "half_open_max_calls (cb_config b) = int (length ds)" and "length ds = Suc (length ts)"
  shows "let b' = run cb_step b (map (\<lambda>t. (t, Acquire)) (t # ts) @ map (\<lambda>(t, d). (t, RecordSuccess d)) ds)
    in cb_state b' = CLOSED \<and> m_samples (cb_metrics b') = []"
proof -
  let ?b1 = "cb_step b (t, Acquire)"
  let ?b2 = "run cb_step ?b1 (map (\<lambda>t. (t, Acquire)) ts)"
  have b1: "cb_state ?b1 = HALF_OPEN" "half_open_in_flight ?b1 = 1" "half_open_successes ?b1 = 0"
    using assms check_open_elapsed [OF assms(1,2)] by (simp_all add: acquire_permission_def)
  have b2: "cb_state ?b2 = HALF_OPEN" "half_open_in_flight ?b2 = int (length ds)" "half_open_successes ?b2 = 0"
    using acquires_half_open [of ?b1 ts] b1 assms(3,4) by simp_all
  have "ds \<noteq> []" using assms(4) by auto
  then show ?thesis
    using successes_half_open [of ?b2 ds] b2 assms(3,4) by (simp add: run_append)
qed

theorem probes_close_breaker_witness:
  "cb_state (run cb_step stale_breaker
     [(31, Acquire), (40, Acquire), (50, RecordSuccess 7), (60, RecordSuccess 8)]) = CLOSED"
proof -
  have h: "cb_state stale_breaker = OPEN" "opened_at stale_breaker + wait_seconds stale_breaker \<le> 31"
    "half_open_max_calls (cb_config stale_breaker) = int (length [(50, 7), (60, 8 :: rat)])"
    "length [(50, 7), (60, 8 :: rat)] = Suc (length [40 :: rat])" by code_simp+
  show ?thesis using probes_close_breaker [OF h] by (simp add: Let_def)
qed

text \<open>
  Probe permits that are never given back hold the breaker in HALF_OPEN for ever. With all
  permits taken, no reading of the clock, poll or admission request changes the state, and every
  admission is denied: the half-open timeout does not apply while permits are in flight.
\<close>

theorem leaked_permits_block_forever:
  assumes "cb_state b = HALF_OPEN" and "0 < half_open_in_flight b"
    and "half_open_max_calls (cb_config b) \<le> half_open_in_flight b" and "list_all passive_call es"
  shows "cb_state (run cb_step b es) = HALF_OPEN
    \<and> fst (acquire_permission now (run cb_step b es)) = Inl (ProbeAdmissionDeniedError (cb_id b))"
  using assms
proof (induction es arbitrary: b)
  case Nil
  then show ?case by (simp add: acquire_permission_def check_half_open_busy)
next
  case (Cons e es)
  have "cb_state (cb_step b e) = HALF_OPEN \<and> half_open_in_flight (cb_step b e) = half_open_in_flight b
      \<and> cb_id (cb_step b e) = cb_id b"
    using Cons.prems
    by (cases e rule: passive_call.cases)
      (auto simp: acquire_permission_def breaker_snapshot_def check_half_open_busy split: prod.split)
  with Cons.IH [of "cb_step b e"] Cons.prems show ?case by simp
qed

theorem leaked_permits_block_forever_witness:
  "let b = run cb_step stale_breaker [(31, Acquire), (31, Acquire)] in
   cb_state (run cb_step b [(1000, ReadState), (2000, Acquire)]) = HALF_OPEN \<and>
   fst (acquire_permission 1000000 (run cb_step b [(1000, ReadState), (2000, Acquire)]))
     = Inl (ProbeAdmissionDeniedError ''b'')"
proof -
  let ?b = "run cb_step stale_breaker [(31, Acquire), (31, Acquire)]"
  have h: "cb_state ?b = HALF_OPEN" "0 < half_open_in_flight ?b"
    "half_open_max_calls (cb_config ?b) \<le> half_open_in_flight ?b"
    "list_all passive_call [(1000, ReadState), (2000, Acquire)]" and i: "cb_id ?b = ''b''" by code_simp+
  show ?thesis using leaked_permits_block_forever [OF h, of 1000000] i by (simp add: Let_def)
qed

text \<open>
  The permit counter bounds what it counts, not the probes outstanding. A call admitted while
  the breaker was CLOSED and completed with a health-neutral failure during the probe phase
  returns a permit it never took: with two permits configured, three probes are admitted and none
  of them has finished; and two such late successes close the breaker with no probe at all.
\<close>

theorem stale_completions_bypass_permits:
  "fst (acquire_permission 33 (run cb_step stale_breaker
      [(31, Acquire), (32, Acquire), (33, RecordFailure 5 (Some neutral_failure))])) = Inr True \<and>
   cb_state (run cb_step stale_breaker [(31, RecordSuccess 5), (32, RecordSuccess 5)]) = CLOSED"
  by code_simp

end
