(* ===== verification/Json.thy ===== *)
theory Json
  imports Prelude "HOL-Library.Char_ord" "HOL-Library.List_Lexorder"
begin

text \<open>
  JSON values as the sources pass them around, and the two uses the gateway makes of
  \<^verbatim>\<open>json.dumps(value, sort_keys=True, ensure_ascii=False)\<close>: as the input of a digest and as the
  text whose length is estimated.  Strings are sequences of 8-bit characters (the UTF-8 bytes).
  The printing of a float and SHA-256 are parameters (\<open>float_repr\<close>, \<open>sha256\<close>).

  Lemma \<open>dumps_sorted_order\<close>: the printed text does not depend on the order of the keys of an
  object, so neither does a digest of it.
\<close>

datatype json =
    JNull
  | JBool bool
  | JInt int
  | JFloat rat
  | JStr string
  | JArr "json list"
  | JObj "(string \<times> json) list"

text \<open>Python truth value of a parsed JSON value.\<close>

fun truthy_json :: "json \<Rightarrow> bool" where
  "truthy_json JNull = False"
| "truthy_json (JBool b) = b"
| "truthy_json (JInt i) = (i \<noteq> 0)"
| "truthy_json (JFloat r) = (r \<noteq> 0)"
| "truthy_json (JStr s) = (s \<noteq> [])"
| "truthy_json (JArr xs) = (xs \<noteq> [])"
| "truthy_json (JObj kvs) = (kvs \<noteq> [])"

definition hex_digit :: "nat \<Rightarrow> char" where
  "hex_digit n = char_of (if n < 10 then 48 + n else 87 + n)"

definition escape_char :: "char \<Rightarrow> string" where
  "escape_char c =
     (let n = (of_char c :: nat); bs = char_of (92 :: nat) in
      if n = 34 then [bs, c]
      else if n = 92 then [bs, bs]
      else if n = 10 then [bs, CHR ''n'']
      else if n = 13 then [bs, CHR ''r'']
      else if n = 9 then [bs, CHR ''t'']
      else if n = 8 then [bs, CHR ''b'']
      else if n = 12 then [bs, CHR ''f'']
      else if n < 32 then bs # ''u00'' @ [hex_digit (n div 16), hex_digit (n mod 16)]
      else [c])"

definition quote :: "string \<Rightarrow> string" where
  "quote s = (let q = char_of (34 :: nat) in q # concat (map escape_char s) @ [q])"

fun join :: "string \<Rightarrow> string list \<Rightarrow> string" where
  "join sep [] = []"
| "join sep [x] = x"
| "join sep (x # xs) = x @ sep @ join sep xs"

text \<open>\<open>separators=(item, key)\<close>; the default ones are a comma and a colon, each with a space.\<close>

fun dumps_sep :: "string \<Rightarrow> string \<Rightarrow> (rat \<Rightarrow> string) \<Rightarrow> json \<Rightarrow> string" where
  "dumps_sep si sk fr JNull = ''null''"
| "dumps_sep si sk fr (JBool b) = (if b then ''true'' else ''false'')"
| "dumps_sep si sk fr (JInt i) = str_of_int i"
| "dumps_sep si sk fr (JFloat r) = fr r"
| "dumps_sep si sk fr (JStr s) = quote s"
| "dumps_sep si sk fr (JArr xs) = ''['' @ join si (map (dumps_sep si sk fr) xs) @ '']''"
| "dumps_sep si sk fr (JObj kvs) =
     ''{'' @ join si (map (\<lambda>(k, v). quote k @ sk @ dumps_sep si sk fr v) kvs) @ ''}''"

definition dumps :: "(rat \<Rightarrow> string) \<Rightarrow> json \<Rightarrow> string" where
  "dumps = dumps_sep '', '' '': ''"

text \<open>\<open>sort_keys=True\<close> at every level.\<close>

fun canon :: "json \<Rightarrow> json" where
  "canon (JArr xs) = JArr (map canon xs)"
| "canon (JObj kvs) = JObj (sort_key fst (map (\<lambda>(k, v). (k, canon v)) kvs))"
| "canon j = j"

text \<open>\<open>separators=(",", ":")\<close> with sorted keys: the encoding the continuation protocol digests.\<close>

definition dumps_compact :: "(rat \<Rightarrow> string) \<Rightarrow> json \<Rightarrow> string" where
  "dumps_compact fr j = dumps_sep '','' '':'' fr (canon j)"

definition dumps_sorted :: "(rat \<Rightarrow> string) \<Rightarrow> json \<Rightarrow> string" where
  "dumps_sorted fr j = dumps fr (canon j)"

lemma sort_key_fst_cong:
  assumes "distinct (map fst xs)" and "distinct (map fst ys)" and "set xs = set ys"
  shows "sort_key fst xs = sort_key fst ys"
proof (rule map_sorted_distinct_set_unique [where f = fst])
  show "inj_on fst (set (sort_key fst xs) \<union> set (sort_key fst ys))"
    using assms by (simp add: distinct_map)
  show "distinct (map fst (sort_key fst xs))" "distinct (map fst (sort_key fst ys))"
    using assms by (simp_all add: distinct_map)
qed (use assms in simp_all)

lemma canon_obj_order:
  assumes "distinct (map fst kvs)" and "distinct (map fst kvs')" and "set kvs = set kvs'"
  shows "canon (JObj kvs) = canon (JObj kvs')"
  using assms sort_key_fst_cong [of "map (\<lambda>(k, v). (k, canon v)) kvs" "map (\<lambda>(k, v). (k, canon v)) kvs'"]
  by simp

lemma dumps_sorted_order:
  "distinct (map fst kvs) \<Longrightarrow> distinct (map fst kvs') \<Longrightarrow> set kvs = set kvs' \<Longrightarrow>
   dumps_sorted fr (JObj kvs) = dumps_sorted fr (JObj kvs')"
  using canon_obj_order [of kvs kvs'] by (simp add: dumps_sorted_def del: canon.simps)

end
