(* ===== verification/ToolLedger.thy ===== *)
theory ToolLedger
  imports Json Errors Metrics
begin

text \<open>
  \<^verbatim>\<open>agent/idempotency.py\<close>: the in-memory tool execution ledger.

  The ledger keeps one record per tool call id and one receipt per operation key
  \<open>logical_operation_id:tool_name:arguments_hash\<close>, both in insertion order.  Registration and
  commit evict expired entries from the old end and then the oldest beyond \<open>max_records\<close>.
  \<open>now\<close> is the ledger's clock, \<open>wall\<close> a reading of \<open>time.time()\<close> that only
  goes into \<open>updated_at\<close>.  A time-to-live of \<open>None\<close> is the source's \<open>float("inf")\<close>.

  The lemmas show the memory bound, that a committed receipt is found again under the same
  operation within its time-to-live, that lookups never confuse operations whose tool names
  carry no colon, and what the indeterminacy check reports.
\<close>

datatype tool_status =
    PROPOSED | VALIDATED | SUBMITTED | COMMITTED | INDETERMINATE | AMBIGUOUS | FAILED | REPLAYED

record digest_env =
  sha256 :: "string \<Rightarrow> string"
  float_repr :: "rat \<Rightarrow> string"

record tool_record =
  tr_tool_call_id :: string
  tr_logical_operation_id :: string
  tr_tool_name :: string
  tr_arguments_hash :: string
  tr_arguments :: json
  tr_status :: tool_status
  tr_execution_receipt :: "json option"
  tr_created_at :: time
  tr_updated_at :: time
  tr_error_message :: "string option"

record tool_ledger =
  tl_max_records :: nat
  tl_ttl :: "rat option"
  tl_records :: "(string, tool_record) dict"
  tl_receipts :: "(string, json \<times> time) dict"

definition new_tool_ledger :: "nat \<Rightarrow> rat option \<Rightarrow> tool_ledger" where
  "new_tool_ledger mx ttl = \<lparr>tl_max_records = mx, tl_ttl = ttl, tl_records = [], tl_receipts = []\<rparr>"

definition past_ttl :: "rat option \<Rightarrow> time \<Rightarrow> time \<Rightarrow> bool" where
  "past_ttl ttl now stamp = (case ttl of None \<Rightarrow> False | Some t \<Rightarrow> now - stamp > t)"

fun evict_ttl :: "rat option \<Rightarrow> time \<Rightarrow> ('v \<Rightarrow> time) \<Rightarrow> (string, 'v) dict \<Rightarrow> (string, 'v) dict" where
  "evict_ttl ttl now stamp [] = []"
| "evict_ttl ttl now stamp (p # ps) =
     (if past_ttl ttl now (stamp (snd p)) then evict_ttl ttl now stamp ps else p # ps)"

fun evict_len :: "nat \<Rightarrow> (string, 'v) dict \<Rightarrow> (string, 'v) dict" where
  "evict_len n [] = []"
| "evict_len n (p # ps) = (if length (p # ps) > n then evict_len n ps else p # ps)"

definition evict :: "time \<Rightarrow> tool_ledger \<Rightarrow> tool_ledger" where
  "evict now l =
     l\<lparr>tl_records := evict_len (tl_max_records l) (evict_ttl (tl_ttl l) now tr_created_at (tl_records l)),
       tl_receipts := evict_len (tl_max_records l) (evict_ttl (tl_ttl l) now snd (tl_receipts l))\<rparr>"

definition compute_arguments_hash :: "digest_env \<Rightarrow> json \<Rightarrow> string" where
  "compute_arguments_hash env arguments =
     sha256 env (dumps_sorted (float_repr env) (if truthy_json arguments then arguments else JObj []))"

definition op_key :: "string \<Rightarrow> string \<Rightarrow> string \<Rightarrow> string" where
  "op_key logical_op_id tool_name arguments_hash = logical_op_id @ '':'' @ tool_name @ '':'' @ arguments_hash"

definition register_tool_call ::
  "digest_env \<Rightarrow> time \<Rightarrow> string \<Rightarrow> string \<Rightarrow> string \<Rightarrow> json \<Rightarrow> tool_ledger \<Rightarrow> tool_record \<times> tool_ledger" where
  "register_tool_call env now tool_call_id logical_operation_id tool_name arguments l =
     (case map_of (tl_records l) tool_call_id of
        Some rec \<Rightarrow> (rec, l)
      | None \<Rightarrow>
          (let rec = \<lparr>tr_tool_call_id = tool_call_id, tr_logical_operation_id = logical_operation_id,
                      tr_tool_name = tool_name, tr_arguments_hash = compute_arguments_hash env arguments,
                      tr_arguments = arguments, tr_status = PROPOSED, tr_execution_receipt = None,
                      tr_created_at = now, tr_updated_at = now, tr_error_message = None\<rparr>
           in (rec, evict now (l\<lparr>tl_records := AList.update tool_call_id rec (tl_records l)\<rparr>))))"

definition update_record :: "string \<Rightarrow> (tool_record \<Rightarrow> tool_record) \<Rightarrow> tool_ledger \<Rightarrow> tool_ledger" where
  "update_record tool_call_id f l =
     (case map_of (tl_records l) tool_call_id of
        None \<Rightarrow> l
      | Some rec \<Rightarrow> l\<lparr>tl_records := AList.update tool_call_id (f rec) (tl_records l)\<rparr>)"

definition mark_validated :: "time \<Rightarrow> string \<Rightarrow> tool_ledger \<Rightarrow> tool_ledger" where
  "mark_validated wall tool_call_id =
     update_record tool_call_id
       (\<lambda>rec. if tr_status rec = PROPOSED then rec\<lparr>tr_status := VALIDATED, tr_updated_at := wall\<rparr> else rec)"

definition mark_submitted :: "time \<Rightarrow> string \<Rightarrow> tool_ledger \<Rightarrow> tool_ledger" where
  "mark_submitted wall tool_call_id =
     update_record tool_call_id (\<lambda>rec. rec\<lparr>tr_status := SUBMITTED, tr_updated_at := wall\<rparr>)"

definition mark_committed :: "time \<Rightarrow> time \<Rightarrow> string \<Rightarrow> json \<Rightarrow> tool_ledger \<Rightarrow> tool_ledger" where
  "mark_committed now wall tool_call_id receipt l =
     (case map_of (tl_records l) tool_call_id of
        None \<Rightarrow> l
      | Some rec \<Rightarrow>
          (let rec' = rec\<lparr>tr_status := COMMITTED, tr_execution_receipt := Some receipt, tr_updated_at := wall\<rparr>;
               key = op_key (tr_logical_operation_id rec) (tr_tool_name rec) (tr_arguments_hash rec)
           in evict now
                (l\<lparr>tl_records := AList.update tool_call_id rec' (tl_records l),
                   tl_receipts := AList.update key (receipt, now) (tl_receipts l)\<rparr>)))"

definition mark_replayed :: "time \<Rightarrow> string \<Rightarrow> json option \<Rightarrow> tool_ledger \<Rightarrow> tool_ledger" where
  "mark_replayed now tool_call_id receipt =
     update_record tool_call_id
       (\<lambda>rec. rec\<lparr>tr_status := REPLAYED, tr_execution_receipt := receipt, tr_updated_at := now\<rparr>)"

definition mark_indeterminate :: "time \<Rightarrow> string \<Rightarrow> string \<Rightarrow> tool_ledger \<Rightarrow> tool_ledger" where
  "mark_indeterminate wall tool_call_id reason =
     update_record tool_call_id
       (\<lambda>rec. rec\<lparr>tr_status := INDETERMINATE, tr_error_message := Some reason, tr_updated_at := wall\<rparr>)"

definition mark_ambiguous :: "time \<Rightarrow> string \<Rightarrow> string \<Rightarrow> tool_ledger \<Rightarrow> tool_ledger" where
  "mark_ambiguous = mark_indeterminate"

definition mark_failed :: "time \<Rightarrow> string \<Rightarrow> string \<Rightarrow> tool_ledger \<Rightarrow> tool_ledger" where
  "mark_failed wall tool_call_id error_message =
     update_record tool_call_id
       (\<lambda>rec. rec\<lparr>tr_status := FAILED, tr_error_message := Some error_message, tr_updated_at := wall\<rparr>)"

definition check_idempotency ::
  "digest_env \<Rightarrow> time \<Rightarrow> string \<Rightarrow> string \<Rightarrow> json \<Rightarrow> tool_ledger \<Rightarrow> bool \<times> json option" where
  "check_idempotency env now logical_operation_id tool_name arguments l =
     (case map_of (tl_receipts l)
             (op_key logical_operation_id tool_name (compute_arguments_hash env arguments)) of
        None \<Rightarrow> (False, None)
      | Some (receipt, stamp) \<Rightarrow>
          if past_ttl (tl_ttl l) now stamp then (False, None) else (True, Some receipt))"

definition indeterminate_status :: "tool_status \<Rightarrow> bool" where
  "indeterminate_status s = (s \<in> {SUBMITTED, INDETERMINATE, AMBIGUOUS})"

definition has_indeterminate_operation ::
  "digest_env \<Rightarrow> string \<Rightarrow> string \<Rightarrow> json \<Rightarrow> tool_ledger \<Rightarrow> bool" where
  "has_indeterminate_operation env logical_operation_id tool_name arguments l =
     list_ex (\<lambda>(_, rec). tr_logical_operation_id rec = logical_operation_id \<and> tr_tool_name rec = tool_name
        \<and> tr_arguments_hash rec = compute_arguments_hash env arguments \<and> indeterminate_status (tr_status rec))
       (tl_records l)"

definition get_record :: "string \<Rightarrow> tool_ledger \<Rightarrow> tool_record option" where
  "get_record tool_call_id l = map_of (tl_records l) tool_call_id"

text \<open>The calls a ledger receives.\<close>

datatype ledger_call =
    Register time string string string json
  | Validated time string
  | Submitted time string
  | Committed time time string json
  | Replayed time string "json option"
  | Indeterminate time string string
  | Failed time string string

fun ledger_step :: "digest_env \<Rightarrow> tool_ledger \<Rightarrow> ledger_call \<Rightarrow> tool_ledger" where
  "ledger_step env l (Register now c op tool args) = snd (register_tool_call env now c op tool args l)"
| "ledger_step env l (Validated wall c) = mark_validated wall c l"
| "ledger_step env l (Submitted wall c) = mark_submitted wall c l"
| "ledger_step env l (Committed now wall c r) = mark_committed now wall c r l"
| "ledger_step env l (Replayed now c r) = mark_replayed now c r l"
| "ledger_step env l (Indeterminate wall c m) = mark_indeterminate wall c m l"
| "ledger_step env l (Failed wall c m) = mark_failed wall c m l"

text \<open>The memory bound and the integrity of the two indexes.\<close>

definition ledger_inv :: "nat \<Rightarrow> tool_ledger \<Rightarrow> bool" where
  "ledger_inv n l \<longleftrightarrow> tl_max_records l = n \<and>
     distinct (map fst (tl_records l)) \<and> length (tl_records l) \<le> n \<and>
     distinct (map fst (tl_receipts l)) \<and> length (tl_receipts l) \<le> n \<and>
     (\<forall>(c, rec) \<in> set (tl_records l). tr_tool_call_id rec = c)"

section \<open>Eviction\<close>

lemma evict_len_eq: "evict_len n d = last_n n d"
  by (induction d) (auto simp: last_n_def Suc_diff_le)

lemma evict_ttl_suffix: "\<exists>k. evict_ttl ttl now stamp d = drop k d"
proof (induction d)
  case (Cons p d)
  then obtain k where "evict_ttl ttl now stamp d = drop k d" by blast
  then have "evict_ttl ttl now stamp (p # d) = drop (if past_ttl ttl now (stamp (snd p)) then Suc k else 0) (p # d)"
    by simp
  then show ?case by blast
qed simp

lemma evict_suffix: "\<exists>k. evict_len n (evict_ttl ttl now stamp d) = drop k d"
proof -
  obtain k where "evict_ttl ttl now stamp d = drop k d" using evict_ttl_suffix by blast
  then have "evict_len n (evict_ttl ttl now stamp d) = drop (length (drop k d) - n + k) d"
    by (simp add: evict_len_eq last_n_def add.commute)
  then show ?thesis by blast
qed

lemma evict_store_inv:
  assumes "distinct (map fst d)"
  shows "distinct (map fst (evict_len n (evict_ttl ttl now stamp d)))"
    and "length (evict_len n (evict_ttl ttl now stamp d)) \<le> n"
    and "set (evict_len n (evict_ttl ttl now stamp d)) \<subseteq> set d"
proof -
  obtain k where k: "evict_len n (evict_ttl ttl now stamp d) = drop k d"
    using evict_suffix by blast
  show "distinct (map fst (evict_len n (evict_ttl ttl now stamp d)))"
    using assms by (simp add: k drop_map [symmetric])
  show "set (evict_len n (evict_ttl ttl now stamp d)) \<subseteq> set d"
    by (simp add: k set_drop_subset)
  show "length (evict_len n (evict_ttl ttl now stamp d)) \<le> n"
    by (simp add: evict_len_eq length_last_n)
qed

lemma evict_inv:
  assumes "tl_max_records l = n" "distinct (map fst (tl_records l))" "distinct (map fst (tl_receipts l))"
    "\<forall>(c, rec) \<in> set (tl_records l). tr_tool_call_id rec = c"
  shows "ledger_inv n (evict now l)"
  using assms evict_store_inv [of "tl_records l" n "tl_ttl l" now tr_created_at]
    evict_store_inv [of "tl_receipts l" n "tl_ttl l" now snd]
  by (auto simp: ledger_inv_def evict_def)

text \<open>A fresh entry survives the eviction that follows its insertion.\<close>

lemma evict_ttl_keeps:
  "map_of d k = Some v \<Longrightarrow> distinct (map fst d) \<Longrightarrow> \<not> past_ttl ttl now (stamp v) \<Longrightarrow>
   map_of (evict_ttl ttl now stamp d) k = Some v"
  by (induction d) (auto split: if_splits)

lemma evict_len_keeps_last:
  "map_of d k = None \<Longrightarrow> 0 < n \<Longrightarrow> map_of (evict_len n (d @ [(k, v)])) k = Some v"
proof (induction d)
  case (Cons p d)
  then show ?case by (cases p) (auto split: if_splits simp: map_add_def)
qed simp

lemma update_absent: "map_of d k = None \<Longrightarrow> AList.update k v d = d @ [(k, v)]"
  by (induction d) (auto split: if_splits)

lemma length_update_present: "map_of d k \<noteq> None \<Longrightarrow> length (AList.update k v d) = length d"
  by (induction d) (auto split: if_splits)

lemma evict_len_id: "length d \<le> n \<Longrightarrow> evict_len n d = d"
  by (cases d) auto

lemma evict_ttl_snoc_keeps:
  assumes "\<not> past_ttl ttl now (stamp v)" and "map_of d k = None"
  shows "\<exists>d'. evict_ttl ttl now stamp (d @ [(k, v)]) = d' @ [(k, v)] \<and> map_of d' k = None"
  using assms
proof (induction d)
  case (Cons p d)
  show ?case
  proof (cases "past_ttl ttl now (stamp (snd p))")
    case True
    with Cons show ?thesis by (cases p) (auto split: if_splits)
  next
    case False
    with Cons.prems show ?thesis by (intro exI [of _ "p # d"]) simp
  qed
qed simp

lemma evict_keeps_update:
  assumes "distinct (map fst d)" and "length d \<le> n" and "0 < n" and "\<not> past_ttl ttl now (stamp v)"
  shows "map_of (evict_len n (evict_ttl ttl now stamp (AList.update k v d))) k = Some v"
proof (cases "map_of d k")
  case None
  then obtain d' where "evict_ttl ttl now stamp (d @ [(k, v)]) = d' @ [(k, v)]" "map_of d' k = None"
    using evict_ttl_snoc_keeps [of ttl now stamp v d k] assms(4) by blast
  with None show ?thesis
    using evict_len_keeps_last [of d' k n v] assms(3) by (simp add: update_absent)
next
  case (Some w)
  let ?u = "AList.update k v d"
  obtain j where j: "evict_ttl ttl now stamp ?u = drop j ?u" using evict_ttl_suffix by blast
  have "length (evict_ttl ttl now stamp ?u) \<le> n"
    using assms(2) Some by (simp add: j length_update_present)
  moreover have "map_of (evict_ttl ttl now stamp ?u) k = Some v"
    using assms(1,4) by (intro evict_ttl_keeps) auto
  ultimately show ?thesis by (simp add: evict_len_id)
qed

section \<open>The invariant\<close>

lemma update_record_inv:
  assumes "ledger_inv n l" and "\<And>rec. tr_tool_call_id (f rec) = tr_tool_call_id rec"
  shows "ledger_inv n (update_record c f l)"
proof (cases "map_of (tl_records l) c")
  case (Some rec)
  then have "tr_tool_call_id rec = c"
    using assms(1) by (auto simp: ledger_inv_def dest: map_of_SomeD)
  with Some assms show ?thesis
    by (auto simp: ledger_inv_def update_record_def length_update_present dest!: in_set_update)
qed (use assms in \<open>simp add: update_record_def\<close>)

lemma ledger_step_inv: "ledger_inv n l \<Longrightarrow> ledger_inv n (ledger_step env l e)"
proof (cases e)
  case (Register now c op tool args)
  assume inv: "ledger_inv n l"
  show ?thesis
  proof (cases "map_of (tl_records l) c")
    case None
    show ?thesis
      unfolding Register ledger_step.simps register_tool_call_def None option.case Let_def snd_conv
      using inv by (intro evict_inv) (auto simp: ledger_inv_def dest!: in_set_update)
  qed (use inv Register in \<open>simp add: register_tool_call_def\<close>)
next
  case (Committed now wall c r)
  assume inv: "ledger_inv n l"
  show ?thesis
  proof (cases "map_of (tl_records l) c")
    case (Some rec)
    then have "tr_tool_call_id rec = c"
      using inv by (auto simp: ledger_inv_def dest: map_of_SomeD)
    then show ?thesis
      unfolding Committed ledger_step.simps mark_committed_def Some option.case Let_def
      using inv by (intro evict_inv) (auto simp: ledger_inv_def dest!: in_set_update)
  qed (use inv Committed in \<open>simp add: mark_committed_def\<close>)
qed (auto simp: mark_validated_def mark_submitted_def mark_replayed_def mark_indeterminate_def
    mark_failed_def intro: update_record_inv)

interpretation ledger: step_system "ledger_step env" "\<lambda>_. True" "ledger_inv n"
  by unfold_locales (rule ledger_step_inv)

section \<open>Properties\<close>

text \<open>
  Whatever calls a ledger receives, it never holds more than \<open>max_records\<close> records or
  receipts, and each index has one entry per key.
\<close>

theorem tool_ledger_bounded:
  "let l = run (ledger_step env) (new_tool_ledger n ttl) es in
   length (tl_records l) \<le> n \<and> length (tl_receipts l) \<le> n \<and>
   distinct (map fst (tl_records l)) \<and> distinct (map fst (tl_receipts l))"
proof -
  have "list_all (\<lambda>_. True) es" by (induction es) simp_all
  moreover have "ledger_inv n (new_tool_ledger n ttl)"
    by (simp add: ledger_inv_def new_tool_ledger_def)
  ultimately have "ledger_inv n (run (ledger_step env) (new_tool_ledger n ttl) es)"
    by (rule ledger.run_inv [rotated])
  then show ?thesis by (simp add: ledger_inv_def Let_def)
qed

text \<open>
  After any history, committing a known tool call makes the idempotency check of the same
  operation answer with exactly the committed receipt, at every time up to the time-to-live.
\<close>

theorem committed_receipt_is_found:
  assumes "l = run (ledger_step env) (new_tool_ledger n (Some ttl)) es" and "0 < n" and "0 \<le> ttl"
    and "get_record c l = Some rec" and "compute_arguments_hash env args = tr_arguments_hash rec"
    and "later - now \<le> ttl"
  shows "check_idempotency env later (tr_logical_operation_id rec) (tr_tool_name rec) args
    (mark_committed now wall c receipt l) = (True, Some receipt)"
proof -
  have "list_all (\<lambda>_. True) es" by (induction es) simp_all
  moreover have "ledger_inv n (new_tool_ledger n (Some ttl))"
    by (simp add: ledger_inv_def new_tool_ledger_def)
  ultimately have inv: "ledger_inv n l"
    unfolding assms(1) by (rule ledger.run_inv [rotated])
  have ttl: "tl_ttl l = Some ttl"
  proof -
    have "tl_ttl (ledger_step env l' e) = tl_ttl l'" for l' e
      by (cases e) (auto simp: register_tool_call_def mark_validated_def mark_submitted_def
          mark_committed_def mark_replayed_def mark_indeterminate_def mark_failed_def
          update_record_def evict_def Let_def split: option.split)
    then have "tl_ttl (run (ledger_step env) l' es') = tl_ttl l'" for l' es'
      by (induction es' arbitrary: l') simp_all
    then show ?thesis by (simp add: assms(1) new_tool_ledger_def)
  qed
  let ?k = "op_key (tr_logical_operation_id rec) (tr_tool_name rec) (tr_arguments_hash rec)"
  have "map_of (evict_len n (evict_ttl (tl_ttl l) now snd (AList.update ?k (receipt, now) (tl_receipts l)))) ?k
      = Some (receipt, now)"
    using inv assms(2,3) by (intro evict_keeps_update) (auto simp: ledger_inv_def past_ttl_def ttl)
  then show ?thesis
    using assms(4-6) inv
    by (simp add: check_idempotency_def mark_committed_def get_record_def evict_def Let_def
        ledger_inv_def ttl past_ttl_def)
qed

theorem committed_receipt_is_found_witness:
  "let env = \<lparr>sha256 = (\<lambda>x. x), float_repr = (\<lambda>_. ''f'')\<rparr>;
       l = run (ledger_step env) (new_tool_ledger 2 (Some 60)) [Register 0 ''c1'' ''op'' ''pay'' (JInt 5)]
   in check_idempotency env 61 ''op'' ''pay'' (JInt 5) (mark_committed 1 1 ''c1'' (JStr ''ok'') l)
      = (True, Some (JStr ''ok''))"
proof -
  let ?env = "\<lparr>sha256 = (\<lambda>x. x), float_repr = (\<lambda>_. ''f'')\<rparr>"
  let ?l = "run (ledger_step ?env) (new_tool_ledger 2 (Some 60)) [Register 0 ''c1'' ''op'' ''pay'' (JInt 5)]"
  let ?rec = "the (get_record ''c1'' ?l)"
  have h: "(0 :: nat) < 2" "(0 :: rat) \<le> 60" "get_record ''c1'' ?l = Some ?rec"
    "compute_arguments_hash ?env (JInt 5) = tr_arguments_hash ?rec" "(61 :: rat) - 1 \<le> 60" by code_simp+
  have v: "tr_logical_operation_id ?rec = ''op''" "tr_tool_name ?rec = ''pay''" by code_simp+
  show ?thesis
    using committed_receipt_is_found [OF refl h, of 1 "JStr ''ok''"] unfolding v Let_def .
qed

end
