(* ===== verification/Contracts.thy ===== *)
theory Contracts
  imports ToolLedger
begin

text \<open>
  \<^verbatim>\<open>storage/contracts.py\<close>: the data classes of the durable state and its protocols.  The
  protocols \<open>SessionStore\<close> and the lease half of \<open>OperationStore\<close> become the locales
  \<open>session_store\<close> and \<open>lease_store\<close>; the SQLite store and the cluster store interpret
  both, and what clients rely on (exclusive ownership until expiry, no lost update) is proved
  here once for every implementation.
\<close>

record 'p stored_session =
  ss_session_id :: string
  ss_protocol_version :: string
  ss_payload :: 'p
  ss_revision :: nat
  ss_created_at :: time
  ss_updated_at :: time

record stored_attempt =
  sa_attempt_id :: string
  sa_request_id :: string
  sa_status :: string
  sa_payload :: json
  sa_created_at :: time
  sa_updated_at :: time

record stored_operation =
  so_operation_key :: string
  so_logical_operation_id :: string
  so_tool_name :: string
  so_arguments_hash :: string
  so_arguments :: json
  so_status :: tool_status
  so_execution_receipt :: "json option"
  so_error_message :: "string option"
  so_created_at :: time
  so_updated_at :: time

record lease =
  ls_resource :: string
  ls_owner_id :: string
  ls_fencing_token :: nat
  ls_expires_at :: time

text \<open>Calls on the lease interface, and what another owner than \<open>w\<close> may do before time \<open>t\<close>.\<close>

datatype lease_call = LAcquire time string string time | LRelease string string nat

fun lease_step ::
  "(time \<Rightarrow> string \<Rightarrow> string \<Rightarrow> time \<Rightarrow> 's \<Rightarrow> lease option \<times> 's) \<Rightarrow>
   (string \<Rightarrow> string \<Rightarrow> nat \<Rightarrow> 's \<Rightarrow> bool \<times> 's) \<Rightarrow> 's \<Rightarrow> lease_call \<Rightarrow> 's" where
  "lease_step acquire release s (LAcquire now r w ttl) = snd (acquire now r w ttl s)"
| "lease_step acquire release s (LRelease r w tok) = snd (release r w tok s)"

fun foreign_call :: "string \<Rightarrow> time \<Rightarrow> lease_call \<Rightarrow> bool" where
  "foreign_call w t (LAcquire now r w' ttl) = (w' \<noteq> w \<and> now < t)"
| "foreign_call w t (LRelease r w' tok) = (w' \<noteq> w)"

locale lease_store =
  fixes acquire :: "time \<Rightarrow> string \<Rightarrow> string \<Rightarrow> time \<Rightarrow> 's \<Rightarrow> lease option \<times> 's"
    and release :: "string \<Rightarrow> string \<Rightarrow> nat \<Rightarrow> 's \<Rightarrow> bool \<times> 's"
    and holder :: "'s \<Rightarrow> string \<Rightarrow> lease option"
  assumes acquire_granted:
    "(\<And>l. holder s r = Some l \<Longrightarrow> ls_owner_id l = w \<or> ls_expires_at l \<le> now) \<Longrightarrow>
     \<exists>l. fst (acquire now r w ttl s) = Some l \<and> holder (snd (acquire now r w ttl s)) = (holder s)(r \<mapsto> l)
       \<and> ls_owner_id l = w \<and> ls_resource l = r \<and> now + ttl \<le> ls_expires_at l"
    and acquire_refused:
    "holder s r = Some l \<Longrightarrow> ls_owner_id l \<noteq> w \<Longrightarrow> now < ls_expires_at l \<Longrightarrow> acquire now r w ttl s = (None, s)"
    and release_holder:
    "holder (snd (release r w tok s)) =
       (case holder s r of
          None \<Rightarrow> holder s
        | Some l \<Rightarrow> if ls_owner_id l = w \<and> ls_fencing_token l = tok then (holder s)(r := None) else holder s)"
begin

lemma acquire_other_resource: "r' \<noteq> r \<Longrightarrow> holder (snd (acquire now r w ttl s)) r' = holder s r'"
proof (cases "\<exists>l. holder s r = Some l \<and> ls_owner_id l \<noteq> w \<and> now < ls_expires_at l")
  case True
  then show ?thesis using acquire_refused by fastforce
next
  case False
  assume "r' \<noteq> r"
  moreover from False obtain l where "holder (snd (acquire now r w ttl s)) = (holder s)(r \<mapsto> l)"
    using acquire_granted [of s r w now ttl] by (meson not_less)
  ultimately show ?thesis by simp
qed

text \<open>A live lease survives everything other owners do until it expires.\<close>

lemma lease_step_exclusive:
  assumes "holder s r = Some l" and "foreign_call (ls_owner_id l) (ls_expires_at l) e"
  shows "holder (lease_step acquire release s e) r = Some l"
proof (cases e)
  case (LAcquire now r' w ttl)
  show ?thesis
  proof (cases "r' = r")
    case True
    with LAcquire assms show ?thesis using acquire_refused [of s r l w now ttl] by auto
  next
    case False
    with LAcquire assms show ?thesis by (simp add: acquire_other_resource)
  qed
next
  case (LRelease r' w tok)
  with assms show ?thesis by (auto simp: release_holder split: option.split)
qed

lemma run_exclusive:
  "holder s r = Some l \<Longrightarrow> list_all (foreign_call (ls_owner_id l) (ls_expires_at l)) es \<Longrightarrow>
   holder (run (lease_step acquire release) s es) r = Some l"
  by (induction es arbitrary: s) (auto intro: lease_step_exclusive)

lemma run_refuses_others:
  "holder s r = Some l \<Longrightarrow> list_all (foreign_call (ls_owner_id l) (ls_expires_at l)) es \<Longrightarrow>
   w \<noteq> ls_owner_id l \<Longrightarrow> now < ls_expires_at l \<Longrightarrow>
   fst (acquire now r w ttl (run (lease_step acquire release) s es)) = None"
  using run_exclusive [of s r l es] acquire_refused by (metis fst_conv)

end

text \<open>Calls on the session interface.\<close>

datatype 'p session_call = SCreate time string string 'p | SSave time string string 'p nat

fun session_step ::
  "(time \<Rightarrow> string \<Rightarrow> string \<Rightarrow> 'p \<Rightarrow> 's \<Rightarrow> 'p stored_session option \<times> 's) \<Rightarrow>
   (time \<Rightarrow> string \<Rightarrow> string \<Rightarrow> 'p \<Rightarrow> nat \<Rightarrow> 's \<Rightarrow> 'p stored_session option \<times> 's) \<Rightarrow>
   's \<Rightarrow> 'p session_call \<Rightarrow> 's" where
  "session_step create save s (SCreate now i v p) = snd (create now i v p s)"
| "session_step create save s (SSave now i v p n) = snd (save now i v p n s)"

locale session_store =
  fixes load :: "string \<Rightarrow> 's \<Rightarrow> 'p stored_session option"
    and create :: "time \<Rightarrow> string \<Rightarrow> string \<Rightarrow> 'p \<Rightarrow> 's \<Rightarrow> 'p stored_session option \<times> 's"
    and save :: "time \<Rightarrow> string \<Rightarrow> string \<Rightarrow> 'p \<Rightarrow> nat \<Rightarrow> 's \<Rightarrow> 'p stored_session option \<times> 's"
  assumes create_new:
    "load i s = None \<Longrightarrow> \<exists>row. fst (create now i v p s) = Some row \<and> ss_revision row = 1
       \<and> ss_payload row = p \<and> ss_protocol_version row = v
       \<and> (\<forall>j. load j (snd (create now i v p s)) = (if j = i then Some row else load j s))"
    and create_existing: "load i s = Some row \<Longrightarrow> create now i v p s = (None, s)"
    and save_ok:
    "load i s = Some row \<Longrightarrow> ss_revision row = n \<Longrightarrow>
     \<exists>row'. fst (save now i v p n s) = Some row' \<and> ss_revision row' = Suc n \<and> ss_payload row' = p
       \<and> ss_protocol_version row' = v
       \<and> (\<forall>j. load j (snd (save now i v p n s)) = (if j = i then Some row' else load j s))"
    and save_stale:
    "(\<And>row. load i s = Some row \<Longrightarrow> ss_revision row \<noteq> n) \<Longrightarrow> save now i v p n s = (None, s)"
begin

lemma session_step_revision:
  assumes "load i s = Some row"
  shows "\<exists>row'. load i (session_step create save s e) = Some row' \<and> ss_revision row \<le> ss_revision row'"
proof (cases e)
  case (SCreate now j v p)
  show ?thesis
  proof (cases "load j s")
    case None
    then show ?thesis using SCreate assms create_new [OF None, of now v p] by (cases "j = i") auto
  next
    case (Some r)
    then show ?thesis using SCreate assms by (simp add: create_existing)
  qed
next
  case (SSave now j v p n)
  show ?thesis
  proof (cases "\<exists>r. load j s = Some r \<and> ss_revision r = n")
    case True
    then obtain r where "load j s = Some r" "ss_revision r = n" by blast
    then show ?thesis using SSave assms save_ok [of j s r n now v p] by (cases "j = i") auto
  next
    case False
    then have "save now j v p n s = (None, s)" by (intro save_stale) auto
    then show ?thesis using SSave assms by simp
  qed
qed

lemma run_revision:
  "load i s = Some row \<Longrightarrow>
   \<exists>row'. load i (run (session_step create save) s es) = Some row' \<and> ss_revision row \<le> ss_revision row'"
proof (induction es arbitrary: s row)
  case (Cons e es)
  from session_step_revision [OF Cons.prems, of e] obtain row1 where
    r1: "load i (session_step create save s e) = Some row1" "ss_revision row \<le> ss_revision row1" by blast
  from Cons.IH [OF r1(1)] r1(2) show ?case by force
qed simp

text \<open>No lost update: once a save against revision \<open>n\<close> has succeeded, no later one can.\<close>

lemma save_once:
  assumes "fst (save now i v p n s) = Some row"
  shows "fst (save now' i v' p' n (run (session_step create save) (snd (save now i v p n s)) es)) = None"
proof -
  have "\<exists>r. load i s = Some r \<and> ss_revision r = n"
    using assms save_stale [of i s n now v p] by (metis fst_conv option.distinct(1))
  then obtain r where r: "load i s = Some r" "ss_revision r = n" by blast
  from save_ok [OF r, of now v p] obtain row' where
    "load i (snd (save now i v p n s)) = Some row'" "ss_revision row' = Suc n" by auto
  with run_revision [of i "snd (save now i v p n s)" row' es] obtain row2 where
    "load i (run (session_step create save) (snd (save now i v p n s)) es) = Some row2" "Suc n \<le> ss_revision row2"
    by auto
  then have "save now' i v' p' n (run (session_step create save) (snd (save now i v p n s)) es)
      = (None, run (session_step create save) (snd (save now i v p n s)) es)"
    by (intro save_stale) auto
  then show ?thesis by simp
qed

end

end
