(* ===== verification/DurableStore.thy ===== *)
theory DurableStore
  imports Contracts
begin

text \<open>
  \<^verbatim>\<open>storage/sqlite.py\<close>: the durable state.

  A store is the record of its tables, each an association list by primary key.  A public method
  is one \<open>BEGIN IMMEDIATE \<dots> COMMIT\<close> transaction and hence one atomic step; when it raises,
  the transaction rolls back and the store is unchanged.  \<open>now\<close> is the reading of
  \<open>time.time()\<close> of the call.  JSON columns hold the value they encode; the session payload is
  the type parameter \<open>'p\<close>.  A restart keeps the store (the tables are on disk) and loses
  everything else.
\<close>

record breaker_row =
  br_state :: string
  br_failure_rate :: rat
  br_slow_call_rate :: rat
  br_last_transition_time :: time
  br_updated_at :: time

record quota_row =
  qr_expires_at :: time
  qr_reason :: string
  qr_created_at :: time

record 'p sqlite_store =
  st_breakers :: "(string, breaker_row) dict"
  st_tool_executions :: "(string, tool_record) dict"
  st_sessions :: "(string, 'p stored_session) dict"
  st_attempts :: "(string, stored_attempt) dict"
  st_operations :: "(string, stored_operation) dict"
  st_operation_calls :: "(string, string) dict"
  st_leases :: "(string, lease) dict"
  st_quota_lockouts :: "(string \<times> string \<times> string, quota_row) dict"

definition empty_store :: "'p sqlite_store" where
  "empty_store =
     \<lparr>st_breakers = [], st_tool_executions = [], st_sessions = [], st_attempts = [], st_operations = [],
      st_operation_calls = [], st_leases = [], st_quota_lockouts = []\<rparr>"

section \<open>Legacy breaker and receipt persistence\<close>

definition save_breaker_state ::
  "time \<Rightarrow> string \<Rightarrow> string \<Rightarrow> rat \<Rightarrow> rat \<Rightarrow> time \<Rightarrow> 'p sqlite_store \<Rightarrow> 'p sqlite_store" where
  "save_breaker_state now breaker_id st fr sr ltt s =
     s\<lparr>st_breakers := AList.update breaker_id
        \<lparr>br_state = st, br_failure_rate = fr, br_slow_call_rate = sr, br_last_transition_time = ltt,
         br_updated_at = now\<rparr> (st_breakers s)\<rparr>"

definition load_breaker_state :: "string \<Rightarrow> 'p sqlite_store \<Rightarrow> breaker_row option" where
  "load_breaker_state breaker_id s = map_of (st_breakers s) breaker_id"

definition stored_receipt :: "json option \<Rightarrow> json option" where
  "stored_receipt r = (case r of None \<Rightarrow> None | Some j \<Rightarrow> if truthy_json j then Some j else None)"

definition save_tool_execution :: "tool_record \<Rightarrow> 'p sqlite_store \<Rightarrow> 'p sqlite_store" where
  "save_tool_execution rec s =
     (let row = (case map_of (st_tool_executions s) (tr_tool_call_id rec) of
                   None \<Rightarrow> rec\<lparr>tr_execution_receipt := stored_receipt (tr_execution_receipt rec)\<rparr>
                 | Some old \<Rightarrow> old\<lparr>tr_status := tr_status rec,
                                  tr_execution_receipt := stored_receipt (tr_execution_receipt rec),
                                  tr_updated_at := tr_updated_at rec\<rparr>)
      in s\<lparr>st_tool_executions := AList.update (tr_tool_call_id rec) row (st_tool_executions s)\<rparr>)"

definition check_tool_receipt ::
  "string \<Rightarrow> string \<Rightarrow> string \<Rightarrow> 'p sqlite_store \<Rightarrow> bool \<times> json option" where
  "check_tool_receipt logical_operation_id tool_name arguments_hash s =
     (case find (\<lambda>(_, r). tr_logical_operation_id r = logical_operation_id \<and> tr_tool_name r = tool_name
                  \<and> tr_arguments_hash r = arguments_hash \<and> tr_status r = COMMITTED) (st_tool_executions s) of
        None \<Rightarrow> (False, None)
      | Some (_, r) \<Rightarrow> (tr_execution_receipt r \<noteq> None, tr_execution_receipt r))"

section \<open>Provider quota lockouts\<close>

definition record_quota_lockout ::
  "time \<Rightarrow> string \<Rightarrow> string \<Rightarrow> string \<Rightarrow> time \<Rightarrow> string option \<Rightarrow> 'p sqlite_store \<Rightarrow> 'p sqlite_store" where
  "record_quota_lockout now provider_id pool route_id expires_at reason s =
     s\<lparr>st_quota_lockouts := AList.update (lower provider_id, lower pool, lower route_id)
        \<lparr>qr_expires_at = expires_at, qr_reason = (case reason of None \<Rightarrow> [] | Some r \<Rightarrow> r), qr_created_at = now\<rparr>
        (st_quota_lockouts s)\<rparr>"

definition get_active_quota_lockouts ::
  "time \<Rightarrow> string option \<Rightarrow> 'p sqlite_store \<Rightarrow> ((string \<times> string \<times> string) \<times> quota_row) list" where
  "get_active_quota_lockouts now pool s =
     filter (\<lambda>((_, p, _), row). (truthy_str pool \<longrightarrow> p = lower (the pool)) \<and> qr_expires_at row > now)
       (st_quota_lockouts s)"

definition purge_expired_quota_lockouts :: "time \<Rightarrow> 'p sqlite_store \<Rightarrow> nat \<times> 'p sqlite_store" where
  "purge_expired_quota_lockouts now s =
     (length (filter (\<lambda>(_, row). qr_expires_at row \<le> now) (st_quota_lockouts s)),
      s\<lparr>st_quota_lockouts := filter (\<lambda>(_, row). \<not> qr_expires_at row \<le> now) (st_quota_lockouts s)\<rparr>)"

section \<open>SessionStore\<close>

definition load_session :: "string \<Rightarrow> 'p sqlite_store \<Rightarrow> 'p stored_session option" where
  "load_session session_id s = map_of (st_sessions s) session_id"

definition create_session ::
  "time \<Rightarrow> string \<Rightarrow> string \<Rightarrow> 'p \<Rightarrow> 'p sqlite_store \<Rightarrow> 'p stored_session option \<times> 'p sqlite_store" where
  "create_session now session_id protocol_version payload s =
     (case map_of (st_sessions s) session_id of
        Some _ \<Rightarrow> (None, s)
      | None \<Rightarrow>
          (let row = \<lparr>ss_session_id = session_id, ss_protocol_version = protocol_version, ss_payload = payload,
                      ss_revision = 1, ss_created_at = now, ss_updated_at = now\<rparr>
           in (Some row, s\<lparr>st_sessions := AList.update session_id row (st_sessions s)\<rparr>)))"

definition save_session ::
  "time \<Rightarrow> string \<Rightarrow> string \<Rightarrow> 'p \<Rightarrow> nat \<Rightarrow> 'p sqlite_store \<Rightarrow> 'p stored_session option \<times> 'p sqlite_store" where
  "save_session now session_id protocol_version payload expected_revision s =
     (case map_of (st_sessions s) session_id of
        None \<Rightarrow> (None, s)
      | Some row \<Rightarrow>
          if ss_revision row \<noteq> expected_revision then (None, s)
          else (let row' = row\<lparr>ss_protocol_version := protocol_version, ss_payload := payload,
                               ss_revision := ss_revision row + 1, ss_updated_at := now\<rparr>
                in (Some row', s\<lparr>st_sessions := AList.update session_id row' (st_sessions s)\<rparr>)))"

section \<open>AttemptStore\<close>

definition prepare_attempt ::
  "time \<Rightarrow> string \<Rightarrow> string \<Rightarrow> json \<Rightarrow> 'p sqlite_store \<Rightarrow> stored_attempt \<times> 'p sqlite_store" where
  "prepare_attempt now attempt_id request_id payload s =
     (case map_of (st_attempts s) attempt_id of
        Some row \<Rightarrow> (row, s)
      | None \<Rightarrow>
          (let row = \<lparr>sa_attempt_id = attempt_id, sa_request_id = request_id, sa_status = ''prepared'',
                      sa_payload = payload, sa_created_at = now, sa_updated_at = now\<rparr>
           in (row, s\<lparr>st_attempts := AList.update attempt_id row (st_attempts s)\<rparr>)))"

definition load_attempt :: "string \<Rightarrow> 'p sqlite_store \<Rightarrow> stored_attempt option" where
  "load_attempt attempt_id s = map_of (st_attempts s) attempt_id"

definition attempts_for_request :: "string \<Rightarrow> 'p sqlite_store \<Rightarrow> stored_attempt list" where
  "attempts_for_request request_id s =
     sort_key sa_created_at (sort_key sa_attempt_id
       (filter (\<lambda>a. sa_request_id a = request_id) (map snd (st_attempts s))))"

definition finish_attempt ::
  "time \<Rightarrow> string \<Rightarrow> string \<Rightarrow> json \<Rightarrow> 'p sqlite_store \<Rightarrow> stored_attempt result \<times> 'p sqlite_store" where
  "finish_attempt now attempt_id status payload s =
     (case map_of (st_attempts s) attempt_id of
        None \<Rightarrow> (Inl DurableStoreError, s)
      | Some row \<Rightarrow>
          (let row' = row\<lparr>sa_status := status, sa_payload := payload, sa_updated_at := now\<rparr>
           in (Inr row', s\<lparr>st_attempts := AList.update attempt_id row' (st_attempts s)\<rparr>)))"

section \<open>OperationStore: durable receipts and fenced leases\<close>

definition operation_key :: "digest_env \<Rightarrow> string \<Rightarrow> string \<Rightarrow> string \<Rightarrow> string" where
  "operation_key env logical_operation_id tool_name arguments_hash =
     (let us = [char_of (31 :: nat)] in
      sha256 env (logical_operation_id @ us @ tool_name @ us @ arguments_hash))"

definition operation_for_call :: "string \<Rightarrow> 'p sqlite_store \<Rightarrow> stored_operation option" where
  "operation_for_call tool_call_id s =
     (case map_of (st_operation_calls s) tool_call_id of
        None \<Rightarrow> None | Some k \<Rightarrow> map_of (st_operations s) k)"

definition operation_for_key ::
  "digest_env \<Rightarrow> string \<Rightarrow> string \<Rightarrow> string \<Rightarrow> 'p sqlite_store \<Rightarrow> stored_operation option" where
  "operation_for_key env logical_operation_id tool_name arguments_hash s =
     map_of (st_operations s) (operation_key env logical_operation_id tool_name arguments_hash)"

definition same_operation :: "string \<Rightarrow> string \<Rightarrow> string \<Rightarrow> stored_operation \<Rightarrow> bool" where
  "same_operation l t h op =
     (so_logical_operation_id op = l \<and> so_tool_name op = t \<and> so_arguments_hash op = h)"

text \<open>\<open>INSERT OR IGNORE INTO durable_operations\<close>: primary key and the unique triple.\<close>

definition insert_operation ::
  "digest_env \<Rightarrow> time \<Rightarrow> string \<Rightarrow> string \<Rightarrow> string \<Rightarrow> json \<Rightarrow> (string, stored_operation) dict
    \<Rightarrow> (string, stored_operation) dict" where
  "insert_operation env now logical_operation_id tool_name arguments_hash arguments ops =
     (let key = operation_key env logical_operation_id tool_name arguments_hash;
          row = \<lparr>so_operation_key = key, so_logical_operation_id = logical_operation_id,
                 so_tool_name = tool_name, so_arguments_hash = arguments_hash, so_arguments = arguments,
                 so_status = PROPOSED, so_execution_receipt = None, so_error_message = None,
                 so_created_at = now, so_updated_at = now\<rparr>
      in if map_of ops key \<noteq> None
            \<or> list_ex (\<lambda>(_, op). same_operation logical_operation_id tool_name arguments_hash op) ops
         then ops else AList.update key row ops)"

definition prepare_operation ::
  "digest_env \<Rightarrow> time \<Rightarrow> string \<Rightarrow> string \<Rightarrow> string \<Rightarrow> string \<Rightarrow> json \<Rightarrow> 'p sqlite_store
    \<Rightarrow> stored_operation result \<times> 'p sqlite_store" where
  "prepare_operation env now tool_call_id logical_operation_id tool_name arguments_hash arguments s =
     (let key = operation_key env logical_operation_id tool_name arguments_hash;
          ops = insert_operation env now logical_operation_id tool_name arguments_hash arguments (st_operations s)
      in case map_of (st_operation_calls s) tool_call_id of
           Some k \<Rightarrow>
             if k \<noteq> key then (Inl DurableStoreError, s)
             else (case map_of ops key of
                     None \<Rightarrow> (Inl DurableStoreError, s)
                   | Some op \<Rightarrow> (Inr op, s\<lparr>st_operations := ops\<rparr>))
         | None \<Rightarrow>
             (case map_of ops key of
                None \<Rightarrow> (Inl DurableStoreError, s)
              | Some op \<Rightarrow> (Inr op, s\<lparr>st_operations := ops,
                   st_operation_calls := AList.update tool_call_id key (st_operation_calls s)\<rparr>)))"

definition acquire_lease ::
  "time \<Rightarrow> string \<Rightarrow> string \<Rightarrow> time \<Rightarrow> 'p sqlite_store \<Rightarrow> lease option \<times> 'p sqlite_store" where
  "acquire_lease now resource owner_id ttl_seconds s =
     (let ttl = max (1 / 1000) ttl_seconds; expires_at = now + ttl;
          write = (\<lambda>token. let l = \<lparr>ls_resource = resource, ls_owner_id = owner_id,
                                    ls_fencing_token = token, ls_expires_at = expires_at\<rparr>
                           in (Some l, s\<lparr>st_leases := AList.update resource l (st_leases s)\<rparr>))
      in case map_of (st_leases s) resource of
           None \<Rightarrow> write 1
         | Some row \<Rightarrow>
             if ls_owner_id row = owner_id then write (ls_fencing_token row)
             else if ls_expires_at row \<le> now then write (ls_fencing_token row + 1)
             else (None, s))"

definition delete_lease :: "string \<Rightarrow> string \<Rightarrow> nat \<Rightarrow> (string, lease) dict \<Rightarrow> (string, lease) dict" where
  "delete_lease resource owner_id fencing_token d =
     (case map_of d resource of
        None \<Rightarrow> d
      | Some row \<Rightarrow> if ls_owner_id row = owner_id \<and> ls_fencing_token row = fencing_token
                    then AList.delete resource d else d)"

definition release_lease :: "string \<Rightarrow> string \<Rightarrow> nat \<Rightarrow> 'p sqlite_store \<Rightarrow> bool \<times> 'p sqlite_store" where
  "release_lease resource owner_id fencing_token s =
     (case map_of (st_leases s) resource of
        None \<Rightarrow> (False, s)
      | Some row \<Rightarrow>
          (ls_owner_id row = owner_id \<and> ls_fencing_token row = fencing_token,
           s\<lparr>st_leases := delete_lease resource owner_id fencing_token (st_leases s)\<rparr>))"

definition assert_lease :: "time \<Rightarrow> string \<Rightarrow> string \<Rightarrow> nat \<Rightarrow> 'p sqlite_store \<Rightarrow> bool" where
  "assert_lease now resource owner_id fencing_token s =
     (case map_of (st_leases s) resource of
        None \<Rightarrow> False
      | Some row \<Rightarrow> \<not> ((ls_owner_id row, ls_fencing_token row) \<noteq> (owner_id, fencing_token) \<or> ls_expires_at row \<le> now))"

definition op_resource :: "stored_operation \<Rightarrow> string" where
  "op_resource op = ''operation:'' @ so_operation_key op"

definition update_operation ::
  "string \<Rightarrow> (stored_operation \<Rightarrow> stored_operation) \<Rightarrow> 'p sqlite_store \<Rightarrow> 'p sqlite_store" where
  "update_operation key f s =
     (case map_of (st_operations s) key of
        None \<Rightarrow> s
      | Some op \<Rightarrow> s\<lparr>st_operations := AList.update key (f op) (st_operations s)\<rparr>)"

definition reload :: "string \<Rightarrow> 'p sqlite_store \<Rightarrow> stored_operation result \<times> 'p sqlite_store" where
  "reload key s = (case map_of (st_operations s) key of None \<Rightarrow> Inl DurableStoreError | Some op \<Rightarrow> Inr op, s)"

definition mark_operation_validated ::
  "time \<Rightarrow> string \<Rightarrow> 'p sqlite_store \<Rightarrow> stored_operation result \<times> 'p sqlite_store" where
  "mark_operation_validated now tool_call_id s =
     (case operation_for_call tool_call_id s of
        None \<Rightarrow> (Inl DurableStoreError, s)
      | Some op \<Rightarrow>
          reload (so_operation_key op)
            (if so_status op = PROPOSED
             then update_operation (so_operation_key op) (\<lambda>r. r\<lparr>so_status := VALIDATED, so_updated_at := now\<rparr>) s
             else s))"

definition mark_operation_submitted ::
  "time \<Rightarrow> string \<Rightarrow> string \<Rightarrow> time \<Rightarrow> 'p sqlite_store \<Rightarrow> lease result \<times> 'p sqlite_store" where
  "mark_operation_submitted now tool_call_id owner_id lease_ttl_seconds s =
     (case operation_for_call tool_call_id s of
        None \<Rightarrow> (Inl DurableStoreError, s)
      | Some op \<Rightarrow>
          if so_status op \<notin> {PROPOSED, VALIDATED} then (Inl DurableStoreError, s)
          else (case acquire_lease now (op_resource op) owner_id lease_ttl_seconds s of
                  (None, _) \<Rightarrow> (Inl LeaseUnavailableError, s)
                | (Some l, s') \<Rightarrow>
                    (Inr l, update_operation (so_operation_key op)
                       (\<lambda>r. r\<lparr>so_status := SUBMITTED, so_updated_at := now\<rparr>) s')))"

definition mark_operation_committed ::
  "time \<Rightarrow> string \<Rightarrow> string \<Rightarrow> nat \<Rightarrow> json \<Rightarrow> 'p sqlite_store \<Rightarrow> stored_operation result \<times> 'p sqlite_store" where
  "mark_operation_committed now tool_call_id owner_id fencing_token receipt s =
     (case operation_for_call tool_call_id s of
        None \<Rightarrow> (Inl DurableStoreError, s)
      | Some op \<Rightarrow>
          if \<not> assert_lease now (op_resource op) owner_id fencing_token s then (Inl LeaseUnavailableError, s)
          else if so_status op \<noteq> SUBMITTED then (Inl DurableStoreError, s)
          else reload (so_operation_key op)
            (let s' = update_operation (so_operation_key op)
                        (\<lambda>r. r\<lparr>so_status := COMMITTED, so_execution_receipt := Some receipt,
                               so_error_message := None, so_updated_at := now\<rparr>) s
             in s'\<lparr>st_leases := delete_lease (op_resource op) owner_id fencing_token (st_leases s')\<rparr>))"

definition mark_operation_indeterminate ::
  "time \<Rightarrow> string \<Rightarrow> string \<Rightarrow> 'p sqlite_store \<Rightarrow> stored_operation result \<times> 'p sqlite_store" where
  "mark_operation_indeterminate now tool_call_id reason s =
     (case operation_for_call tool_call_id s of
        None \<Rightarrow> (Inl DurableStoreError, s)
      | Some op \<Rightarrow>
          reload (so_operation_key op)
            (if so_status op \<noteq> COMMITTED
             then (let s' = update_operation (so_operation_key op)
                              (\<lambda>r. r\<lparr>so_status := INDETERMINATE, so_error_message := Some reason,
                                     so_updated_at := now\<rparr>) s
                   in s'\<lparr>st_leases := AList.delete (op_resource op) (st_leases s')\<rparr>)
             else s))"

definition mark_operation_failed ::
  "time \<Rightarrow> string \<Rightarrow> string \<Rightarrow> 'p sqlite_store \<Rightarrow> stored_operation result \<times> 'p sqlite_store" where
  "mark_operation_failed now tool_call_id reason s =
     (case operation_for_call tool_call_id s of
        None \<Rightarrow> (Inl DurableStoreError, s)
      | Some op \<Rightarrow>
          reload (so_operation_key op)
            (if so_status op \<notin> {COMMITTED, SUBMITTED}
             then update_operation (so_operation_key op)
                    (\<lambda>r. r\<lparr>so_status := FAILED, so_error_message := Some reason, so_updated_at := now\<rparr>) s
             else s))"

definition recover_inflight_operations ::
  "time \<Rightarrow> string \<Rightarrow> 'p sqlite_store \<Rightarrow> nat \<times> 'p sqlite_store" where
  "recover_inflight_operations now reason s =
     (let ops = map (\<lambda>(k, op). (k, if so_status op = SUBMITTED
                                   then op\<lparr>so_status := INDETERMINATE, so_error_message := Some reason,
                                           so_updated_at := now\<rparr>
                                   else op)) (st_operations s);
          dead = map (\<lambda>(k, op). ''operation:'' @ k) (filter (\<lambda>(k, op). so_status op = INDETERMINATE) ops)
      in (length (filter (\<lambda>(k, op). so_status op = SUBMITTED) (st_operations s)),
          s\<lparr>st_operations := ops, st_leases := filter (\<lambda>(r, _). r \<notin> set dead) (st_leases s)\<rparr>))"

definition operation_requires_manual_resolution :: "stored_operation \<Rightarrow> bool" where
  "operation_requires_manual_resolution op = (so_status op \<in> {SUBMITTED, INDETERMINATE, AMBIGUOUS})"

section \<open>Runs of the store\<close>

datatype 'p store_call =
    Prepare time string string string string json
  | Validate time string
  | Submit time string string time
  | Commit time string string nat json
  | Indet time string string
  | Fail time string string
  | Recover time string
  | Lease time string string time
  | Release string string nat
  | CreateSession time string string 'p
  | SaveSession time string string 'p nat
  | PrepareAttempt time string string json
  | FinishAttempt time string string json
  | QuotaLockout time string string string time "string option"
  | PurgeQuota time

fun store_step :: "digest_env \<Rightarrow> 'p sqlite_store \<Rightarrow> 'p store_call \<Rightarrow> 'p sqlite_store" where
  "store_step env s (Prepare now c l t h args) = snd (prepare_operation env now c l t h args s)"
| "store_step env s (Validate now c) = snd (mark_operation_validated now c s)"
| "store_step env s (Submit now c w ttl) = snd (mark_operation_submitted now c w ttl s)"
| "store_step env s (Commit now c w tok r) = snd (mark_operation_committed now c w tok r s)"
| "store_step env s (Indet now c m) = snd (mark_operation_indeterminate now c m s)"
| "store_step env s (Fail now c m) = snd (mark_operation_failed now c m s)"
| "store_step env s (Recover now m) = snd (recover_inflight_operations now m s)"
| "store_step env s (Lease now r w ttl) = snd (acquire_lease now r w ttl s)"
| "store_step env s (Release r w tok) = snd (release_lease r w tok s)"
| "store_step env s (CreateSession now i v p) = snd (create_session now i v p s)"
| "store_step env s (SaveSession now i v p n) = snd (save_session now i v p n s)"
| "store_step env s (PrepareAttempt now a r p) = snd (prepare_attempt now a r p s)"
| "store_step env s (FinishAttempt now a st p) = snd (finish_attempt now a st p s)"
| "store_step env s (QuotaLockout now p pl r e m) = record_quota_lockout now p pl r e m s"
| "store_step env s (PurgeQuota now) = snd (purge_expired_quota_lockouts now s)"

text \<open>
  \<open>submissions key s es\<close>: how often the run \<open>es\<close> gives a caller permission to execute the
  external tool of operation \<open>key\<close>, that is, how many \<open>Submit\<close> calls on it return a lease.
\<close>

definition grants :: "string \<Rightarrow> 'p sqlite_store \<Rightarrow> 'p store_call \<Rightarrow> bool" where
  "grants key s e =
     (case e of
        Submit now c w ttl \<Rightarrow>
          map_of (st_operation_calls s) c = Some key
          \<and> (case fst (mark_operation_submitted now c w ttl s) of Inl _ \<Rightarrow> False | Inr _ \<Rightarrow> True)
      | _ \<Rightarrow> False)"

fun submissions :: "digest_env \<Rightarrow> string \<Rightarrow> 'p sqlite_store \<Rightarrow> 'p store_call list \<Rightarrow> nat" where
  "submissions env key s [] = 0"
| "submissions env key s (e # es) =
     (if grants key s e then 1 else 0) + submissions env key (store_step env s e) es"

text \<open>Rows are stored under their own key, and every call is bound to an existing operation.\<close>

definition store_inv :: "'p sqlite_store \<Rightarrow> bool" where
  "store_inv s \<longleftrightarrow>
     (\<forall>k op. map_of (st_operations s) k = Some op \<longrightarrow> so_operation_key op = k) \<and>
     (\<forall>c k. map_of (st_operation_calls s) c = Some k \<longrightarrow> map_of (st_operations s) k \<noteq> None)"

definition dispatchable :: "tool_status \<Rightarrow> bool" where
  "dispatchable st \<longleftrightarrow> st = PROPOSED \<or> st = VALIDATED"

text \<open>What an operation never loses: its identity, having been dispatched, a committed receipt.\<close>

definition op_le :: "stored_operation \<Rightarrow> stored_operation \<Rightarrow> bool" where
  "op_le a b \<longleftrightarrow>
     so_operation_key b = so_operation_key a \<and> so_logical_operation_id b = so_logical_operation_id a \<and>
     so_tool_name b = so_tool_name a \<and> so_arguments_hash b = so_arguments_hash a \<and>
     so_arguments b = so_arguments a \<and>
     (\<not> dispatchable (so_status a) \<longrightarrow> \<not> dispatchable (so_status b)) \<and>
     (so_status a = COMMITTED \<longrightarrow> so_status b = COMMITTED \<and> so_execution_receipt b = so_execution_receipt a) \<and>
     (so_status a \<in> {INDETERMINATE, FAILED} \<longrightarrow> \<not> dispatchable (so_status a) \<and> so_status b \<in> {INDETERMINATE, FAILED})"

definition store_le :: "'p sqlite_store \<Rightarrow> 'p sqlite_store \<Rightarrow> bool" where
  "store_le s s' \<longleftrightarrow>
     (\<forall>k op. map_of (st_operations s) k = Some op \<longrightarrow> (\<exists>op'. map_of (st_operations s') k = Some op' \<and> op_le op op')) \<and>
     (\<forall>c k. map_of (st_operation_calls s) c = Some k \<longrightarrow> map_of (st_operation_calls s') c = Some k)"

definition safe_step :: "'p sqlite_store \<Rightarrow> 'p sqlite_store \<Rightarrow> bool" where
  "safe_step s s' \<longleftrightarrow> store_inv s' \<and> store_le s s'"

section \<open>Single steps\<close>

lemma update_operation_get:
  "map_of (st_operations (update_operation k f s)) k' =
     (if k' = k then map_option f (map_of (st_operations s) k) else map_of (st_operations s) k')"
  by (auto simp: update_operation_def split: option.split)

lemma update_operation_frame [simp]:
  "st_operation_calls (update_operation k f s) = st_operation_calls s"
  "st_leases (update_operation k f s) = st_leases s"
  "st_sessions (update_operation k f s) = st_sessions s"
  by (auto simp: update_operation_def split: option.split)

lemma acquire_lease_frame [simp]:
  "st_operations (snd (acquire_lease now r w ttl s)) = st_operations s"
  "st_operation_calls (snd (acquire_lease now r w ttl s)) = st_operation_calls s"
  "st_sessions (snd (acquire_lease now r w ttl s)) = st_sessions s"
  by (auto simp: acquire_lease_def Let_def split: option.split)

lemma release_lease_frame [simp]:
  "st_operations (snd (release_lease r w tok s)) = st_operations s"
  "st_operation_calls (snd (release_lease r w tok s)) = st_operation_calls s"
  "st_sessions (snd (release_lease r w tok s)) = st_sessions s"
  by (auto simp: release_lease_def split: option.split)

lemma reload_snd [simp]: "snd (reload k s) = s"
  by (simp add: reload_def)

lemma op_le_refl: "op_le a a"
  by (auto simp: op_le_def dispatchable_def)

lemma op_le_trans: "op_le a b \<Longrightarrow> op_le b c \<Longrightarrow> op_le a c"
  by (auto simp: op_le_def dispatchable_def)

lemma store_le_refl: "store_le s s"
  by (auto simp: store_le_def intro: op_le_refl)

lemma store_le_trans: "store_le s t \<Longrightarrow> store_le t u \<Longrightarrow> store_le s u"
  unfolding store_le_def by (meson op_le_trans)

text \<open>A step that rewrites one operation row in an allowed way keeps invariant and order.\<close>

lemma store_leD:
  "store_le s s' \<Longrightarrow> map_of (st_operations s) k = Some op \<Longrightarrow>
   \<exists>op'. map_of (st_operations s') k = Some op' \<and> op_le op op'"
  by (simp add: store_le_def)

lemma store_inv_call:
  "store_inv s \<Longrightarrow> map_of (st_operation_calls s) c = Some k \<Longrightarrow>
   \<exists>op. map_of (st_operations s) k = Some op \<and> so_operation_key op = k"
  unfolding store_inv_def by (metis not_None_eq)

lemma safe_same:
  assumes "store_inv s" "st_operations s' = st_operations s" "st_operation_calls s' = st_operation_calls s"
  shows "safe_step s s'"
  using assms by (auto simp: safe_step_def store_inv_def store_le_def intro: op_le_refl)

lemma operation_for_call_key:
  "store_inv s \<Longrightarrow> operation_for_call c s = Some op \<Longrightarrow>
   map_of (st_operations s) (so_operation_key op) = Some op
   \<and> map_of (st_operation_calls s) c = Some (so_operation_key op)"
  by (auto simp: operation_for_call_def store_inv_def split: option.splits)

lemma safe_update:
  assumes "store_inv s" "operation_for_call c s = Some op" "op_le op (f op)"
    and "st_operations s' = st_operations (update_operation (so_operation_key op) f s)"
    and "st_operation_calls s' = st_operation_calls s"
  shows "safe_step s s'"
proof -
  let ?k = "so_operation_key op"
  have k: "map_of (st_operations s) ?k = Some op"
    using operation_for_call_key [OF assms(1,2)] by simp
  have get: "map_of (st_operations s') k' = (if k' = ?k then Some (f op) else map_of (st_operations s) k')" for k'
    using assms(4) k by (simp add: update_operation_get)
  have key: "so_operation_key (f op) = ?k"
    using assms(3) by (simp add: op_le_def)
  have "store_inv s'"
    using assms(1) key by (simp add: store_inv_def get assms(5))
  moreover have "store_le s s'"
    using assms(3) k by (simp add: store_le_def get assms(5) op_le_refl)
  ultimately show ?thesis by (simp add: safe_step_def)
qed

lemmas mark_intros = safe_same safe_update [where f = "\<lambda>r. r\<lparr>so_status := v, so_updated_at := n\<rparr>" for v n]
  safe_update [where f = "\<lambda>r. r\<lparr>so_status := v, so_error_message := m, so_updated_at := n\<rparr>" for v m n]
  safe_update [where f = "\<lambda>r. r\<lparr>so_status := v, so_execution_receipt := q, so_error_message := m, so_updated_at := n\<rparr>" for v q m n]

lemma validated_step: "store_inv s \<Longrightarrow> safe_step s (snd (mark_operation_validated now c s))"
  by (auto simp: mark_operation_validated_def op_le_def dispatchable_def
      split: option.split intro: mark_intros)

lemma failed_step: "store_inv s \<Longrightarrow> safe_step s (snd (mark_operation_failed now c m s))"
  by (auto simp: mark_operation_failed_def op_le_def dispatchable_def
      split: option.split intro: mark_intros)

lemma indeterminate_step: "store_inv s \<Longrightarrow> safe_step s (snd (mark_operation_indeterminate now c m s))"
  by (auto simp: mark_operation_indeterminate_def op_le_def dispatchable_def Let_def
      split: option.split intro: mark_intros)

lemma committed_step: "store_inv s \<Longrightarrow> safe_step s (snd (mark_operation_committed now c w tok r s))"
  by (auto simp: mark_operation_committed_def op_le_def dispatchable_def Let_def
      split: option.split intro: mark_intros)

lemma update_operation_cong:
  "st_operations s' = st_operations s \<Longrightarrow>
   st_operations (update_operation k f s') = st_operations (update_operation k f s)"
  by (simp add: update_operation_def split: option.split)

lemma submitted_step: "store_inv s \<Longrightarrow> safe_step s (snd (mark_operation_submitted now c w ttl s))"
proof (cases "operation_for_call c s")
  case (Some op)
  assume inv: "store_inv s"
  obtain l s' where a: "acquire_lease now (op_resource op) w ttl s = (l, s')" by fastforce
  have fr: "st_operations s' = st_operations s" "st_operation_calls s' = st_operation_calls s"
    using acquire_lease_frame [of now "op_resource op" w ttl s] a by simp_all
  show ?thesis
    using inv Some a fr
    by (auto simp: mark_operation_submitted_def op_le_def dispatchable_def
        split: option.split intro: safe_same mark_intros(2) update_operation_cong)
qed (simp add: mark_operation_submitted_def safe_same)

lemma insert_operation_get:
  "map_of (insert_operation env now l t h args ops) k = map_of ops k \<or>
   map_of ops k = None \<and> (\<exists>row. map_of (insert_operation env now l t h args ops) k = Some row
     \<and> so_operation_key row = k)"
  by (auto simp: insert_operation_def Let_def)

lemma prepare_step:
  assumes inv: "store_inv s"
  shows "safe_step s (snd (prepare_operation env now c l t h args s))"
proof -
  let ?key = "operation_key env l t h"
  let ?ops = "insert_operation env now l t h args (st_operations s)"
  have keep: "map_of (st_operations s) k = Some op \<Longrightarrow> map_of ?ops k = Some op" for k op
    using insert_operation_get [of env now l t h args "st_operations s" k] by auto
  have key: "map_of ?ops k = Some op \<Longrightarrow> so_operation_key op = k" for k op
    using insert_operation_get [of env now l t h args "st_operations s" k] inv by (auto simp: store_inv_def)
  have calls: "map_of (st_operation_calls s) c' = Some k \<Longrightarrow> \<exists>op. map_of ?ops k = Some op" for c' k
    using inv keep unfolding store_inv_def by (metis not_None_eq)
  have base: "safe_step s (s\<lparr>st_operations := ?ops\<rparr>)"
    using inv keep key calls by (auto simp: safe_step_def store_inv_def store_le_def intro: op_le_refl)
  have bind: "map_of ?ops ?key = Some op \<Longrightarrow> map_of (st_operation_calls s) c = None \<Longrightarrow>
      safe_step s (s\<lparr>st_operations := ?ops, st_operation_calls := AList.update c ?key (st_operation_calls s)\<rparr>)" for op
    using inv keep key calls by (auto simp: safe_step_def store_inv_def store_le_def intro: op_le_refl)
  show ?thesis
    using base bind inv by (auto simp: prepare_operation_def Let_def split: option.split intro: safe_same)
qed

lemma recover_ops:
  "map_of (st_operations (snd (recover_inflight_operations now m s))) k =
     map_option (\<lambda>op. if so_status op = SUBMITTED
       then op\<lparr>so_status := INDETERMINATE, so_error_message := Some m, so_updated_at := now\<rparr> else op)
     (map_of (st_operations s) k)"
  by (simp add: recover_inflight_operations_def Let_def map_of_map_snd)

lemma recover_step: "store_inv s \<Longrightarrow> safe_step s (snd (recover_inflight_operations now m s))"
proof -
  assume inv: "store_inv s"
  have "st_operation_calls (snd (recover_inflight_operations now m s)) = st_operation_calls s"
    by (simp add: recover_inflight_operations_def Let_def)
  with inv show ?thesis
    by (auto simp: safe_step_def store_inv_def store_le_def recover_ops op_le_def dispatchable_def)
qed

lemma store_step_safe: "store_inv s \<Longrightarrow> safe_step s (store_step env s e)"
  by (cases e)
    (auto simp: validated_step failed_step indeterminate_step committed_step submitted_step
      prepare_step recover_step create_session_def save_session_def prepare_attempt_def
      finish_attempt_def record_quota_lockout_def purge_expired_quota_lockouts_def Let_def
      split: option.split intro: safe_same)

interpretation store: step_order "store_step env" "\<lambda>_. True" store_inv store_le
  using store_step_safe by unfold_locales (auto simp: safe_step_def intro: store_le_refl elim: store_le_trans)

lemma empty_store_inv: "store_inv empty_store"
  by (simp add: store_inv_def empty_store_def)

lemma all_True [simp]: "list_all (\<lambda>_. True) xs"
  by (induction xs) simp_all

section \<open>At-most-once dispatch\<close>

lemma grants_iff:
  assumes "store_inv s"
  shows "grants key s e \<Longrightarrow>
    \<exists>op op'. map_of (st_operations s) key = Some op \<and> dispatchable (so_status op) \<and>
      map_of (st_operations (store_step env s e)) key = Some op' \<and> so_status op' = SUBMITTED"
proof -
  assume g: "grants key s e"
  then obtain now c w ttl where e: "e = Submit now c w ttl" by (auto simp: grants_def split: store_call.splits)
  with g have call: "map_of (st_operation_calls s) c = Some key" by (simp add: grants_def)
  with assms obtain op where op: "map_of (st_operations s) key = Some op" "so_operation_key op = key"
    using store_inv_call by blast
  have oc: "operation_for_call c s = Some op" using call op by (simp add: operation_for_call_def)
  obtain l s' where a: "acquire_lease now (op_resource op) w ttl s = (l, s')" by fastforce
  have fr: "st_operations s' = st_operations s"
    using acquire_lease_frame(1) [of now "op_resource op" w ttl s] a by simp
  from g e oc a have d: "dispatchable (so_status op)" and l: "l \<noteq> None"
    by (auto simp: grants_def mark_operation_submitted_def dispatchable_def split: if_splits option.splits)
  have "map_of (st_operations (store_step env s e)) key = Some (op\<lparr>so_status := SUBMITTED, so_updated_at := now\<rparr>)"
    using e oc a d l op fr
    by (auto simp: mark_operation_submitted_def dispatchable_def update_operation_get)
  with op d show ?thesis by fastforce
qed

lemma settled_never_granted:
  "store_inv s \<Longrightarrow> map_of (st_operations s) key = Some op \<Longrightarrow> \<not> dispatchable (so_status op) \<Longrightarrow>
   submissions env key s es = 0"
proof (induction es arbitrary: s op)
  case (Cons e es)
  have inv: "store_inv (store_step env s e)" by (rule store.step_inv) (use Cons.prems in auto)
  have "\<not> grants key s e" using grants_iff [OF Cons.prems(1), of key e env] Cons.prems by auto
  moreover obtain op' where "map_of (st_operations (store_step env s e)) key = Some op'" "op_le op op'"
    using store_step_safe [OF Cons.prems(1), of env e] store_leD [OF _ Cons.prems(2)]
    unfolding safe_step_def by blast
  ultimately show ?case
    using Cons.IH [OF inv] Cons.prems(3) by (auto simp: op_le_def)
qed simp

lemma submissions_le_1: "store_inv s \<Longrightarrow> submissions env key s es \<le> 1"
proof (induction es arbitrary: s)
  case (Cons e es)
  have inv: "store_inv (store_step env s e)" by (rule store.step_inv) (use Cons.prems in auto)
  show ?case
  proof (cases "grants key s e")
    case True
    from grants_iff [OF Cons.prems True, of env] obtain op' where
      "map_of (st_operations (store_step env s e)) key = Some op'" "so_status op' = SUBMITTED" by blast
    then have "submissions env key (store_step env s e) es = 0"
      by (intro settled_never_granted [OF inv]) (auto simp: dispatchable_def)
    then show ?thesis by simp
  qed (use Cons.IH [OF inv] in simp)
qed simp

section \<open>The contracts\<close>

definition lease_holder :: "'p sqlite_store \<Rightarrow> string \<Rightarrow> lease option" where
  "lease_holder s r = map_of (st_leases s) r"

interpretation sqlite_leases: lease_store acquire_lease release_lease lease_holder
proof unfold_locales
  fix s :: "'p sqlite_store" and r w now ttl
  assume h: "\<And>l. lease_holder s r = Some l \<Longrightarrow> ls_owner_id l = w \<or> ls_expires_at l \<le> now"
  show "\<exists>l. fst (acquire_lease now r w ttl s) = Some l
      \<and> lease_holder (snd (acquire_lease now r w ttl s)) = (lease_holder s)(r \<mapsto> l)
      \<and> ls_owner_id l = w \<and> ls_resource l = r \<and> now + ttl \<le> ls_expires_at l"
    using h by (cases "map_of (st_leases s) r") (auto simp: acquire_lease_def lease_holder_def Let_def)
next
  fix s :: "'p sqlite_store" and r l w now ttl
  assume "lease_holder s r = Some l" "ls_owner_id l \<noteq> w" "now < ls_expires_at l"
  then show "acquire_lease now r w ttl s = (None, s)"
    by (simp add: acquire_lease_def lease_holder_def Let_def)
next
  fix s :: "'p sqlite_store" and r w tok
  show "lease_holder (snd (release_lease r w tok s)) =
      (case lease_holder s r of None \<Rightarrow> lease_holder s
       | Some l \<Rightarrow> if ls_owner_id l = w \<and> ls_fencing_token l = tok then (lease_holder s)(r := None) else lease_holder s)"
    by (auto simp: release_lease_def delete_lease_def lease_holder_def fun_eq_iff split: option.split)
qed

interpretation sqlite_sessions: session_store load_session create_session save_session
  by unfold_locales
    (auto simp: load_session_def create_session_def save_session_def Let_def split: option.splits)

text \<open>Concrete histories: a digest, a submitted operation, a committed one, a leased resource.\<close>

definition demo_env :: digest_env where
  "demo_env = \<lparr>sha256 = (\<lambda>x. ''h'' @ x), float_repr = (\<lambda>_. ''f'')\<rparr>"

definition submitted_history :: "unit store_call list" where
  "submitted_history = [Prepare 0 ''c1'' ''op'' ''pay'' ''x'' (JObj []), Validate 1 ''c1'', Submit 2 ''c1'' ''w1'' 30]"

definition committed_history :: "unit store_call list" where
  "committed_history = submitted_history @ [Commit 3 ''c1'' ''w1'' 1 (JStr ''receipt'')]"

definition leased_store :: "unit sqlite_store" where
  "leased_store = snd (acquire_lease 0 ''session:s'' ''w1'' 30 empty_store)"

section \<open>Properties\<close>

text \<open>
  At most once. In every history of a store, restarts included, the permission to execute the
  external tool of one operation is granted at most once, whatever tool call ids, owners and
  clock readings the calls carry.
\<close>

theorem at_most_one_submission: "submissions env key (run (store_step env) empty_store es) fs \<le> 1
    \<and> submissions env key empty_store es \<le> 1"
  using submissions_le_1 [of "run (store_step env) empty_store es" env key fs]
    submissions_le_1 [OF empty_store_inv, of env key es]
    store.run_inv [OF empty_store_inv all_True, of env es] by simp

text \<open>
  C5: a committed receipt is permanent. Once an operation is COMMITTED with a receipt, every later
  state of the store holds the same operation, COMMITTED with the same receipt.
\<close>

theorem committed_receipt_permanent:
  assumes "s = run (store_step env) empty_store es" and "map_of (st_operations s) key = Some op"
    and "so_status op = COMMITTED"
  shows "\<exists>op'. map_of (st_operations (run (store_step env) s fs)) key = Some op'
    \<and> so_status op' = COMMITTED \<and> so_execution_receipt op' = so_execution_receipt op
    \<and> so_arguments op' = so_arguments op"
proof -
  have "store_inv s" unfolding assms(1) by (rule store.run_inv [OF empty_store_inv all_True])
  then have "store_le s (run (store_step env) s fs)" by (rule store.run_le [OF _ all_True])
  from store_leD [OF this assms(2)] assms(3) show ?thesis by (auto simp: op_le_def)
qed

theorem committed_receipt_permanent_witness:
  "let key = operation_key demo_env ''op'' ''pay'' ''x'' in
   \<exists>op'. map_of (st_operations (run (store_step demo_env) (run (store_step demo_env) empty_store committed_history)
       [Recover 9 ''restart'', Prepare 9 ''c2'' ''op'' ''pay'' ''x'' (JObj []), Fail 10 ''c2'' ''e''])) key = Some op'
     \<and> so_status op' = COMMITTED \<and> so_execution_receipt op' = Some (JStr ''receipt'')"
proof -
  let ?s = "run (store_step demo_env) empty_store committed_history"
  let ?key = "operation_key demo_env ''op'' ''pay'' ''x''"
  let ?op = "the (map_of (st_operations ?s) ?key)"
  have h: "map_of (st_operations ?s) ?key = Some ?op" "so_status ?op = COMMITTED" by code_simp+
  have r: "so_execution_receipt ?op = Some (JStr ''receipt'')" by code_simp
  show ?thesis unfolding Let_def using committed_receipt_permanent [OF refl h] r by metis
qed

text \<open>
  Recovery fails closed. After a restart no operation is SUBMITTED, and an operation whose
  acknowledgement was lost is INDETERMINATE; no later history grants its execution again or
  turns it into a committed one.
\<close>

theorem recovery_fails_closed:
  assumes "s = run (store_step env) empty_store es" and "map_of (st_operations s) key = Some op"
    and "so_status op = SUBMITTED"
  shows "let s' = store_step env s (Recover now m) in
    (\<forall>k o'. map_of (st_operations s') k = Some o' \<longrightarrow> so_status o' \<noteq> SUBMITTED) \<and>
    submissions env key s' fs = 0 \<and>
    (\<exists>o'. map_of (st_operations (run (store_step env) s' fs)) key = Some o'
       \<and> so_status o' \<in> {INDETERMINATE, FAILED})"
proof -
  let ?s = "store_step env s (Recover now m)"
  have "store_inv s" unfolding assms(1) by (rule store.run_inv [OF empty_store_inv all_True])
  then have inv: "store_inv ?s" by (rule store.step_inv) simp
  from assms obtain o1 where o1: "map_of (st_operations ?s) key = Some o1" "so_status o1 = INDETERMINATE"
    by (simp add: recover_ops)
  have "store_le ?s (run (store_step env) ?s fs)" by (rule store.run_le [OF inv all_True])
  from store_leD [OF this o1(1)] o1(2) have "\<exists>o'. map_of (st_operations (run (store_step env) ?s fs)) key = Some o'
       \<and> so_status o' \<in> {INDETERMINATE, FAILED}" by (auto simp: op_le_def)
  moreover have "submissions env key ?s fs = 0"
    using settled_never_granted [OF inv o1(1)] o1(2) by (simp add: dispatchable_def)
  moreover have "so_status o' \<noteq> SUBMITTED" if k: "map_of (st_operations ?s) k = Some o'" for k o'
  proof -
    from k obtain z where "o' = (if so_status z = SUBMITTED
        then z\<lparr>so_status := INDETERMINATE, so_error_message := Some m, so_updated_at := now\<rparr> else z)"
      unfolding store_step.simps recover_ops by blast
    then show ?thesis by (cases "so_status z = SUBMITTED") simp_all
  qed
  ultimately show ?thesis unfolding Let_def by blast
qed

theorem recovery_fails_closed_witness:
  "let key = operation_key demo_env ''op'' ''pay'' ''x'' in
   submissions demo_env key
     (store_step demo_env (run (store_step demo_env) empty_store submitted_history) (Recover 9 ''restart''))
     [Submit 100 ''c1'' ''w2'' 30] = 0"
proof -
  let ?s = "run (store_step demo_env) empty_store submitted_history"
  let ?key = "operation_key demo_env ''op'' ''pay'' ''x''"
  let ?op = "the (map_of (st_operations ?s) ?key)"
  have h: "map_of (st_operations ?s) ?key = Some ?op" "so_status ?op = SUBMITTED" by code_simp+
  show ?thesis
    using recovery_fails_closed [OF refl h, of 9 "''restart''" "[Submit 100 ''c1'' ''w2'' 30]"]
    by (simp only: Let_def)
qed



text \<open>
  Compare-and-swap. After a save against a revision has succeeded, no later save against the
  same revision succeeds: two writers that read the same session never both write it.
\<close>

theorem sqlite_session_no_lost_update:
  assumes "fst (save_session now i v p n s) = Some row"
  shows "fst (save_session now' i v' p' n
    (run (session_step create_session save_session) (snd (save_session now i v p n s)) es)) = None"
  using assms by (rule sqlite_sessions.save_once)

theorem sqlite_session_no_lost_update_witness:
  "let s = snd (create_session 0 ''s'' ''1'' () empty_store) in
   fst (save_session 3 ''s'' ''1'' () 1 (snd (save_session 1 ''s'' ''1'' () 1 s))) = None"
proof -
  let ?s = "snd (create_session 0 ''s'' ''1'' () empty_store)"
  have h: "fst (save_session 1 ''s'' ''1'' () 1 ?s) = Some (the (fst (save_session 1 ''s'' ''1'' () 1 ?s)))"
    by code_simp
  show ?thesis using sqlite_session_no_lost_update [OF h, of 3 "''1''" "()" "[]"] by (simp add: Let_def)
qed

text \<open>
  The fencing token is not monotone. A lease row is deleted on release, so the next owner
  starts again at token 1: a worker whose lease expired and was taken over and released holds
  a pair (owner, token) that a later lease of its own makes valid again, and two leases of
  different owners carry the same token.
\<close>

theorem fencing_token_restarts:
  "let s1 = snd (acquire_lease 0 r w1 10 s);
       s2 = snd (acquire_lease 20 r w2 10 s1);
       s3 = snd (release_lease r w2 2 s2);
       s4 = snd (acquire_lease 25 r w3 10 s3)
   in map_of (st_leases s) r = None \<longrightarrow> w1 \<noteq> w2 \<longrightarrow>
      map_option ls_fencing_token (map_of (st_leases s2) r) = Some 2 \<and>
      map_option ls_fencing_token (map_of (st_leases s4) r) = Some 1"
  by (auto simp: acquire_lease_def release_lease_def delete_lease_def Let_def)

theorem fencing_token_restarts_witness:
  "map_option ls_fencing_token (map_of (st_leases (snd (acquire_lease 25 ''r'' ''c'' 10
     (snd (release_lease ''r'' ''b'' 2 (snd (acquire_lease 20 ''r'' ''b'' 10
       (snd (acquire_lease 0 ''r'' ''a'' 10 (empty_store :: unit sqlite_store)))))))))) ''r'') = Some 1"
proof -
  have "map_of (st_leases (empty_store :: unit sqlite_store)) ''r'' = None" "''a'' \<noteq> ''b''" by code_simp+
  then show ?thesis
    using fencing_token_restarts [of "''r''" "''a''" "empty_store :: unit sqlite_store" "''b''" "''c''"]
    by (simp only: Let_def simp_thms)
qed

end
