(* ===== verification/DurableLedger.thy ===== *)
theory DurableLedger
  imports DurableStore "HOL-Library.Code_Target_Nat"
begin

text \<open>
  \<^verbatim>\<open>storage/tool_ledger.py\<close>: the tool ledger whose safety transitions are SQLite transactions.

  A durable ledger is the in-memory ledger it inherits from (without time-to-live), the owner id
  and the leases of its own submissions; several ledgers (processes) share one store.  Every
  method returns its result together with the ledger and the store: when a store call raises, the
  in-memory changes made before it stay, as in the code.  \<open>now\<close> is the clock reading of the call.

  The operations refine the store: each one is a sequence of at most one store transaction
  (\<open>store_calls\<close>), so what the store promises about every history holds for every
  interleaving of processes and restarts.
\<close>

record durable_ledger =
  dl_local :: tool_ledger
  dl_owner_id :: string
  dl_lease_ttl_seconds :: time
  dl_leases :: "(string, lease) dict"

definition restart_reason :: string where
  "restart_reason = ''Gateway restarted before tool acknowledgement''"

definition dl_open :: "time \<Rightarrow> string \<Rightarrow> time \<Rightarrow> bool \<Rightarrow> 'p sqlite_store \<Rightarrow> durable_ledger \<times> 'p sqlite_store" where
  "dl_open now owner_id lease_ttl_seconds recover_inflight s =
     (\<lparr>dl_local = new_tool_ledger 100000 None, dl_owner_id = owner_id,
       dl_lease_ttl_seconds = lease_ttl_seconds, dl_leases = []\<rparr>,
      if recover_inflight then snd (recover_inflight_operations now restart_reason s) else s)"

definition hydrate :: "tool_record \<Rightarrow> stored_operation \<Rightarrow> tool_record" where
  "hydrate rec op =
     rec\<lparr>tr_status := so_status op, tr_execution_receipt := so_execution_receipt op,
         tr_error_message := so_error_message op, tr_updated_at := so_updated_at op\<rparr>"

definition record_of_operation :: "string \<Rightarrow> stored_operation \<Rightarrow> tool_record" where
  "record_of_operation tool_call_id op =
     \<lparr>tr_tool_call_id = tool_call_id, tr_logical_operation_id = so_logical_operation_id op,
      tr_tool_name = so_tool_name op, tr_arguments_hash = so_arguments_hash op, tr_arguments = so_arguments op,
      tr_status = so_status op, tr_execution_receipt = so_execution_receipt op,
      tr_created_at = so_created_at op, tr_updated_at = so_updated_at op, tr_error_message = so_error_message op\<rparr>"

definition dl_get_record ::
  "string \<Rightarrow> durable_ledger \<Rightarrow> 'p sqlite_store \<Rightarrow> tool_record option \<times> durable_ledger" where
  "dl_get_record tool_call_id d s =
     (case get_record tool_call_id (dl_local d) of
        Some rec \<Rightarrow> (Some rec, d)
      | None \<Rightarrow>
          (case operation_for_call tool_call_id s of
             None \<Rightarrow> (None, d)
           | Some op \<Rightarrow>
               (let rec = record_of_operation tool_call_id op; loc = dl_local d
                in (Some rec, d\<lparr>dl_local := loc\<lparr>tl_records := AList.update tool_call_id rec (tl_records loc)\<rparr>\<rparr>))))"

definition dl_register_tool_call ::
  "digest_env \<Rightarrow> time \<Rightarrow> string \<Rightarrow> string \<Rightarrow> string \<Rightarrow> json \<Rightarrow> durable_ledger \<Rightarrow> 'p sqlite_store
    \<Rightarrow> tool_record result \<times> durable_ledger \<times> 'p sqlite_store" where
  "dl_register_tool_call env now tool_call_id logical_operation_id tool_name arguments d s =
     (case register_tool_call env now tool_call_id logical_operation_id tool_name arguments (dl_local d) of
        (rec, loc) \<Rightarrow>
          (case prepare_operation env now tool_call_id logical_operation_id tool_name
                  (tr_arguments_hash rec) (tr_arguments rec) s of
             (Inl e, s') \<Rightarrow> (Inl e, d\<lparr>dl_local := loc\<rparr>, s')
           | (Inr op, s') \<Rightarrow>
               (Inr (hydrate rec op), d\<lparr>dl_local := update_record tool_call_id (\<lambda>r. hydrate r op) loc\<rparr>, s')))"

definition dl_mark_validated ::
  "time \<Rightarrow> string \<Rightarrow> durable_ledger \<Rightarrow> 'p sqlite_store \<Rightarrow> unit result \<times> durable_ledger \<times> 'p sqlite_store" where
  "dl_mark_validated now tool_call_id d s =
     (case dl_get_record tool_call_id d s of
        (None, d') \<Rightarrow> (Inr (), d', s)
      | (Some rec, d') \<Rightarrow>
          if tr_status rec \<notin> {PROPOSED, VALIDATED} then (Inr (), d', s)
          else (case mark_operation_validated now tool_call_id s of
                  (Inl e, s') \<Rightarrow> (Inl e, d', s')
                | (Inr _, s') \<Rightarrow> (Inr (), d'\<lparr>dl_local := mark_validated now tool_call_id (dl_local d')\<rparr>, s')))"

definition dl_mark_submitted ::
  "time \<Rightarrow> string \<Rightarrow> durable_ledger \<Rightarrow> 'p sqlite_store \<Rightarrow> unit result \<times> durable_ledger \<times> 'p sqlite_store" where
  "dl_mark_submitted now tool_call_id d s =
     (case mark_operation_submitted now tool_call_id (dl_owner_id d) (dl_lease_ttl_seconds d) s of
        (Inl e, s') \<Rightarrow> (Inl e, d, s')
      | (Inr l, s') \<Rightarrow>
          (Inr (), d\<lparr>dl_leases := AList.update tool_call_id l (dl_leases d),
                     dl_local := mark_submitted now tool_call_id (dl_local d)\<rparr>, s'))"

definition dl_mark_committed ::
  "time \<Rightarrow> string \<Rightarrow> json \<Rightarrow> durable_ledger \<Rightarrow> 'p sqlite_store
    \<Rightarrow> unit result \<times> durable_ledger \<times> 'p sqlite_store" where
  "dl_mark_committed now tool_call_id receipt d s =
     (case map_of (dl_leases d) tool_call_id of
        None \<Rightarrow> (Inl RuntimeError, d, s)
      | Some l \<Rightarrow>
          (case mark_operation_committed now tool_call_id (dl_owner_id d) (ls_fencing_token l) receipt s of
             (Inl e, s') \<Rightarrow> (Inl e, d, s')
           | (Inr _, s') \<Rightarrow>
               (Inr (), d\<lparr>dl_leases := AList.delete tool_call_id (dl_leases d),
                          dl_local := mark_committed now now tool_call_id receipt (dl_local d)\<rparr>, s')))"

definition dl_mark_indeterminate ::
  "time \<Rightarrow> string \<Rightarrow> string \<Rightarrow> durable_ledger \<Rightarrow> 'p sqlite_store
    \<Rightarrow> unit result \<times> durable_ledger \<times> 'p sqlite_store" where
  "dl_mark_indeterminate now tool_call_id reason d s =
     (case mark_operation_indeterminate now tool_call_id reason s of
        (Inl e, s') \<Rightarrow> (Inl e, d, s')
      | (Inr _, s') \<Rightarrow>
          (Inr (), d\<lparr>dl_leases := AList.delete tool_call_id (dl_leases d),
                     dl_local := mark_indeterminate now tool_call_id reason (dl_local d)\<rparr>, s'))"

definition dl_mark_failed ::
  "time \<Rightarrow> string \<Rightarrow> string \<Rightarrow> durable_ledger \<Rightarrow> 'p sqlite_store
    \<Rightarrow> unit result \<times> durable_ledger \<times> 'p sqlite_store" where
  "dl_mark_failed now tool_call_id error_message d s =
     (case mark_operation_failed now tool_call_id error_message s of
        (Inl e, s') \<Rightarrow> (Inl e, d, s')
      | (Inr _, s') \<Rightarrow>
          (Inr (), d\<lparr>dl_local := mark_failed now tool_call_id error_message (dl_local d)\<rparr>, s'))"

definition dl_check_idempotency ::
  "digest_env \<Rightarrow> string \<Rightarrow> string \<Rightarrow> json \<Rightarrow> 'p sqlite_store \<Rightarrow> bool \<times> json option" where
  "dl_check_idempotency env logical_operation_id tool_name arguments s =
     (case operation_for_key env logical_operation_id tool_name (compute_arguments_hash env arguments) s of
        None \<Rightarrow> (False, None)
      | Some op \<Rightarrow> if so_status op = COMMITTED \<and> so_execution_receipt op \<noteq> None
                   then (True, so_execution_receipt op) else (False, None))"

definition dl_has_indeterminate_operation ::
  "digest_env \<Rightarrow> string \<Rightarrow> string \<Rightarrow> json \<Rightarrow> 'p sqlite_store \<Rightarrow> bool" where
  "dl_has_indeterminate_operation env logical_operation_id tool_name arguments s =
     (case operation_for_key env logical_operation_id tool_name (compute_arguments_hash env arguments) s of
        None \<Rightarrow> False
      | Some op \<Rightarrow> operation_requires_manual_resolution op)"

section \<open>Processes that share a store\<close>

datatype dl_event =
    Open time string time bool
  | DRegister time string string string json
  | DValidated time string
  | DSubmitted time string
  | DCommitted time string json
  | DIndeterminate time string string
  | DFailed time string string
  | DReplayed time string "json option"
  | DGet string

record 'p dl_system =
  sys_ledgers :: "(string, durable_ledger) dict"
  sys_store :: "'p sqlite_store"

definition boot :: "'p dl_system" where
  "boot = \<lparr>sys_ledgers = [], sys_store = empty_store\<rparr>"

text \<open>One call on the ledger \<open>d\<close>: whether it returned normally, the ledger and the store.\<close>

definition returned :: "'a result \<times> 'b \<Rightarrow> bool \<times> 'b" where
  "returned r = ((case fst r of Inl _ \<Rightarrow> False | Inr _ \<Rightarrow> True), snd r)"

fun dl_call :: "digest_env \<Rightarrow> dl_event \<Rightarrow> durable_ledger \<Rightarrow> 'p sqlite_store \<Rightarrow> bool \<times> durable_ledger \<times> 'p sqlite_store" where
  "dl_call env (Open now w ttl rec) d s = (True, dl_open now w ttl rec s)"
| "dl_call env (DRegister now c l t args) d s = returned (dl_register_tool_call env now c l t args d s)"
| "dl_call env (DValidated now c) d s = returned (dl_mark_validated now c d s)"
| "dl_call env (DSubmitted now c) d s = returned (dl_mark_submitted now c d s)"
| "dl_call env (DCommitted now c r) d s = returned (dl_mark_committed now c r d s)"
| "dl_call env (DIndeterminate now c m) d s = returned (dl_mark_indeterminate now c m d s)"
| "dl_call env (DFailed now c m) d s = returned (dl_mark_failed now c m d s)"
| "dl_call env (DReplayed now c r) d s = (True, d\<lparr>dl_local := mark_replayed now c r (dl_local d)\<rparr>, s)"
| "dl_call env (DGet c) d s = (True, snd (dl_get_record c d s), s)"

text \<open>A process that has not been opened cannot call; \<open>Open\<close> on a running one is its restart.\<close>

definition dl_result :: "digest_env \<Rightarrow> 'p dl_system \<Rightarrow> string \<times> dl_event \<Rightarrow> bool \<times> 'p dl_system" where
  "dl_result env sys e =
     (case e of (pid, call) \<Rightarrow>
        case (map_of (sys_ledgers sys) pid, call) of
          (None, Open now w ttl rec) \<Rightarrow>
            (case dl_open now w ttl rec (sys_store sys) of
               (d, s) \<Rightarrow> (True, \<lparr>sys_ledgers = AList.update pid d (sys_ledgers sys), sys_store = s\<rparr>))
        | (None, _) \<Rightarrow> (False, sys)
        | (Some d, _) \<Rightarrow>
            (case dl_call env call d (sys_store sys) of
               (ok, d', s) \<Rightarrow> (ok, \<lparr>sys_ledgers = AList.update pid d' (sys_ledgers sys), sys_store = s\<rparr>)))"

definition dl_step :: "digest_env \<Rightarrow> 'p dl_system \<Rightarrow> string \<times> dl_event \<Rightarrow> 'p dl_system" where
  "dl_step env sys e = snd (dl_result env sys e)"

definition dl_ok :: "digest_env \<Rightarrow> 'p dl_system \<Rightarrow> string \<times> dl_event \<Rightarrow> bool" where
  "dl_ok env sys e = fst (dl_result env sys e)"

text \<open>
  \<open>dispatches key sys es\<close>: how often in the run \<open>es\<close> a \<open>mark_submitted\<close> on operation
  \<open>key\<close> returns normally, in whatever process: the caller then executes the tool.
\<close>

definition dispatched :: "digest_env \<Rightarrow> string \<Rightarrow> 'p dl_system \<Rightarrow> string \<times> dl_event \<Rightarrow> bool" where
  "dispatched env key sys e =
     (case snd e of
        DSubmitted now c \<Rightarrow> map_of (st_operation_calls (sys_store sys)) c = Some key \<and> dl_ok env sys e
      | _ \<Rightarrow> False)"

fun dispatches :: "digest_env \<Rightarrow> string \<Rightarrow> 'p dl_system \<Rightarrow> (string \<times> dl_event) list \<Rightarrow> nat" where
  "dispatches env key sys [] = 0"
| "dispatches env key sys (e # es) =
     (if dispatched env key sys e then 1 else 0) + dispatches env key (dl_step env sys e) es"

section \<open>Refinement to the store\<close>

fun store_calls :: "digest_env \<Rightarrow> dl_event \<Rightarrow> durable_ledger \<Rightarrow> 'p sqlite_store \<Rightarrow> 'p store_call list" where
  "store_calls env (Open now w ttl rec) d s = (if rec then [Recover now restart_reason] else [])"
| "store_calls env (DRegister now c l t args) d s =
     (let rec = fst (register_tool_call env now c l t args (dl_local d))
      in [Prepare now c l t (tr_arguments_hash rec) (tr_arguments rec)])"
| "store_calls env (DValidated now c) d s =
     (case fst (dl_get_record c d s) of
        None \<Rightarrow> []
      | Some rec \<Rightarrow> if tr_status rec \<in> {PROPOSED, VALIDATED} then [Validate now c] else [])"
| "store_calls env (DSubmitted now c) d s = [Submit now c (dl_owner_id d) (dl_lease_ttl_seconds d)]"
| "store_calls env (DCommitted now c r) d s =
     (case map_of (dl_leases d) c of
        None \<Rightarrow> [] | Some l \<Rightarrow> [Commit now c (dl_owner_id d) (ls_fencing_token l) r])"
| "store_calls env (DIndeterminate now c m) d s = [Indet now c m]"
| "store_calls env (DFailed now c m) d s = [Fail now c m]"
| "store_calls env (DReplayed now c r) d s = []"
| "store_calls env (DGet c) d s = []"

lemma snd_returned [simp]: "snd (returned r) = snd r"
  by (simp add: returned_def)

lemma dl_call_store: "snd (snd (dl_call env call d s)) = run (store_step env) s (store_calls env call d s)"
proof (cases call)
  case (DValidated now c)
  then show ?thesis
    by (cases "dl_get_record c d s")
      (auto simp: dl_mark_validated_def split: option.split prod.split sum.split)
qed (auto simp: dl_open_def dl_register_tool_call_def dl_mark_submitted_def dl_mark_committed_def
    dl_mark_indeterminate_def dl_mark_failed_def Let_def split: prod.split sum.split option.split)

text \<open>The store calls behind one step of the system, and behind a run.\<close>

definition step_calls :: "digest_env \<Rightarrow> 'p dl_system \<Rightarrow> string \<times> dl_event \<Rightarrow> 'p store_call list" where
  "step_calls env sys e =
     (case e of (pid, call) \<Rightarrow>
        case (map_of (sys_ledgers sys) pid, call) of
          (None, Open now w ttl rec) \<Rightarrow> (if rec then [Recover now restart_reason] else [])
        | (None, _) \<Rightarrow> []
        | (Some d, _) \<Rightarrow> store_calls env call d (sys_store sys))"

lemma dl_step_store: "sys_store (dl_step env sys e) = run (store_step env) (sys_store sys) (step_calls env sys e)"
proof (cases e)
  case (Pair pid call)
  show ?thesis
  proof (cases "map_of (sys_ledgers sys) pid")
    case None
    with Pair show ?thesis
      by (cases call) (auto simp: dl_step_def dl_result_def step_calls_def dl_open_def)
  next
    case (Some d)
    with Pair show ?thesis
      using dl_call_store [of env call d "sys_store sys"]
      by (auto simp: dl_step_def dl_result_def step_calls_def split: prod.split)
  qed
qed

fun run_calls :: "digest_env \<Rightarrow> 'p dl_system \<Rightarrow> (string \<times> dl_event) list \<Rightarrow> 'p store_call list" where
  "run_calls env sys [] = []"
| "run_calls env sys (e # es) = step_calls env sys e @ run_calls env (dl_step env sys e) es"

lemma dl_run_store: "sys_store (run (dl_step env) sys es) = run (store_step env) (sys_store sys) (run_calls env sys es)"
  by (induction es arbitrary: sys) (simp_all add: dl_step_store run_append)

lemma submissions_append:
  "submissions env key s (xs @ ys) = submissions env key s xs + submissions env key (run (store_step env) s xs) ys"
  by (induction xs arbitrary: s) simp_all

lemma dispatched_grants:
  "dispatched env key sys e \<Longrightarrow> submissions env key (sys_store sys) (step_calls env sys e) = 1"
  by (auto simp: dispatched_def dl_ok_def dl_result_def step_calls_def grants_def dl_mark_submitted_def returned_def
      split: dl_event.splits option.splits prod.splits sum.splits)

lemma dispatches_le_submissions:
  "dispatches env key sys es \<le> submissions env key (sys_store sys) (run_calls env sys es)"
proof (induction es arbitrary: sys)
  case (Cons e es)
  then show ?case
    using dispatched_grants [of env key sys e] Cons [of "dl_step env sys e"]
    by (auto simp: submissions_append dl_step_store)
qed simp

lemma reachable_store_inv: "store_inv (sys_store (run (dl_step env) boot es))"
  using store.run_inv [OF empty_store_inv all_True] by (simp add: dl_run_store boot_def)

lemma dl_run_le:
  "store_inv (sys_store sys) \<Longrightarrow> store_le (sys_store sys) (sys_store (run (dl_step env) sys es))"
  using store.run_le [OF _ all_True] by (simp add: dl_run_store)

lemma commit_writes:
  assumes "store_inv (sys_store sys)" and "map_of (st_operation_calls (sys_store sys)) c = Some key"
    and "dl_ok env sys (pid, DCommitted now c r)"
  shows "\<exists>op. map_of (st_operations (sys_store (dl_step env sys (pid, DCommitted now c r)))) key = Some op
    \<and> so_status op = COMMITTED \<and> so_execution_receipt op = Some r"
proof -
  from store_inv_call [OF assms(1,2)] obtain op where
    op: "map_of (st_operations (sys_store sys)) key = Some op" "so_operation_key op = key" by blast
  have c: "operation_for_call c (sys_store sys) = Some op"
    using assms(2) op by (simp add: operation_for_call_def)
  from assms(3) obtain d l where d: "map_of (sys_ledgers sys) pid = Some d" "map_of (dl_leases d) c = Some l"
    by (auto simp: dl_ok_def dl_result_def dl_mark_committed_def returned_def split: option.splits)
  let ?m = "mark_operation_committed now c (dl_owner_id d) (ls_fencing_token l) r (sys_store sys)"
  from assms(3) d have "\<exists>x. fst ?m = Inr x"
    by (auto simp: dl_ok_def dl_result_def dl_mark_committed_def returned_def split: prod.splits sum.splits)
  then have "map_of (st_operations (snd ?m)) key =
      Some (op\<lparr>so_status := COMMITTED, so_execution_receipt := Some r, so_error_message := None, so_updated_at := now\<rparr>)"
    using c op by (auto simp: mark_operation_committed_def Let_def update_operation_get split: if_splits)
  moreover have "step_calls env sys (pid, DCommitted now c r)
      = [Commit now c (dl_owner_id d) (ls_fencing_token l) r]"
    using d by (simp add: step_calls_def)
  ultimately show ?thesis by (simp add: dl_step_store)
qed

definition two_process_history :: "(string \<times> dl_event) list" where
  "two_process_history = [(''p1'', Open 0 ''w1'' 30 True), (''p2'', Open 0 ''w2'' 30 True),
     (''p1'', DRegister 1 ''c1'' ''op'' ''pay'' (JInt 5)), (''p1'', DValidated 2 ''c1''),
     (''p1'', DSubmitted 3 ''c1'')]"

section \<open>Properties\<close>

text \<open>
  C1: end-to-end at-most-once. Let any number of gateway processes share a database and crash and
  restart at any point; in every interleaving of their ledger calls, at most one
  \<open>mark_submitted\<close> on a given operation returns, so its external tool is executed at most once.
\<close>

theorem ledger_at_most_once: "dispatches env key boot es \<le> 1"
proof -
  have "submissions env key (sys_store boot) (run_calls env boot es) \<le> 1"
    by (rule submissions_le_1) (simp add: boot_def empty_store_inv)
  with dispatches_le_submissions [of env key boot es] show ?thesis by (rule order_trans)
qed

text \<open>
  C12: once \<open>mark_committed\<close> has returned in some process, every later idempotency check of the
  same operation, in every process and after any restarts, answers with the committed receipt.
\<close>

theorem committed_receipt_survives:
  assumes "sys = run (dl_step env) boot es"
    and "map_of (st_operation_calls (sys_store sys)) c = Some (operation_key env l t (compute_arguments_hash env args))"
    and "dl_ok env sys (pid, DCommitted now c r)"
  shows "dl_check_idempotency env l t args
    (sys_store (run (dl_step env) (dl_step env sys (pid, DCommitted now c r)) fs)) = (True, Some r)"
proof -
  let ?sys = "dl_step env sys (pid, DCommitted now c r)"
  have inv: "store_inv (sys_store sys)" unfolding assms(1) by (rule reachable_store_inv)
  have "?sys = run (dl_step env) boot (es @ [(pid, DCommitted now c r)])"
    by (simp add: assms(1) run_append)
  then have inv': "store_inv (sys_store ?sys)" using reachable_store_inv by metis
  from commit_writes [OF inv assms(2,3)] obtain op where
    op: "map_of (st_operations (sys_store ?sys)) (operation_key env l t (compute_arguments_hash env args)) = Some op"
      "so_status op = COMMITTED" "so_execution_receipt op = Some r" by blast
  from store_leD [OF dl_run_le [OF inv', of env fs] op(1)] op(2,3) show ?thesis
    by (auto simp: dl_check_idempotency_def operation_for_key_def op_le_def)
qed

theorem committed_receipt_survives_witness:
  "dl_check_idempotency demo_env ''op'' ''pay'' (JInt 5)
     (sys_store (run (dl_step demo_env)
       (dl_step demo_env (run (dl_step demo_env) boot two_process_history) (''p1'', DCommitted 4 ''c1'' (JStr ''ok'')) :: unit dl_system)
       [(''p1'', Open 9 ''w3'' 30 True), (''p2'', DRegister 10 ''c2'' ''op'' ''pay'' (JInt 5)),
        (''p2'', DIndeterminate 11 ''c2'' ''lost'')])) = (True, Some (JStr ''ok''))"
proof -
  let ?sys = "run (dl_step demo_env) boot two_process_history :: unit dl_system"
  have h: "map_of (st_operation_calls (sys_store ?sys)) ''c1''
      = Some (operation_key demo_env ''op'' ''pay'' (compute_arguments_hash demo_env (JInt 5)))"
    "dl_ok demo_env ?sys (''p1'', DCommitted 4 ''c1'' (JStr ''ok''))" by code_simp+
  show ?thesis by (rule committed_receipt_survives [OF refl h])
qed

text \<open>
  A submission whose acknowledgement was lost blocks its operation. When a process opens its
  ledger with recovery, every operation that was SUBMITTED is reported as indeterminate by every
  process as long as nobody marks it failed, and it is never dispatched again.
\<close>

theorem lost_acknowledgement_blocks:
  assumes "sys = run (dl_step env) boot es"
    and "map_of (st_operations (sys_store sys)) (operation_key env l t (compute_arguments_hash env args)) = Some op"
    and "so_status op = SUBMITTED"
  shows "let sys' = dl_step env sys (pid, Open now w ttl True) in
    dl_has_indeterminate_operation env l t args (sys_store sys') \<and>
    dispatches env (operation_key env l t (compute_arguments_hash env args)) sys' fs = 0"
proof -
  let ?key = "operation_key env l t (compute_arguments_hash env args)"
  let ?sys = "dl_step env sys (pid, Open now w ttl True)"
  have "step_calls env sys (pid, Open now w ttl True) = [Recover now restart_reason]"
    by (simp add: step_calls_def split: option.split)
  then have st: "sys_store ?sys = snd (recover_inflight_operations now restart_reason (sys_store sys))"
    by (simp add: dl_step_store)
  with assms(2,3) obtain op' where op': "map_of (st_operations (sys_store ?sys)) ?key = Some op'"
    "so_status op' = INDETERMINATE" by (simp add: recover_ops)
  have "?sys = run (dl_step env) boot (es @ [(pid, Open now w ttl True)])"
    by (simp add: assms(1) run_append)
  then have inv': "store_inv (sys_store ?sys)" using reachable_store_inv by metis
  have "submissions env ?key (sys_store ?sys) (run_calls env ?sys fs) = 0"
    by (rule settled_never_granted [OF inv' op'(1)]) (simp add: op'(2) dispatchable_def)
  then show ?thesis
    using dispatches_le_submissions [of env ?key ?sys fs] op'
    by (simp add: dl_has_indeterminate_operation_def operation_for_key_def operation_requires_manual_resolution_def)
qed

theorem lost_acknowledgement_blocks_witness:
  "dl_has_indeterminate_operation demo_env ''op'' ''pay'' (JInt 5)
     (sys_store (dl_step demo_env (run (dl_step demo_env) boot two_process_history) (''p1'', Open 9 ''w3'' 30 True) :: unit dl_system))"
proof -
  let ?sys = "run (dl_step demo_env) boot two_process_history :: unit dl_system"
  let ?key = "operation_key demo_env ''op'' ''pay'' (compute_arguments_hash demo_env (JInt 5))"
  let ?op = "the (map_of (st_operations (sys_store ?sys)) ?key)"
  have h: "map_of (st_operations (sys_store ?sys)) ?key = Some ?op" "so_status ?op = SUBMITTED" by code_simp+
  show ?thesis
    using lost_acknowledgement_blocks [OF refl h, of "''p1''" 9 "''w3''" 30 "[]"] by (simp only: Let_def)
qed

end
