(* ===== verification/Cluster.thy ===== *)
theory Cluster
  imports DurableLedger Breaker
begin

text \<open>
  \<^verbatim>\<open>storage/cluster.py\<close>: the store shared by replicas, without a Redis client (the client is
  a third-party object; with none the code works on the dictionaries modelled here).  Leases carry
  a fencing counter of their own per resource, which a release does not reset.  Operation statuses
  are plain strings there.  The breaker states it replicates are those of theory \<open>Breaker\<close>.
\<close>

record cluster_operation =
  clo_operation_key :: string
  clo_logical_operation_id :: string
  clo_tool_name :: string
  clo_arguments_hash :: string
  clo_arguments :: json
  clo_status :: string
  clo_execution_receipt :: "json option"
  clo_created_at :: time
  clo_updated_at :: time

record token_bucket =
  tb_tokens :: rat
  tb_last_refill :: time

record 'p cluster_store =
  cl_sessions :: "(string, 'p stored_session) dict"
  cl_attempts :: "(string, stored_attempt) dict"
  cl_request_attempts :: "(string, string list) dict"
  cl_operations :: "(string, cluster_operation) dict"
  cl_key_to_op :: "(string, string) dict"
  cl_leases :: "(string, lease) dict"
  cl_fencing_counters :: "(string, nat) dict"
  cl_breaker_states :: cluster_breakers
  cl_token_buckets :: "(string, token_bucket) dict"

definition new_cluster_store :: "'p cluster_store" where
  "new_cluster_store =
     \<lparr>cl_sessions = [], cl_attempts = [], cl_request_attempts = [], cl_operations = [], cl_key_to_op = [],
      cl_leases = [], cl_fencing_counters = [], cl_breaker_states = [], cl_token_buckets = []\<rparr>"

definition cl_load_session :: "string \<Rightarrow> 'p cluster_store \<Rightarrow> 'p stored_session option" where
  "cl_load_session session_id s = map_of (cl_sessions s) session_id"

definition cl_create_session ::
  "time \<Rightarrow> string \<Rightarrow> string \<Rightarrow> 'p \<Rightarrow> 'p cluster_store \<Rightarrow> 'p stored_session option \<times> 'p cluster_store" where
  "cl_create_session now session_id protocol_version payload s =
     (let session = \<lparr>ss_session_id = session_id, ss_protocol_version = protocol_version, ss_payload = payload,
                     ss_revision = 1, ss_created_at = now, ss_updated_at = now\<rparr>
      in if map_of (cl_sessions s) session_id \<noteq> None then (None, s)
         else (Some session, s\<lparr>cl_sessions := AList.update session_id session (cl_sessions s)\<rparr>))"

definition cl_save_session ::
  "time \<Rightarrow> string \<Rightarrow> string \<Rightarrow> 'p \<Rightarrow> nat \<Rightarrow> 'p cluster_store \<Rightarrow> 'p stored_session option \<times> 'p cluster_store" where
  "cl_save_session now session_id protocol_version payload expected_revision s =
     (case cl_load_session session_id s of
        None \<Rightarrow> (None, s)
      | Some existing \<Rightarrow>
          if ss_revision existing \<noteq> expected_revision then (None, s)
          else (let updated = \<lparr>ss_session_id = session_id, ss_protocol_version = protocol_version,
                               ss_payload = payload, ss_revision = expected_revision + 1,
                               ss_created_at = ss_created_at existing, ss_updated_at = now\<rparr>
                in (Some updated, s\<lparr>cl_sessions := AList.update session_id updated (cl_sessions s)\<rparr>)))"

definition cl_prepare_attempt ::
  "time \<Rightarrow> string \<Rightarrow> string \<Rightarrow> json \<Rightarrow> 'p cluster_store \<Rightarrow> stored_attempt \<times> 'p cluster_store" where
  "cl_prepare_attempt now attempt_id request_id payload s =
     (let attempt = \<lparr>sa_attempt_id = attempt_id, sa_request_id = request_id, sa_status = ''PREPARED'',
                     sa_payload = payload, sa_created_at = now, sa_updated_at = now\<rparr>
      in (attempt, s\<lparr>cl_attempts := AList.update attempt_id attempt (cl_attempts s),
            cl_request_attempts := AList.update request_id
              (dict_get (cl_request_attempts s) request_id [] @ [attempt_id]) (cl_request_attempts s)\<rparr>))"

definition cl_load_attempt :: "string \<Rightarrow> 'p cluster_store \<Rightarrow> stored_attempt option" where
  "cl_load_attempt attempt_id s = map_of (cl_attempts s) attempt_id"

definition cl_attempts_for_request :: "string \<Rightarrow> 'p cluster_store \<Rightarrow> stored_attempt list" where
  "cl_attempts_for_request request_id s =
     List.map_filter (map_of (cl_attempts s)) (dict_get (cl_request_attempts s) request_id [])"

definition cl_finish_attempt ::
  "time \<Rightarrow> string \<Rightarrow> string \<Rightarrow> json \<Rightarrow> 'p cluster_store \<Rightarrow> stored_attempt \<times> 'p cluster_store" where
  "cl_finish_attempt now attempt_id status payload s =
     (let existing = cl_load_attempt attempt_id s;
          finished = \<lparr>sa_attempt_id = attempt_id,
                      sa_request_id = (case existing of None \<Rightarrow> [] | Some a \<Rightarrow> sa_request_id a),
                      sa_status = status, sa_payload = payload,
                      sa_created_at = (case existing of None \<Rightarrow> now | Some a \<Rightarrow> sa_created_at a),
                      sa_updated_at = now\<rparr>
      in (finished, s\<lparr>cl_attempts := AList.update attempt_id finished (cl_attempts s)\<rparr>))"

definition cl_prepare_operation ::
  "time \<Rightarrow> string \<Rightarrow> string \<Rightarrow> string \<Rightarrow> string \<Rightarrow> json \<Rightarrow> 'p cluster_store
    \<Rightarrow> cluster_operation \<times> 'p cluster_store" where
  "cl_prepare_operation now tool_call_id logical_operation_id tool_name arguments_hash arguments s =
     (let key = op_key logical_operation_id tool_name arguments_hash;
          opn = \<lparr>clo_operation_key = key, clo_logical_operation_id = logical_operation_id,
                clo_tool_name = tool_name, clo_arguments_hash = arguments_hash, clo_arguments = arguments,
                clo_status = ''PREPARED'', clo_execution_receipt = None, clo_created_at = now, clo_updated_at = now\<rparr>
      in (opn, s\<lparr>cl_operations := AList.update tool_call_id opn (cl_operations s),
                cl_key_to_op := AList.update key tool_call_id (cl_key_to_op s)\<rparr>))"

definition cl_operation_for_call :: "string \<Rightarrow> 'p cluster_store \<Rightarrow> cluster_operation option" where
  "cl_operation_for_call tool_call_id s = map_of (cl_operations s) tool_call_id"

definition cl_operation_for_key ::
  "string \<Rightarrow> string \<Rightarrow> string \<Rightarrow> 'p cluster_store \<Rightarrow> cluster_operation option" where
  "cl_operation_for_key logical_operation_id tool_name arguments_hash s =
     (let call_id = map_of (cl_key_to_op s) (op_key logical_operation_id tool_name arguments_hash)
      in if truthy_str call_id then map_of (cl_operations s) (the call_id) else None)"

definition cl_commit_receipt ::
  "time \<Rightarrow> string \<Rightarrow> json \<Rightarrow> 'p cluster_store \<Rightarrow> cluster_operation option \<times> 'p cluster_store" where
  "cl_commit_receipt now tool_call_id receipt s =
     (case map_of (cl_operations s) tool_call_id of
        None \<Rightarrow> (None, s)
      | Some opn \<Rightarrow>
          (let committed = opn\<lparr>clo_status := ''COMMITTED'', clo_execution_receipt := Some receipt, clo_updated_at := now\<rparr>
           in (Some committed, s\<lparr>cl_operations := AList.update tool_call_id committed (cl_operations s)\<rparr>)))"

definition cl_acquire_lease ::
  "time \<Rightarrow> string \<Rightarrow> string \<Rightarrow> time \<Rightarrow> 'p cluster_store \<Rightarrow> lease option \<times> 'p cluster_store" where
  "cl_acquire_lease now resource owner_id ttl_seconds s =
     (if (case map_of (cl_leases s) resource of
            None \<Rightarrow> False | Some current \<Rightarrow> ls_expires_at current > now \<and> ls_owner_id current \<noteq> owner_id)
      then (None, s)
      else (let fencing = dict_get (cl_fencing_counters s) resource 0 + 1;
                l = \<lparr>ls_resource = resource, ls_owner_id = owner_id, ls_fencing_token = fencing,
                     ls_expires_at = now + ttl_seconds\<rparr>
            in (Some l, s\<lparr>cl_fencing_counters := AList.update resource fencing (cl_fencing_counters s),
                          cl_leases := AList.update resource l (cl_leases s)\<rparr>)))"

definition cl_release_lease :: "string \<Rightarrow> string \<Rightarrow> nat \<Rightarrow> 'p cluster_store \<Rightarrow> bool \<times> 'p cluster_store" where
  "cl_release_lease resource owner_id fencing_token s =
     (case map_of (cl_leases s) resource of
        None \<Rightarrow> (True, s)
      | Some current \<Rightarrow>
          if ls_owner_id current = owner_id \<and> ls_fencing_token current = fencing_token
          then (True, s\<lparr>cl_leases := AList.delete resource (cl_leases s)\<rparr>) else (False, s))"

definition consume_tokens ::
  "time \<Rightarrow> string \<Rightarrow> rat \<Rightarrow> rat \<Rightarrow> rat \<Rightarrow> 'p cluster_store \<Rightarrow> bool \<times> 'p cluster_store" where
  "consume_tokens now key tokens capacity refill_rate_per_sec s =
     (let current_tokens =
            (case map_of (cl_token_buckets s) key of
               None \<Rightarrow> capacity
             | Some b \<Rightarrow> min capacity (tb_tokens b + max 0 (now - tb_last_refill b) * refill_rate_per_sec))
      in if current_tokens \<ge> tokens
         then (True, s\<lparr>cl_token_buckets :=
                 AList.update key \<lparr>tb_tokens = current_tokens - tokens, tb_last_refill = now\<rparr> (cl_token_buckets s)\<rparr>)
         else (False, s))"

section \<open>The contracts of the store protocols\<close>

definition cl_lease_holder :: "'p cluster_store \<Rightarrow> string \<Rightarrow> lease option" where
  "cl_lease_holder s r = map_of (cl_leases s) r"

interpretation cluster_leases: lease_store cl_acquire_lease cl_release_lease cl_lease_holder
proof unfold_locales
  fix s :: "'p cluster_store" and r w now ttl
  assume h: "\<And>l. cl_lease_holder s r = Some l \<Longrightarrow> ls_owner_id l = w \<or> ls_expires_at l \<le> now"
  have "cl_lease_holder s r = Some l \<Longrightarrow> \<not> (ls_expires_at l > now \<and> ls_owner_id l \<noteq> w)" for l
    using h [of l] by auto
  then show "\<exists>l. fst (cl_acquire_lease now r w ttl s) = Some l
      \<and> cl_lease_holder (snd (cl_acquire_lease now r w ttl s)) = (cl_lease_holder s)(r \<mapsto> l)
      \<and> ls_owner_id l = w \<and> ls_resource l = r \<and> now + ttl \<le> ls_expires_at l"
    by (cases "map_of (cl_leases s) r") (auto simp: cl_acquire_lease_def cl_lease_holder_def Let_def)
next
  fix s :: "'p cluster_store" and r l w now ttl
  assume "cl_lease_holder s r = Some l" "ls_owner_id l \<noteq> w" "now < ls_expires_at l"
  then show "cl_acquire_lease now r w ttl s = (None, s)"
    by (simp add: cl_acquire_lease_def cl_lease_holder_def)
next
  fix s :: "'p cluster_store" and r w tok
  show "cl_lease_holder (snd (cl_release_lease r w tok s)) =
      (case cl_lease_holder s r of None \<Rightarrow> cl_lease_holder s
       | Some l \<Rightarrow> if ls_owner_id l = w \<and> ls_fencing_token l = tok
                   then (cl_lease_holder s)(r := None) else cl_lease_holder s)"
    by (auto simp: cl_release_lease_def cl_lease_holder_def fun_eq_iff split: option.split)
qed

interpretation cluster_sessions: session_store cl_load_session cl_create_session cl_save_session
  by unfold_locales
    (auto simp: cl_load_session_def cl_create_session_def cl_save_session_def Let_def split: option.splits)

section \<open>Fencing tokens\<close>

definition fence :: "string \<Rightarrow> 'p cluster_store \<Rightarrow> nat" where
  "fence r s = dict_get (cl_fencing_counters s) r 0"

lemma acquire_fence:
  "fst (cl_acquire_lease now r w ttl s) = Some l \<Longrightarrow>
   ls_fencing_token l = Suc (fence r s) \<and> fence r (snd (cl_acquire_lease now r w ttl s)) = ls_fencing_token l"
  by (auto simp: cl_acquire_lease_def fence_def Let_def split: if_splits)

lemma lease_step_fence: "fence r s \<le> fence r (lease_step cl_acquire_lease cl_release_lease s e)"
  by (cases e) (auto simp: cl_acquire_lease_def cl_release_lease_def fence_def Let_def split: option.split)

interpretation cluster_fence:
  step_order "lease_step cl_acquire_lease cl_release_lease" "\<lambda>_. True" "\<lambda>_. True" "\<lambda>s s'. fence r s \<le> fence r s'"
  by unfold_locales (auto intro: lease_step_fence)

section \<open>The token bucket\<close>

text \<open>A run of requests \<open>(now, tokens)\<close> on one bucket, and the tokens it grants.\<close>

fun consume_run :: "string \<Rightarrow> rat \<Rightarrow> rat \<Rightarrow> 'p cluster_store \<Rightarrow> (time \<times> rat) list \<Rightarrow> rat" where
  "consume_run key cap rate s [] = 0"
| "consume_run key cap rate s ((now, n) # rs) =
     (case consume_tokens now key n cap rate s of
        (ok, s') \<Rightarrow> (if ok then n else 0) + consume_run key cap rate s' rs)"

fun ordered_from :: "time \<Rightarrow> (time \<times> rat) list \<Rightarrow> bool" where
  "ordered_from t [] = True"
| "ordered_from t ((now, n) # rs) = (t \<le> now \<and> ordered_from now rs)"

fun last_time :: "time \<Rightarrow> (time \<times> rat) list \<Rightarrow> time" where
  "last_time t [] = t"
| "last_time t ((now, n) # rs) = last_time now rs"

lemma last_time_ge: "ordered_from t rs \<Longrightarrow> t \<le> last_time t rs"
  by (induction t rs rule: ordered_from.induct) auto

lemma bucket_run_bound:
  assumes "0 \<le> rate" "0 \<le> cap" "ordered_from t rs"
    and "map_of (cl_token_buckets s) key = Some b" "0 \<le> tb_tokens b" "tb_last_refill b \<le> t"
  shows "consume_run key cap rate s rs \<le> tb_tokens b + rate * (last_time t rs - tb_last_refill b)"
  using assms(3-)
proof (induction rs arbitrary: t s b)
  case Nil
  then show ?case using assms(1) by simp
next
  case (Cons p rs)
  obtain now n where p: "p = (now, n)" by fastforce
  let ?cur = "min cap (tb_tokens b + max 0 (now - tb_last_refill b) * rate)"
  have ord: "t \<le> now" "ordered_from now rs" using Cons.prems(1) p by simp_all
  show ?case
  proof (cases "n \<le> ?cur")
    case True
    let ?b = "\<lparr>tb_tokens = ?cur - n, tb_last_refill = now\<rparr>"
    let ?s = "s\<lparr>cl_token_buckets := AList.update key ?b (cl_token_buckets s)\<rparr>"
    have "consume_run key cap rate ?s rs \<le> tb_tokens ?b + rate * (last_time now rs - tb_last_refill ?b)"
      by (rule Cons.IH) (use ord True in auto)
    moreover have "?cur \<le> tb_tokens b + rate * (now - tb_last_refill b)"
      using ord Cons.prems(4) by (simp add: mult.commute)
    moreover have "consume_tokens now key n cap rate s = (True, ?s)"
      using True Cons.prems(2) by (simp add: consume_tokens_def Let_def)
    ultimately show ?thesis using p by (simp add: algebra_simps)
  next
    case False
    then have "consume_tokens now key n cap rate s = (False, s)"
      using Cons.prems(2) by (simp add: consume_tokens_def Let_def)
    moreover have "consume_run key cap rate s rs \<le> tb_tokens b + rate * (last_time now rs - tb_last_refill b)"
      by (rule Cons.IH) (use ord Cons.prems in auto)
    ultimately show ?thesis using p by simp
  qed
qed

lemma fresh_bucket_bound:
  assumes "0 \<le> rate" "0 \<le> cap" "ordered_from t rs" "map_of (cl_token_buckets s) key = None"
  shows "consume_run key cap rate s rs \<le> cap + rate * (last_time t rs - t)"
  using assms(3,4)
proof (induction rs arbitrary: t)
  case Nil
  then show ?case using assms(2) by simp
next
  case (Cons p rs)
  obtain now n where p: "p = (now, n)" by fastforce
  have ord: "t \<le> now" "ordered_from now rs" using Cons.prems(1) p by simp_all
  have mono: "rate * (last_time now rs - now) \<le> rate * (last_time now rs - t)"
    using assms(1) ord(1) by (intro mult_left_mono) auto
  show ?case
  proof (cases "n \<le> cap")
    case True
    let ?b = "\<lparr>tb_tokens = cap - n, tb_last_refill = now\<rparr>"
    let ?s = "s\<lparr>cl_token_buckets := AList.update key ?b (cl_token_buckets s)\<rparr>"
    have "consume_run key cap rate ?s rs \<le> tb_tokens ?b + rate * (last_time now rs - tb_last_refill ?b)"
      by (rule bucket_run_bound [OF assms(1,2) ord(2)]) (use True in auto)
    moreover have "consume_tokens now key n cap rate s = (True, ?s)"
      using True Cons.prems(2) by (simp add: consume_tokens_def Let_def)
    ultimately show ?thesis using p mono by simp
  next
    case False
    then have "consume_tokens now key n cap rate s = (False, s)"
      using Cons.prems(2) by (simp add: consume_tokens_def Let_def)
    moreover have "consume_run key cap rate s rs \<le> cap + rate * (last_time now rs - now)"
      by (rule Cons.IH) (use ord Cons.prems in auto)
    ultimately show ?thesis using p mono by simp
  qed
qed

section \<open>Properties\<close>

text \<open>
  C16: the fencing tokens of the cluster store are
  strictly increasing: whatever calls lie between two grants of a resource, the later one carries
  the larger token, also after releases.
\<close>

theorem cluster_fencing_monotone:
  assumes "fst (cl_acquire_lease now r w ttl s) = Some l"
    and "fst (cl_acquire_lease now' r w' ttl'
      (run (lease_step cl_acquire_lease cl_release_lease) (snd (cl_acquire_lease now r w ttl s)) es)) = Some l'"
  shows "ls_fencing_token l < ls_fencing_token l'"
proof -
  let ?s = "snd (cl_acquire_lease now r w ttl s)"
  have "fence r ?s \<le> fence r (run (lease_step cl_acquire_lease cl_release_lease) ?s es)"
    by (rule cluster_fence.run_le) simp_all
  with acquire_fence [OF assms(1)] acquire_fence [OF assms(2)] show ?thesis by simp
qed

theorem cluster_fencing_monotone_witness:
  "let s = snd (cl_acquire_lease 0 ''r'' ''a'' 10 (new_cluster_store :: unit cluster_store));
       l = the (fst (cl_acquire_lease 0 ''r'' ''a'' 10 (new_cluster_store :: unit cluster_store)));
       s' = run (lease_step cl_acquire_lease cl_release_lease) s [LRelease ''r'' ''a'' 1]
   in ls_fencing_token l < ls_fencing_token (the (fst (cl_acquire_lease 5 ''r'' ''b'' 10 s')))"
proof -
  let ?a = "cl_acquire_lease 0 ''r'' ''a'' 10 (new_cluster_store :: unit cluster_store)"
  let ?s' = "run (lease_step cl_acquire_lease cl_release_lease) (snd ?a) [LRelease ''r'' ''a'' 1]"
  have h: "fst ?a = Some (the (fst ?a))"
    "fst (cl_acquire_lease 5 ''r'' ''b'' 10 ?s') = Some (the (fst (cl_acquire_lease 5 ''r'' ''b'' 10 ?s')))"
    by code_simp+
  show ?thesis unfolding Let_def by (rule cluster_fencing_monotone [OF h])
qed

text \<open>
  The rate limiter is a token bucket. On a key used for the first time, the requests granted
  from time \<open>t\<close> on add up to at most the capacity plus what the refill rate yields until the
  last request, for every sequence of request sizes and refusals.
\<close>

theorem token_bucket_bound:
  assumes "0 \<le> rate" and "0 \<le> cap" and "ordered_from t rs"
  shows "consume_run key cap rate new_cluster_store rs \<le> cap + rate * (last_time t rs - t)"
  by (rule fresh_bucket_bound [OF assms]) (simp add: new_cluster_store_def)

theorem token_bucket_bound_witness:
  "consume_run ''k'' 10 2 (new_cluster_store :: unit cluster_store) [(0, 8), (1, 8), (3, 8)] \<le> 16"
proof -
  have h: "(0 :: rat) \<le> 2" "(0 :: rat) \<le> 10" "ordered_from 0 [(0, 8), (1, 8), (3, 8)]" by simp_all
  show ?thesis using token_bucket_bound [OF h, of "''k''"] by simp
qed

text \<open>
  Unlike the SQLite store, the cluster store forgets a committed receipt: preparing the same
  operation again, under the same or another call id, replaces it by one without receipt.
\<close>

theorem cluster_prepare_forgets_receipt:
  assumes "c' \<noteq> []"
  shows "map_option clo_execution_receipt (cl_operation_for_key l t h
     (snd (cl_prepare_operation now' c' l t h args'
       (snd (cl_commit_receipt now c r (snd (cl_prepare_operation now0 c l t h args s))))))) = Some None"
  using assms by (simp add: cl_operation_for_key_def cl_prepare_operation_def truthy_str_def Let_def)

theorem cluster_prepare_forgets_receipt_witness:
  "map_option clo_execution_receipt (cl_operation_for_key ''op'' ''pay'' ''h''
     (snd (cl_prepare_operation 3 ''c2'' ''op'' ''pay'' ''h'' JNull
       (snd (cl_commit_receipt 2 ''c1'' (JStr ''ok'')
         (snd (cl_prepare_operation 1 ''c1'' ''op'' ''pay'' ''h'' JNull (new_cluster_store :: unit cluster_store)))))))) = Some None"
proof -
  have "''c2'' \<noteq> []" by simp
  then show ?thesis by (rule cluster_prepare_forgets_receipt)
qed

end
