(* ===== verification/Continuation.thy ===== *)
theory Continuation
  imports DurableStore
begin

text \<open>
  \<^verbatim>\<open>continuation/models.py\<close> and \<^verbatim>\<open>continuation/store.py\<close>: the Agent Continuation
  Protocol and its in-memory store.

  The type \<open>acp_payload\<close> is what a store keeps of a session (and what the SQLite store saves as
  its payload); the in-memory session extends it by its identity and its events.  Session, turn
  and event ids that the code draws from \<open>uuid4\<close> are arguments of the operations; SHA-256 is
  the parameter \<open>env\<close>; the normalised request and response enter as the JSON values whose
  digests are taken.

  The abstract protocol is the relation \<open>acp_step\<close> on the payload of one session; the locale
  \<open>acp_protocol\<close> states what it means for a store to implement it and derives, for every
  implementation, that each epoch of a session is completed at most once.
\<close>

definition ACP_VERSION :: string where
  "ACP_VERSION = ''lcb-acp/1''"

definition canonical_digest :: "digest_env \<Rightarrow> json \<Rightarrow> string" where
  "canonical_digest env value = sha256 env (dumps_compact (float_repr env) value)"

record continuation_request =
  cr_state_digest :: string
  cr_session_id :: "string option"
  cr_parent_checkpoint_digest :: "string option"
  cr_protocol_version :: string

record checkpoint =
  ck_checkpoint_id :: string
  ck_session_id :: string
  ck_turn_id :: string
  ck_epoch :: int
  ck_parent_checkpoint_digest :: "string option"
  ck_request_digest :: string
  ck_client_state_digest :: string
  ck_response_digest :: string
  ck_gateway_digest :: string
  ck_created_at :: time

record continuation_event =
  ce_event_id :: string
  ce_event_type :: string
  ce_session_id :: string
  ce_turn_id :: string
  ce_epoch :: int
  ce_protocol_version :: string
  ce_checkpoint :: "checkpoint option"
  ce_ack_required :: bool
  ce_detail :: "string option"

record continuation_turn =
  ct_session_id :: string
  ct_turn_id :: string
  ct_epoch :: int
  ct_parent_checkpoint_digest :: "string option"
  ct_client_state_digest :: string
  ct_protocol_version :: string

record acp_payload =
  next_epoch :: int
  active_turn_id :: "string option"
  active_epoch :: "int option"
  latest_checkpoint :: "checkpoint option"
  latest_checkpoint_acknowledged :: bool

record acp_session = acp_payload +
  as_session_id :: string
  as_protocol_version :: string
  as_events :: "continuation_event list"

type_synonym acp_store = "(string, acp_session) dict"

definition new_turn_id :: "string \<Rightarrow> string" where
  "new_turn_id uuid = ''acp_turn_'' @ uuid"

definition new_session_id :: "string \<Rightarrow> string" where
  "new_session_id uuid = ''acp_sess_'' @ uuid"

section \<open>Validation\<close>

definition identifier_char :: "char \<Rightarrow> bool" where
  "identifier_char c =
     (let n = (of_char c :: nat) in
      (65 \<le> n \<and> n \<le> 90) \<or> (97 \<le> n \<and> n \<le> 122) \<or> (48 \<le> n \<and> n \<le> 57) \<or> c \<in> set ''_.:-'')"

definition digest_char :: "char \<Rightarrow> bool" where
  "digest_char c = (let n = (of_char c :: nat) in (48 \<le> n \<and> n \<le> 57) \<or> (97 \<le> n \<and> n \<le> 102))"

definition valid_identifier :: "string \<Rightarrow> bool" where
  "valid_identifier v = (1 \<le> length v \<and> length v \<le> 128 \<and> list_all identifier_char v)"

definition valid_digest :: "string \<Rightarrow> bool" where
  "valid_digest v = (length v = 64 \<and> list_all digest_char v)"

definition valid_request :: "continuation_request \<Rightarrow> bool" where
  "valid_request r =
     (cr_protocol_version r = ACP_VERSION \<and>
      (truthy_str (cr_session_id r) \<longrightarrow> valid_identifier (the (cr_session_id r))) \<and>
      valid_digest (cr_state_digest r) \<and>
      (truthy_str (cr_parent_checkpoint_digest r) \<longrightarrow> valid_digest (the (cr_parent_checkpoint_digest r))))"

section \<open>Events and checkpoints\<close>

definition acp_event ::
  "string \<Rightarrow> string \<Rightarrow> continuation_turn \<Rightarrow> checkpoint option \<Rightarrow> bool \<Rightarrow> string option \<Rightarrow> continuation_event" where
  "acp_event uuid event_type turn ckpt ack_required detail =
     \<lparr>ce_event_id = ''acp_evt_'' @ uuid, ce_event_type = event_type, ce_session_id = ct_session_id turn,
      ce_turn_id = ct_turn_id turn, ce_epoch = ct_epoch turn, ce_protocol_version = ct_protocol_version turn,
      ce_checkpoint = ckpt, ce_ack_required = ack_required, ce_detail = detail\<rparr>"

definition jopt :: "string option \<Rightarrow> json" where
  "jopt s = (case s of None \<Rightarrow> JNull | Some t \<Rightarrow> JStr t)"

definition make_checkpoint ::
  "digest_env \<Rightarrow> time \<Rightarrow> continuation_turn \<Rightarrow> json \<Rightarrow> (string \<times> json) list \<Rightarrow> string \<Rightarrow> checkpoint" where
  "make_checkpoint env now turn request response selected_endpoint =
     (let request_digest = canonical_digest env request;
          response_digest = canonical_digest env
            (JObj (AList.update ''selected_endpoint'' (JStr selected_endpoint) response));
          gateway_digest = canonical_digest env (JObj
            [(''protocol_version'', JStr (ct_protocol_version turn)), (''session_id'', JStr (ct_session_id turn)),
             (''turn_id'', JStr (ct_turn_id turn)), (''epoch'', JInt (ct_epoch turn)),
             (''parent_checkpoint_digest'', jopt (ct_parent_checkpoint_digest turn)),
             (''request_digest'', JStr request_digest), (''client_state_digest'', JStr (ct_client_state_digest turn)),
             (''response_digest'', JStr response_digest), (''selected_endpoint'', JStr selected_endpoint)])
      in \<lparr>ck_checkpoint_id = ''acp_ckpt_'' @ take 24 gateway_digest, ck_session_id = ct_session_id turn,
          ck_turn_id = ct_turn_id turn, ck_epoch = ct_epoch turn,
          ck_parent_checkpoint_digest = ct_parent_checkpoint_digest turn, ck_request_digest = request_digest,
          ck_client_state_digest = ct_client_state_digest turn, ck_response_digest = response_digest,
          ck_gateway_digest = gateway_digest, ck_created_at = now\<rparr>)"

definition empty_payload :: acp_payload where
  "empty_payload = \<lparr>next_epoch = 0, active_turn_id = None, active_epoch = None, latest_checkpoint = None,
                    latest_checkpoint_acknowledged = True\<rparr>"

section \<open>The in-memory store\<close>

definition new_session :: "string \<Rightarrow> string \<Rightarrow> acp_session" where
  "new_session session_id protocol_version =
     acp_payload.extend empty_payload
       (acp_session.fields session_id protocol_version [])"

text \<open>The checks of \<open>begin_turn\<close> after a session was found or made: \<open>None\<close> admits the turn.\<close>

definition admission_error :: "continuation_request \<Rightarrow> ('z acp_payload_scheme) \<Rightarrow> gateway_error option" where
  "admission_error request session =
     (case latest_checkpoint session of
        None \<Rightarrow> None
      | Some latest \<Rightarrow>
          if \<not> latest_checkpoint_acknowledged session then Some (ContinuationProtocolError 409)
          else if cr_parent_checkpoint_digest request \<noteq> Some (ck_gateway_digest latest)
          then Some (ContinuationProtocolError 409) else None)"

definition make_turn :: "string \<Rightarrow> string \<Rightarrow> continuation_request \<Rightarrow> ('z acp_payload_scheme) \<Rightarrow> continuation_turn" where
  "make_turn turn_id session_id request session =
     \<lparr>ct_session_id = session_id, ct_turn_id = turn_id, ct_epoch = next_epoch session,
      ct_parent_checkpoint_digest = map_option ck_gateway_digest (latest_checkpoint session),
      ct_client_state_digest = cr_state_digest request, ct_protocol_version = cr_protocol_version request\<rparr>"

definition begin_turn ::
  "string \<Rightarrow> string \<Rightarrow> string \<Rightarrow> continuation_request \<Rightarrow> acp_store \<Rightarrow> continuation_turn result \<times> acp_store" where
  "begin_turn uuid_session uuid_turn uuid_event request sessions =
     (if \<not> valid_request request then (Inl (ContinuationProtocolError 400), sessions)
      else
        let session_id = (if truthy_str (cr_session_id request) then the (cr_session_id request)
                          else new_session_id uuid_session)
        in case (case map_of sessions session_id of
                   None \<Rightarrow> if truthy_str (cr_parent_checkpoint_digest request)
                           then Inl (ContinuationProtocolError 400)
                           else Inr (new_session session_id (cr_protocol_version request))
                 | Some session \<Rightarrow> if as_protocol_version session \<noteq> cr_protocol_version request
                                   then Inl (ContinuationProtocolError 409) else Inr session) of
             Inl e \<Rightarrow> (Inl e, sessions)
           | Inr session \<Rightarrow>
               (let sessions' = AList.update session_id session sessions in
                if truthy_str (active_turn_id session) then (Inl (ContinuationProtocolError 409), sessions')
                else case admission_error request session of
                       Some e \<Rightarrow> (Inl e, sessions')
                     | None \<Rightarrow>
                         (let turn = make_turn (new_turn_id uuid_turn) session_id request session
                          in (Inr turn, AList.update session_id
                                (session\<lparr>active_turn_id := Some (ct_turn_id turn), active_epoch := Some (ct_epoch turn),
                                         as_events := as_events session
                                           @ [acp_event uuid_event ''turn_started'' turn None False None]\<rparr>)
                                sessions'))))"

definition active_session :: "continuation_turn \<Rightarrow> acp_store \<Rightarrow> acp_session option" where
  "active_session turn sessions =
     (case map_of sessions (ct_session_id turn) of
        None \<Rightarrow> None
      | Some session \<Rightarrow>
          if (active_turn_id session, active_epoch session) \<noteq> (Some (ct_turn_id turn), Some (ct_epoch turn))
          then None else Some session)"

definition complete_turn ::
  "digest_env \<Rightarrow> time \<Rightarrow> string \<Rightarrow> continuation_turn \<Rightarrow> json \<Rightarrow> (string \<times> json) list \<Rightarrow> string \<Rightarrow> acp_store
    \<Rightarrow> continuation_event result \<times> acp_store" where
  "complete_turn env now uuid_event turn request response selected_endpoint sessions =
     (case active_session turn sessions of
        None \<Rightarrow> (Inl (ContinuationProtocolError 409), sessions)
      | Some session \<Rightarrow>
          (let ckpt = make_checkpoint env now turn request response selected_endpoint;
               event = acp_event uuid_event ''turn_completed'' turn (Some ckpt) True None
           in (Inr event, AList.update (ct_session_id turn)
                 (session\<lparr>active_turn_id := None, active_epoch := None, next_epoch := ct_epoch turn + 1,
                          latest_checkpoint := Some ckpt, latest_checkpoint_acknowledged := False,
                          as_events := as_events session @ [event]\<rparr>) sessions)))"

definition acknowledge ::
  "string \<Rightarrow> string \<Rightarrow> string \<Rightarrow> int \<Rightarrow> string \<Rightarrow> acp_store \<Rightarrow> continuation_event result \<times> acp_store" where
  "acknowledge uuid_event session_id turn_id epoch checkpoint_digest sessions =
     (if \<not> valid_identifier session_id \<or> \<not> valid_identifier turn_id \<or> \<not> valid_digest checkpoint_digest
      then (Inl (ContinuationProtocolError 400), sessions)
      else case map_of sessions session_id of
        None \<Rightarrow> (Inl (ContinuationProtocolError 404), sessions)
      | Some session \<Rightarrow>
          (case latest_checkpoint session of
             None \<Rightarrow> (Inl (ContinuationProtocolError 404), sessions)
           | Some ckpt \<Rightarrow>
               if (ck_turn_id ckpt, ck_epoch ckpt, ck_gateway_digest ckpt) \<noteq> (turn_id, epoch, checkpoint_digest)
               then (Inl (ContinuationProtocolError 409), sessions)
               else if latest_checkpoint_acknowledged session then (Inl (ContinuationProtocolError 409), sessions)
               else
                 (let turn = \<lparr>ct_session_id = session_id, ct_turn_id = turn_id, ct_epoch = epoch,
                              ct_parent_checkpoint_digest = ck_parent_checkpoint_digest ckpt,
                              ct_client_state_digest = ck_client_state_digest ckpt,
                              ct_protocol_version = as_protocol_version session\<rparr>;
                      event = acp_event uuid_event ''checkpoint_acknowledged'' turn (Some ckpt) False None
                  in (Inr event, AList.update session_id
                        (session\<lparr>latest_checkpoint_acknowledged := True,
                                 as_events := as_events session @ [event]\<rparr>) sessions))))"

definition interrupt_turn ::
  "string \<Rightarrow> continuation_turn \<Rightarrow> string \<Rightarrow> acp_store \<Rightarrow> continuation_event result \<times> acp_store" where
  "interrupt_turn uuid_event turn detail sessions =
     (case active_session turn sessions of
        None \<Rightarrow> (Inl (ContinuationProtocolError 409), sessions)
      | Some session \<Rightarrow>
          (let event = acp_event uuid_event ''turn_interrupted'' turn None False (Some detail)
           in (Inr event, AList.update (ct_session_id turn)
                 (session\<lparr>active_turn_id := None, active_epoch := None,
                          as_events := as_events session @ [event]\<rparr>) sessions)))"

section \<open>The abstract protocol\<close>

text \<open>What may happen to the payload of one session; \<open>None\<close> is a session that does not exist.\<close>

inductive acp_step :: "acp_payload option \<Rightarrow> acp_payload option \<Rightarrow> bool" where
  step_create: "acp_step None (Some empty_payload)"
| step_begin:
    "\<not> truthy_str (active_turn_id v) \<Longrightarrow> (latest_checkpoint v \<noteq> None \<longrightarrow> latest_checkpoint_acknowledged v) \<Longrightarrow>
     acp_step (Some v) (Some (v\<lparr>active_turn_id := Some t, active_epoch := Some (next_epoch v)\<rparr>))"
| step_drop: "acp_step (Some v) (Some (v\<lparr>active_turn_id := None, active_epoch := None\<rparr>))"
| step_complete:
    "active_turn_id v = Some (ck_turn_id c) \<Longrightarrow> active_epoch v = Some (ck_epoch c) \<Longrightarrow>
     acp_step (Some v) (Some \<lparr>next_epoch = ck_epoch c + 1, active_turn_id = None, active_epoch = None,
       latest_checkpoint = Some c, latest_checkpoint_acknowledged = False\<rparr>)"
| step_ack:
    "latest_checkpoint v \<noteq> None \<Longrightarrow> acp_step (Some v) (Some (v\<lparr>latest_checkpoint_acknowledged := True\<rparr>))"

abbreviation acp_reach :: "acp_payload option \<Rightarrow> acp_payload option \<Rightarrow> bool" where
  "acp_reach \<equiv> acp_step\<^sup>*\<^sup>*"

definition acp_ok :: "acp_payload option \<Rightarrow> bool" where
  "acp_ok p = (case p of None \<Rightarrow> True | Some v \<Rightarrow>
     (active_turn_id v = None \<longrightarrow> active_epoch v = None) \<and>
     (active_epoch v \<noteq> None \<longrightarrow> active_epoch v = Some (next_epoch v) \<and> latest_checkpoint_acknowledged v) \<and>
     (case latest_checkpoint v of
        None \<Rightarrow> next_epoch v = 0 \<and> latest_checkpoint_acknowledged v | Some c \<Rightarrow> ck_epoch c + 1 = next_epoch v))"

definition epoch_of :: "acp_payload option \<Rightarrow> int" where
  "epoch_of p = (case p of None \<Rightarrow> 0 | Some v \<Rightarrow> next_epoch v)"

lemma acp_step_ok: "acp_step p q \<Longrightarrow> acp_ok p \<Longrightarrow> acp_ok q \<and> epoch_of p \<le> epoch_of q"
  by (induction rule: acp_step.induct)
    (auto simp: acp_ok_def epoch_of_def empty_payload_def split: option.splits)

lemma acp_reach_ok: "acp_reach p q \<Longrightarrow> acp_ok p \<Longrightarrow> acp_ok q \<and> epoch_of p \<le> epoch_of q"
  by (induction rule: rtranclp_induct) (auto dest: acp_step_ok)

text \<open>A store implements the protocol when each of its calls is a path of it on every session.\<close>

locale acp_protocol = step_system step "\<lambda>_. True" inv
  for step :: "'s \<Rightarrow> 'e \<Rightarrow> 's" and inv :: "'s \<Rightarrow> bool" +
  fixes view :: "'s \<Rightarrow> string \<Rightarrow> acp_payload option"
    and completes :: "string \<Rightarrow> int \<Rightarrow> 's \<Rightarrow> 'e \<Rightarrow> bool"
  assumes step_refines: "inv s \<Longrightarrow> acp_reach (view s i) (view (step s e) i)"
    and completes_epoch:
      "inv s \<Longrightarrow> completes i n s e \<Longrightarrow> \<exists>v v'. view s i = Some v \<and> active_epoch v = Some n
         \<and> view (step s e) i = Some v' \<and> next_epoch v' = n + 1"
begin

lemma run_refines: "inv s \<Longrightarrow> acp_reach (view s i) (view (run step s es) i)"
proof (induction es arbitrary: s)
  case (Cons e es)
  have "acp_reach (view (step s e) i) (view (run step (step s e) es) i)"
    by (rule Cons.IH) (simp add: Cons.prems step_inv)
  with step_refines [OF Cons.prems, of i e] show ?case by simp
qed simp

lemma step_ok: "inv s \<Longrightarrow> acp_ok (view s i) \<Longrightarrow>
    inv (step s e) \<and> acp_ok (view (step s e) i) \<and> epoch_of (view s i) \<le> epoch_of (view (step s e) i)"
  using acp_reach_ok [OF step_refines] step_inv by blast

lemma past_epoch_closed:
  "inv s \<Longrightarrow> acp_ok (view s i) \<Longrightarrow> n < epoch_of (view s i) \<Longrightarrow> count_steps step (completes i n) s es = 0"
proof (induction es arbitrary: s)
  case (Cons e es)
  have "\<not> completes i n s e"
    using Cons.prems completes_epoch [of s i n e] by (auto simp: acp_ok_def epoch_of_def)
  with Cons.IH [of "step s e"] step_ok [OF Cons.prems(1,2), of e] Cons.prems(3) show ?case by simp
qed simp

lemma epoch_completed_once: "inv s \<Longrightarrow> acp_ok (view s i) \<Longrightarrow> count_steps step (completes i n) s es \<le> 1"
proof (induction es arbitrary: s)
  case (Cons e es)
  have ok: "inv (step s e)" "acp_ok (view (step s e) i)" using step_ok [OF Cons.prems] by simp_all
  show ?case
  proof (cases "completes i n s e")
    case True
    then have "n < epoch_of (view (step s e) i)"
      using completes_epoch [OF Cons.prems(1)] by (fastforce simp: epoch_of_def)
    with past_epoch_closed [OF ok this, of es] True show ?thesis by simp
  qed (use Cons.IH [OF ok] in simp)
qed simp

text \<open>What a client may rely on in every state reached from one where the session does not exist.\<close>

lemma session_ok:
  assumes "inv s" and "view s i = None"
  shows "acp_ok (view (run step s es) i) \<and> acp_reach None (view (run step s es) i)"
  using acp_reach_ok [OF run_refines [OF assms(1)], of i es] run_refines [OF assms(1), of i es] assms(2)
  by (simp add: acp_ok_def)

end

section \<open>The in-memory store implements the protocol\<close>

datatype acp_call =
    BeginTurn string string string continuation_request
  | CompleteTurn time string continuation_turn json "(string \<times> json) list" string
  | Acknowledge string string string int string
  | InterruptTurn string continuation_turn string

fun acp_store_step :: "digest_env \<Rightarrow> acp_store \<Rightarrow> acp_call \<Rightarrow> acp_store" where
  "acp_store_step env s (BeginTurn us ut ue r) = snd (begin_turn us ut ue r s)"
| "acp_store_step env s (CompleteTurn now ue turn rq rs ep) = snd (complete_turn env now ue turn rq rs ep s)"
| "acp_store_step env s (Acknowledge ue i t n d) = snd (acknowledge ue i t n d s)"
| "acp_store_step env s (InterruptTurn ue turn d) = snd (interrupt_turn ue turn d s)"

definition acp_view :: "acp_store \<Rightarrow> string \<Rightarrow> acp_payload option" where
  "acp_view s i = map_option acp_payload.truncate (map_of s i)"

definition returns :: "'a result \<times> 's \<Rightarrow> bool" where
  "returns r = (case fst r of Inl _ \<Rightarrow> False | Inr _ \<Rightarrow> True)"

definition mem_completes :: "digest_env \<Rightarrow> string \<Rightarrow> int \<Rightarrow> acp_store \<Rightarrow> acp_call \<Rightarrow> bool" where
  "mem_completes env i n s e =
     (case e of
        CompleteTurn now ue turn rq rs ep \<Rightarrow>
          ct_session_id turn = i \<and> ct_epoch turn = n \<and> returns (complete_turn env now ue turn rq rs ep s)
      | _ \<Rightarrow> False)"

lemma truncate_sel [simp]:
  "next_epoch (acp_payload.truncate v) = next_epoch v"
  "active_turn_id (acp_payload.truncate v) = active_turn_id v"
  "active_epoch (acp_payload.truncate v) = active_epoch v"
  "latest_checkpoint (acp_payload.truncate v) = latest_checkpoint v"
  "latest_checkpoint_acknowledged (acp_payload.truncate v) = latest_checkpoint_acknowledged v"
  by (simp_all add: acp_payload.truncate_def)

lemma truncate_new [simp]: "acp_payload.truncate (new_session i v) = empty_payload"
  by (simp add: new_session_def acp_payload.truncate_def acp_payload.extend_def acp_session.fields_def empty_payload_def)

lemma acp_view_update [simp]:
  "acp_view (AList.update i v s) j = (if j = i then Some (acp_payload.truncate v) else acp_view s j)"
  by (simp add: acp_view_def)

lemma truncate_upd [simp]:
  "acp_payload.truncate (v\<lparr>as_events := es\<rparr>) = acp_payload.truncate v"
  by (simp add: acp_payload.truncate_def)

lemma admission_ready: "admission_error r v = None \<Longrightarrow> latest_checkpoint v \<noteq> None \<longrightarrow> latest_checkpoint_acknowledged v"
  by (auto simp: admission_error_def split: option.splits if_splits)

lemma make_checkpoint_sel [simp]:
  "ck_turn_id (make_checkpoint env now turn rq rs ep) = ct_turn_id turn"
  "ck_epoch (make_checkpoint env now turn rq rs ep) = ct_epoch turn"
  "ck_session_id (make_checkpoint env now turn rq rs ep) = ct_session_id turn"
  "ck_parent_checkpoint_digest (make_checkpoint env now turn rq rs ep) = ct_parent_checkpoint_digest turn"
  by (simp_all add: make_checkpoint_def Let_def)

text \<open>The session \<open>begin_turn\<close> works on, found or new, is one the protocol can reach.\<close>

lemma opened_session_reach:
  "map_of s i = None \<and> v = new_session i pv \<or> map_of s i = Some v \<Longrightarrow>
   acp_reach (acp_view s i) (Some (acp_payload.truncate v))"
  by (auto simp: acp_view_def intro: r_into_rtranclp [of acp_step, OF step_create])

lemma begin_reach:
  assumes "\<not> truthy_str (active_turn_id v)" and "admission_error r v = None"
  shows "acp_step (Some (acp_payload.truncate v))
    (Some (acp_payload.truncate (v\<lparr>active_turn_id := Some t, active_epoch := Some (next_epoch v), as_events := es\<rparr>)))"
proof -
  have "acp_step (Some (acp_payload.truncate v))
      (Some ((acp_payload.truncate v)\<lparr>active_turn_id := Some t,
         active_epoch := Some (next_epoch (acp_payload.truncate v))\<rparr>))"
    using assms admission_ready [OF assms(2)] by (intro step_begin) simp_all
  then show ?thesis by (simp add: acp_payload.truncate_def)
qed

lemma begin_turn_refines: "acp_reach (acp_view s i) (acp_view (snd (begin_turn us ut ue r s)) i)"
proof (cases "valid_request r")
  case True
  define sid where "sid = (if truthy_str (cr_session_id r) then the (cr_session_id r) else new_session_id us)"
  define opened where "opened = (case map_of s sid of
       None \<Rightarrow> if truthy_str (cr_parent_checkpoint_digest r) then Inl (ContinuationProtocolError 400)
               else Inr (new_session sid (cr_protocol_version r))
     | Some session \<Rightarrow> if as_protocol_version session \<noteq> cr_protocol_version r
               then Inl (ContinuationProtocolError 409) else Inr session)"
  show ?thesis
  proof (cases opened)
    case (Inl e)
    then have "snd (begin_turn us ut ue r s) = s"
      using True by (simp add: begin_turn_def sid_def [symmetric] opened_def [symmetric] Let_def)
    then show ?thesis by simp
  next
    case (Inr v)
    have reach: "acp_reach (acp_view s sid) (Some (acp_payload.truncate v))"
      by (rule opened_session_reach [where pv = "cr_protocol_version r"])
        (use Inr in \<open>auto simp: opened_def split: option.splits if_splits\<close>)
    show ?thesis
      using True Inr reach begin_reach [where v = v and r = r and t = "new_turn_id ut"]
      by (auto simp: begin_turn_def sid_def [symmetric] opened_def [symmetric] Let_def make_turn_def
          split: option.split intro: rtranclp.rtrancl_into_rtrancl)
  qed
qed (simp add: begin_turn_def)

lemma active_sessionD:
  "active_session turn s = Some v \<Longrightarrow> map_of s (ct_session_id turn) = Some v
   \<and> active_turn_id v = Some (ct_turn_id turn) \<and> active_epoch v = Some (ct_epoch turn)"
  by (auto simp: active_session_def split: option.splits if_splits)

lemma complete_reach:
  assumes "active_turn_id v = Some (ck_turn_id c)" and "active_epoch v = Some (ck_epoch c)"
  shows "acp_step (Some (acp_payload.truncate v))
    (Some (acp_payload.truncate (v\<lparr>active_turn_id := None, active_epoch := None, next_epoch := ck_epoch c + 1,
       latest_checkpoint := Some c, latest_checkpoint_acknowledged := False, as_events := es\<rparr>)))"
  using step_complete [of "acp_payload.truncate v" c] assms by (simp add: acp_payload.truncate_def)

lemma complete_turn_refines: "acp_reach (acp_view s i) (acp_view (snd (complete_turn env now ue turn rq rs ep s)) i)"
proof (cases "active_session turn s")
  case (Some v)
  let ?c = "make_checkpoint env now turn rq rs ep"
  note a = active_sessionD [OF Some]
  show ?thesis
    using Some a complete_reach [of v ?c]
    by (auto simp: complete_turn_def Let_def acp_view_def)
qed (simp add: complete_turn_def)

lemma drop_reach:
  "acp_step (Some (acp_payload.truncate v))
    (Some (acp_payload.truncate (v\<lparr>active_turn_id := None, active_epoch := None, as_events := es\<rparr>)))"
  using step_drop [of "acp_payload.truncate v"] by (simp add: acp_payload.truncate_def)

lemma interrupt_turn_refines: "acp_reach (acp_view s i) (acp_view (snd (interrupt_turn ue turn d s)) i)"
proof (cases "active_session turn s")
  case (Some v)
  with active_sessionD [OF Some] drop_reach [of v] show ?thesis
    by (auto simp: interrupt_turn_def Let_def acp_view_def)
qed (simp add: interrupt_turn_def)

lemma ack_reach:
  "latest_checkpoint v \<noteq> None \<Longrightarrow> acp_step (Some (acp_payload.truncate v))
    (Some (acp_payload.truncate (v\<lparr>latest_checkpoint_acknowledged := True, as_events := es\<rparr>)))"
  using step_ack [of "acp_payload.truncate v"] by (simp add: acp_payload.truncate_def)

lemma acknowledge_refines: "acp_reach (acp_view s i) (acp_view (snd (acknowledge ue j t n d s)) i)"
proof (cases "map_of s j")
  case (Some v)
  then show ?thesis
    using ack_reach [of v] by (auto simp: acknowledge_def Let_def acp_view_def split: option.split)
qed (simp add: acknowledge_def)

lemma mem_completes_epoch:
  assumes "mem_completes env i n s e"
  shows "\<exists>v v'. acp_view s i = Some v \<and> active_epoch v = Some n
    \<and> acp_view (acp_store_step env s e) i = Some v' \<and> next_epoch v' = n + 1"
proof -
  from assms obtain now ue turn rq rs ep where e: "e = CompleteTurn now ue turn rq rs ep"
    "ct_session_id turn = i" "ct_epoch turn = n" "returns (complete_turn env now ue turn rq rs ep s)"
    by (auto simp: mem_completes_def split: acp_call.splits)
  then obtain v where v: "active_session turn s = Some v"
    by (auto simp: returns_def complete_turn_def split: option.splits)
  with active_sessionD [OF v] e(1-3) show ?thesis
    by (auto simp: complete_turn_def Let_def acp_view_def)
qed

interpretation memory_acp: acp_protocol "acp_store_step env" "\<lambda>_. True" acp_view "mem_completes env"
proof unfold_locales
  fix s i e
  show "acp_reach (acp_view s i) (acp_view (acp_store_step env s e) i)"
    by (cases e) (simp_all add: begin_turn_refines complete_turn_refines acknowledge_refines interrupt_turn_refines)
qed (auto dest: mem_completes_epoch)

section \<open>Properties\<close>


end
