(* ===== verification/DurableContinuation.thy ===== *)
theory DurableContinuation
  imports Continuation "HOL-Library.Code_Target_Nat"
begin

text \<open>
  \<^verbatim>\<open>continuation/sqlite.py\<close>: the continuation store on the SQLite store.

  A gateway process is its owner id, the lease duration and the leases of its live turns; the
  sessions live in the shared store with \<open>acp_payload\<close> as payload.  A method is one step of the
  model with one clock reading; the store transactions inside it happen in the order of the code
  and the \<open>finally\<close> blocks are the releases at the end of every branch.  Processes interleave at
  method boundaries, crash (a new process record with no leases) and see leases expire.
\<close>

record acp_process =
  ap_owner_id :: string
  ap_lease_ttl_seconds :: time
  ap_turn_leases :: "(string, lease) dict"

type_synonym acp_db = "acp_payload sqlite_store"

definition acquire_session :: "time \<Rightarrow> string \<Rightarrow> acp_process \<Rightarrow> acp_db \<Rightarrow> lease result \<times> acp_db" where
  "acquire_session now session_id p s =
     (case acquire_lease now (''session:'' @ session_id) (ap_owner_id p) (ap_lease_ttl_seconds p) s of
        (None, s') \<Rightarrow> (Inl (ContinuationProtocolError 409), s')
      | (Some l, s') \<Rightarrow> (Inr l, s'))"

definition release_session :: "lease \<Rightarrow> acp_process \<Rightarrow> acp_db \<Rightarrow> acp_db" where
  "release_session l p s = snd (release_lease (ls_resource l) (ap_owner_id p) (ls_fencing_token l) s)"

definition load_or_create ::
  "time \<Rightarrow> continuation_request \<Rightarrow> string \<Rightarrow> acp_db \<Rightarrow> acp_payload stored_session result \<times> acp_db" where
  "load_or_create now request session_id s =
     (case load_session session_id s of
        Some session \<Rightarrow> (Inr session, s)
      | None \<Rightarrow>
          if truthy_str (cr_parent_checkpoint_digest request) then (Inl (ContinuationProtocolError 400), s)
          else (case create_session now session_id (cr_protocol_version request) empty_payload s of
                  (Some created, s') \<Rightarrow> (Inr created, s')
                | (None, s') \<Rightarrow>
                    (case load_session session_id s' of
                       None \<Rightarrow> (Inl (ContinuationProtocolError 503), s')
                     | Some session \<Rightarrow> (Inr session, s'))))"

definition save_payload ::
  "time \<Rightarrow> acp_payload stored_session \<Rightarrow> acp_payload \<Rightarrow> acp_db \<Rightarrow> acp_payload stored_session result \<times> acp_db" where
  "save_payload now session payload s =
     (case save_session now (ss_session_id session) (ss_protocol_version session) payload (ss_revision session) s of
        (None, s') \<Rightarrow> (Inl (ContinuationProtocolError 409), s')
      | (Some saved, s') \<Rightarrow> (Inr saved, s'))"

text \<open>The part of \<open>begin_turn\<close> that discards the turn of a process that is gone.\<close>

definition clear_stale_turn ::
  "time \<Rightarrow> acp_payload stored_session \<Rightarrow> acp_db \<Rightarrow> acp_payload stored_session result \<times> acp_db" where
  "clear_stale_turn now session s =
     (if truthy_str (active_turn_id (ss_payload session))
      then save_payload now session ((ss_payload session)\<lparr>active_turn_id := None, active_epoch := None\<rparr>) s
      else (Inr session, s))"

text \<open>The part that admits and records the new turn.\<close>

definition start_turn ::
  "time \<Rightarrow> string \<Rightarrow> continuation_request \<Rightarrow> string \<Rightarrow> acp_payload stored_session \<Rightarrow> acp_db
    \<Rightarrow> continuation_turn result \<times> acp_db" where
  "start_turn now uuid_turn request session_id session s =
     (case admission_error request (ss_payload session) of
        Some e \<Rightarrow> (Inl e, s)
      | None \<Rightarrow>
          (let turn = make_turn (new_turn_id uuid_turn) session_id request (ss_payload session)
           in case save_payload now session
                     ((ss_payload session)\<lparr>active_turn_id := Some (ct_turn_id turn),
                                           active_epoch := Some (ct_epoch turn)\<rparr>) s of
                (Inl e, s') \<Rightarrow> (Inl e, s')
              | (Inr _, s') \<Rightarrow> (Inr turn, s')))"

definition sq_begin_turn ::
  "time \<Rightarrow> string \<Rightarrow> string \<Rightarrow> continuation_request \<Rightarrow> acp_process \<Rightarrow> acp_db
    \<Rightarrow> continuation_turn result \<times> acp_process \<times> acp_db" where
  "sq_begin_turn now uuid_session uuid_turn request p s =
     (if \<not> valid_request request then (Inl (ContinuationProtocolError 400), p, s)
      else
        let session_id = (if truthy_str (cr_session_id request) then the (cr_session_id request)
                          else new_session_id uuid_session)
        in case acquire_session now session_id p s of
             (Inl e, s1) \<Rightarrow> (Inl e, p, s1)
           | (Inr l, s1) \<Rightarrow>
               (case load_or_create now request session_id s1 of
                  (Inl e, s2) \<Rightarrow> (Inl e, p, release_session l p s2)
                | (Inr session, s2) \<Rightarrow>
                    if ss_protocol_version session \<noteq> cr_protocol_version request
                    then (Inl (ContinuationProtocolError 409), p, release_session l p s2)
                    else if truthy_str (active_turn_id (ss_payload session))
                            \<and> map_of (ap_turn_leases p) (the (active_turn_id (ss_payload session))) \<noteq> None
                    then (Inl (ContinuationProtocolError 409), p, s2)
                    else
                      (case clear_stale_turn now session s2 of
                         (Inl e, s3) \<Rightarrow> (Inl e, p, release_session l p s3)
                       | (Inr session', s3) \<Rightarrow>
                           (case start_turn now uuid_turn request session_id session' s3 of
                              (Inl e, s4) \<Rightarrow> (Inl e, p, release_session l p s4)
                            | (Inr turn, s4) \<Rightarrow>
                                (Inr turn, p\<lparr>ap_turn_leases := AList.update (ct_turn_id turn) l (ap_turn_leases p)\<rparr>, s4)))))"

definition sq_active_session :: "continuation_turn \<Rightarrow> acp_db \<Rightarrow> acp_payload stored_session option" where
  "sq_active_session turn s =
     (case load_session (ct_session_id turn) s of
        None \<Rightarrow> None
      | Some session \<Rightarrow>
          if ss_protocol_version session \<noteq> ct_protocol_version turn
             \<or> (active_turn_id (ss_payload session), active_epoch (ss_payload session))
                 \<noteq> (Some (ct_turn_id turn), Some (ct_epoch turn))
          then None else Some session)"

definition completed_payload :: "continuation_turn \<Rightarrow> checkpoint \<Rightarrow> acp_payload" where
  "completed_payload turn ckpt =
     \<lparr>next_epoch = ct_epoch turn + 1, active_turn_id = None, active_epoch = None,
      latest_checkpoint = Some ckpt, latest_checkpoint_acknowledged = False\<rparr>"

definition sq_complete_turn ::
  "digest_env \<Rightarrow> time \<Rightarrow> string \<Rightarrow> continuation_turn \<Rightarrow> json \<Rightarrow> (string \<times> json) list \<Rightarrow> string
    \<Rightarrow> acp_process \<Rightarrow> acp_db \<Rightarrow> continuation_event result \<times> acp_process \<times> acp_db" where
  "sq_complete_turn env now uuid_event turn request response selected_endpoint p s =
     (case map_of (ap_turn_leases p) (ct_turn_id turn) of
        None \<Rightarrow> (Inl (ContinuationProtocolError 409), p, s)
      | Some l \<Rightarrow>
          (let p' = p\<lparr>ap_turn_leases := AList.delete (ct_turn_id turn) (ap_turn_leases p)\<rparr> in
           case sq_active_session turn s of
             None \<Rightarrow> (Inl (ContinuationProtocolError 409), p', release_session l p s)
           | Some session \<Rightarrow>
               (let ckpt = make_checkpoint env now turn request response selected_endpoint in
                case save_payload now session (completed_payload turn ckpt) s of
                  (Inl e, s') \<Rightarrow> (Inl e, p', release_session l p s')
                | (Inr _, s') \<Rightarrow>
                    (Inr (acp_event uuid_event ''turn_completed'' turn (Some ckpt) True None), p',
                     release_session l p s'))))"

definition sq_acknowledge ::
  "time \<Rightarrow> string \<Rightarrow> string \<Rightarrow> string \<Rightarrow> int \<Rightarrow> string \<Rightarrow> acp_process \<Rightarrow> acp_db
    \<Rightarrow> continuation_event result \<times> acp_process \<times> acp_db" where
  "sq_acknowledge now uuid_event session_id turn_id epoch checkpoint_digest p s =
     (if \<not> valid_identifier session_id \<or> \<not> valid_identifier turn_id \<or> \<not> valid_digest checkpoint_digest
      then (Inl (ContinuationProtocolError 400), p, s)
      else case acquire_session now session_id p s of
        (Inl e, s1) \<Rightarrow> (Inl e, p, s1)
      | (Inr l, s1) \<Rightarrow>
          (case load_session session_id s1 of
             None \<Rightarrow> (Inl (ContinuationProtocolError 404), p, release_session l p s1)
           | Some session \<Rightarrow>
               (case latest_checkpoint (ss_payload session) of
                  None \<Rightarrow> (Inl (ContinuationProtocolError 404), p, release_session l p s1)
                | Some ckpt \<Rightarrow>
                    if (ck_turn_id ckpt, ck_epoch ckpt, ck_gateway_digest ckpt) \<noteq> (turn_id, epoch, checkpoint_digest)
                       \<or> latest_checkpoint_acknowledged (ss_payload session)
                    then (Inl (ContinuationProtocolError 409), p, release_session l p s1)
                    else
                      (case save_payload now session ((ss_payload session)\<lparr>latest_checkpoint_acknowledged := True\<rparr>) s1 of
                         (Inl e, s2) \<Rightarrow> (Inl e, p, release_session l p s2)
                       | (Inr _, s2) \<Rightarrow>
                           (let turn = \<lparr>ct_session_id = session_id, ct_turn_id = turn_id, ct_epoch = epoch,
                                        ct_parent_checkpoint_digest = ck_parent_checkpoint_digest ckpt,
                                        ct_client_state_digest = ck_client_state_digest ckpt,
                                        ct_protocol_version = ss_protocol_version session\<rparr>
                            in (Inr (acp_event uuid_event ''checkpoint_acknowledged'' turn (Some ckpt) False None), p,
                                release_session l p s2))))))"

definition sq_interrupt_turn ::
  "time \<Rightarrow> string \<Rightarrow> continuation_turn \<Rightarrow> string \<Rightarrow> acp_process \<Rightarrow> acp_db
    \<Rightarrow> continuation_event result \<times> acp_process \<times> acp_db" where
  "sq_interrupt_turn now uuid_event turn detail p s =
     (case map_of (ap_turn_leases p) (ct_turn_id turn) of
        None \<Rightarrow> (Inl (ContinuationProtocolError 409), p, s)
      | Some l \<Rightarrow>
          (let p' = p\<lparr>ap_turn_leases := AList.delete (ct_turn_id turn) (ap_turn_leases p)\<rparr> in
           case sq_active_session turn s of
             None \<Rightarrow> (Inl (ContinuationProtocolError 409), p', release_session l p s)
           | Some session \<Rightarrow>
               (case save_payload now session ((ss_payload session)\<lparr>active_turn_id := None, active_epoch := None\<rparr>) s of
                  (Inl e, s') \<Rightarrow> (Inl e, p', release_session l p s')
                | (Inr _, s') \<Rightarrow>
                    (Inr (acp_event uuid_event ''turn_interrupted'' turn None False (Some detail)), p',
                     release_session l p s'))))"

section \<open>Processes\<close>

datatype sq_event =
    SqStart string time
  | SqBegin time string string continuation_request
  | SqComplete time string continuation_turn json "(string \<times> json) list" string
  | SqAcknowledge time string string string int string
  | SqInterrupt time string continuation_turn string

record acp_system =
  acp_processes :: "(string, acp_process) dict"
  acp_database :: acp_db

fun sq_call :: "digest_env \<Rightarrow> sq_event \<Rightarrow> acp_process \<Rightarrow> acp_db \<Rightarrow> bool \<times> acp_process \<times> acp_db" where
  "sq_call env (SqStart w ttl) p s = (True, \<lparr>ap_owner_id = w, ap_lease_ttl_seconds = ttl, ap_turn_leases = []\<rparr>, s)"
| "sq_call env (SqBegin now us ut r) p s =
     (let x = sq_begin_turn now us ut r p s in (returns x, snd x))"
| "sq_call env (SqComplete now ue turn rq rs ep) p s =
     (let x = sq_complete_turn env now ue turn rq rs ep p s in (returns x, snd x))"
| "sq_call env (SqAcknowledge now ue i t n d) p s =
     (let x = sq_acknowledge now ue i t n d p s in (returns x, snd x))"
| "sq_call env (SqInterrupt now ue turn d) p s =
     (let x = sq_interrupt_turn now ue turn d p s in (returns x, snd x))"

definition fresh_process :: acp_process where
  "fresh_process = \<lparr>ap_owner_id = [], ap_lease_ttl_seconds = 0, ap_turn_leases = []\<rparr>"

text \<open>Only a started process calls; \<open>SqStart\<close> on a running one is a crash and restart.\<close>

definition sq_result :: "digest_env \<Rightarrow> acp_system \<Rightarrow> string \<times> sq_event \<Rightarrow> bool \<times> acp_system" where
  "sq_result env sys e =
     (case map_of (acp_processes sys) (fst e) of
        None \<Rightarrow> (case snd e of SqStart w ttl \<Rightarrow>
                   (True, sys\<lparr>acp_processes := AList.update (fst e)
                      \<lparr>ap_owner_id = w, ap_lease_ttl_seconds = ttl, ap_turn_leases = []\<rparr> (acp_processes sys)\<rparr>)
                 | _ \<Rightarrow> (False, sys))
      | Some p \<Rightarrow>
          (case sq_call env (snd e) p (acp_database sys) of
             (ok, p', s) \<Rightarrow> (ok, \<lparr>acp_processes = AList.update (fst e) p' (acp_processes sys), acp_database = s\<rparr>)))"

definition sq_step :: "digest_env \<Rightarrow> acp_system \<Rightarrow> string \<times> sq_event \<Rightarrow> acp_system" where
  "sq_step env sys e = snd (sq_result env sys e)"

definition sq_ok :: "digest_env \<Rightarrow> acp_system \<Rightarrow> string \<times> sq_event \<Rightarrow> bool" where
  "sq_ok env sys e = fst (sq_result env sys e)"

definition acp_boot :: acp_system where
  "acp_boot = \<lparr>acp_processes = [], acp_database = empty_store\<rparr>"

definition sq_view :: "acp_system \<Rightarrow> string \<Rightarrow> acp_payload option" where
  "sq_view sys i = map_option ss_payload (load_session i (acp_database sys))"

definition sq_completes :: "digest_env \<Rightarrow> string \<Rightarrow> int \<Rightarrow> acp_system \<Rightarrow> string \<times> sq_event \<Rightarrow> bool" where
  "sq_completes env i n sys e =
     (case snd e of
        SqComplete now ue turn rq rs ep \<Rightarrow> ct_session_id turn = i \<and> ct_epoch turn = n \<and> sq_ok env sys e
      | _ \<Rightarrow> False)"

section \<open>Every method is a path of the protocol\<close>

definition db_view :: "acp_db \<Rightarrow> string \<Rightarrow> acp_payload option" where
  "db_view s i = map_option ss_payload (load_session i s)"

definition db_ok :: "acp_db \<Rightarrow> bool" where
  "db_ok s = (\<forall>i row. load_session i s = Some row \<longrightarrow> ss_session_id row = i)"

definition db_path :: "acp_db \<Rightarrow> acp_db \<Rightarrow> bool" where
  "db_path s s' = (db_ok s' \<and> (\<forall>i. acp_reach (db_view s i) (db_view s' i)))"

lemma db_path_trans: "db_path s t \<Longrightarrow> db_path t u \<Longrightarrow> db_path s u"
  by (auto simp: db_path_def intro: rtranclp_trans)

lemma db_path_same: "db_ok s \<Longrightarrow> st_sessions s' = st_sessions s \<Longrightarrow> db_path s s'"
  by (simp add: db_path_def db_ok_def db_view_def load_session_def)

lemma db_path_ok: "db_path s s' \<Longrightarrow> db_ok s'"
  by (simp add: db_path_def)

lemma release_session_frame [simp]: "st_sessions (release_session l p s) = st_sessions s"
  by (simp add: release_session_def)

lemma acquire_session_frame: "st_sessions (snd (acquire_session now i p s)) = st_sessions s"
proof -
  obtain l s' where a: "acquire_lease now (''session:'' @ i) (ap_owner_id p) (ap_lease_ttl_seconds p) s = (l, s')"
    by fastforce
  have "st_sessions s' = st_sessions s"
    using acquire_lease_frame(3) [of now "''session:'' @ i" "ap_owner_id p" "ap_lease_ttl_seconds p" s]
    unfolding a by simp
  then show ?thesis unfolding acquire_session_def a by (simp split: option.split)
qed

lemma db_path_release: "db_path s s' \<Longrightarrow> db_path s (release_session l p s')"
  using db_path_trans db_path_same [OF db_path_ok] release_session_frame by blast

lemma load_or_create_path:
  assumes "db_ok s"
  shows "db_path s (snd (load_or_create now r i s))
    \<and> (\<forall>row. fst (load_or_create now r i s) = Inr row \<longrightarrow> load_session i (snd (load_or_create now r i s)) = Some row)"
proof (cases "load_session i s")
  case None
  let ?row = "\<lparr>ss_session_id = i, ss_protocol_version = cr_protocol_version r, ss_payload = empty_payload,
    ss_revision = 1, ss_created_at = now, ss_updated_at = now\<rparr>"
  have c: "create_session now i (cr_protocol_version r) empty_payload s
      = (Some ?row, s\<lparr>st_sessions := AList.update i ?row (st_sessions s)\<rparr>)"
    using None by (simp add: create_session_def load_session_def Let_def)
  have "db_path s (s\<lparr>st_sessions := AList.update i ?row (st_sessions s)\<rparr>)"
    using assms None by (auto simp: db_path_def db_ok_def db_view_def load_session_def intro: step_create)
  with None c show ?thesis
    using db_path_same [OF assms refl] by (auto simp: load_or_create_def load_session_def)
qed (use db_path_same [OF assms refl] in \<open>simp add: load_or_create_def\<close>)

text \<open>Saving a session that was just loaded succeeds, and is one step when the payload makes one.\<close>

lemma save_payload_path:
  assumes "db_ok s" and "load_session i s = Some row" and "acp_step (Some (ss_payload row)) (Some v)"
  shows "db_path s (snd (save_payload now row v s)) \<and>
    (\<exists>row'. fst (save_payload now row v s) = Inr row' \<and> load_session i (snd (save_payload now row v s)) = Some row'
      \<and> ss_payload row' = v)"
proof -
  have i: "ss_session_id row = i" using assms(1,2) by (simp add: db_ok_def)
  let ?row = "row\<lparr>ss_payload := v, ss_revision := ss_revision row + 1, ss_updated_at := now\<rparr>"
  have "save_payload now row v s = (Inr ?row, s\<lparr>st_sessions := AList.update i ?row (st_sessions s)\<rparr>)"
    using assms(2) i by (simp add: save_payload_def save_session_def load_session_def Let_def)
  moreover have "db_path s (s\<lparr>st_sessions := AList.update i ?row (st_sessions s)\<rparr>)"
    using assms i by (auto simp: db_path_def db_ok_def db_view_def load_session_def)
  ultimately show ?thesis by (simp add: load_session_def)
qed

lemma clear_stale_turn_path:
  assumes "db_ok s" and "load_session i s = Some row"
  shows "db_path s (snd (clear_stale_turn now row s)) \<and>
    (\<exists>row'. fst (clear_stale_turn now row s) = Inr row' \<and> load_session i (snd (clear_stale_turn now row s)) = Some row'
      \<and> \<not> truthy_str (active_turn_id (ss_payload row')))"
proof (cases "truthy_str (active_turn_id (ss_payload row))")
  case True
  then show ?thesis
    using save_payload_path [OF assms step_drop, of now]
    by (auto simp: clear_stale_turn_def truthy_str_def)
qed (use assms db_path_same [OF assms(1) refl] in \<open>simp add: clear_stale_turn_def\<close>)

lemma start_turn_path:
  assumes "db_ok s" and "load_session i s = Some row" and "\<not> truthy_str (active_turn_id (ss_payload row))"
  shows "db_path s (snd (start_turn now ut r i row s))"
proof (cases "admission_error r (ss_payload row)")
  case None
  let ?v = "(ss_payload row)\<lparr>active_turn_id := Some (new_turn_id ut), active_epoch := Some (next_epoch (ss_payload row))\<rparr>"
  have "acp_step (Some (ss_payload row)) (Some ?v)"
    using assms(3) admission_ready [OF None] by (intro step_begin) simp_all
  from save_payload_path [OF assms(1,2) this, of now] None show ?thesis
    by (auto simp: start_turn_def make_turn_def Let_def split: prod.split sum.split)
qed (use db_path_same [OF assms(1) refl] in \<open>simp add: start_turn_def\<close>)

lemma begin_turn_path:
  assumes "db_ok s"
  shows "db_path s (snd (snd (sq_begin_turn now us ut r p s)))"
proof (cases "valid_request r")
  case True
  define sid where "sid = (if truthy_str (cr_session_id r) then the (cr_session_id r) else new_session_id us)"
  obtain a s1 where a: "acquire_session now sid p s = (a, s1)" by fastforce
  have p1: "db_path s s1" using acquire_session_frame [of now sid p s] a assms by (simp add: db_path_same)
  obtain b s2 where b: "load_or_create now r sid s1 = (b, s2)" by fastforce
  note lc = load_or_create_path [OF db_path_ok [OF p1], of now r sid, unfolded b]
  have p2: "db_path s s2" using lc db_path_trans [OF p1] by simp
  have p4: "db_path s s4"
    if "b = Inr row" "clear_stale_turn now row s2 = (Inr row', s3)" "start_turn now ut r sid row' s3 = (x, s4)"
    for row row' s3 x s4
  proof -
    have l: "load_session sid s2 = Some row" using lc that(1) by simp
    note cl = clear_stale_turn_path [OF db_path_ok [OF p2] l, of now, unfolded that(2)]
    then have p3: "db_path s s3" using db_path_trans [OF p2] by simp
    from cl have "load_session sid s3 = Some row'" "\<not> truthy_str (active_turn_id (ss_payload row'))" by simp_all
    from start_turn_path [OF db_path_ok [OF p3] this, of now ut r] show ?thesis
      unfolding that(3) using db_path_trans [OF p3] by simp
  qed
  have p3: "db_path s s3" if "b = Inr row" "clear_stale_turn now row s2 = (Inl e, s3)" for row e s3
    using that lc clear_stale_turn_path [OF db_path_ok [OF p2], of sid row now] by auto
  show ?thesis
    using True p1 p2
    by (auto simp: sq_begin_turn_def sid_def [symmetric] a b Let_def split: sum.splits prod.splits
        intro: db_path_release p3 p4)
qed (use db_path_same [OF assms refl] in \<open>simp add: sq_begin_turn_def\<close>)

lemma sq_active_sessionD:
  "sq_active_session turn s = Some row \<Longrightarrow> load_session (ct_session_id turn) s = Some row
   \<and> active_turn_id (ss_payload row) = Some (ct_turn_id turn) \<and> active_epoch (ss_payload row) = Some (ct_epoch turn)"
  by (auto simp: sq_active_session_def split: option.splits if_splits)

lemma complete_saves:
  assumes "db_ok s" and "sq_active_session turn s = Some row"
    and "v = completed_payload turn (make_checkpoint env now turn rq rs ep)"
  shows "db_path s (snd (save_payload now row v s)) \<and>
    (\<exists>row'. fst (save_payload now row v s) = Inr row'
       \<and> load_session (ct_session_id turn) (snd (save_payload now row v s)) = Some row' \<and> ss_payload row' = v)"
proof -
  let ?c = "make_checkpoint env now turn rq rs ep"
  note a = sq_active_sessionD [OF assms(2)]
  have "acp_step (Some (ss_payload row)) (Some v)"
    using step_complete [of "ss_payload row" ?c] a by (simp add: assms(3) completed_payload_def)
  with save_payload_path [OF assms(1)] a show ?thesis by blast
qed

lemma complete_turn_path:
  assumes "db_ok s"
  shows "db_path s (snd (snd (sq_complete_turn env now ue turn rq rs ep p s)))"
proof (cases "sq_active_session turn s")
  case None
  then show ?thesis
    using db_path_same [OF assms refl] by (auto simp: sq_complete_turn_def Let_def split: option.split intro: db_path_release)
next
  case (Some row)
  from complete_saves [OF assms Some refl, of now env rq rs ep] Some show ?thesis
    using db_path_same [OF assms refl]
    by (auto simp: sq_complete_turn_def Let_def split: option.split prod.split sum.split intro: db_path_release)
qed

lemma interrupt_turn_path:
  assumes "db_ok s"
  shows "db_path s (snd (snd (sq_interrupt_turn now ue turn d p s)))"
proof (cases "sq_active_session turn s")
  case None
  then show ?thesis
    using db_path_same [OF assms refl] by (auto simp: sq_interrupt_turn_def Let_def split: option.split intro: db_path_release)
next
  case (Some row)
  from save_payload_path [OF assms _ step_drop, of "ct_session_id turn" row now] sq_active_sessionD [OF Some] Some
  show ?thesis
    using db_path_same [OF assms refl]
    by (auto simp: sq_interrupt_turn_def Let_def split: option.split prod.split sum.split intro: db_path_release)
qed

lemma acknowledge_path:
  assumes "db_ok s"
  shows "db_path s (snd (snd (sq_acknowledge now ue i t n d p s)))"
proof (cases "valid_identifier i \<and> valid_identifier t \<and> valid_digest d")
  case True
  obtain a s1 where a: "acquire_session now i p s = (a, s1)" by fastforce
  have p1: "db_path s s1" using acquire_session_frame [of now i p s] a assms by (simp add: db_path_same)
  have p2: "db_path s s2"
    if "load_session i s1 = Some row" "latest_checkpoint (ss_payload row) = Some c"
      "save_payload now row ((ss_payload row)\<lparr>latest_checkpoint_acknowledged := True\<rparr>) s1 = (x, s2)" for row c x s2
    using save_payload_path [OF db_path_ok [OF p1] that(1) step_ack, of now] that db_path_trans [OF p1] by simp
  show ?thesis
    using True p1
    by (auto simp: sq_acknowledge_def a Let_def split: sum.splits prod.splits option.splits intro: db_path_release p2)
qed (use db_path_same [OF assms refl] in \<open>auto simp: sq_acknowledge_def\<close>)

lemma sq_call_path: "db_ok s \<Longrightarrow> db_path s (snd (snd (sq_call env e p s)))"
  by (cases e) (simp_all add: Let_def begin_turn_path complete_turn_path interrupt_turn_path acknowledge_path db_path_same)

definition sys_ok :: "acp_system \<Rightarrow> bool" where
  "sys_ok sys = db_ok (acp_database sys)"

lemma sq_step_path: "sys_ok sys \<Longrightarrow> db_path (acp_database sys) (acp_database (sq_step env sys e))"
  using sq_call_path [of "acp_database sys" env "snd e"]
  by (auto simp: sq_step_def sq_result_def sys_ok_def db_path_same split: option.split sq_event.split prod.split)
    (metis snd_conv)

lemma sq_completes_epoch:
  assumes "sys_ok sys" and "sq_completes env i n sys e"
  shows "\<exists>v v'. sq_view sys i = Some v \<and> active_epoch v = Some n
    \<and> sq_view (sq_step env sys e) i = Some v' \<and> next_epoch v' = n + 1"
proof -
  from assms(2) obtain pid now ue turn rq rs ep where e: "e = (pid, SqComplete now ue turn rq rs ep)"
    "ct_session_id turn = i" "ct_epoch turn = n" "sq_ok env sys e"
    by (cases e) (auto simp: sq_completes_def split: sq_event.splits)
  then obtain p where p: "map_of (acp_processes sys) pid = Some p"
    "returns (sq_complete_turn env now ue turn rq rs ep p (acp_database sys))"
    by (auto simp: sq_ok_def sq_result_def Let_def split: option.splits prod.splits)
  then obtain l row where l: "map_of (ap_turn_leases p) (ct_turn_id turn) = Some l"
    "sq_active_session turn (acp_database sys) = Some row"
    by (auto simp: returns_def sq_complete_turn_def Let_def split: option.splits)
  note c = complete_saves [OF assms(1) [unfolded sys_ok_def] l(2) refl]
  obtain row' s' where s': "save_payload now row (completed_payload turn (make_checkpoint env now turn rq rs ep)) (acp_database sys)
      = (Inr row', s')"
    "load_session i s' = Some row'" "next_epoch (ss_payload row') = n + 1"
    using e c [where now = now] by (fastforce simp: prod_eq_iff completed_payload_def)
  have "acp_database (sq_step env sys e) = release_session l p s'"
    using e p l s'(1) by (simp add: sq_step_def sq_result_def sq_complete_turn_def Let_def)
  then show ?thesis
    using sq_active_sessionD [OF l(2)] s' e by (simp add: sq_view_def load_session_def)
qed

interpretation sqlite_acp: acp_protocol "sq_step env" sys_ok sq_view "sq_completes env"
proof unfold_locales
  fix s i e
  assume "sys_ok s"
  then show "acp_reach (sq_view s i) (sq_view (sq_step env s e) i)"
    using sq_step_path [of s env e] by (simp add: db_path_def db_view_def sq_view_def)
qed (auto simp: sys_ok_def dest: sq_step_path [unfolded sys_ok_def, THEN db_path_ok]
    sq_completes_epoch [unfolded sys_ok_def])

lemma boot_ok: "sys_ok acp_boot" "sq_view acp_boot i = None"
  by (simp_all add: sys_ok_def db_ok_def acp_boot_def sq_view_def load_session_def empty_store_def)

text \<open>A history of two processes on session \<open>s\<close>: the first completes a turn, acknowledges it and begins another.\<close>

definition zeros :: string where
  "zeros = replicate 64 (CHR ''0'')"

definition zero_env :: digest_env where
  "zero_env = \<lparr>sha256 = (\<lambda>_. zeros), float_repr = (\<lambda>_. [])\<rparr>"

definition demo_request :: "string option \<Rightarrow> continuation_request" where
  "demo_request parent = \<lparr>cr_state_digest = zeros, cr_session_id = Some ''s'',
     cr_parent_checkpoint_digest = parent, cr_protocol_version = ACP_VERSION\<rparr>"

definition demo_turn :: "string \<Rightarrow> int \<Rightarrow> string option \<Rightarrow> continuation_turn" where
  "demo_turn u n parent = \<lparr>ct_session_id = ''s'', ct_turn_id = new_turn_id u, ct_epoch = n,
     ct_parent_checkpoint_digest = parent, ct_client_state_digest = zeros, ct_protocol_version = ACP_VERSION\<rparr>"

definition live_turn_history :: "(string \<times> sq_event) list" where
  "live_turn_history =
     [(''p'', SqStart ''wp'' 120), (''q'', SqStart ''wq'' 120),
      (''p'', SqBegin 0 [] ''1'' (demo_request None)),
      (''p'', SqComplete 1 [] (demo_turn ''1'' 0 None) JNull [] ''e''),
      (''p'', SqAcknowledge 2 [] ''s'' (new_turn_id ''1'') 0 zeros),
      (''p'', SqBegin 3 [] ''2'' (demo_request (Some zeros)))]"

section \<open>Properties\<close>


text \<open>
  C14: turn discipline. In every reachable state of the database, an active turn of a session has
  the session's next epoch and starts from an acknowledged checkpoint, the latest checkpoint is
  the one of the epoch before, and a session without a checkpoint is at epoch 0.
\<close>

theorem acp_turn_discipline:
  assumes "load_session i (acp_database (run (sq_step env) acp_boot es)) = Some row"
  shows "let v = ss_payload row in
    (active_epoch v \<noteq> None \<longrightarrow> active_turn_id v \<noteq> None \<and> active_epoch v = Some (next_epoch v)
       \<and> latest_checkpoint_acknowledged v) \<and>
    (case latest_checkpoint v of None \<Rightarrow> next_epoch v = 0 | Some c \<Rightarrow> next_epoch v = ck_epoch c + 1)"
  using sqlite_acp.session_ok [OF boot_ok, of env es i] assms
  by (auto simp: sq_view_def acp_ok_def Let_def split: option.splits)

theorem acp_turn_discipline_witness:
  "\<exists>row. load_session ''s'' (acp_database (run (sq_step zero_env) acp_boot live_turn_history)) = Some row
     \<and> active_epoch (ss_payload row) = Some (next_epoch (ss_payload row))"
proof -
  let ?row = "the (load_session ''s'' (acp_database (run (sq_step zero_env) acp_boot live_turn_history)))"
  have h: "load_session ''s'' (acp_database (run (sq_step zero_env) acp_boot live_turn_history)) = Some ?row"
    "active_epoch (ss_payload ?row) \<noteq> None" by code_simp+
  from acp_turn_discipline [OF h(1)] h show ?thesis unfolding Let_def by blast
qed

text \<open>
  A repeated acknowledgement takes the lease of a live turn. \<open>acknowledge\<close> renews the lease
  its own process already holds and releases it when it is done, even when it fails; afterwards
  another process can begin a turn on the session, which discards the live one, and the
  completion of the live turn is refused.
\<close>

theorem ack_drops_live_lease:
  "let sys = run (sq_step zero_env) acp_boot live_turn_history;
       dup = (''p'', SqAcknowledge 4 [] ''s'' (new_turn_id ''1'') 0 zeros);
       steal = (''q'', SqBegin 5 [] ''3'' (demo_request (Some zeros)));
       finish = (''p'', SqComplete 6 [] (demo_turn ''2'' 1 (Some zeros)) JNull [] ''e'');
       sys1 = sq_step zero_env sys dup; sys2 = sq_step zero_env sys1 steal
   in \<not> sq_ok zero_env sys steal \<and> sq_ok zero_env sys finish \<and>
      \<not> sq_ok zero_env sys dup \<and> sq_ok zero_env sys1 steal \<and> \<not> sq_ok zero_env sys2 finish"
  by code_simp

end
