(* ===== verification/Execution.thy ===== *)
theory Execution
  imports Models
begin

text \<open>
  \<^verbatim>\<open>execution/policy.py\<close>, \<^verbatim>\<open>execution/deadline.py\<close>, \<^verbatim>\<open>execution/ledger.py\<close>
  and \<^verbatim>\<open>agent/failover_plan.py\<close>: retry and fallback policy, the request deadline, and the
  attempt ledger that bounds a request's attempts and forbids cycles.

  The clock reading of a call is its argument \<open>now\<close>; \<open>random.uniform(a, b)\<close> is
  \<open>a + (b - a) * u\<close> for a number \<open>u\<close> between 0 and 1.  The environment variables that
  \<open>Deadline\<close> reads enter as their parsed values, \<open>None\<close> when unset or not a number.
  The attempt ledger owns the policy object it was given, because it changes it.
\<close>

section \<open>Policies\<close>

record retry_policy =
  max_attempts_same_endpoint :: int
  base_backoff_ms :: rat
  max_backoff_ms :: rat
  jitter :: bool
  retry_on_status :: "int list"

record fallback_policy =
  max_fallback_hops :: int
  require_capability_match :: bool
  avoid_same_provider :: bool
  avoid_recent_failure :: bool

record execution_policy =
  ep_retry :: retry_policy
  ep_fallback :: fallback_policy
  max_total_attempts :: int

definition default_policy :: execution_policy where
  "default_policy =
     \<lparr>ep_retry = \<lparr>max_attempts_same_endpoint = 2, base_backoff_ms = 200, max_backoff_ms = 3000, jitter = True,
                   retry_on_status = [408, 429, 500, 502, 503, 504, 529, 599]\<rparr>,
      ep_fallback = \<lparr>max_fallback_hops = 8, require_capability_match = True, avoid_same_provider = False,
                      avoid_recent_failure = True\<rparr>,
      max_total_attempts = 12\<rparr>"

definition compute_backoff_seconds :: "rat \<Rightarrow> int \<Rightarrow> rat option \<Rightarrow> retry_policy \<Rightarrow> rat" where
  "compute_backoff_seconds u attempt_index retry_after p =
     (let capped = min (max_backoff_ms p) (base_backoff_ms p * 2 ^ nat (max 0 (attempt_index - 1)));
          computed = (if jitter p then (base_backoff_ms p + (capped - base_backoff_ms p) * u) / 1000
                      else capped / 1000)
      in case retry_after of Some r \<Rightarrow> if r > 0 then r else computed | None \<Rightarrow> computed)"

section \<open>Deadline\<close>

record deadline =
  dl_total_timeout_ms :: rat
  dl_connect_timeout_ms :: rat
  dl_tls_timeout_ms :: rat
  dl_ttft_timeout_ms :: rat
  dl_idle_stream_timeout_ms :: rat
  dl_per_attempt_timeout_ms :: rat
  dl_start :: time

definition new_deadline :: "rat option \<Rightarrow> rat option \<Rightarrow> deadline \<Rightarrow> deadline" where
  "new_deadline gateway_timeout total_timeout d =
     d\<lparr>dl_per_attempt_timeout_ms :=
         (case gateway_timeout of None \<Rightarrow> dl_per_attempt_timeout_ms d | Some x \<Rightarrow> x * 1000),
       dl_total_timeout_ms :=
         (case total_timeout of None \<Rightarrow> dl_total_timeout_ms d | Some x \<Rightarrow> x * 1000)\<rparr>"

definition elapsed_ms :: "time \<Rightarrow> deadline \<Rightarrow> rat" where
  "elapsed_ms now d = max 0 ((now - dl_start d) * 1000)"

definition remaining_ms :: "time \<Rightarrow> deadline \<Rightarrow> rat" where
  "remaining_ms now d = max 0 (dl_total_timeout_ms d - elapsed_ms now d)"

definition is_expired :: "time \<Rightarrow> deadline \<Rightarrow> bool" where
  "is_expired now d = (remaining_ms now d \<le> 0)"

definition deadline_check :: "time \<Rightarrow> deadline \<Rightarrow> unit result" where
  "deadline_check now d =
     (if is_expired now d then Inl (DeadlineExceededError (dl_total_timeout_ms d) (elapsed_ms now d)) else Inr ())"

definition per_attempt_timeout_for_provider :: "time \<Rightarrow> string option \<Rightarrow> int \<Rightarrow> deadline \<Rightarrow> rat result" where
  "per_attempt_timeout_for_provider now provider estimated_input_tokens d =
     (case deadline_check now d of
        Inl e \<Rightarrow> Inl e
      | Inr _ \<Rightarrow>
          (let rem_seconds = remaining_ms now d / 1000;
               p = lower (case provider of None \<Rightarrow> [] | Some x \<Rightarrow> x);
               base_sec = dl_per_attempt_timeout_ms d / 1000;
               target_sec =
                 (if p \<in> {''nvidia'', ''sambanova'', ''cerebras''}
                  then min 90 (max base_sec (if base_sec \<ge> 45 then 45 else base_sec))
                  else if p = ''groq'' then min 35 base_sec else base_sec);
               scaled =
                 (if base_sec \<ge> 30
                  then (if estimated_input_tokens > 16000 then min (target_sec + 25) 90
                        else if estimated_input_tokens > 8000 then min (target_sec + 15) 75 else target_sec)
                  else target_sec)
           in Inr (max (1 / 10) (min scaled rem_seconds))))"

record timeout_budget =
  tt_connect :: rat
  tt_tls :: rat
  tt_first_byte :: rat
  tt_idle :: rat
  tt_total :: rat

definition transport_timeouts :: "time \<Rightarrow> bool \<Rightarrow> deadline \<Rightarrow> timeout_budget result" where
  "transport_timeouts now streaming d =
     (case deadline_check now d of
        Inl e \<Rightarrow> Inl e
      | Inr _ \<Rightarrow>
          (let total = (if streaming then remaining_ms now d else min (remaining_ms now d) (dl_per_attempt_timeout_ms d));
               bounded_total = max 1 total
           in Inr \<lparr>tt_connect = min (dl_connect_timeout_ms d) bounded_total,
                   tt_tls = min (dl_tls_timeout_ms d) bounded_total,
                   tt_first_byte = min (dl_ttft_timeout_ms d) bounded_total,
                   tt_idle = min (dl_idle_stream_timeout_ms d) bounded_total,
                   tt_total = bounded_total\<rparr>))"

section \<open>Attempt ledger\<close>

record failover_plan =
  fp_plan_id :: string
  fp_request_id :: string
  fp_source_endpoint :: "string option"
  fp_target_endpoint :: string
  fp_failover_reason :: string
  fp_context_tokens_before :: int
  fp_context_tokens_after :: int
  fp_context_compaction_applied :: bool
  fp_risk_flags :: "string list"
  fp_remaining_deadline_ms :: rat
  fp_remaining_cost_budget_usd :: "rat option"

record attempt_ledger =
  al_policy :: execution_policy
  al_attempts :: "attempt_record list"
  al_endpoints_attempted :: "string list"
  al_endpoint_counts :: "(string, int) dict"
  al_fallback_count :: int
  al_accumulated_cost_usd :: rat
  al_failover_plans :: "failover_plan list"

definition new_attempt_ledger :: "execution_policy \<Rightarrow> attempt_ledger" where
  "new_attempt_ledger p =
     \<lparr>al_policy = p, al_attempts = [], al_endpoints_attempted = [], al_endpoint_counts = [],
      al_fallback_count = 0, al_accumulated_cost_usd = 0, al_failover_plans = []\<rparr>"

definition record_failover_plan :: "failover_plan \<Rightarrow> attempt_ledger \<Rightarrow> attempt_ledger" where
  "record_failover_plan plan l = l\<lparr>al_failover_plans := al_failover_plans l @ [plan]\<rparr>"

definition add_cost :: "rat \<Rightarrow> attempt_ledger \<Rightarrow> attempt_ledger" where
  "add_cost cost_usd l = l\<lparr>al_accumulated_cost_usd := al_accumulated_cost_usd l + max 0 cost_usd\<rparr>"

definition total_attempts :: "attempt_ledger \<Rightarrow> int" where
  "total_attempts l = int (length (al_attempts l))"

definition record_attempt :: "attempt_record \<Rightarrow> attempt_ledger \<Rightarrow> attempt_ledger" where
  "record_attempt r l =
     l\<lparr>al_attempts := al_attempts l @ [r],
       al_endpoints_attempted := al_endpoints_attempted l @ [ar_endpoint_id r],
       al_endpoint_counts := AList.update (ar_endpoint_id r)
         (dict_get (al_endpoint_counts l) (ar_endpoint_id r) 0 + 1) (al_endpoint_counts l)\<rparr>"

definition attempts_on :: "string \<Rightarrow> attempt_ledger \<Rightarrow> int" where
  "attempts_on endpoint_id l = dict_get (al_endpoint_counts l) endpoint_id 0"

definition can_attempt_endpoint :: "string \<Rightarrow> attempt_ledger \<Rightarrow> bool" where
  "can_attempt_endpoint endpoint_id l =
     (if total_attempts l \<ge> max_total_attempts (al_policy l) then False
      else if dict_get (al_endpoint_counts l) endpoint_id 0 \<ge> max_attempts_same_endpoint (ep_retry (al_policy l))
      then False else True)"

definition validate_next_candidate :: "string \<Rightarrow> attempt_ledger \<Rightarrow> unit result" where
  "validate_next_candidate endpoint_id l =
     (if total_attempts l \<ge> max_total_attempts (al_policy l) then Inl RetryBudgetExhaustedError
      else if al_fallback_count l \<ge> max_fallback_hops (ep_fallback (al_policy l)) then Inl FallbackBudgetExhaustedError
      else if length (al_endpoints_attempted l) \<ge> 2 \<and> endpoint_id \<noteq> last (al_endpoints_attempted l)
              \<and> endpoint_id \<in> set (butlast (al_endpoints_attempted l))
      then Inl (CycleDetectedError endpoint_id (al_endpoints_attempted l)) else Inr ())"

definition mark_fallback :: "attempt_ledger \<Rightarrow> attempt_ledger" where
  "mark_fallback l = l\<lparr>al_fallback_count := al_fallback_count l + 1\<rparr>"

definition reset_for_rate_limit_retry :: "string list \<Rightarrow> attempt_ledger \<Rightarrow> attempt_ledger" where
  "reset_for_rate_limit_retry endpoint_ids l =
     (let l' = l\<lparr>al_endpoint_counts := foldl (\<lambda>d ep. AList.update ep 0 d) (al_endpoint_counts l) endpoint_ids,
                 al_endpoints_attempted := filter (\<lambda>ep. ep \<notin> set endpoint_ids) (al_endpoints_attempted l),
                 al_fallback_count := 0\<rparr>
      in if total_attempts l \<ge> max_total_attempts (al_policy l)
         then l'\<lparr>al_policy := (al_policy l)\<lparr>max_total_attempts :=
                    total_attempts l + int (length endpoint_ids) * 2\<rparr>\<rparr>
         else l')"

text \<open>
  How the executor uses the ledger between two rate-limit waits: an attempt is recorded only
  after both checks have passed on its endpoint.
\<close>

datatype ledger_event = TryAttempt attempt_record | Fallback | Cost rat | Plan failover_plan

fun attempt_step :: "attempt_ledger \<Rightarrow> ledger_event \<Rightarrow> attempt_ledger" where
  "attempt_step l (TryAttempt r) =
     (if can_attempt_endpoint (ar_endpoint_id r) l \<and> validate_next_candidate (ar_endpoint_id r) l = Inr ()
      then record_attempt r l else l)"
| "attempt_step l Fallback = mark_fallback l"
| "attempt_step l (Cost c) = add_cost c l"
| "attempt_step l (Plan p) = record_failover_plan p l"

text \<open>No endpoint is returned to: equal entries of a list are adjacent.\<close>

fun contiguous :: "'a list \<Rightarrow> bool" where
  "contiguous [] = True"
| "contiguous [x] = True"
| "contiguous (x # y # ys) = ((x = y \<or> x \<notin> set (y # ys)) \<and> contiguous (y # ys))"

definition attempts_inv :: "execution_policy \<Rightarrow> attempt_ledger \<Rightarrow> bool" where
  "attempts_inv p l \<longleftrightarrow> al_policy l = p \<and>
     total_attempts l \<le> max 0 (max_total_attempts p) \<and>
     al_endpoints_attempted l = map ar_endpoint_id (al_attempts l) \<and>
     contiguous (al_endpoints_attempted l) \<and>
     (\<forall>e. attempts_on e l = int (count_list (al_endpoints_attempted l) e)) \<and>
     (\<forall>e. int (count_list (al_endpoints_attempted l) e) \<le> max 0 (max_attempts_same_endpoint (ep_retry p)))"

section \<open>Lemmas\<close>

lemma contiguous_snoc:
  "contiguous xs \<Longrightarrow> xs = [] \<or> x = last xs \<or> x \<notin> set (butlast xs) \<Longrightarrow> contiguous (xs @ [x])"
  by (induction xs rule: contiguous.induct) (auto split: if_splits)

lemma validate_contiguous:
  "validate_next_candidate e l = Inr () \<Longrightarrow>
   al_endpoints_attempted l = [] \<or> e = last (al_endpoints_attempted l) \<or> e \<notin> set (butlast (al_endpoints_attempted l))"
  by (cases "al_endpoints_attempted l" rule: contiguous.cases)
    (auto simp: validate_next_candidate_def split: if_splits)

lemma count_list_snoc: "count_list (xs @ [x]) e = count_list xs e + (if e = x then 1 else 0)"
  by (induction xs) auto

lemma record_attempt_inv:
  assumes inv: "attempts_inv p l" and "can_attempt_endpoint (ar_endpoint_id r) l"
    "validate_next_candidate (ar_endpoint_id r) l = Inr ()"
  shows "attempts_inv p (record_attempt r l)"
proof -
  let ?e = "ar_endpoint_id r" and ?xs = "al_endpoints_attempted l"
  have room: "total_attempts l < max_total_attempts p"
    "int (count_list ?xs ?e) < max_attempts_same_endpoint (ep_retry p)"
    using inv assms(2) by (auto simp: attempts_inv_def can_attempt_endpoint_def attempts_on_def split: if_splits)
  have on: "attempts_on e (record_attempt r l) = int (count_list (?xs @ [?e]) e)" for e
    using inv by (auto simp: attempts_on_def record_attempt_def attempts_inv_def count_list_snoc)
  have bound: "int (count_list (?xs @ [?e]) e) \<le> max 0 (max_attempts_same_endpoint (ep_retry p))" for e
    using inv room(2) by (cases "e = ?e") (auto simp: attempts_inv_def count_list_snoc)
  have "contiguous (?xs @ [?e])"
    using inv validate_contiguous [OF assms(3)] by (auto simp: attempts_inv_def intro: contiguous_snoc)
  then show ?thesis
    using inv room(1) on bound
    unfolding attempts_inv_def by (simp add: record_attempt_def total_attempts_def)
qed

lemma attempts_inv_cong:
  "attempts_inv p l \<Longrightarrow> al_policy l' = al_policy l \<Longrightarrow> al_attempts l' = al_attempts l \<Longrightarrow>
   al_endpoints_attempted l' = al_endpoints_attempted l \<Longrightarrow> al_endpoint_counts l' = al_endpoint_counts l \<Longrightarrow>
   attempts_inv p l'"
  unfolding attempts_inv_def total_attempts_def attempts_on_def by metis

interpretation attempts: step_system attempt_step "\<lambda>_. True" "attempts_inv p"
proof unfold_locales
  fix l e
  assume inv: "attempts_inv p l"
  show "attempts_inv p (attempt_step l e)"
  proof (cases e)
    case (TryAttempt r)
    with inv show ?thesis by (simp add: record_attempt_inv)
  qed (auto simp: mark_fallback_def add_cost_def record_failover_plan_def intro!: attempts_inv_cong [OF inv])
qed

lemma new_attempt_ledger_inv: "attempts_inv p (new_attempt_ledger p)"
  by (simp add: attempts_inv_def new_attempt_ledger_def total_attempts_def attempts_on_def)

lemma power2_ge_1: "(1 :: rat) \<le> 2 ^ n"
  by (rule one_le_power) simp

lemma attempt_timeout_form:
  assumes "\<not> is_expired now d"
  shows "\<exists>x. per_attempt_timeout_for_provider now provider n d = Inr (max (1 / 10) (min x (remaining_ms now d / 1000)))"
  unfolding per_attempt_timeout_for_provider_def deadline_check_def Let_def
  by (simp only: assms if_False sum.case) (rule exI, rule refl)

section \<open>Properties\<close>

text \<open>
  Attempt budget and cycle freedom. However the executor drives the ledger between two
  rate-limit waits, a request makes at most \<open>max_total_attempts\<close> attempts and at most
  \<open>max_attempts_same_endpoint\<close> on each endpoint, and it never returns to an endpoint it has left.
\<close>

theorem attempts_bounded_and_acyclic:
  "let l = run attempt_step (new_attempt_ledger p) es in
   int (length (al_attempts l)) \<le> max 0 (max_total_attempts p) \<and>
   contiguous (map ar_endpoint_id (al_attempts l)) \<and>
   int (count_list (map ar_endpoint_id (al_attempts l)) e) \<le> max 0 (max_attempts_same_endpoint (ep_retry p))"
proof -
  have "list_all (\<lambda>_. True) es" by (induction es) simp_all
  then have "attempts_inv p (run attempt_step (new_attempt_ledger p) es)"
    by (rule attempts.run_inv [OF new_attempt_ledger_inv])
  then show ?thesis unfolding attempts_inv_def total_attempts_def Let_def by metis
qed

text \<open>
  The back-off before a retry. A positive \<open>Retry-After\<close> is honoured as it is; otherwise the
  wait lies between the base and the maximal back-off, whatever the attempt number and the jitter.
\<close>

theorem backoff_bounds:
  assumes "0 \<le> base_backoff_ms p" and "base_backoff_ms p \<le> max_backoff_ms p" and "0 \<le> u" and "u \<le> 1"
  shows "(case ra of Some r \<Rightarrow> r > 0 | None \<Rightarrow> False) \<and> compute_backoff_seconds u n ra p = the ra \<or>
    \<not> (case ra of Some r \<Rightarrow> r > 0 | None \<Rightarrow> False) \<and>
    base_backoff_ms p / 1000 \<le> compute_backoff_seconds u n ra p \<and>
    compute_backoff_seconds u n ra p \<le> max_backoff_ms p / 1000"
proof -
  define c where "c = min (max_backoff_ms p) (base_backoff_ms p * 2 ^ nat (max 0 (n - 1)))"
  have lo: "base_backoff_ms p \<le> c"
    using assms(1,2) mult_left_mono [OF power2_ge_1 assms(1), of "nat (max 0 (n - 1))"] by (simp add: c_def)
  have hi: "c \<le> max_backoff_ms p" by (simp add: c_def)
  have "0 \<le> (c - base_backoff_ms p) * u" "(c - base_backoff_ms p) * u \<le> c - base_backoff_ms p"
    using lo assms(3,4) mult_left_le [of u "c - base_backoff_ms p"] by simp_all
  then show ?thesis
    using lo hi by (auto simp: compute_backoff_seconds_def c_def [symmetric] Let_def divide_right_mono split: option.split)
qed

theorem backoff_bounds_witness:
  "let p = ep_retry default_policy in
   base_backoff_ms p / 1000 \<le> compute_backoff_seconds (1 / 2) 3 None p \<and>
   compute_backoff_seconds (1 / 2) 3 None p \<le> max_backoff_ms p / 1000"
proof -
  have h: "0 \<le> base_backoff_ms (ep_retry default_policy)"
    "base_backoff_ms (ep_retry default_policy) \<le> max_backoff_ms (ep_retry default_policy)"
    "0 \<le> (1 / 2 :: rat)" "(1 / 2 :: rat) \<le> 1" by (simp_all add: default_policy_def)
  show ?thesis using backoff_bounds [OF h, of None 3] by (simp add: Let_def)
qed

text \<open>
  The deadline bounds every timeout handed to a transport. An expired deadline is refused with
  an error; otherwise every phase lies within the total, the total within the remaining request
  budget (down to the floor of one millisecond) and, for buffered calls, within the per-attempt
  ceiling, and the adaptive attempt timeout within the remaining budget (down to 0.1 seconds).
\<close>

theorem deadline_bounds_timeouts:
  "case transport_timeouts now streaming d of
     Inl e \<Rightarrow> dl_total_timeout_ms d \<le> elapsed_ms now d
   | Inr t \<Rightarrow> elapsed_ms now d < dl_total_timeout_ms d \<and>
       tt_connect t \<le> tt_total t \<and> tt_tls t \<le> tt_total t \<and> tt_first_byte t \<le> tt_total t \<and> tt_idle t \<le> tt_total t \<and>
       1 \<le> tt_total t \<and> tt_total t \<le> max 1 (dl_total_timeout_ms d - elapsed_ms now d) \<and>
       (streaming \<or> tt_total t \<le> max 1 (dl_per_attempt_timeout_ms d)) \<and>
       (\<exists>s. per_attempt_timeout_for_provider now provider n d = Inr s \<and>
          1 / 10 \<le> s \<and> s \<le> max (1 / 10) ((dl_total_timeout_ms d - elapsed_ms now d) / 1000))"
proof (cases "is_expired now d")
  case True
  then show ?thesis
    by (simp add: transport_timeouts_def deadline_check_def is_expired_def remaining_ms_def)
next
  case False
  then have r: "remaining_ms now d = dl_total_timeout_ms d - elapsed_ms now d"
    "elapsed_ms now d < dl_total_timeout_ms d"
    by (auto simp: is_expired_def remaining_ms_def max_def split: if_splits)
  obtain x where x: "per_attempt_timeout_for_provider now provider n d
      = Inr (max (1 / 10) (min x (remaining_ms now d / 1000)))"
    using attempt_timeout_form [OF False, of provider n] by blast
  obtain t where t: "transport_timeouts now streaming d = Inr t"
    "t = (let b = max 1 (if streaming then remaining_ms now d else min (remaining_ms now d) (dl_per_attempt_timeout_ms d))
          in \<lparr>tt_connect = min (dl_connect_timeout_ms d) b, tt_tls = min (dl_tls_timeout_ms d) b,
              tt_first_byte = min (dl_ttft_timeout_ms d) b, tt_idle = min (dl_idle_stream_timeout_ms d) b, tt_total = b\<rparr>)"
    using False by (simp add: transport_timeouts_def deadline_check_def Let_def)
  have "\<exists>s. per_attempt_timeout_for_provider now provider n d = Inr s \<and> 1 / 10 \<le> s
      \<and> s \<le> max (1 / 10) ((dl_total_timeout_ms d - elapsed_ms now d) / 1000)"
    unfolding x r(1) by (intro exI conjI, rule refl) auto
  then show ?thesis
    unfolding t(1) sum.case using r(2) by (auto simp: t(2) r(1) Let_def min_le_iff_disj le_max_iff_disj)
qed

end
