(* ===== verification/Capability.thy ===== *)
theory Capability
  imports Errors
begin

text \<open>
  \<^verbatim>\<open>capability/profile.py\<close> and \<^verbatim>\<open>capability/registry.py\<close>: model profiles, endpoints and
  the registry that resolves a profile by exact key and then by alias.  Capabilities that may be
  undeclared are optional booleans, \<open>None\<close> for undeclared.
\<close>

datatype verification_status = V_UNKNOWN | V_VERIFIED | V_UNAVAILABLE | V_DEGRADED

record pricing_profile =
  pp_input_price_per_1m :: rat
  pp_output_price_per_1m :: rat
  pp_cached_input_price_per_1m :: rat
  pp_reasoning_price_per_1m :: rat
  pp_is_free :: bool
  pp_currency :: string

record privacy_profile =
  pv_data_retention :: string
  pv_region :: "string option"
  pv_compliance :: "string list"
  pv_allows_external_traffic :: bool

record model_profile =
  mp_provider :: string
  mp_model :: string
  mp_protocol :: string
  mp_context_window :: int
  mp_max_output_tokens :: int
  mp_supports_tools :: "bool option"
  mp_supports_parallel_tools :: "bool option"
  mp_supports_structured_output :: "bool option"
  mp_supports_vision :: bool
  mp_supports_reasoning :: bool
  mp_supports_streaming :: bool
  mp_supports_json_mode :: bool
  mp_is_free :: bool
  mp_input_price_per_1m :: rat
  mp_output_price_per_1m :: rat
  mp_pricing :: "pricing_profile option"
  mp_privacy :: privacy_profile
  mp_verification_status :: verification_status
  mp_capability_provenance :: string
  mp_capability_expires_at :: "time option"
  mp_tokenizer_id :: string
  mp_tokenizer_revision :: "string option"
  mp_expected_quality_score :: "rat option"
  mp_quality_confidence :: rat
  mp_quality_provenance :: "string option"

record endpoint =
  ep_id :: string
  ep_provider :: string
  ep_model :: string
  ep_base_url :: string
  ep_protocol :: string
  ep_deployment :: "string option"
  ep_quota_bucket_id :: "string option"
  ep_env_key :: "string option"
  ep_env_keys :: "string list"
  ep_weight :: rat
  ep_priority :: int
  ep_profile :: "model_profile option"
  ep_pool :: string
  ep_is_discovered :: bool
  ep_resource_lane :: "string option"

definition or_default :: "string option \<Rightarrow> string" where
  "or_default s = (if truthy_str s then the s else ''default'')"

definition resource_key :: "endpoint \<Rightarrow> string" where
  "resource_key e =
     ep_provider e @ '':'' @ or_default (ep_deployment e) @ '':'' @ ep_model e @ '':'' @ or_default (ep_quota_bucket_id e)"

definition default_privacy :: privacy_profile where
  "default_privacy = \<lparr>pv_data_retention = ''zero_retention'', pv_region = None, pv_compliance = [],
                      pv_allows_external_traffic = True\<rparr>"

text \<open>The dataclass defaults of \<open>ModelProfile\<close>, and its \<open>__post_init__\<close>.\<close>

definition raw_profile :: "string \<Rightarrow> string \<Rightarrow> model_profile" where
  "raw_profile provider model =
     \<lparr>mp_provider = provider, mp_model = model, mp_protocol = ''openai'', mp_context_window = 65536,
      mp_max_output_tokens = 4096, mp_supports_tools = Some True, mp_supports_parallel_tools = Some True,
      mp_supports_structured_output = Some True, mp_supports_vision = False, mp_supports_reasoning = False,
      mp_supports_streaming = True, mp_supports_json_mode = True, mp_is_free = False,
      mp_input_price_per_1m = 0, mp_output_price_per_1m = 0, mp_pricing = None, mp_privacy = default_privacy,
      mp_verification_status = V_UNKNOWN, mp_capability_provenance = ''declared'', mp_capability_expires_at = None,
      mp_tokenizer_id = ''approx_chars_v1'', mp_tokenizer_revision = None, mp_expected_quality_score = None,
      mp_quality_confidence = 0, mp_quality_provenance = None\<rparr>"

definition profile_post_init :: "model_profile \<Rightarrow> model_profile" where
  "profile_post_init p =
     (case mp_pricing p of
        None \<Rightarrow> p\<lparr>mp_pricing := Some \<lparr>pp_input_price_per_1m = mp_input_price_per_1m p,
                    pp_output_price_per_1m = mp_output_price_per_1m p, pp_cached_input_price_per_1m = 0,
                    pp_reasoning_price_per_1m = 0, pp_is_free = mp_is_free p, pp_currency = ''USD''\<rparr>\<rparr>
      | Some pr \<Rightarrow>
          (let pr1 = (if mp_is_free p then pr\<lparr>pp_is_free := True\<rparr> else pr);
               pr2 = (if mp_input_price_per_1m p > 0 then pr1\<lparr>pp_input_price_per_1m := mp_input_price_per_1m p\<rparr> else pr1)
           in p\<lparr>mp_pricing := Some pr2\<rparr>))"

definition capabilities_are_current :: "time \<Rightarrow> model_profile \<Rightarrow> bool" where
  "capabilities_are_current now p =
     (mp_verification_status p = V_VERIFIED \<and>
      (case mp_capability_expires_at p of None \<Rightarrow> False | Some t \<Rightarrow> t > now))"

section \<open>Registry\<close>

record capability_registry =
  cg_profiles :: "(string, model_profile) dict"
  cg_aliases :: "(string, string) dict"
  cg_endpoints :: "(string, endpoint) dict"

definition make_key :: "string \<Rightarrow> string \<Rightarrow> string" where
  "make_key provider model = lower provider @ '':'' @ lower model"

definition register_alias :: "string \<Rightarrow> string \<Rightarrow> string \<Rightarrow> capability_registry \<Rightarrow> capability_registry" where
  "register_alias provider alias canonical_model g =
     g\<lparr>cg_aliases := AList.update (make_key provider alias) (make_key provider canonical_model) (cg_aliases g)\<rparr>"

definition register_profile :: "model_profile \<Rightarrow> capability_registry \<Rightarrow> capability_registry" where
  "register_profile p g =
     g\<lparr>cg_profiles := AList.update (make_key (mp_provider p) (mp_model p)) p (cg_profiles g)\<rparr>"

definition unknown_profile :: "string \<Rightarrow> string \<Rightarrow> model_profile" where
  "unknown_profile provider model =
     profile_post_init ((raw_profile provider model)\<lparr>mp_context_window := 32768, mp_max_output_tokens := 4096,
       mp_supports_tools := None, mp_supports_parallel_tools := None, mp_supports_structured_output := None\<rparr>)"

definition get_profile :: "string \<Rightarrow> string \<Rightarrow> capability_registry \<Rightarrow> model_profile" where
  "get_profile provider model g =
     (let key = make_key provider model in
      case map_of (cg_profiles g) key of
        Some p \<Rightarrow> p
      | None \<Rightarrow>
          (case map_of (cg_aliases g) key of
             None \<Rightarrow> unknown_profile provider model
           | Some target \<Rightarrow>
               (case map_of (cg_profiles g) target of
                  Some p \<Rightarrow> p | None \<Rightarrow> unknown_profile provider model)))"

definition register_endpoint :: "endpoint \<Rightarrow> capability_registry \<Rightarrow> capability_registry" where
  "register_endpoint e g =
     (let e' = (case ep_profile e of
                  Some _ \<Rightarrow> e | None \<Rightarrow> e\<lparr>ep_profile := Some (get_profile (ep_provider e) (ep_model e) g)\<rparr>)
      in g\<lparr>cg_endpoints := AList.update (ep_id e) e' (cg_endpoints g)\<rparr>)"

definition get_endpoint :: "string \<Rightarrow> capability_registry \<Rightarrow> endpoint option" where
  "get_endpoint endpoint_id g = map_of (cg_endpoints g) endpoint_id"

definition all_endpoints :: "capability_registry \<Rightarrow> endpoint list" where
  "all_endpoints g = map snd (cg_endpoints g)"

definition endpoints_for_pool :: "string \<Rightarrow> capability_registry \<Rightarrow> endpoint list" where
  "endpoints_for_pool pool g = filter (\<lambda>e. ep_pool e = pool) (all_endpoints g)"

text \<open>The built-in catalogue: provider, model, protocol, context window, output limit, vision, reasoning, free.\<close>

definition catalogue_entry ::
  "string \<times> string \<times> string \<times> int \<times> int \<times> bool \<times> bool \<times> bool \<Rightarrow> model_profile" where
  "catalogue_entry t =
     (case t of (provider, model, protocol, ctx, out, vision, reasoning, free) \<Rightarrow>
        profile_post_init ((raw_profile provider model)\<lparr>mp_protocol := protocol, mp_context_window := ctx,
          mp_max_output_tokens := out, mp_supports_vision := vision, mp_supports_reasoning := reasoning,
          mp_is_free := free\<rparr>))"

definition builtin_profiles :: "model_profile list" where
  "builtin_profiles = map catalogue_entry
     [(''cerebras'', ''llama3.3-70b'', ''openai'', 65536, 8192, False, False, True),
      (''cerebras'', ''llama-3.3-70b'', ''openai'', 65536, 8192, False, False, True),
      (''cerebras'', ''llama3.1-8b'', ''openai'', 65536, 4096, False, False, True),
      (''sambanova'', ''Qwen2.5-Coder-32B-Instruct'', ''openai'', 65536, 4096, False, False, True),
      (''sambanova'', ''Meta-Llama-3.3-70B-Instruct'', ''openai'', 65536, 4096, False, False, True),
      (''groq'', ''llama-3.3-70b-versatile'', ''openai'', 131072, 8192, False, False, True),
      (''groq'', ''qwen/qwen3.6-27b'', ''openai'', 7000, 950, False, False, True),
      (''groq'', ''openai/gpt-oss-120b'', ''openai'', 7500, 950, False, False, True),
      (''groq'', ''openai/gpt-oss-20b'', ''openai'', 7500, 950, False, False, True),
      (''groq'', ''llama-3.1-8b-instant'', ''openai'', 131072, 4096, False, False, True),
      (''openrouter'', ''google/gemma-4-31b-it:free'', ''openai'', 262144, 8192, False, False, True),
      (''openrouter'', ''cohere/north-mini-code:free'', ''openai'', 256000, 8192, False, False, True),
      (''openrouter'', ''nvidia/nemotron-3-super-120b-a12b:free'', ''openai'', 262144, 8192, False, False, True),
      (''openrouter'', ''openrouter/free'', ''openai'', 200000, 8192, False, False, True),
      (''openrouter'', ''qwen/qwen-2.5-coder-32b-instruct:free'', ''openai'', 256000, 8192, False, False, True),
      (''openrouter'', ''mistralai/devstral-2512:free'', ''openai'', 262144, 8192, False, False, True),
      (''openrouter'', ''meta-llama/llama-3.3-70b-instruct:free'', ''openai'', 65536, 4096, False, False, True),
      (''mistral'', ''codestral-latest'', ''openai'', 256000, 8192, False, False, False),
      (''mistral'', ''mistral-small-latest'', ''openai'', 128000, 4096, False, False, False),
      (''nvidia'', ''nvidia/nemotron-3-ultra-550b-a55b'', ''openai'', 131072, 8192, False, False, True),
      (''nvidia'', ''google/gemma-4-31b-it'', ''openai'', 131072, 8192, False, False, True),
      (''nvidia'', ''meta/llama-3.3-70b-instruct'', ''openai'', 131072, 4096, False, False, True),
      (''nvidia'', ''meta/llama-3.2-11b-vision-instruct'', ''openai'', 131072, 4096, True, False, True),
      (''nvidia'', ''mistralai/codestral-22b-instruct-v0.1'', ''openai'', 32768, 4096, False, False, True),
      (''gemini'', ''gemini-2.5-flash'', ''gemini'', 1048576, 8192, True, False, True),
      (''gemini'', ''gemini-1.5-pro'', ''gemini'', 2097152, 8192, True, False, False),
      (''anthropic'', ''claude-3-7-sonnet-20250219'', ''anthropic'', 200000, 8192, True, True, False),
      (''anthropic'', ''claude-3-5-haiku-20241022'', ''anthropic'', 200000, 8192, False, False, False),
      (''openai'', ''gpt-4o'', ''openai'', 128000, 4096, True, False, False),
      (''openai'', ''gpt-4o-mini'', ''openai'', 128000, 4096, True, False, False)]"

definition builtin_aliases :: "(string \<times> string \<times> string) list" where
  "builtin_aliases =
     [(''groq'', ''llama-3.3-70b'', ''llama-3.3-70b-versatile''),
      (''cerebras'', ''llama-3.3-70b'', ''llama3.3-70b''),
      (''cerebras'', ''llama-3.1-8b'', ''llama3.1-8b'')]"

definition new_capability_registry :: capability_registry where
  "new_capability_registry =
     fold (\<lambda>(p, a, c). register_alias p a c) builtin_aliases
       (fold register_profile builtin_profiles \<lparr>cg_profiles = [], cg_aliases = [], cg_endpoints = []\<rparr>)"

section \<open>Lemmas\<close>

text \<open>Profile lookup ignores case, and a registered profile wins over every alias.\<close>

lemma get_profile_lower: "cg_profiles g = cg_profiles h \<Longrightarrow> cg_aliases g = cg_aliases h \<Longrightarrow>
    map_of (cg_profiles g) (make_key p m) \<noteq> None \<Longrightarrow> get_profile p m g = get_profile (lower p) (lower m) h"
  by (auto simp: get_profile_def make_key_def)

lemma get_profile_registered: "get_profile (mp_provider p) (mp_model p) (register_profile p g) = p"
  by (simp add: get_profile_def register_profile_def)

text \<open>A registered endpoint has a profile.\<close>

definition endpoints_profiled :: "capability_registry \<Rightarrow> bool" where
  "endpoints_profiled g = (\<forall>(k, e) \<in> set (cg_endpoints g). ep_id e = k \<and> ep_profile e \<noteq> None)"

lemma register_endpoint_profiled: "endpoints_profiled g \<Longrightarrow> endpoints_profiled (register_endpoint e g)"
  by (auto simp: endpoints_profiled_def register_endpoint_def Let_def split: option.split dest!: in_set_update)

end
