(* ===== verification/Health.thy ===== *)
theory Health
  imports Errors
begin

text \<open>
  \<^verbatim>\<open>health/telemetry.py\<close>: rolling health statistics per endpoint.  \<open>mclk\<close> and \<open>wall\<close> are
  the readings of the monotonic and the wall clock that an operation takes.
\<close>

record endpoint_health =
  eh_endpoint_id :: string
  eh_provider :: string
  eh_model :: string
  eh_total_calls :: nat
  eh_successful_calls :: nat
  eh_failed_calls :: nat
  eh_consecutive_failures :: nat
  eh_ema_latency_ms :: "rat option"
  eh_last_latency_ms :: "rat option"
  eh_ema_ttft_ms :: "rat option"
  eh_last_ttft_ms :: "rat option"
  eh_timeout_count :: nat
  eh_rate_limit_429_count :: nat
  eh_server_error_5xx_count :: nat
  eh_semantic_failure_count :: nat
  eh_tool_calls_attempted :: nat
  eh_tool_calls_succeeded :: nat
  eh_tool_calls_failed :: nat
  eh_cooldown_until :: time
  eh_quota_exhausted_until :: time
  eh_is_dead :: bool
  eh_dead_reason :: "string option"
  eh_last_error_message :: "string option"
  eh_last_updated :: time

record health_store =
  hs_ema_alpha :: rat
  hs_snapshots :: "(string, endpoint_health) dict"

definition new_health :: "time \<Rightarrow> string \<Rightarrow> string \<Rightarrow> string \<Rightarrow> endpoint_health" where
  "new_health wall endpoint_id provider model =
     \<lparr>eh_endpoint_id = endpoint_id, eh_provider = provider, eh_model = model, eh_total_calls = 0,
      eh_successful_calls = 0, eh_failed_calls = 0, eh_consecutive_failures = 0, eh_ema_latency_ms = None,
      eh_last_latency_ms = None, eh_ema_ttft_ms = None, eh_last_ttft_ms = None, eh_timeout_count = 0,
      eh_rate_limit_429_count = 0, eh_server_error_5xx_count = 0, eh_semantic_failure_count = 0,
      eh_tool_calls_attempted = 0, eh_tool_calls_succeeded = 0, eh_tool_calls_failed = 0, eh_cooldown_until = 0,
      eh_quota_exhausted_until = 0, eh_is_dead = False, eh_dead_reason = None, eh_last_error_message = None,
      eh_last_updated = wall\<rparr>"

section \<open>Derived rates\<close>

definition is_in_cooldown :: "time \<Rightarrow> endpoint_health \<Rightarrow> bool" where
  "is_in_cooldown mclk h = (mclk < eh_cooldown_until h)"

definition is_quota_exhausted :: "time \<Rightarrow> endpoint_health \<Rightarrow> bool" where
  "is_quota_exhausted wall h = (wall < eh_quota_exhausted_until h)"

definition is_cold_start :: "endpoint_health \<Rightarrow> bool" where
  "is_cold_start h = (eh_ema_latency_ms h = None)"

definition success_rate :: "endpoint_health \<Rightarrow> rat" where
  "success_rate h =
     (if eh_total_calls h = 0 then 1 else of_nat (eh_successful_calls h) / of_nat (eh_total_calls h))"

definition tool_success_rate :: "endpoint_health \<Rightarrow> rat" where
  "tool_success_rate h =
     (if eh_tool_calls_attempted h = 0 then 1
      else of_nat (eh_tool_calls_succeeded h) / of_nat (eh_tool_calls_attempted h))"

definition semantic_success_rate :: "endpoint_health \<Rightarrow> rat" where
  "semantic_success_rate h =
     (if eh_successful_calls h = 0 then 1
      else max 0 (1 - of_nat (eh_semantic_failure_count h) / of_nat (eh_successful_calls h)))"

definition timeout_rate :: "endpoint_health \<Rightarrow> rat" where
  "timeout_rate h = (if eh_total_calls h = 0 then 0 else of_nat (eh_timeout_count h) / of_nat (eh_total_calls h))"

definition rate_limit_rate :: "endpoint_health \<Rightarrow> rat" where
  "rate_limit_rate h =
     (if eh_total_calls h = 0 then 0 else of_nat (eh_rate_limit_429_count h) / of_nat (eh_total_calls h))"

section \<open>The store\<close>

definition health_get :: "time \<Rightarrow> string \<Rightarrow> string \<Rightarrow> string \<Rightarrow> health_store \<Rightarrow> endpoint_health" where
  "health_get wall endpoint_id provider model s =
     (case map_of (hs_snapshots s) endpoint_id of
        Some h \<Rightarrow> h | None \<Rightarrow> new_health wall endpoint_id provider model)"

text \<open>Every mutation works on \<open>get_or_create(endpoint_id)\<close> and stores it.\<close>

definition health_update ::
  "time \<Rightarrow> string \<Rightarrow> string \<Rightarrow> string \<Rightarrow> (endpoint_health \<Rightarrow> endpoint_health) \<Rightarrow> health_store \<Rightarrow> health_store" where
  "health_update wall endpoint_id provider model f s =
     s\<lparr>hs_snapshots := AList.update endpoint_id (f (health_get wall endpoint_id provider model s)) (hs_snapshots s)\<rparr>"

definition health_get_or_create :: "time \<Rightarrow> string \<Rightarrow> string \<Rightarrow> string \<Rightarrow> health_store \<Rightarrow> endpoint_health \<times> health_store" where
  "health_get_or_create wall endpoint_id provider model s =
     (health_get wall endpoint_id provider model s, health_update wall endpoint_id provider model (\<lambda>h. h) s)"

definition ema :: "rat \<Rightarrow> rat \<Rightarrow> rat option \<Rightarrow> rat option" where
  "ema alpha x old = Some (case old of None \<Rightarrow> x | Some e \<Rightarrow> alpha * x + (1 - alpha) * e)"

definition health_record_success ::
  "time \<Rightarrow> string \<Rightarrow> rat \<Rightarrow> rat option \<Rightarrow> health_store \<Rightarrow> health_store" where
  "health_record_success wall endpoint_id latency_ms ttft_ms s =
     health_update wall endpoint_id [] []
       (\<lambda>h. h\<lparr>eh_total_calls := eh_total_calls h + 1, eh_successful_calls := eh_successful_calls h + 1,
              eh_consecutive_failures := 0, eh_last_latency_ms := Some latency_ms,
              eh_ema_latency_ms := ema (hs_ema_alpha s) latency_ms (eh_ema_latency_ms h),
              eh_last_ttft_ms := (case ttft_ms of None \<Rightarrow> eh_last_ttft_ms h | Some t \<Rightarrow> Some t),
              eh_ema_ttft_ms := (case ttft_ms of None \<Rightarrow> eh_ema_ttft_ms h
                                 | Some t \<Rightarrow> ema (hs_ema_alpha s) t (eh_ema_ttft_ms h)),
              eh_last_updated := wall\<rparr>) s"

definition health_mark_dead ::
  "time \<Rightarrow> string \<Rightarrow> string \<Rightarrow> string \<Rightarrow> string \<Rightarrow> health_store \<Rightarrow> health_store" where
  "health_mark_dead wall endpoint_id provider model reason =
     health_update wall endpoint_id provider model
       (\<lambda>h. h\<lparr>eh_is_dead := True, eh_dead_reason := Some reason, eh_last_error_message := Some reason,
              eh_last_updated := wall\<rparr>)"

definition clear_dead_list :: "health_store \<Rightarrow> health_store" where
  "clear_dead_list s =
     s\<lparr>hs_snapshots := map (\<lambda>(k, h). (k, h\<lparr>eh_is_dead := False, eh_dead_reason := None\<rparr>)) (hs_snapshots s)\<rparr>"

definition positive :: "rat option \<Rightarrow> bool" where
  "positive x = (case x of None \<Rightarrow> False | Some r \<Rightarrow> r > 0)"

definition health_record_failure ::
  "time \<Rightarrow> time \<Rightarrow> string \<Rightarrow> rat \<Rightarrow> int option \<Rightarrow> string \<Rightarrow> rat option \<Rightarrow> rat option \<Rightarrow> bool
    \<Rightarrow> health_store \<Rightarrow> health_store" where
  "health_record_failure mclk wall endpoint_id latency_ms status_code error_message cooldown_seconds
       quota_exhausted_seconds is_permanent =
     health_update wall endpoint_id [] []
       (\<lambda>h. let timeout = (status_code \<in> {Some 408, Some 504} \<or> contains (lower error_message) ''timeout'');
                rate = (\<not> timeout \<and> status_code = Some 429);
                server = (\<not> timeout \<and> \<not> rate \<and> (case status_code of None \<Rightarrow> False | Some c \<Rightarrow> 500 \<le> c \<and> c \<le> 599))
            in h\<lparr>eh_total_calls := eh_total_calls h + 1, eh_failed_calls := eh_failed_calls h + 1,
                 eh_consecutive_failures := eh_consecutive_failures h + 1, eh_last_latency_ms := Some latency_ms,
                 eh_last_error_message := Some error_message, eh_last_updated := wall,
                 eh_is_dead := (is_permanent \<or> eh_is_dead h),
                 eh_dead_reason := (if is_permanent then Some error_message else eh_dead_reason h),
                 eh_timeout_count := eh_timeout_count h + (if timeout then 1 else 0),
                 eh_rate_limit_429_count := eh_rate_limit_429_count h + (if rate then 1 else 0),
                 eh_server_error_5xx_count := eh_server_error_5xx_count h + (if server then 1 else 0),
                 eh_cooldown_until :=
                   (if positive cooldown_seconds then mclk + the cooldown_seconds else eh_cooldown_until h),
                 eh_quota_exhausted_until :=
                   (if positive quota_exhausted_seconds then wall + the quota_exhausted_seconds
                    else eh_quota_exhausted_until h)\<rparr>)"

definition record_tool_outcome :: "time \<Rightarrow> string \<Rightarrow> bool \<Rightarrow> health_store \<Rightarrow> health_store" where
  "record_tool_outcome wall endpoint_id success =
     health_update wall endpoint_id [] []
       (\<lambda>h. h\<lparr>eh_tool_calls_attempted := eh_tool_calls_attempted h + 1,
              eh_tool_calls_succeeded := eh_tool_calls_succeeded h + (if success then 1 else 0),
              eh_tool_calls_failed := eh_tool_calls_failed h + (if success then 0 else 1),
              eh_last_updated := wall\<rparr>)"

definition record_semantic_failure :: "time \<Rightarrow> string \<Rightarrow> health_store \<Rightarrow> health_store" where
  "record_semantic_failure wall endpoint_id =
     health_update wall endpoint_id [] []
       (\<lambda>h. h\<lparr>eh_semantic_failure_count := eh_semantic_failure_count h + 1, eh_last_updated := wall\<rparr>)"

section \<open>Runs\<close>

datatype health_call =
    HSuccess time string rat "rat option"
  | HDead time string string string string
  | HClear
  | HFailure time time string rat "int option" string "rat option" "rat option" bool
  | HTool time string bool
  | HSemantic time string

fun health_step :: "health_store \<Rightarrow> health_call \<Rightarrow> health_store" where
  "health_step s (HSuccess w e l t) = health_record_success w e l t s"
| "health_step s (HDead w e p m r) = health_mark_dead w e p m r s"
| "health_step s HClear = clear_dead_list s"
| "health_step s (HFailure mo w e l c msg cd q perm) = health_record_failure mo w e l c msg cd q perm s"
| "health_step s (HTool w e ok) = record_tool_outcome w e ok s"
| "health_step s (HSemantic w e) = record_semantic_failure w e s"

definition health_ok :: "endpoint_health \<Rightarrow> bool" where
  "health_ok h \<longleftrightarrow>
     eh_total_calls h = eh_successful_calls h + eh_failed_calls h \<and>
     eh_consecutive_failures h \<le> eh_failed_calls h \<and>
     eh_timeout_count h + eh_rate_limit_429_count h + eh_server_error_5xx_count h \<le> eh_failed_calls h \<and>
     eh_tool_calls_attempted h = eh_tool_calls_succeeded h + eh_tool_calls_failed h \<and>
     (eh_successful_calls h = 0 \<longrightarrow> eh_ema_latency_ms h = None)"

definition health_inv :: "health_store \<Rightarrow> bool" where
  "health_inv s = (\<forall>i h. map_of (hs_snapshots s) i = Some h \<longrightarrow> health_ok h)"

lemma health_update_inv:
  assumes "health_inv s" and "\<And>h. health_ok h \<Longrightarrow> health_ok (f h)"
  shows "health_inv (health_update w i p m f s)"
proof -
  have "health_ok (health_get w i p m s)"
    using assms(1) by (auto simp: health_inv_def health_get_def health_ok_def new_health_def split: option.split)
  with assms show ?thesis by (auto simp: health_inv_def health_update_def)
qed

interpretation health: step_system health_step "\<lambda>_. True" health_inv
proof unfold_locales
  fix s e
  assume inv: "health_inv s"
  show "health_inv (health_step s e)"
  proof (cases e)
    case HClear
    with inv show ?thesis
      by (auto simp: clear_dead_list_def health_inv_def map_of_map_snd health_ok_def)
  qed (auto simp: health_record_success_def health_mark_dead_def health_record_failure_def record_tool_outcome_def
      record_semantic_failure_def intro!: health_update_inv [OF inv] simp: health_ok_def Let_def)
qed

lemma health_rates_bounded:
  assumes "health_ok h"
  shows "0 \<le> success_rate h \<and> success_rate h \<le> 1 \<and> 0 \<le> tool_success_rate h \<and> tool_success_rate h \<le> 1
    \<and> 0 \<le> semantic_success_rate h \<and> semantic_success_rate h \<le> 1
    \<and> 0 \<le> timeout_rate h \<and> 0 \<le> rate_limit_rate h \<and> timeout_rate h + rate_limit_rate h \<le> 1"
proof -
  have a: "eh_successful_calls h \<le> eh_total_calls h" "eh_tool_calls_succeeded h \<le> eh_tool_calls_attempted h"
    "eh_timeout_count h + eh_rate_limit_429_count h \<le> eh_total_calls h"
    using assms by (auto simp: health_ok_def)
  have "(of_nat (eh_timeout_count h) :: rat) + of_nat (eh_rate_limit_429_count h) \<le> of_nat (eh_total_calls h)"
    using a(3) by (simp flip: of_nat_add)
  then show ?thesis
    using a(1,2)
    by (auto simp: success_rate_def tool_success_rate_def semantic_success_rate_def timeout_rate_def
        rate_limit_rate_def divide_le_eq_1 simp flip: add_divide_distrib)
qed

section \<open>Properties\<close>

text \<open>
  The counters of every endpoint are consistent in every history: calls are successes plus
  failures, the classified failures do not exceed them, and every rate the scorer reads lies
  between 0 and 1.
\<close>

theorem health_counters_consistent:
  assumes "map_of (hs_snapshots (run health_step \<lparr>hs_ema_alpha = a, hs_snapshots = []\<rparr> es)) i = Some h"
  shows "eh_total_calls h = eh_successful_calls h + eh_failed_calls h \<and>
    eh_timeout_count h + eh_rate_limit_429_count h + eh_server_error_5xx_count h \<le> eh_failed_calls h \<and>
    0 \<le> success_rate h \<and> success_rate h \<le> 1 \<and> 0 \<le> tool_success_rate h \<and> tool_success_rate h \<le> 1 \<and>
    0 \<le> semantic_success_rate h \<and> semantic_success_rate h \<le> 1 \<and> timeout_rate h + rate_limit_rate h \<le> 1"
proof -
  have "list_all (\<lambda>_. True) es" by (induction es) simp_all
  moreover have "health_inv \<lparr>hs_ema_alpha = a, hs_snapshots = []\<rparr>" by (simp add: health_inv_def)
  ultimately have "health_inv (run health_step \<lparr>hs_ema_alpha = a, hs_snapshots = []\<rparr> es)"
    by (rule health.run_inv [rotated])
  with assms have "health_ok h" by (simp add: health_inv_def)
  with health_rates_bounded [OF this] show ?thesis by (simp add: health_ok_def)
qed

theorem health_counters_consistent_witness:
  "success_rate (the (map_of (hs_snapshots (run health_step \<lparr>hs_ema_alpha = 1 / 5, hs_snapshots = []\<rparr>
     [HSuccess 0 ''e'' 10 None, HFailure 1 1 ''e'' 5 (Some 504) ''x'' None None False])) ''e'')) \<le> 1"
proof -
  let ?s = "run health_step \<lparr>hs_ema_alpha = 1 / 5, hs_snapshots = []\<rparr>
     [HSuccess 0 ''e'' 10 None, HFailure 1 1 ''e'' 5 (Some 504) ''x'' None None False]"
  have "map_of (hs_snapshots ?s) ''e'' = Some (the (map_of (hs_snapshots ?s) ''e''))" by code_simp
  from health_counters_consistent [OF this] show ?thesis by simp
qed

end
