(* ===== verification/RoutingState.thy ===== *)
theory RoutingState
  imports Capability Json
begin

text \<open>
  The stores the router and the executor consult: \<^verbatim>\<open>routing/budget.py\<close>,
  \<^verbatim>\<open>routing/resources.py\<close>, \<^verbatim>\<open>routing/keys.py\<close>, \<^verbatim>\<open>routing/cache.py\<close>,
  \<^verbatim>\<open>routing/quality.py\<close> and \<^verbatim>\<open>routing/tokenizer.py\<close>.

  Three of them are tables of marks that expire; the locale \<open>expiring\<close> states the law they share
  and derives that the latest mark on a key alone decides.
\<close>

section \<open>Budget reservations\<close>

record budget_reservation =
  br_reservation_id :: string
  br_scope :: string
  br_amount_usd :: rat
  br_limit_usd :: rat

record budget_store =
  bs_reserved :: "(string, budget_reservation) dict"
  bs_spent :: "(string, rat) dict"

definition empty_budget :: budget_store where
  "empty_budget = \<lparr>bs_reserved = [], bs_spent = []\<rparr>"

definition reserved_in :: "string \<Rightarrow> budget_store \<Rightarrow> rat" where
  "reserved_in scope s =
     sum_list (map br_amount_usd (filter (\<lambda>r. br_scope r = scope) (map snd (bs_reserved s))))"

definition budget_epsilon :: rat where
  "budget_epsilon = 1 / 10 ^ 12"

definition reserve ::
  "string \<Rightarrow> string \<Rightarrow> rat \<Rightarrow> rat \<Rightarrow> budget_store \<Rightarrow> budget_reservation option result \<times> budget_store" where
  "reserve reservation_id scope amount_usd limit_usd s =
     (if amount_usd < 0 \<or> limit_usd < 0 then (Inl ValueError, s)
      else case map_of (bs_reserved s) reservation_id of
        Some existing \<Rightarrow> (Inr (Some existing), s)
      | None \<Rightarrow>
          if dict_get (bs_spent s) scope 0 + reserved_in scope s + amount_usd > limit_usd + budget_epsilon
          then (Inr None, s)
          else (let r = \<lparr>br_reservation_id = reservation_id, br_scope = scope, br_amount_usd = amount_usd,
                         br_limit_usd = limit_usd\<rparr>
                in (Inr (Some r), s\<lparr>bs_reserved := AList.update reservation_id r (bs_reserved s)\<rparr>)))"

definition release :: "string \<Rightarrow> budget_store \<Rightarrow> budget_store" where
  "release reservation_id s = s\<lparr>bs_reserved := AList.delete reservation_id (bs_reserved s)\<rparr>"

definition settle :: "string \<Rightarrow> rat \<Rightarrow> budget_store \<Rightarrow> unit result \<times> budget_store" where
  "settle reservation_id actual_cost_usd s =
     (if actual_cost_usd < 0 then (Inl ValueError, s)
      else case map_of (bs_reserved s) reservation_id of
        None \<Rightarrow> (Inr (), s)
      | Some r \<Rightarrow>
          (Inr (), \<lparr>bs_reserved = AList.delete reservation_id (bs_reserved s),
                    bs_spent = AList.update (br_scope r) (dict_get (bs_spent s) (br_scope r) 0 + actual_cost_usd)
                      (bs_spent s)\<rparr>))"

definition budget_remaining :: "string \<Rightarrow> rat \<Rightarrow> budget_store \<Rightarrow> rat" where
  "budget_remaining scope limit_usd s = max 0 (limit_usd - dict_get (bs_spent s) scope 0 - reserved_in scope s)"

datatype budget_call = Reserve string string rat rat | ReleaseRes string | Settle string rat

fun budget_step :: "budget_store \<Rightarrow> budget_call \<Rightarrow> budget_store" where
  "budget_step s (Reserve i sc a l) = snd (reserve i sc a l s)"
| "budget_step s (ReleaseRes i) = release i s"
| "budget_step s (Settle i c) = snd (settle i c s)"

text \<open>What a scope has spent and still reserves, and by how much a settlement exceeds its reservation.\<close>

definition exposure :: "string \<Rightarrow> budget_store \<Rightarrow> rat" where
  "exposure scope s = dict_get (bs_spent s) scope 0 + reserved_in scope s"

definition overrun :: "string \<Rightarrow> budget_store \<Rightarrow> budget_call \<Rightarrow> rat" where
  "overrun scope s e =
     (case e of
        Settle i c \<Rightarrow>
          (case map_of (bs_reserved s) i of
             None \<Rightarrow> 0 | Some r \<Rightarrow> if br_scope r = scope then max 0 (c - br_amount_usd r) else 0)
      | _ \<Rightarrow> 0)"

fun overruns :: "string \<Rightarrow> budget_store \<Rightarrow> budget_call list \<Rightarrow> rat" where
  "overruns scope s [] = 0"
| "overruns scope s (e # es) = overrun scope s e + overruns scope (budget_step s e) es"

fun within_limit :: "string \<Rightarrow> rat \<Rightarrow> budget_call \<Rightarrow> bool" where
  "within_limit scope cap (Reserve i sc a l) = (sc = scope \<longrightarrow> l \<le> cap)"
| "within_limit scope cap _ = True"

definition budget_inv :: "budget_store \<Rightarrow> bool" where
  "budget_inv s = (distinct (map fst (bs_reserved s)) \<and> (\<forall>(i, r) \<in> set (bs_reserved s). 0 \<le> br_amount_usd r))"

definition scoped :: "string \<Rightarrow> budget_reservation \<Rightarrow> rat" where
  "scoped scope r = (if br_scope r = scope then br_amount_usd r else 0)"

lemma reserved_in_sum: "reserved_in scope s = sum_list (map (\<lambda>p. scoped scope (snd p)) (bs_reserved s))"
proof -
  have "sum_list (map br_amount_usd (filter (\<lambda>r. br_scope r = scope) (map snd d))) =
      sum_list (map (\<lambda>p. scoped scope (snd p)) d)" for d :: "(string, budget_reservation) dict"
    by (induction d) (auto simp: scoped_def)
  then show ?thesis by (simp add: reserved_in_def)
qed

lemma reserved_delete:
  "budget_inv s \<Longrightarrow> map_of (bs_reserved s) i = Some r \<Longrightarrow>
   sum_list (map (\<lambda>p. scoped scope (snd p)) (AList.delete i (bs_reserved s))) = reserved_in scope s - scoped scope r"
  by (simp add: reserved_in_sum sum_list_delete budget_inv_def)

lemma budget_step_inv: "budget_inv s \<Longrightarrow> budget_inv (budget_step s e)"
proof (cases e)
  case (Reserve i sc a l)
  assume "budget_inv s"
  with Reserve show ?thesis
    by (auto simp: reserve_def budget_inv_def Let_def split: option.split dest!: in_set_update)
qed (auto simp: release_def settle_def budget_inv_def split: option.split dest!: in_set_delete)

lemma delete_absent: "map_of d i = None \<Longrightarrow> AList.delete i d = d"
  by (induction d) (auto simp: AList.delete_eq filter_id_conv split: if_splits)

lemma exposure_release: "budget_inv s \<Longrightarrow> exposure scope (release i s) \<le> exposure scope s"
proof (cases "map_of (bs_reserved s) i")
  case (Some r)
  assume inv: "budget_inv s"
  then have "0 \<le> scoped scope r" using Some by (auto simp: budget_inv_def scoped_def dest: map_of_SomeD)
  with reserved_delete [OF inv Some, of scope] show ?thesis
    by (simp add: exposure_def release_def reserved_in_sum)
qed (simp add: exposure_def release_def delete_absent)

lemma exposure_settle:
  assumes "budget_inv s" "map_of (bs_reserved s) i = Some r" "0 \<le> c"
  shows "exposure scope (snd (settle i c s)) = exposure scope s + (if br_scope r = scope then c - br_amount_usd r else 0)"
  using assms(2,3) reserved_delete [OF assms(1,2), of scope]
  by (auto simp: exposure_def settle_def reserved_in_sum scoped_def)

lemma reserved_insert:
  "map_of (bs_reserved s) i = None \<Longrightarrow>
   reserved_in scope (s\<lparr>bs_reserved := AList.update i r (bs_reserved s)\<rparr>) = reserved_in scope s + scoped scope r"
  by (simp add: reserved_in_sum sum_list_update)

lemma exposure_step:
  assumes "budget_inv s" "within_limit scope cap e"
  shows "exposure scope (budget_step s e) \<le> max (cap + budget_epsilon) (exposure scope s) + overrun scope s e"
proof (cases e)
  case (Reserve i sc a l)
  show ?thesis
  proof (cases "map_of (bs_reserved s) i")
    case None
    then show ?thesis
      using Reserve assms(2) reserved_insert [OF None, of scope]
      by (auto simp: reserve_def overrun_def exposure_def scoped_def Let_def le_max_iff_disj not_less)
  qed (use Reserve in \<open>simp add: reserve_def overrun_def\<close>)
next
  case (ReleaseRes i)
  then show ?thesis using exposure_release [OF assms(1), of scope i] by (simp add: overrun_def le_max_iff_disj)
next
  case (Settle i c)
  show ?thesis
  proof (cases "c < 0 \<or> map_of (bs_reserved s) i = None")
    case True
    with Settle show ?thesis by (auto simp: settle_def overrun_def split: option.split intro: add_increasing2)
  next
    case False
    then obtain r where "map_of (bs_reserved s) i = Some r" "0 \<le> c" by auto
    with exposure_settle [OF assms(1) this, of scope] Settle show ?thesis
      by (simp add: overrun_def max_def)
  qed
qed

lemma overrun_nonneg: "0 \<le> overrun scope s e"
  by (auto simp: overrun_def split: budget_call.split option.split)

interpretation budget: step_system budget_step "\<lambda>_. True" budget_inv
  by unfold_locales (rule budget_step_inv)

lemma exposure_run:
  "budget_inv s \<Longrightarrow> list_all (within_limit scope cap) es \<Longrightarrow>
   exposure scope (run budget_step s es) \<le> max (cap + budget_epsilon) (exposure scope s) + overruns scope s es"
proof (induction es arbitrary: s)
  case (Cons e es)
  have "exposure scope (run budget_step (budget_step s e) es)
      \<le> max (cap + budget_epsilon) (exposure scope (budget_step s e)) + overruns scope (budget_step s e) es"
    by (rule Cons.IH) (use Cons.prems budget.step_inv in auto)
  moreover have "exposure scope (budget_step s e)
      \<le> max (cap + budget_epsilon) (exposure scope s) + overrun scope s e"
    using Cons.prems by (intro exposure_step) auto
  ultimately show ?case using overrun_nonneg [of scope s e] by (auto simp: max_def split: if_splits)
qed simp

section \<open>Marks that expire\<close>

text \<open>\<open>mark now d k\<close> sets a mark of nominal duration \<open>d\<close> on \<open>k\<close>, which is \<open>live\<close> before \<open>now + lifespan d\<close>.\<close>

fun mark_step :: "(time \<Rightarrow> 'd \<Rightarrow> 'k \<Rightarrow> 's \<Rightarrow> 's) \<Rightarrow> 's \<Rightarrow> time \<times> 'd \<times> 'k \<Rightarrow> 's" where
  "mark_step mark s (now, d, k) = mark now d k s"

fun last_expiry :: "('d \<Rightarrow> rat) \<Rightarrow> 'k \<Rightarrow> time option \<Rightarrow> (time \<times> 'd \<times> 'k) list \<Rightarrow> time option" where
  "last_expiry lifespan k acc [] = acc"
| "last_expiry lifespan k acc ((now, d, k') # ms) = last_expiry lifespan k (if k' = k then Some (now + lifespan d) else acc) ms"

locale expiring =
  fixes mark :: "time \<Rightarrow> 'd \<Rightarrow> 'k \<Rightarrow> 's \<Rightarrow> 's"
    and live :: "time \<Rightarrow> 'k \<Rightarrow> 's \<Rightarrow> bool"
    and lifespan :: "'d \<Rightarrow> rat"
  assumes live_mark: "live t k (mark now d k' s) = (if k' = k then t < now + lifespan d else live t k s)"
begin

lemma last_expiry_acc:
  "last_expiry lifespan k acc ms = (case last_expiry lifespan k None ms of None \<Rightarrow> acc | Some e \<Rightarrow> Some e)"
proof (induction ms arbitrary: acc)
  case (Cons m ms)
  obtain now d k' where m: "m = (now, d, k')" by (cases m)
  show ?case
    using Cons [of acc] Cons [of "Some (now + lifespan d)"] Cons [of None]
    by (auto simp: m split: option.splits)
qed simp

lemma run_marks:
  "live t k (run (mark_step mark) s ms) =
     (case last_expiry lifespan k None ms of None \<Rightarrow> live t k s | Some e \<Rightarrow> t < e)"
proof (induction ms arbitrary: s)
  case (Cons m ms)
  obtain now d k' where m: "m = (now, d, k')" by (cases m)
  show ?case
    using Cons last_expiry_acc [of k "Some (now + lifespan d)" ms]
    by (auto simp: m live_mark split: option.split)
qed simp

end

section \<open>Resource lanes\<close>

record lane_state =
  la_available :: bool
  la_reason :: "string option"
  la_expires_at :: "time option"

type_synonym lane_store = "(string, lane_state) dict"

definition lane_open :: lane_state where
  "lane_open = \<lparr>la_available = True, la_reason = None, la_expires_at = None\<rparr>"

definition lane_is_available :: "time \<Rightarrow> lane_state \<Rightarrow> bool" where
  "lane_is_available now st =
     (la_available st \<or> (case la_expires_at st of None \<Rightarrow> False | Some e \<Rightarrow> e \<le> now))"

definition set_unavailable :: "time \<Rightarrow> string \<Rightarrow> string \<Rightarrow> rat option \<Rightarrow> lane_store \<Rightarrow> lane_store" where
  "set_unavailable now lane_key reason retry_after_seconds s =
     AList.update lane_key
       \<lparr>la_available = False, la_reason = Some reason,
        la_expires_at = (case retry_after_seconds of None \<Rightarrow> None | Some r \<Rightarrow> Some (now + max 0 r))\<rparr> s"

definition set_available :: "string \<Rightarrow> lane_store \<Rightarrow> lane_store" where
  "set_available lane_key s = AList.update lane_key lane_open s"

definition lane_status :: "time \<Rightarrow> string \<Rightarrow> lane_store \<Rightarrow> lane_state \<times> lane_store" where
  "lane_status now lane_key s =
     (case map_of s lane_key of
        None \<Rightarrow> (lane_open, s)
      | Some current \<Rightarrow>
          if lane_is_available now current
          then (lane_open, if \<not> la_available current then AList.update lane_key lane_open s else s)
          else (current, s))"

text \<open>A lane closed with a retry time reopens by itself; reading its status does not change what it answers.\<close>

definition lane_blocked :: "time \<Rightarrow> string \<Rightarrow> lane_store \<Rightarrow> bool" where
  "lane_blocked now k s = (\<not> la_available (fst (lane_status now k s)))"

definition lane_mark :: "time \<Rightarrow> rat \<Rightarrow> string \<Rightarrow> lane_store \<Rightarrow> lane_store" where
  "lane_mark now d k s = set_unavailable now k ''rate_limit'' (Some d) s"

interpretation lanes: expiring lane_mark lane_blocked "\<lambda>d. max 0 d"
  by unfold_locales
    (auto simp: lane_blocked_def lane_mark_def lane_status_def set_unavailable_def lane_is_available_def lane_open_def
      split: option.splits)

section \<open>API key rotation\<close>

record key_pool =
  kp_key_cooldowns :: "(string, time) dict"
  kp_rr_indices :: "(string, nat) dict"

fun enumerate_keys :: "string \<Rightarrow> nat \<Rightarrow> string list \<Rightarrow> (string \<times> string) list" where
  "enumerate_keys env_k i [] = []"
| "enumerate_keys env_k i (part # parts) =
     (if strip part \<noteq> [] then [(strip part, env_k @ '':'' @ str_of_nat i)] else []) @ enumerate_keys env_k (i + 1) parts"

definition get_candidate_keys :: "endpoint \<Rightarrow> (string, string) dict \<Rightarrow> (string \<times> string) list" where
  "get_candidate_keys e keys =
     (let candidates = concat (map (\<lambda>env_k.
            let val = dict_get keys env_k [] in
            if val \<noteq> [] then enumerate_keys env_k 0 (split_on (CHR '','') val) else []) (ep_env_keys e))
      in if candidates = [] \<and> truthy_str (ep_env_key e)
         then (let env_k = the (ep_env_key e); val = dict_get keys env_k [] in
               if val \<noteq> []
               then enumerate_keys env_k 0 (filter (\<lambda>p. p \<noteq> []) (map strip (split_on (CHR '','') val))) else [])
         else candidates)"

definition key_cooling :: "time \<Rightarrow> string \<Rightarrow> key_pool \<Rightarrow> bool" where
  "key_cooling now kid p = (dict_get (kp_key_cooldowns p) kid 0 > now)"

definition available_keys :: "time \<Rightarrow> endpoint \<Rightarrow> (string, string) dict \<Rightarrow> key_pool \<Rightarrow> (string \<times> string) list" where
  "available_keys now e keys p = filter (\<lambda>(val, kid). \<not> key_cooling now kid p) (get_candidate_keys e keys)"

definition get_active_key ::
  "time \<Rightarrow> endpoint \<Rightarrow> (string, string) dict \<Rightarrow> key_pool \<Rightarrow> (string option \<times> string option) \<times> key_pool" where
  "get_active_key now e keys p =
     (case get_candidate_keys e keys of
        [] \<Rightarrow> ((None, None), p)
      | [(val, kid)] \<Rightarrow> (if key_cooling now kid p then (None, Some kid) else (Some val, Some kid), p)
      | _ \<Rightarrow>
          (let available = available_keys now e keys p in
           if available = [] then ((None, None), p)
           else (let curr_idx = dict_get (kp_rr_indices p) (ep_id e) 0;
                     sel = available ! (curr_idx mod length available)
                 in ((Some (fst sel), Some (snd sel)),
                     p\<lparr>kp_rr_indices := AList.update (ep_id e) ((curr_idx + 1) mod length available) (kp_rr_indices p)\<rparr>))))"

definition cooldown_span :: "rat option \<Rightarrow> rat" where
  "cooldown_span cooldown_seconds = max 1 (case cooldown_seconds of None \<Rightarrow> 60 | Some s \<Rightarrow> s)"

definition record_rate_limit :: "time \<Rightarrow> rat option \<Rightarrow> string \<Rightarrow> key_pool \<Rightarrow> key_pool" where
  "record_rate_limit now cooldown_seconds key_identifier p =
     p\<lparr>kp_key_cooldowns := AList.update key_identifier (now + cooldown_span cooldown_seconds) (kp_key_cooldowns p)\<rparr>"

definition has_alternative_key ::
  "time \<Rightarrow> endpoint \<Rightarrow> (string, string) dict \<Rightarrow> string option \<Rightarrow> key_pool \<Rightarrow> bool" where
  "has_alternative_key now e keys current_key_id p =
     (let candidates = get_candidate_keys e keys in
      if length candidates \<le> 1 then False
      else list_ex (\<lambda>(val, kid). Some kid \<noteq> current_key_id \<and> \<not> key_cooling now kid p) candidates)"

interpretation key_cooldowns: expiring record_rate_limit key_cooling cooldown_span
  by unfold_locales (auto simp: record_rate_limit_def key_cooling_def)

section \<open>Prompt cache\<close>

record prompt_cache =
  pc_ttl_seconds :: time
  pc_warm_entries :: "(string \<times> string, time) dict"

definition record_warm_cache :: "time \<Rightarrow> string \<Rightarrow> string \<Rightarrow> prompt_cache \<Rightarrow> prompt_cache" where
  "record_warm_cache now endpoint_id prefix_hash c =
     c\<lparr>pc_warm_entries := AList.update (endpoint_id, prefix_hash) (now + pc_ttl_seconds c) (pc_warm_entries c)\<rparr>"

definition is_warm :: "time \<Rightarrow> string \<Rightarrow> string \<Rightarrow> prompt_cache \<Rightarrow> bool \<times> prompt_cache" where
  "is_warm now endpoint_id prefix_hash c =
     (case map_of (pc_warm_entries c) (endpoint_id, prefix_hash) of
        None \<Rightarrow> (False, c)
      | Some expires_at \<Rightarrow>
          if expires_at \<le> now
          then (False, c\<lparr>pc_warm_entries := AList.delete (endpoint_id, prefix_hash) (pc_warm_entries c)\<rparr>)
          else (True, c))"

section \<open>Context preflight\<close>

record tokenizer_preflight =
  tp_input_tokens :: int
  tp_expected_output_tokens :: int
  tp_safety_margin_tokens :: int
  tp_context_window :: int
  tp_fits_without_compaction :: bool
  tp_requires_compaction :: bool
  tp_compatible :: bool

definition effective_output :: "model_profile \<Rightarrow> int \<Rightarrow> int" where
  "effective_output profile expected_output_tokens =
     (let mx = (if mp_max_output_tokens profile \<noteq> 0 then mp_max_output_tokens profile else 4096)
      in min (if expected_output_tokens > 0 then expected_output_tokens else mx) mx)"

definition preflight_context :: "model_profile \<Rightarrow> int \<Rightarrow> int \<Rightarrow> int \<Rightarrow> bool \<Rightarrow> tokenizer_preflight" where
  "preflight_context profile input_tokens expected_output_tokens safety_margin_tokens allow_compaction =
     (let eff = max 0 (effective_output profile expected_output_tokens);
          required = max 0 input_tokens + eff + max 0 safety_margin_tokens;
          minimum_required = eff + max 0 safety_margin_tokens;
          fits = (required \<le> mp_context_window profile)
      in \<lparr>tp_input_tokens = max 0 input_tokens,
          tp_expected_output_tokens = (if fits then eff else max 0 expected_output_tokens),
          tp_safety_margin_tokens = max 0 safety_margin_tokens,
          tp_context_window = mp_context_window profile,
          tp_fits_without_compaction = fits, tp_requires_compaction = (\<not> fits),
          tp_compatible = (fits \<or> (\<not> minimum_required > mp_context_window profile \<and> allow_compaction))\<rparr>)"

section \<open>Shadow quality policy\<close>

record quality_estimate =
  qe_score :: rat
  qe_confidence :: rat
  qe_provenance :: string
  qe_expires_at :: "time option"

record quality_policy =
  qp_min_confidence :: rat
  qp_estimates :: "(string \<times> string, quality_estimate) dict"

definition estimate_is_current :: "time \<Rightarrow> quality_estimate \<Rightarrow> bool" where
  "estimate_is_current now q = (case qe_expires_at q of None \<Rightarrow> True | Some e \<Rightarrow> e > now)"

definition observe ::
  "endpoint \<Rightarrow> string \<Rightarrow> rat \<Rightarrow> rat \<Rightarrow> string \<Rightarrow> time option \<Rightarrow> quality_policy \<Rightarrow> unit result \<times> quality_policy" where
  "observe e task_class score confidence provenance expires_at q =
     (if \<not> (0 \<le> score \<and> score \<le> 1) \<or> \<not> (0 \<le> confidence \<and> confidence \<le> 1) then (Inl ValueError, q)
      else (Inr (), q\<lparr>qp_estimates := AList.update (ep_id e, task_class)
              \<lparr>qe_score = score, qe_confidence = confidence, qe_provenance = provenance, qe_expires_at = expires_at\<rparr>
              (qp_estimates q)\<rparr>))"

definition estimate :: "time \<Rightarrow> endpoint \<Rightarrow> string \<Rightarrow> quality_policy \<Rightarrow> quality_estimate option" where
  "estimate now e task_class q =
     (let declared = (case ep_profile e of
            None \<Rightarrow> None
          | Some p \<Rightarrow> map_option (\<lambda>score. \<lparr>qe_score = score, qe_confidence = mp_quality_confidence p,
              qe_provenance = (if truthy_str (mp_quality_provenance p) then the (mp_quality_provenance p)
                               else ''profile_declared''),
              qe_expires_at = mp_capability_expires_at p\<rparr>) (mp_expected_quality_score p))
      in case map_of (qp_estimates q) (ep_id e, task_class) of
           Some observed \<Rightarrow> if estimate_is_current now observed then Some observed else declared
         | None \<Rightarrow> declared)"

text \<open>Python's \<open>max\<close> with a key: the first of the largest.\<close>

fun max_by :: "('a \<Rightarrow> rat) \<Rightarrow> 'a \<Rightarrow> 'a list \<Rightarrow> 'a" where
  "max_by f best [] = best"
| "max_by f best (x # xs) = max_by f (if f x > f best then x else best) xs"

record quality_recommendation =
  qr_endpoint_id :: "string option"
  qr_score :: "rat option"
  qr_abstained :: bool

definition recommend :: "time \<Rightarrow> endpoint list \<Rightarrow> string \<Rightarrow> quality_policy \<Rightarrow> quality_recommendation" where
  "recommend now endpoints task_class q =
     (case List.map_filter (\<lambda>e. case estimate now e task_class q of
             None \<Rightarrow> None
           | Some est \<Rightarrow> if qe_confidence est \<ge> qp_min_confidence q then Some (ep_id e, est) else None) endpoints of
        [] \<Rightarrow> \<lparr>qr_endpoint_id = None, qr_score = None, qr_abstained = True\<rparr>
      | c # cs \<Rightarrow> (let best = max_by (\<lambda>x. qe_score (snd x)) c cs
                   in \<lparr>qr_endpoint_id = Some (fst best), qr_score = Some (qe_score (snd best)), qr_abstained = False\<rparr>))"

section \<open>Key selection\<close>

text \<open>The results of \<open>n\<close> successive calls at one time.\<close>

fun active_keys :: "time \<Rightarrow> endpoint \<Rightarrow> (string, string) dict \<Rightarrow> key_pool \<Rightarrow> nat \<Rightarrow> (string option \<times> string option) list" where
  "active_keys now e keys p 0 = []"
| "active_keys now e keys p (Suc n) =
     (case get_active_key now e keys p of (r, p') \<Rightarrow> r # active_keys now e keys p' n)"

definition key_result :: "string \<times> string \<Rightarrow> string option \<times> string option" where
  "key_result c = (Some (fst c), Some (snd c))"

lemma get_active_key_many:
  assumes "2 \<le> length (get_candidate_keys e keys)" and "available_keys now e keys p \<noteq> []"
  shows "get_active_key now e keys p =
    (let a = available_keys now e keys p; i = dict_get (kp_rr_indices p) (ep_id e) 0 in
     (key_result (a ! (i mod length a)),
      p\<lparr>kp_rr_indices := AList.update (ep_id e) ((i + 1) mod length a) (kp_rr_indices p)\<rparr>))"
  using assms
  by (cases "get_candidate_keys e keys" rule: remdups_adj.cases) (auto simp: get_active_key_def key_result_def Let_def)

lemma active_keys_nth:
  assumes "2 \<le> length (get_candidate_keys e keys)" and "a = available_keys now e keys p" and "a \<noteq> []"
  shows "active_keys now e keys p n =
    map (\<lambda>j. key_result (a ! ((dict_get (kp_rr_indices p) (ep_id e) 0 + j) mod length a))) [0..<n]"
  using assms(2)
proof (induction n arbitrary: p)
  case (Suc n)
  let ?i = "dict_get (kp_rr_indices p) (ep_id e) 0"
  let ?p = "p\<lparr>kp_rr_indices := AList.update (ep_id e) ((?i + 1) mod length a) (kp_rr_indices p)\<rparr>"
  have g: "get_active_key now e keys p = (key_result (a ! (?i mod length a)), ?p)"
    using get_active_key_many [OF assms(1), of now p] Suc.prems assms(3) by (simp add: Let_def)
  have "a = available_keys now e keys ?p"
    using Suc.prems by (simp add: available_keys_def key_cooling_def)
  from Suc.IH [OF this] have "active_keys now e keys ?p n =
      map (\<lambda>j. key_result (a ! ((?i + Suc j) mod length a))) [0..<n]"
    by (simp add: mod_simps)
  then show ?case
    using g by (simp add: upt_rec [of 0 "Suc n"] map_Suc_upt [symmetric] del: upt_Suc)
qed simp

lemma active_keys_rotate:
  assumes "2 \<le> length (get_candidate_keys e keys)" and "available_keys now e keys p \<noteq> []"
  shows "active_keys now e keys p (length (available_keys now e keys p)) =
    map key_result (rotate (dict_get (kp_rr_indices p) (ep_id e) 0) (available_keys now e keys p))"
  using active_keys_nth [OF assms(1) refl assms(2), of "length (available_keys now e keys p)"]
  by (auto intro!: nth_equalityI simp: nth_rotate)

section \<open>Properties\<close>

text \<open>
  C18: reservations keep a budget. For any interleaving of reservations, releases and settlements in
  which the reservations of a scope name a limit of at most \<open>cap\<close>, what the scope has spent and
  still reserves never exceeds \<open>cap\<close> (plus the rounding tolerance of the code) by more than the
  amounts by which settlements exceeded their own reservations.
\<close>

theorem budget_never_exceeded:
  assumes "0 \<le> cap" and "list_all (within_limit scope cap) es"
  shows "dict_get (bs_spent (run budget_step empty_budget es)) scope 0 + reserved_in scope (run budget_step empty_budget es)
    \<le> cap + budget_epsilon + overruns scope empty_budget es"
proof -
  have "exposure scope empty_budget = 0" by (simp add: exposure_def empty_budget_def reserved_in_def)
  moreover have "budget_inv empty_budget" by (simp add: budget_inv_def empty_budget_def)
  moreover have "0 \<le> budget_epsilon" by (simp add: budget_epsilon_def)
  ultimately show ?thesis
    using exposure_run [OF _ assms(2), of empty_budget] assms(1) by (simp add: exposure_def max_def split: if_splits)
qed

theorem budget_never_exceeded_witness:
  "reserved_in ''s'' (run budget_step empty_budget
     [Reserve ''a'' ''s'' 6 10, Reserve ''b'' ''s'' 6 10, Settle ''a'' 5, Reserve ''c'' ''s'' 5 10]) \<le> 6"
proof -
  let ?es = "[Reserve ''a'' ''s'' 6 10, Reserve ''b'' ''s'' 6 10, Settle ''a'' 5, Reserve ''c'' ''s'' 5 10]"
  have h: "(0 :: rat) \<le> 10" "list_all (within_limit ''s'' 10) ?es" by simp_all
  have v: "dict_get (bs_spent (run budget_step empty_budget ?es)) ''s'' 0 = 5"
    "overruns ''s'' empty_budget ?es = 0" "budget_epsilon \<le> 1" by code_simp+
  show ?thesis using budget_never_exceeded [OF h] v by simp
qed

text \<open>
  Key rotation is isolated and fair. A key is withheld exactly while the latest rate limit
  recorded on that very key lasts, whatever is recorded on other keys; and with at least two
  configured keys, as many successive selections as there are available keys return every
  available key once, in order from the rotation index.
\<close>

theorem key_rotation_isolated_and_fair:
  "key_cooling t kid (run (mark_step record_rate_limit) p ms) =
     (case last_expiry cooldown_span kid None ms of None \<Rightarrow> key_cooling t kid p | Some x \<Rightarrow> t < x) \<and>
   (length (get_candidate_keys e keys) \<le> 1 \<or> available_keys now e keys p = [] \<or>
    active_keys now e keys p (length (available_keys now e keys p)) =
      map key_result (rotate (dict_get (kp_rr_indices p) (ep_id e) 0) (available_keys now e keys p)))"
  using key_cooldowns.run_marks [of t kid p ms] active_keys_rotate [of e keys now p] by fastforce

text \<open>
  A resource lane closed with a retry time is unavailable until exactly that time and then
  reopens by itself; marks on other lanes do not matter.
\<close>

theorem lane_reopens:
  "lane_blocked t k (run (mark_step lane_mark) [] ms) =
     (case last_expiry (\<lambda>d. max 0 d) k None ms of None \<Rightarrow> False | Some x \<Rightarrow> t < x)"
  using lanes.run_marks [of t k "[]" ms]
  by (simp add: lane_blocked_def lane_status_def lane_open_def split: option.split)

end
