(* ===== verification/Router.thy ===== *)
theory Router
  imports RoutingState Health Breaker "HOL-Library.Product_Lexorder"
begin

text \<open>
  \<^verbatim>\<open>routing/requirements.py\<close>, \<^verbatim>\<open>routing/scorer.py\<close>, \<^verbatim>\<open>routing/decision.py\<close> and
  \<^verbatim>\<open>routing/router.py\<close>: the capability router.

  The router state collects the stores it consults.  Selecting a candidate changes them (health
  snapshots and breakers are created, an expired breaker becomes HALF_OPEN, expired lanes reopen,
  expired cache entries go), so the evaluation of the pool threads the state from endpoint to
  endpoint in registration order.  \<open>mclk\<close> and \<open>wall\<close> are the two clock readings of the call.
\<close>

section \<open>Requirements\<close>

record requirement_vector =
  rv_require_tools :: bool
  rv_require_parallel_tools :: bool
  rv_require_structured_output :: bool
  rv_require_vision :: bool
  rv_require_reasoning :: bool
  rv_minimum_context_tokens :: int
  rv_maximum_cost_usd :: "rat option"
  rv_latency_budget_ms :: "rat option"
  rv_task_class :: string
  rv_allowed_providers :: "string list option"
  rv_forbidden_providers :: "string list option"
  rv_estimated_input_tokens :: int
  rv_expected_output_tokens :: int
  rv_safety_margin_tokens :: int
  rv_allow_context_compaction :: bool
  rv_required_region :: "string option"
  rv_required_compliance :: "string list option"
  rv_allow_external_traffic :: "bool option"
  rv_require_verified_capabilities :: bool
  rv_minimum_quality_score :: "rat option"
  rv_allow_quality_degradation :: bool
  rv_budget_scope :: "string option"
  rv_budget_limit_usd :: "rat option"
  rv_prefix_hash :: "string option"

datatype exclusion =
    X_margin | X_quality_range | X_budget_negative | X_not_allowed | X_forbidden | X_tools_undeclared | X_tools
  | X_parallel_tools | X_structured_output | X_vision | X_reasoning | X_unverified | X_region | X_compliance
  | X_external_traffic | X_no_quality | X_quality | X_context | X_cost | X_latency
  | X_excluded | X_dead | X_quota | X_preflight | X_lane | X_breaker

definition estimated_cost_usd :: "requirement_vector \<Rightarrow> model_profile \<Rightarrow> rat" where
  "estimated_cost_usd r p =
     (let out_tokens = (if rv_expected_output_tokens r \<noteq> 0 then rv_expected_output_tokens r
                        else min 4096 (mp_context_window p))
      in (of_int (rv_estimated_input_tokens r) * mp_input_price_per_1m p
          + of_int out_tokens * mp_output_price_per_1m p) / 1000000)"

definition hard_constraint_checks ::
  "time \<Rightarrow> requirement_vector \<Rightarrow> model_profile \<Rightarrow> endpoint_health option \<Rightarrow> (bool \<times> exclusion) list" where
  "hard_constraint_checks wall r p health =
     [(rv_safety_margin_tokens r < 0, X_margin),
      ((case rv_minimum_quality_score r of None \<Rightarrow> False | Some q \<Rightarrow> \<not> (0 \<le> q \<and> q \<le> 1)), X_quality_range),
      ((case rv_budget_limit_usd r of None \<Rightarrow> False | Some b \<Rightarrow> b < 0), X_budget_negative),
      ((case rv_allowed_providers r of None \<Rightarrow> False
        | Some ps \<Rightarrow> lower (mp_provider p) \<notin> set (map lower ps)), X_not_allowed),
      ((case rv_forbidden_providers r of None \<Rightarrow> False
        | Some ps \<Rightarrow> lower (mp_provider p) \<in> set (map lower ps)), X_forbidden),
      (rv_require_tools r \<and> mp_supports_tools p = None, X_tools_undeclared),
      (rv_require_tools r \<and> mp_supports_tools p \<noteq> Some True, X_tools),
      (rv_require_parallel_tools r \<and> mp_supports_parallel_tools p \<noteq> Some True, X_parallel_tools),
      (rv_require_structured_output r \<and> mp_supports_structured_output p \<noteq> Some True, X_structured_output),
      (rv_require_vision r \<and> \<not> mp_supports_vision p, X_vision),
      (rv_require_reasoning r \<and> \<not> mp_supports_reasoning p, X_reasoning),
      (rv_require_verified_capabilities r \<and> \<not> capabilities_are_current wall p, X_unverified),
      (rv_required_region r \<noteq> None \<and> pv_region (mp_privacy p) \<noteq> rv_required_region r, X_region),
      ((case rv_required_compliance r of None \<Rightarrow> False
        | Some cs \<Rightarrow> list_ex (\<lambda>c. lower c \<notin> set (map lower (pv_compliance (mp_privacy p)))) cs), X_compliance),
      (rv_allow_external_traffic r = Some False \<and> pv_allows_external_traffic (mp_privacy p), X_external_traffic),
      (rv_minimum_quality_score r \<noteq> None \<and> mp_expected_quality_score p = None
        \<and> \<not> rv_allow_quality_degradation r, X_no_quality),
      ((case (rv_minimum_quality_score r, mp_expected_quality_score p) of
          (Some q, Some s) \<Rightarrow> s < q \<and> \<not> rv_allow_quality_degradation r | _ \<Rightarrow> False), X_quality),
      (rv_minimum_context_tokens r > 0 \<and> mp_context_window p < rv_minimum_context_tokens r, X_context),
      ((case rv_maximum_cost_usd r of None \<Rightarrow> False | Some m \<Rightarrow> estimated_cost_usd r p > m), X_cost),
      ((case (rv_latency_budget_ms r, health) of
          (Some b, Some h) \<Rightarrow> (case eh_ema_latency_ms h of None \<Rightarrow> False | Some e \<Rightarrow> e > b) | _ \<Rightarrow> False), X_latency)]"

text \<open>The first check that fires is the exclusion reason; \<open>None\<close> means all constraints hold.\<close>

definition matches_hard_constraints ::
  "time \<Rightarrow> requirement_vector \<Rightarrow> model_profile \<Rightarrow> endpoint_health option \<Rightarrow> exclusion option" where
  "matches_hard_constraints wall r p health = map_option snd (find fst (hard_constraint_checks wall r p health))"

section \<open>Scoring\<close>

record candidate_evaluation =
  ce_endpoint_id :: string
  ce_eligible :: bool
  ce_exclusion_reason :: "exclusion option"
  ce_breaker_state :: cb_state
  ce_hard_constraints_passed :: bool
  ce_health_score :: rat
  ce_latency_score :: rat
  ce_cost_score :: rat
  ce_final_score :: rat
  ce_rank :: nat
  ce_is_cold_start :: bool
  ce_observed_latency_ms :: "rat option"
  ce_resource_lane :: "string option"
  ce_resource_lane_available :: bool
  ce_preflight_requires_compaction :: bool
  ce_expected_quality_score :: "rat option"
  ce_degradation_required :: bool
  ce_warm_cache :: bool

record routing_scorer =
  w_quality :: rat
  w_reliability :: rat
  w_latency :: rat
  w_cost :: rat
  cold_start_latency_score :: rat

definition default_scorer :: routing_scorer where
  "default_scorer = \<lparr>w_quality = 3 / 10, w_reliability = 3 / 10, w_latency = 2 / 10, w_cost = 2 / 10,
                     cold_start_latency_score = 8 / 10\<rparr>"

definition reliability_score :: "cb_state \<Rightarrow> endpoint_health option \<Rightarrow> rat" where
  "reliability_score st health =
     (if st = OPEN \<or> st = FORCED_OPEN then 0
      else if st = HALF_OPEN then 1 / 2
      else case health of
        Some h \<Rightarrow> if eh_total_calls h > 0
                  then 1 / 2 * success_rate h + 3 / 10 * tool_success_rate h + 2 / 10 * semantic_success_rate h else 1
      | None \<Rightarrow> 1)"

definition observed_latency :: "endpoint_health option \<Rightarrow> rat option" where
  "observed_latency health = (case health of None \<Rightarrow> None | Some h \<Rightarrow> eh_ema_latency_ms h)"

definition latency_score :: "routing_scorer \<Rightarrow> endpoint_health option \<Rightarrow> rat" where
  "latency_score sc health =
     (case observed_latency health of
        Some l \<Rightarrow> max 0 (min 1 (1 - l / 5000)) | None \<Rightarrow> cold_start_latency_score sc)"

definition cost_score :: "model_profile option \<Rightarrow> rat" where
  "cost_score profile =
     (case profile of
        None \<Rightarrow> 8 / 10
      | Some p \<Rightarrow> if mp_is_free p then 1
                  else if mp_input_price_per_1m p > 0 then max (1 / 10) (min 1 (1 / (1 + mp_input_price_per_1m p)))
                  else 8 / 10)"

definition quality_score :: "model_profile option \<Rightarrow> rat" where
  "quality_score profile =
     (case profile of
        None \<Rightarrow> 1 / 2
      | Some p \<Rightarrow> 2 / 10 + (if mp_supports_tools p = Some True then 3 / 10 else 0)
                  + (if mp_supports_reasoning p then 2 / 10 else 0)
                  + min (3 / 10) (of_int (mp_context_window p) / 1000000))"

definition score_candidate ::
  "routing_scorer \<Rightarrow> endpoint \<Rightarrow> cb_state \<Rightarrow> endpoint_health option \<Rightarrow> bool \<Rightarrow> candidate_evaluation" where
  "score_candidate sc e st health warm_cache =
     (let rel = reliability_score st health; lat = latency_score sc health;
          cost = cost_score (ep_profile e); qual = quality_score (ep_profile e);
          final = w_quality sc * qual + w_reliability sc * rel + w_latency sc * lat + w_cost sc * cost
                  + (if warm_cache then 25 / 100 else 0)
      in \<lparr>ce_endpoint_id = ep_id e, ce_eligible = True, ce_exclusion_reason = None, ce_breaker_state = st,
          ce_hard_constraints_passed = True, ce_health_score = rel, ce_latency_score = lat, ce_cost_score = cost,
          ce_final_score = final, ce_rank = 0, ce_is_cold_start = (observed_latency health = None),
          ce_observed_latency_ms = observed_latency health, ce_resource_lane = None, ce_resource_lane_available = True,
          ce_preflight_requires_compaction = False, ce_expected_quality_score = None,
          ce_degradation_required = False, ce_warm_cache = warm_cache\<rparr>)"

definition rejected :: "endpoint \<Rightarrow> exclusion \<Rightarrow> candidate_evaluation" where
  "rejected e x =
     \<lparr>ce_endpoint_id = ep_id e, ce_eligible = False, ce_exclusion_reason = Some x, ce_breaker_state = CLOSED,
      ce_hard_constraints_passed = True, ce_health_score = 1, ce_latency_score = 1, ce_cost_score = 1,
      ce_final_score = 0, ce_rank = 0, ce_is_cold_start = False, ce_observed_latency_ms = None,
      ce_resource_lane = None, ce_resource_lane_available = True, ce_preflight_requires_compaction = False,
      ce_expected_quality_score = None, ce_degradation_required = False, ce_warm_cache = False\<rparr>"

section \<open>The router\<close>

record router =
  rt_capabilities :: capability_registry
  rt_breakers :: breaker_registry
  rt_health :: health_store
  rt_default_strategy :: string
  rt_lanes :: lane_store
  rt_quality :: quality_policy
  rt_cache :: prompt_cache
  rt_scorer :: routing_scorer
  rt_round_robin :: "(string, nat) dict"
  rt_dead_list :: "string list"

definition router_mark_dead :: "time \<Rightarrow> string \<Rightarrow> string \<Rightarrow> string \<Rightarrow> string \<Rightarrow> router \<Rightarrow> router" where
  "router_mark_dead wall endpoint_id provider model reason r =
     r\<lparr>rt_dead_list := (if provider \<noteq> [] \<and> model \<noteq> [] then List.insert (provider @ '':'' @ model) else id)
                        (List.insert endpoint_id (rt_dead_list r)),
       rt_health := health_mark_dead wall endpoint_id provider model reason (rt_health r)\<rparr>"

definition router_clear_dead_list :: "router \<Rightarrow> router" where
  "router_clear_dead_list r = r\<lparr>rt_dead_list := [], rt_health := clear_dead_list (rt_health r)\<rparr>"

definition router_is_dead :: "time \<Rightarrow> endpoint \<Rightarrow> router \<Rightarrow> bool \<times> router" where
  "router_is_dead wall e r =
     (if ep_id e \<in> set (rt_dead_list r) then (True, r)
      else if ep_provider e \<noteq> [] \<and> ep_model e \<noteq> [] \<and> ep_provider e @ '':'' @ ep_model e \<in> set (rt_dead_list r)
      then (True, r)
      else case health_get_or_create wall (ep_id e) (ep_provider e) (ep_model e) (rt_health r) of
             (h, hs) \<Rightarrow> (eh_is_dead h, r\<lparr>rt_health := hs\<rparr>))"

definition breaker_state :: "time \<Rightarrow> string \<Rightarrow> breaker_registry \<Rightarrow> cb_state \<times> breaker_registry" where
  "breaker_state mclk key reg =
     (case registry_get_or_create key None reg of
        (b, reg') \<Rightarrow> (let b' = check_and_update_state mclk b in (cb_state b', registry_put key b' reg')))"

definition endpoint_profile :: "endpoint \<Rightarrow> router \<Rightarrow> model_profile" where
  "endpoint_profile e r =
     (case ep_profile e of Some p \<Rightarrow> p | None \<Rightarrow> get_profile (ep_provider e) (ep_model e) (rt_capabilities r))"

definition lane_check :: "time \<Rightarrow> endpoint \<Rightarrow> router \<Rightarrow> bool \<times> router" where
  "lane_check wall e r =
     (case ep_resource_lane e of
        None \<Rightarrow> (True, r)
      | Some k \<Rightarrow> (case lane_status wall k (rt_lanes r) of (st, ls) \<Rightarrow> (la_available st, r\<lparr>rt_lanes := ls\<rparr>)))"

definition warm_check :: "time \<Rightarrow> requirement_vector \<Rightarrow> endpoint \<Rightarrow> router \<Rightarrow> bool \<times> router" where
  "warm_check wall req e r =
     (if truthy_str (rv_prefix_hash req)
      then (case is_warm wall (ep_id e) (the (rv_prefix_hash req)) (rt_cache r) of (w, c) \<Rightarrow> (w, r\<lparr>rt_cache := c\<rparr>))
      else (False, r))"

text \<open>The scoring of an admitted endpoint, with its evidence.\<close>

definition admit ::
  "time \<Rightarrow> requirement_vector \<Rightarrow> endpoint \<Rightarrow> cb_state \<Rightarrow> endpoint_health \<Rightarrow> tokenizer_preflight \<Rightarrow> router
    \<Rightarrow> candidate_evaluation \<times> router" where
  "admit wall req e st h pre r =
     (case warm_check wall req e r of (warm, r') \<Rightarrow>
        (let ev = (score_candidate (rt_scorer r') e st (Some h) warm)
                    \<lparr>ce_resource_lane := ep_resource_lane e, ce_resource_lane_available := True,
                     ce_preflight_requires_compaction := tp_requires_compaction pre\<rparr>
         in ((case estimate wall e (rv_task_class req) (rt_quality r') of
                None \<Rightarrow> ev
              | Some q \<Rightarrow> ev\<lparr>ce_expected_quality_score := Some (qe_score q),
                  ce_degradation_required := (case rv_minimum_quality_score req of
                     None \<Rightarrow> False | Some m \<Rightarrow> qe_score q < m)\<rparr>), r')))"

text \<open>One iteration of the loop of \<open>select_candidate\<close>.\<close>

definition evaluate_candidate ::
  "time \<Rightarrow> time \<Rightarrow> requirement_vector \<Rightarrow> string list \<Rightarrow> endpoint \<Rightarrow> router \<Rightarrow> candidate_evaluation \<times> router" where
  "evaluate_candidate mclk wall req excluded e r0 =
     (if ep_id e \<in> set excluded then (rejected e X_excluded, r0)
      else case router_is_dead wall e r0 of
        (dead, r1) \<Rightarrow>
          if dead then
            (rejected e X_dead,
             r1\<lparr>rt_health := snd (health_get_or_create wall (ep_id e) (ep_provider e) (ep_model e) (rt_health r1))\<rparr>)
          else
            (let p = endpoint_profile e r1 in
             case health_get_or_create wall (ep_id e) (ep_provider e) (ep_model e) (rt_health r1) of
               (h, hs) \<Rightarrow>
                 (let r2 = r1\<lparr>rt_health := hs\<rparr> in
                  if is_quota_exhausted wall h
                  then ((rejected e X_quota)\<lparr>ce_is_cold_start := is_cold_start h\<rparr>, r2)
                  else case matches_hard_constraints wall req p (Some h) of
                    Some x \<Rightarrow> ((rejected e x)\<lparr>ce_hard_constraints_passed := False, ce_is_cold_start := is_cold_start h\<rparr>, r2)
                  | None \<Rightarrow>
                      (let pre = preflight_context p (rv_estimated_input_tokens req) (rv_expected_output_tokens req)
                                   (rv_safety_margin_tokens req) (rv_allow_context_compaction req) in
                       if \<not> tp_compatible pre
                       then ((rejected e X_preflight)\<lparr>ce_hard_constraints_passed := False,
                               ce_is_cold_start := is_cold_start h, ce_resource_lane := ep_resource_lane e,
                               ce_preflight_requires_compaction := tp_requires_compaction pre\<rparr>, r2)
                       else case lane_check wall e r2 of
                         (open_lane, r3) \<Rightarrow>
                           if \<not> open_lane
                           then ((rejected e X_lane)\<lparr>ce_is_cold_start := is_cold_start h,
                                   ce_resource_lane := ep_resource_lane e, ce_resource_lane_available := False,
                                   ce_preflight_requires_compaction := tp_requires_compaction pre\<rparr>, r3)
                           else case breaker_state mclk (resource_key e) (rt_breakers r3) of
                             (st, reg) \<Rightarrow>
                               (let r4 = r3\<lparr>rt_breakers := reg\<rparr> in
                                if st = OPEN \<or> st = FORCED_OPEN
                                then ((rejected e X_breaker)\<lparr>ce_breaker_state := st,
                                        ce_is_cold_start := is_cold_start h\<rparr>, r4)
                                else admit wall req e st h pre r4)))))"

fun evaluate_all ::
  "time \<Rightarrow> time \<Rightarrow> requirement_vector \<Rightarrow> string list \<Rightarrow> endpoint list \<Rightarrow> router
    \<Rightarrow> (endpoint \<times> candidate_evaluation) list \<times> router" where
  "evaluate_all mclk wall req excluded [] r = ([], r)"
| "evaluate_all mclk wall req excluded (e # es) r =
     (case evaluate_candidate mclk wall req excluded e r of
        (ev, r') \<Rightarrow> (case evaluate_all mclk wall req excluded es r' of (evs, r'') \<Rightarrow> ((e, ev) # evs, r'')))"

definition priority_key :: "requirement_vector \<Rightarrow> endpoint \<times> candidate_evaluation \<Rightarrow> int \<times> int \<times> rat" where
  "priority_key req x =
     (case x of (e, ev) \<Rightarrow>
        (let cw0 = (case ep_profile e of None \<Rightarrow> 65536 | Some p \<Rightarrow> mp_context_window p);
             cw = (if cw0 \<noteq> 0 then cw0 else 65536);
             is_groq = (lower (ep_provider e) = ''groq'');
             tier = (if rv_estimated_input_tokens req > 5000
                     then (if cw \<ge> 200000 \<and> \<not> is_groq then 0 else if is_groq then 1 else 2) else 0)
         in (tier, ep_priority e, - ce_final_score ev)))"

text \<open>Step 4: the order the strategy gives the eligible endpoints, the selected index and the rotation index.\<close>

definition order_eligible ::
  "requirement_vector \<Rightarrow> string \<Rightarrow> (endpoint \<times> candidate_evaluation) list \<Rightarrow> (endpoint \<times> candidate_evaluation) list" where
  "order_eligible req strat xs =
     (if strat = ''priority'' then sort_key (priority_key req) xs
      else if strat = ''round_robin'' then xs
      else if strat = ''latency_aware'' then sort_key (\<lambda>x. - ce_latency_score (snd x)) xs
      else if strat = ''cost_aware'' then sort_key (\<lambda>x. - ce_cost_score (snd x)) xs
      else if strat = ''reliability_aware'' then sort_key (\<lambda>x. - ce_health_score (snd x)) xs
      else sort_key (\<lambda>x. - ce_final_score (snd x)) xs)"

record routing_decision =
  rd_request_id :: string
  rd_strategy :: string
  rd_selected_endpoint :: "endpoint option"
  rd_evaluated_candidates :: "candidate_evaluation list"
  rd_total_considered :: nat
  rd_total_eligible :: nat
  rd_fallback_reason :: "string option"
  rd_shadow :: quality_recommendation

definition rank_in :: "(endpoint \<times> candidate_evaluation) list \<Rightarrow> candidate_evaluation \<Rightarrow> nat" where
  "rank_in ordered ev =
     (if ce_eligible ev
      then length (takeWhile (\<lambda>x. ce_endpoint_id (snd x) \<noteq> ce_endpoint_id ev) ordered) + 1 else ce_rank ev)"

definition strategy_of :: "string option \<Rightarrow> router \<Rightarrow> string" where
  "strategy_of strategy r = (if truthy_str strategy then the strategy else rt_default_strategy r)"

definition start_index :: "string \<Rightarrow> string \<Rightarrow> nat \<Rightarrow> router \<Rightarrow> nat" where
  "start_index strat pool n r = (if strat = ''round_robin'' then dict_get (rt_round_robin r) pool 0 mod n else 0)"

definition pick ::
  "requirement_vector \<Rightarrow> string \<Rightarrow> nat \<Rightarrow> (endpoint \<times> candidate_evaluation) list \<Rightarrow> endpoint option" where
  "pick req strat idx eligible =
     (if eligible = [] then None else Some (fst (order_eligible req strat eligible ! idx)))"

definition select_candidate ::
  "time \<Rightarrow> time \<Rightarrow> requirement_vector \<Rightarrow> string \<Rightarrow> string option \<Rightarrow> string \<Rightarrow> string list \<Rightarrow> string option \<Rightarrow> router
    \<Rightarrow> endpoint option \<times> routing_decision \<times> router" where
  "select_candidate mclk wall req pool strategy request_id excluded fallback_reason r =
     (let strat = strategy_of strategy r;
          endpoints = endpoints_for_pool pool (rt_capabilities r)
      in case evaluate_all mclk wall req excluded endpoints r of
           (evs, r') \<Rightarrow>
             (let eligible = filter (\<lambda>x. ce_eligible (snd x)) evs;
                  ordered = order_eligible req strat eligible;
                  idx = start_index strat pool (length eligible) r';
                  selected = pick req strat idx eligible;
                  r'' = (if eligible \<noteq> [] \<and> strat = ''round_robin''
                         then r'\<lparr>rt_round_robin := AList.update pool ((idx + 1) mod length eligible) (rt_round_robin r')\<rparr>
                         else r');
                  decision = \<lparr>rd_request_id = request_id, rd_strategy = strat, rd_selected_endpoint = selected,
                    rd_evaluated_candidates =
                      map (\<lambda>x. (snd x)\<lparr>ce_rank := rank_in (if eligible = [] then [] else ordered) (snd x)\<rparr>) evs,
                    rd_total_considered = length endpoints, rd_total_eligible = length eligible,
                    rd_fallback_reason = fallback_reason,
                    rd_shadow = recommend wall endpoints (rv_task_class req) (rt_quality r')\<rparr>
              in (selected, decision, r'')))"

section \<open>What makes an endpoint admissible\<close>

text \<open>A breaker that stays closed to traffic at time \<open>mclk\<close>, and one that lets every call pass.\<close>

definition breaker_blocks :: "time \<Rightarrow> string \<Rightarrow> breaker_registry \<Rightarrow> bool" where
  "breaker_blocks mclk key reg =
     (case map_of (reg_breakers reg) key of
        None \<Rightarrow> False
      | Some b \<Rightarrow> cb_state b = FORCED_OPEN \<or> (cb_state b = OPEN \<and> mclk < opened_at b + wait_seconds b))"

definition breaker_passes :: "string \<Rightarrow> breaker_registry \<Rightarrow> bool" where
  "breaker_passes key reg =
     (case map_of (reg_breakers reg) key of
        None \<Rightarrow> True
      | Some b \<Rightarrow> cb_state b \<in> {CLOSED, DISABLED, METRICS_ONLY} \<and> \<not> remote_open b)"

definition lane_free :: "time \<Rightarrow> endpoint \<Rightarrow> lane_store \<Rightarrow> bool" where
  "lane_free wall e ls = (case ep_resource_lane e of None \<Rightarrow> True | Some k \<Rightarrow> \<not> lane_blocked wall k ls)"

text \<open>Everything but the breaker.\<close>

definition usable :: "time \<Rightarrow> requirement_vector \<Rightarrow> string list \<Rightarrow> endpoint \<Rightarrow> router \<Rightarrow> bool" where
  "usable wall req excluded e r \<longleftrightarrow>
     (let h = health_get wall (ep_id e) (ep_provider e) (ep_model e) (rt_health r); p = endpoint_profile e r in
      ep_id e \<notin> set excluded \<and> ep_id e \<notin> set (rt_dead_list r) \<and>
      \<not> (ep_provider e \<noteq> [] \<and> ep_model e \<noteq> [] \<and> ep_provider e @ '':'' @ ep_model e \<in> set (rt_dead_list r)) \<and>
      \<not> eh_is_dead h \<and> \<not> is_quota_exhausted wall h \<and>
      matches_hard_constraints wall req p (Some h) = None \<and>
      tp_compatible (preflight_context p (rv_estimated_input_tokens req) (rv_expected_output_tokens req)
        (rv_safety_margin_tokens req) (rv_allow_context_compaction req)) \<and>
      lane_free wall e (rt_lanes r))"

text \<open>What the evaluation of the endpoints with ids in \<open>X\<close> leaves as it is.\<close>

definition router_frame :: "time \<Rightarrow> time \<Rightarrow> string set \<Rightarrow> router \<Rightarrow> router \<Rightarrow> bool" where
  "router_frame mclk wall X r r' \<longleftrightarrow>
     rt_capabilities r' = rt_capabilities r \<and> rt_dead_list r' = rt_dead_list r \<and>
     (\<forall>i. i \<notin> X \<longrightarrow> map_of (hs_snapshots (rt_health r')) i = map_of (hs_snapshots (rt_health r)) i) \<and>
     (\<forall>k. lane_blocked wall k (rt_lanes r') = lane_blocked wall k (rt_lanes r)) \<and>
     (\<forall>k. breaker_blocks mclk k (rt_breakers r) \<longrightarrow> breaker_blocks mclk k (rt_breakers r')) \<and>
     (\<forall>k. breaker_passes k (rt_breakers r) \<longrightarrow> breaker_passes k (rt_breakers r'))"

lemma router_frame_refl: "router_frame mclk wall X r r"
  by (simp add: router_frame_def)

lemma router_frame_trans:
  "router_frame mclk wall X r r' \<Longrightarrow> router_frame mclk wall Y r' r'' \<Longrightarrow> router_frame mclk wall (X \<union> Y) r r''"
  by (simp add: router_frame_def)

lemma check_blocked:
  "cb_state b = FORCED_OPEN \<or> cb_state b = OPEN \<and> mclk < opened_at b + wait_seconds b \<Longrightarrow>
   check_and_update_state mclk b = b"
  by (auto simp: check_and_update_state_def)

lemma check_passing:
  "cb_state b \<in> {CLOSED, DISABLED, METRICS_ONLY} \<Longrightarrow> \<not> remote_open b \<Longrightarrow> check_and_update_state mclk b = b"
  by (auto simp: check_and_update_state_def)

lemma new_breaker_passing:
  "cb_state (new_breaker i cfg None) = CLOSED \<and> \<not> remote_open (new_breaker i cfg None)"
  by (simp add: new_breaker_def remote_open_def)

lemma breaker_state_frame:
  assumes "breaker_state mclk key reg = (st, reg')"
  shows "(breaker_blocks mclk k reg \<longrightarrow> breaker_blocks mclk k reg') \<and> (breaker_passes k reg \<longrightarrow> breaker_passes k reg')"
proof (cases "map_of (reg_breakers reg) key")
  case None
  let ?b = "new_breaker key (reg_default_config reg) None"
  have "check_and_update_state mclk ?b = ?b"
    using new_breaker_passing [of key "reg_default_config reg"] check_passing by simp
  then show ?thesis
    using assms None new_breaker_passing [of key "reg_default_config reg"]
    by (auto simp: breaker_state_def registry_get_or_create_def registry_put_def breaker_blocks_def
        breaker_passes_def Let_def)
next
  case (Some b)
  have reg': "reg' = registry_put key (check_and_update_state mclk b) reg"
    using assms Some by (simp add: breaker_state_def registry_get_or_create_def Let_def)
  have "breaker_blocks mclk key reg \<Longrightarrow> check_and_update_state mclk b = b"
    using Some by (intro check_blocked) (simp add: breaker_blocks_def)
  moreover have "breaker_passes key reg \<Longrightarrow> check_and_update_state mclk b = b"
    using Some by (intro check_passing) (simp_all add: breaker_passes_def)
  ultimately show ?thesis
    using Some by (auto simp: reg' registry_put_def breaker_blocks_def breaker_passes_def split: option.splits)
qed

lemma breaker_state_verdict:
  assumes "breaker_state mclk key reg = (st, reg')"
  shows "(breaker_blocks mclk key reg \<longrightarrow> st = OPEN \<or> st = FORCED_OPEN) \<and>
    (breaker_passes key reg \<longrightarrow> st \<noteq> OPEN \<and> st \<noteq> FORCED_OPEN)"
proof (cases "map_of (reg_breakers reg) key")
  case None
  let ?b = "new_breaker key (reg_default_config reg) None"
  have "check_and_update_state mclk ?b = ?b"
    using new_breaker_passing [of key "reg_default_config reg"] check_passing by simp
  then show ?thesis
    using assms None new_breaker_passing [of key "reg_default_config reg"]
    by (simp add: breaker_state_def registry_get_or_create_def breaker_blocks_def Let_def)
next
  case (Some b)
  then have st: "st = cb_state (check_and_update_state mclk b)"
    using assms by (simp add: breaker_state_def registry_get_or_create_def Let_def)
  show ?thesis
    using Some check_blocked [of b mclk] check_passing [of b mclk]
    by (auto simp: st breaker_blocks_def breaker_passes_def)
qed

lemma lane_status_frame: "lane_blocked wall k (snd (lane_status wall j s)) = lane_blocked wall k s"
  by (auto simp: lane_blocked_def lane_status_def lane_open_def lane_is_available_def split: option.splits)

lemma router_frame_trans1:
  "router_frame mclk wall X r r' \<Longrightarrow> router_frame mclk wall X r' r'' \<Longrightarrow> router_frame mclk wall X r r''"
  using router_frame_trans [of mclk wall X r r' X r''] by simp

lemma health_frame:
  "router_frame mclk wall {i} r (r\<lparr>rt_health := snd (health_get_or_create wall i p m (rt_health r))\<rparr>)"
  by (simp add: router_frame_def health_get_or_create_def health_update_def)

lemma health_get_stable:
  "health_get wall i p m (snd (health_get_or_create wall i p m hs)) = health_get wall i p m hs"
  by (simp add: health_get_or_create_def health_update_def health_get_def)

lemma endpoint_profile_health [simp]: "endpoint_profile e (r\<lparr>rt_health := hs\<rparr>) = endpoint_profile e r"
  by (simp add: endpoint_profile_def split: option.split)

text \<open>The dead-list check, the lane check and the cache check: frame and answer.\<close>

lemma is_dead_step:
  assumes "router_is_dead wall e r = (dead, r1)"
  shows "router_frame mclk wall {ep_id e} r r1 \<and> rt_lanes r1 = rt_lanes r \<and> rt_breakers r1 = rt_breakers r \<and>
    health_get wall (ep_id e) (ep_provider e) (ep_model e) (rt_health r1)
      = health_get wall (ep_id e) (ep_provider e) (ep_model e) (rt_health r) \<and>
    endpoint_profile e r1 = endpoint_profile e r \<and>
    (\<not> dead \<longleftrightarrow> ep_id e \<notin> set (rt_dead_list r) \<and>
      \<not> (ep_provider e \<noteq> [] \<and> ep_model e \<noteq> [] \<and> ep_provider e @ '':'' @ ep_model e \<in> set (rt_dead_list r)) \<and>
      \<not> eh_is_dead (health_get wall (ep_id e) (ep_provider e) (ep_model e) (rt_health r)))"
  using assms health_frame [of mclk wall "ep_id e" r "ep_provider e" "ep_model e"]
    health_get_stable [of wall "ep_id e" "ep_provider e" "ep_model e" "rt_health r"]
  by (auto simp: router_is_dead_def router_frame_refl health_get_or_create_def split: if_splits)

lemma lane_check_step:
  assumes "lane_check wall e r = (ok, r')"
  shows "router_frame mclk wall X r r' \<and> rt_breakers r' = rt_breakers r \<and>
    (ok \<longleftrightarrow> lane_free wall e (rt_lanes r))"
proof (cases "ep_resource_lane e")
  case (Some k)
  obtain st ls where l: "lane_status wall k (rt_lanes r) = (st, ls)" by fastforce
  have "lane_blocked wall j ls = lane_blocked wall j (rt_lanes r)" for j
    using lane_status_frame [of wall j k "rt_lanes r"] l by simp
  then have "router_frame mclk wall X r (r\<lparr>rt_lanes := ls\<rparr>)" by (simp add: router_frame_def)
  moreover have "ok = la_available st" "r' = r\<lparr>rt_lanes := ls\<rparr>"
    using assms Some l by (simp_all add: lane_check_def)
  moreover have "lane_free wall e (rt_lanes r) = la_available st" by (simp add: lane_free_def Some lane_blocked_def l)
  ultimately show ?thesis by simp
qed (use assms in \<open>auto simp: lane_check_def lane_free_def router_frame_refl\<close>)

lemma breaker_frame:
  "breaker_state mclk key (rt_breakers r) = (st, reg) \<Longrightarrow> router_frame mclk wall X r (r\<lparr>rt_breakers := reg\<rparr>)"
  using breaker_state_frame [of mclk key "rt_breakers r" st reg] by (simp add: router_frame_def)

lemma admit_step:
  assumes "admit wall req e st h pre r = (ev, r')"
  shows "router_frame mclk wall X r r' \<and> ce_eligible ev \<and> ce_endpoint_id ev = ep_id e"
  using assms
  by (auto simp: admit_def warm_check_def score_candidate_def router_frame_def Let_def
      split: prod.splits if_splits option.splits)

lemma rejected_sel [simp]: "\<not> ce_eligible (rejected e x)" "ce_endpoint_id (rejected e x) = ep_id e"
  by (simp_all add: rejected_def)

lemma evaluate_step:
  assumes ev: "evaluate_candidate mclk wall req excluded e r = (ev, r')"
  shows "router_frame mclk wall {ep_id e} r r' \<and> ce_endpoint_id ev = ep_id e \<and>
    (ce_eligible ev \<longrightarrow> usable wall req excluded e r \<and> \<not> breaker_blocks mclk (resource_key e) (rt_breakers r)) \<and>
    (usable wall req excluded e r \<and> breaker_passes (resource_key e) (rt_breakers r) \<longrightarrow> ce_eligible ev)"
proof (cases "ep_id e \<in> set excluded")
  case True
  with ev show ?thesis by (auto simp: evaluate_candidate_def router_frame_refl usable_def Let_def)
next
  case nx: False
  obtain dead r1 where d: "router_is_dead wall e r = (dead, r1)" by fastforce
  note ds = is_dead_step [OF d, of mclk]
  let ?h = "health_get wall (ep_id e) (ep_provider e) (ep_model e) (rt_health r)"
  let ?r2 = "r1\<lparr>rt_health := snd (health_get_or_create wall (ep_id e) (ep_provider e) (ep_model e) (rt_health r1))\<rparr>"
  have f2: "router_frame mclk wall {ep_id e} r ?r2"
    using ds health_frame router_frame_trans1 by blast
  show ?thesis
  proof (cases "dead \<or> is_quota_exhausted wall ?h
      \<or> matches_hard_constraints wall req (endpoint_profile e r) (Some ?h) \<noteq> None
      \<or> \<not> tp_compatible (preflight_context (endpoint_profile e r) (rv_estimated_input_tokens req)
          (rv_expected_output_tokens req) (rv_safety_margin_tokens req) (rv_allow_context_compaction req))")
    case True
    with ev nx d ds f2 show ?thesis
      by (auto simp: evaluate_candidate_def usable_def health_get_or_create_def Let_def split: if_splits option.splits)
  next
    case ok: False
    obtain lane r3 where l: "lane_check wall e ?r2 = (lane, r3)" by fastforce
    note ls = lane_check_step [OF l, of mclk "{ep_id e}"]
    have f3: "router_frame mclk wall {ep_id e} r r3" using f2 ls router_frame_trans1 by blast
    obtain st reg where b: "breaker_state mclk (resource_key e) (rt_breakers r3) = (st, reg)" by fastforce
    have f4: "router_frame mclk wall {ep_id e} r (r3\<lparr>rt_breakers := reg\<rparr>)"
      using f3 breaker_frame [OF b] router_frame_trans1 by blast
    have br: "rt_breakers r3 = rt_breakers r" using ls ds by simp
    have u: "usable wall req excluded e r \<longleftrightarrow> lane"
      using nx ok ds ls by (auto simp: usable_def Let_def)
    show ?thesis
      using ev nx ok d ds l b f3 f4 u breaker_state_verdict [OF b, unfolded br]
        admit_step [of wall req e st ?h _ "r3\<lparr>rt_breakers := reg\<rparr>" ev r' mclk "{ep_id e}"] router_frame_trans1 [OF f4]
      by (auto simp: evaluate_candidate_def health_get_or_create_def Let_def split: if_splits)
  qed
qed

lemma lane_free_frame: "router_frame mclk wall X r r' \<Longrightarrow> lane_free wall e (rt_lanes r') = lane_free wall e (rt_lanes r)"
  by (simp add: router_frame_def lane_free_def split: option.split)

lemma endpoint_profile_frame: "router_frame mclk wall X r r' \<Longrightarrow> endpoint_profile e r' = endpoint_profile e r"
  by (simp add: router_frame_def endpoint_profile_def split: option.split)

lemma usable_frame:
  assumes "router_frame mclk wall X r r'" and "ep_id e \<notin> X"
  shows "usable wall req excluded e r' = usable wall req excluded e r"
proof -
  have "health_get wall (ep_id e) p m (rt_health r') = health_get wall (ep_id e) p m (rt_health r)" for p m
    using assms by (simp add: router_frame_def health_get_def)
  moreover have "rt_dead_list r' = rt_dead_list r" using assms(1) by (simp add: router_frame_def)
  ultimately show ?thesis
    using lane_free_frame [OF assms(1), of e] endpoint_profile_frame [OF assms(1), of e]
    by (simp add: usable_def)
qed

definition sound_verdict ::
  "time \<Rightarrow> time \<Rightarrow> requirement_vector \<Rightarrow> string list \<Rightarrow> router \<Rightarrow> endpoint \<Rightarrow> candidate_evaluation \<Rightarrow> bool" where
  "sound_verdict mclk wall req excluded r e ev \<longleftrightarrow>
     (ce_eligible ev \<longrightarrow> usable wall req excluded e r \<and> \<not> breaker_blocks mclk (resource_key e) (rt_breakers r)) \<and>
     (usable wall req excluded e r \<and> breaker_passes (resource_key e) (rt_breakers r) \<longrightarrow> ce_eligible ev)"

lemma sound_verdict_frame:
  "router_frame mclk wall X r r' \<Longrightarrow> ep_id e \<notin> X \<Longrightarrow> sound_verdict mclk wall req excluded r' e ev \<Longrightarrow>
   sound_verdict mclk wall req excluded r e ev"
  using usable_frame [of mclk wall X r r' e req excluded] by (auto simp: sound_verdict_def router_frame_def)

lemma evaluate_all_step:
  "evaluate_all mclk wall req excluded es r = (evs, r') \<Longrightarrow> distinct (map ep_id es) \<Longrightarrow>
   map fst evs = es \<and> list_all (\<lambda>x. sound_verdict mclk wall req excluded r (fst x) (snd x)) evs"
proof (induction es arbitrary: r evs r')
  case (Cons e es)
  obtain ev r1 where e: "evaluate_candidate mclk wall req excluded e r = (ev, r1)" by fastforce
  obtain evs1 r2 where es: "evaluate_all mclk wall req excluded es r1 = (evs1, r2)" by fastforce
  have evs: "evs = (e, ev) # evs1" using Cons.prems(1) e es by simp
  have f: "router_frame mclk wall {ep_id e} r r1" and v: "sound_verdict mclk wall req excluded r e ev"
    using evaluate_step [OF e] by (simp_all add: sound_verdict_def)
  have d: "distinct (map ep_id es)" using Cons.prems(2) by simp
  note IH = Cons.IH [OF es d]
  have "sound_verdict mclk wall req excluded r (fst x) (snd x)" if x: "x \<in> set evs1" for x
  proof (rule sound_verdict_frame [OF f])
    have "fst x \<in> set es" using IH x by force
    then have "ep_id (fst x) \<in> ep_id ` set es" by (rule imageI)
    then show "ep_id (fst x) \<notin> {ep_id e}" using Cons.prems(2) by auto
    show "sound_verdict mclk wall req excluded r1 (fst x) (snd x)" using IH x by (simp add: list_all_iff)
  qed
  then show ?case using IH v by (simp add: evs list_all_iff)
qed simp

section \<open>Selection\<close>

lemma order_eligible_set [simp]: "set (order_eligible req strat xs) = set xs"
  by (simp add: order_eligible_def)

lemma order_eligible_length [simp]: "length (order_eligible req strat xs) = length xs"
  by (simp add: order_eligible_def)

lemma select_form:
  assumes "select_candidate mclk wall req pool strategy rid excluded fr r = (sel, d, r')"
    and "evaluate_all mclk wall req excluded (endpoints_for_pool pool (rt_capabilities r)) r = (evs, r1)"
  shows "case sel of
      None \<Rightarrow> \<forall>x \<in> set evs. \<not> ce_eligible (snd x)
    | Some e \<Rightarrow> \<exists>ev. (e, ev) \<in> set evs \<and> ce_eligible ev"
proof -
  let ?el = "filter (\<lambda>x. ce_eligible (snd x)) evs"
  let ?st = "strategy_of strategy r"
  let ?i = "start_index ?st pool (length ?el) r1"
  have sel: "sel = pick req ?st ?i ?el"
  proof -
    have "sel = fst (select_candidate mclk wall req pool strategy rid excluded fr r)" unfolding assms(1) by simp
    also have "\<dots> = pick req ?st ?i ?el" unfolding select_candidate_def Let_def assms(2) prod.case fst_conv ..
    finally show ?thesis .
  qed
  show ?thesis
  proof (cases "?el = []")
    case True
    then show ?thesis by (simp add: sel pick_def filter_empty_conv)
  next
    case False
    then have "?i < length (order_eligible req ?st ?el)" by (simp add: start_index_def)
    then have "order_eligible req ?st ?el ! ?i \<in> set (order_eligible req ?st ?el)" by (rule nth_mem)
    then have m: "order_eligible req ?st ?el ! ?i \<in> set ?el" by simp
    have "sel = Some (fst (order_eligible req ?st ?el ! ?i))" using False by (simp only: sel pick_def if_False)
    moreover obtain e ev where x: "order_eligible req ?st ?el ! ?i = (e, ev)" by (meson surj_pair)
    ultimately have "sel = Some e" by simp
    moreover have "(e, ev) \<in> set evs" "ce_eligible ev" using m by (simp_all add: x)
    ultimately show ?thesis by auto
  qed
qed

lemma pool_distinct:
  "distinct (map fst (cg_endpoints g)) \<Longrightarrow> endpoints_profiled g \<Longrightarrow> distinct (map ep_id (endpoints_for_pool pool g))"
proof -
  assume d: "distinct (map fst (cg_endpoints g))" and p: "endpoints_profiled g"
  have "map ep_id (all_endpoints g) = map fst (cg_endpoints g)"
    using p by (auto simp: endpoints_profiled_def all_endpoints_def)
  with d show ?thesis
    unfolding endpoints_for_pool_def by (metis distinct_map_filter)
qed

lemma sort_key_head_min:
  fixes f :: "'a \<Rightarrow> 'b :: linorder"
  assumes "x \<in> set xs"
  shows "f (sort_key f xs ! 0) \<le> f x"
proof -
  let ?ys = "sort_key f xs"
  from assms obtain i where i: "i < length ?ys" "?ys ! i = x" by (metis in_set_conv_nth set_sort)
  have "sorted (map f ?ys)" by simp
  from sorted_nth_mono [OF this, of 0 i] i have "map f ?ys ! 0 \<le> f x" by simp
  moreover from i have "0 < length ?ys" by linarith
  ultimately show ?thesis by (simp only: nth_map)
qed

text \<open>A pool of two endpoints, the first of them marked dead.\<close>

definition plain_requirements :: requirement_vector where
  "plain_requirements =
     \<lparr>rv_require_tools = True, rv_require_parallel_tools = False, rv_require_structured_output = False,
      rv_require_vision = False, rv_require_reasoning = False, rv_minimum_context_tokens = 0,
      rv_maximum_cost_usd = None, rv_latency_budget_ms = None, rv_task_class = ''general'',
      rv_allowed_providers = None, rv_forbidden_providers = None, rv_estimated_input_tokens = 100,
      rv_expected_output_tokens = 0, rv_safety_margin_tokens = 0, rv_allow_context_compaction = True,
      rv_required_region = None, rv_required_compliance = None, rv_allow_external_traffic = None,
      rv_require_verified_capabilities = False, rv_minimum_quality_score = None,
      rv_allow_quality_degradation = False, rv_budget_scope = None, rv_budget_limit_usd = None, rv_prefix_hash = None\<rparr>"

definition demo_endpoint :: "string \<Rightarrow> string \<Rightarrow> endpoint" where
  "demo_endpoint i prov = \<lparr>ep_id = i, ep_provider = prov, ep_model = ''m'', ep_base_url = [], ep_protocol = ''openai'',
     ep_deployment = None, ep_quota_bucket_id = None, ep_env_key = Some ''K'', ep_env_keys = [], ep_weight = 1,
     ep_priority = 1, ep_profile = Some (raw_profile prov ''m''), ep_pool = ''general_agent'',
     ep_is_discovered = False, ep_resource_lane = None\<rparr>"

definition demo_registry :: capability_registry where
  "demo_registry = fold register_endpoint [demo_endpoint ''a'' ''p'', demo_endpoint ''b'' ''q'']
     \<lparr>cg_profiles = [], cg_aliases = [], cg_endpoints = []\<rparr>"

definition demo_router :: router where
  "demo_router = router_mark_dead 0 ''a'' ''p'' ''m'' ''gone''
     \<lparr>rt_capabilities = demo_registry, rt_breakers = \<lparr>reg_default_config = default_config, reg_breakers = []\<rparr>,
      rt_health = \<lparr>hs_ema_alpha = 1 / 5, hs_snapshots = []\<rparr>, rt_default_strategy = ''balanced'', rt_lanes = [],
      rt_quality = \<lparr>qp_min_confidence = 7 / 10, qp_estimates = []\<rparr>,
      rt_cache = \<lparr>pc_ttl_seconds = 300, pc_warm_entries = []\<rparr>, rt_scorer = default_scorer,
      rt_round_robin = [], rt_dead_list = []\<rparr>"

section \<open>Properties\<close>

text \<open>
  C17: the router is sound and complete for its admission rules. A selected endpoint belongs to the
  requested pool, is not excluded, dead or out of quota, meets every hard constraint, can hold
  the turn, has an open lane, and its breaker is neither FORCED_OPEN nor OPEN within its wait;
  and when nothing is selected, no endpoint of the pool is usable with a breaker that lets calls
  pass. This holds for the state before the call, although evaluating the pool changes it.
\<close>

theorem router_sound_and_complete:
  assumes "distinct (map fst (cg_endpoints (rt_capabilities r)))" and "endpoints_profiled (rt_capabilities r)"
  shows "case fst (select_candidate mclk wall req pool strategy rid excluded fr r) of
      Some e \<Rightarrow> e \<in> set (endpoints_for_pool pool (rt_capabilities r)) \<and> ep_pool e = pool \<and>
        usable wall req excluded e r \<and> \<not> breaker_blocks mclk (resource_key e) (rt_breakers r)
    | None \<Rightarrow> \<forall>e \<in> set (endpoints_for_pool pool (rt_capabilities r)).
        \<not> (usable wall req excluded e r \<and> breaker_passes (resource_key e) (rt_breakers r))"
proof -
  let ?es = "endpoints_for_pool pool (rt_capabilities r)"
  obtain sel d r' where sel: "select_candidate mclk wall req pool strategy rid excluded fr r = (sel, d, r')"
    using prod_cases3 by blast
  obtain evs r1 where ev: "evaluate_all mclk wall req excluded ?es r = (evs, r1)" by fastforce
  note all = evaluate_all_step [OF ev pool_distinct [OF assms]]
  show ?thesis
  proof (cases sel)
    case None
    with select_form [OF sel ev] have n: "\<forall>x \<in> set evs. \<not> ce_eligible (snd x)" by simp
    have "\<not> (usable wall req excluded e r \<and> breaker_passes (resource_key e) (rt_breakers r))" if "e \<in> set ?es" for e
    proof -
      from that all obtain x where "x \<in> set evs" "fst x = e" by (metis imageE list.set_map)
      with n all show ?thesis by (auto simp: list_all_iff sound_verdict_def)
    qed
    then show ?thesis by (simp add: sel None)
  next
    case (Some e)
    with select_form [OF sel ev] obtain x where x: "(e, x) \<in> set evs" "ce_eligible x" by auto
    have "e \<in> fst ` set evs" using x(1) by (rule rev_image_eqI) simp
    with all have "e \<in> set ?es" by (metis list.set_map)
    moreover from this have "ep_pool e = pool" by (simp add: endpoints_for_pool_def)
    moreover have "sound_verdict mclk wall req excluded r e x" using all x(1) by (auto simp: list_all_iff)
    ultimately show ?thesis using x(2) by (simp add: sel Some sound_verdict_def)
  qed
qed

theorem router_sound_and_complete_witness:
  "(case fst (select_candidate 5 5 plain_requirements ''general_agent'' None [] [] None demo_router) of
      Some e \<Rightarrow> usable 5 plain_requirements [] e demo_router | None \<Rightarrow> False) \<and>
   map_option ep_id (fst (select_candidate 5 5 plain_requirements ''general_agent'' None [] [] None demo_router)) = Some ''b''"
proof -
  let ?sel = "fst (select_candidate 5 5 plain_requirements ''general_agent'' None [] [] None demo_router)"
  have h: "distinct (map fst (cg_endpoints (rt_capabilities demo_router)))"
    "endpoints_profiled (rt_capabilities demo_router)" by code_simp+
  have v: "map_option ep_id ?sel = Some ''b''" by code_simp
  from router_sound_and_complete [OF h, where mclk = 5 and wall = 5 and req = plain_requirements
      and pool = "''general_agent''" and strategy = None and rid = "[]" and excluded = "[]" and fr = None] v
  show ?thesis by (auto split: option.splits)
qed

text \<open>
  The default strategy picks the best score: no eligible candidate of the pool has a higher
  final score than the selected one, and reordering by score never selects an ineligible one.
\<close>

theorem balanced_selects_best_score:
  assumes "evaluate_all mclk wall req excluded (endpoints_for_pool pool (rt_capabilities r)) r = (evs, r1)"
    and "strategy_of strategy r = ''balanced''"
    and "fst (select_candidate mclk wall req pool strategy rid excluded fr r) = Some e"
  shows "\<exists>ev. (e, ev) \<in> set evs \<and> ce_eligible ev \<and>
    (\<forall>(e', ev') \<in> set evs. ce_eligible ev' \<longrightarrow> ce_final_score ev' \<le> ce_final_score ev)"
proof -
  let ?el = "filter (\<lambda>x. ce_eligible (snd x)) evs"
  let ?x = "sort_key (\<lambda>x. - ce_final_score (snd x)) ?el ! 0"
  have "fst (select_candidate mclk wall req pool strategy rid excluded fr r) = pick req ''balanced'' 0 ?el"
    unfolding select_candidate_def Let_def assms(1,2) prod.case fst_conv by (simp add: start_index_def)
  with assms(3) have ne: "?el \<noteq> []" and e: "fst ?x = e"
    by (auto simp: pick_def order_eligible_def split: if_splits)
  then have "?x \<in> set (sort_key (\<lambda>x. - ce_final_score (snd x)) ?el)" by (intro nth_mem) simp
  then have x: "?x \<in> set evs" "ce_eligible (snd ?x)" by simp_all
  have "ce_final_score ev' \<le> ce_final_score (snd ?x)" if "(e', ev') \<in> set evs" "ce_eligible ev'" for e' ev'
    using sort_key_head_min [of "(e', ev')" ?el "\<lambda>x. - ce_final_score (snd x)"] that by simp
  then show ?thesis using x e by (intro exI [of _ "snd ?x"]) auto
qed

theorem balanced_selects_best_score_witness:
  "\<exists>ev. (demo_endpoint ''b'' ''q'', ev) \<in> set (fst (evaluate_all 5 5 plain_requirements []
     (endpoints_for_pool ''general_agent'' (rt_capabilities demo_router)) demo_router)) \<and> ce_eligible ev"
proof -
  let ?all = "evaluate_all 5 5 plain_requirements [] (endpoints_for_pool ''general_agent'' (rt_capabilities demo_router)) demo_router"
  have h: "?all = (fst ?all, snd ?all)" by simp
  have s: "strategy_of None demo_router = ''balanced''" by code_simp
  have e: "fst (select_candidate 5 5 plain_requirements ''general_agent'' None [] [] None demo_router)
      = Some (demo_endpoint ''b'' ''q'')" by code_simp
  from balanced_selects_best_score [OF h s e] show ?thesis by blast
qed

end
