(* ===== verification/PyText.thy ===== *)
theory PyText
  imports Json
begin

text \<open>
  What the sources use of the Python standard library on text: regular expressions
  (\<^verbatim>\<open>re.match\<close>, \<^verbatim>\<open>re.search\<close>, \<^verbatim>\<open>re.sub\<close>), \<^verbatim>\<open>str.splitlines\<close>, \<^verbatim>\<open>str.isdigit\<close>,
  \<^verbatim>\<open>json.loads\<close> and \<^verbatim>\<open>json.dumps(indent=2)\<close>.

  A pattern is a value of type \<open>rx\<close>.  \<open>rx_run r p s\<close> lists the ways \<open>r\<close> matches at the front
  of \<open>s\<close> when the character before is \<open>p\<close>, in the order in which a backtracking matcher tries
  them (greedy repetition first); each is given by the character before the rest and the rest.  A
  pattern compiled with \<open>IGNORECASE\<close> is run in lower case on the text in lower case.

  \<open>loads strict s\<close> is the JSON decoder, \<open>None\<close> where it raises.  It works with fuel, and the
  length of the text is enough because every nested value consumes a character.  The constants
  \<open>NaN\<close> and \<open>Infinity\<close>, which have no rational value, are rejected.
\<close>

section \<open>Regular expressions\<close>

datatype rx =
    Chr "char \<Rightarrow> bool"
  | Eps
  | Seq rx rx
  | Alt rx rx
  | Star rx
  | LazyStar rx
  | WordBoundary
  | EndOfText

fun star_run ::
  "(char option \<Rightarrow> string \<Rightarrow> (char option \<times> string) list) \<Rightarrow> nat \<Rightarrow> char option \<Rightarrow> string \<Rightarrow> (char option \<times> string) list" where
  "star_run f 0 p s = [(p, s)]"
| "star_run f (Suc n) p s =
     concat (map (\<lambda>(p', t). if length t < length s then star_run f n p' t else []) (f p s)) @ [(p, s)]"

fun lazy_run ::
  "(char option \<Rightarrow> string \<Rightarrow> (char option \<times> string) list) \<Rightarrow> nat \<Rightarrow> char option \<Rightarrow> string \<Rightarrow> (char option \<times> string) list" where
  "lazy_run f 0 p s = [(p, s)]"
| "lazy_run f (Suc n) p s =
     (p, s) # concat (map (\<lambda>(p', t). if length t < length s then lazy_run f n p' t else []) (f p s))"

definition is_digit :: "char \<Rightarrow> bool" where
  "is_digit c = (let n = (of_char c :: nat) in 48 \<le> n \<and> n \<le> 57)"

definition is_word :: "char \<Rightarrow> bool" where
  "is_word c = (let n = (of_char c :: nat) in
     (48 \<le> n \<and> n \<le> 57) \<or> (65 \<le> n \<and> n \<le> 90) \<or> (97 \<le> n \<and> n \<le> 122) \<or> n = 95)"

definition at_boundary :: "char option \<Rightarrow> string \<Rightarrow> bool" where
  "at_boundary p s =
     ((case p of None \<Rightarrow> False | Some c \<Rightarrow> is_word c) \<noteq> (case s of [] \<Rightarrow> False | c # _ \<Rightarrow> is_word c))"

fun rx_run :: "rx \<Rightarrow> char option \<Rightarrow> string \<Rightarrow> (char option \<times> string) list" where
  "rx_run (Chr P) p s = (case s of [] \<Rightarrow> [] | c # t \<Rightarrow> if P c then [(Some c, t)] else [])"
| "rx_run Eps p s = [(p, s)]"
| "rx_run (Seq a b) p s = concat (map (\<lambda>(p', t). rx_run b p' t) (rx_run a p s))"
| "rx_run (Alt a b) p s = rx_run a p s @ rx_run b p s"
| "rx_run (Star a) p s = star_run (rx_run a) (length s) p s"
| "rx_run (LazyStar a) p s = lazy_run (rx_run a) (length s) p s"
| "rx_run WordBoundary p s = (if at_boundary p s then [(p, s)] else [])"
| "rx_run EndOfText p s = (if s = [] \<or> s = [char_of (10 :: nat)] then [(p, s)] else [])"

definition lit :: "string \<Rightarrow> rx" where
  "lit w = foldr (\<lambda>c r. Seq (Chr (\<lambda>x. x = c)) r) w Eps"

definition rx_opt :: "rx \<Rightarrow> rx" where
  "rx_opt r = Alt r Eps"

definition rx_plus :: "rx \<Rightarrow> rx" where
  "rx_plus r = Seq r (Star r)"

definition alts :: "rx list \<Rightarrow> rx" where
  "alts rs = (case rs of [] \<Rightarrow> Chr (\<lambda>_. False) | r # rs' \<Rightarrow> foldl Alt r rs')"

definition seqs :: "rx list \<Rightarrow> rx" where
  "seqs rs = foldr Seq rs Eps"

definition digit :: rx where
  "digit = Chr is_digit"

definition spaces :: rx where
  "spaces = Star (Chr is_space)"

definition rx_match :: "rx \<Rightarrow> string \<Rightarrow> bool" where
  "rx_match r s = (rx_run r None s \<noteq> [])"

fun rx_search_from :: "rx \<Rightarrow> char option \<Rightarrow> string \<Rightarrow> bool" where
  "rx_search_from r p [] = (rx_run r p [] \<noteq> [])"
| "rx_search_from r p (c # s) = (rx_run r p (c # s) \<noteq> [] \<or> rx_search_from r (Some c) s)"

definition rx_search :: "rx \<Rightarrow> string \<Rightarrow> bool" where
  "rx_search r s = rx_search_from r None s"

text \<open>
  \<open>re.search\<close> with groups: the pattern is a sequence of parts, the parts marked \<open>True\<close> are its
  groups, and the texts of the groups are returned.
\<close>

fun first_some :: "('a \<Rightarrow> 'b option) \<Rightarrow> 'a list \<Rightarrow> 'b option" where
  "first_some f [] = None"
| "first_some f (x # xs) = (case f x of Some y \<Rightarrow> Some y | None \<Rightarrow> first_some f xs)"

fun rx_parts :: "(bool \<times> rx) list \<Rightarrow> char option \<Rightarrow> string \<Rightarrow> string list option" where
  "rx_parts [] p s = Some []"
| "rx_parts (q # ps) p s =
     first_some (\<lambda>(p', t). map_option (\<lambda>gs. if fst q then take (length s - length t) s # gs else gs) (rx_parts ps p' t))
       (rx_run (snd q) p s)"

fun rx_groups_from :: "(bool \<times> rx) list \<Rightarrow> char option \<Rightarrow> string \<Rightarrow> string list option" where
  "rx_groups_from ps p [] = rx_parts ps p []"
| "rx_groups_from ps p (c # s) =
     (case rx_parts ps p (c # s) of Some gs \<Rightarrow> Some gs | None \<Rightarrow> rx_groups_from ps (Some c) s)"

definition rx_groups :: "(bool \<times> rx) list \<Rightarrow> string \<Rightarrow> string list option" where
  "rx_groups ps s = rx_groups_from ps None s"

text \<open>
  \<open>re.sub\<close> with a replacement computed from the matched text; the patterns of the sources never
  match the empty string.
\<close>

function rx_sub_from :: "rx \<Rightarrow> (string \<Rightarrow> string) \<Rightarrow> char option \<Rightarrow> string \<Rightarrow> string" where
  "rx_sub_from r f p [] = []"
| "rx_sub_from r f p (c # s) =
     (case rx_run r p (c # s) of
        (p', t) # _ \<Rightarrow> if length t < Suc (length s)
                       then f (take (Suc (length s) - length t) (c # s)) @ rx_sub_from r f p' t
                       else c # rx_sub_from r f (Some c) s
      | [] \<Rightarrow> c # rx_sub_from r f (Some c) s)"
  by pat_completeness auto
termination
  by (relation "measure (\<lambda>(r, f, p, s). length s)") auto

definition rx_sub :: "rx \<Rightarrow> (string \<Rightarrow> string) \<Rightarrow> string \<Rightarrow> string" where
  "rx_sub r f s = rx_sub_from r f None s"

text \<open>\<open>re.sub\<close> of a pattern that starts with \<open>^\<close>: at most one match, at the front.\<close>

definition rx_drop_prefix :: "rx \<Rightarrow> string \<Rightarrow> string" where
  "rx_drop_prefix r s = (case rx_run r None s of (_, t) # _ \<Rightarrow> t | [] \<Rightarrow> s)"

section \<open>Strings\<close>

text \<open>
  What follows a line break at the front of a text: one of the control characters 10 to 13 and 28 to 30 (CR LF
  counts as one), or the UTF-8 bytes of U+0085, U+2028 or U+2029.
\<close>

fun codes_follow :: "nat list \<Rightarrow> string \<Rightarrow> string option" where
  "codes_follow [] s = Some s"
| "codes_follow (n # ns) [] = None"
| "codes_follow (n # ns) (c # s) = (if of_char c = n then codes_follow ns s else None)"

definition after_linebreak :: "string \<Rightarrow> string option" where
  "after_linebreak s =
     first_some (\<lambda>ns. codes_follow ns s)
       [[13, 10], [10], [11], [12], [13], [28], [29], [30], [194, 133], [226, 128, 168], [226, 128, 169]]"

lemma codes_follow_length: "codes_follow ns s = Some t \<Longrightarrow> length s = length ns + length t"
  by (induction ns s rule: codes_follow.induct) (auto split: if_splits)

lemma first_some_Some: "first_some f xs = Some y \<Longrightarrow> \<exists>x \<in> set xs. f x = Some y"
  by (induction xs) (auto split: option.splits)

lemma after_linebreak_shorter: "after_linebreak s = Some t \<Longrightarrow> length t < length s"
  unfolding after_linebreak_def by (drule first_some_Some) (auto dest!: codes_follow_length)

text \<open>\<open>splitlines\<close>; \<open>cur\<close> holds the line read so far, reversed.\<close>

function splitlines_from :: "string \<Rightarrow> string \<Rightarrow> string list" where
  "splitlines_from cur s =
     (case s of
        [] \<Rightarrow> if cur = [] then [] else [rev cur]
      | c # t \<Rightarrow> (case after_linebreak s of Some u \<Rightarrow> rev cur # splitlines_from [] u | None \<Rightarrow> splitlines_from (c # cur) t))"
  by pat_completeness auto
termination
  by (relation "measure (\<lambda>(cur, s). length s)") (auto dest: after_linebreak_shorter)

declare splitlines_from.simps [simp del]

definition splitlines :: "string \<Rightarrow> string list" where
  "splitlines s = splitlines_from [] s"

definition isdigit :: "string \<Rightarrow> bool" where
  "isdigit s = (s \<noteq> [] \<and> list_all is_digit s)"

definition nat_of_digits :: "string \<Rightarrow> nat" where
  "nat_of_digits s = foldl (\<lambda>n c. 10 * n + (of_char c - 48)) 0 s"

text \<open>\<open>float()\<close> of a text of digits and dots; \<open>None\<close> where it raises \<open>ValueError\<close>.\<close>

definition decimal :: "string \<Rightarrow> rat option" where
  "decimal s =
     (let ip = takeWhile (\<lambda>c. c \<noteq> CHR ''.'') s; fp = drop (Suc (length ip)) s in
      if list_all is_digit (ip @ fp) \<and> ip @ fp \<noteq> []
      then Some (of_nat (nat_of_digits ip) + of_nat (nat_of_digits fp) / 10 ^ length fp) else None)"

section \<open>JSON text\<close>

definition is_json_space :: "char \<Rightarrow> bool" where
  "is_json_space c = (let n = (of_char c :: nat) in n = 32 \<or> n = 9 \<or> n = 10 \<or> n = 13)"

definition skip_space :: "string \<Rightarrow> string" where
  "skip_space s = dropWhile is_json_space s"

definition hex_value :: "char \<Rightarrow> nat option" where
  "hex_value c =
     (let n = (of_char c :: nat) in
      if 48 \<le> n \<and> n \<le> 57 then Some (n - 48)
      else if 97 \<le> n \<and> n \<le> 102 then Some (n - 87)
      else if 65 \<le> n \<and> n \<le> 70 then Some (n - 55) else None)"

text \<open>The UTF-8 bytes of a code point.\<close>

definition utf8 :: "nat \<Rightarrow> string" where
  "utf8 n =
     (if n < 128 then [char_of n]
      else if n < 2048 then [char_of (192 + n div 64), char_of (128 + n mod 64)]
      else if n < 65536 then [char_of (224 + n div 4096), char_of (128 + n div 64 mod 64), char_of (128 + n mod 64)]
      else [char_of (240 + n div 262144), char_of (128 + n div 4096 mod 64), char_of (128 + n div 64 mod 64),
            char_of (128 + n mod 64)])"

definition hex4 :: "string \<Rightarrow> (nat \<times> string) option" where
  "hex4 s =
     (case s of a # b # c # d # t \<Rightarrow>
        (case (hex_value a, hex_value b, hex_value c, hex_value d) of
           (Some w, Some x, Some y, Some z) \<Rightarrow> Some (((w * 16 + x) * 16 + y) * 16 + z, t) | _ \<Rightarrow> None)
      | _ \<Rightarrow> None)"

text \<open>An escape after the backslash: the bytes it stands for and the rest.\<close>

definition unescape :: "string \<Rightarrow> (string \<times> string) option" where
  "unescape s =
     (case s of
        [] \<Rightarrow> None
      | c # t \<Rightarrow>
          (let n = (of_char c :: nat) in
           if n = 34 \<or> n = 92 \<or> n = 47 then Some ([c], t)
           else if n = 98 then Some ([char_of (8 :: nat)], t)
           else if n = 102 then Some ([char_of (12 :: nat)], t)
           else if n = 110 then Some ([char_of (10 :: nat)], t)
           else if n = 114 then Some ([char_of (13 :: nat)], t)
           else if n = 116 then Some ([char_of (9 :: nat)], t)
           else if n = 117 then
             (case hex4 t of
                None \<Rightarrow> None
              | Some (u, t') \<Rightarrow>
                  (case t' of
                     b # v # t'' \<Rightarrow>
                       if 55296 \<le> u \<and> u \<le> 56319 \<and> (of_char b :: nat) = 92 \<and> v = CHR ''u'' then
                         (case hex4 t'' of
                            Some (l, rest) \<Rightarrow>
                              if 56320 \<le> l \<and> l \<le> 57343
                              then Some (utf8 (65536 + (u - 55296) * 1024 + (l - 56320)), rest)
                              else Some (utf8 u, t')
                          | None \<Rightarrow> Some (utf8 u, t'))
                       else Some (utf8 u, t')
                   | _ \<Rightarrow> Some (utf8 u, t')))
           else None))"

text \<open>The characters of a string literal up to its closing quote.\<close>

fun string_body :: "nat \<Rightarrow> bool \<Rightarrow> string \<Rightarrow> (string \<times> string) option" where
  "string_body 0 strict s = None"
| "string_body (Suc n) strict s =
     (case s of
        [] \<Rightarrow> None
      | c # t \<Rightarrow>
          if (of_char c :: nat) = 34 then Some ([], t)
          else if (of_char c :: nat) = 92 then
            (case unescape t of
               None \<Rightarrow> None
             | Some (w, t') \<Rightarrow> map_option (\<lambda>(u, rest). (w @ u, rest)) (string_body n strict t'))
          else if strict \<and> (of_char c :: nat) < 32 then None
          else map_option (\<lambda>(u, rest). (c # u, rest)) (string_body n strict t))"

definition ten_power :: "int \<Rightarrow> rat" where
  "ten_power e = (if 0 \<le> e then 10 ^ nat e else 1 / 10 ^ nat (- e))"

definition sign_prefix :: "string \<Rightarrow> int \<times> string" where
  "sign_prefix s = (case s of c # t \<Rightarrow> if c = CHR ''-'' then (-1, t) else if c = CHR ''+'' then (1, t) else (1, s) | [] \<Rightarrow> (1, s))"

definition span_digits :: "string \<Rightarrow> string \<times> string" where
  "span_digits s = (takeWhile is_digit s, dropWhile is_digit s)"

text \<open>Fraction and exponent of a number; \<open>None\<close> when the part is absent.\<close>

definition fraction_part :: "string \<Rightarrow> string option \<times> string" where
  "fraction_part s =
     (case s of c # t \<Rightarrow> if c = CHR ''.'' \<and> fst (span_digits t) \<noteq> [] then (Some (fst (span_digits t)), snd (span_digits t)) else (None, s)
      | [] \<Rightarrow> (None, s))"

definition exponent_part :: "string \<Rightarrow> int option \<times> string" where
  "exponent_part s =
     (case s of
        c # t \<Rightarrow>
          if c = CHR ''e'' \<or> c = CHR ''E'' then
            (case sign_prefix t of (sg, u) \<Rightarrow>
               if fst (span_digits u) \<noteq> [] then (Some (sg * int (nat_of_digits (fst (span_digits u)))), snd (span_digits u)) else (None, s))
          else (None, s)
      | [] \<Rightarrow> (None, s))"

definition json_number :: "string \<Rightarrow> (json \<times> string) option" where
  "json_number s =
     (let neg = startswith s ''-''; s1 = (if neg then tl s else s);
          ip = (case s1 of c # t \<Rightarrow> if c = CHR ''0'' then ([c], t) else span_digits s1 | [] \<Rightarrow> ([], []))
      in if fst ip = [] then None
         else case fraction_part (snd ip) of (fr, s2) \<Rightarrow>
           (case exponent_part s2 of (ex, s3) \<Rightarrow>
              (let i = int (nat_of_digits (fst ip)); sg = (if neg then -1 else 1) in
               if fr = None \<and> ex = None then Some (JInt (sg * i), s3)
               else (let fd = (case fr of None \<Rightarrow> [] | Some d \<Rightarrow> d);
                         m = of_int i + of_int (int (nat_of_digits fd)) / 10 ^ length fd
                     in Some (JFloat (of_int sg * m * ten_power (case ex of None \<Rightarrow> 0 | Some e \<Rightarrow> e)), s3)))))"

definition keyword_value :: "string \<Rightarrow> (json \<times> string) option" where
  "keyword_value s =
     (if startswith s ''null'' then Some (JNull, drop 4 s)
      else if startswith s ''true'' then Some (JBool True, drop 4 s)
      else if startswith s ''false'' then Some (JBool False, drop 5 s)
      else None)"

text \<open>
  Values, the elements of an array (after an element) and the members of an object (from a key on).
\<close>

fun parse_value :: "nat \<Rightarrow> bool \<Rightarrow> string \<Rightarrow> (json \<times> string) option"
  and parse_elements :: "nat \<Rightarrow> bool \<Rightarrow> json list \<Rightarrow> string \<Rightarrow> (json list \<times> string) option"
  and parse_members :: "nat \<Rightarrow> bool \<Rightarrow> (string, json) dict \<Rightarrow> string \<Rightarrow> ((string, json) dict \<times> string) option" where
  "parse_value 0 strict s = None"
| "parse_value (Suc n) strict s =
     (case s of
        [] \<Rightarrow> None
      | c # t \<Rightarrow>
          if (of_char c :: nat) = 34 then map_option (\<lambda>(w, r). (JStr w, r)) (string_body (length s) strict t)
          else if c = CHR ''{'' then
            (case skip_space t of
               d # t' \<Rightarrow> if d = CHR ''}'' then Some (JObj [], t')
                         else map_option (\<lambda>(kvs, r). (JObj kvs, r)) (parse_members n strict [] (d # t'))
             | [] \<Rightarrow> None)
          else if c = CHR ''['' then
            (case skip_space t of
               d # t' \<Rightarrow> if d = CHR '']'' then Some (JArr [], t')
                         else map_option (\<lambda>(vs, r). (JArr vs, r)) (parse_elements n strict [] (d # t'))
             | [] \<Rightarrow> None)
          else (case keyword_value s of Some r \<Rightarrow> Some r | None \<Rightarrow> json_number s))"
| "parse_elements 0 strict acc s = None"
| "parse_elements (Suc n) strict acc s =
     (case parse_value n strict s of
        None \<Rightarrow> None
      | Some (v, r) \<Rightarrow>
          (case skip_space r of
             c # t \<Rightarrow> if c = CHR '']'' then Some (acc @ [v], t)
                      else if c = CHR '','' then parse_elements n strict (acc @ [v]) (skip_space t) else None
           | [] \<Rightarrow> None))"
| "parse_members 0 strict acc s = None"
| "parse_members (Suc n) strict acc s =
     (case s of
        q # u \<Rightarrow>
          if (of_char q :: nat) \<noteq> 34 then None
          else (case string_body (length s) strict u of
            None \<Rightarrow> None
          | Some (k, r) \<Rightarrow>
              (case skip_space r of
                 c # t \<Rightarrow>
                   if c \<noteq> CHR '':'' then None
                   else (case parse_value n strict (skip_space t) of
                     None \<Rightarrow> None
                   | Some (v, r') \<Rightarrow>
                       (case skip_space r' of
                          d # t' \<Rightarrow> if d = CHR ''}'' then Some (AList.update k v acc, t')
                                    else if d = CHR '','' then parse_members n strict (AList.update k v acc) (skip_space t')
                                    else None
                        | [] \<Rightarrow> None))
               | [] \<Rightarrow> None))
      | [] \<Rightarrow> None)"

definition loads :: "bool \<Rightarrow> string \<Rightarrow> json option" where
  "loads strict s =
     (case parse_value (2 * length s + 2) strict (skip_space s) of
        None \<Rightarrow> None | Some (v, r) \<Rightarrow> if skip_space r = [] then Some v else None)"

text \<open>\<open>json.dumps(value, ensure_ascii=False, indent=2)\<close> at nesting depth \<open>d\<close>.\<close>

definition newline_indent :: "nat \<Rightarrow> string" where
  "newline_indent d = char_of (10 :: nat) # replicate (2 * d) (CHR '' '')"

fun dumps_indent :: "(rat \<Rightarrow> string) \<Rightarrow> nat \<Rightarrow> json \<Rightarrow> string" where
  "dumps_indent fr d (JArr xs) =
     (if xs = [] then ''[]''
      else ''['' @ newline_indent (Suc d) @ join ('','' @ newline_indent (Suc d)) (map (dumps_indent fr (Suc d)) xs)
           @ newline_indent d @ '']'')"
| "dumps_indent fr d (JObj kvs) =
     (if kvs = [] then ''{}''
      else ''{'' @ newline_indent (Suc d)
           @ join ('','' @ newline_indent (Suc d)) (map (\<lambda>(k, v). quote k @ '': '' @ dumps_indent fr (Suc d) v) kvs)
           @ newline_indent d @ ''}'')"
| "dumps_indent fr d j = dumps fr j"

end
