(* ===== verification/Ir.thy ===== *)
theory Ir
  imports Json
begin

text \<open>
  \<^verbatim>\<open>protocol/ir.py\<close>: the neutral representation of requests, responses, tools and messages.
  Dictionaries of free form (\<open>parameters\<close>, \<open>arguments\<close>, \<open>metadata\<close>, \<open>cache_control\<close>) are JSON
  values; \<open>arguments\<close> and \<open>metadata\<close> are objects.  The identifiers that default to a fresh UUID
  are arguments of the constructors.
\<close>

record normalized_tool_definition =
  nd_name :: string
  nd_description :: string
  nd_parameters :: json
  nd_cache_control :: "json option"

record normalized_tool_call =
  tc_id :: string
  tc_name :: string
  tc_arguments :: json
  tc_raw_arguments :: string
  tc_metadata :: "(string, json) dict"

record normalized_tool_result =
  nr_tool_call_id :: string
  nr_tool_name :: "string option"
  nr_content :: string
  nr_is_error :: bool

record normalized_message =
  msg_role :: string
  msg_content :: string
  msg_reasoning_content :: "string option"
  msg_reasoning_signature :: "string option"
  msg_tool_calls :: "normalized_tool_call list"
  msg_tool_results :: "normalized_tool_result list"
  msg_name :: "string option"
  msg_cache_control :: "json option"
  msg_metadata :: "(string, json) dict"

record normalized_request =
  rq_request_id :: string
  rq_model :: string
  rq_messages :: "normalized_message list"
  rq_system_instruction :: "string option"
  rq_system_cache_control :: "json option"
  rq_tools :: "normalized_tool_definition list"
  rq_tool_choice :: "json option"
  rq_max_output_tokens :: "int option"
  rq_temperature :: "rat option"
  rq_stream :: bool
  rq_metadata :: "(string, json) dict"

record normalized_response =
  rs_response_id :: string
  rs_model :: string
  rs_content :: "string option"
  rs_reasoning_content :: "string option"
  rs_reasoning_signature :: "string option"
  rs_tool_calls :: "normalized_tool_call list"
  rs_finish_reason :: string
  rs_input_tokens :: int
  rs_output_tokens :: int
  rs_raw_response :: "json option"

text \<open>\<open>NormalizedToolCall(...)\<close> with its \<open>__post_init__\<close>.\<close>

definition new_tool_call :: "(rat \<Rightarrow> string) \<Rightarrow> string \<Rightarrow> string \<Rightarrow> json \<Rightarrow> string \<Rightarrow> normalized_tool_call" where
  "new_tool_call fr i name args raw =
     \<lparr>tc_id = i, tc_name = name, tc_arguments = args,
      tc_raw_arguments = (if raw = [] \<and> truthy_json args then dumps fr args else raw), tc_metadata = []\<rparr>"

definition get_effective_system_instruction :: "normalized_request \<Rightarrow> string option" where
  "get_effective_system_instruction r =
     (if truthy_str (rq_system_instruction r) then rq_system_instruction r
      else map_option msg_content (find (\<lambda>m. msg_role m = ''system'') (rq_messages r)))"

text \<open>A message and a request with the default values of the data classes.\<close>

definition new_message :: "string \<Rightarrow> string \<Rightarrow> normalized_message" where
  "new_message role content =
     \<lparr>msg_role = role, msg_content = content, msg_reasoning_content = None, msg_reasoning_signature = None,
      msg_tool_calls = [], msg_tool_results = [], msg_name = None, msg_cache_control = None, msg_metadata = []\<rparr>"

definition new_request :: "string \<Rightarrow> normalized_message list \<Rightarrow> normalized_request" where
  "new_request request_id messages =
     \<lparr>rq_request_id = request_id, rq_model = ''default'', rq_messages = messages, rq_system_instruction = None,
      rq_system_cache_control = None, rq_tools = [], rq_tool_choice = None, rq_max_output_tokens = None,
      rq_temperature = None, rq_stream = False, rq_metadata = []\<rparr>"

end
