(* ===== verification/Context.thy ===== *)
theory Context
  imports Ir PyText Errors
begin

text \<open>
  \<^verbatim>\<open>agent/context.py\<close>: token estimation, diagnostic summaries and the compaction of a request
  to the input budget of a model.

  \<open>fr\<close> prints a float (\<open>float.__repr__\<close>).  Lengths count the characters of the model (bytes for
  non-ASCII text).  \<open>messages\<close> is mutated in place by the source after a deep copy; the model
  passes the request from phase to phase.  A tool schema whose \<open>properties\<close> is not an object makes
  phase 4 raise \<open>AttributeError\<close>.

  Theorems: a returned request fits its budget, and the only other outcomes are the two errors
  (\<open>compact_fits_or_overflows\<close>); compaction removes one contiguous block after the prefixected prefix, keeps
  the root objective and at least the last two turns (\<open>compact_keeps_structure\<close>); it may separate
  a tool result from its call (\<open>compaction_orphans_tool_result\<close>).
\<close>

section \<open>Token estimation\<close>

definition tool_call_text :: "(rat \<Rightarrow> string) \<Rightarrow> normalized_tool_call \<Rightarrow> string" where
  "tool_call_text fr tc = (if tc_raw_arguments tc \<noteq> [] then tc_raw_arguments tc else dumps fr (tc_arguments tc))"

definition message_length :: "(rat \<Rightarrow> string) \<Rightarrow> normalized_message \<Rightarrow> nat" where
  "message_length fr m =
     length (msg_content m)
     + (case msg_reasoning_content m of None \<Rightarrow> 0 | Some t \<Rightarrow> length t)
     + sum_list (map (\<lambda>tc. length (tool_call_text fr tc)) (msg_tool_calls m))
     + sum_list (map (\<lambda>tr. length (nr_content tr)) (msg_tool_results m))"

definition request_length :: "(rat \<Rightarrow> string) \<Rightarrow> normalized_request \<Rightarrow> nat" where
  "request_length fr r =
     (case rq_system_instruction r of None \<Rightarrow> 0 | Some t \<Rightarrow> length t)
     + sum_list (map (message_length fr) (rq_messages r))"

definition tokens_of_length :: "nat \<Rightarrow> int" where
  "tokens_of_length n = max 1 ((int n + 3) div 4)"

definition estimate_tokens :: "(rat \<Rightarrow> string) \<Rightarrow> normalized_request \<Rightarrow> int" where
  "estimate_tokens fr r = tokens_of_length (request_length fr r)"

definition estimate_text_tokens :: "string \<Rightarrow> int" where
  "estimate_text_tokens t = tokens_of_length (length t)"

section \<open>Diagnostic summaries\<close>

definition NL :: string where
  "NL = [char_of (10 :: nat)]"

definition DQ :: string where
  "DQ = [char_of (34 :: nat)]"

definition path_char :: "char \<Rightarrow> bool" where
  "path_char c = (is_word c \<or> c \<in> set ''.-/'')"

definition hunk_char :: "char \<Rightarrow> bool" where
  "hunk_char c = (is_digit c \<or> c = CHR '','')"

text \<open>The pattern is compiled with \<open>IGNORECASE\<close>: it is written, and run, in lower case.\<close>

definition DIAGNOSTIC_PATTERNS :: rx where
  "DIAGNOSTIC_PATTERNS = alts
     [Seq (alts [lit ''error'', lit ''fatal'', Seq (lit ''fail'') (rx_opt (alts [lit ''ed'', lit ''ure''])),
                 lit ''exception'', lit ''critical'', lit ''traceback'', lit ''panic'']) WordBoundary,
      seqs [alts [Seq (lit ''exit'') (rx_opt (Seq (rx_plus (Chr is_space)) (lit ''code''))), lit ''returncode''],
            spaces, rx_opt (Chr (\<lambda>c. c = CHR '':'' \<or> c = CHR ''='')), spaces, rx_plus digit],
      alts [lit ''assertionerror'', lit ''typeerror'', lit ''valueerror'', lit ''keyerror'', lit ''indexerror'',
            lit ''attributeerror'', lit ''syntaxerror'', lit ''nameerror''],
      alts [seqs [WordBoundary, lit ''failed'', WordBoundary], seqs [WordBoundary, lit ''fail'', WordBoundary],
            seqs [WordBoundary, lit ''=== failures ==='', WordBoundary],
            seqs [WordBoundary, lit ''=== errors ==='', WordBoundary]],
      seqs [lit ''error[e'', rx_plus digit, lit '']''],
      seqs [lit ''error ts'', rx_plus digit],
      seqs [rx_plus (Chr path_char), lit ''.'', rx_plus (Chr is_word), lit '':'', rx_plus digit,
            rx_opt (Seq (lit '':'') (rx_plus digit)), lit '':'', spaces, rx_opt (lit ''fatal ''),
            alts [lit ''error'', lit ''warning'']],
      seqs [lit (''file '' @ DQ), rx_plus (Chr (\<lambda>c. [c] \<noteq> DQ)), lit (DQ @ '', line ''), rx_plus digit],
      lit ''diff --git'',
      seqs [lit ''@@ -'', rx_plus (Chr hunk_char), lit '' +'', rx_plus (Chr hunk_char), lit '' @@'']]"

definition is_diagnostic :: "string \<Rightarrow> bool" where
  "is_diagnostic line = rx_search DIAGNOSTIC_PATTERNS (lower line)"

text \<open>The two patterns of repetitive progress lines.\<close>

definition is_progress :: "string \<Rightarrow> bool" where
  "is_progress line =
     (rx_match (seqs [rx_plus (Chr (\<lambda>c. c \<in> set ''.FEsxX'')), rx_plus (Chr is_space), lit ''['', spaces,
                      rx_plus digit, lit ''%]'']) line
      \<or> rx_match (Seq (rx_plus (Chr (\<lambda>c. c = CHR ''.''))) EndOfText) line)"

definition summary_keys :: "string list" where
  "summary_keys = [''status'', ''exit_code'', ''returncode'', ''error'', ''errors'', ''message'',
                   ''path'', ''file'', ''id'', ''count'', ''stderr'', ''stdout'']"

definition truncated :: "nat \<Rightarrow> string \<Rightarrow> string" where
  "truncated n s = (if length s \<le> n then s else take n s @ NL @ ''... [truncated]'')"

text \<open>Step 1: the summary of a JSON object, \<open>None\<close> when it does not apply.\<close>

definition structured_summary :: "(rat \<Rightarrow> string) \<Rightarrow> string \<Rightarrow> nat \<Rightarrow> string option" where
  "structured_summary fr raw n =
     (case loads True raw of
        Some (JObj kvs) \<Rightarrow>
          (let extracted = List.map_filter (\<lambda>k. map_option (Pair k) (map_of kvs k)) summary_keys in
           if extracted = [] then None
           else Some (truncated n (''[Structured Tool Output Summary (by DuraLLM)]:'' @ NL
                  @ dumps_indent fr 0 (JObj extracted) @ NL
                  @ ''... (remaining payload truncated to preserve context budget)'')))
      | _ \<Rightarrow> None)"

definition HISTORICAL :: string where
  "HISTORICAL = ''[Historical Tool Output compacted by DuraLLM to fit target budget]''"

fun diagnostic_lines :: "string list \<Rightarrow> string list \<Rightarrow> string list" where
  "diagnostic_lines seen [] = []"
| "diagnostic_lines seen (l # lns) =
     (let cleaned = strip l in
      if cleaned = [] \<or> is_progress cleaned \<or> \<not> is_diagnostic cleaned \<or> cleaned \<in> set seen
      then diagnostic_lines seen lns
      else cleaned # diagnostic_lines (cleaned # seen) lns)"

definition nonblank :: "string list \<Rightarrow> string list" where
  "nonblank lns = filter (\<lambda>l. l \<noteq> []) (map strip lns)"

definition log_summary :: "string list \<Rightarrow> nat \<Rightarrow> string" where
  "log_summary lns n =
     (let diag = diagnostic_lines [] lns in
      truncated n (join NL
        ([HISTORICAL, ''--- HEAD ('' @ str_of_nat (length lns) @ '' total lines) ---'', join NL (nonblank (take 3 lns))]
         @ (if diag = [] then []
            else [''--- EXTRACTED DIAGNOSTICS & ERRORS ('' @ str_of_nat (length diag) @ '' findings) ---'',
                  join NL (take (max 2 (min (length diag) 8)) diag)])
         @ [''--- TAIL ---'', join NL (nonblank (drop (length lns - 3) lns))])))"

definition extract_diagnostic_summary :: "(rat \<Rightarrow> string) \<Rightarrow> string \<Rightarrow> nat \<Rightarrow> string" where
  "extract_diagnostic_summary fr raw n =
     (if length raw \<le> n then raw
      else case structured_summary fr raw n of
        Some t \<Rightarrow> t
      | None \<Rightarrow>
          (let lns = splitlines raw in
           if length lns \<le> 4
           then (let half = nat (max 50 ((int n - 60) div 2)) in
                 HISTORICAL @ NL @ take half raw @ NL @ ''... [truncated] ...'' @ NL @ drop (length raw - half) raw)
           else log_summary lns n))"

section \<open>Compaction\<close>

record context_budget =
  model_context_window :: int
  desired_output_tokens :: int
  safety_margin_tokens :: int

definition available_input_budget :: "context_budget \<Rightarrow> int" where
  "available_input_budget b =
     max 512 (model_context_window b - desired_output_tokens b - safety_margin_tokens b)"

definition mapi :: "(nat \<Rightarrow> 'a \<Rightarrow> 'b) \<Rightarrow> 'a list \<Rightarrow> 'b list" where
  "mapi f xs = map (\<lambda>(i, x). f i x) (enumerate 0 xs)"

fun index_of :: "('a \<Rightarrow> bool) \<Rightarrow> 'a list \<Rightarrow> nat option" where
  "index_of P [] = None"
| "index_of P (x # xs) = (if P x then Some 0 else map_option Suc (index_of P xs))"

definition first_user_idx :: "normalized_message list \<Rightarrow> nat option" where
  "first_user_idx ms = index_of (\<lambda>m. msg_role m = ''user'') ms"

definition protected_prefix_count :: "normalized_message list \<Rightarrow> nat" where
  "protected_prefix_count ms = (case first_user_idx ms of None \<Rightarrow> 1 | Some i \<Rightarrow> i + 1)"

definition compact_results :: "(rat \<Rightarrow> string) \<Rightarrow> nat \<Rightarrow> normalized_message \<Rightarrow> normalized_message" where
  "compact_results fr n m =
     m\<lparr>msg_tool_results := map (\<lambda>tr. if length (nr_content tr) > n
        then tr\<lparr>nr_content := extract_diagnostic_summary fr (nr_content tr) n\<rparr> else tr) (msg_tool_results m)\<rparr>"

definition compact_content :: "(rat \<Rightarrow> string) \<Rightarrow> nat \<Rightarrow> nat \<Rightarrow> normalized_message \<Rightarrow> normalized_message" where
  "compact_content fr limit n m =
     (if length (msg_content m) > limit
      then m\<lparr>msg_content := extract_diagnostic_summary fr (msg_content m) n\<rparr> else m)"

definition phase1 :: "(rat \<Rightarrow> string) \<Rightarrow> nat option \<Rightarrow> normalized_message list \<Rightarrow> normalized_message list" where
  "phase1 fr root_idx ms = mapi (\<lambda>idx m0.
     (let m = compact_results fr 400 m0; is_root_user = (Some idx = root_idx); is_final_msg = (idx + 1 = length ms) in
      if \<not> is_root_user \<and> \<not> is_final_msg then compact_content fr 1000 600 m
      else if is_final_msg \<and> \<not> is_root_user then compact_content fr 1000 1200 m else m)) ms"

definition compact_assistant :: "normalized_message \<Rightarrow> normalized_message" where
  "compact_assistant m =
     (if length (msg_content m) > 600 \<and> msg_role m = ''assistant''
      then m\<lparr>msg_content := take 300 (msg_content m) @ NL
               @ ''... [Prior assistant reasoning compacted by DuraLLM] ...'' @ NL
               @ drop (length (msg_content m) - 300) (msg_content m)\<rparr>
      else m)"

definition phase2 ::
  "(rat \<Rightarrow> string) \<Rightarrow> nat \<Rightarrow> nat \<Rightarrow> normalized_message list \<Rightarrow> normalized_message list" where
  "phase2 fr prot tail ms = mapi (\<lambda>idx m.
     if prot \<le> idx \<and> idx < max prot (length ms - tail) then compact_assistant (compact_results fr 300 m) else m) ms"

definition phase3 :: "(rat \<Rightarrow> string) \<Rightarrow> nat option \<Rightarrow> normalized_message list \<Rightarrow> normalized_message list" where
  "phase3 fr root_idx ms = mapi (\<lambda>idx m.
     if Some idx = root_idx then m else compact_content fr 500 400 (compact_results fr 250 m)) ms"

definition over :: "(rat \<Rightarrow> string) \<Rightarrow> int \<Rightarrow> normalized_request \<Rightarrow> bool" where
  "over fr target r = (estimate_tokens fr r > target)"

text \<open>The two eviction loops: pop the message at \<open>prot\<close> while more than \<open>prot + keep\<close> remain.\<close>

function evict_turns :: "(rat \<Rightarrow> string) \<Rightarrow> int \<Rightarrow> nat \<Rightarrow> nat \<Rightarrow> normalized_request \<Rightarrow> normalized_request" where
  "evict_turns fr target prot keep r =
     (if length (rq_messages r) > keep + prot \<and> over fr target r
      then evict_turns fr target prot keep
             (r\<lparr>rq_messages := take prot (rq_messages r) @ drop (Suc prot) (rq_messages r)\<rparr>)
      else r)"
  by pat_completeness auto
termination
  by (relation "measure (\<lambda>(fr, target, prot, keep, r). length (rq_messages r))") auto

declare evict_turns.simps [simp del]

text \<open>Phase 4: tool descriptions and schemas, then the system instruction.\<close>

fun before_sep :: "string \<Rightarrow> string \<Rightarrow> string" where
  "before_sep sep [] = []"
| "before_sep sep (c # s) = (if startswith (c # s) sep then [] else c # before_sep sep s)"

definition compact_description :: "string \<Rightarrow> string" where
  "compact_description d =
     (if length d > 120
      then (let first_sent = before_sep ''. '' d @ ''.'' in if length first_sent \<le> 120 then first_sent else take 120 d)
      else d)"

definition compact_property :: "json \<Rightarrow> json" where
  "compact_property v =
     (case v of
        JObj kvs \<Rightarrow> (case map_of kvs ''description'' of
           Some (JStr t) \<Rightarrow> if length t > 50 then JObj (AList.update ''description'' (JStr (take 50 t)) kvs) else v
         | _ \<Rightarrow> v)
      | _ \<Rightarrow> v)"

definition compact_parameters :: "json \<Rightarrow> json result" where
  "compact_parameters p =
     (case p of
        JObj kvs \<Rightarrow> (case map_of kvs ''properties'' of
           None \<Rightarrow> Inr p
         | Some (JObj ps) \<Rightarrow> Inr (JObj (AList.update ''properties'' (JObj (map (\<lambda>(k, v). (k, compact_property v)) ps)) kvs))
         | Some _ \<Rightarrow> Inl AttributeError)
      | _ \<Rightarrow> Inr p)"

fun compact_tools :: "normalized_tool_definition list \<Rightarrow> normalized_tool_definition list result" where
  "compact_tools [] = Inr []"
| "compact_tools (t # ts) =
     (case compact_parameters (nd_parameters t) of
        Inl e \<Rightarrow> Inl e
      | Inr p \<Rightarrow> (case compact_tools ts of
                    Inl e \<Rightarrow> Inl e
                  | Inr ts' \<Rightarrow> Inr (t\<lparr>nd_description := compact_description (nd_description t), nd_parameters := p\<rparr> # ts')))"

definition compact_system :: "(rat \<Rightarrow> string) \<Rightarrow> int \<Rightarrow> normalized_request \<Rightarrow> normalized_request" where
  "compact_system fr target r =
     (case rq_system_instruction r of
        None \<Rightarrow> r
      | Some t \<Rightarrow> if length t > 2000 \<and> over fr target r
                  then r\<lparr>rq_system_instruction := Some (take 2000 t @ NL
                           @ ''... [System instruction condensed by ContextManager] ...'')\<rparr>
                  else r)"

definition phase4 :: "(rat \<Rightarrow> string) \<Rightarrow> int \<Rightarrow> normalized_request \<Rightarrow> normalized_request result" where
  "phase4 fr target r =
     (case (if over fr target r then compact_tools (rq_tools r) else Inr (rq_tools r)) of
        Inl e \<Rightarrow> Inl e
      | Inr ts \<Rightarrow> Inr (compact_system fr target (r\<lparr>rq_tools := ts\<rparr>)))"

definition require_fit :: "(rat \<Rightarrow> string) \<Rightarrow> int \<Rightarrow> normalized_request \<Rightarrow> unit result" where
  "require_fit fr target r =
     (if over fr target r then Inl (ContextOverflowError (estimate_tokens fr r) target) else Inr ())"

text \<open>\<open>compact_request\<close>: \<open>tail\<close> is \<open>preserve_tail_turns\<close>.\<close>

definition compact_request ::
  "(rat \<Rightarrow> string) \<Rightarrow> nat \<Rightarrow> normalized_request \<Rightarrow> context_budget \<Rightarrow> (normalized_request \<times> bool) result" where
  "compact_request fr tail r b =
     (let target = available_input_budget b in
      if \<not> over fr target r then Inr (r, False)
      else
        let root_idx = first_user_idx (rq_messages r); prot = protected_prefix_count (rq_messages r);
            r1 = r\<lparr>rq_messages := phase1 fr root_idx (rq_messages r)\<rparr> in
        if \<not> over fr target r1 then Inr (r1, True)
        else let r2 = r1\<lparr>rq_messages := phase2 fr prot tail (rq_messages r1)\<rparr> in
        if \<not> over fr target r2 then Inr (r2, True)
        else let r3 = evict_turns fr target prot tail r2 in
        if \<not> over fr target r3 then Inr (r3, True)
        else let r4 = r3\<lparr>rq_messages := phase3 fr root_idx (rq_messages r3)\<rparr> in
        if \<not> over fr target r4 then Inr (r4, True)
        else case phase4 fr target r4 of
          Inl e \<Rightarrow> Inl e
        | Inr r5 \<Rightarrow>
            (let r6 = evict_turns fr target prot 2 r5 in
             case require_fit fr target r6 of Inl e \<Rightarrow> Inl e | Inr _ \<Rightarrow> Inr (r6, True)))"

section \<open>What compaction keeps\<close>

text \<open>Everything of a message but its text and the text of its tool results.\<close>

definition skeleton :: "normalized_message \<Rightarrow> normalized_message" where
  "skeleton m = m\<lparr>msg_content := [], msg_tool_results := map (\<lambda>tr. tr\<lparr>nr_content := []\<rparr>) (msg_tool_results m)\<rparr>"

lemma length_mapi [simp]: "length (mapi f xs) = length xs"
  by (simp add: mapi_def)

lemma nth_mapi [simp]: "i < length xs \<Longrightarrow> mapi f xs ! i = f i (xs ! i)"
  by (simp add: mapi_def nth_enumerate_eq)

lemma map_mapi_id: "(\<And>i x. g (f i x) = g x) \<Longrightarrow> map g (mapi f xs) = map g xs"
  by (rule nth_equalityI) simp_all

lemma skeleton_compact [simp]:
  "skeleton (compact_results fr n m) = skeleton m"
  "skeleton (compact_content fr l n m) = skeleton m"
  "skeleton (compact_assistant m) = skeleton m"
  by (simp_all add: skeleton_def compact_results_def compact_content_def compact_assistant_def comp_def if_distrib cong: if_cong)

lemma skeleton_phases [simp]:
  "map skeleton (phase1 fr root_idx ms) = map skeleton ms"
  "map skeleton (phase2 fr prot tail ms) = map skeleton ms"
  "map skeleton (phase3 fr root_idx ms) = map skeleton ms"
  by (simp_all add: phase1_def phase2_def phase3_def map_mapi_id Let_def)

lemma root_content_phases:
  assumes "i < length ms"
  shows "msg_content (phase1 fr (Some i) ms ! i) = msg_content (ms ! i)"
    and "i < prot \<Longrightarrow> msg_content (phase2 fr prot tail ms ! i) = msg_content (ms ! i)"
    and "msg_content (phase3 fr (Some i) ms ! i) = msg_content (ms ! i)"
  using assms by (simp_all add: phase1_def phase2_def phase3_def compact_results_def Let_def)

lemma length_phases [simp]:
  "length (phase1 fr root_idx ms) = length ms"
  "length (phase2 fr prot tail ms) = length ms"
  "length (phase3 fr root_idx ms) = length ms"
  by (simp_all add: phase1_def phase2_def phase3_def)

text \<open>The eviction loops remove a block after the prefix and nothing else.\<close>

lemma take_drop_block:
  "prot \<le> length xs \<Longrightarrow>
   take prot (take prot xs @ drop (prot + j) xs) @ drop (prot + k) (take prot xs @ drop (prot + j) xs)
     = take prot xs @ drop (prot + (j + k)) xs"
  by (simp add: min_def add.commute add.left_commute)

lemma evict_turns_block:
  "\<exists>k. rq_messages (evict_turns fr target prot keep r) = take prot (rq_messages r) @ drop (prot + k) (rq_messages r)
     \<and> (0 < k \<longrightarrow> prot + keep + k \<le> length (rq_messages r))"
proof (induction fr target prot keep r rule: evict_turns.induct)
  case (1 fr target prot keep r)
  let ?r = "r\<lparr>rq_messages := take prot (rq_messages r) @ drop (Suc prot) (rq_messages r)\<rparr>"
  show ?case
  proof (cases "length (rq_messages r) > keep + prot \<and> over fr target r")
    case True
    with 1 obtain k where k: "rq_messages (evict_turns fr target prot keep ?r)
        = take prot (rq_messages ?r) @ drop (prot + k) (rq_messages ?r)"
      "0 < k \<longrightarrow> prot + keep + k \<le> length (rq_messages ?r)" by blast
    have "prot \<le> length (rq_messages r)" using True by simp
    from take_drop_block [OF this, of 1 k] k True show ?thesis
      by (intro exI [of _ "Suc k"]) (auto simp: evict_turns.simps [of fr target prot keep r])
  next
    case False
    then show ?thesis
      by (intro exI [of _ 0]) (auto simp: evict_turns.simps [of fr target prot keep r])
  qed
qed

lemma evict_turns_frame:
  "\<exists>ms. evict_turns fr target prot keep r = r\<lparr>rq_messages := ms\<rparr>"
proof (induction fr target prot keep r rule: evict_turns.induct)
  case (1 fr target prot keep r)
  show ?case
  proof (cases "length (rq_messages r) > keep + prot \<and> over fr target r")
    case True
    with 1 show ?thesis by (fastforce simp: evict_turns.simps [of fr target prot keep r])
  next
    case False
    then have "evict_turns fr target prot keep r = r\<lparr>rq_messages := rq_messages r\<rparr>"
      by (auto simp: evict_turns.simps [of fr target prot keep r])
    then show ?thesis ..
  qed
qed

lemma index_of_Some: "index_of P xs = Some i \<Longrightarrow> i < length xs \<and> P (xs ! i)"
  by (induction xs arbitrary: i) (auto split: if_splits)

text \<open>
  \<open>keeps n prot i r s\<close>: \<open>s\<close> has the messages of \<open>r\<close> up to text, less one block between the
  protected prefix and the last \<open>n\<close> messages; message \<open>i\<close> of the prefix keeps its text.
\<close>

definition keeps :: "nat \<Rightarrow> nat \<Rightarrow> nat option \<Rightarrow> normalized_request \<Rightarrow> normalized_request \<Rightarrow> bool" where
  "keeps n prot root_idx r s =
     ((\<exists>k. map skeleton (rq_messages s)
            = take prot (map skeleton (rq_messages r)) @ drop (prot + k) (map skeleton (rq_messages r))
          \<and> (0 < k \<longrightarrow> prot + n + k \<le> length (rq_messages r)))
      \<and> (\<forall>i. root_idx = Some i \<longrightarrow> i < prot \<and> i < length (rq_messages r) \<longrightarrow>
            msg_content (rq_messages s ! i) = msg_content (rq_messages r ! i)))"

lemma keeps_trans:
  assumes rs: "keeps n prot root_idx r s" and st: "keeps n prot root_idx s t"
  shows "keeps n prot root_idx r t"
proof -
  let ?xs = "map skeleton (rq_messages r)"
  from rs obtain k where k: "map skeleton (rq_messages s) = take prot ?xs @ drop (prot + k) ?xs"
    "0 < k \<longrightarrow> prot + n + k \<le> length (rq_messages r)" unfolding keeps_def by blast
  from st obtain j where j: "map skeleton (rq_messages t)
      = take prot (map skeleton (rq_messages s)) @ drop (prot + j) (map skeleton (rq_messages s))"
    "0 < j \<longrightarrow> prot + n + j \<le> length (rq_messages s)" unfolding keeps_def by blast
  have len: "length (rq_messages s) = min (length (rq_messages r)) prot + (length (rq_messages r) - (prot + k))"
    using arg_cong [OF k(1), of length] by simp
  have "map skeleton (rq_messages t) = take prot ?xs @ drop (prot + (k + j)) ?xs"
    unfolding j(1) k(1) by (cases "prot \<le> length (rq_messages r)") (simp_all add: min_def add.commute add.left_commute)
  moreover have "0 < k + j \<longrightarrow> prot + n + (k + j) \<le> length (rq_messages r)"
    using k(2) j(2) len by (auto simp: min_def split: if_splits)
  moreover have "msg_content (rq_messages t ! i) = msg_content (rq_messages r ! i)"
    if "root_idx = Some i" "i < prot" "i < length (rq_messages r)" for i
    using that rs st len by (auto simp: keeps_def)
  ultimately show ?thesis unfolding keeps_def by blast
qed

lemma keeps_phase:
  assumes "map skeleton ms = map skeleton (rq_messages r)"
    and "\<And>i. root_idx = Some i \<Longrightarrow> i < prot \<Longrightarrow> i < length (rq_messages r) \<Longrightarrow>
           msg_content (ms ! i) = msg_content (rq_messages r ! i)"
  shows "keeps n prot root_idx r (r\<lparr>rq_messages := ms\<rparr>)"
  unfolding keeps_def using assms by (auto intro!: exI [of _ 0])

lemma keeps_evict:
  assumes "n \<le> keep"
  shows "keeps n prot root_idx r (evict_turns fr target prot keep r)"
proof -
  obtain k where k: "rq_messages (evict_turns fr target prot keep r)
      = take prot (rq_messages r) @ drop (prot + k) (rq_messages r)"
    "0 < k \<longrightarrow> prot + keep + k \<le> length (rq_messages r)" using evict_turns_block by blast
  show ?thesis
    unfolding keeps_def k(1) using k(2) assms
    by (auto simp: take_map drop_map nth_append intro!: exI [of _ k])
qed

lemma phase4_messages: "phase4 fr target r = Inr s \<Longrightarrow> rq_messages s = rq_messages r"
  by (auto simp: phase4_def compact_system_def split: sum.splits option.splits if_splits)

lemma keeps_same: "rq_messages s = rq_messages r \<Longrightarrow> keeps n prot root_idx r s"
  by (auto simp: keeps_def intro!: exI [of _ 0])

lemma keeps_phases:
  "keeps n prot root_idx r (r\<lparr>rq_messages := phase1 fr root_idx (rq_messages r)\<rparr>)"
  "keeps n prot root_idx r (r\<lparr>rq_messages := phase2 fr prot tail (rq_messages r)\<rparr>)"
  "keeps n prot root_idx r (r\<lparr>rq_messages := phase3 fr root_idx (rq_messages r)\<rparr>)"
  by (rule keeps_phase; auto simp: root_content_phases)+

text \<open>The chain of phases of \<open>compact_request\<close>, one inequation at a time.\<close>

lemma compact_keeps:
  assumes "compact_request fr tail r b = Inr (s, c)"
  shows "keeps (min 2 tail) (protected_prefix_count (rq_messages r)) (first_user_idx (rq_messages r)) r s"
proof -
  let ?t = "available_input_budget b" and ?i = "first_user_idx (rq_messages r)"
    and ?p = "protected_prefix_count (rq_messages r)"
  let ?K = "keeps (min 2 tail) ?p ?i"
  define r1 where "r1 = r\<lparr>rq_messages := phase1 fr ?i (rq_messages r)\<rparr>"
  define r2 where "r2 = r1\<lparr>rq_messages := phase2 fr ?p tail (rq_messages r1)\<rparr>"
  define r3 where "r3 = evict_turns fr ?t ?p tail r2"
  define r4 where "r4 = r3\<lparr>rq_messages := phase3 fr ?i (rq_messages r3)\<rparr>"
  have k: "?K r r1" "?K r1 r2" "?K r2 r3" "?K r3 r4"
    unfolding r1_def r2_def r3_def r4_def by (rule keeps_phases keeps_evict min.cobounded2)+
  then have k': "?K r r2" "?K r r3" "?K r r4" by (blast intro: keeps_trans)+
  have last: "?K r (evict_turns fr ?t ?p 2 r5)" if "phase4 fr ?t r4 = Inr r5" for r5
    using keeps_trans [OF k'(3) keeps_trans [OF keeps_same [OF phase4_messages [OF that]] keeps_evict]] by simp
  have "s \<in> {r, r1, r2, r3, r4} \<or> (\<exists>r5. phase4 fr ?t r4 = Inr r5 \<and> s = evict_turns fr ?t ?p 2 r5)"
    using assms unfolding compact_request_def Let_def r1_def [symmetric] r2_def [symmetric] r3_def [symmetric] r4_def [symmetric]
    by (auto split: if_splits sum.splits)
  then show ?thesis using k(1) k' last keeps_same [OF refl] by blast
qed

lemma compact_outcome:
  "case compact_request fr tail r b of
     Inr (s, c) \<Rightarrow> estimate_tokens fr s \<le> available_input_budget b \<and> (c = (estimate_tokens fr r > available_input_budget b))
                  \<and> (\<not> c \<longrightarrow> s = r)
   | Inl e \<Rightarrow> e = AttributeError \<or> (\<exists>n. e = ContextOverflowError n (available_input_budget b) \<and> n > available_input_budget b)"
proof -
  have "phase4 fr t q = Inl e \<Longrightarrow> e = AttributeError" for t q e
  proof -
    have "compact_tools ts = Inl e \<Longrightarrow> e = AttributeError" for ts
      by (induction ts) (auto simp: compact_parameters_def split: sum.splits json.splits option.splits)
    then show "phase4 fr t q = Inl e \<Longrightarrow> e = AttributeError"
      by (auto simp: phase4_def split: sum.splits if_splits)
  qed
  then show ?thesis
    unfolding compact_request_def Let_def require_fit_def by (auto simp: over_def split: sum.splits)
qed

section \<open>A conversation with a tool call\<close>

text \<open>Every tool result answers a call of an earlier message.\<close>

fun paired_from :: "string list \<Rightarrow> normalized_message list \<Rightarrow> bool" where
  "paired_from seen [] = True"
| "paired_from seen (m # ms) =
     (list_all (\<lambda>tr. nr_tool_call_id tr \<in> set seen) (msg_tool_results m)
      \<and> paired_from (map tc_id (msg_tool_calls m) @ seen) ms)"

definition tool_results_paired :: "normalized_message list \<Rightarrow> bool" where
  "tool_results_paired ms = paired_from [] ms"

definition small_budget :: context_budget where
  "small_budget = \<lparr>model_context_window = 4096, desired_output_tokens = 2048, safety_margin_tokens = 2048\<rparr>"

definition filler_turns :: "normalized_message list" where
  "filler_turns = replicate 6 (new_message ''user'' (replicate 300 (CHR ''x'')))"

definition tool_turn :: normalized_message where
  "tool_turn = (new_message ''tool'' [])\<lparr>msg_tool_results :=
     [\<lparr>nr_tool_call_id = ''c1'', nr_tool_name = Some ''f'', nr_content = ''ok'', nr_is_error = False\<rparr>]\<rparr>"

definition call_turn :: normalized_message where
  "call_turn = (new_message ''assistant'' (replicate 400 (CHR ''x'')))\<lparr>msg_tool_calls :=
     [\<lparr>tc_id = ''c1'', tc_name = ''f'', tc_arguments = JObj [], tc_raw_arguments = ''{}'', tc_metadata = []\<rparr>]\<rparr>"

definition paired_request :: normalized_request where
  "paired_request = new_request ''r'' (new_message ''user'' ''goal'' # call_turn # tool_turn # filler_turns)"

definition evicted_request :: normalized_request where
  "evicted_request = new_request ''r'' (new_message ''user'' ''goal'' # tool_turn # filler_turns)"

lemmas conversation_defs = small_budget_def filler_turns_def tool_turn_def call_turn_def paired_request_def
  evicted_request_def new_request_def new_message_def

lemma compact_paired_request: "compact_request fr 6 paired_request small_budget = Inr (evicted_request, True)"
proof -
  have b: "available_input_budget small_budget = 512" by (simp add: available_input_budget_def small_budget_def)
  have l: "length (rq_messages paired_request) = 9" by (simp add: conversation_defs)
  have u: "first_user_idx (rq_messages paired_request) = Some 0"
    by (simp add: first_user_idx_def conversation_defs)
  have o: "over fr 512 paired_request" "\<not> over fr 512 evicted_request"
    by (simp_all add: over_def estimate_tokens_def tokens_of_length_def request_length_def message_length_def
        tool_call_text_def conversation_defs sum_list_replicate)
  have small: "m \<in> set (rq_messages paired_request) \<Longrightarrow> length (msg_content m) \<le> 400
      \<and> list_all (\<lambda>tr. length (nr_content tr) \<le> 250) (msg_tool_results m)" for m
    by (auto simp: conversation_defs)
  have same: "map f (msg_tool_results m) = msg_tool_results m \<Longrightarrow> m\<lparr>msg_tool_results := map f (msg_tool_results m)\<rparr> = m" for f m
    by simp
  have id: "250 \<le> n \<Longrightarrow> compact_results fr n m = m" "400 \<le> k \<Longrightarrow> compact_content fr k n m = m" "compact_assistant m = m"
    if "m \<in> set (rq_messages paired_request)" for m n k
    using small [OF that]
    by (auto simp: compact_results_def compact_content_def compact_assistant_def list_all_iff intro!: same map_idI)
  have ph: "phase1 fr i (rq_messages paired_request) = rq_messages paired_request"
    "phase2 fr p 6 (rq_messages paired_request) = rq_messages paired_request" for i p
    by (rule nth_equalityI; simp add: phase1_def phase2_def id Let_def)+
  have e: "evict_turns fr 512 (Suc 0) 6 paired_request = evicted_request"
    using o l by (simp add: evict_turns.simps [of _ _ _ _ paired_request] evict_turns.simps [of _ _ _ _ evicted_request])
      (simp add: evict_turns.simps conversation_defs)
  show ?thesis
    using o by (simp add: compact_request_def b u ph e protected_prefix_count_def)
qed

section \<open>Properties\<close>

text \<open>
  C19: Compaction returns only requests whose estimate fits the input budget, unchanged when the
  request already fits; otherwise it raises ContextOverflowError with the two numbers, or
  AttributeError for a tool schema whose properties are not an object.
\<close>

theorem compact_fits_or_overflows:
  "case compact_request fr tail r b of
     Inr (s, c) \<Rightarrow> estimate_tokens fr s \<le> available_input_budget b
                  \<and> c = (estimate_tokens fr r > available_input_budget b) \<and> (c \<or> s = r)
   | Inl e \<Rightarrow> e = AttributeError
             \<or> (\<exists>n. e = ContextOverflowError n (available_input_budget b) \<and> n > available_input_budget b)"
  using compact_outcome [where fr = fr and tail = tail and r = r and b = b] by (auto split: sum.splits)

text \<open>
  Compaction keeps the conversation: up to the text of messages and tool results, the result
  is the original less one contiguous block that starts right after the protected prefix and ends
  before the last two turns (the last \<open>preserve_tail_turns\<close> when that is less); and the first
  user message keeps its text.
\<close>

theorem compact_keeps_structure:
  assumes "compact_request fr tail r b = Inr (s, c)"
  shows "(\<exists>k. map skeleton (rq_messages s)
               = take (protected_prefix_count (rq_messages r)) (map skeleton (rq_messages r))
                 @ drop (protected_prefix_count (rq_messages r) + k) (map skeleton (rq_messages r))
             \<and> (k = 0 \<or> protected_prefix_count (rq_messages r) + min 2 tail + k \<le> length (rq_messages r)))
         \<and> (\<forall>i. first_user_idx (rq_messages r) = Some i \<longrightarrow>
               msg_content (rq_messages s ! i) = msg_content (rq_messages r ! i))"
proof -
  have "i < length (rq_messages r) \<and> i < protected_prefix_count (rq_messages r)"
    if "first_user_idx (rq_messages r) = Some i" for i
    using that by (auto simp: first_user_idx_def protected_prefix_count_def dest: index_of_Some)
  with compact_keeps [OF assms] show ?thesis unfolding keeps_def by blast
qed

theorem compact_keeps_structure_witness:
  "msg_content (rq_messages (fst (projr (compact_request (\<lambda>_. []) 6 paired_request small_budget))) ! 0) = ''goal''"
proof -
  have c: "compact_request (\<lambda>_. []) 6 paired_request small_budget = Inr (evicted_request, True)"
    by (rule compact_paired_request)
  from compact_keeps_structure [OF c] have "\<forall>i. first_user_idx (rq_messages paired_request) = Some i \<longrightarrow>
      msg_content (rq_messages evicted_request ! i) = msg_content (rq_messages paired_request ! i)" by blast
  moreover have "first_user_idx (rq_messages paired_request) = Some 0"
    by (simp add: paired_request_def first_user_idx_def new_request_def new_message_def)
  ultimately show ?thesis
    unfolding c by (simp add: paired_request_def new_request_def new_message_def)
qed

text \<open>
  Compaction may separate a tool result from the call it answers: a conversation in which
  every tool result has an earlier call becomes one where it has none, because the oldest turn is
  removed alone and not with its counterpart.
\<close>

theorem compaction_orphans_tool_result:
  "\<exists>r b s. tool_results_paired (rq_messages r) \<and> compact_request fr 6 r b = Inr (s, True)
     \<and> \<not> tool_results_paired (rq_messages s)"
proof -
  have "tool_results_paired (rq_messages paired_request)" and "\<not> tool_results_paired (rq_messages evicted_request)"
    by (simp_all add: conversation_defs tool_results_paired_def numeral_eq_Suc)
  with compact_paired_request show ?thesis by blast
qed

end
