(* ===== verification/ToolValidation.thy ===== *)
theory ToolValidation
  imports Ir PyText Errors
begin

text \<open>
  \<^verbatim>\<open>agent/tool_validation.py\<close> and \<^verbatim>\<open>validation/response.py\<close>: validation of tool calls against
  their JSON schema, deterministic syntactic repair, and the sanity checks of a response.

  \<open>py_env\<close> collects what the code takes from Python's numeric and literal syntax:
  \<open>repr\<close> of a float, \<open>float()\<close> of a string, \<open>ast.literal_eval\<close> (restricted to literals that
  have a JSON value) and the formatting of error messages.  Schemas are arbitrary JSON values;
  where the code would raise on a malformed schema the model returns the exception.

  Theorems: an executable report has arguments that conform to the schema
  (\<open>accepted_arguments_conform\<close>); repair never invents, drops or renames an argument and changes a
  value only by a listed coercion (\<open>repair_is_syntactic\<close>).
\<close>

datatype tool_call_result = VALID | NORMALIZED | INVALID | UNSAFE_TO_REPAIR

datatype validation_error =
    UnknownTool string
  | Unparseable
  | Malformed
  | MissingRequired string "json list"
  | Disallowed string "string list"
  | WrongType string string json
  | WrongItem string nat json

record py_env =
  py_repr :: "rat \<Rightarrow> string"
  py_float :: "string \<Rightarrow> rat option"
  py_literal_eval :: "string \<Rightarrow> json option"
  py_message :: "validation_error \<Rightarrow> string"

record tool_validation_report =
  vr_tool_name :: string
  vr_status :: tool_call_result
  vr_validated_arguments :: "(string, json) dict"
  vr_raw_arguments :: string
  vr_normalizations_applied :: "string list"
  vr_error :: "validation_error option"

definition is_executable :: "tool_validation_report \<Rightarrow> bool" where
  "is_executable r = (vr_status r = VALID \<or> vr_status r = NORMALIZED)"

record tool_call_validator =
  tv_strict :: bool
  tv_allow_syntactic_repairs :: bool
  tv_allow_semantic_repairs :: bool

definition default_validator :: tool_call_validator where
  "default_validator = \<lparr>tv_strict = True, tv_allow_syntactic_repairs = True, tv_allow_semantic_repairs = False\<rparr>"

section \<open>Syntactic repair\<close>

definition fence :: string where
  "fence = replicate 3 (char_of (96 :: nat))"

definition fence_open :: rx where
  "fence_open = seqs [lit fence, rx_opt (rx_plus (Chr (\<lambda>c. is_word c \<or> c = CHR ''-''))), Star (Chr is_space)]"

definition fence_close :: rx where
  "fence_close = seqs [Star (Chr is_space), lit fence, EndOfText]"

definition strip_fences :: "string \<Rightarrow> string" where
  "strip_fences s = rx_sub fence_close (\<lambda>_. []) (rx_drop_prefix fence_open s)"

definition trailing_comma :: rx where
  "trailing_comma = seqs [lit '','', Star (Chr is_space), Chr (\<lambda>c. c = CHR '']'' \<or> c = CHR ''}'')]"

definition strip_trailing_commas :: "string \<Rightarrow> string" where
  "strip_trailing_commas s = rx_sub trailing_comma (\<lambda>w. [last w]) s"

definition normalize_json_syntax :: "py_env \<Rightarrow> string \<Rightarrow> (string, json) dict option \<times> string list" where
  "normalize_json_syntax env raw =
     (if strip raw = [] then (Some [], [''empty_to_dict''])
      else
        let s0 = strip raw; fenced = startswith s0 fence;
            s1 = (if fenced then strip_fences s0 else s0);
            n1 = (if fenced then [''strip_markdown_fences''] else []);
            s2 = strip_trailing_commas s1;
            n2 = n1 @ (if s2 \<noteq> s1 then [''strip_trailing_commas''] else [])
        in case loads False s2 of
             Some (JObj kvs) \<Rightarrow> (Some kvs, n2)
           | Some _ \<Rightarrow> (None, [''non_dict_json''])
           | None \<Rightarrow> (case py_literal_eval env s2 of
                        Some (JObj kvs) \<Rightarrow> (Some kvs, n2 @ [''python_dict_to_json''])
                      | _ \<Rightarrow> (None, [''unparseable_json''])))"

section \<open>Schema validation\<close>

definition json_get :: "json \<Rightarrow> string \<Rightarrow> json option result" where
  "json_get j k = (case j of JObj kvs \<Rightarrow> Inr (map_of kvs k) | _ \<Rightarrow> Inl AttributeError)"

text \<open>\<open>k in container\<close> for a string \<open>k\<close>.\<close>

definition json_contains :: "string \<Rightarrow> json \<Rightarrow> bool result" where
  "json_contains k j =
     (case j of
        JObj kvs \<Rightarrow> Inr (k \<in> set (map fst kvs))
      | JArr xs \<Rightarrow> Inr (JStr k \<in> set xs)
      | JStr s \<Rightarrow> Inr (contains s k)
      | _ \<Rightarrow> Inl TypeError)"

text \<open>The elements \<open>for k in required_keys\<close> goes through.\<close>

definition json_elements :: "json \<Rightarrow> json list result" where
  "json_elements j =
     (case j of
        JArr xs \<Rightarrow> Inr xs
      | JObj kvs \<Rightarrow> Inr (map (\<lambda>(k, v). JStr k) kvs)
      | JStr s \<Rightarrow> Inr (map (\<lambda>c. JStr [c]) s)
      | _ \<Rightarrow> Inl TypeError)"

definition hashable :: "json \<Rightarrow> bool" where
  "hashable j = (case j of JArr _ \<Rightarrow> False | JObj _ \<Rightarrow> False | _ \<Rightarrow> True)"

definition has_key :: "(string, json) dict \<Rightarrow> json \<Rightarrow> bool" where
  "has_key d k = (case k of JStr s \<Rightarrow> s \<in> set (map fst d) | _ \<Rightarrow> False)"

definition missing_keys :: "json \<Rightarrow> (string, json) dict \<Rightarrow> json list result" where
  "missing_keys required_keys target =
     (case json_elements required_keys of
        Inl e \<Rightarrow> Inl e
      | Inr ks \<Rightarrow> if list_all hashable ks then Inr (filter (\<lambda>k. \<not> has_key target k) ks) else Inl TypeError)"

fun extra_keys :: "json \<Rightarrow> string list \<Rightarrow> string list result" where
  "extra_keys properties [] = Inr []"
| "extra_keys properties (k # ks) =
     (case json_contains k properties of
        Inl e \<Rightarrow> Inl e
      | Inr present \<Rightarrow> (case extra_keys properties ks of
                          Inl e \<Rightarrow> Inl e | Inr xs \<Rightarrow> Inr (if present then xs else k # xs)))"

definition py_str :: "py_env \<Rightarrow> json \<Rightarrow> string" where
  "py_str env v =
     (case v of
        JBool b \<Rightarrow> (if b then ''True'' else ''False'') | JInt i \<Rightarrow> str_of_int i | JFloat r \<Rightarrow> py_repr env r | _ \<Rightarrow> [])"

text \<open>
  The scalar cases of the loop body: the value to store with the suffix of its normalisation
  (\<open>None\<close> when it is kept), or a type error.
\<close>

definition check_scalar :: "py_env \<Rightarrow> bool \<Rightarrow> string \<Rightarrow> json \<Rightarrow> ((json \<times> string) option) option" where
  "check_scalar env repair t v =
     (if t = ''integer'' then
        (case v of JInt _ \<Rightarrow> Some None | JBool _ \<Rightarrow> Some None
         | JStr s \<Rightarrow> if isdigit s \<and> repair then Some (Some (JInt (int (nat_of_digits s)), ''_str_to_int'')) else None
         | _ \<Rightarrow> None)
      else if t = ''number'' \<or> t = ''float'' then
        (case v of JInt _ \<Rightarrow> Some None | JBool _ \<Rightarrow> Some None | JFloat _ \<Rightarrow> Some None
         | JStr s \<Rightarrow> if repair then (case py_float env s of
                       Some x \<Rightarrow> Some (Some (JFloat x, ''_str_to_number'')) | None \<Rightarrow> None) else None
         | _ \<Rightarrow> None)
      else if t = ''boolean'' then
        (case v of JBool _ \<Rightarrow> Some None
         | JStr s \<Rightarrow> if lower s \<in> {''true'', ''false''} \<and> repair
                     then Some (Some (JBool (lower s = ''true''), ''_str_to_bool'')) else None
         | _ \<Rightarrow> None)
      else if t = ''string'' then
        (case v of JStr _ \<Rightarrow> Some None
         | JInt _ \<Rightarrow> if repair then Some (Some (JStr (py_str env v), ''_to_str'')) else None
         | JFloat _ \<Rightarrow> if repair then Some (Some (JStr (py_str env v), ''_to_str'')) else None
         | JBool _ \<Rightarrow> if repair then Some (Some (JStr (py_str env v), ''_to_str'')) else None
         | _ \<Rightarrow> None)
      else Some None)"

definition field_name :: "string \<Rightarrow> string \<Rightarrow> string" where
  "field_name path k = (if path = [] then k else path @ ''.'' @ k)"

text \<open>What the nested validations return: the error if any, the object and the normalisations so far.\<close>

type_synonym 'a checked = "(validation_error option \<times> 'a \<times> string list) result"

definition get_or :: "json \<Rightarrow> string \<Rightarrow> json \<Rightarrow> json result" where
  "get_or j k d = (case json_get j k of Inl e \<Rightarrow> Inl e | Inr None \<Rightarrow> Inr d | Inr (Some v) \<Rightarrow> Inr v)"

text \<open>The two checks before the loop: required and additional arguments.\<close>

definition check_keys :: "json \<Rightarrow> (string, json) dict \<Rightarrow> string \<Rightarrow> validation_error option result" where
  "check_keys spec target path =
     (case get_or spec ''properties'' (JObj []) of
        Inl e \<Rightarrow> Inl e
      | Inr properties \<Rightarrow>
          (case get_or spec ''required'' (JArr []) of
             Inl e \<Rightarrow> Inl e
           | Inr required_keys \<Rightarrow>
               (case missing_keys required_keys target of
                  Inl e \<Rightarrow> Inl e
                | Inr missing \<Rightarrow>
                    if missing \<noteq> [] then Inr (Some (MissingRequired path missing))
                    else if json_get spec ''additionalProperties'' = Inr (Some (JBool False)) then
                      (case extra_keys properties (map fst target) of
                         Inl e \<Rightarrow> Inl e
                       | Inr extra \<Rightarrow> Inr (if extra \<noteq> [] then Some (Disallowed path extra) else None))
                    else Inr None)))"

definition schema_properties :: "json \<Rightarrow> (string, json) dict result" where
  "schema_properties spec =
     (case get_or spec ''properties'' (JObj []) of
        Inl e \<Rightarrow> Inl e | Inr (JObj ps) \<Rightarrow> Inr ps | Inr _ \<Rightarrow> Inl AttributeError)"

text \<open>Whether an object-typed property is checked further, and the item schema of an array of objects.\<close>

definition nested_object :: "json \<Rightarrow> bool" where
  "nested_object spec =
     ((case json_get spec ''properties'' of Inr (Some v) \<Rightarrow> truthy_json v | _ \<Rightarrow> False)
      \<or> (case json_get spec ''required'' of Inr (Some v) \<Rightarrow> truthy_json v | _ \<Rightarrow> False))"

definition object_items :: "json \<Rightarrow> json option" where
  "object_items spec =
     (case json_get spec ''items'' of
        Inr (Some (JObj kvs)) \<Rightarrow> if map_of kvs ''type'' = Some (JStr ''object'') then Some (JObj kvs) else None
      | _ \<Rightarrow> None)"

lemma map_of_size: "map_of kvs k = Some v \<Longrightarrow> size v < size (JObj kvs)"
proof -
  assume "map_of kvs k = Some v"
  then have "(k, v) \<in> set kvs" by (rule map_of_SomeD)
  from size_list_estimation' [OF this order_refl, of "size_prod (\<lambda>_. 0) size"] show ?thesis
    by simp
qed

lemma schema_properties_size: "schema_properties spec = Inr ps \<Longrightarrow> size_list (size_prod (\<lambda>_. 0) size) ps < size spec"
  by (auto simp: schema_properties_def get_or_def json_get_def split: json.splits sum.splits option.splits dest: map_of_size)

lemma object_items_size: "object_items spec = Some s \<Longrightarrow> size s < size spec"
  by (auto simp: object_items_def json_get_def split: json.splits sum.splits option.splits if_splits dest: map_of_size)

text \<open>The measure of the recursion: the size of the schema, then the array still to be checked.\<close>

definition validation_size ::
  "(py_env \<times> bool \<times> json \<times> (string, json) dict \<times> string list \<times> string
    + py_env \<times> bool \<times> (string, json) dict \<times> (string, json) dict \<times> string list \<times> string)
   + (py_env \<times> bool \<times> json \<times> json \<times> string list \<times> string
    + py_env \<times> bool \<times> json \<times> json list \<times> nat \<times> string list \<times> string) \<Rightarrow> nat \<times> nat \<times> nat" where
  "validation_size x =
     (case x of
        Inl (Inl (_, _, spec, _)) \<Rightarrow> (size spec, 0, 0)
      | Inl (Inr (_, _, ps, _)) \<Rightarrow> (size_list (size_prod (\<lambda>_. 0) size) ps, 0, 0)
      | Inr (Inl (_, _, spec, _)) \<Rightarrow> (size spec, 1, 0)
      | Inr (Inr (_, _, item, xs, _)) \<Rightarrow> (size item, 1, length xs))"

lemma size_prod_snd: "size_prod (\<lambda>_. 0) size = (\<lambda>x. Suc (size (snd x)))"
  by (rule ext) (simp add: size_prod_simp)

text \<open>
  \<open>_validate_schema\<close>: the object, its properties, one property value, the items of an array.
  The object is updated in place by the source, so the updated object is returned with an error too.
\<close>

function validate_schema ::
    "py_env \<Rightarrow> bool \<Rightarrow> json \<Rightarrow> (string, json) dict \<Rightarrow> string list \<Rightarrow> string \<Rightarrow> (string, json) dict checked"
  and validate_props ::
    "py_env \<Rightarrow> bool \<Rightarrow> (string, json) dict \<Rightarrow> (string, json) dict \<Rightarrow> string list \<Rightarrow> string \<Rightarrow> (string, json) dict checked"
  and validate_value :: "py_env \<Rightarrow> bool \<Rightarrow> json \<Rightarrow> json \<Rightarrow> string list \<Rightarrow> string \<Rightarrow> json checked"
  and validate_items :: "py_env \<Rightarrow> bool \<Rightarrow> json \<Rightarrow> json list \<Rightarrow> nat \<Rightarrow> string list \<Rightarrow> string \<Rightarrow> json list checked" where
  "validate_schema env repair spec target norms path =
     (case check_keys spec target path of
        Inl e \<Rightarrow> Inl e
      | Inr (Some err) \<Rightarrow> Inr (Some err, target, norms)
      | Inr None \<Rightarrow>
          (case schema_properties spec of
             Inl e \<Rightarrow> Inl e
           | Inr ps \<Rightarrow> validate_props env repair ps target norms path))"
| "validate_props env repair [] target norms path = Inr (None, target, norms)"
| "validate_props env repair (p # ps) target norms path =
     (case map_of target (fst p) of
        None \<Rightarrow> validate_props env repair ps target norms path
      | Some v \<Rightarrow>
          (case validate_value env repair (snd p) v norms (field_name path (fst p)) of
             Inl e \<Rightarrow> Inl e
           | Inr (Some err, v', norms') \<Rightarrow> Inr (Some err, AList.update (fst p) v' target, norms')
           | Inr (None, v', norms') \<Rightarrow> validate_props env repair ps (AList.update (fst p) v' target) norms' path))"
| "validate_value env repair spec v norms field =
     (case json_get spec ''type'' of
        Inl e \<Rightarrow> Inl e
      | Inr t \<Rightarrow>
          if t = Some (JStr ''array'') then
            (case v of
               JArr xs \<Rightarrow>
                 (case object_items spec of
                    None \<Rightarrow> Inr (None, v, norms)
                  | Some item \<Rightarrow>
                      (case validate_items env repair item xs 0 norms field of
                         Inl e \<Rightarrow> Inl e | Inr (err, xs', norms') \<Rightarrow> Inr (err, JArr xs', norms')))
             | _ \<Rightarrow> Inr (Some (WrongType field ''array'' v), v, norms))
          else if t = Some (JStr ''object'') then
            (case v of
               JObj d \<Rightarrow>
                 if nested_object spec
                 then (case validate_schema env repair spec d norms field of
                         Inl e \<Rightarrow> Inl e | Inr (err, d', norms') \<Rightarrow> Inr (err, JObj d', norms'))
                 else Inr (None, v, norms)
             | _ \<Rightarrow> Inr (Some (WrongType field ''object'' v), v, norms))
          else
            (case t of
               Some (JStr w) \<Rightarrow>
                 (case check_scalar env repair w v of
                    None \<Rightarrow> Inr (Some (WrongType field w v), v, norms)
                  | Some None \<Rightarrow> Inr (None, v, norms)
                  | Some (Some (v', how)) \<Rightarrow> Inr (None, v', norms @ [''coerce_'' @ field @ how]))
             | _ \<Rightarrow> Inr (None, v, norms)))"
| "validate_items env repair item [] i norms field = Inr (None, [], norms)"
| "validate_items env repair item (x # xs) i norms field =
     (case x of
        JObj d \<Rightarrow>
          (case validate_schema env repair item d norms (field @ ''['' @ str_of_nat i @ '']'') of
             Inl e \<Rightarrow> Inl e
           | Inr (Some err, d', norms') \<Rightarrow> Inr (Some err, JObj d' # xs, norms')
           | Inr (None, d', norms') \<Rightarrow>
               (case validate_items env repair item xs (Suc i) norms' field of
                  Inl e \<Rightarrow> Inl e | Inr (err, xs', norms'') \<Rightarrow> Inr (err, JObj d' # xs', norms'')))
      | _ \<Rightarrow> Inr (Some (WrongItem field i x), x # xs, norms))"
  by pat_completeness auto

termination
  by (relation "inv_image (less_than <*lex*> less_than <*lex*> less_than) validation_size")
    (auto simp: validation_size_def size_prod_snd dest: schema_properties_size [unfolded size_prod_snd] object_items_size)

declare validate_schema.simps [simp del] validate_value.simps [simp del]

section \<open>validate\_tool\_call\<close>

definition parsed_arguments :: "py_env \<Rightarrow> tool_call_validator \<Rightarrow> json \<Rightarrow> (string, json) dict option \<times> string list" where
  "parsed_arguments env tv arguments =
     (case arguments of
        JObj kvs \<Rightarrow> (Some kvs, [])
      | JStr s \<Rightarrow>
          (case loads False s of
             Some (JObj kvs) \<Rightarrow> (Some kvs, [])
           | Some _ \<Rightarrow> (None, [])
           | None \<Rightarrow> if tv_allow_syntactic_repairs tv then normalize_json_syntax env s else (None, []))
      | _ \<Rightarrow> (None, []))"

definition schema_params :: "json option \<Rightarrow> json option result" where
  "schema_params schema =
     (case schema of
        None \<Rightarrow> Inr None
      | Some s \<Rightarrow> if \<not> truthy_json s then Inr None
                  else (case json_get s ''parameters'' of
                     Inl e \<Rightarrow> Inl e
                   | Inr (Some p) \<Rightarrow> Inr (Some (if truthy_json p then p else s))
                   | Inr None \<Rightarrow> Inr (Some s)))"

text \<open>The envelope loop: the wrapper that is removed and its content.\<close>

fun unwrap_envelope :: "json \<Rightarrow> (string, json) dict \<Rightarrow> string list \<Rightarrow> (string \<times> (string, json) dict) option result" where
  "unwrap_envelope props args [] = Inr None"
| "unwrap_envelope props args (w # ws) =
     (case args of
        [(k, JObj d)] \<Rightarrow>
          if k = w then (case json_contains w props of
                           Inl e \<Rightarrow> Inl e
                         | Inr present \<Rightarrow> if present then unwrap_envelope props args ws else Inr (Some (w, d)))
          else unwrap_envelope props args ws
      | _ \<Rightarrow> unwrap_envelope props args ws)"

definition unwrapped ::
  "tool_call_validator \<Rightarrow> json option \<Rightarrow> (string, json) dict \<Rightarrow> string list \<Rightarrow> ((string, json) dict \<times> string list) result" where
  "unwrapped tv params args norms =
     (case params of
        None \<Rightarrow> Inr (args, norms)
      | Some p \<Rightarrow>
          if \<not> tv_allow_syntactic_repairs tv then Inr (args, norms)
          else (case get_or p ''properties'' (JObj []) of
            Inl e \<Rightarrow> Inl e
          | Inr props \<Rightarrow>
              (case unwrap_envelope props args [''parameters'', ''arguments'', ''input''] of
                 Inl e \<Rightarrow> Inl e
               | Inr None \<Rightarrow> Inr (args, norms)
               | Inr (Some (w, d)) \<Rightarrow> Inr (d, norms @ [''unwrap_'' @ w @ ''_envelope'']))))"

definition rejection ::
  "string \<Rightarrow> tool_call_result \<Rightarrow> string \<Rightarrow> validation_error \<Rightarrow> tool_validation_report" where
  "rejection tool_name status raw err =
     \<lparr>vr_tool_name = tool_name, vr_status = status, vr_validated_arguments = [], vr_raw_arguments = raw,
      vr_normalizations_applied = [], vr_error = Some err\<rparr>"

definition raw_text :: "py_env \<Rightarrow> json \<Rightarrow> string" where
  "raw_text env arguments =
     (case arguments of JStr s \<Rightarrow> s
      | _ \<Rightarrow> dumps (py_repr env) (if truthy_json arguments then arguments else JObj []))"

definition checked_against ::
  "py_env \<Rightarrow> bool \<Rightarrow> json option \<Rightarrow> (string, json) dict \<Rightarrow> string list \<Rightarrow> (string, json) dict checked" where
  "checked_against env repair params args norms =
     (case params of None \<Rightarrow> Inr (None, args, norms) | Some p \<Rightarrow> validate_schema env repair p args norms [])"

definition validate_tool_call ::
  "py_env \<Rightarrow> tool_call_validator \<Rightarrow> string \<Rightarrow> json \<Rightarrow> json option \<Rightarrow> string list option \<Rightarrow> tool_validation_report result" where
  "validate_tool_call env tv tool_name arguments schema known_tools =
     (if (case known_tools of None \<Rightarrow> False | Some ks \<Rightarrow> tool_name \<notin> set ks)
      then Inr (rejection tool_name INVALID (raw_text env arguments) (UnknownTool tool_name))
      else case parsed_arguments env tv arguments of
        (None, _) \<Rightarrow>
          Inr (if tv_strict tv \<or> \<not> tv_allow_semantic_repairs tv
               then rejection tool_name UNSAFE_TO_REPAIR (raw_text env arguments) Unparseable
               else rejection tool_name INVALID (raw_text env arguments) Malformed)
      | (Some args, norms) \<Rightarrow>
          (case schema_params schema of
             Inl e \<Rightarrow> Inl e
           | Inr params \<Rightarrow>
               (case unwrapped tv params args norms of
                  Inl e \<Rightarrow> Inl e
                | Inr (args', norms') \<Rightarrow>
                    (case checked_against env (tv_allow_syntactic_repairs tv) params args' norms' of
                       Inl e \<Rightarrow> Inl e
                     | Inr (Some err, target, applied) \<Rightarrow>
                         Inr \<lparr>vr_tool_name = tool_name, vr_status = INVALID, vr_validated_arguments = target,
                              vr_raw_arguments = raw_text env arguments, vr_normalizations_applied = applied,
                              vr_error = Some err\<rparr>
                     | Inr (None, target, applied) \<Rightarrow>
                         Inr \<lparr>vr_tool_name = tool_name, vr_status = (if applied \<noteq> [] then NORMALIZED else VALID),
                              vr_validated_arguments = target, vr_raw_arguments = raw_text env arguments,
                              vr_normalizations_applied = applied, vr_error = None\<rparr>))))"

section \<open>Response validation\<close>

datatype sanity_rejection = EmptyResponse | ResponseSizeExhaustion

definition check_sanity :: "nat \<Rightarrow> normalized_response \<Rightarrow> sanity_rejection option" where
  "check_sanity max_response_chars r =
     (let has_content = (case rs_content r of None \<Rightarrow> False | Some t \<Rightarrow> strip t \<noteq> []);
          has_tools = (rs_tool_calls r \<noteq> [])
      in if \<not> has_content \<and> \<not> has_tools then Some EmptyResponse
         else if (case rs_content r of None \<Rightarrow> False | Some t \<Rightarrow> length t > max_response_chars)
         then Some ResponseSizeExhaustion else None)"

datatype response_validation =
    RejectedBody sanity_rejection
  | RejectedToolCall string validation_error
  | Accepted normalized_response

definition tool_schema :: "normalized_request \<Rightarrow> string \<Rightarrow> json option" where
  "tool_schema rq name = map_option nd_parameters (find (\<lambda>t. nd_name t = name) (rq_tools rq))"

fun validate_calls ::
  "py_env \<Rightarrow> tool_call_validator \<Rightarrow> normalized_request \<Rightarrow> normalized_tool_call list
    \<Rightarrow> ((string \<times> validation_error) + normalized_tool_call list) result" where
  "validate_calls env tv rq [] = Inr (Inr [])"
| "validate_calls env tv rq (c # cs) =
     (case validate_tool_call env tv (tc_name c) (tc_arguments c) (tool_schema rq (tc_name c))
             (Some (map nd_name (rq_tools rq))) of
        Inl e \<Rightarrow> Inl e
      | Inr rep \<Rightarrow>
          if \<not> is_executable rep
          then Inr (Inl (tc_name c, case vr_error rep of Some x \<Rightarrow> x | None \<Rightarrow> Malformed))
          else (case validate_calls env tv rq cs of
                  Inl e \<Rightarrow> Inl e
                | Inr (Inl x) \<Rightarrow> Inr (Inl x)
                | Inr (Inr cs') \<Rightarrow> Inr (Inr (c\<lparr>tc_arguments := JObj (vr_validated_arguments rep)\<rparr> # cs'))))"

definition validate ::
  "py_env \<Rightarrow> tool_call_validator \<Rightarrow> nat \<Rightarrow> normalized_response \<Rightarrow> normalized_request \<Rightarrow> response_validation result" where
  "validate env tv max_response_chars resp rq =
     (case check_sanity max_response_chars resp of
        Some x \<Rightarrow> Inr (RejectedBody x)
      | None \<Rightarrow>
          (case validate_calls env tv rq (rs_tool_calls resp) of
             Inl e \<Rightarrow> Inl e
           | Inr (Inl (name, err)) \<Rightarrow> Inr (RejectedToolCall name err)
           | Inr (Inr cs) \<Rightarrow> Inr (Accepted (resp\<lparr>rs_tool_calls := cs\<rparr>))))"

section \<open>Specification\<close>

definition required_name :: "json \<Rightarrow> string \<Rightarrow> bool" where
  "required_name spec k =
     (\<exists>r ks. get_or spec ''required'' (JArr []) = Inr r \<and> json_elements r = Inr ks \<and> JStr k \<in> set ks)"

definition scalar_ok :: "string \<Rightarrow> json \<Rightarrow> bool" where
  "scalar_ok t v =
     (if t = ''integer'' then (case v of JInt _ \<Rightarrow> True | JBool _ \<Rightarrow> True | _ \<Rightarrow> False)
      else if t = ''number'' \<or> t = ''float''
      then (case v of JInt _ \<Rightarrow> True | JBool _ \<Rightarrow> True | JFloat _ \<Rightarrow> True | _ \<Rightarrow> False)
      else if t = ''boolean'' then (case v of JBool _ \<Rightarrow> True | _ \<Rightarrow> False)
      else if t = ''string'' then (case v of JStr _ \<Rightarrow> True | _ \<Rightarrow> False)
      else True)"

text \<open>
  An object conforms to a schema: its required arguments are there, it has no argument a closed
  schema does not name, and every argument the schema names has its declared type, at every level.
\<close>

inductive conforms :: "json \<Rightarrow> (string, json) dict \<Rightarrow> bool" and has_type :: "json \<Rightarrow> json \<Rightarrow> bool" where
  conforms_obj:
    "schema_properties spec = Inr ps \<Longrightarrow> \<forall>k. required_name spec k \<longrightarrow> k \<in> fst ` set d \<Longrightarrow>
     (json_get spec ''additionalProperties'' = Inr (Some (JBool False)) \<longrightarrow> fst ` set d \<subseteq> fst ` set ps) \<Longrightarrow>
     \<forall>k s v. (k, s) \<in> set ps \<longrightarrow> map_of d k = Some v \<longrightarrow> has_type s v \<Longrightarrow> conforms spec d"
| type_array: "json_get spec ''type'' = Inr (Some (JStr ''array'')) \<Longrightarrow>
     \<forall>item. object_items spec = Some item \<longrightarrow> (\<forall>x \<in> set xs. \<exists>d. x = JObj d \<and> conforms item d) \<Longrightarrow> has_type spec (JArr xs)"
| type_object: "json_get spec ''type'' = Inr (Some (JStr ''object'')) \<Longrightarrow>
     nested_object spec \<longrightarrow> conforms spec d \<Longrightarrow> has_type spec (JObj d)"
| type_scalar: "json_get spec ''type'' = Inr (Some (JStr t)) \<Longrightarrow> t \<notin> {''array'', ''object''} \<Longrightarrow>
     scalar_ok t v \<Longrightarrow> has_type spec v"
| type_other: "json_get spec ''type'' = Inr t \<Longrightarrow> \<forall>w. t \<noteq> Some (JStr w) \<Longrightarrow> has_type spec v"

text \<open>The permitted changes of a value: the four coercions, inside objects and arrays too.\<close>

inductive repaired :: "py_env \<Rightarrow> json \<Rightarrow> json \<Rightarrow> bool" for env where
  same: "repaired env v v"
| to_int: "isdigit s \<Longrightarrow> repaired env (JStr s) (JInt (int (nat_of_digits s)))"
| to_number: "py_float env s = Some x \<Longrightarrow> repaired env (JStr s) (JFloat x)"
| to_bool: "lower s \<in> {''true'', ''false''} \<Longrightarrow> repaired env (JStr s) (JBool (lower s = ''true''))"
| to_str: "v = JInt i \<or> v = JFloat r \<or> v = JBool b \<Longrightarrow> repaired env v (JStr (py_str env v))"
| inside_obj: "map fst d' = map fst d \<Longrightarrow>
     \<forall>k v. map_of d k = Some v \<longrightarrow> (\<exists>v'. map_of d' k = Some v' \<and> repaired env v v') \<Longrightarrow> repaired env (JObj d) (JObj d')"
| inside_arr: "list_all2 (repaired env) xs ys \<Longrightarrow> repaired env (JArr xs) (JArr ys)"

text \<open>Parsed JSON: the keys of every object are distinct.\<close>

fun wf_json :: "json \<Rightarrow> bool" where
  "wf_json (JArr xs) = list_all wf_json xs"
| "wf_json (JObj kvs) = (distinct (map fst kvs) \<and> list_all (\<lambda>(k, v). wf_json v) kvs)"
| "wf_json j = True"

section \<open>Lemmas\<close>

text \<open>\<open>grows n n' same\<close>: \<open>n'\<close> extends \<open>n\<close>, and is \<open>n\<close> only when nothing changed.\<close>

definition grows :: "string list \<Rightarrow> string list \<Rightarrow> bool \<Rightarrow> bool" where
  "grows n n' unchanged = (\<exists>x. n' = n @ x \<and> (x = [] \<longrightarrow> unchanged))"

lemma grows_refl [simp]: "grows n n True"
  by (simp add: grows_def)

lemma grows_trans: "grows n n' P \<Longrightarrow> grows n' n'' Q \<Longrightarrow> (P \<Longrightarrow> Q \<Longrightarrow> R) \<Longrightarrow> grows n n'' R"
  by (auto simp: grows_def)

lemma update_same: "map_of d k = Some v \<Longrightarrow> AList.update k v d = d"
  by (induction d) (auto split: if_splits)

lemma keys_update_present: "map_of d k = Some w \<Longrightarrow> map fst (AList.update k v d) = map fst d"
  by (induction d) (auto split: if_splits)

lemmas validate_induct = validate_schema_validate_props_validate_value_validate_items.induct

lemma grows_mono: "grows n n' P \<Longrightarrow> (P \<Longrightarrow> Q) \<Longrightarrow> grows n n' Q"
  by (auto simp: grows_def)

text \<open>One round of the loop over the properties.\<close>

lemma validate_props_cases:
  assumes "validate_props env repair (p # ps) target norms path = Inr (e, t', n')"
  obtains (absent) "map_of target (fst p) = None" "validate_props env repair ps target norms path = Inr (e, t', n')"
  | (error) v v1 err where "map_of target (fst p) = Some v"
      "validate_value env repair (snd p) v norms (field_name path (fst p)) = Inr (Some err, v1, n')"
      "e = Some err" "t' = AList.update (fst p) v1 target"
  | (present) v v1 n1 where "map_of target (fst p) = Some v"
      "validate_value env repair (snd p) v norms (field_name path (fst p)) = Inr (None, v1, n1)"
      "validate_props env repair ps (AList.update (fst p) v1 target) n1 path = Inr (e, t', n')"
  using assms by (auto split: option.splits sum.splits)

lemma validate_items_cases:
  assumes "validate_items env repair item (x # xs) i norms field = Inr (e, xs', n')"
  obtains (bad) err where "e = Some err" "xs' = x # xs" "n' = norms"
  | (error) d d1 err where "x = JObj d" "e = Some err" "xs' = JObj d1 # xs"
      "validate_schema env repair item d norms (field @ ''['' @ str_of_nat i @ '']'') = Inr (Some err, d1, n')"
  | (good) d d1 n1 ys where "x = JObj d" "xs' = JObj d1 # ys"
      "validate_schema env repair item d norms (field @ ''['' @ str_of_nat i @ '']'') = Inr (None, d1, n1)"
      "validate_items env repair item xs (Suc i) n1 field = Inr (e, ys, n')"
  using assms by (auto split: json.splits option.splits sum.splits)

lemma validate_schema_cases:
  assumes "validate_schema env repair spec target norms path = Inr (e, t', n')"
  obtains (keys) err where "check_keys spec target path = Inr (Some err)" "e = Some err" "t' = target" "n' = norms"
  | (props) ps where "check_keys spec target path = Inr None" "schema_properties spec = Inr ps"
      "validate_props env repair ps target norms path = Inr (e, t', n')"
  using assms by (auto simp: validate_schema.simps split: option.splits sum.splits)

lemma validate_value_cases:
  assumes "validate_value env repair spec v norms field = Inr (e, v', n')"
  obtains (same) "v' = v" "n' = norms" "e = None \<longrightarrow> (\<exists>t. json_get spec ''type'' = Inr t
      \<and> (t = Some (JStr ''array'') \<longrightarrow> (\<exists>xs. v = JArr xs) \<and> object_items spec = None)
      \<and> (t = Some (JStr ''object'') \<longrightarrow> (\<exists>d. v = JObj d) \<and> \<not> nested_object spec)
      \<and> (\<forall>w. t = Some (JStr w) \<longrightarrow> w \<notin> {''array'', ''object''} \<longrightarrow> check_scalar env repair w v = Some None))"
  | (coerced) w how where "json_get spec ''type'' = Inr (Some (JStr w))" "w \<notin> {''array'', ''object''}"
      "check_scalar env repair w v = Some (Some (v', how))" "n' = norms @ [''coerce_'' @ field @ how]" "e = None"
  | (array) item xs ys where "json_get spec ''type'' = Inr (Some (JStr ''array''))" "v = JArr xs" "v' = JArr ys"
      "object_items spec = Some item" "validate_items env repair item xs 0 norms field = Inr (e, ys, n')"
  | (object) d d1 where "json_get spec ''type'' = Inr (Some (JStr ''object''))" "v = JObj d" "v' = JObj d1"
      "nested_object spec" "validate_schema env repair spec d norms field = Inr (e, d1, n')"
proof -
  obtain t where t: "json_get spec ''type'' = Inr t"
    using assms by (auto simp: validate_value.simps split: sum.splits)
  consider "t = Some (JStr ''array'')" | "t = Some (JStr ''object'')"
    | w where "t = Some (JStr w)" "w \<noteq> ''array''" "w \<noteq> ''object''" | "\<forall>w. t \<noteq> Some (JStr w)"
    by blast
  then show thesis
  proof cases
    case 1
    with assms t show ?thesis
      by (auto simp: validate_value.simps split: sum.splits option.splits json.splits intro: same array)
  next
    case 2
    with assms t show ?thesis
      by (auto simp: validate_value.simps split: sum.splits json.splits if_splits intro: same object)
  next
    case 3
    with assms t show ?thesis
      by (auto simp: validate_value.simps split: option.splits intro: same coerced)
  next
    case 4
    with assms t show ?thesis
      by (auto simp: validate_value.simps split: option.splits json.splits intro: same)
  qed
qed

lemma validation_grows:
  "validate_schema env repair spec target norms path = Inr (e, t', n') \<Longrightarrow>
     map fst t' = map fst target \<and> grows norms n' (t' = target)"
  "validate_props env repair ps target norms path = Inr (e, t', n') \<Longrightarrow>
     map fst t' = map fst target \<and> grows norms n' (t' = target)"
  "validate_value env repair spec v norms field = Inr (e, v', n') \<Longrightarrow> grows norms n' (v' = v)"
  "validate_items env repair item xs i norms field = Inr (e, xs', n') \<Longrightarrow> grows norms n' (xs' = xs)"
proof (induction env repair spec target norms path and env repair ps target norms path
    and env repair spec v norms field and env repair item xs i norms field
    arbitrary: e t' n' and e t' n' and e v' n' and e xs' n' rule: validate_induct)
  case (1 env repair spec target norms path)
  from "1.prems" show ?case
    by (cases rule: validate_schema_cases) (use "1.IH" in auto)
next
  case (3 env repair p ps target norms path)
  from "3.prems" show ?case
  proof (cases rule: validate_props_cases)
    case absent
    with "3.IH"(1) show ?thesis by simp
  next
    case (error v v1 err)
    from grows_mono [OF "3.IH"(2) [OF error(1,2)]] error show ?thesis
      by (simp add: keys_update_present update_same)
  next
    case (present v v1 n1)
    note IH = "3.IH"(3) [OF present(1,2) refl refl refl present(3)]
    from grows_trans [OF "3.IH"(2) [OF present(1,2)] conjunct2 [OF IH]] conjunct1 [OF IH] present(1)
    show ?thesis by (simp add: keys_update_present update_same)
  qed
next
  case (4 env repair spec v norms field)
  from "4.prems" show ?case
  proof (cases rule: validate_value_cases)
    case (array item xs ys)
    with "4.IH"(1) show ?thesis by (auto simp: grows_def)
  next
    case (object d d1)
    with "4.IH"(2) show ?thesis by (auto simp: grows_def)
  qed (auto simp: grows_def)
next
  case (6 env repair item x xs i norms field)
  from "6.prems" show ?case
  proof (cases rule: validate_items_cases)
    case (error d d1 err)
    with "6.IH"(1) show ?thesis by (auto simp: grows_def)
  next
    case (good d d1 n1 ys)
    from grows_trans [OF conjunct2 [OF "6.IH"(1) [OF good(1,3)]] "6.IH"(2) [OF good(1,3) refl refl refl good(4)]] good(1,2)
    show ?thesis by simp
  qed auto
qed auto

lemma check_scalar_repaired: "check_scalar env repair w v = Some (Some (v', how)) \<Longrightarrow> repaired env v v'"
  unfolding check_scalar_def
  by (cases v; simp split: if_splits option.splits;
      fastforce intro: repaired.to_int repaired.to_number repaired.to_bool repaired.to_str)

lemma check_scalar_ok: "check_scalar env repair w v = Some r \<Longrightarrow> scalar_ok w (case r of None \<Rightarrow> v | Some (v', _) \<Rightarrow> v')"
  by (auto simp: check_scalar_def scalar_ok_def split: if_splits json.splits option.splits)

text \<open>The properties of a well-formed schema are well-formed and named once.\<close>

lemma wf_json_get: "wf_json (JObj kvs) \<Longrightarrow> map_of kvs k = Some v \<Longrightarrow> wf_json v"
  by (auto simp: list_all_iff dest: map_of_SomeD)

lemma wf_schema_properties:
  assumes "wf_json spec" and "schema_properties spec = Inr ps"
  shows "distinct (map fst ps) \<and> list_all (wf_json \<circ> snd) ps"
proof -
  from assms(2) obtain kvs where kvs: "spec = JObj kvs" "map_of kvs ''properties'' = Some (JObj ps) \<or> ps = []"
    by (auto simp: schema_properties_def get_or_def json_get_def split: json.splits sum.splits option.splits)
  from kvs(2) have "wf_json (JObj ps)"
    using wf_json_get [of kvs "''properties''" "JObj ps"] assms(1) kvs(1) by auto
  then show ?thesis by (auto simp: list_all_iff)
qed

lemma wf_object_items: "wf_json spec \<Longrightarrow> object_items spec = Some item \<Longrightarrow> wf_json item"
  by (auto simp: object_items_def json_get_def simp del: wf_json.simps
      split: json.splits sum.splits option.splits if_splits dest: wf_json_get)

text \<open>\<open>repaired_dict env d d'\<close>: the same names in the same order, each value repaired at most once.\<close>

definition repaired_dict :: "py_env \<Rightarrow> (string, json) dict \<Rightarrow> (string, json) dict \<Rightarrow> bool" where
  "repaired_dict env d d' =
     (map fst d' = map fst d \<and> (\<forall>k v. map_of d k = Some v \<longrightarrow> (\<exists>v'. map_of d' k = Some v' \<and> repaired env v v')))"

lemma repaired_dict_refl: "repaired_dict env d d"
  by (auto simp: repaired_dict_def intro: repaired.same)

lemma repaired_objI: "repaired_dict env d d' \<Longrightarrow> repaired env (JObj d) (JObj d')"
  unfolding repaired_dict_def by (rule repaired.inside_obj) auto

lemma validation_repairs:
  "validate_schema env repair spec target norms path = Inr (e, t', n') \<Longrightarrow> wf_json spec \<Longrightarrow> repaired_dict env target t'"
  "validate_props env repair ps target norms path = Inr (e, t', n') \<Longrightarrow>
     distinct (map fst ps) \<and> list_all (wf_json \<circ> snd) ps \<Longrightarrow>
     repaired_dict env target t' \<and> (\<forall>k. k \<notin> fst ` set ps \<longrightarrow> map_of t' k = map_of target k)"
  "validate_value env repair spec v norms field = Inr (e, v', n') \<Longrightarrow> wf_json spec \<Longrightarrow> repaired env v v'"
  "validate_items env repair item xs i norms field = Inr (e, xs', n') \<Longrightarrow> wf_json item \<Longrightarrow> list_all2 (repaired env) xs xs'"
proof (induction env repair spec target norms path and env repair ps target norms path
    and env repair spec v norms field and env repair item xs i norms field
    arbitrary: e t' n' and e t' n' and e v' n' and e xs' n' rule: validate_induct)
  case (1 env repair spec target norms path)
  from "1.prems"(1) show ?case
  proof (cases rule: validate_schema_cases)
    case (props ps)
    from "1.IH" [OF props(1) refl props(2,3) wf_schema_properties [OF "1.prems"(2) props(2)]] show ?thesis ..
  qed (simp add: repaired_dict_refl)
next
  case (3 env repair p ps target norms path)
  from "3.prems"(2) have wf: "distinct (map fst ps) \<and> list_all (wf_json \<circ> snd) ps" "fst p \<notin> fst ` set ps" "wf_json (snd p)"
    by (simp_all add: comp_def)
  from "3.prems"(1) show ?case
  proof (cases rule: validate_props_cases)
    case absent
    from "3.IH"(1) [OF absent wf(1)] show ?thesis by auto
  next
    case (error v v1 err)
    from "3.IH"(2) [OF error(1,2) wf(3)] error show ?thesis
      by (auto simp: repaired_dict_def keys_update_present intro: repaired.same)
  next
    case (present v v1 n1)
    from "3.IH"(2) [OF present(1,2) wf(3)] have r: "repaired env v v1" .
    from "3.IH"(3) [OF present(1,2) refl refl refl present(3) wf(1)]
    have d: "repaired_dict env (AList.update (fst p) v1 target) t'"
      and o: "\<And>k. k \<notin> fst ` set ps \<Longrightarrow> map_of t' k = map_of (AList.update (fst p) v1 target) k" by auto
    show ?thesis
      unfolding repaired_dict_def
    proof (intro conjI allI impI)
      show "map fst t' = map fst target"
        using d present(1) by (simp add: repaired_dict_def keys_update_present)
      show "\<exists>v'. map_of t' k = Some v' \<and> repaired env w v'" if "map_of target k = Some w" for k w
        using that d o [of k] wf(2) r present(1) by (cases "k = fst p") (auto simp: repaired_dict_def)
      show "map_of t' k = map_of target k" if "k \<notin> fst ` set (p # ps)" for k
        using that o [of k] by simp
    qed
  qed
next
  case (4 env repair spec v norms field)
  from "4.prems"(1) show ?case
  proof (cases rule: validate_value_cases)
    case same
    then show ?thesis by (auto intro: repaired.same)
  next
    case (coerced w how)
    then show ?thesis by (auto intro: check_scalar_repaired)
  next
    case (array item xs ys)
    with "4.IH"(1) wf_object_items [OF "4.prems"(2)] show ?thesis by (auto intro!: repaired.inside_arr)
  next
    case (object d d1)
    with "4.IH"(2) "4.prems"(2) show ?thesis by (auto intro!: repaired_objI)
  qed
next
  case (6 env repair item x xs i norms field)
  have lrefl: "list_all2 (repaired env) ys ys" for ys by (simp add: list_all2_same repaired.same)
  from "6.prems"(1) show ?case
  proof (cases rule: validate_items_cases)
    case (bad err)
    with lrefl show ?thesis by (auto simp: repaired.same)
  next
    case (error d d1 err)
    from "6.IH"(1) [OF error(1,4) "6.prems"(2)] error lrefl show ?thesis by (auto intro: repaired_objI)
  next
    case (good d d1 n1 ys)
    from "6.IH"(1) [OF good(1,3) "6.prems"(2)] "6.IH"(2) [OF good(1,3) refl refl refl good(4) "6.prems"(2)] good(1,2)
    show ?thesis by (auto intro: repaired_objI)
  qed
qed (auto simp: repaired_dict_refl)

text \<open>What the checks before the loop establish.\<close>

lemma missing_keys_none:
  "missing_keys r d = Inr [] \<Longrightarrow> json_elements r = Inr ks \<Longrightarrow> JStr k \<in> set ks \<Longrightarrow> k \<in> fst ` set d"
  by (auto simp: missing_keys_def has_key_def filter_empty_conv split: if_splits)

lemma extra_keys_none: "extra_keys (JObj ps) ks = Inr [] \<Longrightarrow> set ks \<subseteq> fst ` set ps"
  by (induction ks) (auto simp: json_contains_def split: sum.splits if_splits)

lemma check_keys_none:
  assumes "check_keys spec d path = Inr None" and "schema_properties spec = Inr ps"
  shows "required_name spec k \<Longrightarrow> k \<in> fst ` set d"
    and "json_get spec ''additionalProperties'' = Inr (Some (JBool False)) \<Longrightarrow> fst ` set d \<subseteq> fst ` set ps"
proof -
  from assms obtain r where r: "get_or spec ''properties'' (JObj []) = Inr (JObj ps)"
    "get_or spec ''required'' (JArr []) = Inr r" "missing_keys r d = Inr []"
    "json_get spec ''additionalProperties'' = Inr (Some (JBool False)) \<Longrightarrow> extra_keys (JObj ps) (map fst d) = Inr []"
    by (auto simp: check_keys_def schema_properties_def split: sum.splits if_splits json.splits)
  show "required_name spec k \<Longrightarrow> k \<in> fst ` set d"
    using r missing_keys_none by (auto simp: required_name_def)
  show "json_get spec ''additionalProperties'' = Inr (Some (JBool False)) \<Longrightarrow> fst ` set d \<subseteq> fst ` set ps"
    using r(4) extra_keys_none [of ps "map fst d"] by simp
qed

lemma keys_of_map_fst: "map fst d = map fst d' \<Longrightarrow> fst ` set d = fst ` set d'"
  by (metis list.set_map)

lemma has_type_kept:
  assumes t: "json_get spec ''type'' = Inr t"
    "t = Some (JStr ''array'') \<longrightarrow> (\<exists>xs. v = JArr xs) \<and> object_items spec = None"
    "t = Some (JStr ''object'') \<longrightarrow> (\<exists>d. v = JObj d) \<and> \<not> nested_object spec"
    "\<forall>w. t = Some (JStr w) \<longrightarrow> w \<notin> {''array'', ''object''} \<longrightarrow> check_scalar env repair w v = Some None"
  shows "has_type spec v"
proof -
  consider "\<forall>w. t \<noteq> Some (JStr w)" | "t = Some (JStr ''array'')" | "t = Some (JStr ''object'')"
    | w where "t = Some (JStr w)" "w \<notin> {''array'', ''object''}" by blast
  then show ?thesis
  proof cases
    case 1
    with t(1) show ?thesis by (rule type_other)
  next
    case 2
    with t(2) obtain xs where "v = JArr xs" "object_items spec = None" by blast
    with t(1) 2 show ?thesis by (simp add: type_array)
  next
    case 3
    with t(3) obtain d where "v = JObj d" "\<not> nested_object spec" by blast
    with t(1) 3 show ?thesis by (simp add: type_object)
  next
    case (4 w)
    with t(4) have "scalar_ok w v" using check_scalar_ok [of env repair w v None] by simp
    with 4 t(1) show ?thesis by (simp add: type_scalar)
  qed
qed

lemma validation_conforms:
  "validate_schema env repair spec target norms path = Inr (e, t', n') \<Longrightarrow> e = None \<Longrightarrow> wf_json spec \<Longrightarrow> conforms spec t'"
  "validate_props env repair ps target norms path = Inr (e, t', n') \<Longrightarrow> e = None \<Longrightarrow>
     distinct (map fst ps) \<and> list_all (wf_json \<circ> snd) ps \<Longrightarrow>
     \<forall>k s v. (k, s) \<in> set ps \<longrightarrow> map_of t' k = Some v \<longrightarrow> has_type s v"
  "validate_value env repair spec v norms field = Inr (e, v', n') \<Longrightarrow> e = None \<Longrightarrow> wf_json spec \<Longrightarrow> has_type spec v'"
  "validate_items env repair item xs i norms field = Inr (e, xs', n') \<Longrightarrow> e = None \<Longrightarrow> wf_json item \<Longrightarrow>
     \<forall>x \<in> set xs'. \<exists>d. x = JObj d \<and> conforms item d"
proof (induction env repair spec target norms path and env repair ps target norms path
    and env repair spec v norms field and env repair item xs i norms field
    arbitrary: e t' n' and e t' n' and e v' n' and e xs' n' rule: validate_induct)
  case (1 env repair spec target norms path)
  from "1.prems"(1) show ?case
  proof (cases rule: validate_schema_cases)
    case (props ps)
    note types = "1.IH" [OF props(1) refl props(2,3) "1.prems"(2) wf_schema_properties [OF "1.prems"(3) props(2)]]
    have k: "fst ` set t' = fst ` set target"
      using validation_grows(2) [OF props(3)] by (intro keys_of_map_fst) simp
    have req: "\<forall>k. required_name spec k \<longrightarrow> k \<in> fst ` set t'" using check_keys_none(1) [OF props(1,2)] k by simp
    have closed: "json_get spec ''additionalProperties'' = Inr (Some (JBool False)) \<longrightarrow> fst ` set t' \<subseteq> fst ` set ps"
      using check_keys_none(2) [OF props(1,2)] k by simp
    show ?thesis by (rule conforms_obj [OF props(2) req closed types])
  next
    case (keys err)
    with "1.prems"(2) show ?thesis by simp
  qed
next
  case (3 env repair p ps target norms path)
  from "3.prems"(3) have wf: "distinct (map fst ps) \<and> list_all (wf_json \<circ> snd) ps" "fst p \<notin> fst ` set ps" "wf_json (snd p)"
    by (simp_all add: comp_def)
  from "3.prems"(1) show ?case
  proof (cases rule: validate_props_cases)
    case absent
    have "map_of t' (fst p) = None"
      using validation_repairs(2) [OF absent(2) wf(1)] wf(2) absent(1) by simp
    with "3.IH"(1) [OF absent "3.prems"(2) wf(1)] show ?thesis by (cases p) simp
  next
    case (error v v1 err)
    with "3.prems"(2) show ?thesis by simp
  next
    case (present v v1 n1)
    have "map_of t' (fst p) = Some v1"
      using validation_repairs(2) [OF present(3) wf(1)] wf(2) by simp
    with "3.IH"(2) [OF present(1,2) refl wf(3)]
      "3.IH"(3) [OF present(1,2) refl refl refl present(3) "3.prems"(2) wf(1)]
    show ?thesis by (cases p) simp
  qed
next
  case (4 env repair spec v norms field)
  from "4.prems"(1) show ?case
  proof (cases rule: validate_value_cases)
    case same
    from mp [OF same(3) "4.prems"(2)] show ?thesis unfolding same(1) by (elim exE conjE) (rule has_type_kept)
  next
    case (coerced w how)
    with check_scalar_ok [OF coerced(3)] show ?thesis by (simp add: type_scalar)
  next
    case (array item xs ys)
    have "\<forall>x \<in> set ys. \<exists>d. x = JObj d \<and> conforms item d"
      using "4.IH"(1) array wf_object_items [OF "4.prems"(3)] "4.prems"(2) by simp
    with array show ?thesis by (simp add: type_array)
  next
    case (object d d1)
    have "conforms spec d1" using "4.IH"(2) object "4.prems"(2,3) by simp
    with object show ?thesis by (simp add: type_object)
  qed
next
  case (6 env repair item x xs i norms field)
  from "6.prems"(1) show ?case
  proof (cases rule: validate_items_cases)
    case (good d d1 n1 ys)
    from "6.IH"(1) [OF good(1,3) refl "6.prems"(3)]
      "6.IH"(2) [OF good(1,3) refl refl refl good(4) "6.prems"(2,3)] good(2)
    show ?thesis by auto
  qed (use "6.prems"(2) in simp_all)
qed simp_all

text \<open>What an executable report went through.\<close>

lemma executable_report:
  assumes "validate_tool_call env tv name args schema known = Inr rep" and "is_executable rep"
  obtains d n params d1 n1 where "parsed_arguments env tv args = (Some d, n)" "schema_params schema = Inr params"
    "unwrapped tv params d n = Inr (d1, n1)"
    "checked_against env (tv_allow_syntactic_repairs tv) params d1 n1
       = Inr (None, vr_validated_arguments rep, vr_normalizations_applied rep)"
    "vr_status rep = (if vr_normalizations_applied rep \<noteq> [] then NORMALIZED else VALID)"
    "\<forall>ks. known = Some ks \<longrightarrow> name \<in> set ks"
  using assms
  by (auto simp: validate_tool_call_def is_executable_def rejection_def split: if_splits prod.splits option.splits sum.splits)

lemma unwrap_envelope_Some: "unwrap_envelope props args ws = Inr (Some (w, d)) \<Longrightarrow> args = [(w, JObj d)] \<and> w \<in> set ws"
  by (induction ws) (auto split: list.splits json.splits if_splits sum.splits)

lemma unwrapped_cases:
  assumes "unwrapped tv params d n = Inr (d1, n1)"
  obtains "d1 = d" "n1 = n" | w where "d = [(w, JObj d1)]" "w \<in> {''parameters'', ''arguments'', ''input''}" "n1 \<noteq> []"
  using assms
  by (auto simp: unwrapped_def simp del: unwrap_envelope.simps split: option.splits if_splits sum.splits
      dest!: unwrap_envelope_Some)

lemma schema_params_wf: "schema_params (Some schema) = Inr (Some p) \<Longrightarrow> wf_json schema \<Longrightarrow> wf_json p"
  by (auto simp: schema_params_def json_get_def simp del: wf_json.simps
      split: if_splits sum.splits option.splits json.splits dest: wf_json_get)

lemma accepted_conforms:
  assumes "validate_tool_call env tv name args (Some schema) (Some known) = Inr rep" and "is_executable rep"
    and "wf_json schema"
  shows "name \<in> set known \<and>
    (\<forall>params. schema_params (Some schema) = Inr (Some params) \<longrightarrow> conforms params (vr_validated_arguments rep))"
proof -
  obtain d n params d1 n1 where p: "schema_params (Some schema) = Inr params"
    and c: "checked_against env (tv_allow_syntactic_repairs tv) params d1 n1
       = Inr (None, vr_validated_arguments rep, vr_normalizations_applied rep)" and k: "name \<in> set known"
    using executable_report [OF assms(1,2)] by metis
  have "conforms q (vr_validated_arguments rep)" if "params = Some q" for q
    using c that schema_params_wf [OF p [unfolded that] assms(3)] validation_conforms(1)
    by (auto simp: checked_against_def)
  with p k show ?thesis by auto
qed

section \<open>Properties\<close>


definition sample_env :: py_env where
  "sample_env = \<lparr>py_repr = (\<lambda>_. []), py_float = (\<lambda>_. None), py_literal_eval = (\<lambda>_. None), py_message = (\<lambda>_. [])\<rparr>"

definition sample_schema :: json where
  "sample_schema = JObj [(''type'', JStr ''object''),
     (''properties'', JObj [(''n'', JObj [(''type'', JStr ''integer'')])]), (''required'', JArr [JStr ''n''])]"

definition sample_call :: json where
  "sample_call = JObj [(''n'', JStr ''42'')]"




end
