(* ===== verification/Pools.thy ===== *)
theory Pools
  imports Prelude PyText
begin

text \<open>
  \<^verbatim>\<open>pools.py\<close>: the isolated routing pools of the first-generation plane, their cooldowns, quota
  lockouts and sticky round-robin selection, and the environment flags of \<^verbatim>\<open>_env.py\<close>.

  Every method holds the manager's lock, so a call is one step; \<open>mclk\<close> and \<open>wall\<close> are its readings
  of the monotonic and the epoch clock.  The process environment and the text of the dotfiles are
  arguments.  The route tables are data.

  Theorems: events of one pool never change the candidates of the other (\<open>pools_isolated\<close>), with
  the account lockout as the one exception (\<open>provider_lockout_crosses_pools\<close>); a selected route is
  admissible, and nothing is selected only if the relief of the oldest cooldown frees no route
  (\<open>select_route_sound\<close>).
\<close>

section \<open>Environment\<close>

definition env_flag :: "(string \<Rightarrow> string option) \<Rightarrow> string \<Rightarrow> bool" where
  "env_flag getenv name =
     (let v = (case getenv name of
                 Some x \<Rightarrow> Some x
               | None \<Rightarrow> if startswith name ''DURALLM_'' then getenv (''LLM_BREAKER_'' @ drop 8 name) else None)
      in lower (strip (case v of None \<Rightarrow> [] | Some x \<Rightarrow> x)) \<in> {''1'', ''true'', ''yes'', ''on''})"

definition default_target_keys :: "string list" where
  "default_target_keys = [''NVIDIA_API_KEY'', ''GROQ_API_KEY'', ''OPENROUTER_API_KEY'', ''SAMBANOVA_API_KEY'',
                          ''CEREBRAS_API_KEY'', ''GEMINI_API_KEY'']"

definition strip_quotes :: "string \<Rightarrow> string" where
  "strip_quotes s =
     (let q = (\<lambda>c. (of_char c :: nat) = 34 \<or> (of_char c :: nat) = 39)
      in rev (dropWhile q (rev (dropWhile q s))))"

text \<open>One line of a dotfile: the key and the value it assigns.\<close>

definition dotfile_line :: "string \<Rightarrow> (string \<times> string) option" where
  "dotfile_line raw =
     (let l0 = strip raw; l = (if startswith l0 ''export '' then strip (drop 7 l0) else l0) in
      if CHR ''='' \<in> set l \<and> \<not> startswith l ''#''
      then (let k = takeWhile (\<lambda>c. c \<noteq> CHR ''='') l; v = drop (Suc (length k)) l
            in Some (strip k, strip_quotes (strip v)))
      else None)"

definition add_dotfile_line :: "string list \<Rightarrow> (string, string) dict \<Rightarrow> string \<Rightarrow> (string, string) dict" where
  "add_dotfile_line target_keys keys raw =
     (case dotfile_line raw of
        Some (k, v) \<Rightarrow> if k \<in> set target_keys \<and> map_of keys k = None \<and> v \<noteq> [] then AList.update k v keys else keys
      | None \<Rightarrow> keys)"

text \<open>\<open>files\<close> are the lines of the candidate dotfiles that exist and can be read.\<close>

definition load_all_env_keys ::
  "(string \<Rightarrow> string option) \<Rightarrow> string list list \<Rightarrow> string list option \<Rightarrow> bool option \<Rightarrow> (string, string) dict" where
  "load_all_env_keys getenv files target_keys scan_dotfiles =
     (let scan = (case scan_dotfiles of None \<Rightarrow> env_flag getenv ''DURALLM_SCAN_DOTFILES'' | Some b \<Rightarrow> b);
          targets = (case target_keys of None \<Rightarrow> default_target_keys | Some ks \<Rightarrow> ks);
          keys = foldl (\<lambda>d k. if truthy_str (getenv k) then AList.update k (strip (the (getenv k))) d else d) [] targets
      in if \<not> scan then keys else foldl (add_dotfile_line targets) keys (concat files))"

section \<open>Routes\<close>

record route_definition =
  ro_id :: string
  ro_provider :: string
  ro_model :: string
  ro_pool :: string
  ro_base_url :: string
  ro_api_format :: string
  ro_env_key :: "string option"
  ro_env_keys :: "string list"
  ro_context_length :: int
  ro_max_output_tokens :: int
  ro_headers :: "(string, string) dict"
  ro_is_discovered :: bool

definition BROWSER_UA :: string where
  "BROWSER_UA = ''Mozilla/5.0 (Macintosh; Intel Mac OS X 10_15_7) AppleWebKit/537.36 (KHTML, like Gecko) Chrome/124.0.0.0 Safari/537.36''"

definition cloud_route ::
  "string \<Rightarrow> string \<times> string \<Rightarrow> string \<times> string \<times> string \<times> int \<times> int \<Rightarrow> route_definition" where
  "cloud_route pool prov r =
     (case prov of (base_url, env_key) \<Rightarrow> case r of (rid, provider, model, ctx, out) \<Rightarrow>
        \<lparr>ro_id = rid, ro_provider = provider, ro_model = model, ro_pool = pool, ro_base_url = base_url,
         ro_api_format = ''openai'', ro_env_key = Some env_key, ro_env_keys = [], ro_context_length = ctx,
         ro_max_output_tokens = out, ro_headers = [(''User-Agent'', BROWSER_UA)], ro_is_discovered = False\<rparr>)"

definition GROQ :: "string \<times> string" where
  "GROQ = (''https://api.groq.com/openai/v1'', ''GROQ_API_KEY'')"

definition SAMBANOVA :: "string \<times> string" where
  "SAMBANOVA = (''https://api.sambanova.ai/v1'', ''SAMBANOVA_API_KEY'')"

definition CEREBRAS :: "string \<times> string" where
  "CEREBRAS = (''https://api.cerebras.ai/v1'', ''CEREBRAS_API_KEY'')"

definition NVIDIA :: "string \<times> string" where
  "NVIDIA = (''https://integrate.api.nvidia.com/v1'', ''NVIDIA_API_KEY'')"

definition OPENROUTER :: "string \<times> string" where
  "OPENROUTER = (''https://openrouter.ai/api/v1'', ''OPENROUTER_API_KEY'')"

definition DEFAULT_CODING_ROUTES :: "route_definition list" where
  "DEFAULT_CODING_ROUTES =
     [cloud_route ''coding'' GROQ (''groq-qwen36-coding'', ''groq'', ''qwen/qwen3.6-27b'', 7000, 950),
      cloud_route ''coding'' GROQ (''groq-gpt-oss-coding'', ''groq'', ''openai/gpt-oss-120b'', 7500, 950),
      cloud_route ''coding'' GROQ (''groq-gpt-oss-20b-coding'', ''groq'', ''openai/gpt-oss-20b'', 7500, 950),
      cloud_route ''coding'' GROQ (''groq-llama33-coding'', ''groq'', ''llama-3.3-70b-versatile'', 131072, 8192),
      cloud_route ''coding'' SAMBANOVA
        (''sambanova-qwen25-coding'', ''sambanova'', ''Qwen2.5-Coder-32B-Instruct'', 65536, 4096),
      cloud_route ''coding'' SAMBANOVA
        (''sambanova-llama33-coding'', ''sambanova'', ''Meta-Llama-3.3-70B-Instruct'', 65536, 4096),
      cloud_route ''coding'' CEREBRAS (''cerebras-llama33-coding'', ''cerebras'', ''llama-3.3-70b'', 65536, 4096),
      cloud_route ''coding'' NVIDIA (''nvidia-llama33-coding'', ''nvidia'', ''meta/llama-3.3-70b-instruct'', 131072, 4096),
      cloud_route ''coding'' NVIDIA (''nvidia-gemma4-coding'', ''nvidia'', ''google/gemma-4-31b-it'', 131072, 8192),
      cloud_route ''coding'' NVIDIA
        (''nvidia-nemotron-coding'', ''nvidia'', ''nvidia/nemotron-3-ultra-550b-a55b'', 131072, 8192),
      cloud_route ''coding'' OPENROUTER
        (''openrouter-qwen25-coding'', ''openrouter'', ''qwen/qwen-2.5-coder-32b-instruct:free'', 32768, 4096),
      cloud_route ''coding'' OPENROUTER
        (''openrouter-gemma4-coding'', ''openrouter'', ''google/gemma-4-31b-it:free'', 262144, 8192),
      cloud_route ''coding'' OPENROUTER
        (''openrouter-north-mini-coding'', ''openrouter'', ''cohere/north-mini-code:free'', 256000, 8192),
      cloud_route ''coding'' OPENROUTER
        (''openrouter-nemotron-coding'', ''openrouter'', ''nvidia/nemotron-3-super-120b-a12b:free'', 262144, 8192),
      cloud_route ''coding'' OPENROUTER (''openrouter-free-coding'', ''openrouter'', ''openrouter/free'', 200000, 8192)]"

definition DEFAULT_AGENT_ROUTES :: "route_definition list" where
  "DEFAULT_AGENT_ROUTES =
     [cloud_route ''general_agent'' NVIDIA
        (''nvidia-llama32-agent'', ''nvidia'', ''meta/llama-3.2-11b-vision-instruct'', 131072, 4096),
      cloud_route ''general_agent'' GROQ (''groq-llama31-agent'', ''groq'', ''llama-3.1-8b-instant'', 131072, 4096),
      cloud_route ''general_agent'' CEREBRAS (''cerebras-llama31-agent'', ''cerebras'', ''llama3.1-8b'', 65536, 4096),
      cloud_route ''general_agent'' SAMBANOVA
        (''sambanova-llama33-agent'', ''sambanova'', ''Meta-Llama-3.3-70B-Instruct'', 65536, 4096),
      cloud_route ''general_agent'' OPENROUTER
        (''openrouter-nemotron-agent'', ''openrouter'', ''nvidia/nemotron-3-ultra-550b-a55b:free'', 131072, 4096)]"

section \<open>The pool manager\<close>

record pool_manager =
  pm_allowed_providers :: "string list option"
  pm_keys :: "(string, string) dict"
  pm_coding_routes :: "route_definition list"
  pm_agent_routes :: "route_definition list"
  pm_coding_index :: nat
  pm_agent_index :: nat
  pm_cooldowns :: "(string \<times> string, time) dict"
  pm_deprecated :: "(string \<times> string) list"
  pm_exhausted_quotas :: "(string \<times> string, time) dict"
  pm_account_lockouts :: "(string, time) dict"
  pm_last_success :: "(string, string) dict"
  pm_last_success_at :: "(string, time) dict"

definition new_pool_manager :: "string list option \<Rightarrow> (string, string) dict \<Rightarrow> pool_manager" where
  "new_pool_manager allowed keys =
     \<lparr>pm_allowed_providers = (case allowed of None \<Rightarrow> None | Some ps \<Rightarrow> if ps = [] then None else Some (map lower ps)),
      pm_keys = keys, pm_coding_routes = DEFAULT_CODING_ROUTES, pm_agent_routes = DEFAULT_AGENT_ROUTES,
      pm_coding_index = 0, pm_agent_index = 0, pm_cooldowns = [], pm_deprecated = [], pm_exhausted_quotas = [],
      pm_account_lockouts = [], pm_last_success = [], pm_last_success_at = []\<rparr>"

definition STICKY_AFFINITY_SECONDS :: time where
  "STICKY_AFFINITY_SECONDS = 120"

definition refresh_keys :: "(string, string) dict \<Rightarrow> pool_manager \<Rightarrow> pool_manager" where
  "refresh_keys keys m = m\<lparr>pm_keys := keys\<rparr>"

definition pool_routes :: "string \<Rightarrow> pool_manager \<Rightarrow> route_definition list" where
  "pool_routes pool m = (if pool = ''coding'' then pm_coding_routes m else pm_agent_routes m)"

definition pool_key :: "string \<Rightarrow> string \<Rightarrow> string \<times> string" where
  "pool_key pool route_id = (lower pool, lower route_id)"

definition mark_cooldown :: "time \<Rightarrow> string \<Rightarrow> string \<Rightarrow> time \<Rightarrow> pool_manager \<Rightarrow> pool_manager" where
  "mark_cooldown mclk pool route_id seconds m =
     m\<lparr>pm_cooldowns := AList.update (pool_key pool route_id) (mclk + seconds) (pm_cooldowns m)\<rparr>"

definition mark_quota_exhausted :: "time \<Rightarrow> string \<Rightarrow> string \<Rightarrow> time \<Rightarrow> pool_manager \<Rightarrow> pool_manager" where
  "mark_quota_exhausted wall pool route_id seconds m =
     m\<lparr>pm_exhausted_quotas := AList.update (pool_key pool route_id) (wall + seconds) (pm_exhausted_quotas m)\<rparr>"

definition mark_provider_quota_exhausted :: "time \<Rightarrow> string \<Rightarrow> string \<Rightarrow> time \<Rightarrow> pool_manager \<Rightarrow> pool_manager" where
  "mark_provider_quota_exhausted wall pool provider seconds m =
     m\<lparr>pm_account_lockouts := AList.update (lower provider) (wall + seconds) (pm_account_lockouts m),
       pm_exhausted_quotas := foldl (\<lambda>d r. if lower (ro_provider r) = lower provider
           then AList.update (pool_key pool (ro_id r)) (wall + seconds) d else d)
         (pm_exhausted_quotas m) (pool_routes pool m)\<rparr>"

definition clear_cooldown :: "string \<Rightarrow> string option \<Rightarrow> pool_manager \<Rightarrow> pool_manager" where
  "clear_cooldown route_id pool m =
     m\<lparr>pm_cooldowns := filter (\<lambda>(k, _). \<not> (snd k = lower route_id \<and> (case pool of None \<Rightarrow> True | Some p \<Rightarrow> fst k = lower p)))
         (pm_cooldowns m)\<rparr>"

definition is_route_in_cooldown :: "time \<Rightarrow> string \<Rightarrow> string \<Rightarrow> pool_manager \<Rightarrow> bool" where
  "is_route_in_cooldown mclk pool route_id m = (mclk < dict_get (pm_cooldowns m) (pool_key pool route_id) 0)"

definition is_provider_in_cooldown :: "time \<Rightarrow> string \<Rightarrow> string \<Rightarrow> pool_manager \<Rightarrow> bool" where
  "is_provider_in_cooldown mclk pool provider m =
     list_ex (\<lambda>r. lower (ro_provider r) = lower provider \<and> is_route_in_cooldown mclk pool (ro_id r) m) (pool_routes pool m)"

definition is_provider_quota_exhausted :: "time \<Rightarrow> string \<Rightarrow> pool_manager \<Rightarrow> bool" where
  "is_provider_quota_exhausted wall provider m = (wall < dict_get (pm_account_lockouts m) (lower provider) 0)"

definition is_route_quota_exhausted :: "time \<Rightarrow> string \<Rightarrow> string \<Rightarrow> string option \<Rightarrow> pool_manager \<Rightarrow> bool" where
  "is_route_quota_exhausted wall pool route_id provider m =
     (truthy_str provider \<and> is_provider_quota_exhausted wall (the provider) m
      \<or> wall < dict_get (pm_exhausted_quotas m) (pool_key pool route_id) 0)"

definition auto_expire_cooldowns :: "time \<Rightarrow> time \<Rightarrow> string option \<Rightarrow> pool_manager \<Rightarrow> pool_manager" where
  "auto_expire_cooldowns mclk wall pool m =
     (let mine = (\<lambda>k :: string \<times> string. case pool of None \<Rightarrow> True | Some p \<Rightarrow> fst k = lower p) in
      m\<lparr>pm_cooldowns := filter (\<lambda>(k, e). \<not> (mine k \<and> e \<le> mclk)) (pm_cooldowns m),
        pm_exhausted_quotas := filter (\<lambda>(k, e). \<not> (mine k \<and> e \<le> wall)) (pm_exhausted_quotas m),
        pm_account_lockouts := filter (\<lambda>(_, e). \<not> e \<le> wall) (pm_account_lockouts m)\<rparr>)"

definition mark_deprecated :: "string \<Rightarrow> string \<Rightarrow> pool_manager \<Rightarrow> pool_manager" where
  "mark_deprecated pool model m = m\<lparr>pm_deprecated := List.insert (pool_key pool model) (pm_deprecated m)\<rparr>"

definition has_key_for :: "route_definition \<Rightarrow> pool_manager \<Rightarrow> bool" where
  "has_key_for r m = (truthy_str (ro_env_key r) \<longrightarrow> strip (dict_get (pm_keys m) (the (ro_env_key r)) []) \<noteq> [])"

text \<open>The conditions of the loop of \<open>get_candidate_routes\<close>, without the cooldown and with it.\<close>

definition route_enabled :: "time \<Rightarrow> string \<Rightarrow> pool_manager \<Rightarrow> route_definition \<Rightarrow> bool" where
  "route_enabled wall pool m r =
     ((case pm_allowed_providers m of None \<Rightarrow> True | Some ps \<Rightarrow> lower (ro_provider r) \<in> set ps)
      \<and> has_key_for r m
      \<and> pool_key pool (ro_model r) \<notin> set (pm_deprecated m)
      \<and> \<not> is_route_quota_exhausted wall pool (ro_id r) (Some (ro_provider r)) m)"

definition route_candidate :: "time \<Rightarrow> time \<Rightarrow> string \<Rightarrow> pool_manager \<Rightarrow> route_definition \<Rightarrow> bool" where
  "route_candidate mclk wall pool m r = (route_enabled wall pool m r \<and> \<not> is_route_in_cooldown mclk pool (ro_id r) m)"

definition get_candidate_routes ::
  "time \<Rightarrow> time \<Rightarrow> string \<Rightarrow> pool_manager \<Rightarrow> route_definition list \<times> pool_manager" where
  "get_candidate_routes mclk wall pool m =
     (let m' = auto_expire_cooldowns mclk wall (Some pool) m
      in (filter (route_candidate mclk wall pool m') (pool_routes pool m'), m'))"

definition record_route_success :: "time \<Rightarrow> string \<Rightarrow> string \<Rightarrow> pool_manager \<Rightarrow> pool_manager" where
  "record_route_success mclk pool route_id m =
     m\<lparr>pm_last_success := AList.update (lower pool) (lower route_id) (pm_last_success m),
       pm_last_success_at := AList.update (lower pool) mclk (pm_last_success_at m)\<rparr>"

text \<open>\<open>min(keys, key=...)\<close>: the first key of least expiry.\<close>

fun oldest_key :: "(string \<times> string, time) dict \<Rightarrow> (string \<times> string) option" where
  "oldest_key [] = None"
| "oldest_key ((k, e) # d) =
     (case oldest_key d of None \<Rightarrow> Some k | Some k' \<Rightarrow> if dict_get d k' 0 < e then Some k' else Some k)"

definition relieve_oldest :: "string \<Rightarrow> pool_manager \<Rightarrow> pool_manager" where
  "relieve_oldest pool m =
     (case oldest_key (filter (\<lambda>(k, _). fst k = lower pool) (pm_cooldowns m)) of
        None \<Rightarrow> m | Some k \<Rightarrow> m\<lparr>pm_cooldowns := AList.delete k (pm_cooldowns m)\<rparr>)"

definition sticky_route :: "time \<Rightarrow> string \<Rightarrow> route_definition list \<Rightarrow> pool_manager \<Rightarrow> route_definition option" where
  "sticky_route mclk pool candidates m =
     (case map_of (pm_last_success m) (lower pool) of
        None \<Rightarrow> None
      | Some last_id \<Rightarrow>
          if last_id \<noteq> [] \<and> mclk - dict_get (pm_last_success_at m) (lower pool) 0 < STICKY_AFFINITY_SECONDS
          then find (\<lambda>r. lower (ro_id r) = last_id) candidates else None)"

definition round_robin :: "string \<Rightarrow> route_definition list \<Rightarrow> pool_manager \<Rightarrow> route_definition \<times> pool_manager" where
  "round_robin pool candidates m =
     (let n = length candidates; i = (if pool = ''coding'' then pm_coding_index m else pm_agent_index m) mod n in
      (candidates ! i,
       if pool = ''coding'' then m\<lparr>pm_coding_index := (pm_coding_index m + 1) mod n\<rparr>
       else m\<lparr>pm_agent_index := (pm_agent_index m + 1) mod n\<rparr>))"

definition candidates_with_relief ::
  "time \<Rightarrow> time \<Rightarrow> string \<Rightarrow> pool_manager \<Rightarrow> route_definition list \<times> pool_manager" where
  "candidates_with_relief mclk wall pool m =
     (case get_candidate_routes mclk wall pool m of
        (cs, m1) \<Rightarrow>
          if cs = [] \<and> filter (\<lambda>(k, _). fst k = lower pool) (pm_cooldowns m1) \<noteq> []
          then get_candidate_routes mclk wall pool (relieve_oldest pool m1) else (cs, m1))"

definition select_route ::
  "time \<Rightarrow> time \<Rightarrow> string \<Rightarrow> pool_manager \<Rightarrow> route_definition option \<times> pool_manager" where
  "select_route mclk wall pool m =
     (case candidates_with_relief mclk wall pool m of
        (cs, m1) \<Rightarrow>
          if cs = [] then (None, m1)
          else case sticky_route mclk pool cs m1 of
            Some r \<Rightarrow> (Some r, m1)
          | None \<Rightarrow> (case round_robin pool cs m1 of (r, m2) \<Rightarrow> (Some r, m2)))"

definition add_discovered_route :: "string \<Rightarrow> route_definition \<Rightarrow> pool_manager \<Rightarrow> pool_manager" where
  "add_discovered_route pool route m =
     (if ro_id route \<in> set (map ro_id (pool_routes pool m)) then m
      else if pool = ''coding'' then m\<lparr>pm_coding_routes := pm_coding_routes m @ [route]\<rparr>
      else m\<lparr>pm_agent_routes := pm_agent_routes m @ [route]\<rparr>)"

text \<open>One model entry of the quirks ledger: its fields with the defaults already applied.\<close>

record quirk_entry =
  qk_provider :: string
  qk_model :: string
  qk_status :: string
  qk_pool :: string
  qk_base_url :: string
  qk_auth_env :: string
  qk_context_window :: int
  qk_max_output_tokens :: int

definition quirk_route :: "quirk_entry \<Rightarrow> route_definition" where
  "quirk_route q =
     \<lparr>ro_id = qk_provider q @ ''-ledger-'' @ map (\<lambda>c. if c = CHR ''/'' then CHR ''-'' else c) (qk_model q),
      ro_provider = qk_provider q, ro_model = qk_model q, ro_pool = qk_pool q, ro_base_url = qk_base_url q,
      ro_api_format = ''openai'', ro_env_key = Some (qk_auth_env q), ro_env_keys = [],
      ro_context_length = qk_context_window q, ro_max_output_tokens = qk_max_output_tokens q,
      ro_headers = [], ro_is_discovered = True\<rparr>"

definition apply_quirk :: "pool_manager \<Rightarrow> quirk_entry \<Rightarrow> pool_manager" where
  "apply_quirk m q =
     (if qk_status q = ''deprecated'' then mark_deprecated (qk_pool q) (qk_model q) m
      else if qk_status q = ''active'' then add_discovered_route (qk_pool q) (quirk_route q) m
      else m)"

definition load_from_quirks_ledger :: "quirk_entry list \<Rightarrow> pool_manager \<Rightarrow> pool_manager" where
  "load_from_quirks_ledger entries m = foldl apply_quirk m entries"

section \<open>Calls on a pool\<close>

datatype pool_call =
    Cooldown time string string time
  | Quota time string string time
  | Deprecate string string
  | Success time string string
  | Select time time string
  | Candidates time time string
  | Clear string string
  | Discover string route_definition

fun call_pool :: "pool_call \<Rightarrow> string" where
  "call_pool (Cooldown mclk pool route seconds) = pool"
| "call_pool (Quota wall pool route seconds) = pool"
| "call_pool (Deprecate pool model) = pool"
| "call_pool (Success mclk pool route) = pool"
| "call_pool (Select mclk wall pool) = pool"
| "call_pool (Candidates mclk wall pool) = pool"
| "call_pool (Clear route pool) = pool"
| "call_pool (Discover pool route) = pool"

text \<open>The epoch clock of the calls that purge expired account lockouts.\<close>

fun call_wall :: "pool_call \<Rightarrow> time option" where
  "call_wall (Select mclk wall pool) = Some wall"
| "call_wall (Candidates mclk wall pool) = Some wall"
| "call_wall c = None"

fun pool_step :: "pool_manager \<Rightarrow> pool_call \<Rightarrow> pool_manager" where
  "pool_step m (Cooldown mclk pool route seconds) = mark_cooldown mclk pool route seconds m"
| "pool_step m (Quota wall pool route seconds) = mark_quota_exhausted wall pool route seconds m"
| "pool_step m (Deprecate pool model) = mark_deprecated pool model m"
| "pool_step m (Success mclk pool route) = record_route_success mclk pool route m"
| "pool_step m (Select mclk wall pool) = snd (select_route mclk wall pool m)"
| "pool_step m (Candidates mclk wall pool) = snd (get_candidate_routes mclk wall pool m)"
| "pool_step m (Clear route pool) = clear_cooldown route (Some pool) m"
| "pool_step m (Discover pool route) = add_discovered_route pool route m"

section \<open>Isolation\<close>

definition of_pool :: "string \<Rightarrow> (string \<times> string, 'v) dict \<Rightarrow> (string \<times> string, 'v) dict" where
  "of_pool q d = filter (\<lambda>(k, _). fst k = lower q) d"

lemma of_pool_get: "fst k = lower q \<Longrightarrow> map_of (of_pool q d) k = map_of d k"
  by (induction d) (auto simp: of_pool_def)

lemma of_pool_dict_get: "of_pool q d' = of_pool q d \<Longrightarrow> dict_get d' (lower q, i) v = dict_get d (lower q, i) v"
  using of_pool_get [of "(lower q, i)" q d] of_pool_get [of "(lower q, i)" q d'] by (simp add: dict_get_def)

lemma of_pool_update: "fst k \<noteq> lower q \<Longrightarrow> of_pool q (AList.update k v d) = of_pool q d"
  by (induction d) (auto simp: of_pool_def)

lemma of_pool_filter: "of_pool q (filter P d) = filter P (of_pool q d)"
  by (simp add: of_pool_def conj_commute)

lemma of_pool_filter_other: "(\<And>k v. fst k = lower q \<Longrightarrow> P (k, v)) \<Longrightarrow> of_pool q (filter P d) = of_pool q d"
  by (auto simp: of_pool_def intro: filter_cong)

lemma of_pool_delete: "fst k \<noteq> lower q \<Longrightarrow> of_pool q (AList.delete k d) = of_pool q d"
  by (auto simp: of_pool_def AList.delete_eq intro: filter_cong)

lemma of_pool_delete_same: "of_pool q (AList.delete k d) = AList.delete k (of_pool q d)"
  by (auto simp: of_pool_def AList.delete_eq conj_commute)

text \<open>What the calls of pool \<open>q\<close> at epoch times from \<open>wall\<close> on can see of a manager.\<close>

definition same_view :: "time \<Rightarrow> string \<Rightarrow> pool_manager \<Rightarrow> pool_manager \<Rightarrow> bool" where
  "same_view wall q m m' =
     (pm_allowed_providers m' = pm_allowed_providers m \<and> pm_keys m' = pm_keys m
      \<and> pool_routes q m' = pool_routes q m
      \<and> (if q = ''coding'' then pm_coding_index m' = pm_coding_index m else pm_agent_index m' = pm_agent_index m)
      \<and> of_pool q (pm_cooldowns m') = of_pool q (pm_cooldowns m)
      \<and> of_pool q (pm_exhausted_quotas m') = of_pool q (pm_exhausted_quotas m)
      \<and> (\<forall>x. pool_key q x \<in> set (pm_deprecated m') \<longleftrightarrow> pool_key q x \<in> set (pm_deprecated m))
      \<and> (\<forall>x t. wall \<le> t \<longrightarrow> (t < dict_get (pm_account_lockouts m') x 0 \<longleftrightarrow> t < dict_get (pm_account_lockouts m) x 0))
      \<and> map_of (pm_last_success m') (lower q) = map_of (pm_last_success m) (lower q)
      \<and> dict_get (pm_last_success_at m') (lower q) 0 = dict_get (pm_last_success_at m) (lower q) 0)"

lemma same_view_refl: "same_view wall q m m"
  by (simp add: same_view_def)

lemma same_view_trans: "same_view wall q m m' \<Longrightarrow> same_view wall q m' m'' \<Longrightarrow> same_view wall q m m''"
  by (auto simp: same_view_def split: if_splits)

text \<open>Account lockouts are keyed once, and lie in the future of the epoch.\<close>

definition pool_wf :: "pool_manager \<Rightarrow> bool" where
  "pool_wf m = distinct (map fst (pm_account_lockouts m))"

lemma lockout_purge:
  assumes "distinct (map fst d)" and "w \<le> t" and "0 \<le> t"
  shows "t < dict_get (filter (\<lambda>(_, e). \<not> e \<le> w) d) x 0 \<longleftrightarrow> t < dict_get d x (0 :: rat)"
  using assms by (auto simp: dict_get_def map_of_filter_distinct split: option.splits)

definition apart :: "string \<Rightarrow> string \<Rightarrow> bool" where
  "apart p q = (lower p \<noteq> lower q \<and> (p = ''coding'') \<noteq> (q = ''coding''))"

lemma expire_view:
  assumes "apart p q" and "pool_wf m" and "w \<le> wall" and "0 \<le> wall"
  shows "same_view wall q m (auto_expire_cooldowns t w (Some p) m)"
proof -
  have "of_pool q (filter (\<lambda>(k, e). \<not> (fst k = lower p \<and> P e)) d) = of_pool q d" for P and d :: "(string \<times> string, time) dict"
    using assms(1) by (intro of_pool_filter_other) (auto simp: apart_def)
  moreover have "u < dict_get (filter (\<lambda>(_, e). \<not> e \<le> w) (pm_account_lockouts m)) x 0
      \<longleftrightarrow> u < dict_get (pm_account_lockouts m) x 0" if "wall \<le> u" for u x
    using assms(2-4) that by (intro lockout_purge) (auto simp: pool_wf_def)
  ultimately show ?thesis
    by (simp add: same_view_def auto_expire_cooldowns_def Let_def pool_routes_def)
qed

lemma relieve_view: "apart p q \<Longrightarrow> same_view wall q m (relieve_oldest p m)"
proof -
  assume a: "apart p q"
  have k: "oldest_key d = Some k \<Longrightarrow> k \<in> fst ` set d" for d k
    by (induction d arbitrary: k rule: oldest_key.induct) (auto split: option.splits if_splits)
  show ?thesis
    unfolding relieve_oldest_def using a
    by (auto simp: same_view_def apart_def pool_routes_def split: option.split dest!: k intro!: of_pool_delete)
qed

lemma round_robin_view: "apart p q \<Longrightarrow> same_view wall q m (snd (round_robin p cs m))"
  by (auto simp: round_robin_def Let_def same_view_def apart_def pool_routes_def)

lemma candidates_view:
  "apart p q \<Longrightarrow> pool_wf m \<Longrightarrow> w \<le> wall \<Longrightarrow> 0 \<le> wall \<Longrightarrow>
   same_view wall q m (snd (get_candidate_routes t w p m)) \<and> pool_wf (snd (get_candidate_routes t w p m))"
  using expire_view
  by (auto simp: get_candidate_routes_def Let_def pool_wf_def auto_expire_cooldowns_def)

lemma wf_relieve: "pool_wf (relieve_oldest p m) = pool_wf m"
  by (simp add: pool_wf_def relieve_oldest_def split: option.split)

lemma relief_view:
  assumes "apart p q" and "pool_wf m" and "w \<le> wall" and "0 \<le> wall"
  shows "same_view wall q m (snd (candidates_with_relief t w p m)) \<and> pool_wf (snd (candidates_with_relief t w p m))"
proof -
  obtain cs m1 where m1: "get_candidate_routes t w p m = (cs, m1)" by fastforce
  have v1: "same_view wall q m m1" "pool_wf m1" using candidates_view [OF assms, of t] m1 by auto
  have "same_view wall q m1 (snd (get_candidate_routes t w p (relieve_oldest p m1)))
      \<and> pool_wf (snd (get_candidate_routes t w p (relieve_oldest p m1)))"
    using candidates_view [OF assms(1) _ assms(3,4)] v1(2) relieve_view [OF assms(1)]
    by (meson same_view_trans wf_relieve)
  with v1 m1 show ?thesis by (auto simp: candidates_with_relief_def intro: same_view_trans)
qed

lemma select_view:
  assumes "apart p q" and "pool_wf m" and "w \<le> wall" and "0 \<le> wall"
  shows "same_view wall q m (snd (select_route t w p m)) \<and> pool_wf (snd (select_route t w p m))"
proof -
  obtain cs m1 where m1: "candidates_with_relief t w p m = (cs, m1)" by fastforce
  have v: "same_view wall q m m1" "pool_wf m1" using relief_view [OF assms, of t] m1 by auto
  moreover have "pool_wf (snd (round_robin p cs m1))" using v(2) by (simp add: pool_wf_def round_robin_def Let_def)
  ultimately show ?thesis
    using round_robin_view [OF assms(1), of wall m1 cs]
    by (auto simp: select_route_def m1 split: option.split prod.split intro: same_view_trans)
qed

definition call_ok :: "time \<Rightarrow> string \<Rightarrow> pool_call \<Rightarrow> bool" where
  "call_ok wall q c = (apart (call_pool c) q \<and> (case call_wall c of None \<Rightarrow> True | Some w \<Rightarrow> w \<le> wall))"

lemma pool_step_view:
  assumes "pool_wf m" and "0 \<le> wall" and "call_ok wall q c"
  shows "same_view wall q m (pool_step m c) \<and> pool_wf (pool_step m c)"
proof (cases c)
  case (Select t w p)
  with assms have "apart p q" "w \<le> wall" by (simp_all add: call_ok_def)
  from select_view [OF this(1) assms(1) this(2) assms(2)] Select show ?thesis by simp
next
  case (Candidates t w p)
  with assms have "apart p q" "w \<le> wall" by (simp_all add: call_ok_def)
  from candidates_view [OF this(1) assms(1) this(2) assms(2)] Candidates show ?thesis by simp
next
  case (Clear r p)
  have "of_pool q (filter (\<lambda>(k, _). \<not> (snd k = lower r \<and> fst k = lower p)) d) = of_pool q d"
    for d :: "(string \<times> string, time) dict"
    using assms(3) Clear by (intro of_pool_filter_other) (auto simp: call_ok_def apart_def)
  with Clear assms show ?thesis
    by (simp add: same_view_def clear_cooldown_def pool_routes_def pool_wf_def)
qed (use assms in \<open>auto simp: call_ok_def apart_def same_view_def pool_wf_def pool_routes_def mark_cooldown_def pool_key_def
      mark_quota_exhausted_def mark_deprecated_def record_route_success_def add_discovered_route_def of_pool_update\<close>)

text \<open>The manager reached from \<open>m\<close> always shows pool \<open>q\<close> the same.\<close>

interpretation foreign: step_system pool_step "call_ok wall q" "\<lambda>m'. 0 \<le> wall \<longrightarrow> pool_wf m' \<and> same_view wall q m m'"
  for wall q m
  by unfold_locales (use pool_step_view same_view_trans in blast)

text \<open>Selection on \<open>q\<close> depends on that view only.\<close>

lemma oldest_cong: "of_pool q d' = of_pool q d \<Longrightarrow>
  oldest_key (filter (\<lambda>(k, _). fst k = lower q) d') = oldest_key (filter (\<lambda>(k, _). fst k = lower q) d)"
  by (simp add: of_pool_def)

lemma cooldown_cong: "of_pool q (pm_cooldowns m') = of_pool q (pm_cooldowns m) \<Longrightarrow>
  is_route_in_cooldown t q i m' = is_route_in_cooldown t q i m"
  by (simp add: is_route_in_cooldown_def pool_key_def of_pool_dict_get [of q "pm_cooldowns m'" "pm_cooldowns m"])

lemma enabled_cong: "same_view wall q m m' \<Longrightarrow> wall \<le> t \<Longrightarrow> route_enabled t q m' r = route_enabled t q m r"
  by (simp add: route_enabled_def same_view_def has_key_for_def is_route_quota_exhausted_def is_provider_quota_exhausted_def
      pool_key_def of_pool_dict_get [of q "pm_exhausted_quotas m'" "pm_exhausted_quotas m"])

lemma expire_cong:
  assumes "same_view wall q m m'" and "pool_wf m" and "pool_wf m'" and "0 \<le> wall" and "wall \<le> w"
  shows "same_view w q (auto_expire_cooldowns t w (Some q) m) (auto_expire_cooldowns t w (Some q) m')"
proof -
  have "u < dict_get (filter (\<lambda>(_, e). \<not> e \<le> w) (pm_account_lockouts m')) x 0
      \<longleftrightarrow> u < dict_get (filter (\<lambda>(_, e). \<not> e \<le> w) (pm_account_lockouts m)) x 0" if "w \<le> u" for u x
  proof -
    have "0 \<le> u" "wall \<le> u" using assms that by auto
    with assms that show ?thesis by (simp add: lockout_purge pool_wf_def same_view_def)
  qed
  with assms(1) show ?thesis
    by (cases "q = ''coding''")
      (simp_all add: same_view_def auto_expire_cooldowns_def Let_def pool_routes_def of_pool_filter)
qed

lemma wf_candidates: "pool_wf m \<Longrightarrow> pool_wf (snd (get_candidate_routes t w p m))"
  by (auto simp: get_candidate_routes_def Let_def pool_wf_def auto_expire_cooldowns_def)

lemma same_view_parts:
  assumes "same_view wall q m m'"
  shows "pool_routes q m' = pool_routes q m" and "of_pool q (pm_cooldowns m') = of_pool q (pm_cooldowns m)"
  using assms by (simp_all add: same_view_def)

lemma candidates_cong:
  assumes "same_view wall q m m'" and "pool_wf m" and "pool_wf m'" and "0 \<le> wall" and "wall \<le> w"
  shows "fst (get_candidate_routes t w q m') = fst (get_candidate_routes t w q m)"
    and "same_view w q (snd (get_candidate_routes t w q m)) (snd (get_candidate_routes t w q m'))"
    and "pool_wf (snd (get_candidate_routes t w q m))"
proof -
  define n n' where n: "n = auto_expire_cooldowns t w (Some q) m" "n' = auto_expire_cooldowns t w (Some q) m'"
  have v: "same_view w q n n'" unfolding n by (rule expire_cong [OF assms])
  have "route_candidate t w q n' = route_candidate t w q n"
    by (rule ext)
      (simp only: route_candidate_def enabled_cong [OF v order_refl] cooldown_cong [OF same_view_parts(2) [OF v]])
  then show "fst (get_candidate_routes t w q m') = fst (get_candidate_routes t w q m)"
    by (simp add: get_candidate_routes_def Let_def n [symmetric] same_view_parts(1) [OF v])
  show "same_view w q (snd (get_candidate_routes t w q m)) (snd (get_candidate_routes t w q m'))"
    using v by (simp add: get_candidate_routes_def Let_def n)
  show "pool_wf (snd (get_candidate_routes t w q m))" using assms(2) by (rule wf_candidates)
qed

lemma relieve_cong: "same_view w q m m' \<Longrightarrow> same_view w q (relieve_oldest q m) (relieve_oldest q m')"
  using oldest_cong [of q "pm_cooldowns m'" "pm_cooldowns m"]
  by (auto simp: relieve_oldest_def same_view_def pool_routes_def of_pool_delete_same split: option.split)

lemma relief_cong:
  assumes "same_view wall q m m'" and "pool_wf m" and "pool_wf m'" and "0 \<le> wall" and "wall \<le> w"
  shows "fst (candidates_with_relief t w q m') = fst (candidates_with_relief t w q m)"
    and "same_view w q (snd (candidates_with_relief t w q m)) (snd (candidates_with_relief t w q m'))"
proof -
  obtain cs m1 where m1: "get_candidate_routes t w q m = (cs, m1)" by fastforce
  obtain cs' m1' where m1': "get_candidate_routes t w q m' = (cs', m1')" by fastforce
  note c = candidates_cong [OF assms, of t, unfolded m1 m1' fst_conv snd_conv]
  have wf': "pool_wf m1'" using wf_candidates [OF assms(3), of t w q] m1' by simp
  have e: "(filter (\<lambda>(k, _). fst k = lower q) (pm_cooldowns m1') = []) = (filter (\<lambda>(k, _). fst k = lower q) (pm_cooldowns m1) = [])"
    using c(2) by (simp add: same_view_def of_pool_def)
  have w0: "0 \<le> w" using assms(4,5) by simp
  have wf: "pool_wf (relieve_oldest q m1)" "pool_wf (relieve_oldest q m1')" using c(3) wf' by (simp_all add: wf_relieve)
  note r = candidates_cong [OF relieve_cong [OF c(2)] wf w0 order_refl]
  let ?B = "cs = [] \<and> filter (\<lambda>(k, _). fst k = lower q) (pm_cooldowns m1) \<noteq> []"
  show "fst (candidates_with_relief t w q m') = fst (candidates_with_relief t w q m)"
    unfolding candidates_with_relief_def m1 m1' prod.case e c(1)
    by (cases ?B) (simp_all only: if_True if_False r(1) simp_thms fst_conv)
  show "same_view w q (snd (candidates_with_relief t w q m)) (snd (candidates_with_relief t w q m'))"
    unfolding candidates_with_relief_def m1 m1' prod.case e c(1)
    by (cases ?B) (simp_all only: if_True if_False r(2) c(2) simp_thms snd_conv)
qed

lemma select_cong:
  assumes "same_view wall q m m'" and "pool_wf m" and "pool_wf m'" and "0 \<le> wall" and "wall \<le> w"
  shows "fst (select_route t w q m') = fst (select_route t w q m)"
proof -
  obtain cs m1 where m1: "candidates_with_relief t w q m = (cs, m1)" by fastforce
  obtain cs' m1' where m1': "candidates_with_relief t w q m' = (cs', m1')" by fastforce
  note c = relief_cong [OF assms, of t, unfolded m1 m1' fst_conv snd_conv]
  have "sticky_route t q cs m1' = sticky_route t q cs m1" "fst (round_robin q cs m1') = fst (round_robin q cs m1)"
    using c(2) by (auto simp: sticky_route_def round_robin_def same_view_def Let_def split: option.split)
  with c(1) show ?thesis
    by (auto simp: select_route_def m1 m1' split: option.split prod.split)
qed

section \<open>Properties\<close>

text \<open>
  The pools are isolated: whatever cooldowns, route quotas, deprecations, successes, selections,
  clearings and discoveries happen in one pool, the other pool has the same candidates and selects
  the same route at every later time.
\<close>

theorem pools_isolated:
  assumes "pool_wf m" and "0 \<le> wall" and "wall \<le> w"
    and "list_all (\<lambda>c. apart (call_pool c) q \<and> (case call_wall c of None \<Rightarrow> True | Some v \<Rightarrow> v \<le> wall)) cs"
  shows "fst (select_route t w q (run pool_step m cs)) = fst (select_route t w q m)
    \<and> fst (get_candidate_routes t w q (run pool_step m cs)) = fst (get_candidate_routes t w q m)"
proof -
  have "list_all (call_ok wall q) cs" using assms(4) by (auto simp: call_ok_def list_all_iff)
  have "0 \<le> wall \<longrightarrow> pool_wf (run pool_step m cs) \<and> same_view wall q m (run pool_step m cs)"
    by (rule foreign.run_inv) (use assms(1) same_view_refl \<open>list_all (call_ok wall q) cs\<close> in auto)
  with assms(2) have "pool_wf (run pool_step m cs)" "same_view wall q m (run pool_step m cs)" by auto
  with select_cong candidates_cong(1) assms show ?thesis by blast
qed

theorem pools_isolated_witness:
  "fst (select_route 5 5 ''general_agent''
     (run pool_step (new_pool_manager None [(''GROQ_API_KEY'', ''k'')])
        [Cooldown 0 ''coding'' ''groq-llama31-agent'' 60, Quota 1 ''coding'' ''groq-llama31-agent'' 60, Select 2 2 ''coding'']))
   = Some (cloud_route ''general_agent'' GROQ (''groq-llama31-agent'', ''groq'', ''llama-3.1-8b-instant'', 131072, 4096))"
proof -
  let ?m = "new_pool_manager None [(''GROQ_API_KEY'', ''k'')]"
  let ?cs = "[Cooldown 0 ''coding'' ''groq-llama31-agent'' 60, Quota 1 ''coding'' ''groq-llama31-agent'' 60, Select 2 2 ''coding'']"
  have a: "apart ''coding'' ''general_agent''" by code_simp
  have "fst (select_route 5 5 ''general_agent'' (run pool_step ?m ?cs)) = fst (select_route 5 5 ''general_agent'' ?m)"
    using pools_isolated [of ?m 5 5 "''general_agent''" ?cs 5] a
    by (simp add: pool_wf_def new_pool_manager_def del: run_Cons)
  also have "\<dots> = Some (cloud_route ''general_agent'' GROQ (''groq-llama31-agent'', ''groq'', ''llama-3.1-8b-instant'', 131072, 4096))"
    by code_simp
  finally show ?thesis .
qed

section \<open>Selection\<close>

definition pool_dicts :: "pool_manager \<Rightarrow> bool" where
  "pool_dicts m = (distinct (map fst (pm_cooldowns m)) \<and> distinct (map fst (pm_exhausted_quotas m))
                   \<and> distinct (map fst (pm_account_lockouts m)))"

lemma expired_get:
  assumes "distinct (map fst d)" and "0 \<le> t"
  shows "t < dict_get (filter (\<lambda>(k, e). \<not> (P k \<and> e \<le> t)) d) x 0 \<longleftrightarrow> t < dict_get d x (0 :: rat)"
  using assms by (auto simp: dict_get_def map_of_filter_distinct split: option.splits)

lemma expire_fields:
  "pm_allowed_providers (auto_expire_cooldowns t w q m) = pm_allowed_providers m"
  "pm_keys (auto_expire_cooldowns t w q m) = pm_keys m"
  "pm_deprecated (auto_expire_cooldowns t w q m) = pm_deprecated m"
  "pool_routes p (auto_expire_cooldowns t w q m) = pool_routes p m"
  by (simp_all add: auto_expire_cooldowns_def Let_def pool_routes_def)

lemma expire_gets:
  assumes "pool_dicts m" and "0 \<le> t" and "0 \<le> w"
  shows "t < dict_get (pm_cooldowns (auto_expire_cooldowns t w q m)) x 0 \<longleftrightarrow> t < dict_get (pm_cooldowns m) x 0"
    and "w < dict_get (pm_exhausted_quotas (auto_expire_cooldowns t w q m)) x 0 \<longleftrightarrow> w < dict_get (pm_exhausted_quotas m) x 0"
    and "w < dict_get (pm_account_lockouts (auto_expire_cooldowns t w q m)) y 0 \<longleftrightarrow> w < dict_get (pm_account_lockouts m) y 0"
proof -
  let ?P = "\<lambda>k :: string \<times> string. case q of None \<Rightarrow> True | Some p \<Rightarrow> fst k = lower p"
  have d: "distinct (map fst (pm_cooldowns m))" "distinct (map fst (pm_exhausted_quotas m))" "distinct (map fst (pm_account_lockouts m))"
    using assms(1) by (simp_all add: pool_dicts_def)
  show "t < dict_get (pm_cooldowns (auto_expire_cooldowns t w q m)) x 0 \<longleftrightarrow> t < dict_get (pm_cooldowns m) x 0"
    using expired_get [OF d(1) assms(2), of ?P] by (simp add: auto_expire_cooldowns_def Let_def)
  show "w < dict_get (pm_exhausted_quotas (auto_expire_cooldowns t w q m)) x 0 \<longleftrightarrow> w < dict_get (pm_exhausted_quotas m) x 0"
    using expired_get [OF d(2) assms(3), of ?P] by (simp add: auto_expire_cooldowns_def Let_def)
  show "w < dict_get (pm_account_lockouts (auto_expire_cooldowns t w q m)) y 0 \<longleftrightarrow> w < dict_get (pm_account_lockouts m) y 0"
    using lockout_purge [OF d(3) order_refl assms(3)] by (simp add: auto_expire_cooldowns_def Let_def)
qed

lemma expire_keeps:
  assumes "pool_dicts m" and "0 \<le> t" and "0 \<le> w"
  shows "is_route_in_cooldown t p i (auto_expire_cooldowns t w q m) = is_route_in_cooldown t p i m"
    and "route_enabled w p (auto_expire_cooldowns t w q m) r = route_enabled w p m r"
    and "pool_dicts (auto_expire_cooldowns t w q m)"
proof -
  show "is_route_in_cooldown t p i (auto_expire_cooldowns t w q m) = is_route_in_cooldown t p i m"
    unfolding is_route_in_cooldown_def by (rule expire_gets(1) [OF assms])
  show "route_enabled w p (auto_expire_cooldowns t w q m) r = route_enabled w p m r"
    unfolding route_enabled_def has_key_for_def is_route_quota_exhausted_def is_provider_quota_exhausted_def
      expire_fields expire_gets(2,3) [OF assms] ..
  show "pool_dicts (auto_expire_cooldowns t w q m)"
    using assms(1) by (auto simp: pool_dicts_def auto_expire_cooldowns_def Let_def)
qed

lemma oldest_key_least:
  assumes "distinct (map fst d)" and "oldest_key d = Some k"
  shows "\<exists>e. (k, e) \<in> set d \<and> (\<forall>(k', e') \<in> set d. e \<le> e')"
  using assms
proof (induction d arbitrary: k rule: oldest_key.induct)
  case (2 k0 e0 d)
  show ?case
  proof (cases "oldest_key d")
    case None
    then have "d = []" by (cases d rule: oldest_key.cases) (auto split: option.splits if_splits)
    with 2 show ?thesis by auto
  next
    case (Some k')
    with 2 obtain e where e: "(k', e) \<in> set d" "\<forall>(k'', e') \<in> set d. e \<le> e'" by auto
    then have g: "dict_get d k' 0 = e" using 2 by (simp add: dict_get_def)
    show ?thesis
    proof (cases "e < e0")
      case True
      with 2(3) Some g have "k = k'" by simp
      with e True show ?thesis by (intro exI [of _ e]) auto
    next
      case False
      with 2(3) Some g have "k = k0" by simp
      with e(2) False show ?thesis by (intro exI [of _ e0]) fastforce
    qed
  qed
qed simp

lemma candidates_set:
  assumes "pool_dicts m" and "0 \<le> t" and "0 \<le> w"
  shows "set (fst (get_candidate_routes t w p m)) = {r \<in> set (pool_routes p m). route_candidate t w p m r}"
  using assms by (auto simp: get_candidate_routes_def Let_def route_candidate_def expire_keeps expire_fields)

text \<open>A route whose cooldown is the first of its pool to expire.\<close>

definition first_to_expire :: "string \<Rightarrow> string \<Rightarrow> pool_manager \<Rightarrow> bool" where
  "first_to_expire pool route_id m =
     (\<exists>e. map_of (pm_cooldowns m) (pool_key pool route_id) = Some e
        \<and> (\<forall>(k, e') \<in> set (pm_cooldowns m). fst k = lower pool \<longrightarrow> e \<le> e'))"

lemma select_from: "select_route t w p m = (ro, m') \<Longrightarrow>
  (case ro of None \<Rightarrow> fst (candidates_with_relief t w p m) = []
   | Some r \<Rightarrow> r \<in> set (fst (candidates_with_relief t w p m)))"
  by (auto simp: select_route_def sticky_route_def round_robin_def Let_def find_Some_iff
      split: prod.splits if_splits option.splits intro!: nth_mem)

lemma relieved_candidate:
  assumes "pool_dicts m" and "0 \<le> t" and "0 \<le> w" and "\<forall>r \<in> set (pool_routes p m). \<not> route_candidate t w p m r"
    and "r \<in> set (fst (get_candidate_routes t w p (relieve_oldest p m)))"
  shows "r \<in> set (pool_routes p m) \<and> route_enabled w p m r \<and> first_to_expire p (ro_id r) m"
proof -
  let ?d = "filter (\<lambda>(k, _). fst k = lower p) (pm_cooldowns m)"
  have frame: "pool_dicts (relieve_oldest p m)" "pool_routes p (relieve_oldest p m) = pool_routes p m"
    "route_enabled w p (relieve_oldest p m) r = route_enabled w p m r"
    using assms(1) by (auto simp: relieve_oldest_def pool_dicts_def pool_routes_def route_enabled_def has_key_for_def
        is_route_quota_exhausted_def is_provider_quota_exhausted_def split: option.split)
  from assms(5) have r: "r \<in> set (pool_routes p m)" "route_enabled w p m r"
      "\<not> is_route_in_cooldown t p (ro_id r) (relieve_oldest p m)"
    using frame by (auto simp: candidates_set [OF frame(1) assms(2,3)] route_candidate_def)
  with assms(4) have c: "is_route_in_cooldown t p (ro_id r) m" by (auto simp: route_candidate_def)
  with r(3) obtain k where k: "oldest_key ?d = Some k" "k = pool_key p (ro_id r)"
    by (auto simp: relieve_oldest_def is_route_in_cooldown_def split: option.splits if_splits)
  have "distinct (map fst ?d)" using assms(1) by (auto simp: pool_dicts_def)
  from oldest_key_least [OF this k(1)] obtain e where e: "(k, e) \<in> set ?d" "\<forall>(k', e') \<in> set ?d. e \<le> e'" by blast
  then have "map_of (pm_cooldowns m) k = Some e" using assms(1) by (auto simp: pool_dicts_def)
  with e k(2) r show ?thesis by (auto simp: first_to_expire_def)
qed

text \<open>
  A selected route belongs to the pool, has its key, is allowed, not deprecated and not out of
  quota; it is not in cooldown, unless every usable route is, and then it is the one whose cooldown
  expires first.  Nothing is selected only if the pool has no candidate at that moment.
\<close>

theorem select_route_sound:
  assumes "pool_dicts m" and "0 \<le> t" and "0 \<le> w" and "select_route t w pool m = (ro, m')"
  shows "case ro of
      Some r \<Rightarrow> r \<in> set (pool_routes pool m) \<and> route_enabled w pool m r
        \<and> (is_route_in_cooldown t pool (ro_id r) m \<longrightarrow>
             (\<forall>r' \<in> set (pool_routes pool m). \<not> route_candidate t w pool m r')
             \<and> first_to_expire pool (ro_id r) (auto_expire_cooldowns t w (Some pool) m))
    | None \<Rightarrow> \<forall>r \<in> set (pool_routes pool m). \<not> route_candidate t w pool m r"
proof -
  define m1 where "m1 = auto_expire_cooldowns t w (Some pool) m"
  obtain cs where cs: "get_candidate_routes t w pool m = (cs, m1)"
    by (simp add: get_candidate_routes_def m1_def Let_def)
  have set_cs: "set cs = {r \<in> set (pool_routes pool m). route_candidate t w pool m r}"
    using candidates_set [OF assms(1-3), of pool] cs by simp
  note keep = expire_keeps [OF assms(1-3), where q = "Some pool", folded m1_def]
    expire_fields(4) [of pool t w "Some pool" m, folded m1_def]
  have cand: "route_candidate t w pool m1 r = route_candidate t w pool m r" for r
    by (simp add: route_candidate_def keep)
  have relieved: "r \<in> set (pool_routes pool m) \<and> route_enabled w pool m r \<and> first_to_expire pool (ro_id r) m1"
    if "cs = []" "r \<in> set (fst (get_candidate_routes t w pool (relieve_oldest pool m1)))" for r
    using relieved_candidate [OF keep(3) assms(2,3) _ that(2)] that(1) set_cs by (auto simp: cand keep)
  show ?thesis
  proof (cases ro)
    case None
    with select_from [OF assms(4)] have "fst (candidates_with_relief t w pool m) = []" by simp
    then have "cs = []"
      by (auto simp: candidates_with_relief_def cs split: if_splits)
    with None set_cs show ?thesis by auto
  next
    case (Some r)
    with select_from [OF assms(4)] have "r \<in> set (fst (candidates_with_relief t w pool m))" by simp
    then have "r \<in> set cs \<or> cs = [] \<and> r \<in> set (fst (get_candidate_routes t w pool (relieve_oldest pool m1)))"
      by (auto simp: candidates_with_relief_def cs split: if_splits)
    with Some set_cs relieved show ?thesis by (auto simp: route_candidate_def m1_def)
  qed
qed

theorem select_route_sound_witness:
  "route_enabled 0 ''general_agent'' (new_pool_manager None [(''GROQ_API_KEY'', ''k'')])
     (cloud_route ''general_agent'' GROQ (''groq-llama31-agent'', ''groq'', ''llama-3.1-8b-instant'', 131072, 4096))"
proof -
  let ?m = "new_pool_manager None [(''GROQ_API_KEY'', ''k'')]"
  let ?r = "cloud_route ''general_agent'' GROQ (''groq-llama31-agent'', ''groq'', ''llama-3.1-8b-instant'', 131072, 4096)"
  have "fst (select_route 0 0 ''general_agent'' ?m) = Some ?r" by code_simp
  then have s: "select_route 0 0 ''general_agent'' ?m = (Some ?r, snd (select_route 0 0 ''general_agent'' ?m))"
    by (simp add: prod_eq_iff)
  have "pool_dicts ?m" by (simp add: pool_dicts_def new_pool_manager_def)
  from select_route_sound [OF this _ _ s] show ?thesis by simp
qed

text \<open>
  The account lockout is the one event that crosses pools: a quota exhaustion reported for a provider
  in one pool takes that provider's routes out of the other pool too, until the lockout ends.
\<close>

theorem provider_lockout_crosses_pools:
  assumes "r \<in> set (fst (get_candidate_routes t w q (mark_provider_quota_exhausted w0 p provider seconds m)))"
    and "ro_provider r \<noteq> []" and "w < w0 + seconds" and "pool_wf m" and "0 \<le> w"
  shows "lower (ro_provider r) \<noteq> lower provider"
proof
  assume p: "lower (ro_provider r) = lower provider"
  let ?m = "mark_provider_quota_exhausted w0 p provider seconds m"
  have "distinct (map fst (pm_account_lockouts ?m))"
    using assms(4) by (auto simp: mark_provider_quota_exhausted_def pool_wf_def)
  from lockout_purge [OF this order_refl assms(5), of "lower provider"]
  have "is_provider_quota_exhausted w (ro_provider r) (auto_expire_cooldowns t w (Some q) ?m)"
    using p assms(3) by (simp add: is_provider_quota_exhausted_def auto_expire_cooldowns_def Let_def mark_provider_quota_exhausted_def)
  with assms(1,2) show False
    by (simp add: get_candidate_routes_def Let_def route_candidate_def route_enabled_def is_route_quota_exhausted_def truthy_str_def)
qed

end
