(* ===== verification/Classifier.thy ===== *)
theory Classifier
  imports PyText Models Pools
begin

text \<open>
  \<^verbatim>\<open>classifier.py\<close>: classification of upstream failures.

  The error object is a record of what the code reads from it: its text, its type name, the status
  attributes and the text of a dictionary body.  \<open>parse_float\<close> is \<open>float()\<close> on a header
  value and \<open>parse_http_date\<close> the epoch time of an HTTP date (\<open>email.utils\<close>); both are parameters.
  \<open>wall\<close> is the epoch clock.  A classification is a record of \<^theory_text>\<open>Models\<close>.

  Theorems: every classification permits fallback and its flags are consistent
  (\<open>classification_consistent\<close>); a message without any provider pattern is classified by its status
  code alone, as the table \<open>plain_status\<close> says (\<open>plain_classified_by_status\<close>).
\<close>

record error_info =
  ei_text :: string
  ei_type_name :: string
  ei_status_code :: "int option"
  ei_code :: "int option"
  ei_response_status :: "int option"
  ei_body_text :: "string option"

record classifier_env =
  parse_float :: "string \<Rightarrow> rat option"
  parse_http_date :: "string \<Rightarrow> rat option"

section \<open>Texts in provider messages\<close>

definition calculate_seconds_until_utc_midnight :: "time \<Rightarrow> rat" where
  "calculate_seconds_until_utc_midnight wall = max 60 (86400 - (wall - 86400 * of_int \<lfloor>wall / 86400\<rfloor>))"

definition int_group :: "string list option \<Rightarrow> int option" where
  "int_group gs = (case gs of Some (g # _) \<Rightarrow> Some (int (nat_of_digits g)) | _ \<Rightarrow> None)"

definition non_digits :: rx where
  "non_digits = Star (Chr (\<lambda>c. \<not> is_digit c))"

definition parse_input_tpm_limit :: "string \<Rightarrow> int option" where
  "parse_input_tpm_limit error_msg =
     (let msg = lower error_msg in
      case int_group (rx_groups [(False, alts [lit ''input tokens per minute'', lit ''itpm'', lit ''tpm'']),
             (False, non_digits), (False, lit ''limit''), (False, spaces), (True, rx_plus digit)] msg) of
        Some n \<Rightarrow> Some n
      | None \<Rightarrow>
          if contains msg ''token'' \<or> contains msg ''tpm'' \<or> contains msg ''request too large''
          then int_group (rx_groups [(False, lit ''limit''), (False, spaces), (True, rx_plus digit), (False, lit '',''),
                 (False, spaces), (False, lit ''requested''), (False, spaces), (False, rx_plus digit)] msg)
          else None)"

definition BILLING_PATTERNS :: "string list" where
  "BILLING_PATTERNS =
     [''insufficient credits'', ''credit balance'', ''billing'', ''payment required'', ''out of credits'',
      ''usage limit reached'', ''monthly spending cap'', ''insufficient_quota'', ''quota_exceeded'',
      ''account_deactivated'', ''balance is too low'', ''free-models-per-day'', ''free model requests'', ''add 5 credits'']"

definition DEPRECATION_PATTERNS :: "string list" where
  "DEPRECATION_PATTERNS =
     [''deprecated'', ''decommissioned'', ''model does not exist'', ''model not found'', ''model_not_found'',
      ''has been removed'', ''is no longer available'', ''is not found for api version'', ''end of life'', ''eol'',
      ''has reached its end of life'', ''sunset'', ''no longer supported'']"

definition UPSTREAM_429_PATTERNS :: "string list" where
  "UPSTREAM_429_PATTERNS =
     [''temporarily rate-limited upstream'', ''upstream_provider_shared_pool'', ''provider returned error'', ''daily'',
      ''quota exceeded'']"

definition WAF_PATTERNS :: "string list" where
  "WAF_PATTERNS =
     [''cloudflare'', ''just a moment...'', ''challenge-running'', ''ddos protection'', ''ray id'',
      ''attention required! | cloudflare'', ''security verification'']"

definition SSL_PATTERNS :: "string list" where
  "SSL_PATTERNS = [''certificate verify failed'', ''self signed certificate'', ''sslcertverificationerror'', ''sslerror'']"

definition OUTPUT_CAP_PATTERNS :: "string list" where
  "OUTPUT_CAP_PATTERNS =
     [''must be less than or equal to'', ''less than or equal to'', ''range of max_tokens should be'',
      ''maximum output tokens'', ''available_tokens'', ''available tokens'',
      ''max_tokens is less than the context_window'', ''on output tokens'', ''output tokens per minute'', ''otpm'']"

definition CONTEXT_OVERFLOW_PATTERNS :: "string list" where
  "CONTEXT_OVERFLOW_PATTERNS =
     [''context_length_exceeded'', ''payload too large'', ''maximum context length'', ''token count exceeds limit'',
      ''request size exceeds'', ''too many tokens'', ''prompt is too long'', ''prompt too long'']"

definition TPM_RATE_LIMIT_PATTERNS :: "string list" where
  "TPM_RATE_LIMIT_PATTERNS = [''tokens per minute'', ''tpm limit'', ''input tokens per minute'', ''itpm'']"

definition SCHEMA_INCOMPATIBILITY_PATTERNS :: "string list" where
  "SCHEMA_INCOMPATIBILITY_PATTERNS =
     [''unrecognized parameter'', ''unknown field'', ''additionalproperties'', ''$schema'', ''invalid_request_error'',
      ''unknown parameter'', ''schema validation error'']"

definition TOOL_MALFORMED_PATTERNS :: "string list" where
  "TOOL_MALFORMED_PATTERNS =
     [''malformed tool call'', ''failed to parse function arguments'', ''invalid json in tool arguments'',
      ''invalid_tool_call'', ''missing required argument'', ''missing required parameter'', ''invalid tool argument'',
      ''unknown tool'', ''schema validation failed'']"

definition CLIENT_FAULT_PATTERNS :: "string list" where
  "CLIENT_FAULT_PATTERNS =
     [''invalid api key'', ''unauthorized'', ''incorrect api key'', ''bad request syntax'', ''malformed json request'']"

definition any_in :: "string list \<Rightarrow> string \<Rightarrow> bool" where
  "any_in patterns msg = list_ex (contains msg) patterns"

definition parse_retry_after_from_body :: "string \<Rightarrow> rat option" where
  "parse_retry_after_from_body error_msg =
     (case rx_groups [(False, lit ''try again in''), (False, rx_plus (Chr is_space)),
             (True, rx_plus (Chr (\<lambda>c. is_digit c \<or> c = CHR ''.''))), (False, spaces), (False, lit ''s'')] (lower error_msg) of
        Some (g # _) \<Rightarrow> map_option (max (1 / 10)) (decimal g)
      | _ \<Rightarrow> None)"

definition quote_char :: "char \<Rightarrow> bool" where
  "quote_char c = (let n = (of_char c :: nat) in n = 96 \<or> n = 39 \<or> n = 34)"

definition or_else :: "'a option \<Rightarrow> 'a option \<Rightarrow> 'a option" where
  "or_else a b = (case a of Some x \<Rightarrow> Some x | None \<Rightarrow> b)"

definition parse_output_cap_from_error :: "string \<Rightarrow> int option" where
  "parse_output_cap_from_error error_msg =
     (let msg = lower error_msg; q = rx_opt (Chr quote_char); gap = rx_plus (Chr is_space); n = rx_plus digit;
          otpm = int_group (rx_groups [(False, alts [lit ''output tokens per minute'', lit ''otpm'']), (False, non_digits),
                   (False, lit ''limit''), (False, spaces), (True, n)] msg);
          must = int_group (rx_groups [(False, lit ''max_tokens''), (False, q), (False, gap),
                   (False, lit ''must be less than or equal to''), (False, gap), (False, q), (True, n)] msg);
          le = int_group (rx_groups [(False, lit ''less than or equal to''), (False, gap), (False, q), (True, n)] msg);
          range = int_group (rx_groups [(False, lit ''range of max_tokens should be''), (False, spaces), (False, lit ''[''),
                   (False, spaces), (False, n), (False, spaces), (False, lit '',''), (False, spaces), (True, n),
                   (False, spaces), (False, lit '']'')] msg);
          model = int_group (rx_groups [(False, lit ''exceeds model''), (False, rx_opt (lit [char_of (39 :: nat), CHR ''s''])),
                   (False, lit '' maximum output tokens''), (False, spaces), (False, rx_opt (lit ''('')), (False, spaces),
                   (True, n)] msg);
          avail = int_group (rx_groups [(False, lit ''available''), (False, rx_plus (Chr (\<lambda>c. c = CHR ''_'' \<or> is_space c))),
                   (False, lit ''tokens''), (False, rx_plus (Chr (\<lambda>c. c = CHR '':'' \<or> is_space c))), (True, n)] msg)
      in or_else otpm (or_else must
           (or_else (if contains msg ''max_tokens'' \<or> contains msg ''token'' then le else None)
              (or_else range (or_else model avail)))))"

definition parse_retry_after :: "classifier_env \<Rightarrow> time \<Rightarrow> string option \<Rightarrow> rat option" where
  "parse_retry_after env wall header_val =
     (if \<not> truthy_str header_val then None
      else let val = strip (the header_val) in
        case parse_float env val of
          Some x \<Rightarrow> Some (max 0 x)
        | None \<Rightarrow> map_option (\<lambda>timestamp. max 0 (timestamp - wall)) (parse_http_date env val))"

section \<open>Classification\<close>

definition resolve_code :: "error_info \<Rightarrow> int option \<Rightarrow> int option" where
  "resolve_code e status_code = or_else status_code (or_else (ei_status_code e) (or_else (ei_code e) (ei_response_status e)))"

definition error_message_of :: "error_info \<Rightarrow> string" where
  "error_message_of e = lower (ei_text e) @ (case ei_body_text e of None \<Rightarrow> [] | Some b \<Rightarrow> '' '' @ lower b)"

text \<open>\<open>{k.lower(): v}\<close>: a later header of the same name wins.\<close>

definition clean_header :: "(string, string) dict \<Rightarrow> string \<Rightarrow> string option" where
  "clean_header headers name = map_of (rev (map (\<lambda>(k, v). (lower k, v)) headers)) name"

definition code_or :: "int option \<Rightarrow> int \<Rightarrow> int option" where
  "code_or code d = (case code of Some c \<Rightarrow> if c \<noteq> 0 then Some c else Some d | None \<Rightarrow> Some d)"

text \<open>A classification with the defaults of the data class; all of them allow fallback.\<close>

definition classified ::
  "failure_category \<Rightarrow> failover_reason \<Rightarrow> bool \<Rightarrow> bool \<Rightarrow> int option \<Rightarrow> string \<Rightarrow> failure_classification" where
  "classified cat reason retryable poisons code msg =
     \<lparr>fc_category = cat, fc_reason = reason, fc_should_fallback = True, fc_retryable = retryable,
      fc_poisons_health = poisons, fc_is_permanent = False, fc_status_code = code, fc_retry_after_seconds = None,
      fc_message = msg, fc_token_limit = None, fc_account_wide = False\<rparr>"

definition limit_and_request :: "string \<Rightarrow> (int \<times> int) option" where
  "limit_and_request msg =
     (case rx_groups [(False, lit ''limit''), (False, spaces), (True, rx_plus digit),
             (False, LazyStar (Chr (\<lambda>c. (of_char c :: nat) \<noteq> 10))), (False, lit ''requested''), (False, spaces),
             (True, rx_plus digit)] msg of
        Some [a, b] \<Rightarrow> Some (int (nat_of_digits a), int (nat_of_digits b)) | _ \<Rightarrow> None)"

text \<open>3c: the request itself exceeds the token limit.\<close>

definition oversized_request :: "string \<Rightarrow> bool" where
  "oversized_request msg =
     (let larger = (case limit_and_request msg of Some (l, r) \<Rightarrow> r > l | None \<Rightarrow> False);
          too_large = (contains msg ''request too large''
            \<and> (contains msg ''tokens per minute'' \<or> contains msg ''tpm'' \<or> parse_input_tpm_limit msg \<noteq> None))
      in (larger \<or> too_large) \<and> (\<not> contains msg ''try again in'' \<or> larger))"

definition temporal_limit :: "int option \<Rightarrow> string \<Rightarrow> bool" where
  "temporal_limit code msg =
     ((contains msg ''tokens per minute'' \<or> contains msg ''tpm'' \<or> contains msg ''try again in'')
      \<and> (contains msg ''rate'' \<or> contains msg ''limit'' \<or> code \<in> {Some 413, Some 429}))"

definition temporal_delay :: "rat option \<Rightarrow> string \<Rightarrow> rat option" where
  "temporal_delay retry_after msg =
     (if truthy_num retry_after then retry_after
      else case rx_groups [(False, lit ''try again in ''),
               (True, Seq (rx_plus digit) (rx_opt (Seq (lit ''.'') (rx_plus digit)))), (False, rx_opt (lit ''s''))] msg of
             Some (g # _) \<Rightarrow> (case decimal g of Some x \<Rightarrow> Some x | None \<Rightarrow> Some 3)
           | _ \<Rightarrow> Some 3)"

definition rate_delay :: "rat option \<Rightarrow> string \<Rightarrow> rat option" where
  "rate_delay retry_after msg =
     (let delay = (if truthy_num retry_after then retry_after else parse_retry_after_from_body msg)
      in if delay = None \<and> any_in TPM_RATE_LIMIT_PATTERNS msg then Some 60 else delay)"

definition auth_permanent :: "int option \<Rightarrow> string \<Rightarrow> bool" where
  "auth_permanent code msg =
     (code \<in> {Some 401, Some 403}
      \<or> any_in [''access denied'', ''forbidden'', ''invalid api key'', ''incorrect api key'', ''unauthorized''] msg)"

text \<open>The decision list of \<open>classify_failure\<close> from section 5 on.\<close>

definition classify_status :: "rat option \<Rightarrow> string \<Rightarrow> int option \<Rightarrow> string \<Rightarrow> failure_classification" where
  "classify_status retry_after tname code msg =
     (if code = Some 429 \<or> any_in TPM_RATE_LIMIT_PATTERNS msg \<or> contains tname ''ratelimit''
      then (classified RATE_LIMIT (if any_in UPSTREAM_429_PATTERNS msg then R_upstream_rate_limit else R_rate_limit)
              True True (Some 429) msg)\<lparr>fc_retry_after_seconds := rate_delay retry_after msg\<rparr>
      else if (code \<in> {Some 404, Some 410, Some 400} \<and> any_in DEPRECATION_PATTERNS msg) \<or> code = Some 410
      then (classified REQUEST_INCOMPATIBILITY R_model_not_found False False (code_or code 410) msg)\<lparr>fc_is_permanent := True\<rparr>
      else if code = Some 404
      then (classified REQUEST_INCOMPATIBILITY R_model_not_found False False (Some 404) msg)\<lparr>fc_is_permanent := True\<rparr>
      else if any_in TOOL_MALFORMED_PATTERNS msg
      then classified SEMANTIC_AGENT_FAILURE R_malformed_tool_call False False (code_or code 200) msg
      else if code = Some 400 \<and> any_in SCHEMA_INCOMPATIBILITY_PATTERNS msg
      then classified REQUEST_INCOMPATIBILITY R_schema_incompatible False False (Some 400) msg
      else if code \<in> {Some 401, Some 403} \<or> contains msg ''access denied'' \<or> contains msg ''forbidden''
              \<or> any_in CLIENT_FAULT_PATTERNS msg
      then (classified (if any_in CLIENT_FAULT_PATTERNS msg then CLIENT_FAULT else INFRASTRUCTURE) R_auth False False
              (code_or code 403) msg)\<lparr>fc_is_permanent := auth_permanent code msg\<rparr>
      else if any_in WAF_PATTERNS msg
      then classified INFRASTRUCTURE R_waf_blocked False True (code_or code 403) msg
      else if code \<in> {Some 408, Some 500, Some 502, Some 503, Some 504, Some 529}
              \<or> any_in [''overloaded'', ''bad gateway'', ''gateway timeout''] msg
      then classified INFRASTRUCTURE
             (if code \<in> {Some 503, Some 529} \<or> contains msg ''overloaded'' then R_overloaded else R_server_error)
             True True code msg
      else if any_in [''timeout'', ''timed out''] msg \<or> contains tname ''connecttimeout''
      then classified INFRASTRUCTURE R_timeout True True (code_or code 504) msg
      else if (case code of Some c \<Rightarrow> 400 \<le> c \<and> c < 500 | None \<Rightarrow> False)
      then classified REQUEST_INCOMPATIBILITY R_client_error False False code msg
      else classified UNKNOWN_CATEGORY R_unknown True True code msg)"

text \<open>Sections 1 to 4b, then \<open>classify_status\<close>.\<close>

definition classify_message ::
  "time \<Rightarrow> rat option \<Rightarrow> string \<Rightarrow> int option \<Rightarrow> string \<Rightarrow> failure_classification" where
  "classify_message wall retry_after tname code msg =
     (if any_in SSL_PATTERNS msg \<or> contains tname ''sslerror''
      then classified INFRASTRUCTURE R_ssl_cert_verification False True code msg
      else if any_in [''connection refused'', ''errno 61'', ''errno 111''] msg
      then classified INFRASTRUCTURE R_connection_refused False True (Some 599) msg
      else if code \<in> {Some 400, Some 429, None} \<and> any_in OUTPUT_CAP_PATTERNS msg
      then classified REQUEST_INCOMPATIBILITY R_output_cap_exceeded True False (code_or code 400) msg
      else if any_in [''empty response body'', ''empty completion''] msg
      then classified SEMANTIC_AGENT_FAILURE R_empty_completion True False (code_or code 502) msg
      else if oversized_request msg
      then (classified REQUEST_INCOMPATIBILITY R_payload_too_large False False (code_or code 413) msg)
             \<lparr>fc_token_limit := (case parse_input_tpm_limit msg of Some n \<Rightarrow> if n \<noteq> 0 then Some n else None | None \<Rightarrow> None)\<rparr>
      else if temporal_limit code msg
      then (classified RATE_LIMIT R_rate_limit True True (code_or code 429) msg)
             \<lparr>fc_retry_after_seconds := temporal_delay retry_after msg\<rparr>
      else if code = Some 413 \<or> any_in CONTEXT_OVERFLOW_PATTERNS msg
      then classified REQUEST_INCOMPATIBILITY R_payload_too_large False False (Some 413) msg
      else if any_in [''free-models-per-day'', ''free model requests''] msg
      then (classified RATE_LIMIT R_billing False False (code_or code 429) msg)
             \<lparr>fc_retry_after_seconds := Some (calculate_seconds_until_utc_midnight wall), fc_account_wide := True\<rparr>
      else if code = Some 402 \<or> any_in BILLING_PATTERNS msg
      then (classified RATE_LIMIT R_billing False True (Some 402) msg)\<lparr>fc_is_permanent := True\<rparr>
      else classify_status retry_after tname code msg)"

definition classify_failure ::
  "classifier_env \<Rightarrow> time \<Rightarrow> error_info \<Rightarrow> int option \<Rightarrow> (string, string) dict \<Rightarrow> failure_classification" where
  "classify_failure env wall e status_code headers =
     classify_message wall (parse_retry_after env wall (clean_header headers ''retry-after'')) (lower (ei_type_name e))
       (resolve_code e status_code) (error_message_of e)"

text \<open>\<open>classify_api_error\<close>: the classification together with its marks on the pool manager.\<close>

definition provider_of_route :: "string \<Rightarrow> string" where
  "provider_of_route route_id = last (split_on (CHR '':'') (hd (split_on (CHR ''-'') route_id)))"

definition classify_api_error ::
  "classifier_env \<Rightarrow> time \<Rightarrow> error_info \<Rightarrow> int option \<Rightarrow> (string, string) dict \<Rightarrow> string option \<Rightarrow> string option
    \<Rightarrow> string option \<Rightarrow> pool_manager \<Rightarrow> failure_classification \<times> pool_manager" where
  "classify_api_error env wall e status_code headers pool route_id provider m =
     (let c = classify_failure env wall e status_code headers in
      (c, if \<not> (truthy_str pool \<and> truthy_str route_id) then m
          else if fc_reason c = R_billing
          then (let seconds = (if truthy_num (fc_retry_after_seconds c) then the (fc_retry_after_seconds c) else 86400);
                    m' = mark_quota_exhausted wall (the pool) (the route_id) seconds m
                in if fc_account_wide c
                   then mark_provider_quota_exhausted wall (the pool)
                          (if truthy_str provider then the provider else provider_of_route (the route_id)) seconds m'
                   else m')
          else if fc_reason c = R_model_not_found \<or> fc_is_permanent c
          then mark_deprecated (the pool) (the route_id) m
          else m))"

section \<open>Consistency\<close>

definition consistent :: "failure_classification \<Rightarrow> bool" where
  "consistent c =
     (fc_should_fallback c
      \<and> (fc_poisons_health c \<longrightarrow> fc_category c \<in> {INFRASTRUCTURE, RATE_LIMIT, UNKNOWN_CATEGORY})
      \<and> (fc_is_permanent c \<longrightarrow> \<not> fc_retryable c \<and> fc_reason c \<in> {R_billing, R_model_not_found, R_auth})
      \<and> (case fc_retry_after_seconds c of None \<Rightarrow> True | Some d \<Rightarrow> 0 \<le> d \<and> fc_category c = RATE_LIMIT)
      \<and> (fc_account_wide c \<longrightarrow> fc_reason c = R_billing \<and> \<not> fc_is_permanent c))"

definition delay_ok :: "rat option \<Rightarrow> bool" where
  "delay_ok d = (case d of None \<Rightarrow> True | Some x \<Rightarrow> 0 \<le> x)"

lemma decimal_nonneg: "decimal g = Some x \<Longrightarrow> 0 \<le> x"
  by (auto simp: decimal_def Let_def split: if_splits)

lemma delays_ok:
  "delay_ok (parse_retry_after env wall h)"
  "delay_ok (parse_retry_after_from_body msg)"
  "delay_ok r \<Longrightarrow> delay_ok (temporal_delay r msg)"
  "delay_ok r \<Longrightarrow> delay_ok (rate_delay r msg)"
proof -
  show body: "delay_ok (parse_retry_after_from_body msg)" for msg
    by (auto simp: delay_ok_def parse_retry_after_from_body_def split: option.splits list.splits)
  show "delay_ok (parse_retry_after env wall h)"
    by (auto simp: delay_ok_def parse_retry_after_def Let_def split: option.splits)
  show "delay_ok r \<Longrightarrow> delay_ok (temporal_delay r msg)"
    by (auto simp: delay_ok_def temporal_delay_def decimal_nonneg split: option.splits list.splits)
  show "delay_ok r \<Longrightarrow> delay_ok (rate_delay r msg)"
    using body [of msg] by (auto simp: delay_ok_def rate_delay_def Let_def split: option.splits)
qed

lemma consistent_classified:
  "poisons \<longrightarrow> cat \<in> {INFRASTRUCTURE, RATE_LIMIT, UNKNOWN_CATEGORY} \<Longrightarrow> consistent (classified cat reason retryable poisons code msg)"
  by (simp add: consistent_def classified_def)

lemma consistent_permanent:
  "poisons \<longrightarrow> cat \<in> {INFRASTRUCTURE, RATE_LIMIT, UNKNOWN_CATEGORY} \<Longrightarrow> reason \<in> {R_billing, R_model_not_found, R_auth} \<Longrightarrow>
   consistent ((classified cat reason False poisons code msg)\<lparr>fc_is_permanent := b\<rparr>)"
  by (simp add: consistent_def classified_def)

lemma consistent_delay:
  "delay_ok d \<Longrightarrow> consistent ((classified RATE_LIMIT reason retryable poisons code msg)\<lparr>fc_retry_after_seconds := d\<rparr>)"
  by (auto simp: consistent_def classified_def delay_ok_def split: option.splits)

lemma consistent_limit:
  "consistent ((classified REQUEST_INCOMPATIBILITY reason retryable False code msg)\<lparr>fc_token_limit := n\<rparr>)"
  by (simp add: consistent_def classified_def)

lemma consistent_account:
  "0 \<le> d \<Longrightarrow> consistent ((classified RATE_LIMIT R_billing retryable poisons code msg)\<lparr>fc_retry_after_seconds := Some d, fc_account_wide := True\<rparr>)"
  by (simp add: consistent_def classified_def)

lemmas consistent_rules = consistent_classified consistent_permanent consistent_delay consistent_limit consistent_account

lemma classify_status_consistent: "delay_ok r \<Longrightarrow> consistent (classify_status r tname code msg)"
  unfolding classify_status_def by (simp add: consistent_rules delays_ok split: if_split)

lemma midnight_bounds: "60 \<le> calculate_seconds_until_utc_midnight wall \<and> calculate_seconds_until_utc_midnight wall \<le> 86400"
proof -
  have "of_int \<lfloor>wall / 86400\<rfloor> \<le> wall / 86400" by (rule of_int_floor_le)
  then have "0 \<le> wall - 86400 * of_int \<lfloor>wall / 86400\<rfloor>" by (simp add: field_simps)
  then show ?thesis by (simp add: calculate_seconds_until_utc_midnight_def)
qed

lemma classify_message_consistent: "delay_ok r \<Longrightarrow> consistent (classify_message wall r tname code msg)"
  using midnight_bounds [of wall] unfolding classify_message_def
  by (simp add: consistent_rules delays_ok classify_status_consistent split: if_split)

section \<open>Properties\<close>

text \<open>
  Every failure is classified so that fallback is allowed; only infrastructure, rate-limit and
  unknown failures count against health; a permanent failure is never retried and is a billing, model
  or credential failure; a retry delay is never negative and belongs to a rate limit; an account-wide
  lockout is a billing failure that is not permanent.
\<close>

theorem classification_consistent:
  "(let c = classify_failure env wall e status_code headers in
      fc_should_fallback c
      \<and> (fc_poisons_health c \<longrightarrow> fc_category c \<in> {INFRASTRUCTURE, RATE_LIMIT, UNKNOWN_CATEGORY})
      \<and> (fc_is_permanent c \<longrightarrow> \<not> fc_retryable c \<and> fc_reason c \<in> {R_billing, R_model_not_found, R_auth})
      \<and> (\<forall>d. fc_retry_after_seconds c = Some d \<longrightarrow> 0 \<le> d \<and> fc_category c = RATE_LIMIT)
      \<and> (fc_account_wide c \<longrightarrow> fc_reason c = R_billing \<and> \<not> fc_is_permanent c))"
proof -
  have "consistent (classify_failure env wall e status_code headers)"
    unfolding classify_failure_def by (rule classify_message_consistent) (rule delays_ok)
  then show ?thesis by (auto simp: consistent_def Let_def)
qed

definition sample_classifier_env :: classifier_env where
  "sample_classifier_env = \<lparr>parse_float = decimal, parse_http_date = (\<lambda>_. None)\<rparr>"

definition error_text :: "string \<Rightarrow> error_info" where
  "error_text t = \<lparr>ei_text = t, ei_type_name = ''str'', ei_status_code = None, ei_code = None,
                   ei_response_status = None, ei_body_text = None\<rparr>"

theorem classification_consistent_witness:
  "fc_is_permanent (classify_failure sample_classifier_env 0 (error_text ''Payment Required'') (Some 402) [])
   \<and> \<not> fc_retryable (classify_failure sample_classifier_env 0 (error_text ''Payment Required'') (Some 402) [])"
proof -
  have "fc_is_permanent (classify_failure sample_classifier_env 0 (error_text ''Payment Required'') (Some 402) [])"
    by code_simp
  with classification_consistent [of sample_classifier_env 0 "error_text ''Payment Required''" "Some 402" "[]"]
  show ?thesis by (simp add: Let_def)
qed

text \<open>
  A message without any of the patterns the classifier looks for; the type name is the one of a plain text.
\<close>

definition all_patterns :: "string list" where
  "all_patterns =
     SSL_PATTERNS @ OUTPUT_CAP_PATTERNS @ CONTEXT_OVERFLOW_PATTERNS @ BILLING_PATTERNS @ TPM_RATE_LIMIT_PATTERNS
     @ UPSTREAM_429_PATTERNS @ DEPRECATION_PATTERNS @ TOOL_MALFORMED_PATTERNS @ SCHEMA_INCOMPATIBILITY_PATTERNS
     @ CLIENT_FAULT_PATTERNS @ WAF_PATTERNS
     @ [''connection refused'', ''errno 61'', ''errno 111'', ''empty response body'', ''empty completion'',
        ''request too large'', ''tpm'', ''try again in'', ''access denied'', ''forbidden'', ''overloaded'', ''bad gateway'',
        ''gateway timeout'', ''timeout'', ''timed out'']"

definition plain_error :: "error_info \<Rightarrow> bool" where
  "plain_error e =
     (\<not> any_in all_patterns (error_message_of e) \<and> limit_and_request (error_message_of e) = None
      \<and> \<not> any_in [''sslerror'', ''ratelimit'', ''connecttimeout''] (lower (ei_type_name e)))"

text \<open>Category, reason, retryable, poisons health and permanent, by status code.\<close>

definition plain_status :: "int option \<Rightarrow> failure_category \<times> failover_reason \<times> bool \<times> bool \<times> bool" where
  "plain_status code =
     (case code of
        None \<Rightarrow> (UNKNOWN_CATEGORY, R_unknown, True, True, False)
      | Some c \<Rightarrow>
          if c = 402 then (RATE_LIMIT, R_billing, False, True, True)
          else if c = 413 then (REQUEST_INCOMPATIBILITY, R_payload_too_large, False, False, False)
          else if c = 429 then (RATE_LIMIT, R_rate_limit, True, True, False)
          else if c = 404 \<or> c = 410 then (REQUEST_INCOMPATIBILITY, R_model_not_found, False, False, True)
          else if c = 401 \<or> c = 403 then (INFRASTRUCTURE, R_auth, False, False, True)
          else if c = 503 \<or> c = 529 then (INFRASTRUCTURE, R_overloaded, True, True, False)
          else if c \<in> {408, 500, 502, 504} then (INFRASTRUCTURE, R_server_error, True, True, False)
          else if 400 \<le> c \<and> c < 500 then (REQUEST_INCOMPATIBILITY, R_client_error, False, False, False)
          else (UNKNOWN_CATEGORY, R_unknown, True, True, False))"

lemma any_in_append: "any_in (xs @ ys) msg = (any_in xs msg \<or> any_in ys msg)"
  by (simp add: any_in_def)

lemma any_in_Cons: "any_in (x # xs) msg = (contains msg x \<or> any_in xs msg)" "any_in [] msg = False"
  by (simp_all add: any_in_def)

lemma plain_patterns:
  assumes "\<not> any_in all_patterns msg"
  shows "\<not> any_in SSL_PATTERNS msg" "\<not> any_in OUTPUT_CAP_PATTERNS msg" "\<not> any_in CONTEXT_OVERFLOW_PATTERNS msg"
    "\<not> any_in BILLING_PATTERNS msg" "\<not> any_in TPM_RATE_LIMIT_PATTERNS msg" "\<not> any_in UPSTREAM_429_PATTERNS msg"
    "\<not> any_in DEPRECATION_PATTERNS msg" "\<not> any_in TOOL_MALFORMED_PATTERNS msg"
    "\<not> any_in SCHEMA_INCOMPATIBILITY_PATTERNS msg" "\<not> any_in CLIENT_FAULT_PATTERNS msg" "\<not> any_in WAF_PATTERNS msg"
    "\<not> contains msg ''connection refused''" "\<not> contains msg ''errno 61''" "\<not> contains msg ''errno 111''"
    "\<not> contains msg ''empty response body''" "\<not> contains msg ''empty completion''" "\<not> contains msg ''request too large''"
    "\<not> contains msg ''tpm''" "\<not> contains msg ''try again in''" "\<not> contains msg ''access denied''" "\<not> contains msg ''forbidden''"
    "\<not> contains msg ''overloaded''" "\<not> contains msg ''bad gateway''" "\<not> contains msg ''gateway timeout''"
    "\<not> contains msg ''timeout''" "\<not> contains msg ''timed out''" "\<not> contains msg ''tokens per minute''"
    "\<not> contains msg ''free-models-per-day''" "\<not> contains msg ''free model requests''"
    "\<not> contains msg ''invalid api key''" "\<not> contains msg ''incorrect api key''" "\<not> contains msg ''unauthorized''"
proof -
  have "\<not> any_in TPM_RATE_LIMIT_PATTERNS msg" "\<not> any_in BILLING_PATTERNS msg" "\<not> any_in CLIENT_FAULT_PATTERNS msg"
    using assms unfolding all_patterns_def any_in_append by blast+
  then show "\<not> contains msg ''tokens per minute''" "\<not> contains msg ''free-models-per-day''" "\<not> contains msg ''free model requests''"
    "\<not> contains msg ''invalid api key''" "\<not> contains msg ''incorrect api key''" "\<not> contains msg ''unauthorized''"
    unfolding TPM_RATE_LIMIT_PATTERNS_def BILLING_PATTERNS_def CLIENT_FAULT_PATTERNS_def any_in_Cons by blast+
qed (use assms in \<open>unfold all_patterns_def any_in_append any_in_Cons; blast\<close>)+

text \<open>
  An error whose text has none of the classifier's patterns is classified by its status code
  alone, as the table \<open>plain_status\<close> says.
\<close>

theorem plain_classified_by_status:
  assumes "plain_error e" and "c = classify_failure env wall e status_code headers"
  shows "(fc_category c, fc_reason c, fc_retryable c, fc_poisons_health c, fc_is_permanent c)
           = plain_status (resolve_code e status_code)"
proof -
  let ?m = "error_message_of e" and ?t = "lower (ei_type_name e)" and ?k = "resolve_code e status_code"
  have p: "\<not> any_in all_patterns ?m" "limit_and_request ?m = None"
    and t: "\<not> contains ?t ''sslerror''" "\<not> contains ?t ''ratelimit''" "\<not> contains ?t ''connecttimeout''"
    using assms(1) by (simp_all add: plain_error_def any_in_Cons)
  note pp = plain_patterns [OF p(1)]
  have o: "\<not> oversized_request ?m" "\<not> temporal_limit ?k ?m"
    unfolding oversized_request_def temporal_limit_def Let_def p(2) using pp by simp_all
  have s: "any_in [''connection refused'', ''errno 61'', ''errno 111''] ?m = False" 
    "any_in [''empty response body'', ''empty completion''] ?m = False"
    "any_in [''free-models-per-day'', ''free model requests''] ?m = False"
    "any_in [''overloaded'', ''bad gateway'', ''gateway timeout''] ?m = False"
    "any_in [''timeout'', ''timed out''] ?m = False"
    "auth_permanent ?k ?m = (?k \<in> {Some 401, Some 403})"
    unfolding any_in_Cons auth_permanent_def using pp by simp_all
  show ?thesis
    unfolding assms(2) classify_failure_def classify_message_def classify_status_def s
    using o t pp by (cases ?k) (simp_all add: plain_status_def classified_def)
qed

theorem plain_classified_by_status_witness:
  "fc_reason (classify_failure sample_classifier_env 0 (error_text ''boom'') (Some 503) []) = R_overloaded"
proof -
  have "plain_error (error_text ''boom'')" by code_simp
  from plain_classified_by_status [OF this refl, of sample_classifier_env 0 "Some 503" "[]"]
  show ?thesis by (simp add: resolve_code_def or_else_def plain_status_def)
qed

text \<open>
  Two consequences worth knowing.  A server error is read as a rate limit when its text invites to
  try again and contains the letters of "rate", as in "generate".  And \<open>classify_api_error\<close> files a
  withdrawn model under its route id, where the candidate check looks for model names, so the route
  stays a candidate.
\<close>

lemma server_error_read_as_rate_limit:
  "fc_reason (classify_failure sample_classifier_env 0 (error_text ''could not generate, try again in a moment'') (Some 500) [])
     = R_rate_limit"
  by code_simp

lemma api_error_deprecates_by_route_id:
  assumes "fc_reason (classify_failure env wall e status_code headers) = R_model_not_found"
    and "lower (ro_model r) \<noteq> lower route_id" and "pool \<noteq> []" and "route_id \<noteq> []"
  shows "route_candidate t w p (snd (classify_api_error env wall e status_code headers (Some pool) (Some route_id) provider m)) r
           = route_candidate t w p m r"
  using assms
  by (simp add: classify_api_error_def Let_def truthy_str_def route_candidate_def route_enabled_def has_key_for_def
      is_route_quota_exhausted_def is_provider_quota_exhausted_def is_route_in_cooldown_def mark_deprecated_def pool_key_def)

end
