(* ===== verification/ToolPass.thy ===== *)
theory ToolPass
  imports DurableLedger ToolValidation Health
begin

text \<open>
  The tool calls of a model response, as \<^verbatim>\<open>GatewayExecutor.execute\<close> processes them
  (\<^verbatim>\<open>execution/executor.py\<close>): registration in the tool ledger, the idempotency receipt, the
  indeterminate block, and validation against the schema of the request.

  The executor takes any tool ledger; \<open>ledger_ops\<close> is the set of methods it calls, with two
  instances: the in-memory ledger and the durable ledger over its store.  A method that raises returns
  the exception with the state reached.
\<close>

section \<open>The ledger interface\<close>

record 'l ledger_ops =
  lo_register :: "time \<Rightarrow> string \<Rightarrow> string \<Rightarrow> string \<Rightarrow> json \<Rightarrow> 'l \<Rightarrow> unit result \<times> 'l"
  lo_check :: "time \<Rightarrow> string \<Rightarrow> string \<Rightarrow> json \<Rightarrow> 'l \<Rightarrow> bool \<times> json option"
  lo_indeterminate :: "string \<Rightarrow> string \<Rightarrow> json \<Rightarrow> 'l \<Rightarrow> bool"
  lo_mark_replayed :: "time \<Rightarrow> string \<Rightarrow> json option \<Rightarrow> 'l \<Rightarrow> unit result \<times> 'l"
  lo_mark_indeterminate :: "time \<Rightarrow> string \<Rightarrow> string \<Rightarrow> 'l \<Rightarrow> unit result \<times> 'l"
  lo_mark_failed :: "time \<Rightarrow> string \<Rightarrow> string \<Rightarrow> 'l \<Rightarrow> unit result \<times> 'l"
  lo_mark_validated :: "time \<Rightarrow> string \<Rightarrow> 'l \<Rightarrow> unit result \<times> 'l"

definition memory_ops :: "digest_env \<Rightarrow> tool_ledger ledger_ops" where
  "memory_ops env =
     \<lparr>lo_register = (\<lambda>now i op name args l. (Inr (), snd (register_tool_call env now i op name args l))),
      lo_check = check_idempotency env,
      lo_indeterminate = has_indeterminate_operation env,
      lo_mark_replayed = (\<lambda>now i r l. (Inr (), mark_replayed now i r l)),
      lo_mark_indeterminate = (\<lambda>now i m l. (Inr (), mark_indeterminate now i m l)),
      lo_mark_failed = (\<lambda>now i m l. (Inr (), mark_failed now i m l)),
      lo_mark_validated = (\<lambda>now i l. (Inr (), mark_validated now i l))\<rparr>"

definition durable_ops :: "digest_env \<Rightarrow> (durable_ledger \<times> 'p sqlite_store) ledger_ops" where
  "durable_ops env =
     \<lparr>lo_register = (\<lambda>now i op name args (d, s).
        case dl_register_tool_call env now i op name args d s of
          (Inl e, l) \<Rightarrow> (Inl e, l) | (Inr _, l) \<Rightarrow> (Inr (), l)),
      lo_check = (\<lambda>now op name args (d, s). dl_check_idempotency env op name args s),
      lo_indeterminate = (\<lambda>op name args (d, s). dl_has_indeterminate_operation env op name args s),
      lo_mark_replayed = (\<lambda>now i r (d, s). (Inr (), d\<lparr>dl_local := mark_replayed now i r (dl_local d)\<rparr>, s)),
      lo_mark_indeterminate = (\<lambda>now i m (d, s). dl_mark_indeterminate now i m d s),
      lo_mark_failed = (\<lambda>now i m (d, s). dl_mark_failed now i m d s),
      lo_mark_validated = (\<lambda>now i (d, s). dl_mark_validated now i d s)\<rparr>"

section \<open>One tool call\<close>

datatype tool_outcome =
    Call_ok normalized_tool_call
  | Call_rejected
  | Call_blocked string
  | Call_raised gateway_error

definition mint_id :: "normalized_request \<Rightarrow> nat \<Rightarrow> nat \<Rightarrow> normalized_tool_call \<Rightarrow> normalized_tool_call" where
  "mint_id rq attempt_idx tc_index c =
     (if tc_id c \<noteq> [] then c
      else c\<lparr>tc_id := ''call_'' @ take 8 (rq_request_id rq) @ ''_'' @ str_of_nat attempt_idx @ ''_'' @ str_of_nat tc_index\<rparr>)"

definition ledger_call_id :: "normalized_request \<Rightarrow> nat \<Rightarrow> normalized_tool_call \<Rightarrow> string" where
  "ledger_call_id rq attempt_idx c = rq_request_id rq @ '':att'' @ str_of_nat attempt_idx @ '':'' @ tc_id c"

definition annotate :: "string \<Rightarrow> json \<Rightarrow> normalized_tool_call \<Rightarrow> normalized_tool_call" where
  "annotate k v c = c\<lparr>tc_metadata := AList.update k v (tc_metadata c)\<rparr>"

definition receipt_json :: "json option \<Rightarrow> json" where
  "receipt_json r = (case r of None \<Rightarrow> JNull | Some j \<Rightarrow> j)"

text \<open>Providers keep malformed tool JSON in \<open>raw_arguments\<close> and expose an empty mapping.\<close>

definition validation_input :: "normalized_tool_call \<Rightarrow> json" where
  "validation_input c =
     (if tc_raw_arguments c \<noteq> [] \<and> \<not> truthy_json (tc_arguments c) then JStr (tc_raw_arguments c) else tc_arguments c)"

definition accept_arguments :: "py_env \<Rightarrow> tool_validation_report \<Rightarrow> normalized_tool_call \<Rightarrow> normalized_tool_call" where
  "accept_arguments env rep c =
     (let args = JObj (vr_validated_arguments rep); c' = c\<lparr>tc_arguments := args\<rparr> in
      if vr_normalizations_applied rep \<noteq> []
      then (annotate ''raw_arguments_before_normalization'' (JStr (tc_raw_arguments c)) c')
             \<lparr>tc_raw_arguments := dumps (py_repr env) args\<rparr>
      else c')"

definition report_message :: "py_env \<Rightarrow> tool_validation_report \<Rightarrow> string" where
  "report_message env rep = (case vr_error rep of None \<Rightarrow> [] | Some x \<Rightarrow> py_message env x)"

text \<open>From the schema lookup on: \<open>wall\<close> is the clock, \<open>eid\<close> the endpoint that answered.\<close>

definition check_call ::
  "py_env \<Rightarrow> tool_call_validator \<Rightarrow> 'l ledger_ops \<Rightarrow> time \<Rightarrow> string \<Rightarrow> normalized_request \<Rightarrow> string
    \<Rightarrow> normalized_tool_call \<Rightarrow> 'l \<Rightarrow> health_store \<Rightarrow> tool_outcome \<times> 'l \<times> health_store" where
  "check_call env tv ops wall eid rq lid c l h =
     (case validate_tool_call env tv (tc_name c) (validation_input c) (tool_schema rq (tc_name c))
             (Some (map nd_name (rq_tools rq))) of
        Inl e \<Rightarrow> (Call_raised e, l, h)
      | Inr rep \<Rightarrow>
          (let h' = record_tool_outcome wall eid (is_executable rep) h in
           if \<not> is_executable rep
           then (case lo_mark_failed ops wall lid (report_message env rep) l of
                   (Inl e, l') \<Rightarrow> (Call_raised e, l', h') | (Inr _, l') \<Rightarrow> (Call_rejected, l', h'))
           else (case lo_mark_validated ops wall lid l of
                   (Inl e, l') \<Rightarrow> (Call_raised e, l', h')
                 | (Inr _, l') \<Rightarrow> (Call_ok (accept_arguments env rep c), l', h'))))"

definition process_call ::
  "py_env \<Rightarrow> tool_call_validator \<Rightarrow> 'l ledger_ops \<Rightarrow> time \<Rightarrow> string \<Rightarrow> normalized_request \<Rightarrow> nat \<Rightarrow> nat
    \<Rightarrow> normalized_tool_call \<Rightarrow> 'l \<Rightarrow> health_store \<Rightarrow> tool_outcome \<times> 'l \<times> health_store" where
  "process_call env tv ops wall eid rq attempt_idx tc_index c0 l h =
     (let c = mint_id rq attempt_idx tc_index c0; lid = ledger_call_id rq attempt_idx c;
          op = rq_request_id rq; c1 = annotate ''ledger_call_id'' (JStr lid) c in
      case lo_register ops wall lid op (tc_name c) (tc_arguments c) l of
        (Inl e, l1) \<Rightarrow> (Call_raised e, l1, h)
      | (Inr _, l1) \<Rightarrow>
          (case lo_check ops wall op (tc_name c) (tc_arguments c) l1 of
             (has_receipt, receipt) \<Rightarrow>
               if has_receipt then
                 (case lo_mark_replayed ops wall lid receipt l1 of
                    (Inl e, l2) \<Rightarrow> (Call_raised e, l2, h)
                  | (Inr _, l2) \<Rightarrow>
                      check_call env tv ops wall eid rq lid
                        (annotate ''execution_receipt'' (receipt_json receipt) (annotate ''replayed'' (JBool True) c1)) l2 h)
               else if lo_indeterminate ops op (tc_name c) (tc_arguments c) l1 then
                 (case lo_mark_indeterminate ops wall lid ''A prior submission has no durable acknowledgement'' l1 of
                    (Inl e, l2) \<Rightarrow> (Call_raised e, l2, h)
                  | (Inr _, l2) \<Rightarrow> (Call_blocked (tc_name c), l2, h))
               else check_call env tv ops wall eid rq lid c1 l1 h))"

section \<open>All calls of a response\<close>

datatype pass_outcome =
    Pass_ok "normalized_tool_call list"
  | Pass_rejected
  | Pass_blocked string
  | Pass_raised gateway_error

fun process_calls ::
  "py_env \<Rightarrow> tool_call_validator \<Rightarrow> 'l ledger_ops \<Rightarrow> time \<Rightarrow> string \<Rightarrow> normalized_request \<Rightarrow> nat \<Rightarrow> nat
    \<Rightarrow> normalized_tool_call list \<Rightarrow> 'l \<Rightarrow> health_store \<Rightarrow> pass_outcome \<times> 'l \<times> health_store" where
  "process_calls env tv ops wall eid rq attempt_idx i [] l h = (Pass_ok [], l, h)"
| "process_calls env tv ops wall eid rq attempt_idx i (c # cs) l h =
     (case process_call env tv ops wall eid rq attempt_idx i c l h of
        (Call_ok c', l', h') \<Rightarrow>
          (case process_calls env tv ops wall eid rq attempt_idx (Suc i) cs l' h' of
             (Pass_ok cs', r) \<Rightarrow> (Pass_ok (c' # cs'), r)
           | (x, r) \<Rightarrow> (x, r))
      | (Call_rejected, r) \<Rightarrow> (Pass_rejected, r)
      | (Call_blocked name, r) \<Rightarrow> (Pass_blocked name, r)
      | (Call_raised e, r) \<Rightarrow> (Pass_raised e, r))"

section \<open>What is handed to the tool runner\<close>

text \<open>
  A call may be handed over in the ledger state \<open>l\<close>: it carries the receipt the ledger has for its
  operation.  \<open>not_in_doubt\<close>: or the operation has no unacknowledged submission.
\<close>

definition receipt_honoured ::
  "'l ledger_ops \<Rightarrow> time \<Rightarrow> normalized_request \<Rightarrow> 'l \<Rightarrow> normalized_tool_call \<Rightarrow> normalized_tool_call \<Rightarrow> bool" where
  "receipt_honoured ops wall rq l c0 c =
     (case lo_check ops wall (rq_request_id rq) (tc_name c0) (tc_arguments c0) l of
        (has_receipt, receipt) \<Rightarrow>
          has_receipt \<longrightarrow> map_of (tc_metadata c) ''replayed'' = Some (JBool True)
            \<and> map_of (tc_metadata c) ''execution_receipt'' = Some (receipt_json receipt))"

definition not_in_doubt ::
  "'l ledger_ops \<Rightarrow> time \<Rightarrow> normalized_request \<Rightarrow> 'l \<Rightarrow> normalized_tool_call \<Rightarrow> bool" where
  "not_in_doubt ops wall rq l c0 =
     (fst (lo_check ops wall (rq_request_id rq) (tc_name c0) (tc_arguments c0) l)
      \<or> \<not> lo_indeterminate ops (rq_request_id rq) (tc_name c0) (tc_arguments c0) l)"

definition arguments_accepted :: "normalized_request \<Rightarrow> normalized_tool_call \<Rightarrow> bool" where
  "arguments_accepted rq c =
     (tc_name c \<in> set (map nd_name (rq_tools rq))
      \<and> (\<exists>d. tc_arguments c = JObj d
            \<and> (\<forall>schema params. tool_schema rq (tc_name c) = Some schema \<longrightarrow> wf_json schema \<longrightarrow>
                 schema_params (Some schema) = Inr (Some params) \<longrightarrow> conforms params d)))"

lemma annotate_sel [simp]:
  "tc_name (annotate k v c) = tc_name c" "tc_arguments (annotate k v c) = tc_arguments c"
  "tc_raw_arguments (annotate k v c) = tc_raw_arguments c" "tc_id (annotate k v c) = tc_id c"
  "map_of (tc_metadata (annotate k v c)) k' = (if k' = k then Some v else map_of (tc_metadata c) k')"
  by (simp_all add: annotate_def)

lemma mint_id_sel [simp]:
  "tc_name (mint_id rq a i c) = tc_name c" "tc_arguments (mint_id rq a i c) = tc_arguments c"
  "tc_raw_arguments (mint_id rq a i c) = tc_raw_arguments c"
  by (simp_all add: mint_id_def)

lemma accept_arguments_sel:
  "tc_name (accept_arguments env rep c) = tc_name c"
  "tc_arguments (accept_arguments env rep c) = JObj (vr_validated_arguments rep)"
  "k \<noteq> ''raw_arguments_before_normalization'' \<Longrightarrow>
     map_of (tc_metadata (accept_arguments env rep c)) k = map_of (tc_metadata c) k"
  by (simp_all add: accept_arguments_def Let_def)

lemma check_call_ok:
  assumes "check_call env tv ops wall eid rq lid c l h = (Call_ok c', l', h')"
  shows "arguments_accepted rq c' \<and> tc_name c' = tc_name c \<and> l' = snd (lo_mark_validated ops wall lid l)
    \<and> (\<forall>k. k \<noteq> ''raw_arguments_before_normalization'' \<longrightarrow> map_of (tc_metadata c') k = map_of (tc_metadata c) k)"
proof -
  obtain rep where rep: "validate_tool_call env tv (tc_name c) (validation_input c) (tool_schema rq (tc_name c))
      (Some (map nd_name (rq_tools rq))) = Inr rep" "is_executable rep" "c' = accept_arguments env rep c"
      "l' = snd (lo_mark_validated ops wall lid l)"
    using assms by (auto simp: check_call_def Let_def split: sum.splits if_splits prod.splits)
  have name: "tc_name c \<in> set (map nd_name (rq_tools rq))"
    using executable_report [OF rep(1,2)] by metis
  have "conforms params (vr_validated_arguments rep)"
    if "tool_schema rq (tc_name c) = Some schema" "wf_json schema" "schema_params (Some schema) = Inr (Some params)" for schema params
    using accepted_conforms [OF rep(1) [unfolded that(1)] rep(2) that(2)] that(3) by blast
  with name rep(3,4) show ?thesis by (auto simp: arguments_accepted_def accept_arguments_sel)
qed

lemma process_call_ok:
  assumes "process_call env tv ops wall eid rq a i c0 l h = (Call_ok c, l', h')"
  defines "lid \<equiv> ledger_call_id rq a (mint_id rq a i c0)"
  shows "\<exists>l1 l2 receipt. lo_register ops wall lid (rq_request_id rq) (tc_name c0) (tc_arguments c0) l = (Inr (), l1)
    \<and> l2 \<in> {l1, snd (lo_mark_replayed ops wall lid receipt l1)} \<and> l' = snd (lo_mark_validated ops wall lid l2)
    \<and> receipt_honoured ops wall rq l1 c0 c \<and> not_in_doubt ops wall rq l1 c0
    \<and> arguments_accepted rq c \<and> tc_name c = tc_name c0
    \<and> map_of (tc_metadata c) ''ledger_call_id'' = Some (JStr lid)"
proof -
  let ?c = "annotate ''ledger_call_id'' (JStr lid) (mint_id rq a i c0)"
  obtain u l1 where reg: "lo_register ops wall lid (rq_request_id rq) (tc_name c0) (tc_arguments c0) l = (Inr u, l1)"
    using assms(1) by (auto simp: process_call_def Let_def lid_def split: prod.splits sum.splits)
  obtain b r where chk: "lo_check ops wall (rq_request_id rq) (tc_name c0) (tc_arguments c0) l1 = (b, r)"
    by fastforce
  show ?thesis
  proof (cases b)
    case True
    let ?c' = "annotate ''execution_receipt'' (receipt_json r) (annotate ''replayed'' (JBool True) ?c)"
    obtain v l2 where rep: "lo_mark_replayed ops wall lid r l1 = (Inr v, l2)"
      and ok: "check_call env tv ops wall eid rq lid ?c' l2 h = (Call_ok c, l', h')"
      using assms(1) reg chk True by (auto simp: process_call_def Let_def lid_def [symmetric] split: prod.splits sum.splits)
    then show ?thesis using reg chk True check_call_ok [OF ok]
      by (intro exI [of _ l1] exI [of _ l2] exI [of _ r]) (simp add: receipt_honoured_def not_in_doubt_def)
  next
    case False
    have ok: "check_call env tv ops wall eid rq lid ?c l1 h = (Call_ok c, l', h')"
      and nd: "\<not> lo_indeterminate ops (rq_request_id rq) (tc_name c0) (tc_arguments c0) l1"
      using assms(1) reg chk False
      by (auto simp: process_call_def Let_def lid_def [symmetric] split: prod.splits sum.splits if_splits)
    then show ?thesis using reg chk False check_call_ok [OF ok]
      by (intro exI [of _ l1]) (auto simp: receipt_honoured_def not_in_doubt_def)
  qed
qed

section \<open>What the executor relies on\<close>

text \<open>
  The contract of a ledger: no call of the pass adds, drops or changes a receipt.  A ledger that also
  never forgets a submission whose outcome is unknown extends it.
\<close>

locale receipt_ledger =
  fixes ops :: "'l ledger_ops" and inv :: "'l \<Rightarrow> bool"
  assumes register_keeps: "inv l \<Longrightarrow> lo_register ops now i o1 n1 a1 l = (Inr u, l') \<Longrightarrow>
      inv l' \<and> lo_check ops now op n a l' = lo_check ops now op n a l"
    and replayed_keeps: "inv l \<Longrightarrow>
      inv (snd (lo_mark_replayed ops now i r l)) \<and>
      lo_check ops now op n a (snd (lo_mark_replayed ops now i r l)) = lo_check ops now op n a l"
    and validated_keeps: "inv l \<Longrightarrow>
      inv (snd (lo_mark_validated ops now i l)) \<and>
      lo_check ops now op n a (snd (lo_mark_validated ops now i l)) = lo_check ops now op n a l"
begin

lemma call_keeps:
  assumes "process_call env tv ops wall eid rq a i c0 l h = (Call_ok c, l', h')" "inv l"
  shows "inv l'" and "lo_check ops wall op n ar l' = lo_check ops wall op n ar l"
    and "receipt_honoured ops wall rq l c0 c"
proof -
  obtain l1 l2 r where p: "lo_register ops wall (ledger_call_id rq a (mint_id rq a i c0)) (rq_request_id rq) (tc_name c0)
        (tc_arguments c0) l = (Inr (), l1)"
      "l2 \<in> {l1, snd (lo_mark_replayed ops wall (ledger_call_id rq a (mint_id rq a i c0)) r l1)}"
      "l' = snd (lo_mark_validated ops wall (ledger_call_id rq a (mint_id rq a i c0)) l2)"
      "receipt_honoured ops wall rq l1 c0 c"
    using process_call_ok [OF assms(1)] by blast
  note r = register_keeps [OF assms(2) p(1)]
  have l2: "inv l2 \<and> lo_check ops wall op n ar l2 = lo_check ops wall op n ar l" for op n ar
    using p(2) r [of op n ar] replayed_keeps [of l1] by auto
  show "inv l'" using validated_keeps [OF l2 [THEN conjunct1]] p(3) by simp
  show "lo_check ops wall op n ar l' = lo_check ops wall op n ar l"
    using validated_keeps [OF l2 [THEN conjunct1]] l2 p(3) by simp
  show "receipt_honoured ops wall rq l c0 c" using p(4) r by (simp add: receipt_honoured_def)
qed

lemma pass_keeps:
  "process_calls env tv ops wall eid rq a i cs l h = (Pass_ok cs', l', h') \<Longrightarrow> inv l \<Longrightarrow>
   inv l' \<and> lo_check ops wall op n ar l' = lo_check ops wall op n ar l"
proof (induction cs arbitrary: i l h cs')
  case (Cons c cs)
  obtain c' l1 h1 cs1 where one: "process_call env tv ops wall eid rq a i c l h = (Call_ok c', l1, h1)"
    and rest: "process_calls env tv ops wall eid rq a (Suc i) cs l1 h1 = (Pass_ok cs1, l', h')"
    using Cons.prems(1) by (auto split: prod.splits tool_outcome.splits pass_outcome.splits)
  from Cons.IH [OF rest call_keeps(1) [OF one Cons.prems(2)]] call_keeps(2) [OF one Cons.prems(2)] show ?case by simp
qed simp

lemma pass_honours:
  "process_calls env tv ops wall eid rq a i cs l h = (Pass_ok cs', l', h') \<Longrightarrow> inv l \<Longrightarrow>
   inv l' \<and> list_all2 (\<lambda>c0 c. arguments_accepted rq c \<and> tc_name c = tc_name c0 \<and> receipt_honoured ops wall rq l c0 c) cs cs'"
proof (induction cs arbitrary: i l h cs')
  case (Cons c cs)
  obtain c' l1 h1 cs1 where one: "process_call env tv ops wall eid rq a i c l h = (Call_ok c', l1, h1)"
    and rest: "process_calls env tv ops wall eid rq a (Suc i) cs l1 h1 = (Pass_ok cs1, l', h')" "cs' = c' # cs1"
    using Cons.prems(1) by (auto split: prod.splits tool_outcome.splits pass_outcome.splits)
  note k = call_keeps [OF one Cons.prems(2)]
  have "receipt_honoured ops wall rq l1 = receipt_honoured ops wall rq l"
    by (simp add: receipt_honoured_def k(2) fun_eq_iff)
  moreover have "arguments_accepted rq c' \<and> tc_name c' = tc_name c"
    using process_call_ok [OF one] by blast
  ultimately show ?case using Cons.IH [OF rest(1) k(1)] k(3) rest(2) by simp
qed simp

end

locale doubt_ledger = receipt_ledger ops inv for ops :: "'l ledger_ops" and inv :: "'l \<Rightarrow> bool" +
  assumes register_doubt: "inv l \<Longrightarrow> lo_register ops now i o1 n1 a1 l = (Inr u, l') \<Longrightarrow>
      lo_indeterminate ops op n a l' = lo_indeterminate ops op n a l"
    and replayed_doubt: "inv l \<Longrightarrow>
      lo_indeterminate ops op n a (snd (lo_mark_replayed ops now i r l)) = lo_indeterminate ops op n a l"
    and validated_doubt: "inv l \<Longrightarrow>
      lo_indeterminate ops op n a (snd (lo_mark_validated ops now i l)) = lo_indeterminate ops op n a l"
begin

lemma call_keeps_doubt:
  assumes "process_call env tv ops wall eid rq a i c0 l h = (Call_ok c, l', h')" "inv l"
  shows "lo_indeterminate ops op n ar l' = lo_indeterminate ops op n ar l" and "not_in_doubt ops wall rq l c0"
proof -
  obtain l1 l2 r where p: "lo_register ops wall (ledger_call_id rq a (mint_id rq a i c0)) (rq_request_id rq) (tc_name c0)
        (tc_arguments c0) l = (Inr (), l1)"
      "l2 \<in> {l1, snd (lo_mark_replayed ops wall (ledger_call_id rq a (mint_id rq a i c0)) r l1)}"
      "l' = snd (lo_mark_validated ops wall (ledger_call_id rq a (mint_id rq a i c0)) l2)"
      "not_in_doubt ops wall rq l1 c0"
    using process_call_ok [OF assms(1)] by blast
  note r = register_keeps [OF assms(2) p(1)] register_doubt [OF assms(2) p(1)]
  have l2: "inv l2 \<and> lo_indeterminate ops op n ar l2 = lo_indeterminate ops op n ar l" for op n ar
    using p(2) r replayed_doubt [of l1] replayed_keeps [of l1] by auto
  show "lo_indeterminate ops op n ar l' = lo_indeterminate ops op n ar l"
    using validated_doubt [OF l2 [THEN conjunct1]] l2 p(3) by simp
  show "not_in_doubt ops wall rq l c0" using p(4) r by (simp add: not_in_doubt_def)
qed

lemma pass_keeps_doubt:
  "process_calls env tv ops wall eid rq a i cs l h = (Pass_ok cs', l', h') \<Longrightarrow> inv l \<Longrightarrow>
   lo_indeterminate ops op n ar l' = lo_indeterminate ops op n ar l"
proof (induction cs arbitrary: i l h cs')
  case (Cons c cs)
  obtain c' l1 h1 cs1 where one: "process_call env tv ops wall eid rq a i c l h = (Call_ok c', l1, h1)"
    and rest: "process_calls env tv ops wall eid rq a (Suc i) cs l1 h1 = (Pass_ok cs1, l', h')"
    using Cons.prems(1) by (auto split: prod.splits tool_outcome.splits pass_outcome.splits)
  from Cons.IH [OF rest call_keeps(1) [OF one Cons.prems(2)]] call_keeps_doubt(1) [OF one Cons.prems(2)] show ?case by simp
qed simp

lemma pass_not_in_doubt:
  "process_calls env tv ops wall eid rq a i cs l h = (Pass_ok cs', l', h') \<Longrightarrow> inv l \<Longrightarrow>
   list_all (not_in_doubt ops wall rq l) cs"
proof (induction cs arbitrary: i l h cs')
  case (Cons c cs)
  obtain c' l1 h1 cs1 where one: "process_call env tv ops wall eid rq a i c l h = (Call_ok c', l1, h1)"
    and rest: "process_calls env tv ops wall eid rq a (Suc i) cs l1 h1 = (Pass_ok cs1, l', h')"
    using Cons.prems(1) by (auto split: prod.splits tool_outcome.splits pass_outcome.splits)
  have "not_in_doubt ops wall rq l1 = not_in_doubt ops wall rq l"
    by (simp add: not_in_doubt_def fun_eq_iff call_keeps(2) [OF one Cons.prems(2)] call_keeps_doubt(1) [OF one Cons.prems(2)])
  then show ?case
    using Cons.IH [OF rest call_keeps(1) [OF one Cons.prems(2)]] call_keeps_doubt(2) [OF one Cons.prems(2)] by simp
qed simp

end

text \<open>Every method moves the ledger up an order, whether it returns or raises.\<close>

locale ordered_ledger =
  fixes ops :: "'l ledger_ops" and inv :: "'l \<Rightarrow> bool" and le :: "'l \<Rightarrow> 'l \<Rightarrow> bool"
  assumes le_refl: "le l l"
    and le_trans: "le l1 l2 \<Longrightarrow> le l2 l3 \<Longrightarrow> le l1 l3"
    and register_le: "inv l \<Longrightarrow> inv (snd (lo_register ops now i op n a l)) \<and> le l (snd (lo_register ops now i op n a l))"
    and replayed_le: "inv l \<Longrightarrow> inv (snd (lo_mark_replayed ops now i r l)) \<and> le l (snd (lo_mark_replayed ops now i r l))"
    and indeterminate_le:
      "inv l \<Longrightarrow> inv (snd (lo_mark_indeterminate ops now i m l)) \<and> le l (snd (lo_mark_indeterminate ops now i m l))"
    and failed_le: "inv l \<Longrightarrow> inv (snd (lo_mark_failed ops now i m l)) \<and> le l (snd (lo_mark_failed ops now i m l))"
    and validated_le: "inv l \<Longrightarrow> inv (snd (lo_mark_validated ops now i l)) \<and> le l (snd (lo_mark_validated ops now i l))"
begin

lemma up: "inv l \<Longrightarrow> inv l1 \<and> le l l1 \<Longrightarrow> (inv l1 \<Longrightarrow> inv l2 \<and> le l1 l2) \<Longrightarrow> inv l2 \<and> le l l2"
  using le_trans by blast

lemma check_le:
  assumes "inv l"
  shows "inv (fst (snd (check_call env tv ops wall eid rq lid c l h))) \<and> le l (fst (snd (check_call env tv ops wall eid rq lid c l h)))"
proof (cases "validate_tool_call env tv (tc_name c) (validation_input c) (tool_schema rq (tc_name c)) (Some (map nd_name (rq_tools rq)))")
  case (Inl e)
  then show ?thesis using assms le_refl by (simp add: check_call_def)
next
  case (Inr rep)
  then show ?thesis
    using failed_le [OF assms, of wall lid "report_message env rep"] validated_le [OF assms, of wall lid]
    by (auto simp: check_call_def Let_def split: sum.splits prod.splits)
qed

lemma call_le:
  assumes "inv l"
  shows "inv (fst (snd (process_call env tv ops wall eid rq a i c0 l h)))
    \<and> le l (fst (snd (process_call env tv ops wall eid rq a i c0 l h)))"
proof -
  let ?c = "mint_id rq a i c0"
  let ?lid = "ledger_call_id rq a ?c"
  obtain u l1 where reg: "lo_register ops wall ?lid (rq_request_id rq) (tc_name ?c) (tc_arguments ?c) l = (u, l1)" by fastforce
  have one: "inv l1 \<and> le l l1" using register_le [OF assms] by (metis reg snd_conv)
  obtain b r where chk: "lo_check ops wall (rq_request_id rq) (tc_name ?c) (tc_arguments ?c) l1 = (b, r)" by fastforce
  obtain v l2 where rep: "lo_mark_replayed ops wall ?lid r l1 = (v, l2)" by fastforce
  have two: "inv l2 \<and> le l l2" using up [OF assms one] replayed_le by (metis rep snd_conv)
  obtain w l3 where ind: "lo_mark_indeterminate ops wall ?lid ''A prior submission has no durable acknowledgement'' l1 = (w, l3)"
    by fastforce
  have three: "inv l3 \<and> le l l3" using up [OF assms one] indeterminate_le by (metis ind snd_conv)
  note c1 = up [OF assms one check_le] and c2 = up [OF assms two check_le]
  show ?thesis using one two three c1 c2 reg chk rep ind
    by (simp add: process_call_def Let_def split: sum.split)
qed

lemma pass_le:
  "process_calls env tv ops wall eid rq a i cs l h = (p, l', h') \<Longrightarrow> inv l \<Longrightarrow> inv l' \<and> le l l'"
proof (induction cs arbitrary: i l h p l' h')
  case (Cons c cs)
  obtain o1 l1 h1 where one: "process_call env tv ops wall eid rq a i c l h = (o1, l1, h1)" by (metis prod_cases3)
  have l1: "inv l1 \<and> le l l1" using call_le [OF Cons.prems(2)] by (metis one fst_conv snd_conv)
  show ?case
  proof (cases "\<exists>c'. o1 = Call_ok c'")
    case True
    then obtain c' where o1: "o1 = Call_ok c'" by blast
    obtain q l2 h2 where two: "process_calls env tv ops wall eid rq a (Suc i) cs l1 h1 = (q, l2, h2)" by (metis prod_cases3)
    have "l' = l2" using Cons.prems(1) one two o1 by (auto split: pass_outcome.splits)
    then show ?thesis using Cons.IH [OF two] l1 le_trans by blast
  next
    case False
    then have "l' = l1" using Cons.prems(1) one by (auto split: tool_outcome.splits)
    then show ?thesis using l1 by simp
  qed
qed (use le_refl in auto)

end

section \<open>The two ledgers\<close>

definition live_receipt :: "rat option \<Rightarrow> time \<Rightarrow> (json \<times> time) option \<Rightarrow> bool \<times> json option" where
  "live_receipt ttl now e =
     (case e of None \<Rightarrow> (False, None)
      | Some (receipt, stamp) \<Rightarrow> if past_ttl ttl now stamp then (False, None) else (True, Some receipt))"

lemma check_idempotency_live:
  "check_idempotency env now op n a l =
     live_receipt (tl_ttl l) now (map_of (tl_receipts l) (op_key op n (compute_arguments_hash env a)))"
  by (simp add: check_idempotency_def live_receipt_def)

lemma evicted_receipt:
  "distinct (map fst d) \<Longrightarrow> live_receipt ttl now (map_of (evict_ttl ttl now snd d) k) = live_receipt ttl now (map_of d k)"
proof (induction d)
  case (Cons p d)
  have "map_of d (fst p) = None" using Cons.prems by (simp add: map_of_eq_None_iff)
  with Cons show ?case by (cases p) (auto simp: live_receipt_def)
qed simp

lemma length_evict_ttl: "length (evict_ttl ttl now stamp d) \<le> length d"
  by (induction d) auto

lemma memory_register_check:
  assumes "ledger_inv m l"
  shows "check_idempotency env now op n a (snd (register_tool_call env now i o1 n1 a1 l)) = check_idempotency env now op n a l"
proof (cases "map_of (tl_records l) i")
  case None
  have "length (evict_ttl (tl_ttl l) now snd (tl_receipts l)) \<le> m" "tl_max_records l = m" "distinct (map fst (tl_receipts l))"
    using assms length_evict_ttl [of "tl_ttl l" now snd "tl_receipts l"] by (auto simp: ledger_inv_def)
  with None show ?thesis
    by (simp add: register_tool_call_def Let_def evict_def check_idempotency_live evict_len_id evicted_receipt)
qed (simp add: register_tool_call_def)

lemma update_record_receipts [simp]:
  "tl_receipts (update_record i f l) = tl_receipts l" "tl_ttl (update_record i f l) = tl_ttl l"
  by (simp_all add: update_record_def split: option.split)

lemma mark_receipts:
  "tl_receipts (mark_replayed now i r l) = tl_receipts l" "tl_ttl (mark_replayed now i r l) = tl_ttl l"
  "tl_receipts (mark_validated now i l) = tl_receipts l" "tl_ttl (mark_validated now i l) = tl_ttl l"
  by (simp_all add: mark_replayed_def mark_validated_def)

lemma memory_step_inv:
  "ledger_inv m l \<Longrightarrow> ledger_inv m (snd (register_tool_call env now i op n a l))"
  "ledger_inv m l \<Longrightarrow> ledger_inv m (mark_replayed now i r l)"
  "ledger_inv m l \<Longrightarrow> ledger_inv m (mark_validated now i l)"
  using ledger_step_inv [of m l undefined "Replayed now i r"] ledger_step_inv [of m l undefined "Validated now i"]
    ledger_step_inv [of m l env "Register now i op n a"] by simp_all

interpretation memory_pass: receipt_ledger "memory_ops env" "ledger_inv m"
proof
  fix l now i o1 n1 a1 u l' op n a
  assume "ledger_inv m l" "lo_register (memory_ops env) now i o1 n1 a1 l = (Inr u, l')"
  then show "ledger_inv m l' \<and> lo_check (memory_ops env) now op n a l' = lo_check (memory_ops env) now op n a l"
    using memory_step_inv(1) memory_register_check by (auto simp: memory_ops_def)
qed (auto simp: memory_ops_def memory_step_inv check_idempotency_live mark_receipts)

text \<open>What the two questions see of a stored operation.\<close>

definition op_view :: "stored_operation option \<Rightarrow> json option \<times> bool" where
  "op_view e =
     (case e of None \<Rightarrow> (None, False)
      | Some op \<Rightarrow> (if so_status op = COMMITTED then so_execution_receipt op else None, operation_requires_manual_resolution op))"

definition same_ops_view :: "'p sqlite_store \<Rightarrow> 'p sqlite_store \<Rightarrow> bool" where
  "same_ops_view s s' = (\<forall>k. op_view (map_of (st_operations s') k) = op_view (map_of (st_operations s) k))"

lemma durable_check_view:
  "dl_check_idempotency env op n a s =
     (case fst (op_view (operation_for_key env op n (compute_arguments_hash env a) s)) of
        None \<Rightarrow> (False, None) | Some r \<Rightarrow> (True, Some r))"
  "dl_has_indeterminate_operation env op n a s = snd (op_view (operation_for_key env op n (compute_arguments_hash env a) s))"
  by (auto simp: dl_check_idempotency_def dl_has_indeterminate_operation_def op_view_def split: option.split)

lemma same_ops_view_answers:
  assumes "same_ops_view s s'"
  shows "dl_check_idempotency env op n a s' = dl_check_idempotency env op n a s"
    and "dl_has_indeterminate_operation env op n a s' = dl_has_indeterminate_operation env op n a s"
  using assms by (simp_all add: durable_check_view operation_for_key_def same_ops_view_def)

lemma prepare_view: "same_ops_view s (snd (prepare_operation env now c l t h args s))"
proof -
  have "op_view (map_of (insert_operation env now l t h args (st_operations s)) k) = op_view (map_of (st_operations s) k)" for k
    by (auto simp: insert_operation_def Let_def op_view_def operation_requires_manual_resolution_def split: option.split)
  then show ?thesis by (auto simp: same_ops_view_def prepare_operation_def Let_def split: option.splits)
qed

lemma validated_view: "store_inv s \<Longrightarrow> same_ops_view s (snd (mark_operation_validated now c s))"
  by (auto simp: same_ops_view_def mark_operation_validated_def update_operation_get op_view_def operation_requires_manual_resolution_def
      dest!: operation_for_call_key split: option.split)

lemma durable_register:
  assumes "store_inv s"
  shows "store_inv (snd (snd (dl_register_tool_call env now i op n a d s)))"
    and "same_ops_view s (snd (snd (dl_register_tool_call env now i op n a d s)))"
  using prepare_step [OF assms] prepare_view [of s]
  by (auto simp: dl_register_tool_call_def safe_step_def split: prod.splits sum.splits) (metis snd_conv)+

lemma durable_validated:
  assumes "store_inv s"
  shows "store_inv (snd (snd (dl_mark_validated now i d s)))" and "same_ops_view s (snd (snd (dl_mark_validated now i d s)))"
  using validated_step [OF assms] validated_view [OF assms] assms
  by (auto simp: dl_mark_validated_def safe_step_def same_ops_view_def split: prod.splits sum.splits option.splits) (metis snd_conv)+

lemma durable_ops_register:
  "lo_register (durable_ops env) now i op n a (d, s) = (r, l') \<Longrightarrow> l' = snd (dl_register_tool_call env now i op n a d s)"
  by (auto simp: durable_ops_def split: prod.splits sum.splits)

interpretation durable_pass: doubt_ledger "durable_ops env :: (durable_ledger \<times> 'p sqlite_store) ledger_ops" "\<lambda>(d, s). store_inv s"
proof
  fix l now i o1 n1 a1 u l' op n a
  assume *: "case l of (d, s) \<Rightarrow> store_inv s" "lo_register (durable_ops env) now i o1 n1 a1 l = (Inr u, l')"
  obtain d s d' s' where l: "l = (d, s)" "l' = (d', s')" by fastforce
  with * have s': "s' = snd (snd (dl_register_tool_call env now i o1 n1 a1 d s))"
    using durable_ops_register [of env now i o1 n1 a1 d s "Inr u" l'] by (metis snd_conv)
  note k = durable_register [of s env now i o1 n1 a1 d]
  show "(case l' of (d, s) \<Rightarrow> store_inv s) \<and> lo_check (durable_ops env) now op n a l' = lo_check (durable_ops env) now op n a l"
    using k * l s' same_ops_view_answers(1) by (auto simp: durable_ops_def)
  show "lo_indeterminate (durable_ops env) op n a l' = lo_indeterminate (durable_ops env) op n a l"
    using * l s' same_ops_view_answers(2) [OF k(2)] by (simp add: durable_ops_def)
next
  fix l :: "durable_ledger \<times> 'p sqlite_store" and now i op n a
  assume *: "case l of (d, s) \<Rightarrow> store_inv s"
  obtain d s where l: "l = (d, s)" by fastforce
  obtain x d' s' where v: "dl_mark_validated now i d s = (x, d', s')" by (metis prod_cases3)
  note k = durable_validated [of s now i d, unfolded v snd_conv]
  show "(case snd (lo_mark_validated (durable_ops env) now i l) of (d, s) \<Rightarrow> store_inv s)
      \<and> lo_check (durable_ops env) now op n a (snd (lo_mark_validated (durable_ops env) now i l)) = lo_check (durable_ops env) now op n a l"
    using k * l v same_ops_view_answers(1) by (auto simp: durable_ops_def)
  show "lo_indeterminate (durable_ops env) op n a (snd (lo_mark_validated (durable_ops env) now i l))
      = lo_indeterminate (durable_ops env) op n a l"
    using * l v same_ops_view_answers(2) [OF k(2)] by (simp add: durable_ops_def)
qed (auto simp: durable_ops_def)

lemma durable_steps:
  assumes "store_inv s"
  shows "safe_step s (snd (snd (dl_register_tool_call env now i op n a d s)))"
    and "safe_step s (snd (snd (dl_mark_validated now i d s)))"
    and "safe_step s (snd (snd (dl_mark_failed now i m d s)))"
    and "safe_step s (snd (snd (dl_mark_indeterminate now i m d s)))"
  using prepare_step [OF assms] validated_step [OF assms] failed_step [OF assms] indeterminate_step [OF assms] safe_same [OF assms]
  by (auto simp: dl_register_tool_call_def dl_mark_validated_def dl_mark_failed_def dl_mark_indeterminate_def
      split: prod.splits sum.splits option.splits) (metis snd_conv)+

interpretation durable_order: ordered_ledger "durable_ops env :: (durable_ledger \<times> 'p sqlite_store) ledger_ops"
  "\<lambda>(d, s). store_inv s" "\<lambda>(d, s) (d', s'). store_le s s'"
proof
  fix l :: "durable_ledger \<times> 'p sqlite_store" and now i op n a m
  assume inv: "case l of (d, s) \<Rightarrow> store_inv s"
  obtain d s where l: "l = (d, s)" by fastforce
  with inv have s: "store_inv s" by simp
  show "(case snd (lo_register (durable_ops env) now i op n a l) of (d, s) \<Rightarrow> store_inv s)
      \<and> (case l of (d, s) \<Rightarrow> \<lambda>(d', s'). store_le s s') (snd (lo_register (durable_ops env) now i op n a l))"
    using durable_steps(1) [OF s, of env now i op n a d]
    by (auto simp: l durable_ops_def safe_step_def split: sum.splits prod.splits)
  show "(case snd (lo_mark_indeterminate (durable_ops env) now i m l) of (d, s) \<Rightarrow> store_inv s)
      \<and> (case l of (d, s) \<Rightarrow> \<lambda>(d', s'). store_le s s') (snd (lo_mark_indeterminate (durable_ops env) now i m l))"
    using durable_steps(4) [OF s, of now i m d] by (auto simp: l durable_ops_def safe_step_def split: prod.splits)
  show "(case snd (lo_mark_failed (durable_ops env) now i m l) of (d, s) \<Rightarrow> store_inv s)
      \<and> (case l of (d, s) \<Rightarrow> \<lambda>(d', s'). store_le s s') (snd (lo_mark_failed (durable_ops env) now i m l))"
    using durable_steps(3) [OF s, of now i m d] by (auto simp: l durable_ops_def safe_step_def split: prod.splits)
  show "(case snd (lo_mark_validated (durable_ops env) now i l) of (d, s) \<Rightarrow> store_inv s)
      \<and> (case l of (d, s) \<Rightarrow> \<lambda>(d', s'). store_le s s') (snd (lo_mark_validated (durable_ops env) now i l))"
    using durable_steps(2) [OF s, of now i d] by (auto simp: l durable_ops_def safe_step_def split: prod.splits)
qed (auto simp: durable_ops_def intro: store_le_refl elim: store_le_trans)

text \<open>What the durable ledger knows about the operation of \<open>c0\<close> in the store \<open>s\<close>, and what \<open>c\<close> says of it.\<close>

definition call_agrees :: "digest_env \<Rightarrow> string \<Rightarrow> 'p sqlite_store \<Rightarrow> normalized_tool_call \<Rightarrow> normalized_tool_call \<Rightarrow> bool" where
  "call_agrees env rid s c0 c =
     (case dl_check_idempotency env rid (tc_name c0) (tc_arguments c0) s of
        (True, receipt) \<Rightarrow> map_of (tc_metadata c) ''replayed'' = Some (JBool True)
           \<and> map_of (tc_metadata c) ''execution_receipt'' = Some (receipt_json receipt)
      | (False, _) \<Rightarrow> \<not> dl_has_indeterminate_operation env rid (tc_name c0) (tc_arguments c0) s)"

lemma durable_pass_agrees:
  assumes "process_calls env tv (durable_ops denv) wall eid rq a i cs l h = (Pass_ok cs', l', h')" "store_inv (snd l)"
  shows "list_all2 (\<lambda>c0 c. arguments_accepted rq c \<and> tc_name c = tc_name c0 \<and> call_agrees denv (rq_request_id rq) (snd l) c0 c) cs cs'"
    and "call_agrees denv rid (snd l') = call_agrees denv rid (snd l)"
proof -
  obtain d s d' s' where l: "l = (d, s)" "l' = (d', s')" by fastforce
  have inv: "case l of (d, s) \<Rightarrow> store_inv s" using assms(2) l by simp
  note honoured = durable_pass.pass_honours [OF assms(1) inv] and safe = durable_pass.pass_not_in_doubt [OF assms(1) inv]
  have "list_all2 (\<lambda>c0 c. (arguments_accepted rq c \<and> tc_name c = tc_name c0
      \<and> receipt_honoured (durable_ops denv) wall rq l c0 c) \<and> not_in_doubt (durable_ops denv) wall rq l c0) cs cs'"
    using honoured safe by (auto simp: list_all2_conv_all_nth list_all_length)
  then show "list_all2 (\<lambda>c0 c. arguments_accepted rq c \<and> tc_name c = tc_name c0
      \<and> call_agrees denv (rq_request_id rq) (snd l) c0 c) cs cs'"
    by (rule list_all2_mono)
      (auto simp: receipt_honoured_def not_in_doubt_def durable_ops_def call_agrees_def l split: bool.splits)
  have "dl_check_idempotency denv op n ar s' = dl_check_idempotency denv op n ar s"
    "dl_has_indeterminate_operation denv op n ar s' = dl_has_indeterminate_operation denv op n ar s" for op n ar
    using durable_pass.pass_keeps [OF assms(1) inv, of op n ar] durable_pass.pass_keeps_doubt [OF assms(1) inv, of op n ar]
    by (simp_all add: durable_ops_def l)
  then show "call_agrees denv rid (snd l') = call_agrees denv rid (snd l)"
    by (simp add: call_agrees_def l fun_eq_iff split: prod.split bool.split)
qed

section \<open>A sample pass\<close>

definition demo_request :: normalized_request where
  "demo_request = \<lparr>rq_request_id = ''op'', rq_model = ''m'', rq_messages = [], rq_system_instruction = None,
     rq_system_cache_control = None,
     rq_tools = [\<lparr>nd_name = ''f'', nd_description = [], nd_parameters = sample_schema, nd_cache_control = None\<rparr>],
     rq_tool_choice = None, rq_max_output_tokens = None, rq_temperature = None, rq_stream = False, rq_metadata = []\<rparr>"

definition demo_call :: normalized_tool_call where
  "demo_call = \<lparr>tc_id = ''c1'', tc_name = ''f'', tc_arguments = JObj [(''n'', JInt 42)], tc_raw_arguments = [], tc_metadata = []\<rparr>"

definition demo_system :: "unit dl_system" where
  "demo_system = run (dl_step demo_env) boot
     [(''p1'', Open 0 ''w1'' 30 True), (''p1'', DRegister 1 ''k1'' ''op'' ''f'' (JObj [(''n'', JInt 42)])),
      (''p1'', DSubmitted 3 ''k1''), (''p1'', DCommitted 4 ''k1'' (JStr ''done''))]"

definition demo_ledger :: durable_ledger where
  "demo_ledger = fst (dl_open 5 ''w2'' 30 False (sys_store demo_system))"

end
