(* ===== verification/Executor.thy ===== *)
theory Executor
  imports Router Execution Context Classifier ToolPass
begin

text \<open>
  \<^verbatim>\<open>execution/executor.py\<close>: the request loop \<open>GatewayExecutor.execute\<close>.

  The state collects the stores the executor shares with other requests (the router with its breakers,
  health, lanes and cache, the budget store, the key pool, the tool ledger, the pool managers, the attempt
  store) and the local variables of the call.  One iteration of the loop is \<open>exec_step\<close>; what the
  iteration reads from outside (clocks, random numbers, fresh identifiers, the provider's answer) is a
  \<open>tick\<close>.  \<open>execute_loop\<close> runs over a list of ticks and answers \<open>None\<close> when the list ends first;
  \<open>execute_terminates\<close> bounds the length that is always enough.

  Provider adapters are not modelled: \<open>tk_prepare\<close> and \<open>tk_upstream\<close> are what \<open>prepare_request\<close>,
  \<open>execute\<close> and \<open>normalize_response\<close> of the adapter answer.  The executor builds its router from its
  own registries and stores, so the state has one copy of each.  The attempt store is the SQLite store; its
  tables for attempts and lockouts are disjoint from those of the tool ledger.  Log records and listeners
  are not modelled, except for the requests sent and the sleeps.
\<close>

section \<open>State\<close>

text \<open>\<open>self.pool_manager\<close>: none, the module-level POOL_MANAGER, or another instance.\<close>

datatype pm_ref = No_pm | Global_pm | Own_pm

record sent =
  sn_endpoint :: endpoint
  sn_time :: time
  sn_timeout :: rat
  sn_key :: string
  sn_request :: normalized_request

record 'l exec_state =
  xs_router :: router
  xs_budget :: budget_store
  xs_keys :: key_pool
  xs_ledger :: attempt_ledger
  xs_tools :: 'l
  xs_global_pools :: pool_manager
  xs_own_pools :: pool_manager
  xs_store :: "unit sqlite_store option"
  xs_request :: normalized_request
  xs_excluded :: "string list"
  xs_attempt_idx :: nat
  xs_last_failure :: "string option"
  xs_last_endpoint :: "endpoint option"
  xs_fallback_marked :: bool
  xs_window_shrink :: "(string, rat) dict"
  xs_output_cap_retried :: "string list"
  xs_waits :: nat
  xs_sleeps :: "rat list"
  xs_sent :: "sent list"

record 'l exec_config =
  xc_pool :: string
  xc_strategy :: "string option"
  xc_api_keys :: "(string, string) dict"
  xc_deadline :: deadline
  xc_requirements :: requirement_vector
  xc_prefix_hash :: "string option"
  xc_tail_turns :: nat
  xc_validator :: tool_call_validator
  xc_max_response_chars :: nat
  xc_pm :: pm_ref
  xc_ops :: "'l ledger_ops"
  xc_env :: py_env
  xc_classifier :: classifier_env
  xc_describe :: "gateway_error \<Rightarrow> error_info"

text \<open>The answer of the adapter: \<open>Http duration status headers body normalized\<close>.\<close>

datatype upstream =
    Transport_error error_info
  | Http rat int "(string, string) dict" string "error_info + normalized_response"

record tick =
  tk_guard :: time
  tk_check :: time
  tk_select :: time
  tk_wait :: time
  tk_plan :: time
  tk_start :: time
  tk_admit :: time
  tk_done :: time
  tk_backoff :: time
  tk_wall :: time
  tk_uniform :: rat
  tk_attempt_id :: string
  tk_plan_id :: string
  tk_prepare :: "unit result"
  tk_upstream :: upstream

text \<open>An attempt that has been admitted.\<close>

record flight =
  fl_endpoint :: endpoint
  fl_decision :: routing_decision
  fl_profile :: model_profile
  fl_adapted :: normalized_request
  fl_attempt :: attempt_record
  fl_key_id :: "string option"
  fl_reservation :: "string option"
  fl_amount :: rat

datatype step_outcome = Next | Returned normalized_response routing_decision | Raised gateway_error

section \<open>Access to the shared stores\<close>

definition on_router :: "(router \<Rightarrow> router) \<Rightarrow> 'l exec_state \<Rightarrow> 'l exec_state" where
  "on_router f st = st\<lparr>xs_router := f (xs_router st)\<rparr>"

definition on_ledger :: "(attempt_ledger \<Rightarrow> attempt_ledger) \<Rightarrow> 'l exec_state \<Rightarrow> 'l exec_state" where
  "on_ledger f st = st\<lparr>xs_ledger := f (xs_ledger st)\<rparr>"

definition on_pm :: "'l exec_config \<Rightarrow> (pool_manager \<Rightarrow> pool_manager) \<Rightarrow> 'l exec_state \<Rightarrow> 'l exec_state" where
  "on_pm cfg f st =
     (case xc_pm cfg of
        No_pm \<Rightarrow> st
      | Global_pm \<Rightarrow> st\<lparr>xs_global_pools := f (xs_global_pools st)\<rparr>
      | Own_pm \<Rightarrow> st\<lparr>xs_own_pools := f (xs_own_pools st)\<rparr>)"

definition on_store :: "(unit sqlite_store \<Rightarrow> unit sqlite_store) \<Rightarrow> 'l exec_state \<Rightarrow> 'l exec_state" where
  "on_store f st = st\<lparr>xs_store := map_option f (xs_store st)\<rparr>"

definition on_health :: "(health_store \<Rightarrow> health_store) \<Rightarrow> 'l exec_state \<Rightarrow> 'l exec_state" where
  "on_health f = on_router (\<lambda>r. r\<lparr>rt_health := f (rt_health r)\<rparr>)"

definition on_lanes :: "(lane_store \<Rightarrow> lane_store) \<Rightarrow> 'l exec_state \<Rightarrow> 'l exec_state" where
  "on_lanes f = on_router (\<lambda>r. r\<lparr>rt_lanes := f (rt_lanes r)\<rparr>)"

definition on_breaker :: "string \<Rightarrow> (breaker \<Rightarrow> breaker) \<Rightarrow> 'l exec_state \<Rightarrow> 'l exec_state" where
  "on_breaker key f =
     on_router (\<lambda>r. case registry_get_or_create key None (rt_breakers r) of
                      (b, reg) \<Rightarrow> r\<lparr>rt_breakers := registry_put key (f b) reg\<rparr>)"

definition exclude :: "string \<Rightarrow> 'l exec_state \<Rightarrow> 'l exec_state" where
  "exclude eid st = st\<lparr>xs_excluded := xs_excluded st @ [eid]\<rparr>"

section \<open>The durable attempt record\<close>

definition json_of_code :: "int option \<Rightarrow> json" where
  "json_of_code c = (case c of None \<Rightarrow> JNull | Some n \<Rightarrow> JInt n)"

definition attempt_payload :: "attempt_record \<Rightarrow> string \<Rightarrow> string \<Rightarrow> json" where
  "attempt_payload a status detail =
     JObj [(''request_id'', JStr (ar_request_id a)), (''operation_id'', JStr []),
           (''endpoint_id'', JStr (ar_endpoint_id a)), (''provider'', JStr (ar_provider a)),
           (''model'', JStr (ar_model a)), (''attempt_index'', JInt (int (ar_attempt_index a))),
           (''fallback_index'', JInt (int (ar_fallback_index a))), (''compacted'', JBool (ar_compacted a)),
           (''status'', JStr status), (''status_code'', json_of_code (ar_status_code a)),
           (''success'', JBool (ar_success a)), (''latency_ms'', JFloat (ar_latency_ms a)),
           (''failure_reason'', (case ar_failure a of None \<Rightarrow> JNull | Some f \<Rightarrow> JStr (reason_value (fc_reason f)))),
           (''detail'', JStr (take 500 detail))]"

definition prepare_durable_attempt :: "time \<Rightarrow> attempt_record \<Rightarrow> 'l exec_state \<Rightarrow> 'l exec_state" where
  "prepare_durable_attempt wall a =
     on_store (\<lambda>s. snd (prepare_attempt wall (ar_attempt_id a) (ar_request_id a) (attempt_payload a ''prepared'' []) s))"

text \<open>\<open>finish_attempt\<close> raises only for an attempt that was never prepared.\<close>

definition finish_durable_attempt :: "time \<Rightarrow> attempt_record \<Rightarrow> string \<Rightarrow> string \<Rightarrow> 'l exec_state \<Rightarrow> 'l exec_state" where
  "finish_durable_attempt wall a status detail =
     on_store (\<lambda>s. snd (finish_attempt wall (ar_attempt_id a) status (attempt_payload a status detail) s))"

definition record_lane_outcome ::
  "time \<Rightarrow> endpoint \<Rightarrow> failure_classification option \<Rightarrow> 'l exec_state \<Rightarrow> 'l exec_state" where
  "record_lane_outcome wall e failure st =
     (if \<not> truthy_str (ep_resource_lane e) then st
      else let lane = the (ep_resource_lane e) in
        case failure of
          None \<Rightarrow> on_lanes (set_available lane) st
        | Some f \<Rightarrow>
            if fc_reason f \<in> {R_rate_limit, R_upstream_rate_limit}
            then on_lanes (set_unavailable wall lane (reason_value (fc_reason f))
                   (Some (if truthy_num (fc_retry_after_seconds f) then the (fc_retry_after_seconds f) else 60))) st
            else st)"

section \<open>Waiting for a rate limit to roll over\<close>

definition rolls_over :: "failure_classification \<Rightarrow> bool" where
  "rolls_over f =
     (fc_reason f \<in> {R_rate_limit, R_upstream_rate_limit} \<and> \<not> fc_is_permanent f
      \<and> (case fc_retry_after_seconds f of None \<Rightarrow> True | Some r \<Rightarrow> r < 300))"

fun temp_rate_limited :: "string list \<Rightarrow> attempt_record list \<Rightarrow> string list \<times> rat list \<Rightarrow> string list \<times> rat list" where
  "temp_rate_limited excluded [] acc = acc"
| "temp_rate_limited excluded (a # as) (eps, delays) =
     temp_rate_limited excluded as
       (case ar_failure a of
          None \<Rightarrow> (eps, delays)
        | Some f \<Rightarrow>
            if ar_endpoint_id a \<in> set excluded \<and> rolls_over f \<and> ar_endpoint_id a \<notin> set eps
            then (eps @ [ar_endpoint_id a],
                  delays @ (if truthy_num (fc_retry_after_seconds f) then [the (fc_retry_after_seconds f)] else []))
            else (eps, delays))"

fun least :: "rat list \<Rightarrow> rat \<Rightarrow> rat" where
  "least [] d = d"
| "least (x # xs) d = foldl min x xs"

definition rollover_delay :: "rat list \<Rightarrow> rat \<Rightarrow> rat" where
  "rollover_delay delays rem_sec = max 2 (min (least delays 8) (min 15 (rem_sec - 5)))"

definition reopen_lanes :: "endpoint list \<Rightarrow> string list \<Rightarrow> lane_store \<Rightarrow> lane_store" where
  "reopen_lanes endpoints eps =
     fold (\<lambda>eid. fold (\<lambda>e. if ep_id e = eid \<and> truthy_str (ep_resource_lane e)
                           then set_available (the (ep_resource_lane e)) else id) endpoints) eps"

definition MAX_RATE_LIMIT_WAITS :: nat where
  "MAX_RATE_LIMIT_WAITS = 3"

definition rollover :: "'l exec_config \<Rightarrow> tick \<Rightarrow> 'l exec_state \<Rightarrow> step_outcome \<times> 'l exec_state" where
  "rollover cfg tk st =
     (case temp_rate_limited (xs_excluded st) (al_attempts (xs_ledger st)) ([], []) of
        (eps, delays) \<Rightarrow>
          let rem_sec = remaining_ms (tk_wait tk) (xc_deadline cfg) / 1000 in
          if eps \<noteq> [] \<and> xs_waits st < MAX_RATE_LIMIT_WAITS \<and> rem_sec > 10
          then (Next,
                on_lanes (reopen_lanes (endpoints_for_pool (xc_pool cfg) (rt_capabilities (xs_router st))) eps)
                  (on_ledger (reset_for_rate_limit_retry eps)
                     (st\<lparr>xs_waits := xs_waits st + 1, xs_sleeps := xs_sleeps st @ [rollover_delay delays rem_sec],
                         xs_excluded := foldl (\<lambda>x eid. remove1 eid x) (xs_excluded st) eps,
                         xs_last_failure := Some ''rate_limit_rollover_retry''\<rparr>)))
          else (Raised (NoHealthyRouteError (xc_pool cfg)), st))"

section \<open>Fitting the request into the window\<close>

definition py_int :: "rat \<Rightarrow> int" where
  "py_int r = (if r \<ge> 0 then \<lfloor>r\<rfloor> else \<lceil>r\<rceil>)"

definition or_int :: "int option \<Rightarrow> int \<Rightarrow> int" where
  "or_int x d = (case x of None \<Rightarrow> d | Some n \<Rightarrow> if n \<noteq> 0 then n else d)"

definition size_budget :: "(rat \<Rightarrow> string) \<Rightarrow> rat \<Rightarrow> model_profile \<Rightarrow> normalized_request \<Rightarrow> context_budget" where
  "size_budget fr shrink p rq =
     (let target = py_int (of_int (mp_context_window p) * shrink);
          max_supported_out = or_int (Some (mp_max_output_tokens p)) 4096;
          desired = min (or_int (rq_max_output_tokens rq) max_supported_out) max_supported_out;
          margin = (if target > 8000 then 2048 else min 512 (py_int (of_int target * (1 / 10))));
          est_in = estimate_tokens fr rq;
          desired' = (if target - margin - desired < est_in \<and> desired > 1024
                      then max 1024 (min desired (target - margin - est_in)) else desired)
      in \<lparr>model_context_window = target, desired_output_tokens = desired', safety_margin_tokens = margin\<rparr>)"

definition adapt_request ::
  "'l exec_config \<Rightarrow> rat \<Rightarrow> model_profile \<Rightarrow> normalized_request \<Rightarrow> (normalized_request \<times> bool) result" where
  "adapt_request cfg shrink p rq =
     (let b = size_budget (py_repr (xc_env cfg)) shrink p rq in
      case compact_request (py_repr (xc_env cfg)) (xc_tail_turns cfg) rq b of
        Inl e \<Rightarrow> Inl e
      | Inr (rq', compacted) \<Rightarrow> Inr (rq'\<lparr>rq_max_output_tokens := Some (desired_output_tokens b)\<rparr>, compacted))"

text \<open>A change of endpoint is a hop and is recorded as a plan.\<close>

definition note_failover ::
  "'l exec_config \<Rightarrow> tick \<Rightarrow> endpoint \<Rightarrow> normalized_request \<Rightarrow> bool \<Rightarrow> 'l exec_state \<Rightarrow> 'l exec_state" where
  "note_failover cfg tk e adapted compacted st =
     (let st' =
        (case xs_last_endpoint st of
           None \<Rightarrow> st
         | Some last_e \<Rightarrow>
             if ep_id last_e = ep_id e then st
             else
               let fr = py_repr (xc_env cfg);
                   plan = \<lparr>fp_plan_id = tk_plan_id tk, fp_request_id = rq_request_id (xs_request st),
                           fp_source_endpoint = Some (ep_id last_e), fp_target_endpoint = ep_id e,
                           fp_failover_reason = (if truthy_str (xs_last_failure st) then the (xs_last_failure st)
                                                 else ''endpoint_failover''),
                           fp_context_tokens_before = estimate_tokens fr (xs_request st),
                           fp_context_tokens_after = estimate_tokens fr adapted,
                           fp_context_compaction_applied = compacted, fp_risk_flags = [],
                           fp_remaining_deadline_ms = remaining_ms (tk_plan tk) (xc_deadline cfg),
                           fp_remaining_cost_budget_usd = None\<rparr>
               in (on_ledger (record_failover_plan plan)
                     (on_ledger (if xs_fallback_marked st then id else mark_fallback) st))\<lparr>xs_fallback_marked := False\<rparr>)
      in st'\<lparr>xs_last_endpoint := Some e\<rparr>)"

section \<open>An attempt that failed\<close>

definition settle_flight :: "flight \<Rightarrow> rat \<Rightarrow> 'l exec_state \<Rightarrow> unit result \<times> 'l exec_state" where
  "settle_flight fl amount st =
     (case fl_reservation fl of
        None \<Rightarrow> (Inr (), st)
      | Some rid \<Rightarrow> (case settle rid amount (xs_budget st) of (r, b) \<Rightarrow> (r, st\<lparr>xs_budget := b\<rparr>)))"

text \<open>The amount of a reservation is not negative, so settling it does not raise.\<close>

definition settle_reserved :: "flight \<Rightarrow> 'l exec_state \<Rightarrow> 'l exec_state" where
  "settle_reserved fl st = snd (settle_flight fl (fl_amount fl) st)"

definition finished :: "tick \<Rightarrow> flight \<Rightarrow> bool \<Rightarrow> int \<Rightarrow> failure_classification option \<Rightarrow> attempt_record" where
  "finished tk fl ok code failure = finish (tk_start tk) (tk_done tk) ok (Some code) failure (fl_attempt fl)"

text \<open>The adapter raised: the error propagates after the books are closed.\<close>

definition transport_failed ::
  "'l exec_config \<Rightarrow> tick \<Rightarrow> flight \<Rightarrow> error_info \<Rightarrow> 'l exec_state \<Rightarrow> step_outcome \<times> 'l exec_state" where
  "transport_failed cfg tk fl err st =
     (let e = fl_endpoint fl; wall = tk_wall tk;
          c = classify_failure (xc_classifier cfg) wall err (Some 502) [];
          a = finished tk fl False 502 (Some c);
          st1 = on_breaker (resource_key e) (record_failure (tk_done tk) (ar_latency_ms a) (Some c)) st;
          st2 = on_health (health_record_failure (tk_done tk) wall (ep_id e) (ar_latency_ms a) None
                  (take 160 (fc_message c)) (Some 30) None False) st1;
          st3 = st2\<lparr>xs_global_pools := mark_cooldown (tk_done tk) (xc_pool cfg) (ep_id e) 30 (xs_global_pools st2)\<rparr>;
          st4 = on_ledger (record_attempt a) (record_lane_outcome wall e (Some c) st3)
      in (Raised UpstreamError, finish_durable_attempt wall a ''transport_error'' (ei_text err) (settle_reserved fl st4)))"

definition cooldown_for :: "failure_classification \<Rightarrow> rat option" where
  "cooldown_for c =
     (if fc_reason c \<in> {R_rate_limit, R_upstream_rate_limit}
      then Some (min 120 (max 30 (if truthy_num (fc_retry_after_seconds c) then the (fc_retry_after_seconds c) else 60)))
      else if fc_reason c \<in> {R_server_error, R_timeout, R_connection_refused, R_overloaded} then Some 30 else None)"

definition quota_for :: "failure_classification \<Rightarrow> rat option" where
  "quota_for c =
     (if fc_reason c = R_billing
      then Some (if truthy_num (fc_retry_after_seconds c) then the (fc_retry_after_seconds c) else 86400) else None)"

definition route_id_of :: "endpoint \<Rightarrow> string" where
  "route_id_of e = last (split_on (CHR '':'') (ep_id e))"

definition account_wide :: "endpoint \<Rightarrow> failure_classification \<Rightarrow> bool" where
  "account_wide e c =
     (let msg = lower (fc_message c) in
      contains msg ''free-models-per-day'' \<or> contains msg ''free model requests'' \<or> lower (ep_provider e) = ''openrouter'')"

fun exclude_siblings :: "string \<Rightarrow> endpoint list \<Rightarrow> string list \<Rightarrow> string list" where
  "exclude_siblings provider [] ex = ex"
| "exclude_siblings provider (e # es) ex =
     exclude_siblings provider es
       (if lower (ep_provider e) = lower provider \<and> ep_id e \<notin> set ex then ex @ [ep_id e] else ex)"

definition billing_marks :: "'l exec_config \<Rightarrow> tick \<Rightarrow> endpoint \<Rightarrow> failure_classification \<Rightarrow> 'l exec_state \<Rightarrow> 'l exec_state" where
  "billing_marks cfg tk e c st =
     (if fc_reason c \<noteq> R_billing then st
      else
        let wall = tk_wall tk; pool = xc_pool cfg; wide = account_wide e c; reason = Some (take 160 (fc_message c));
            retry_sec = (if truthy_num (quota_for c) then the (quota_for c)
                         else if wide then calculate_seconds_until_utc_midnight wall else 86400);
            lock = (\<lambda>route. record_quota_lockout wall (ep_provider e) pool route (wall + retry_sec) reason);
            st1 = on_pm cfg (\<lambda>m. (if wide then mark_provider_quota_exhausted wall pool (ep_provider e) retry_sec else id)
                                  (mark_quota_exhausted wall pool (route_id_of e) retry_sec m)) st;
            st2 = on_store (\<lambda>s. (if wide then lock ''*'' else id) (lock (route_id_of e) s)) st1
        in if wide
           then st2\<lparr>xs_excluded := exclude_siblings (ep_provider e)
                      (endpoints_for_pool pool (rt_capabilities (xs_router st2))) (xs_excluded st2)\<rparr>
           else st2)"

definition death_marks :: "'l exec_config \<Rightarrow> tick \<Rightarrow> endpoint \<Rightarrow> failure_classification \<Rightarrow> 'l exec_state \<Rightarrow> 'l exec_state" where
  "death_marks cfg tk e c st =
     (if \<not> (fc_is_permanent c \<or> fc_reason c = R_model_not_found) then st
      else
        let st1 = on_pm cfg (mark_deprecated (xc_pool cfg) (ep_model e))
                    (on_router (router_mark_dead (tk_wall tk) (ep_id e) (ep_provider e) (ep_model e) (take 160 (fc_message c))) st)
        in if ep_id e \<in> set (xs_excluded st1) then st1 else exclude (ep_id e) st1)"

definition record_failed_attempt ::
  "'l exec_config \<Rightarrow> tick \<Rightarrow> flight \<Rightarrow> int \<Rightarrow> rat \<Rightarrow> failure_classification \<Rightarrow> 'l exec_state \<Rightarrow> 'l exec_state" where
  "record_failed_attempt cfg tk fl status duration c st =
     (let e = fl_endpoint fl; wall = tk_wall tk; a = finished tk fl False status (Some c);
          st1 = on_breaker (resource_key e) (record_failure (tk_done tk) duration (Some c)) st;
          st2 = on_health (health_record_failure (tk_done tk) wall (ep_id e) duration (Some status)
                  (take 160 (fc_message c)) None (quota_for c) (fc_is_permanent c)) st1;
          st3 = death_marks cfg tk e c (billing_marks cfg tk e c st2);
          st4 = on_ledger (record_attempt a) (record_lane_outcome wall e (Some c) st3)
      in (finish_durable_attempt wall a ''failed'' (fc_message c) (settle_reserved fl st4))
           \<lparr>xs_last_failure := Some (reason_value (fc_reason c))\<rparr>)"

text \<open>The endpoint is given up: its cooldown starts and the hop is counted.\<close>

definition abandon :: "'l exec_config \<Rightarrow> tick \<Rightarrow> endpoint \<Rightarrow> failure_classification \<Rightarrow> 'l exec_state \<Rightarrow> 'l exec_state" where
  "abandon cfg tk e c st =
     (let st1 = (case cooldown_for c of
                   None \<Rightarrow> st
                 | Some cd \<Rightarrow>
                     on_pm cfg (mark_cooldown (tk_done tk) (xc_pool cfg) (ep_id e) cd)
                       (on_health (health_record_failure (tk_done tk) (tk_wall tk) (ep_id e) 0 None [] (Some cd) None False) st))
      in (on_ledger Execution.mark_fallback (exclude (ep_id e) st1))\<lparr>xs_fallback_marked := True\<rparr>)"

definition clamp_output :: "flight \<Rightarrow> failure_classification \<Rightarrow> normalized_request \<Rightarrow> int" where
  "clamp_output fl c rq =
     (let current_max = or_int (rq_max_output_tokens rq) (or_int (Some (mp_max_output_tokens (fl_profile fl))) 4096) in
      case parse_output_cap_from_error (fc_message c) of
        Some cap \<Rightarrow> if cap > 0 then (if cap > 64 then max 1 (cap - 64) else cap) else min current_max 1024
      | None \<Rightarrow> min current_max 1024)"

definition shrink_ratio :: "flight \<Rightarrow> failure_classification \<Rightarrow> rat result" where
  "shrink_ratio fl c =
     (let limit = (case fc_token_limit c of Some n \<Rightarrow> if n \<noteq> 0 then Some n else parse_input_tpm_limit (fc_message c)
                   | None \<Rightarrow> parse_input_tpm_limit (fc_message c)) in
      case limit of
        Some n \<Rightarrow>
          if n > 0
          then (if mp_context_window (fl_profile fl) = 0 then Inl ZeroDivisionError
                else Inr (max (1 / 10) (min (95 / 100) (of_int (max 1000 (py_int (of_int n * (85 / 100))))
                                                        / of_int (mp_context_window (fl_profile fl))))))
          else Inr (1 / 2)
      | None \<Rightarrow> Inr (1 / 2))"

text \<open>What to do after a recorded failure: clamp, shrink, give up, or wait and retry.\<close>

definition retry_decision ::
  "'l exec_config \<Rightarrow> tick \<Rightarrow> flight \<Rightarrow> failure_classification \<Rightarrow> 'l exec_state \<Rightarrow> step_outcome \<times> 'l exec_state" where
  "retry_decision cfg tk fl c st =
     (let e = fl_endpoint fl; again = can_attempt_endpoint (ep_id e) (xs_ledger st) in
      if fc_reason c = R_output_cap_exceeded \<and> ep_id e \<notin> set (xs_output_cap_retried st) \<and> again
      then (Next, st\<lparr>xs_output_cap_retried := ep_id e # xs_output_cap_retried st,
                     xs_request := (xs_request st)\<lparr>rq_max_output_tokens := Some (clamp_output fl c (xs_request st))\<rparr>\<rparr>)
      else if fc_reason c \<in> {R_payload_too_large, R_context_overflow}
              \<and> map_of (xs_window_shrink st) (ep_id e) = None \<and> again
      then (case shrink_ratio fl c of
              Inl err \<Rightarrow> (Raised err, st)
            | Inr ratio \<Rightarrow> (Next, st\<lparr>xs_window_shrink := AList.update (ep_id e) ratio (xs_window_shrink st)\<rparr>))
      else if \<not> fc_retryable c \<or> \<not> again
      then (if \<not> fc_should_fallback c then (Raised (NonRecoverableFailureError (ep_id e)), st)
            else (Next, abandon cfg tk e c st))
      else
        let backoff = compute_backoff_seconds (tk_uniform tk) (attempts_on (ep_id e) (xs_ledger st))
                        (fc_retry_after_seconds c) (ep_retry (al_policy (xs_ledger st))) in
        if backoff \<ge> remaining_ms (tk_backoff tk) (xc_deadline cfg) / 1000
        then (Next, abandon cfg tk e c st)
        else (Next,
              let st1 = st\<lparr>xs_sleeps := xs_sleeps st @ [backoff]\<rparr> in
              if truthy_str (ep_resource_lane e) then on_lanes (set_available (the (ep_resource_lane e))) st1 else st1))"

text \<open>A rate limit while another key is usable: the attempt is recorded and the next iteration uses that key.\<close>

definition rotate_key ::
  "tick \<Rightarrow> flight \<Rightarrow> int \<Rightarrow> failure_classification \<Rightarrow> string \<Rightarrow> 'l exec_state \<Rightarrow> 'l exec_state" where
  "rotate_key tk fl status c kid st =
     (let a = finished tk fl False status (Some c);
          st1 = st\<lparr>xs_keys := record_rate_limit (tk_wall tk) (fc_retry_after_seconds c) kid (xs_keys st)\<rparr>
      in finish_durable_attempt (tk_wall tk) a ''key_rotated_429'' (fc_message c)
           (settle_reserved fl (on_ledger (record_attempt a) st1)))"

definition attempt_failed ::
  "'l exec_config \<Rightarrow> tick \<Rightarrow> flight \<Rightarrow> int \<Rightarrow> rat \<Rightarrow> failure_classification \<Rightarrow> 'l exec_state \<Rightarrow> step_outcome \<times> 'l exec_state" where
  "attempt_failed cfg tk fl status duration c st =
     (if fc_reason c = R_rate_limit \<and> truthy_str (fl_key_id fl)
         \<and> has_alternative_key (tk_wall tk) (fl_endpoint fl) (xc_api_keys cfg) (fl_key_id fl) (xs_keys st)
      then (Next, rotate_key tk fl status c (the (fl_key_id fl)) st)
      else retry_decision cfg tk fl c (record_failed_attempt cfg tk fl status duration c st))"

section \<open>A response with status 200\<close>

definition semantic_failure :: "failover_reason \<Rightarrow> string \<Rightarrow> failure_classification" where
  "semantic_failure reason message = classified SEMANTIC_AGENT_FAILURE reason False False (Some 200) message"

definition sanity_failure :: "nat \<Rightarrow> normalized_response \<Rightarrow> sanity_rejection \<Rightarrow> failure_classification" where
  "sanity_failure limit r x =
     (case x of
        EmptyResponse \<Rightarrow> semantic_failure R_empty_completion
          ''Model returned HTTP 200 with completely empty content and no tool calls''
      | ResponseSizeExhaustion \<Rightarrow> semantic_failure R_output_cap_exceeded
          (''Response exceeded maximum character limit ('' @
           str_of_nat (case rs_content r of None \<Rightarrow> 0 | Some t \<Rightarrow> length t) @ '' > '' @ str_of_nat limit @ '')''))"

datatype verdict = Accept normalized_response | Reject failure_classification | Block gateway_error

text \<open>An exception inside the \<open>try\<close> block is classified as a bad gateway.\<close>

definition caught :: "'l exec_config \<Rightarrow> tick \<Rightarrow> error_info \<Rightarrow> failure_classification" where
  "caught cfg tk err = classify_failure (xc_classifier cfg) (tk_wall tk) err (Some 502) []"

definition judge ::
  "'l exec_config \<Rightarrow> tick \<Rightarrow> endpoint \<Rightarrow> error_info + normalized_response \<Rightarrow> 'l exec_state \<Rightarrow> verdict \<times> 'l exec_state" where
  "judge cfg tk e normalized st =
     (case normalized of
        Inl err \<Rightarrow> (Reject (caught cfg tk err), st)
      | Inr r \<Rightarrow>
          (case check_sanity (xc_max_response_chars cfg) r of
             Some x \<Rightarrow> (Reject (sanity_failure (xc_max_response_chars cfg) r x), st)
           | None \<Rightarrow>
               (case process_calls (xc_env cfg) (xc_validator cfg) (xc_ops cfg) (tk_wall tk) (ep_id e) (xs_request st)
                       (xs_attempt_idx st) 0 (rs_tool_calls r) (xs_tools st) (rt_health (xs_router st)) of
                  (p, l, h) \<Rightarrow>
                    (case p of
                       Pass_ok cs \<Rightarrow> Accept (r\<lparr>rs_tool_calls := cs\<rparr>)
                     | Pass_rejected \<Rightarrow>
                         Reject (semantic_failure R_malformed_tool_call ''Model generated invalid tool arguments'')
                     | Pass_blocked name \<Rightarrow> Block (IndeterminateToolOperationError (rq_request_id (xs_request st)) name)
                     | Pass_raised err \<Rightarrow> Reject (caught cfg tk (xc_describe cfg err)),
                     on_health (\<lambda>_. h) (st\<lparr>xs_tools := l\<rparr>)))))"

definition turn_cost :: "'l exec_config \<Rightarrow> flight \<Rightarrow> normalized_response \<Rightarrow> rat" where
  "turn_cost cfg fl r =
     (let in_tokens = estimate_tokens (py_repr (xc_env cfg)) (fl_adapted fl);
          out_tokens = estimate_text_tokens (case rs_content r of None \<Rightarrow> [] | Some t \<Rightarrow> t)
      in of_int in_tokens / 1000000 * mp_input_price_per_1m (fl_profile fl)
         + of_int out_tokens / 1000000 * mp_output_price_per_1m (fl_profile fl))"

text \<open>The books of a success, up to the settlement.\<close>

definition record_success_attempt ::
  "'l exec_config \<Rightarrow> tick \<Rightarrow> flight \<Rightarrow> normalized_response \<Rightarrow> rat \<Rightarrow> 'l exec_state \<Rightarrow> 'l exec_state" where
  "record_success_attempt cfg tk fl r duration st =
     (let e = fl_endpoint fl;
          st1 = on_breaker (resource_key e) (record_success (tk_done tk) duration) st;
          st2 = on_health (health_record_success (tk_wall tk) (ep_id e) duration None) st1;
          st3 = on_pm cfg (record_route_success (tk_done tk) (xc_pool cfg) (ep_id e)) (record_lane_outcome (tk_wall tk) e None st2);
          st4 = (if truthy_str (xc_prefix_hash cfg)
                 then on_router (\<lambda>x. x\<lparr>rt_cache := record_warm_cache (tk_wall tk) (ep_id e) (the (xc_prefix_hash cfg)) (rt_cache x)\<rparr>) st3
                 else st3)
      in on_ledger (\<lambda>l. add_cost (turn_cost cfg fl r) (record_attempt (finished tk fl True 200 None) l)) st4)"

definition accept_response ::
  "'l exec_config \<Rightarrow> tick \<Rightarrow> flight \<Rightarrow> rat \<Rightarrow> normalized_response \<Rightarrow> 'l exec_state \<Rightarrow> step_outcome \<times> 'l exec_state" where
  "accept_response cfg tk fl duration r st =
     (case settle_flight fl (turn_cost cfg fl r) (record_success_attempt cfg tk fl r duration st) of
        (Inr _, st1) \<Rightarrow>
          (Returned r (fl_decision fl),
           finish_durable_attempt (tk_wall tk) (finished tk fl True 200 None) ''succeeded'' [] st1)
      | (Inl err, st1) \<Rightarrow> attempt_failed cfg tk fl 200 duration (caught cfg tk (xc_describe cfg err)) st1)"

text \<open>A tool operation in doubt: the attempt is closed and the error raised; the breaker is not told.\<close>

definition block_response :: "tick \<Rightarrow> flight \<Rightarrow> gateway_error \<Rightarrow> 'l exec_state \<Rightarrow> step_outcome \<times> 'l exec_state" where
  "block_response tk fl err st =
     (let a = finished tk fl False 409 None
      in (Raised err, finish_durable_attempt (tk_wall tk) a ''blocked_indeterminate_operation'' []
                        (on_ledger (record_attempt a) (settle_reserved fl st))))"

definition error_of_text :: "string \<Rightarrow> error_info" where
  "error_of_text s = \<lparr>ei_text = s, ei_type_name = ''str'', ei_status_code = None, ei_code = None,
     ei_response_status = None, ei_body_text = None\<rparr>"

definition land :: "'l exec_config \<Rightarrow> tick \<Rightarrow> flight \<Rightarrow> 'l exec_state \<Rightarrow> step_outcome \<times> 'l exec_state" where
  "land cfg tk fl st =
     (case tk_upstream tk of
        Transport_error err \<Rightarrow> transport_failed cfg tk fl err st
      | Http duration status headers body normalized \<Rightarrow>
          if status = 200
          then (case judge cfg tk (fl_endpoint fl) normalized st of
                  (Accept r, st1) \<Rightarrow> accept_response cfg tk fl duration r st1
                | (Block err, st1) \<Rightarrow> block_response tk fl err st1
                | (Reject c, st1) \<Rightarrow> attempt_failed cfg tk fl status duration c st1)
          else attempt_failed cfg tk fl status duration
                 (classify_failure (xc_classifier cfg) (tk_wall tk) (error_of_text body) (Some status) headers) st)"

section \<open>One iteration\<close>

definition new_attempt :: "tick \<Rightarrow> endpoint \<Rightarrow> bool \<Rightarrow> 'l exec_state \<Rightarrow> attempt_record" where
  "new_attempt tk e compacted st =
     \<lparr>ar_attempt_id = tk_attempt_id tk, ar_request_id = rq_request_id (xs_request st), ar_provider = ep_provider e,
      ar_model = ep_model e, ar_endpoint_id = ep_id e, ar_attempt_index = xs_attempt_idx st,
      ar_fallback_index = nat (al_fallback_count (xs_ledger st)), ar_latency_ms = 0, ar_status_code = None,
      ar_success = False, ar_failure = None, ar_compacted = compacted\<rparr>"

text \<open>The reservation: \<open>Inr None\<close> when the budget denies it, otherwise the reservation and its amount.\<close>

definition reserve_turn ::
  "'l exec_config \<Rightarrow> tick \<Rightarrow> model_profile \<Rightarrow> 'l exec_state \<Rightarrow> (string option \<times> rat) option result \<times> 'l exec_state" where
  "reserve_turn cfg tk p st =
     (let rv = xc_requirements cfg; rid = rq_request_id (xs_request st) @ '':'' @ tk_attempt_id tk;
          scope = (if truthy_str (rv_budget_scope rv) then the (rv_budget_scope rv) else rq_request_id (xs_request st));
          amount = estimated_cost_usd rv p in
      case rv_budget_limit_usd rv of
        None \<Rightarrow> (Inr (Some (None, 0)), st)
      | Some limit \<Rightarrow>
          (case reserve rid scope amount limit (xs_budget st) of
             (Inl err, b) \<Rightarrow> (Inl err, st\<lparr>xs_budget := b\<rparr>)
           | (Inr None, b) \<Rightarrow> (Inr None, st\<lparr>xs_budget := b\<rparr>)
           | (Inr (Some _), b) \<Rightarrow> (Inr (Some (Some rid, amount)), st\<lparr>xs_budget := b\<rparr>)))"

text \<open>Breaker admission, the durable intent, the call.\<close>

definition admit_flight ::
  "'l exec_config \<Rightarrow> tick \<Rightarrow> string \<Rightarrow> rat \<Rightarrow> flight \<Rightarrow> 'l exec_state \<Rightarrow> step_outcome \<times> 'l exec_state" where
  "admit_flight cfg tk key timeout fl st =
     (let e = fl_endpoint fl; (b, reg) = registry_get_or_create (resource_key e) None (rt_breakers (xs_router st)) in
      case acquire_permission (tk_admit tk) b of
        (Inl _, b') \<Rightarrow>
          (Next, exclude (ep_id e)
             ((on_router (\<lambda>r. r\<lparr>rt_breakers := registry_put (resource_key e) b' reg\<rparr>) st)
                \<lparr>xs_budget := (case fl_reservation fl of None \<Rightarrow> xs_budget st | Some rid \<Rightarrow> release rid (xs_budget st))\<rparr>))
      | (Inr _, b') \<Rightarrow>
          land cfg tk fl
            ((prepare_durable_attempt (tk_wall tk) (fl_attempt fl)
               (on_router (\<lambda>r. r\<lparr>rt_breakers := registry_put (resource_key e) b' reg\<rparr>) st))
               \<lparr>xs_sent := xs_sent st @ [\<lparr>sn_endpoint = e, sn_time = tk_start tk, sn_timeout = timeout, sn_key = key,
                                        sn_request = fl_adapted fl\<rparr>]\<rparr>))"

definition dispatch ::
  "'l exec_config \<Rightarrow> tick \<Rightarrow> endpoint \<Rightarrow> routing_decision \<Rightarrow> model_profile \<Rightarrow> normalized_request \<Rightarrow> bool \<Rightarrow> 'l exec_state
    \<Rightarrow> step_outcome \<times> 'l exec_state" where
  "dispatch cfg tk e decision p adapted compacted st0 =
     (case get_active_key (tk_wall tk) e (xc_api_keys cfg) (xs_keys st0) of
        ((key_val, key_id), kp) \<Rightarrow>
          let st = st0\<lparr>xs_keys := kp\<rparr>;
              key = (case key_val of
                       Some k \<Rightarrow> k
                     | None \<Rightarrow> if truthy_str (ep_env_key e) then dict_get (xc_api_keys cfg) (the (ep_env_key e)) [] else []) in
          case tk_prepare tk of
            Inl err \<Rightarrow> (Raised err, st)
          | Inr _ \<Rightarrow>
              (case per_attempt_timeout_for_provider (tk_start tk) (Some (ep_provider e))
                      (rv_estimated_input_tokens (xc_requirements cfg)) (xc_deadline cfg) of
                 Inl err \<Rightarrow> (Raised err, st)
               | Inr timeout \<Rightarrow>
                   (case reserve_turn cfg tk p st of
                      (Inl err, st1) \<Rightarrow> (Raised err, st1)
                    | (Inr None, st1) \<Rightarrow>
                        (Next, (exclude (ep_id e) st1)\<lparr>xs_last_failure := Some ''budget_reservation_denied''\<rparr>)
                    | (Inr (Some (reservation, amount)), st1) \<Rightarrow>
                        admit_flight cfg tk key timeout
                          \<lparr>fl_endpoint = e, fl_decision = decision, fl_profile = p, fl_adapted = adapted,
                           fl_attempt = new_attempt tk e compacted st, fl_key_id = key_id,
                           fl_reservation = reservation, fl_amount = amount\<rparr> st1)))"

definition try_endpoint ::
  "'l exec_config \<Rightarrow> tick \<Rightarrow> endpoint \<Rightarrow> routing_decision \<Rightarrow> 'l exec_state \<Rightarrow> step_outcome \<times> 'l exec_state" where
  "try_endpoint cfg tk e decision st =
     (case validate_next_candidate (ep_id e) (xs_ledger st) of
        Inl _ \<Rightarrow> (Next, exclude (ep_id e) st)
      | Inr _ \<Rightarrow>
          let p = endpoint_profile e (xs_router st); shrink = dict_get (xs_window_shrink st) (ep_id e) 1 in
          case adapt_request cfg shrink p (xs_request st) of
            Inl (ContextOverflowError _ _) \<Rightarrow> (Next, exclude (ep_id e) st)
          | Inl err \<Rightarrow> (Raised err, st)
          | Inr (adapted, compacted) \<Rightarrow>
              if shrink < 1 \<and> \<not> compacted then (Next, exclude (ep_id e) st)
              else dispatch cfg tk e decision p adapted compacted (note_failover cfg tk e adapted compacted st))"

definition exec_step :: "'l exec_config \<Rightarrow> tick \<Rightarrow> 'l exec_state \<Rightarrow> step_outcome \<times> 'l exec_state" where
  "exec_step cfg tk st0 =
     (let st = st0\<lparr>xs_attempt_idx := xs_attempt_idx st0 + 1\<rparr> in
      case deadline_check (tk_check tk) (xc_deadline cfg) of
        Inl err \<Rightarrow> (Raised err, st)
      | Inr _ \<Rightarrow>
          (case select_candidate (tk_select tk) (tk_wall tk) (xc_requirements cfg) (xc_pool cfg) (xc_strategy cfg)
                  (rq_request_id (xs_request st)) (xs_excluded st) (xs_last_failure st) (xs_router st) of
             (None, decision, r) \<Rightarrow> rollover cfg tk (st\<lparr>xs_router := r\<rparr>)
           | (Some e, decision, r) \<Rightarrow> try_endpoint cfg tk e decision (st\<lparr>xs_router := r\<rparr>)))"

section \<open>The loop\<close>

definition loop_over :: "'l exec_config \<Rightarrow> tick \<Rightarrow> 'l exec_state \<Rightarrow> bool" where
  "loop_over cfg tk st =
     (is_expired (tk_guard tk) (xc_deadline cfg)
      \<or> total_attempts (xs_ledger st) \<ge> max_total_attempts (al_policy (xs_ledger st)))"

fun execute_loop ::
  "'l exec_config \<Rightarrow> tick list \<Rightarrow> 'l exec_state \<Rightarrow> ((normalized_response \<times> routing_decision) result \<times> 'l exec_state) option" where
  "execute_loop cfg [] st = None"
| "execute_loop cfg (tk # tks) st =
     (if loop_over cfg tk st then Some (Inl (NoHealthyRouteError (xc_pool cfg)), st)
      else case exec_step cfg tk st of
        (Next, st') \<Rightarrow> execute_loop cfg tks st'
      | (Returned r d, st') \<Rightarrow> Some (Inr (r, d), st')
      | (Raised err, st') \<Rightarrow> Some (Inl err, st'))"

text \<open>The requirement vector and the local variables of a new call.\<close>

definition request_vector ::
  "(rat \<Rightarrow> string) \<Rightarrow> string \<Rightarrow> string option \<Rightarrow> requirement_vector \<Rightarrow> normalized_request \<Rightarrow> requirement_vector" where
  "request_vector fr pool prefix_hash requirements rq =
     requirements\<lparr>rv_require_tools := (rq_tools rq \<noteq> [] \<or> rv_require_tools requirements),
       rv_task_class := (if pool = ''coding'' then ''coding'' else ''general''),
       rv_estimated_input_tokens := estimate_tokens fr rq,
       rv_expected_output_tokens := or_int (rq_max_output_tokens rq) 0,
       rv_prefix_hash := prefix_hash\<rparr>"

definition start_call :: "normalized_request \<Rightarrow> execution_policy \<Rightarrow> 'l exec_state \<Rightarrow> 'l exec_state" where
  "start_call rq policy st =
     st\<lparr>xs_ledger := new_attempt_ledger policy, xs_request := rq, xs_excluded := [], xs_attempt_idx := 0,
        xs_last_failure := None, xs_last_endpoint := None, xs_fallback_marked := False, xs_window_shrink := [],
        xs_output_cap_retried := [], xs_waits := 0, xs_sleeps := [], xs_sent := []\<rparr>"

definition execute ::
  "'l exec_config \<Rightarrow> execution_policy \<Rightarrow> requirement_vector \<Rightarrow> normalized_request \<Rightarrow> tick list \<Rightarrow> 'l exec_state
    \<Rightarrow> ((normalized_response \<times> routing_decision) result \<times> 'l exec_state) option" where
  "execute cfg policy requirements rq ticks st =
     execute_loop
       (cfg\<lparr>xc_requirements := request_vector (py_repr (xc_env cfg)) (xc_pool cfg) (xc_prefix_hash cfg) requirements rq\<rparr>)
       ticks (start_call rq policy st)"

section \<open>What the operations leave alone\<close>

abbreviation caps :: "'l exec_state \<Rightarrow> capability_registry" where
  "caps st \<equiv> rt_capabilities (xs_router st)"

lemma on_router_sel [simp]:
  "xs_router (on_router f st) = f (xs_router st)" "xs_budget (on_router f st) = xs_budget st" "xs_ledger (on_router f st) = xs_ledger st"
  "xs_tools (on_router f st) = xs_tools st" "xs_excluded (on_router f st) = xs_excluded st"
  "xs_waits (on_router f st) = xs_waits st" "xs_window_shrink (on_router f st) = xs_window_shrink st" "xs_sent (on_router f st) = xs_sent st" "xs_request (on_router f st) = xs_request st"
  by (simp_all add: on_router_def)

lemma on_ledger_sel [simp]:
  "xs_router (on_ledger f st) = xs_router st" "xs_budget (on_ledger f st) = xs_budget st" "xs_ledger (on_ledger f st) = f (xs_ledger st)"
  "xs_tools (on_ledger f st) = xs_tools st" "xs_excluded (on_ledger f st) = xs_excluded st"
  "xs_waits (on_ledger f st) = xs_waits st" "xs_window_shrink (on_ledger f st) = xs_window_shrink st" "xs_sent (on_ledger f st) = xs_sent st" "xs_request (on_ledger f st) = xs_request st"
  by (simp_all add: on_ledger_def)

lemma on_pm_sel [simp]:
  "xs_router (on_pm cfg f st) = xs_router st" "xs_budget (on_pm cfg f st) = xs_budget st" "xs_ledger (on_pm cfg f st) = xs_ledger st"
  "xs_tools (on_pm cfg f st) = xs_tools st" "xs_excluded (on_pm cfg f st) = xs_excluded st"
  "xs_waits (on_pm cfg f st) = xs_waits st" "xs_window_shrink (on_pm cfg f st) = xs_window_shrink st" "xs_sent (on_pm cfg f st) = xs_sent st" "xs_request (on_pm cfg f st) = xs_request st"
  by (simp_all add: on_pm_def split: pm_ref.split)

lemma on_store_sel [simp]:
  "xs_router (on_store f st) = xs_router st" "xs_budget (on_store f st) = xs_budget st" "xs_ledger (on_store f st) = xs_ledger st"
  "xs_tools (on_store f st) = xs_tools st" "xs_excluded (on_store f st) = xs_excluded st"
  "xs_waits (on_store f st) = xs_waits st" "xs_window_shrink (on_store f st) = xs_window_shrink st" "xs_sent (on_store f st) = xs_sent st" "xs_request (on_store f st) = xs_request st"
  by (simp_all add: on_store_def)

lemma exclude_sel [simp]:
  "xs_router (exclude i st) = xs_router st" "xs_budget (exclude i st) = xs_budget st" "xs_ledger (exclude i st) = xs_ledger st"
  "xs_tools (exclude i st) = xs_tools st" "xs_excluded (exclude i st) = xs_excluded st @ [i]"
  "xs_waits (exclude i st) = xs_waits st" "xs_window_shrink (exclude i st) = xs_window_shrink st" "xs_sent (exclude i st) = xs_sent st" "xs_request (exclude i st) = xs_request st"
  by (simp_all add: exclude_def)

lemma on_part_sel [simp]:
  "caps (on_health f1 st) = caps st" "xs_budget (on_health f1 st) = xs_budget st" "xs_ledger (on_health f1 st) = xs_ledger st"
  "xs_tools (on_health f1 st) = xs_tools st" "xs_excluded (on_health f1 st) = xs_excluded st"
  "xs_waits (on_health f1 st) = xs_waits st" "xs_window_shrink (on_health f1 st) = xs_window_shrink st" "xs_sent (on_health f1 st) = xs_sent st" "xs_request (on_health f1 st) = xs_request st"
  "caps (on_lanes f2 st) = caps st" "xs_budget (on_lanes f2 st) = xs_budget st" "xs_ledger (on_lanes f2 st) = xs_ledger st"
  "xs_tools (on_lanes f2 st) = xs_tools st" "xs_excluded (on_lanes f2 st) = xs_excluded st"
  "xs_waits (on_lanes f2 st) = xs_waits st" "xs_window_shrink (on_lanes f2 st) = xs_window_shrink st" "xs_sent (on_lanes f2 st) = xs_sent st" "xs_request (on_lanes f2 st) = xs_request st"
  "caps (on_breaker k f3 st) = caps st" "xs_budget (on_breaker k f3 st) = xs_budget st" "xs_ledger (on_breaker k f3 st) = xs_ledger st"
  "xs_tools (on_breaker k f3 st) = xs_tools st" "xs_excluded (on_breaker k f3 st) = xs_excluded st"
  "xs_waits (on_breaker k f3 st) = xs_waits st" "xs_window_shrink (on_breaker k f3 st) = xs_window_shrink st" "xs_sent (on_breaker k f3 st) = xs_sent st" "xs_request (on_breaker k f3 st) = xs_request st"
  by (simp_all add: on_health_def on_lanes_def on_breaker_def split: prod.split)

text \<open>Operations that change none of the listed fields but the excluded endpoints, which they only extend.\<close>

definition quiet :: "'l exec_state \<Rightarrow> 'l exec_state \<Rightarrow> bool" where
  "quiet st st' \<longleftrightarrow> caps st' = caps st \<and> xs_ledger st' = xs_ledger st \<and> xs_waits st' = xs_waits st
     \<and> xs_window_shrink st' = xs_window_shrink st \<and> xs_sent st' = xs_sent st \<and> xs_tools st' = xs_tools st \<and> xs_request st' = xs_request st
     \<and> set (xs_excluded st) \<subseteq> set (xs_excluded st')"

lemma quiet_refl [simp]: "quiet st st"
  by (simp add: quiet_def)

lemma quiet_trans: "quiet a b \<Longrightarrow> quiet b c \<Longrightarrow> quiet a c"
  by (auto simp: quiet_def)

lemma durable_sel [simp]:
  "caps (prepare_durable_attempt w a st) = caps st"
  "xs_ledger (prepare_durable_attempt w a st) = xs_ledger st"
  "xs_waits (prepare_durable_attempt w a st) = xs_waits st" "xs_window_shrink (prepare_durable_attempt w a st) = xs_window_shrink st"
  "xs_sent (prepare_durable_attempt w a st) = xs_sent st"
  "xs_tools (prepare_durable_attempt w a st) = xs_tools st"
  "xs_request (prepare_durable_attempt w a st) = xs_request st"
  "xs_excluded (prepare_durable_attempt w a st) = xs_excluded st"
  "xs_budget (prepare_durable_attempt w a st) = xs_budget st"
  "caps (finish_durable_attempt w a s d st) = caps st"
  "xs_ledger (finish_durable_attempt w a s d st) = xs_ledger st"
  "xs_waits (finish_durable_attempt w a s d st) = xs_waits st" "xs_window_shrink (finish_durable_attempt w a s d st) = xs_window_shrink st"
  "xs_sent (finish_durable_attempt w a s d st) = xs_sent st"
  "xs_tools (finish_durable_attempt w a s d st) = xs_tools st"
  "xs_request (finish_durable_attempt w a s d st) = xs_request st"
  "xs_excluded (finish_durable_attempt w a s d st) = xs_excluded st"
  "xs_budget (finish_durable_attempt w a s d st) = xs_budget st"
  by (simp_all add: prepare_durable_attempt_def finish_durable_attempt_def)

lemma lane_outcome_sel [simp]:
  "caps (record_lane_outcome w e f st) = caps st"
  "xs_ledger (record_lane_outcome w e f st) = xs_ledger st"
  "xs_waits (record_lane_outcome w e f st) = xs_waits st" "xs_window_shrink (record_lane_outcome w e f st) = xs_window_shrink st"
  "xs_sent (record_lane_outcome w e f st) = xs_sent st"
  "xs_tools (record_lane_outcome w e f st) = xs_tools st"
  "xs_request (record_lane_outcome w e f st) = xs_request st"
  "xs_excluded (record_lane_outcome w e f st) = xs_excluded st"
  "xs_budget (record_lane_outcome w e f st) = xs_budget st"
  by (simp_all add: record_lane_outcome_def Let_def split: option.split)

lemma durable_quiet:
  "quiet st (prepare_durable_attempt w a st)" "quiet st (finish_durable_attempt w a s d st)" "quiet st (record_lane_outcome w e f st)"
  by (simp_all add: quiet_def)

lemma settle_quiet [simp]: "quiet st (snd (settle_flight fl x st))" "quiet st (settle_reserved fl st)"
  by (simp_all add: quiet_def settle_reserved_def settle_flight_def split: option.split prod.split)

lemma exclude_siblings_extends: "set ex \<subseteq> set (exclude_siblings p es ex)"
proof (induction es arbitrary: ex)
  case (Cons e es)
  show ?case using Cons [of "ex @ [ep_id e]"] Cons [of ex] by auto
qed simp

lemma billing_quiet [simp]: "quiet st (billing_marks cfg tk e c st)" "xs_budget (billing_marks cfg tk e c st) = xs_budget st"
  using exclude_siblings_extends [of "xs_excluded st"] by (simp_all add: quiet_def billing_marks_def Let_def)

lemma death_quiet [simp]: "quiet st (death_marks cfg tk e c st)" "xs_budget (death_marks cfg tk e c st) = xs_budget st"
  by (auto simp: quiet_def death_marks_def Let_def router_mark_dead_def)

lemma abandon_sel [simp]:
  "caps (abandon cfg tk e c st) = caps st" "xs_ledger (abandon cfg tk e c st) = Execution.mark_fallback (xs_ledger st)"
  "xs_waits (abandon cfg tk e c st) = xs_waits st" "xs_window_shrink (abandon cfg tk e c st) = xs_window_shrink st" "xs_sent (abandon cfg tk e c st) = xs_sent st"
  "xs_tools (abandon cfg tk e c st) = xs_tools st" "xs_request (abandon cfg tk e c st) = xs_request st"
  "xs_budget (abandon cfg tk e c st) = xs_budget st" "xs_excluded (abandon cfg tk e c st) = xs_excluded st @ [ep_id e]"
  by (simp_all add: abandon_def Let_def split: option.split)

end
