(* ===== verification/ExecutorSafety.thy ===== *)
theory ExecutorSafety
  imports Executor
begin

text \<open>
  What the request loop of \<^verbatim>\<open>execution/executor.py\<close> guarantees whatever the providers answer and
  whatever the clocks read: it ends, it sends a bounded number of requests, each of them within the deadline
  and fitting the window of its endpoint, it returns every budget reservation, and what it returns is sane
  and safe to execute.
\<close>

section \<open>Progress\<close>

abbreviation tot :: "'l exec_state \<Rightarrow> nat" where
  "tot st \<equiv> length (al_attempts (xs_ledger st))"

abbreviation pol :: "'l exec_state \<Rightarrow> execution_policy" where
  "pol st \<equiv> al_policy (xs_ledger st)"

text \<open>The request up to its output limit, the only part of it the loop changes.\<close>

abbreviation core :: "'l exec_state \<Rightarrow> normalized_request" where
  "core st \<equiv> (xs_request st)\<lparr>rq_max_output_tokens := None\<rparr>"

text \<open>Windows are only ever assumed smaller than declared.\<close>

definition shrinks_ok :: "'l exec_state \<Rightarrow> bool" where
  "shrinks_ok st \<longleftrightarrow> (\<forall>i x. map_of (xs_window_shrink st) i = Some x \<longrightarrow> 0 \<le> x \<and> x \<le> 1)"

lemma shrinks_ok_same [simp]:
  "shrinks_ok (st\<lparr>xs_last_failure := a1\<rparr>) = shrinks_ok st" "shrinks_ok (st\<lparr>xs_sent := a2\<rparr>) = shrinks_ok st"
  "shrinks_ok (st\<lparr>xs_budget := a3\<rparr>) = shrinks_ok st" "shrinks_ok (on_router f st) = shrinks_ok st"
  "shrinks_ok (prepare_durable_attempt w a st) = shrinks_ok st" "shrinks_ok (exclude i st) = shrinks_ok st"
  by (simp_all add: shrinks_ok_def)

definition booked :: "nat \<Rightarrow> 'l exec_state \<Rightarrow> 'l exec_state \<Rightarrow> bool" where
  "booked n st st' \<longleftrightarrow> caps st' = caps st \<and> pol st' = pol st \<and> xs_waits st' = xs_waits st \<and> xs_sent st' = xs_sent st
     \<and> (shrinks_ok st \<longrightarrow> shrinks_ok st') \<and> core st' = core st \<and> tot st + n \<le> tot st' \<and> set (xs_excluded st) \<subseteq> set (xs_excluded st')"

lemma booked_trans: "booked m a b \<Longrightarrow> booked n b c \<Longrightarrow> booked (m + n) a c"
  by (auto simp: booked_def)

lemma booked_mono: "booked n a b \<Longrightarrow> m \<le> n \<Longrightarrow> booked m a b"
  by (simp add: booked_def)

lemma booked_quiet: "quiet a b \<Longrightarrow> booked 0 a b"
  by (auto simp: booked_def quiet_def shrinks_ok_def)

lemma booked_then_quiet: "booked n a b \<Longrightarrow> quiet b c \<Longrightarrow> booked n a c"
  using booked_trans [of n a b 0 c] booked_quiet by force

lemma quiet_then_booked: "quiet a b \<Longrightarrow> booked n b c \<Longrightarrow> booked n a c"
  using booked_trans [of 0 a b n c] booked_quiet by force

lemma record_attempt_sel [simp]:
  "al_attempts (record_attempt a l) = al_attempts l @ [a]" "al_policy (record_attempt a l) = al_policy l"
  "al_attempts (add_cost c l) = al_attempts l" "al_policy (add_cost c l) = al_policy l"
  "al_attempts (Execution.mark_fallback l) = al_attempts l" "al_policy (Execution.mark_fallback l) = al_policy l"
  "al_attempts (record_failover_plan p l) = al_attempts l" "al_policy (record_failover_plan p l) = al_policy l"
  by (simp_all add: record_attempt_def add_cost_def Execution.mark_fallback_def record_failover_plan_def)

lemma booked_record: "booked 1 st (on_ledger (record_attempt a) st)"
  by (simp add: booked_def shrinks_ok_def)

lemma failed_attempt_booked: "booked 1 st (record_failed_attempt cfg tk fl status duration c st)"
proof -
  let ?e = "fl_endpoint fl"
  let ?st2 = "on_health (health_record_failure (tk_done tk) (tk_wall tk) (ep_id ?e) duration (Some status)
       (take 160 (fc_message c)) None (quota_for c) (fc_is_permanent c))
     (on_breaker (resource_key ?e) (record_failure (tk_done tk) duration (Some c)) st)"
  let ?st3 = "record_lane_outcome (tk_wall tk) ?e (Some c) (death_marks cfg tk ?e c (billing_marks cfg tk ?e c ?st2))"
  let ?st4 = "on_ledger (record_attempt (finished tk fl False status (Some c))) ?st3"
  have "quiet st ?st2" by (simp add: quiet_def)
  then have "quiet st ?st3"
    using quiet_trans [OF quiet_trans [OF quiet_trans [OF _ billing_quiet(1)] death_quiet(1)] durable_quiet(3)] by blast
  from quiet_then_booked [OF this booked_record] have "booked 1 st ?st4" .
  from booked_then_quiet [OF booked_then_quiet [OF this settle_quiet(2)] durable_quiet(2)]
  show ?thesis by (simp add: record_failed_attempt_def Let_def booked_def)
qed

lemma shrink_ratio_ok: "shrink_ratio fl c = Inr x \<Longrightarrow> 0 \<le> x \<and> x \<le> 1"
  by (auto simp: shrink_ratio_def Let_def le_max_iff_disj split: option.splits if_splits)

lemma retry_booked: "booked 0 st (snd (retry_decision cfg tk fl c st))"
  using shrink_ratio_ok
  by (auto simp: retry_decision_def Let_def booked_def shrinks_ok_def split: sum.split)

lemma attempt_failed_booked: "booked 1 st (snd (attempt_failed cfg tk fl status duration c st))"
proof -
  let ?a = "finished tk fl False status (Some c)"
  have "quiet st (st\<lparr>xs_keys := kp\<rparr>)" for kp by (simp add: quiet_def)
  from booked_then_quiet [OF booked_then_quiet [OF quiet_then_booked [OF this booked_record] settle_quiet(2)] durable_quiet(2)]
  have "booked 1 st (rotate_key tk fl status c kid st)" for kid by (simp add: rotate_key_def Let_def)
  moreover have "booked 1 st (snd (retry_decision cfg tk fl c (record_failed_attempt cfg tk fl status duration c st)))"
    using booked_trans [OF failed_attempt_booked retry_booked] by simp
  ultimately show ?thesis by (simp add: attempt_failed_def)
qed

lemma judge_booked: "booked 0 st (snd (judge cfg tk e n st))"
  by (auto simp: judge_def booked_def shrinks_ok_def split: sum.split option.split prod.split)

lemma accept_booked: "booked 1 st (snd (accept_response cfg tk fl duration r st))"
proof -
  let ?st1 = "record_success_attempt cfg tk fl r duration st"
  have "booked 1 st ?st1"
    by (auto simp: record_success_attempt_def booked_def shrinks_ok_def Let_def)
  then have one: "booked 1 st (snd (settle_flight fl (turn_cost cfg fl r) ?st1))"
    using booked_then_quiet settle_quiet(1) by blast
  show ?thesis
  proof (cases "settle_flight fl (turn_cost cfg fl r) ?st1")
    case (Pair res st2)
    with one have two: "booked 1 st st2" by simp
    have "booked 1 st (snd (attempt_failed cfg tk fl 200 duration c st2))" for c
      using booked_mono [OF booked_trans [OF two attempt_failed_booked]] by simp
    with Pair booked_then_quiet [OF two durable_quiet(2)] show ?thesis
      by (simp add: accept_response_def split: sum.split)
  qed
qed

lemma block_booked: "booked 1 st (snd (block_response tk fl err st))"
  using booked_then_quiet [OF quiet_then_booked [OF settle_quiet(2) booked_record] durable_quiet(2)]
  by (simp add: block_response_def Let_def)

lemma transport_booked: "booked 1 st (snd (transport_failed cfg tk fl err st))"
proof -
  let ?c = "classify_failure (xc_classifier cfg) (tk_wall tk) err (Some 502) []"
  let ?a = "finished tk fl False 502 (Some ?c)"
  let ?e = "fl_endpoint fl"
  let ?st2 = "on_health (health_record_failure (tk_done tk) (tk_wall tk) (ep_id ?e) (ar_latency_ms ?a) None
       (take 160 (fc_message ?c)) (Some 30) None False)
     (on_breaker (resource_key ?e) (record_failure (tk_done tk) (ar_latency_ms ?a) (Some ?c)) st)"
  let ?st3 = "?st2\<lparr>xs_global_pools := mark_cooldown (tk_done tk) (xc_pool cfg) (ep_id ?e) 30 (xs_global_pools ?st2)\<rparr>"
  have "quiet st (record_lane_outcome (tk_wall tk) ?e (Some ?c) ?st3)" by (simp add: quiet_def)
  from booked_then_quiet [OF booked_then_quiet [OF quiet_then_booked [OF this booked_record] settle_quiet(2)] durable_quiet(2)]
  show ?thesis by (simp only: transport_failed_def Let_def snd_conv)
qed

lemma land_booked: "booked 1 st (snd (land cfg tk fl st))"
proof (cases "tk_upstream tk")
  case (Transport_error err)
  then show ?thesis using transport_booked by (simp add: land_def)
next
  case (Http duration status headers body n)
  obtain v st1 where j: "judge cfg tk (fl_endpoint fl) n st = (v, st1)" by fastforce
  then have b: "booked 0 st st1" using judge_booked by (metis snd_conv)
  have "booked 1 st (snd (accept_response cfg tk fl duration r st1))" "booked 1 st (snd (block_response tk fl err st1))"
    "booked 1 st (snd (attempt_failed cfg tk fl code duration c st1))" for r err c code
    using booked_trans [OF b accept_booked] booked_trans [OF b block_booked] booked_trans [OF b attempt_failed_booked] by simp_all
  with Http j show ?thesis
    by (simp add: land_def attempt_failed_booked [unfolded One_nat_def] split: verdict.split)
qed

text \<open>An iteration that sends \<open>s\<close>.\<close>

definition flown :: "sent \<Rightarrow> 'l exec_state \<Rightarrow> 'l exec_state \<Rightarrow> bool" where
  "flown s st st' \<longleftrightarrow> caps st' = caps st \<and> pol st' = pol st \<and> xs_waits st' = xs_waits st \<and> xs_sent st' = xs_sent st @ [s]
     \<and> (shrinks_ok st \<longrightarrow> shrinks_ok st') \<and> core st' = core st \<and> tot st < tot st' \<and> set (xs_excluded st) \<subseteq> set (xs_excluded st')"

lemma booked_flown: "booked 0 a b \<Longrightarrow> flown s b c \<Longrightarrow> flown s a c"
  by (auto simp: booked_def flown_def)

definition flight_of :: "flight \<Rightarrow> string \<Rightarrow> rat \<Rightarrow> tick \<Rightarrow> sent" where
  "flight_of fl key timeout tk =
     \<lparr>sn_endpoint = fl_endpoint fl, sn_time = tk_start tk, sn_timeout = timeout, sn_key = key, sn_request = fl_adapted fl\<rparr>"

lemma admit_cases:
  assumes "admit_flight cfg tk key timeout fl st = (out, st')"
  obtains (denied) "out = Next" "booked 0 st st'" "ep_id (fl_endpoint fl) \<in> set (xs_excluded st')"
    | (sent) "flown (flight_of fl key timeout tk) st st'"
proof -
  let ?e = "fl_endpoint fl"
  obtain b reg where g: "registry_get_or_create (resource_key ?e) None (rt_breakers (xs_router st)) = (b, reg)" by fastforce
  obtain r b' where a: "acquire_permission (tk_admit tk) b = (r, b')" by fastforce
  show ?thesis
  proof (cases r)
    case (Inl err)
    with assms g a show ?thesis by (intro denied) (auto simp: admit_flight_def Let_def booked_def)
  next
    case (Inr u)
    let ?st1 = "(prepare_durable_attempt (tk_wall tk) (fl_attempt fl)
      (on_router (\<lambda>r. r\<lparr>rt_breakers := registry_put (resource_key ?e) b' reg\<rparr>) st))\<lparr>xs_sent := xs_sent st @ [flight_of fl key timeout tk]\<rparr>"
    from assms g a Inr have "st' = snd (land cfg tk fl ?st1)"
      by (simp add: admit_flight_def Let_def flight_of_def)
    with land_booked [of ?st1 cfg tk fl] show ?thesis by (intro sent) (auto simp: flown_def booked_def)
  qed
qed

lemma note_failover_booked: "booked 0 st (note_failover cfg tk e adapted compacted st)"
  "xs_budget (note_failover cfg tk e adapted compacted st) = xs_budget st"
  "xs_tools (note_failover cfg tk e adapted compacted st) = xs_tools st"
  "xs_request (note_failover cfg tk e adapted compacted st) = xs_request st"
  by (simp_all add: note_failover_def Let_def booked_def shrinks_ok_def split: option.split)

lemma reserve_turn_sel:
  assumes "reserve_turn cfg tk p st = (r, st')"
  shows "quiet st st'" "xs_excluded st' = xs_excluded st"
  using assms by (auto simp: reserve_turn_def Let_def quiet_def split: option.splits prod.splits sum.splits)

lemma dispatch_cases:
  assumes "dispatch cfg tk e d p adapted compacted st = (out, st')"
  obtains (raised) err where "out = Raised err" "booked 0 st st'"
    | (denied) "out = Next" "booked 0 st st'" "ep_id e \<in> set (xs_excluded st')"
    | (sent) key timeout where "flown \<lparr>sn_endpoint = e, sn_time = tk_start tk, sn_timeout = timeout, sn_key = key, sn_request = adapted\<rparr> st st'"
        "per_attempt_timeout_for_provider (tk_start tk) (Some (ep_provider e))
           (rv_estimated_input_tokens (xc_requirements cfg)) (xc_deadline cfg) = Inr timeout"
proof -
  obtain kv kid kp where k: "get_active_key (tk_wall tk) e (xc_api_keys cfg) (xs_keys st) = ((kv, kid), kp)"
    by (metis surj_pair)
  let ?st = "st\<lparr>xs_keys := kp\<rparr>"
  have q: "quiet st ?st" by (simp add: quiet_def)
  show ?thesis
  proof (cases "tk_prepare tk")
    case (Inl err)
    with assms k q show ?thesis by (intro raised) (auto simp: dispatch_def Let_def booked_quiet)
  next
    case prep: (Inr u)
    show ?thesis
    proof (cases "per_attempt_timeout_for_provider (tk_start tk) (Some (ep_provider e))
           (rv_estimated_input_tokens (xc_requirements cfg)) (xc_deadline cfg)")
      case (Inl err)
      with assms k q prep show ?thesis by (intro raised) (auto simp: dispatch_def Let_def booked_quiet)
    next
      case (Inr timeout)
      obtain r st1 where r: "reserve_turn cfg tk p ?st = (r, st1)" by fastforce
      have q1: "quiet st st1" by (rule quiet_trans [OF q reserve_turn_sel(1) [OF r]])
      consider err where "r = Inl err" | "r = Inr None" | res amount where "r = Inr (Some (res, amount))"
        by (metis sum.exhaust option.exhaust surj_pair)
      then show ?thesis
      proof cases
        case 1
        with assms k prep Inr r q1 show ?thesis by (intro raised) (auto simp: dispatch_def Let_def booked_quiet)
      next
        case 2
        with assms k prep Inr r q1 show ?thesis
          by (intro denied) (auto simp: dispatch_def Let_def booked_def quiet_def shrinks_ok_def)
      next
        case 3
        let ?fl = "\<lparr>fl_endpoint = e, fl_decision = d, fl_profile = p, fl_adapted = adapted,
          fl_attempt = new_attempt tk e compacted ?st, fl_key_id = kid, fl_reservation = res, fl_amount = amount\<rparr>"
        let ?key = "case kv of Some k \<Rightarrow> k
           | None \<Rightarrow> if truthy_str (ep_env_key e) then dict_get (xc_api_keys cfg) (the (ep_env_key e)) [] else []"
        from assms k prep Inr r 3 have a: "admit_flight cfg tk ?key timeout ?fl st1 = (out, st')"
          by (simp add: dispatch_def Let_def)
        then show ?thesis
        proof (cases rule: admit_cases)
          case denied
          then show ?thesis using that(2) booked_trans [OF booked_quiet [OF q1]] by force
        next
          case sent
          from booked_flown [OF booked_quiet [OF q1] this] Inr show ?thesis by (intro that(3)) (simp_all add: flight_of_def)
        qed
      qed
    qed
  qed
qed

lemma try_cases:
  assumes "try_endpoint cfg tk e d st = (out, st')"
  obtains (raised) err where "out = Raised err" "booked 0 st st'"
    | (skipped) "out = Next" "booked 0 st st'" "ep_id e \<in> set (xs_excluded st')"
    | (sent) key timeout adapted compacted where
        "flown \<lparr>sn_endpoint = e, sn_time = tk_start tk, sn_timeout = timeout, sn_key = key, sn_request = adapted\<rparr> st st'"
        "per_attempt_timeout_for_provider (tk_start tk) (Some (ep_provider e))
           (rv_estimated_input_tokens (xc_requirements cfg)) (xc_deadline cfg) = Inr timeout"
        "adapt_request cfg (dict_get (xs_window_shrink st) (ep_id e) 1) (endpoint_profile e (xs_router st)) (xs_request st)
           = Inr (adapted, compacted)"
proof -
  let ?s = "dict_get (xs_window_shrink st) (ep_id e) 1"
  let ?a = "adapt_request cfg ?s (endpoint_profile e (xs_router st)) (xs_request st)"
  have skip: thesis if "(out, st') = (Next, exclude (ep_id e) st)"
    using that by (intro skipped) (auto simp: booked_def shrinks_ok_def)
  show ?thesis
  proof (cases "validate_next_candidate (ep_id e) (xs_ledger st)")
    case (Inl err)
    with assms show ?thesis by (intro skip) (simp add: try_endpoint_def)
  next
    case v: (Inr u)
    show ?thesis
    proof (cases ?a)
      case (Inl err)
      with assms v consider "(out, st') = (Next, exclude (ep_id e) st)" | "(out, st') = (Raised err, st)"
        by (auto simp: try_endpoint_def Let_def split: gateway_error.splits)
      then show ?thesis using skip raised by cases (auto simp: booked_def)
    next
      case (Inr pr)
      obtain adapted compacted where pr: "pr = (adapted, compacted)" by fastforce
      show ?thesis
      proof (cases "?s < 1 \<and> \<not> compacted")
        case True
        with assms v Inr pr show ?thesis by (intro skip) (simp add: try_endpoint_def Let_def)
      next
        case False
        let ?n = "note_failover cfg tk e adapted compacted st"
        from False assms v Inr pr have "dispatch cfg tk e d (endpoint_profile e (xs_router st)) adapted compacted ?n = (out, st')"
          by (simp add: try_endpoint_def Let_def del: not_less split: if_splits)
        then show ?thesis
        proof (cases rule: dispatch_cases)
          case (raised err)
          then show ?thesis using that(1) booked_trans [OF note_failover_booked(1)] by force
        next
          case denied
          then show ?thesis using that(2) booked_trans [OF note_failover_booked(1)] by force
        next
          case (sent key timeout)
          then show ?thesis using that(3) booked_flown [OF note_failover_booked(1)] Inr pr by blast
        qed
      qed
    qed
  qed
qed

section \<open>Selection\<close>

lemma usable_not_excluded: "usable wall req excluded e r \<Longrightarrow> ep_id e \<notin> set excluded"
  unfolding usable_def Let_def by (rule conjunct1)

lemma evaluate_all_members:
  "evaluate_all mclk wall req excluded es r = (evs, r') \<Longrightarrow>
   map fst evs = es \<and> rt_capabilities r' = rt_capabilities r
   \<and> (\<forall>x \<in> set evs. ce_eligible (snd x) \<longrightarrow> ep_id (fst x) \<notin> set excluded)"
proof (induction es arbitrary: r evs r')
  case (Cons e es)
  obtain ev r1 where e: "evaluate_candidate mclk wall req excluded e r = (ev, r1)" by fastforce
  obtain evs1 r2 where es: "evaluate_all mclk wall req excluded es r1 = (evs1, r2)" by fastforce
  have eqs: "evs = (e, ev) # evs1" "r' = r2" using Cons.prems(1) e es by simp_all
  note s = evaluate_step [OF e]
  have "rt_capabilities r1 = rt_capabilities r" using conjunct1 [OF s] unfolding router_frame_def by (rule conjunct1)
  moreover have "ce_eligible ev \<longrightarrow> ep_id e \<notin> set excluded" using s usable_not_excluded by blast
  ultimately show ?case using Cons.IH [OF es] unfolding eqs by simp
qed simp

lemma caps_if: "rt_capabilities (if b then r\<lparr>rt_round_robin := x\<rparr> else r) = rt_capabilities r"
  by simp

lemma select_members:
  assumes "select_candidate mclk wall req pool strategy rid excluded fr r = (sel, d, r')"
  shows "rt_capabilities r' = rt_capabilities r"
    and "sel = Some e \<Longrightarrow> e \<in> set (endpoints_for_pool pool (rt_capabilities r)) \<and> ep_id e \<notin> set excluded"
proof -
  let ?es = "endpoints_for_pool pool (rt_capabilities r)"
  obtain evs r1 where ev: "evaluate_all mclk wall req excluded ?es r = (evs, r1)" by fastforce
  note m = evaluate_all_members [OF ev]
  have "rt_capabilities (snd (snd (select_candidate mclk wall req pool strategy rid excluded fr r))) = rt_capabilities r1"
    unfolding select_candidate_def Let_def ev prod.case snd_conv by (rule caps_if)
  then show "rt_capabilities r' = rt_capabilities r" using m unfolding assms by simp
  assume "sel = Some e"
  with select_form [OF assms ev] obtain x where x: "(e, x) \<in> set evs" "ce_eligible x" by auto
  with m have "ep_id e \<notin> set excluded" by force
  moreover have "e \<in> set ?es" using m x(1) by (metis fst_conv image_eqI list.set_map)
  ultimately show "e \<in> set ?es \<and> ep_id e \<notin> set excluded" by blast
qed

section \<open>One iteration\<close>

abbreviation pool_of :: "'l exec_config \<Rightarrow> 'l exec_state \<Rightarrow> endpoint list" where
  "pool_of cfg st \<equiv> endpoints_for_pool (xc_pool cfg) (caps st)"

lemma step_cases:
  assumes "exec_step cfg tk st = (out, st')" and "\<not> loop_over cfg tk st"
  obtains (raised) err where "out = Raised err" "booked 0 st st'"
    | (skipped) e where "out = Next" "booked 0 st st'" "e \<in> set (pool_of cfg st)" "ep_id e \<notin> set (xs_excluded st)"
        "ep_id e \<in> set (xs_excluded st')"
    | (waited) "out = Next" "caps st' = caps st" "pol st' = pol st" "xs_waits st < MAX_RATE_LIMIT_WAITS"
        "xs_waits st' = Suc (xs_waits st)" "xs_sent st' = xs_sent st" "tot st' = tot st"
        "xs_window_shrink st' = xs_window_shrink st" "core st' = core st"
    | (sent) e key timeout adapted compacted where "e \<in> set (pool_of cfg st)" "ep_id e \<notin> set (xs_excluded st)"
        "flown \<lparr>sn_endpoint = e, sn_time = tk_start tk, sn_timeout = timeout, sn_key = key, sn_request = adapted\<rparr> st st'"
        "per_attempt_timeout_for_provider (tk_start tk) (Some (ep_provider e))
           (rv_estimated_input_tokens (xc_requirements cfg)) (xc_deadline cfg) = Inr timeout"
        "adapt_request cfg (dict_get (xs_window_shrink st) (ep_id e) 1) (endpoint_profile e (xs_router st)) (xs_request st)
           = Inr (adapted, compacted)"
proof -
  let ?st = "st\<lparr>xs_attempt_idx := xs_attempt_idx st + 1\<rparr>"
  show ?thesis
  proof (cases "deadline_check (tk_check tk) (xc_deadline cfg)")
    case (Inl err)
    with assms(1) show ?thesis by (intro raised) (auto simp: exec_step_def Let_def booked_def shrinks_ok_def)
  next
    case dl: (Inr u)
    obtain sel d r where sel: "select_candidate (tk_select tk) (tk_wall tk) (xc_requirements cfg) (xc_pool cfg) (xc_strategy cfg)
        (rq_request_id (xs_request ?st)) (xs_excluded ?st) (xs_last_failure ?st) (xs_router ?st) = (sel, d, r)"
      using prod_cases3 by blast
    let ?st1 = "?st\<lparr>xs_router := r\<rparr>"
    have c: "rt_capabilities r = caps st" using select_members(1) [OF sel] by simp
    have b: "booked 0 st ?st1" using c by (simp add: booked_def shrinks_ok_def)
    show ?thesis
    proof (cases sel)
      case None
      obtain eps delays where t: "temp_rate_limited (xs_excluded st) (al_attempts (xs_ledger st)) ([], []) = (eps, delays)"
        by fastforce
      from assms(1) dl sel None have ro: "rollover cfg tk ?st1 = (out, st')" by (simp add: exec_step_def Let_def)
      have small: "total_attempts (xs_ledger st) < max_total_attempts (pol st)"
        using assms(2) by (simp add: loop_over_def)
      show ?thesis
      proof (cases "eps \<noteq> [] \<and> xs_waits st < MAX_RATE_LIMIT_WAITS \<and> remaining_ms (tk_wait tk) (xc_deadline cfg) / 1000 > 10")
        case True
        with ro t c small show ?thesis
          by (intro waited) (auto simp: rollover_def Let_def reset_for_rate_limit_retry_def)
      next
        case False
        with ro t c show ?thesis by (intro raised) (auto simp: rollover_def Let_def booked_def shrinks_ok_def)
      qed
    next
      case (Some e)
      from assms(1) dl sel Some have "try_endpoint cfg tk e d ?st1 = (out, st')" by (simp add: exec_step_def Let_def)
      moreover have m: "e \<in> set (pool_of cfg st)" "ep_id e \<notin> set (xs_excluded st)"
        using select_members(2) [OF sel Some] by simp_all
      moreover have prof: "endpoint_profile e r = endpoint_profile e (xs_router st)" using c by (simp add: endpoint_profile_def split: option.split)
      ultimately show ?thesis
      proof (cases rule: try_cases)
        case (raised err)
        then show ?thesis using that(1) booked_trans [OF b] by force
      next
        case skipped
        then show ?thesis using that(2) m booked_trans [OF b] by force
      next
        case (sent key timeout adapted compacted)
        then show ?thesis using booked_flown [OF b sent(1)] by (intro that(4) [OF m]) (simp_all add: prof)
      qed
    qed
  qed
qed

section \<open>Termination\<close>

text \<open>Endpoints not yet excluded, and a bound on the iterations left.\<close>

definition room :: "'l exec_config \<Rightarrow> 'l exec_state \<Rightarrow> nat" where
  "room cfg st = card (ep_id ` set (pool_of cfg st) - set (xs_excluded st))"

definition fuel :: "'l exec_config \<Rightarrow> 'l exec_state \<Rightarrow> nat" where
  "fuel cfg st = (MAX_RATE_LIMIT_WAITS - xs_waits st) * (length (pool_of cfg st) + 1)
     + (nat (max_total_attempts (pol st)) - tot st) + room cfg st"

lemma room_le: "room cfg st \<le> length (pool_of cfg st)"
proof -
  have "room cfg st \<le> card (ep_id ` set (pool_of cfg st))" unfolding room_def by (rule card_mono) auto
  also have "\<dots> \<le> length (map ep_id (pool_of cfg st))" using card_length [of "map ep_id (pool_of cfg st)"] by simp
  finally show ?thesis by simp
qed

lemma room_mono: "caps st' = caps st \<Longrightarrow> set (xs_excluded st) \<subseteq> set (xs_excluded st') \<Longrightarrow> room cfg st' \<le> room cfg st"
  unfolding room_def by (rule card_mono) auto

lemma room_less:
  assumes "caps st' = caps st" "set (xs_excluded st) \<subseteq> set (xs_excluded st')" "e \<in> set (pool_of cfg st)"
    "ep_id e \<notin> set (xs_excluded st)" "ep_id e \<in> set (xs_excluded st')"
  shows "room cfg st' < room cfg st"
  unfolding room_def using assms by (intro psubset_card_mono) auto

lemma fuel_skipped:
  assumes "booked 0 st st'" "e \<in> set (pool_of cfg st)" "ep_id e \<notin> set (xs_excluded st)" "ep_id e \<in> set (xs_excluded st')"
  shows "fuel cfg st' < fuel cfg st"
  using room_less [of st' st e cfg] assms by (simp add: fuel_def booked_def) (meson add_le_less_mono diff_le_mono2)

lemma fuel_waited:
  assumes "caps st' = caps st" "pol st' = pol st" "xs_waits st < MAX_RATE_LIMIT_WAITS" "xs_waits st' = Suc (xs_waits st)" "tot st' = tot st"
  shows "fuel cfg st' < fuel cfg st"
proof -
  have "room cfg st' \<le> length (pool_of cfg st)" using room_le [of cfg st'] assms by simp
  moreover obtain k where k: "MAX_RATE_LIMIT_WAITS - xs_waits st = Suc k" "MAX_RATE_LIMIT_WAITS - xs_waits st' = k"
    using assms by (metis Suc_diff_Suc)
  ultimately show ?thesis unfolding fuel_def k using assms by simp
qed

lemma fuel_flown:
  assumes "flown s st st'" "\<not> loop_over cfg tk st"
  shows "fuel cfg st' < fuel cfg st"
proof -
  have "tot st < nat (max_total_attempts (pol st))" using assms(2) by (simp add: loop_over_def total_attempts_def zless_nat_eq_int_zless)
  then have "nat (max_total_attempts (pol st)) - tot st' < nat (max_total_attempts (pol st)) - tot st"
    using assms(1) by (intro diff_less_mono2) (auto simp: flown_def)
  moreover have "room cfg st' \<le> room cfg st" using assms(1) by (intro room_mono) (auto simp: flown_def)
  moreover have eqs: "caps st' = caps st" "pol st' = pol st" "xs_waits st' = xs_waits st" using assms(1) by (auto simp: flown_def)
  ultimately show ?thesis unfolding fuel_def eqs by linarith
qed

lemma step_fuel:
  assumes "exec_step cfg tk st = (Next, st')" "\<not> loop_over cfg tk st"
  shows "fuel cfg st' < fuel cfg st"
  using assms
proof (cases rule: step_cases)
  case (skipped e)
  show ?thesis by (rule fuel_skipped [OF skipped(2-5)])
next
  case waited
  show ?thesis by (rule fuel_waited [OF waited(2-5,7)])
next
  case (sent e key timeout adapted compacted)
  show ?thesis by (rule fuel_flown [OF sent(3) assms(2)])
qed simp

text \<open>
  The loops of the executor share a shape: a guard, a step, and a measure that every step that goes on
  decreases.  They then return, and what every step keeps holds at the end.
\<close>

locale attempt_loop =
  fixes loop :: "'t list \<Rightarrow> 's \<Rightarrow> ('r \<times> 's) option"
    and over :: "'t \<Rightarrow> 's \<Rightarrow> bool"
    and step :: "'t \<Rightarrow> 's \<Rightarrow> 'o \<times> 's"
    and goes_on :: "'o \<Rightarrow> bool"
    and result :: "'o \<Rightarrow> 'r"
    and exhausted :: 'r
    and fuel_of :: "'s \<Rightarrow> nat"
  assumes loop_Nil: "loop [] s = None"
    and loop_over: "over t s \<Longrightarrow> loop (t # ts) s = Some (exhausted, s)"
    and loop_on: "\<not> over t s \<Longrightarrow> step t s = (out, s') \<Longrightarrow> goes_on out \<Longrightarrow> loop (t # ts) s = loop ts s'"
    and loop_stop: "\<not> over t s \<Longrightarrow> step t s = (out, s') \<Longrightarrow> \<not> goes_on out \<Longrightarrow> loop (t # ts) s = Some (result out, s')"
    and step_decreases: "\<not> over t s \<Longrightarrow> step t s = (out, s') \<Longrightarrow> goes_on out \<Longrightarrow> fuel_of s' < fuel_of s"
begin

lemma returns: "fuel_of s < length ts \<Longrightarrow> \<exists>res. loop ts s = Some res"
proof (induction ts arbitrary: s)
  case (Cons t ts)
  obtain out s' where st: "step t s = (out, s')" by fastforce
  consider "over t s" | "\<not> over t s" "goes_on out" | "\<not> over t s" "\<not> goes_on out" by blast
  then show ?case
  proof cases
    case 2
    with step_decreases [OF 2(1) st 2(2)] Cons loop_on [OF 2(1) st 2(2), of ts] show ?thesis by simp
  qed (simp_all add: loop_over loop_stop [OF _ st])
qed simp

text \<open>A run ends where the guard stops it or in a step that does not go on, from a state the loop keeps.\<close>

lemma ends:
  assumes "loop ts s = Some (r, s')" and "I s"
    and "\<And>t s out s'. \<not> over t s \<Longrightarrow> step t s = (out, s') \<Longrightarrow> goes_on out \<Longrightarrow> I s \<Longrightarrow> I s'"
  obtains (guard) "r = exhausted" "I s'"
    | (stop) t s0 out where "I s0" "\<not> over t s0" "step t s0 = (out, s')" "\<not> goes_on out" "r = result out"
proof -
  have "(r = exhausted \<and> I s') \<or> (\<exists>t s0 out. I s0 \<and> \<not> over t s0 \<and> step t s0 = (out, s') \<and> \<not> goes_on out \<and> r = result out)"
    using assms(1,2)
  proof (induction ts arbitrary: s)
    case Nil
    then show ?case by (simp add: loop_Nil)
  next
    case (Cons t ts)
    obtain out s1 where st: "step t s = (out, s1)" by fastforce
    consider "over t s" | "\<not> over t s" "goes_on out" | "\<not> over t s" "\<not> goes_on out" by blast
    then show ?case
    proof cases
      case 1
      with Cons.prems show ?thesis by (simp add: loop_over)
    next
      case 2
      from assms(3) [OF 2(1) st 2(2) Cons.prems(2)] Cons.prems(1) show ?thesis
        by (intro Cons.IH) (simp_all add: loop_on [OF 2(1) st 2(2)])
    next
      case 3
      with Cons.prems st show ?thesis by (auto simp: loop_stop [OF 3(1) st 3(2)])
    qed
  qed
  with guard stop show thesis by blast
qed

lemma keeps:
  assumes "loop ts s = Some (r, s')" and "I s" and "\<And>t s out s'. \<not> over t s \<Longrightarrow> step t s = (out, s') \<Longrightarrow> I s \<Longrightarrow> I s'"
  shows "I s'"
  using assms(1,2)
proof (rule ends)
  fix t s0 out
  assume "I s0" "\<not> over t s0" "step t s0 = (out, s')"
  with assms(3) show "I s'" by blast
qed (use assms(3) in auto)

end

definition outcome_result :: "step_outcome \<Rightarrow> (normalized_response \<times> routing_decision) result" where
  "outcome_result out = (case out of Returned r d \<Rightarrow> Inr (r, d) | Raised err \<Rightarrow> Inl err | Next \<Rightarrow> Inl RuntimeError)"

interpretation exec_loop: attempt_loop "execute_loop cfg" "loop_over cfg" "exec_step cfg" "\<lambda>out. out = Next" outcome_result
  "Inl (NoHealthyRouteError (xc_pool cfg))" "fuel cfg" for cfg
proof unfold_locales
  fix t s out s' ts
  assume "\<not> loop_over cfg t s" "exec_step cfg t s = (out, s')" "out \<noteq> Next"
  then show "execute_loop cfg (t # ts) s = Some (outcome_result out, s')" by (cases out) (simp_all add: outcome_result_def)
qed (auto simp: step_fuel)

section \<open>What is sent\<close>

lemma py_int_mono_window:
  assumes "0 \<le> x" "x \<le> 1" "t = py_int (of_int w * x)"
  shows "t \<le> max 0 w"
proof (cases "w \<ge> 0")
  case True
  then have "of_int w * x \<le> of_int w" "0 \<le> of_int w * x" using assms by (simp_all add: mult_left_le)
  then show ?thesis using assms(3) True by (simp add: py_int_def) linarith
next
  case False
  then have "of_int w * x \<le> 0" using assms(1) by (simp add: mult_nonpos_nonneg)
  then show ?thesis using assms(3) False by (auto simp: py_int_def ceiling_le_iff le_max_iff_disj)
qed

lemma py_int_tenth: "t \<ge> 0 \<Longrightarrow> 0 \<le> py_int (of_int t * (1 / 10))" "t < 0 \<Longrightarrow> t \<le> py_int (of_int t * (1 / 10))"
  by (auto simp: py_int_def) linarith+

lemma size_budget_fits:
  fixes fr p rq
  assumes "0 \<le> x" "x \<le> 1"
  defines "b \<equiv> size_budget fr x p rq"
  shows "available_input_budget b \<le> max 512 (max 0 (mp_context_window p) - desired_output_tokens b)"
proof -
  let ?t = "model_context_window b"
  have t: "?t \<le> max 0 (mp_context_window p)"
    using py_int_mono_window [OF assms(1,2) refl] by (simp add: b_def size_budget_def Let_def)
  have m: "safety_margin_tokens b = (if ?t > 8000 then 2048 else min 512 (py_int (of_int ?t * (1 / 10))))"
    by (simp add: b_def size_budget_def Let_def)
  have "?t - safety_margin_tokens b \<le> max 0 (mp_context_window p)"
  proof (cases "?t \<ge> 0")
    case True
    then have "0 \<le> safety_margin_tokens b" using py_int_tenth(1) by (simp add: m)
    with t show ?thesis by simp
  next
    case False
    then have "?t \<le> safety_margin_tokens b" using py_int_tenth(2) [of ?t] by (simp add: m)
    then show ?thesis by simp
  qed
  then show ?thesis unfolding available_input_budget_def by linarith
qed

lemma estimate_tokens_output [simp]: "estimate_tokens fr (rq\<lparr>rq_max_output_tokens := x\<rparr>) = estimate_tokens fr rq"
  by (simp add: estimate_tokens_def request_length_def)

definition fits_window :: "(rat \<Rightarrow> string) \<Rightarrow> model_profile \<Rightarrow> normalized_request \<Rightarrow> bool" where
  "fits_window fr p rq \<longleftrightarrow>
     (\<exists>out. rq_max_output_tokens rq = Some out \<and> estimate_tokens fr rq \<le> max 512 (max 0 (mp_context_window p) - out))"

lemma adapted_fits:
  assumes "adapt_request cfg x p rq = Inr (adapted, compacted)" "0 \<le> x" "x \<le> 1"
  shows "fits_window (py_repr (xc_env cfg)) p adapted"
proof -
  let ?b = "size_budget (py_repr (xc_env cfg)) x p rq"
  obtain rq' where c: "compact_request (py_repr (xc_env cfg)) (xc_tail_turns cfg) rq ?b = Inr (rq', compacted)"
    and a: "adapted = rq'\<lparr>rq_max_output_tokens := Some (desired_output_tokens ?b)\<rparr>"
    using assms(1) by (auto simp: adapt_request_def Let_def split: sum.splits)
  have "estimate_tokens (py_repr (xc_env cfg)) rq' \<le> available_input_budget ?b"
    using compact_outcome [where fr = "py_repr (xc_env cfg)" and tail = "xc_tail_turns cfg" and r = rq and b = ?b] by (simp add: c)
  with size_budget_fits [OF assms(2,3), where fr = "py_repr (xc_env cfg)" and p = p and rq = rq] show ?thesis by (simp add: fits_window_def a)
qed

text \<open>A send is sound: to the pool, before the deadline, with a timeout within it, and within the window.\<close>

definition sound_send :: "'l exec_config \<Rightarrow> router \<Rightarrow> sent \<Rightarrow> bool" where
  "sound_send cfg r s \<longleftrightarrow>
     sn_endpoint s \<in> set (endpoints_for_pool (xc_pool cfg) (rt_capabilities r))
     \<and> \<not> is_expired (sn_time s) (xc_deadline cfg) \<and> 1 / 10 \<le> sn_timeout s
     \<and> sn_timeout s \<le> max (1 / 10) (remaining_ms (sn_time s) (xc_deadline cfg) / 1000)
     \<and> fits_window (py_repr (xc_env cfg)) (endpoint_profile (sn_endpoint s) r) (sn_request s)"

lemma sound_send_caps: "rt_capabilities r = rt_capabilities r' \<Longrightarrow> sound_send cfg r s = sound_send cfg r' s"
  by (simp add: sound_send_def endpoint_profile_def split: option.split)

lemma timeout_within:
  assumes "per_attempt_timeout_for_provider now p n d = Inr timeout"
  shows "\<not> is_expired now d \<and> 1 / 10 \<le> timeout \<and> timeout \<le> max (1 / 10) (remaining_ms now d / 1000)"
proof (cases "is_expired now d")
  case True
  with assms show ?thesis by (simp add: per_attempt_timeout_for_provider_def deadline_check_def)
next
  case False
  from attempt_timeout_form [OF False, of p n] assms False show ?thesis by auto
qed

definition sends_inv :: "'l exec_config \<Rightarrow> router \<Rightarrow> execution_policy \<Rightarrow> 'l exec_state \<Rightarrow> bool" where
  "sends_inv cfg r policy st \<longleftrightarrow> caps st = rt_capabilities r \<and> pol st = policy \<and> shrinks_ok st
     \<and> length (xs_sent st) \<le> tot st \<and> length (xs_sent st) \<le> nat (max_total_attempts policy)
     \<and> xs_waits st \<le> MAX_RATE_LIMIT_WAITS \<and> list_all (sound_send cfg r) (xs_sent st)"

lemma step_sends_inv:
  assumes "exec_step cfg tk st = (out, st')" "\<not> loop_over cfg tk st" "sends_inv cfg r policy st"
  shows "sends_inv cfg r policy st'"
  using assms(1,2)
proof (cases rule: step_cases)
  case (raised err)
  with assms(3) show ?thesis by (auto simp: sends_inv_def booked_def)
next
  case (skipped e)
  with assms(3) show ?thesis by (auto simp: sends_inv_def booked_def)
next
  case waited
  with assms(3) show ?thesis by (auto simp: sends_inv_def shrinks_ok_def)
next
  case (sent e key timeout adapted compacted)
  let ?s = "\<lparr>sn_endpoint = e, sn_time = tk_start tk, sn_timeout = timeout, sn_key = key, sn_request = adapted\<rparr>"
  have "0 \<le> dict_get (xs_window_shrink st) (ep_id e) 1 \<and> dict_get (xs_window_shrink st) (ep_id e) 1 \<le> 1"
    using assms(3) by (auto simp: sends_inv_def shrinks_ok_def dict_get_def split: option.split)
  then have "sound_send cfg (xs_router st) ?s"
    using sent(1) timeout_within [OF sent(4)] adapted_fits [OF sent(5)] by (simp add: sound_send_def)
  then have "sound_send cfg r ?s" using sound_send_caps [of r "xs_router st" cfg ?s] assms(3) by (simp add: sends_inv_def)
  moreover have "tot st < nat (max_total_attempts policy)"
    using assms(2,3) by (simp add: loop_over_def total_attempts_def sends_inv_def zless_nat_eq_int_zless)
  ultimately show ?thesis using assms(3) sent(3) by (auto simp: sends_inv_def flown_def)
qed

lemma loop_sends_inv:
  "execute_loop cfg tks st = Some (res, st') \<Longrightarrow> sends_inv cfg r policy st \<Longrightarrow> sends_inv cfg r policy st'"
  by (erule exec_loop.keeps) (auto intro: step_sends_inv)

lemma start_sends_inv: "sends_inv cfg (xs_router st) policy (start_call rq policy st)"
  by (simp add: sends_inv_def start_call_def new_attempt_ledger_def shrinks_ok_def)

lemma start_sel [simp]:
  "xs_router (start_call rq policy st) = xs_router st" "xs_budget (start_call rq policy st) = xs_budget st"
  "xs_tools (start_call rq policy st) = xs_tools st" "xs_request (start_call rq policy st) = rq"
  "xs_waits (start_call rq policy st) = 0" "pol (start_call rq policy st) = policy"
  by (simp_all add: start_call_def new_attempt_ledger_def)

section \<open>Budget reservations\<close>

lemma delete_update_absent: "map_of d k = None \<Longrightarrow> AList.delete k (AList.update k v d) = d"
  by (induction d) (auto simp: AList.delete_eq filter_id_conv split: if_splits)

text \<open>The books hold the reservation of the flight on top of \<open>d\<close>; paying it restores \<open>d\<close>.\<close>

definition holds :: "flight \<Rightarrow> (string, budget_reservation) dict \<Rightarrow> budget_store \<Rightarrow> bool" where
  "holds fl d b \<longleftrightarrow>
     (case fl_reservation fl of
        None \<Rightarrow> bs_reserved b = d
      | Some rid \<Rightarrow> 0 \<le> fl_amount fl \<and> map_of d rid = None \<and> (\<exists>x. bs_reserved b = AList.update rid x d))"

definition pay :: "flight \<Rightarrow> budget_store \<Rightarrow> budget_store" where
  "pay fl b = (case fl_reservation fl of None \<Rightarrow> b | Some rid \<Rightarrow> snd (settle rid (fl_amount fl) b))"

lemma pay_holds: "holds fl d b \<Longrightarrow> bs_reserved (pay fl b) = d"
  by (auto simp: holds_def pay_def settle_def delete_update_absent split: option.splits)

lemma settle_reserved_budget [simp]: "xs_budget (settle_reserved fl st) = pay fl (xs_budget st)"
  by (simp add: settle_reserved_def settle_flight_def pay_def split: option.split prod.split)

lemma settle_flight_budget:
  assumes "settle_flight fl x st = (r, st')" "holds fl d (xs_budget st)"
  shows "case r of Inr _ \<Rightarrow> bs_reserved (xs_budget st') = d | Inl _ \<Rightarrow> xs_budget st' = xs_budget st"
  using assms
  by (auto simp: settle_flight_def holds_def settle_def delete_update_absent split: option.splits prod.splits sum.splits if_splits)

lemma failed_attempt_budget [simp]:
  "xs_budget (record_failed_attempt cfg tk fl status duration c st) = pay fl (xs_budget st)"
  "xs_budget (rotate_key tk fl status c kid st) = pay fl (xs_budget st)"
  "xs_budget (snd (transport_failed cfg tk fl err st)) = pay fl (xs_budget st)"
  "xs_budget (snd (block_response tk fl err' st)) = pay fl (xs_budget st)"
  by (simp_all add: record_failed_attempt_def rotate_key_def transport_failed_def block_response_def Let_def)

lemma retry_budget [simp]: "xs_budget (snd (retry_decision cfg tk fl c st)) = xs_budget st"
  by (simp add: retry_decision_def Let_def split: sum.split)

lemma attempt_failed_budget [simp]: "xs_budget (snd (attempt_failed cfg tk fl status duration c st)) = pay fl (xs_budget st)"
  by (simp add: attempt_failed_def)

lemma judge_budget: "judge cfg tk e n st = (v, st') \<Longrightarrow> xs_budget st' = xs_budget st"
  by (auto simp: judge_def split: sum.splits option.splits prod.splits)

lemma accept_budget:
  assumes "holds fl d (xs_budget st)"
  shows "bs_reserved (xs_budget (snd (accept_response cfg tk fl duration r st))) = d"
proof -
  let ?st1 = "record_success_attempt cfg tk fl r duration st"
  have "xs_budget ?st1 = xs_budget st" by (simp add: record_success_attempt_def Let_def)
  with assms have h: "holds fl d (xs_budget ?st1)" by simp
  obtain res st2 where s: "settle_flight fl (turn_cost cfg fl r) ?st1 = (res, st2)" by fastforce
  from settle_flight_budget [OF s h] h s show ?thesis
    by (auto simp: accept_response_def pay_holds split: sum.splits)
qed

lemma land_budget:
  assumes "holds fl d (xs_budget st)"
  shows "bs_reserved (xs_budget (snd (land cfg tk fl st))) = d"
proof (cases "tk_upstream tk")
  case (Http duration status headers body n)
  obtain v st1 where j: "judge cfg tk (fl_endpoint fl) n st = (v, st1)" by fastforce
  with assms have h: "holds fl d (xs_budget st1)" using judge_budget [OF j] by simp
  show ?thesis using Http j accept_budget [OF h] pay_holds [OF h] pay_holds [OF assms]
    by (simp add: land_def split: verdict.split)
qed (simp add: land_def pay_holds [OF assms])

lemma admit_budget:
  assumes "holds fl d (xs_budget st)"
  shows "bs_reserved (xs_budget (snd (admit_flight cfg tk key timeout fl st))) = d"
proof -
  let ?e = "fl_endpoint fl"
  obtain b reg where g: "registry_get_or_create (resource_key ?e) None (rt_breakers (xs_router st)) = (b, reg)" by fastforce
  obtain r b' where a: "acquire_permission (tk_admit tk) b = (r, b')" by fastforce
  show ?thesis
  proof (cases r)
    case (Inl err)
    with assms g a show ?thesis
      by (auto simp: admit_flight_def Let_def holds_def release_def delete_update_absent split: option.split)
  next
    case (Inr u)
    with assms g a show ?thesis by (simp add: admit_flight_def Let_def land_budget)
  qed
qed

definition reservation_id :: "string \<Rightarrow> tick \<Rightarrow> string" where
  "reservation_id request_id tk = request_id @ '':'' @ tk_attempt_id tk"

lemma reserve_turn_holds:
  assumes "reserve_turn cfg tk p st = (r, st')"
    and "map_of (bs_reserved (xs_budget st)) (reservation_id (rq_request_id (xs_request st)) tk) = None"
  shows "case r of
      Inr (Some (res, amount)) \<Rightarrow> (\<forall>fl. fl_reservation fl = res \<longrightarrow> fl_amount fl = amount \<longrightarrow>
        holds fl (bs_reserved (xs_budget st)) (xs_budget st'))
    | _ \<Rightarrow> xs_budget st' = xs_budget st"
  using assms
  by (auto simp: reserve_turn_def reservation_id_def reserve_def Let_def holds_def
      split: option.splits prod.splits sum.splits if_splits)

lemma dispatch_budget:
  assumes "map_of (bs_reserved (xs_budget st)) (reservation_id (rq_request_id (xs_request st)) tk) = None"
  shows "bs_reserved (xs_budget (snd (dispatch cfg tk e d p adapted compacted st))) = bs_reserved (xs_budget st)"
proof -
  obtain kv kid kp where k: "get_active_key (tk_wall tk) e (xc_api_keys cfg) (xs_keys st) = ((kv, kid), kp)"
    by (metis surj_pair)
  let ?st = "st\<lparr>xs_keys := kp\<rparr>"
  obtain r st1 where r: "reserve_turn cfg tk p ?st = (r, st1)" by fastforce
  have fresh: "map_of (bs_reserved (xs_budget ?st)) (reservation_id (rq_request_id (xs_request ?st)) tk) = None"
    using assms by simp
  note h = reserve_turn_holds [OF r fresh]
  consider err where "r = Inl err" | "r = Inr None" | res amount where "r = Inr (Some (res, amount))"
    by (metis sum.exhaust option.exhaust surj_pair)
  then show ?thesis
  proof cases
    case 3
    then have "holds (fl\<lparr>fl_reservation := res, fl_amount := amount\<rparr>) (bs_reserved (xs_budget st)) (xs_budget st1)" for fl
      using h by simp
    from admit_budget [OF this [of "\<lparr>fl_endpoint = e, fl_decision = d, fl_profile = p, fl_adapted = adapted,
        fl_attempt = new_attempt tk e compacted ?st, fl_key_id = kid, fl_reservation = res, fl_amount = amount\<rparr>"]] 3 k r
    show ?thesis by (simp add: dispatch_def Let_def split: sum.split)
  qed (use h k r in \<open>simp_all add: dispatch_def Let_def split: sum.split\<close>)
qed

lemma try_budget:
  assumes "map_of (bs_reserved (xs_budget st)) (reservation_id (rq_request_id (xs_request st)) tk) = None"
  shows "bs_reserved (xs_budget (snd (try_endpoint cfg tk e d st))) = bs_reserved (xs_budget st)"
  using assms
  by (simp add: try_endpoint_def Let_def dispatch_budget note_failover_booked split: sum.split gateway_error.split prod.split)

lemma rollover_budget: "xs_budget (snd (rollover cfg tk st)) = xs_budget st"
  by (simp add: rollover_def Let_def split: prod.split)

lemma step_budget:
  assumes "map_of (bs_reserved (xs_budget st)) (reservation_id (rq_request_id (xs_request st)) tk) = None"
  shows "bs_reserved (xs_budget (snd (exec_step cfg tk st))) = bs_reserved (xs_budget st)"
  using assms
  by (simp add: exec_step_def Let_def try_budget rollover_budget split: sum.split prod.split option.split)

lemma step_core:
  assumes "exec_step cfg tk st = (out, st')" "\<not> loop_over cfg tk st"
  shows "core st' = core st"
  using assms by (cases rule: step_cases) (simp_all add: booked_def flown_def)

lemma core_eq:
  "rq\<lparr>rq_max_output_tokens := None\<rparr> = rq'\<lparr>rq_max_output_tokens := None\<rparr> \<Longrightarrow>
   rq_request_id rq = rq_request_id rq' \<and> rq_tools rq = rq_tools rq'"
  by (cases rq; cases rq') simp

lemma loop_budget:
  "execute_loop cfg tks st = Some (res, st') \<Longrightarrow>
   \<forall>tk \<in> set tks. map_of (bs_reserved (xs_budget st)) (reservation_id (rq_request_id (xs_request st)) tk) = None \<Longrightarrow>
   bs_reserved (xs_budget st') = bs_reserved (xs_budget st)"
proof (induction tks arbitrary: st)
  case (Cons tk tks)
  show ?case
  proof (cases "loop_over cfg tk st")
    case False
    obtain out st1 where s: "exec_step cfg tk st = (out, st1)" by fastforce
    have b: "bs_reserved (xs_budget st1) = bs_reserved (xs_budget st)"
      using step_budget [of st tk cfg] Cons.prems(2) by (simp add: s)
    have "rq_request_id (xs_request st1) = rq_request_id (xs_request st)"
      using core_eq [OF step_core [OF s False]] by simp
    with Cons.IH [of st1] Cons.prems False s b show ?thesis by (auto split: step_outcome.splits)
  qed (use Cons.prems in auto)
qed simp

section \<open>What is returned\<close>

text \<open>The tool ledger changes only by a pass over the calls of a sane response, and only a passed one is returned.\<close>

definition tools_step ::
  "'l exec_config \<Rightarrow> tick \<Rightarrow> normalized_request \<Rightarrow> 'l \<Rightarrow> step_outcome \<Rightarrow> 'l \<Rightarrow> bool" where
  "tools_step cfg tk rq l out l' \<longleftrightarrow>
     (l' = l \<and> (\<forall>r d. out \<noteq> Returned r d)) \<or>
     (\<exists>resp eid idx h p h'. check_sanity (xc_max_response_chars cfg) resp = None \<and>
        process_calls (xc_env cfg) (xc_validator cfg) (xc_ops cfg) (tk_wall tk) eid rq idx 0 (rs_tool_calls resp) l h = (p, l', h') \<and>
        (\<forall>r d. out = Returned r d \<longrightarrow> p = Pass_ok (rs_tool_calls r) \<and> r = resp\<lparr>rs_tool_calls := rs_tool_calls r\<rparr>))"

lemma settle_tools [simp]: "xs_tools (settle_reserved fl st) = xs_tools st" "xs_tools (snd (settle_flight fl x st)) = xs_tools st"
  using settle_quiet [of st fl] by (simp_all add: quiet_def)

lemma marks_tools [simp]: "xs_tools (billing_marks cfg tk e c st) = xs_tools st" "xs_tools (death_marks cfg tk e c st) = xs_tools st"
  using billing_quiet(1) [of st cfg tk e c] death_quiet(1) [of st cfg tk e c] by (simp_all add: quiet_def)

lemma failed_tools [simp]:
  "xs_tools (record_failed_attempt cfg tk fl status duration c st) = xs_tools st"
  "xs_tools (rotate_key tk fl status c kid st) = xs_tools st"
  "xs_tools (snd (transport_failed cfg tk fl err st)) = xs_tools st"
  "xs_tools (snd (block_response tk fl err' st)) = xs_tools st"
  "xs_tools (record_success_attempt cfg tk fl r duration st) = xs_tools st"
  "xs_tools (snd (retry_decision cfg tk fl c st)) = xs_tools st"
  by (simp_all add: record_failed_attempt_def rotate_key_def transport_failed_def block_response_def
      record_success_attempt_def retry_decision_def Let_def split: sum.split)

lemma attempt_failed_tools [simp]:
  "xs_tools (snd (attempt_failed cfg tk fl status duration c st)) = xs_tools st"
  "fst (attempt_failed cfg tk fl status duration c st) \<noteq> Returned r d"
  by (simp_all add: attempt_failed_def retry_decision_def Let_def split: sum.split)

lemma accept_tools:
  "xs_tools (snd (accept_response cfg tk fl duration r st)) = xs_tools st"
  "fst (accept_response cfg tk fl duration r st) = Returned r' d \<Longrightarrow> r' = r"
proof -
  obtain res st1 where s: "settle_flight fl (turn_cost cfg fl r) (record_success_attempt cfg tk fl r duration st) = (res, st1)"
    by fastforce
  then have t: "xs_tools st1 = xs_tools st" using settle_tools(2) by (metis failed_tools(5) snd_conv)
  show "xs_tools (snd (accept_response cfg tk fl duration r st)) = xs_tools st"
    by (simp add: accept_response_def s t split: sum.split)
  assume "fst (accept_response cfg tk fl duration r st) = Returned r' d"
  then show "r' = r" by (auto simp: accept_response_def s split: sum.splits)
qed

lemma judge_tools:
  assumes "judge cfg tk e n st = (v, st')"
  shows "(xs_tools st' = xs_tools st \<and> (\<forall>r. v \<noteq> Accept r)) \<or>
     (\<exists>resp h p h'. check_sanity (xc_max_response_chars cfg) resp = None \<and>
        process_calls (xc_env cfg) (xc_validator cfg) (xc_ops cfg) (tk_wall tk) (ep_id e) (xs_request st) (xs_attempt_idx st) 0
          (rs_tool_calls resp) (xs_tools st) h = (p, xs_tools st', h') \<and>
        (\<forall>r. v = Accept r \<longrightarrow> p = Pass_ok (rs_tool_calls r) \<and> r = resp\<lparr>rs_tool_calls := rs_tool_calls r\<rparr>))"
proof (cases "\<exists>resp. n = Inr resp \<and> check_sanity (xc_max_response_chars cfg) resp = None")
  case True
  then obtain resp where n: "n = Inr resp" "check_sanity (xc_max_response_chars cfg) resp = None" by blast
  obtain p l h where c: "process_calls (xc_env cfg) (xc_validator cfg) (xc_ops cfg) (tk_wall tk) (ep_id e) (xs_request st)
      (xs_attempt_idx st) 0 (rs_tool_calls resp) (xs_tools st) (rt_health (xs_router st)) = (p, l, h)" by (metis prod_cases3)
  with assms n have "xs_tools st' = l" "v = Accept r \<Longrightarrow> \<exists>cs. p = Pass_ok cs \<and> r = resp\<lparr>rs_tool_calls := cs\<rparr>" for r
    by (auto simp: judge_def split: pass_outcome.splits)
  with c n(2) show ?thesis by (intro disjI2 exI [of _ resp] exI [of _ "rt_health (xs_router st)"] exI [of _ p] exI [of _ h]) auto
next
  case False
  with assms show ?thesis by (intro disjI1) (auto simp: judge_def split: sum.splits option.splits)
qed

lemma land_tools:
  "tools_step cfg tk (xs_request st) (xs_tools st) (fst (land cfg tk fl st)) (xs_tools (snd (land cfg tk fl st)))"
proof (cases "\<exists>duration headers body n. tk_upstream tk = Http duration 200 headers body n")
  case True
  then obtain duration headers body n where u: "tk_upstream tk = Http duration 200 headers body n" by blast
  obtain v st1 where j: "judge cfg tk (fl_endpoint fl) n st = (v, st1)" by fastforce
  let ?l = "land cfg tk fl st"
  have l: "xs_tools (snd ?l) = xs_tools st1" "fst ?l = Returned r d \<Longrightarrow> v = Accept r" for r d
    by (auto simp: land_def u j block_response_def Let_def accept_tools(1) split: verdict.splits dest: accept_tools(2))
  from judge_tools [OF j] show ?thesis
  proof
    assume "xs_tools st1 = xs_tools st \<and> (\<forall>r. v \<noteq> Accept r)"
    with l show ?thesis by (auto simp: tools_step_def)
  next
    assume "\<exists>resp h p h'. check_sanity (xc_max_response_chars cfg) resp = None \<and>
        process_calls (xc_env cfg) (xc_validator cfg) (xc_ops cfg) (tk_wall tk) (ep_id (fl_endpoint fl)) (xs_request st)
          (xs_attempt_idx st) 0 (rs_tool_calls resp) (xs_tools st) h = (p, xs_tools st1, h') \<and>
        (\<forall>r. v = Accept r \<longrightarrow> p = Pass_ok (rs_tool_calls r) \<and> r = resp\<lparr>rs_tool_calls := rs_tool_calls r\<rparr>)"
    with l show ?thesis unfolding tools_step_def by (intro disjI2) metis
  qed
next
  case False
  then show ?thesis
    unfolding tools_step_def by (intro disjI1) (auto simp: land_def transport_failed_def Let_def split: upstream.splits)
qed

lemma tools_idle: "(\<And>r d. out \<noteq> Returned r d) \<Longrightarrow> tools_step cfg tk rq l out l"
  by (simp add: tools_step_def)

lemma admit_tools:
  "tools_step cfg tk (xs_request st) (xs_tools st) (fst (admit_flight cfg tk key timeout fl st))
     (xs_tools (snd (admit_flight cfg tk key timeout fl st)))"
proof -
  let ?e = "fl_endpoint fl"
  obtain b reg where g: "registry_get_or_create (resource_key ?e) None (rt_breakers (xs_router st)) = (b, reg)" by fastforce
  obtain r b' where a: "acquire_permission (tk_admit tk) b = (r, b')" by fastforce
  let ?st1 = "(prepare_durable_attempt (tk_wall tk) (fl_attempt fl)
      (on_router (\<lambda>r. r\<lparr>rt_breakers := registry_put (resource_key ?e) b' reg\<rparr>) st))\<lparr>xs_sent := xs_sent st @ [flight_of fl key timeout tk]\<rparr>"
  show ?thesis
    using land_tools [of cfg tk ?st1 fl]
    by (cases r) (simp_all add: admit_flight_def Let_def g a flight_of_def tools_idle)
qed

lemma reserve_turn_tools: "reserve_turn cfg tk p st = (r, st') \<Longrightarrow> xs_tools st' = xs_tools st \<and> xs_request st' = xs_request st"
  by (drule reserve_turn_sel(1)) (simp add: quiet_def)

lemma dispatch_tools:
  "tools_step cfg tk (xs_request st) (xs_tools st) (fst (dispatch cfg tk e d p adapted compacted st))
     (xs_tools (snd (dispatch cfg tk e d p adapted compacted st)))"
proof -
  obtain kv kid kp where k: "get_active_key (tk_wall tk) e (xc_api_keys cfg) (xs_keys st) = ((kv, kid), kp)"
    by (metis surj_pair)
  let ?st = "st\<lparr>xs_keys := kp\<rparr>"
  obtain r st1 where r: "reserve_turn cfg tk p ?st = (r, st1)" by fastforce
  have s: "xs_tools st1 = xs_tools st" "xs_request st1 = xs_request st" using reserve_turn_tools [OF r] by simp_all
  have "tools_step cfg tk (xs_request st) (xs_tools st) (fst (admit_flight cfg tk key timeout fl st1))
      (xs_tools (snd (admit_flight cfg tk key timeout fl st1)))" for key timeout fl
    using admit_tools [of cfg tk st1 key timeout fl] by (simp add: s)
  then show ?thesis using k r s
    by (simp add: dispatch_def Let_def tools_idle split: sum.split option.split prod.split)
qed

lemma try_tools:
  "tools_step cfg tk (xs_request st) (xs_tools st) (fst (try_endpoint cfg tk e d st)) (xs_tools (snd (try_endpoint cfg tk e d st)))"
proof -
  have "tools_step cfg tk (xs_request st) (xs_tools st) (fst (dispatch cfg tk e d p a c (note_failover cfg tk e a c st)))
     (xs_tools (snd (dispatch cfg tk e d p a c (note_failover cfg tk e a c st))))" for p a c
    using dispatch_tools [of cfg tk "note_failover cfg tk e a c st"] by (simp add: note_failover_booked)
  then show ?thesis
    by (simp add: try_endpoint_def Let_def tools_idle split: sum.split gateway_error.split prod.split)
qed

lemma step_tools:
  assumes "exec_step cfg tk st = (out, st')"
  shows "tools_step cfg tk (xs_request st) (xs_tools st) out (xs_tools st')"
proof -
  have "tools_step cfg tk (xs_request st) (xs_tools st) (fst (exec_step cfg tk st)) (xs_tools (snd (exec_step cfg tk st)))"
    using try_tools [of cfg tk "st\<lparr>xs_attempt_idx := Suc (xs_attempt_idx st), xs_router := r\<rparr>" for r]
    by (simp add: exec_step_def Let_def tools_idle rollover_def split: sum.split option.split prod.split)
  with assms show ?thesis by simp
qed

lemma arguments_accepted_core:
  "rq\<lparr>rq_max_output_tokens := None\<rparr> = rq'\<lparr>rq_max_output_tokens := None\<rparr> \<Longrightarrow> arguments_accepted rq = arguments_accepted rq'"
  using core_eq [of rq rq'] by (simp add: arguments_accepted_def tool_schema_def fun_eq_iff)

lemma receipt_le:
  assumes "store_le s s'" "dl_check_idempotency env op n a s = (True, r)"
  shows "dl_check_idempotency env op n a s' = (True, r)"
proof -
  let ?k = "operation_key env op n (compute_arguments_hash env a)"
  obtain x where x: "map_of (st_operations s) ?k = Some x" "so_status x = COMMITTED" "so_execution_receipt x = r" "r \<noteq> None"
    using assms(2) by (force simp: dl_check_idempotency_def operation_for_key_def split: option.splits if_splits)
  from store_leD [OF assms(1) x(1)] obtain y where "map_of (st_operations s') ?k = Some y" "op_le x y" by blast
  with x show ?thesis by (auto simp: dl_check_idempotency_def operation_for_key_def op_le_def)
qed

text \<open>A run over the durable ledger: the store only grows, and a returned response passed in its final store.\<close>

lemma loop_durable:
  "execute_loop cfg tks st = Some (res, st') \<Longrightarrow> xc_ops cfg = durable_ops denv \<Longrightarrow> store_inv (snd (xs_tools st)) \<Longrightarrow>
   store_le (snd (xs_tools st)) (snd (xs_tools st')) \<and>
   (\<forall>r d. res = Inr (r, d) \<longrightarrow>
      (\<exists>resp. check_sanity (xc_max_response_chars cfg) resp = None \<and> r = resp\<lparr>rs_tool_calls := rs_tool_calls r\<rparr> \<and>
         list_all2 (\<lambda>c0 c. arguments_accepted (xs_request st) c \<and> tc_name c = tc_name c0 \<and>
           call_agrees denv (rq_request_id (xs_request st)) (snd (xs_tools st')) c0 c) (rs_tool_calls resp) (rs_tool_calls r)))"
proof (induction tks arbitrary: st)
  case (Cons tk tks)
  show ?case
  proof (cases "loop_over cfg tk st")
    case True
    with Cons.prems(1) show ?thesis by (auto intro: store_le_refl)
  next
    case False
    obtain out st1 where s: "exec_step cfg tk st = (out, st1)" by fastforce
    note ts = step_tools [OF s, unfolded tools_step_def Cons.prems(2)]
    have g: "store_inv (snd (xs_tools st1)) \<and> store_le (snd (xs_tools st)) (snd (xs_tools st1))"
      using ts
    proof
      assume "xs_tools st1 = xs_tools st \<and> (\<forall>r d. out \<noteq> Returned r d)"
      then show ?thesis using Cons.prems(3) store_le_refl by simp
    next
      assume "\<exists>resp eid idx h p h'. check_sanity (xc_max_response_chars cfg) resp = None \<and>
        process_calls (xc_env cfg) (xc_validator cfg) (durable_ops denv) (tk_wall tk) eid (xs_request st) idx 0
          (rs_tool_calls resp) (xs_tools st) h = (p, xs_tools st1, h') \<and>
        (\<forall>r d. out = Returned r d \<longrightarrow> p = Pass_ok (rs_tool_calls r) \<and> r = resp\<lparr>rs_tool_calls := rs_tool_calls r\<rparr>)"
      then obtain resp :: normalized_response and eid idx h p h' where "process_calls (xc_env cfg) (xc_validator cfg) (durable_ops denv) (tk_wall tk) eid
          (xs_request st) idx 0 (rs_tool_calls resp) (xs_tools st) h = (p, xs_tools st1, h')" by blast
      from durable_order.pass_le [OF this] Cons.prems(3) show ?thesis by (auto simp: case_prod_beta)
    qed
    show ?thesis
    proof (cases out)
      case Next
      have "arguments_accepted (xs_request st1) = arguments_accepted (xs_request st)"
        "rq_request_id (xs_request st1) = rq_request_id (xs_request st)"
        using arguments_accepted_core [OF step_core [OF s False]] core_eq [OF step_core [OF s False]] by simp_all
      with Cons.IH [OF _ Cons.prems(2) conjunct1 [OF g]] Cons.prems(1) False s Next g show ?thesis
        by (auto elim: store_le_trans)
    next
      case (Raised err)
      with Cons.prems(1) False s g show ?thesis by auto
    next
      case (Returned r d)
      with ts obtain resp eid idx h h' where resp: "check_sanity (xc_max_response_chars cfg) resp = None"
        "process_calls (xc_env cfg) (xc_validator cfg) (durable_ops denv) (tk_wall tk) eid (xs_request st) idx 0
           (rs_tool_calls resp) (xs_tools st) h = (Pass_ok (rs_tool_calls r), xs_tools st1, h')"
        "r = resp\<lparr>rs_tool_calls := rs_tool_calls r\<rparr>" by blast
      note ag = durable_pass_agrees [OF resp(2) Cons.prems(3)]
      have "res = Inr (r, d)" "st' = st1" using Cons.prems(1) False s Returned by auto
      with ag resp(1,3) g show ?thesis by auto
    qed
  qed
qed simp

end
