(* ===== verification/ExecutorTheorems.thy ===== *)
theory ExecutorTheorems
  imports ExecutorSafety
begin

text \<open>
  The properties of \<open>GatewayExecutor.execute\<close>, stated for a whole call, with a sample run on which
  their hypotheses hold.
\<close>

section \<open>A sample request\<close>

definition tool_endpoint :: endpoint where
  "tool_endpoint = (demo_endpoint ''a'' ''p'')\<lparr>ep_env_keys := [''K''],
     ep_profile := Some ((raw_profile ''p'' ''m'')\<lparr>mp_input_price_per_1m := 2, mp_output_price_per_1m := 4\<rparr>)\<rparr>"

definition tool_router :: router where
  "tool_router = demo_router\<lparr>rt_dead_list := [],
     rt_health := \<lparr>hs_ema_alpha = 1 / 5, hs_snapshots = []\<rparr>,
     rt_capabilities := register_endpoint tool_endpoint \<lparr>cg_profiles = [], cg_aliases = [], cg_endpoints = []\<rparr>\<rparr>"

definition sample_deadline :: deadline where
  "sample_deadline = \<lparr>dl_total_timeout_ms = 300000, dl_connect_timeout_ms = 10000, dl_tls_timeout_ms = 10000,
     dl_ttft_timeout_ms = 60000, dl_idle_stream_timeout_ms = 35000, dl_per_attempt_timeout_ms = 120000, dl_start = 0\<rparr>"

definition sample_config :: "(durable_ledger \<times> unit sqlite_store) exec_config" where
  "sample_config =
     \<lparr>xc_pool = ''general_agent'', xc_strategy = None, xc_api_keys = [], xc_deadline = sample_deadline,
      xc_requirements = plain_requirements, xc_prefix_hash = None, xc_tail_turns = 6,
      xc_validator = default_validator, xc_max_response_chars = 5000, xc_pm = No_pm, xc_ops = durable_ops demo_env,
      xc_env = sample_env, xc_classifier = sample_classifier_env, xc_describe = (\<lambda>_. error_text [])\<rparr>"

definition sample_response :: normalized_response where
  "sample_response = \<lparr>rs_response_id = ''r'', rs_model = ''m'', rs_content = Some ''ok'', rs_reasoning_content = None,
     rs_reasoning_signature = None, rs_tool_calls = [demo_call], rs_finish_reason = ''stop'', rs_input_tokens = 1,
     rs_output_tokens = 1, rs_raw_response = None\<rparr>"

definition sample_tick :: "string \<Rightarrow> upstream \<Rightarrow> tick" where
  "sample_tick aid u =
     \<lparr>tk_guard = 1, tk_check = 1, tk_select = 1, tk_wait = 1, tk_plan = 1, tk_start = 1, tk_admit = 1, tk_done = 2, tk_backoff = 2,
      tk_wall = 6, tk_uniform = 0, tk_attempt_id = aid, tk_plan_id = ''f1'', tk_prepare = Inr (), tk_upstream = u\<rparr>"

definition no_pools :: pool_manager where
  "no_pools = \<lparr>pm_allowed_providers = None, pm_keys = [], pm_coding_routes = [], pm_agent_routes = [], pm_coding_index = 0,
     pm_agent_index = 0, pm_cooldowns = [], pm_deprecated = [], pm_exhausted_quotas = [], pm_account_lockouts = [],
     pm_last_success = [], pm_last_success_at = []\<rparr>"

definition sample_state :: "(durable_ledger \<times> unit sqlite_store) exec_state" where
  "sample_state =
     \<lparr>xs_router = tool_router, xs_budget = empty_budget, xs_keys = \<lparr>kp_key_cooldowns = [], kp_rr_indices = []\<rparr>,
      xs_ledger = new_attempt_ledger default_policy, xs_tools = (demo_ledger, sys_store demo_system),
      xs_global_pools = no_pools, xs_own_pools = no_pools, xs_store = None,
      xs_request = demo_request, xs_excluded = [], xs_attempt_idx = 0, xs_last_failure = None, xs_last_endpoint = None,
      xs_fallback_marked = False, xs_window_shrink = [], xs_output_cap_retried = [], xs_waits = 0, xs_sleeps = [], xs_sent = []\<rparr>"

definition sample_requirements :: requirement_vector where
  "sample_requirements = plain_requirements\<lparr>rv_budget_limit_usd := Some 5\<rparr>"

definition sample_ticks :: "tick list" where
  "sample_ticks = replicate 24 (sample_tick ''a1'' (Http 5 200 [] [] (Inr sample_response)))"

abbreviation sample_run :: "((normalized_response \<times> routing_decision) result \<times> (durable_ledger \<times> unit sqlite_store) exec_state) option" where
  "sample_run \<equiv> execute sample_config default_policy sample_requirements demo_request sample_ticks sample_state"

lemma sample_run_returns:
  "case sample_run of Some (Inr (r, d), st') \<Rightarrow> length (rs_tool_calls r) = 1 | _ \<Rightarrow> False"
  by code_simp

lemma sample_result:
  obtains r d st' where "sample_run = Some (Inr (r, d), st')" "length (rs_tool_calls r) = 1"
  using sample_run_returns by (auto split: option.splits prod.splits sum.splits)

text \<open>The same state with one of two probes of the endpoint's breaker in flight, and a rate-limited answer.\<close>

definition probing_state :: "(durable_ledger \<times> unit sqlite_store) exec_state" where
  "probing_state = sample_state\<lparr>xs_router := tool_router\<lparr>rt_breakers :=
     registry_put (resource_key tool_endpoint) (run cb_step stale_breaker [(31, Acquire)]) (rt_breakers tool_router)\<rparr>\<rparr>"

definition probing_config :: "(durable_ledger \<times> unit sqlite_store) exec_config" where
  "probing_config = sample_config\<lparr>xc_api_keys := [(''K'', ''k1,k2'')]\<rparr>"

definition limited_tick :: tick where
  "limited_tick = (sample_tick ''a1'' (Http 5 429 [] ''slow down'' (Inl (error_text []))))\<lparr>tk_admit := 32, tk_done := 33\<rparr>"

definition probing_flight :: flight where
  "probing_flight = \<lparr>fl_endpoint = tool_endpoint,
     fl_decision = fst (snd (select_candidate 1 6 plain_requirements ''general_agent'' None ''op'' [] None tool_router)),
     fl_profile = raw_profile ''p'' ''m'', fl_adapted = demo_request, fl_attempt = new_attempt limited_tick tool_endpoint False sample_state,
     fl_key_id = snd (fst (get_active_key 6 tool_endpoint [(''K'', ''k1,k2'')] (xs_keys sample_state))),
     fl_reservation = None, fl_amount = 0\<rparr>"

section \<open>Properties\<close>

text \<open>
  C2: \<open>execute\<close> returns.  Whatever the providers answer, whatever the clocks read and whatever state the
  shared stores are in, the loop leaves by a return or by one of its errors after at most as many iterations
  as the policy allows attempts plus four times the size of the pool plus three: every iteration sends a
  request, gives up an endpoint of the pool, or is one of the three waits for a rate limit to pass.
\<close>

theorem execute_terminates:
  assumes "nat (max_total_attempts policy)
      + 4 * length (endpoints_for_pool (xc_pool cfg) (rt_capabilities (xs_router st))) + 3 < length ticks"
  shows "\<exists>res st'. execute cfg policy requirements rq ticks st = Some (res, st')"
proof -
  let ?cfg = "cfg\<lparr>xc_requirements := request_vector (py_repr (xc_env cfg)) (xc_pool cfg) (xc_prefix_hash cfg) requirements rq\<rparr>"
  let ?st = "start_call rq policy st"
  have "fuel ?cfg ?st \<le> 3 * (length (pool_of cfg st) + 1) + nat (max_total_attempts policy) + length (pool_of cfg st)"
    using room_le [of ?cfg ?st] by (simp add: fuel_def MAX_RATE_LIMIT_WAITS_def)
  with assms have "fuel ?cfg ?st < length ticks" by simp
  from exec_loop.returns [OF this] show ?thesis by (auto simp: execute_def)
qed

theorem execute_terminates_witness:
  "\<exists>res st'. execute sample_config default_policy sample_requirements demo_request sample_ticks sample_state = Some (res, st')"
proof -
  have "nat (max_total_attempts default_policy)
      + 4 * length (endpoints_for_pool (xc_pool sample_config) (rt_capabilities (xs_router sample_state))) + 3 < length sample_ticks"
    by code_simp
  then show ?thesis by (rule execute_terminates)
qed



text \<open>
  C6: Budget reservations are returned.  When the reservation identifiers of the call's attempts are fresh,
  every return and every raise of \<open>execute\<close> leaves exactly the reservations that were held before: nothing
  stays reserved, and no reservation of another request is touched.
\<close>

theorem execute_returns_reservations:
  assumes "execute cfg policy requirements rq ticks st = Some (res, st')"
    and "list_all (\<lambda>tk. map_of (bs_reserved (xs_budget st)) (reservation_id (rq_request_id rq) tk) = None) ticks"
  shows "bs_reserved (xs_budget st') = bs_reserved (xs_budget st)"
  using loop_budget [OF assms(1) [unfolded execute_def]] assms(2) by (simp add: list_all_iff)

theorem execute_returns_reservations_witness:
  "\<exists>res st'. sample_run = Some (res, st') \<and> bs_reserved (xs_budget st') = bs_reserved (xs_budget sample_state)"
proof -
  have "list_all (\<lambda>tk. map_of (bs_reserved (xs_budget sample_state)) (reservation_id (rq_request_id demo_request) tk) = None) sample_ticks"
    by code_simp
  then show ?thesis using sample_result execute_returns_reservations by metis
qed



text \<open>
  C7: Key rotation leaks a probe permit.  An attempt takes the last probe permit of a HALF_OPEN breaker, the
  provider answers with a rate limit, and another key of the endpoint is usable: the loop goes on to the next
  iteration without telling the breaker, which the registry keeps with the permit taken.  From then on, at any
  time and through any number of admission requests and readings of its state, that breaker denies every request.
\<close>

theorem key_rotation_leaks_permit:
  assumes "registry_get_or_create (resource_key (fl_endpoint fl)) None (rt_breakers (xs_router st)) = (b, reg)"
    and "acquire_permission (tk_admit tk) b = (Inr True, b')" and "cb_state b' = HALF_OPEN"
    and "0 < half_open_in_flight b'" and "half_open_max_calls (cb_config b') \<le> half_open_in_flight b'"
    and "tk_upstream tk = Http duration status headers body n" and "status \<noteq> 200"
    and "fc_reason (classify_failure (xc_classifier cfg) (tk_wall tk) (error_of_text body) (Some status) headers) = R_rate_limit"
    and "truthy_str (fl_key_id fl)"
    and "has_alternative_key (tk_wall tk) (fl_endpoint fl) (xc_api_keys cfg) (fl_key_id fl) (xs_keys st)"
    and "list_all passive_call es"
  shows "fst (admit_flight cfg tk key timeout fl st) = Next
    \<and> registry_get (resource_key (fl_endpoint fl)) (rt_breakers (xs_router (snd (admit_flight cfg tk key timeout fl st)))) = Some b'
    \<and> fst (acquire_permission now (run cb_step b' es)) = Inl (ProbeAdmissionDeniedError (cb_id b'))"
  using assms(1,2,6-10) leaked_permits_block_forever [OF assms(3-5,11)]
  by (simp add: admit_flight_def land_def attempt_failed_def rotate_key_def Let_def registry_get_def registry_put_def
      finish_durable_attempt_def prepare_durable_attempt_def on_store_def settle_reserved_def settle_flight_def on_ledger_def on_router_def update_conv'
      split: option.split prod.split)

theorem key_rotation_leaks_permit_witness:
  "\<exists>b'. registry_get (resource_key tool_endpoint)
      (rt_breakers (xs_router (snd (admit_flight probing_config limited_tick ''k1'' 1 probing_flight probing_state)))) = Some b'
    \<and> fst (acquire_permission 1000000 (run cb_step b' [(1000, ReadState), (2000, Acquire)])) = Inl (ProbeAdmissionDeniedError (cb_id b'))"
proof -
  let ?k = "resource_key tool_endpoint"
  let ?b = "run cb_step stale_breaker [(31, Acquire)]" and ?b' = "run cb_step stale_breaker [(31, Acquire), (32, Acquire)]"
  have e: "fl_endpoint probing_flight = tool_endpoint" by (simp add: probing_flight_def)
  have 1: "registry_get_or_create (resource_key (fl_endpoint probing_flight)) None (rt_breakers (xs_router probing_state))
      = (?b, rt_breakers (xs_router probing_state))"
    by (simp add: e probing_state_def registry_get_or_create_def registry_put_def update_conv')
  have "fst (acquire_permission 32 ?b) = Inr True" by code_simp
  moreover have "snd (acquire_permission 32 ?b) = ?b'" by simp
  ultimately have 2: "acquire_permission (tk_admit limited_tick) ?b = (Inr True, ?b')"
    by (simp add: limited_tick_def prod_eq_iff)
  have 3: "cb_state ?b' = HALF_OPEN" "0 < half_open_in_flight ?b'" "half_open_max_calls (cb_config ?b') \<le> half_open_in_flight ?b'"
    by code_simp+
  have 4: "tk_upstream limited_tick = Http 5 429 [] ''slow down'' (Inl (error_text []))" "(429 :: int) \<noteq> 200"
    by (simp_all add: limited_tick_def sample_tick_def)
  have 5: "fc_reason (classify_failure (xc_classifier probing_config) (tk_wall limited_tick) (error_of_text ''slow down'') (Some 429) [])
      = R_rate_limit" by code_simp
  have 6: "truthy_str (fl_key_id probing_flight)" by code_simp
  have 7: "has_alternative_key (tk_wall limited_tick) (fl_endpoint probing_flight) (xc_api_keys probing_config)
      (fl_key_id probing_flight) (xs_keys probing_state)" by code_simp
  have 8: "list_all passive_call [(1000, ReadState), (2000, Acquire)]" by code_simp
  show ?thesis using key_rotation_leaks_permit [OF 1 2 3 4 5 6 7 8] unfolding e by blast
qed

end
