(* ===== verification/JsonText.thy ===== *)
theory JsonText
  imports PyText
begin

text \<open>
  Reading back what was printed: \<open>loads\<close> of \<open>dumps\<close>.  The printing of floats is a parameter; what is
  needed of it is \<open>float_text\<close>.
\<close>

section \<open>ASCII output\<close>

text \<open>
  \<open>json.dumps(value)\<close> without \<open>ensure_ascii=False\<close>: every code point outside the printable ASCII range is
  escaped, beyond the basic plane as a surrogate pair.  Such code points occur only inside strings.
\<close>

definition unicode_escape :: "nat \<Rightarrow> string" where
  "unicode_escape n =
     char_of (92 :: nat) # ''u'' @ [hex_digit (n div 4096), hex_digit (n div 256 mod 16), hex_digit (n div 16 mod 16), hex_digit (n mod 16)]"

definition code_escape :: "nat \<Rightarrow> string" where
  "code_escape n =
     (if n < 65536 then unicode_escape n
      else unicode_escape (55296 + (n - 65536) div 1024) @ unicode_escape (56320 + (n - 65536) mod 1024))"

abbreviation low6 :: "char \<Rightarrow> nat" where
  "low6 c \<equiv> of_char c mod 64"

fun ascii_only :: "string \<Rightarrow> string" where
  "ascii_only [] = []"
| "ascii_only (c # s) =
     (let n = (of_char c :: nat) in
      if n < 127 then c # ascii_only s
      else if n = 127 then code_escape 127 @ ascii_only s
      else case s of
             d # t \<Rightarrow>
               if n < 224 then code_escape (n mod 32 * 64 + low6 d) @ ascii_only t
               else (case t of
                       e # u \<Rightarrow>
                         if n < 240 then code_escape ((n mod 16 * 64 + low6 d) * 64 + low6 e) @ ascii_only u
                         else (case u of
                                 f # v \<Rightarrow> code_escape (((n mod 8 * 64 + low6 d) * 64 + low6 e) * 64 + low6 f) @ ascii_only v
                               | [] \<Rightarrow> [])
                     | [] \<Rightarrow> [])
           | [] \<Rightarrow> [])"

definition dumps_ascii :: "(rat \<Rightarrow> string) \<Rightarrow> json \<Rightarrow> string" where
  "dumps_ascii fr j = ascii_only (dumps fr j)"

section \<open>Numbers\<close>

lemma is_digit_char: "n < 10 \<Longrightarrow> is_digit (char_of (48 + n :: nat))"
  by (auto simp: is_digit_def)

lemma str_of_nat_digits: "list_all is_digit (str_of_nat n) \<and> str_of_nat n \<noteq> []"
proof (induction n rule: str_of_nat.induct)
  case (1 n)
  then show ?case by (subst (1 2) str_of_nat.simps) (auto simp: is_digit_char)
qed

lemma nat_of_digits_snoc: "nat_of_digits (s @ [c]) = nat_of_digits s * 10 + (of_char c - 48)"
  by (simp add: nat_of_digits_def)

lemma nat_of_str [simp]: "nat_of_digits (str_of_nat n) = n"
proof (induction n rule: str_of_nat.induct)
  case (1 n)
  then show ?case by (subst str_of_nat.simps) (auto simp: nat_of_digits_snoc nat_of_digits_def)
qed

lemma char_zero: "char_of (48 :: nat) = CHR ''0''"
  by code_simp

lemma str_of_nat_zero: "n \<noteq> 0 \<Longrightarrow> hd (str_of_nat n) \<noteq> CHR ''0''"
proof (induction n rule: str_of_nat.induct)
  case (1 n)
  show ?case
  proof (cases "n < 10")
    case True
    then have s: "str_of_nat n = [char_of (48 + n)]" by (subst str_of_nat.simps) simp
    from True have "of_char (char_of (48 + n) :: char) = 48 + n" by simp
    moreover have "of_char (CHR ''0'') = (48 :: nat)" by simp
    ultimately have "(char_of (48 + n) :: char) \<noteq> CHR ''0''" using 1(2) by (metis add_cancel_right_right)
    then show ?thesis unfolding s by simp
  next
    case False
    then have "hd (str_of_nat (n div 10)) \<noteq> CHR ''0''" using 1 by simp
    with False show ?thesis using str_of_nat_digits [of "n div 10"] by (subst str_of_nat.simps) simp
  qed
qed

text \<open>What may follow a value: nothing, or a separator or closing bracket.\<close>

definition ends :: "string \<Rightarrow> bool" where
  "ends rest = (rest = [] \<or> hd rest \<in> {CHR '','', CHR '']'', CHR ''}''})"

lemma ends_span: "ends rest \<Longrightarrow> span_digits rest = ([], rest)"
  by (cases rest) (auto simp: ends_def span_digits_def is_digit_def)

lemma span_append: "list_all is_digit ds \<Longrightarrow> ends rest \<Longrightarrow> span_digits (ds @ rest) = (ds, rest)"
  using ends_span [of rest] by (simp add: span_digits_def list_all_iff)

lemma ends_no_fraction: "ends rest \<Longrightarrow> fraction_part rest = (None, rest)"
  by (cases rest) (auto simp: ends_def fraction_part_def)

lemma ends_no_exponent: "ends rest \<Longrightarrow> exponent_part rest = (None, rest)"
  by (cases rest) (auto simp: ends_def exponent_part_def)

lemma json_number_int: "ends rest \<Longrightarrow> json_number (str_of_int i @ rest) = Some (JInt i, rest)"
proof -
  assume e: "ends rest"
  have ip: "(case str_of_nat n @ rest of c # t \<Rightarrow> if c = CHR ''0'' then ([c], t) else span_digits (str_of_nat n @ rest) | [] \<Rightarrow> ([], []))
      = (str_of_nat n, rest)" for n
  proof (cases "n = 0")
    case False
    obtain c t where "str_of_nat n = c # t" using str_of_nat_digits [of n] by (cases "str_of_nat n") auto
    with False str_of_nat_zero [OF False] span_append [OF conjunct1 [OF str_of_nat_digits] e, of n] show ?thesis by simp
  qed (simp add: str_of_nat.simps char_zero)
  have nd: "\<not> startswith (str_of_nat n @ rest) ''-''" for n
    using str_of_nat_digits [of n] by (cases "str_of_nat n") (auto simp: is_digit_def startswith_def)
  have m: "startswith (CHR ''-'' # t) ''-''" for t by (simp add: startswith_def)
  show ?thesis using e conjunct2 [OF str_of_nat_digits]
    by (simp add: json_number_def str_of_int_def ip nd m ends_no_fraction ends_no_exponent)
qed

section \<open>Strings\<close>

lemma hex_value_digit: "n < 16 \<Longrightarrow> hex_value (hex_digit n) = Some n"
  by (auto simp: hex_value_def hex_digit_def)

lemma unescape_control:
  assumes "n < 32"
  shows "unescape (''u00'' @ [hex_digit (n div 16), hex_digit (n mod 16)] @ t) = Some ([char_of n], t)"
proof -
  have "hex4 (''00'' @ [hex_digit (n div 16), hex_digit (n mod 16)] @ t) = Some (n, t)"
    using assms hex_value_digit [of "n div 16"] hex_value_digit [of "n mod 16"]
    by (simp add: hex4_def hex_value_def)
  with assms show ?thesis by (simp add: unescape_def utf8_def split: list.split)
qed

lemma escape_short:
  "of_char c = (34 :: nat) \<Longrightarrow> escape_char c = [char_of (92 :: nat), c]"
  "of_char c = (92 :: nat) \<Longrightarrow> escape_char c = [char_of (92 :: nat), c]"
  "of_char c = (10 :: nat) \<Longrightarrow> escape_char c = [char_of (92 :: nat), CHR ''n'']"
  "of_char c = (13 :: nat) \<Longrightarrow> escape_char c = [char_of (92 :: nat), CHR ''r'']"
  "of_char c = (9 :: nat) \<Longrightarrow> escape_char c = [char_of (92 :: nat), CHR ''t'']"
  "of_char c = (8 :: nat) \<Longrightarrow> escape_char c = [char_of (92 :: nat), CHR ''b'']"
  "of_char c = (12 :: nat) \<Longrightarrow> escape_char c = [char_of (92 :: nat), CHR ''f'']"
  by (simp_all add: escape_char_def) (metis char_of_char)

lemma unescape_short:
  "of_char c = (34 :: nat) \<or> of_char c = (92 :: nat) \<Longrightarrow> unescape (c # t) = Some ([c], t)"
  "unescape (CHR ''n'' # t) = Some ([char_of (10 :: nat)], t)" "unescape (CHR ''r'' # t) = Some ([char_of (13 :: nat)], t)"
  "unescape (CHR ''t'' # t) = Some ([char_of (9 :: nat)], t)" "unescape (CHR ''b'' # t) = Some ([char_of (8 :: nat)], t)"
  "unescape (CHR ''f'' # t) = Some ([char_of (12 :: nat)], t)"
  by (auto simp: unescape_def)

lemma escape_char_cases:
  obtains (control) n where "n < 32" "c = char_of n" "escape_char c = char_of (92 :: nat) # ''u00'' @ [hex_digit (n div 16), hex_digit (n mod 16)]"
  | (short) d where "escape_char c = [char_of (92 :: nat), d]" "\<And>t. unescape (d # t) = Some ([c], t)"
  | (plain) "escape_char c = [c]" "32 \<le> (of_char c :: nat)" "(of_char c :: nat) \<noteq> 34" "(of_char c :: nat) \<noteq> 92"
proof -
  let ?n = "of_char c :: nat"
  have c: "?n = k \<Longrightarrow> char_of k = c" for k by auto
  consider "?n = 34 \<or> ?n = 92" | "?n = 10" | "?n = 13" | "?n = 9" | "?n = 8" | "?n = 12"
    | "?n \<notin> {34, 92, 10, 13, 9, 8, 12}" "?n < 32" | "?n \<notin> {34, 92}" "32 \<le> ?n"
    by fastforce
  then show ?thesis
  proof cases
    case 1
    then show ?thesis by (intro short [of c]) (auto simp: escape_short unescape_short)
  next
    case 7
    then show ?thesis by (intro control [of ?n]) (auto simp: escape_char_def Let_def)
  next
    case 8
    then show ?thesis by (intro plain) (auto simp: escape_char_def Let_def)
  qed (use short escape_short(3-7) unescape_short(2-6) c in metis)+
qed

lemma string_body_escaped:
  "length (concat (map escape_char s)) < n \<Longrightarrow> of_char q = (34 :: nat) \<Longrightarrow>
   string_body n strict (concat (map escape_char s) @ q # rest) = Some (s, rest)"
proof (induction s arbitrary: n)
  case Nil
  then show ?case by (cases n) simp_all
next
  case (Cons c s)
  then obtain m where n: "n = Suc m" by (cases n) simp_all
  show ?case
  proof (cases c rule: escape_char_cases)
    case (control k)
    with Cons n unescape_control [OF control(1), of "concat (map escape_char s) @ q # rest"] show ?thesis by simp
  next
    case (short d)
    with Cons n show ?thesis by simp
  next
    case plain
    with Cons n show ?thesis by simp
  qed
qed

section \<open>Values\<close>

text \<open>A float prints as a number that reads back.\<close>

definition float_text :: "(rat \<Rightarrow> string) \<Rightarrow> rat \<Rightarrow> bool" where
  "float_text fr r \<longleftrightarrow> fr r \<noteq> [] \<and> (is_digit (hd (fr r)) \<or> hd (fr r) = CHR ''-'')
     \<and> (\<forall>rest. ends rest \<longrightarrow> json_number (fr r @ rest) = Some (JFloat r, rest))"

fun json_ok :: "(rat \<Rightarrow> string) \<Rightarrow> json \<Rightarrow> bool" where
  "json_ok fr (JFloat r) = float_text fr r"
| "json_ok fr (JArr xs) = list_all (json_ok fr) xs"
| "json_ok fr (JObj kvs) = (distinct (map fst kvs) \<and> list_all (\<lambda>(k, v). json_ok fr v) kvs)"
| "json_ok fr j = True"

definition member_text :: "(rat \<Rightarrow> string) \<Rightarrow> string \<times> json \<Rightarrow> string" where
  "member_text fr = (\<lambda>(k, v). quote k @ '': '' @ dumps fr v)"

lemma dumps_simps [simp]:
  "dumps fr JNull = ''null''" "dumps fr (JBool b) = (if b then ''true'' else ''false'')"
  "dumps fr (JInt i) = str_of_int i" "dumps fr (JFloat r) = fr r" "dumps fr (JStr s) = quote s"
  "dumps fr (JArr xs) = CHR ''['' # join '', '' (map (dumps fr) xs) @ '']''"
  "dumps fr (JObj kvs) = CHR ''{'' # join '', '' (map (member_text fr) kvs) @ ''}''"
  by (simp_all add: dumps_def member_text_def)

text \<open>First characters.\<close>

definition value_start :: "string \<Rightarrow> bool" where
  "value_start s = (s \<noteq> [] \<and> \<not> is_json_space (hd s) \<and> hd s \<notin> {CHR '']'', CHR ''}'', CHR '':'', CHR '',''})"

lemma digit_start: "s \<noteq> [] \<Longrightarrow> is_digit (hd s) \<or> hd s = CHR ''-'' \<Longrightarrow> value_start s"
  by (auto simp: value_start_def is_digit_def is_json_space_def Let_def)

lemma str_of_int_start: "str_of_int i \<noteq> [] \<and> (is_digit (hd (str_of_int i)) \<or> hd (str_of_int i) = CHR ''-'')"
  using str_of_nat_digits [of "nat i"] by (cases "str_of_nat (nat i)") (auto simp: str_of_int_def)

lemma quote_start: "value_start (quote s)"
proof -
  have "char_of (34 :: nat) \<notin> {CHR '']'', CHR ''}'', CHR '':'', CHR '',''}" by code_simp
  then show ?thesis by (simp add: value_start_def quote_def is_json_space_def Let_def)
qed

lemma dumps_start: "json_ok fr j \<Longrightarrow> value_start (dumps fr j)"
proof (cases j)
  case (JFloat r)
  assume "json_ok fr j"
  with JFloat show ?thesis by (auto simp: float_text_def intro: digit_start)
qed (use str_of_int_start in \<open>auto simp: quote_start intro: digit_start\<close>, auto simp: value_start_def is_json_space_def Let_def)

lemma skip_start [simp]: "value_start s \<Longrightarrow> skip_space (s @ t) = s @ t"
  by (cases s) (auto simp: value_start_def skip_space_def)

lemma ends_skip [simp]: "ends rest \<Longrightarrow> skip_space rest = rest"
  by (cases rest) (auto simp: ends_def skip_space_def is_json_space_def)

lemma join_Cons: "join sep (x # xs) = x @ (if xs = [] then [] else sep @ join sep xs)"
  by (cases xs) simp_all

lemma start_append: "value_start s \<Longrightarrow> value_start (s @ t)"
  by (cases s) (auto simp: value_start_def)

lemma join_start: "xs \<noteq> [] \<Longrightarrow> value_start (hd xs) \<Longrightarrow> value_start (join sep xs)"
  by (cases xs) (auto simp: join_Cons start_append)

lemma start_Cons:
  assumes "value_start s"
  obtains c t where "s = c # t" "c \<noteq> CHR '']''" "c \<noteq> CHR ''}''"
  using assms by (cases s) (auto simp: value_start_def)

lemma parse_number:
  assumes "s \<noteq> []" "is_digit (hd s) \<or> hd s = CHR ''-''"
  shows "parse_value (Suc n) strict (s @ rest) = json_number (s @ rest)"
proof -
  obtain c t where s: "s = c # t" using assms(1) by (cases s) auto
  then have c: "(of_char c :: nat) \<noteq> 34" "c \<notin> {CHR ''{'', CHR ''['', CHR ''n'', CHR ''t'', CHR ''f''}"
    using assms(2) by (auto simp: is_digit_def)
  then have "keyword_value (s @ rest) = None" by (auto simp: s keyword_value_def startswith_def)
  with c show ?thesis by (simp add: s)
qed

lemma ends_simps [simp]: "ends []" "ends (CHR '','' # t)" "ends (CHR '']'' # t)" "ends (CHR ''}'' # t)"
  by (simp_all add: ends_def)

lemma skip_comma [simp]: "skip_space (CHR '','' # t) = CHR '','' # t" "skip_space (CHR '']'' # t) = CHR '']'' # t"
  "skip_space (CHR ''}'' # t) = CHR ''}'' # t" "skip_space (CHR '':'' # t) = CHR '':'' # t" "skip_space (CHR '' '' # t) = skip_space t"
  by (simp_all add: skip_space_def is_json_space_def)

lemma body_quote:
  "string_body (length (quote k @ t)) strict (tl (quote k) @ t) = Some (k, t)" "hd (quote k) = char_of (34 :: nat)"
  "quote k @ u = char_of (34 :: nat) # tl (quote k) @ u"
  by (simp_all add: quote_def Let_def string_body_escaped del: string_body.simps)

lemma parse_string: "parse_value (Suc n) strict (quote s @ rest) = Some (JStr s, rest)"
  using body_quote(1) [of s rest strict] unfolding body_quote(3) by (simp del: string_body.simps)

lemma parse_member:
  "parse_members (Suc n) strict acc (quote k @ CHR '':'' # CHR '' '' # t) =
     (case parse_value n strict (skip_space t) of
        None \<Rightarrow> None
      | Some (v, r') \<Rightarrow>
          (case skip_space r' of
             d # t' \<Rightarrow> if d = CHR ''}'' then Some (AList.update k v acc, t')
                       else if d = CHR '','' then parse_members n strict (AList.update k v acc) (skip_space t') else None
           | [] \<Rightarrow> None))"
  using body_quote(1) [of k "CHR '':'' # CHR '' '' # t" strict] unfolding body_quote(3)
  by (simp del: string_body.simps parse_value.simps)

definition reads_back :: "(rat \<Rightarrow> string) \<Rightarrow> bool \<Rightarrow> json \<Rightarrow> bool" where
  "reads_back fr strict j \<longleftrightarrow> (\<forall>n rest. length (dumps fr j) \<le> n \<longrightarrow> ends rest \<longrightarrow>
     parse_value n strict (dumps fr j @ rest) = Some (j, rest))"

lemma reads_backD:
  "reads_back fr strict j \<Longrightarrow> length (dumps fr j) \<le> n \<Longrightarrow> ends rest \<Longrightarrow> parse_value n strict (dumps fr j @ rest) = Some (j, rest)"
  by (simp add: reads_back_def)

lemma parse_array_elements:
  "xs \<noteq> [] \<Longrightarrow> list_all (reads_back fr strict) xs \<Longrightarrow> list_all (json_ok fr) xs \<Longrightarrow>
   length (join '', '' (map (dumps fr) xs)) < n \<Longrightarrow>
   parse_elements n strict acc (join '', '' (map (dumps fr) xs) @ CHR '']'' # rest) = Some (acc @ xs, rest)"
proof (induction xs arbitrary: n acc)
  case (Cons x xs)
  then obtain m where n: "n = Suc m" by (cases n) simp_all
  let ?tail = "(if xs = [] then [] else '', '' @ join '', '' (map (dumps fr) xs)) @ CHR '']'' # rest"
  have "parse_value m strict (dumps fr x @ ?tail) = Some (x, ?tail)"
    using Cons.prems n by (intro reads_backD) (auto simp: join_Cons)
  moreover have "xs \<noteq> [] \<Longrightarrow> value_start (join '', '' (map (dumps fr) xs))"
    using Cons.prems(3) by (intro join_start) (cases xs, auto simp: dumps_start)+
  ultimately show ?case using Cons n by (auto simp: join_Cons)
qed simp

lemma parse_object_members:
  "kvs \<noteq> [] \<Longrightarrow> list_all (\<lambda>(k, v). reads_back fr strict v) kvs \<Longrightarrow> list_all (\<lambda>(k, v). json_ok fr v) kvs \<Longrightarrow>
   distinct (map fst (acc @ kvs)) \<Longrightarrow> length (join '', '' (map (member_text fr) kvs)) < n \<Longrightarrow>
   parse_members n strict acc (join '', '' (map (member_text fr) kvs) @ CHR ''}'' # rest) = Some (acc @ kvs, rest)"
proof (induction kvs arbitrary: n acc)
  case (Cons x kvs)
  then obtain m where n: "n = Suc m" by (cases n) simp_all
  obtain k v where x: "x = (k, v)" by fastforce
  let ?tail = "(if kvs = [] then [] else '', '' @ join '', '' (map (member_text fr) kvs)) @ CHR ''}'' # rest"
  have "parse_value m strict (dumps fr v @ ?tail) = Some (v, ?tail)"
    using Cons.prems n x by (intro reads_backD) (auto simp: join_Cons member_text_def)
  moreover have "kvs \<noteq> [] \<Longrightarrow> value_start (join '', '' (map (member_text fr) kvs))"
    by (intro join_start) (cases kvs, auto simp: member_text_def quote_start start_append)+
  moreover have "AList.update k v acc = acc @ [(k, v)]" using Cons.prems(4) x by (induction acc) auto
  moreover have "value_start (dumps fr v)" using Cons.prems(3) x by (simp add: dumps_start)
  ultimately show ?case using Cons.IH [of "acc @ [(k, v)]" m] Cons.prems n x
    by (auto simp: join_Cons member_text_def parse_member simp del: parse_value.simps parse_members.simps)
qed simp

lemma dumps_nonempty: "json_ok fr j \<Longrightarrow> 0 < length (dumps fr j)"
  using dumps_start [of fr j] by (auto simp: value_start_def)

lemma reads_backI:
  assumes "json_ok fr j"
    and "\<And>n rest. length (dumps fr j) \<le> Suc n \<Longrightarrow> ends rest \<Longrightarrow> parse_value (Suc n) strict (dumps fr j @ rest) = Some (j, rest)"
  shows "reads_back fr strict j"
  unfolding reads_back_def
proof (intro allI impI)
  fix n rest
  assume "length (dumps fr j) \<le> n" "ends rest"
  with dumps_nonempty [OF assms(1)] assms(2) [of "n - 1" rest] show "parse_value n strict (dumps fr j @ rest) = Some (j, rest)"
    by (cases n) (simp_all del: parse_value.simps)
qed

lemma parse_keyword:
  "parse_value (Suc n) strict (''null'' @ rest) = Some (JNull, rest)"
  "parse_value (Suc n) strict (''true'' @ rest) = Some (JBool True, rest)"
  "parse_value (Suc n) strict (''false'' @ rest) = Some (JBool False, rest)"
  by (simp_all add: keyword_value_def startswith_def)

lemma parse_brackets:
  "parse_value (Suc n) strict (CHR ''['' # CHR '']'' # rest) = Some (JArr [], rest)"
  "parse_value (Suc n) strict (CHR ''{'' # CHR ''}'' # rest) = Some (JObj [], rest)"
  "value_start s \<Longrightarrow> parse_value (Suc n) strict (CHR ''['' # s @ t) = map_option (\<lambda>(vs, r). (JArr vs, r)) (parse_elements n strict [] (s @ t))"
  "value_start s \<Longrightarrow> parse_value (Suc n) strict (CHR ''{'' # s @ t) = map_option (\<lambda>(kvs, r). (JObj kvs, r)) (parse_members n strict [] (s @ t))"
  by (auto elim!: start_Cons split: list.split simp del: parse_elements.simps parse_members.simps)

lemma dumps_reads_back: "json_ok fr j \<Longrightarrow> reads_back fr strict j"
proof (induction j)
  case (JFloat r)
  then show ?case using parse_number [of "fr r"] by (intro reads_backI) (auto simp: float_text_def simp del: parse_value.simps)
next
  case (JInt i)
  then show ?case using parse_number [of "str_of_int i"] str_of_int_start [of i] json_number_int
    by (intro reads_backI) (auto simp del: parse_value.simps)
next
  case (JStr s)
  then show ?case by (intro reads_backI) (simp_all add: parse_string del: parse_value.simps)
next
  case (JArr xs)
  show ?case
  proof (cases "xs = []")
    case True
    then show ?thesis by (intro reads_backI) (simp_all add: parse_brackets del: parse_value.simps)
  next
    case False
    let ?s = "join '', '' (map (dumps fr) xs)"
    have s: "value_start ?s" using JArr.prems False by (intro join_start) (cases xs, auto simp: dumps_start)+
    have all: "list_all (reads_back fr strict) xs" using JArr by (auto simp: list_all_iff)
    show ?thesis
    proof (rule reads_backI [OF JArr.prems])
      fix n rest
      assume "length (dumps fr (JArr xs)) \<le> Suc n"
      with JArr.prems parse_array_elements [OF False all, of n "[]" rest]
      show "parse_value (Suc n) strict (dumps fr (JArr xs) @ rest) = Some (JArr xs, rest)"
        by (simp add: parse_brackets(3) [OF s] del: parse_value.simps)
    qed
  qed
next
  case (JObj kvs)
  show ?case
  proof (cases "kvs = []")
    case True
    then show ?thesis by (intro reads_backI) (simp_all add: parse_brackets del: parse_value.simps)
  next
    case False
    let ?s = "join '', '' (map (member_text fr) kvs)"
    have s: "value_start ?s" using False
      by (intro join_start) (cases kvs, auto simp: member_text_def quote_start start_append)+
    have all: "list_all (\<lambda>(k, v). reads_back fr strict v) kvs" using JObj by (fastforce simp: list_all_iff)
    show ?thesis
    proof (rule reads_backI [OF JObj.prems])
      fix n rest
      assume "length (dumps fr (JObj kvs)) \<le> Suc n"
      with JObj.prems parse_object_members [OF False all, of "[]" n rest]
      show "parse_value (Suc n) strict (dumps fr (JObj kvs) @ rest) = Some (JObj kvs, rest)"
        by (simp add: parse_brackets(4) [OF s] del: parse_value.simps)
    qed
  qed
next
  case JNull
  then show ?case using parse_keyword(1) by (intro reads_backI) (simp_all del: parse_value.simps)
next
  case (JBool b)
  then show ?case using parse_keyword(2,3) by (intro reads_backI) (simp_all del: parse_value.simps)
qed

lemma loads_dumps: "json_ok fr j \<Longrightarrow> loads strict (dumps fr j) = Some j"
  using reads_backD [OF dumps_reads_back, of fr j "2 * length (dumps fr j) + 2" "[]" strict] skip_start [OF dumps_start, of fr j "[]"]
  by (simp add: loads_def skip_space_def del: parse_value.simps)

end
