(* ===== verification/Streaming.thy ===== *)
theory Streaming
  imports JsonText ToolValidation
begin

text \<open>
  \<^verbatim>\<open>streaming/parser.py\<close> and \<^verbatim>\<open>streaming/modes.py\<close>: the incremental parser of server-sent events, the
  assembler that rebuilds a response from them, and the synthetic streams the gateway replays a validated
  response with.

  Bytes are characters; a Python string is its UTF-8 bytes, so decoding is the identity on valid input.
  The generators are consumed to their end.  \<open>None\<close> as a parsed JSON value is \<open>JNull\<close>.
\<close>

section \<open>UTF-8\<close>

definition continuation :: "char \<Rightarrow> bool" where
  "continuation c = (let n = (of_char c :: nat) in 128 \<le> n \<and> n < 192)"

text \<open>The bytes after the first encoded code point.\<close>

definition next_code :: "string \<Rightarrow> string option" where
  "next_code s =
     (case s of
        [] \<Rightarrow> None
      | c # u \<Rightarrow>
          let n = (of_char c :: nat) in
          if n < 128 then Some u
          else if 194 \<le> n \<and> n < 224 then (case u of d # t \<Rightarrow> if continuation d then Some t else None | [] \<Rightarrow> None)
          else if 224 \<le> n \<and> n < 240
          then (case u of
                  d # e # t \<Rightarrow>
                    if continuation d \<and> continuation e \<and> (n = 224 \<longrightarrow> 160 \<le> (of_char d :: nat)) \<and> (n = 237 \<longrightarrow> (of_char d :: nat) < 160)
                    then Some t else None
                | _ \<Rightarrow> None)
          else if 240 \<le> n \<and> n < 245
          then (case u of
                  d # e # f # t \<Rightarrow>
                    if continuation d \<and> continuation e \<and> continuation f \<and> (n = 240 \<longrightarrow> 144 \<le> (of_char d :: nat))
                       \<and> (n = 244 \<longrightarrow> (of_char d :: nat) < 144)
                    then Some t else None
                | _ \<Rightarrow> None)
          else None)"

lemma next_code_shorter: "next_code s = Some t \<Longrightarrow> length t < length s"
  by (auto simp: next_code_def Let_def split: list.splits if_splits)

lemma next_code_append: "next_code s = Some t \<Longrightarrow> next_code (s @ u) = Some (t @ u)"
  by (cases s; cases "tl s"; cases "tl (tl s)"; cases "tl (tl (tl s))")
    (simp_all add: next_code_def Let_def split: if_splits)

function utf8_valid :: "string \<Rightarrow> bool" where
  "utf8_valid s = (s = [] \<or> (case next_code s of None \<Rightarrow> False | Some t \<Rightarrow> utf8_valid t))"
  by pat_completeness auto
termination
  by (relation "measure length") (auto dest: next_code_shorter)

declare utf8_valid.simps [simp del]

lemma utf8_valid_Nil [simp]: "utf8_valid []"
  by (simp add: utf8_valid.simps)

lemma utf8_valid_ascii [simp]: "(of_char c :: nat) < 128 \<Longrightarrow> utf8_valid (c # s) = utf8_valid s"
  by (subst utf8_valid.simps) (simp add: next_code_def)

lemma utf8_valid_append: "utf8_valid s \<Longrightarrow> utf8_valid t \<Longrightarrow> utf8_valid (s @ t)"
proof (induction s rule: utf8_valid.induct)
  case (1 s)
  show ?case
  proof (cases "s = []")
    case False
    then obtain r where r: "next_code s = Some r" "utf8_valid r"
      using "1.prems"(1) by (auto simp: utf8_valid.simps [of s] split: option.splits)
    with 1 False have "utf8_valid (r @ t)" by blast
    with next_code_append [OF r(1)] show ?thesis by (simp add: utf8_valid.simps [of "s @ t"])
  qed (use "1.prems" in simp)
qed

text \<open>\<open>s[:n]\<close> counts code points.\<close>

fun take_codes :: "nat \<Rightarrow> string \<Rightarrow> string" where
  "take_codes 0 s = []"
| "take_codes (Suc n) s =
     (case next_code s of None \<Rightarrow> [] | Some t \<Rightarrow> take (length s - length t) s @ take_codes n t)"

section \<open>The event parser\<close>

abbreviation NL :: char where
  "NL \<equiv> CHR 0x0A"

abbreviation CR :: char where
  "CR \<equiv> CHR 0x0D"

record sse_event =
  ev_event :: string
  ev_data :: string
  ev_json :: json
  ev_done :: bool

record sse_parser =
  sp_buffer :: string
  sp_event_type :: string
  sp_data_lines :: "string list"

definition new_parser :: sse_parser where
  "new_parser = \<lparr>sp_buffer = [], sp_event_type = ''message'', sp_data_lines = []\<rparr>"

definition event_of :: "string \<Rightarrow> string list \<Rightarrow> sse_event" where
  "event_of etype lines =
     (let data = join [NL] lines; done = strip data = ''[DONE]'' in
      \<lparr>ev_event = etype, ev_data = data,
       ev_json = (if \<not> done \<and> data \<noteq> [] then (case loads True data of Some v \<Rightarrow> v | None \<Rightarrow> JNull) else JNull),
       ev_done = done\<rparr>)"

definition chomp :: "string \<Rightarrow> string" where
  "chomp line = (if line \<noteq> [] \<and> last line = CR then butlast line else line)"

definition first_line :: "string \<Rightarrow> string" where
  "first_line buf = chomp (takeWhile (\<lambda>c. c \<noteq> NL) buf)"

definition other_lines :: "string \<Rightarrow> string" where
  "other_lines buf = tl (dropWhile (\<lambda>c. c \<noteq> NL) buf)"

lemma other_lines_shorter: "NL \<in> set buf \<Longrightarrow> length (other_lines buf) < length buf"
  by (induction buf) (auto simp: other_lines_def)

lemma buffer_split: "NL \<in> set buf \<Longrightarrow> buf = takeWhile (\<lambda>c. c \<noteq> NL) buf @ NL # other_lines buf"
  by (induction buf) (auto simp: other_lines_def)

text \<open>A complete line that is not blank.\<close>

definition take_line :: "string \<Rightarrow> sse_parser \<Rightarrow> sse_parser" where
  "take_line line p =
     (if startswith line '':'' then p
      else if startswith line ''event:'' then p\<lparr>sp_event_type := strip (drop 6 line)\<rparr>
      else if startswith line ''data:'' then p\<lparr>sp_data_lines := sp_data_lines p @ [strip (drop 5 line)]\<rparr>
      else p)"

function feed_loop :: "sse_parser \<Rightarrow> sse_event list \<times> sse_parser" where
  "feed_loop p =
     (if NL \<notin> set (sp_buffer p) then ([], p)
      else
        let line = first_line (sp_buffer p); rest = other_lines (sp_buffer p); p' = p\<lparr>sp_buffer := rest\<rparr> in
        if line = []
        then (if sp_data_lines p = [] then feed_loop p'
              else case feed_loop (p'\<lparr>sp_event_type := ''message'', sp_data_lines := []\<rparr>) of
                     (evs, q) \<Rightarrow> (event_of (sp_event_type p) (sp_data_lines p) # evs, q))
        else if \<not> utf8_valid line then ([], p\<lparr>sp_buffer := line @ NL # rest\<rparr>)
        else feed_loop (take_line line p'))"
  by pat_completeness auto
termination
  by (relation "measure (\<lambda>p. length (sp_buffer p))") (auto simp: other_lines_shorter take_line_def)

declare feed_loop.simps [simp del]

definition feed :: "string \<Rightarrow> sse_parser \<Rightarrow> sse_event list \<times> sse_parser" where
  "feed chunk p = feed_loop (p\<lparr>sp_buffer := sp_buffer p @ chunk\<rparr>)"

definition flush :: "sse_parser \<Rightarrow> sse_event list \<times> sse_parser" where
  "flush p =
     ((if sp_data_lines p = [] then [] else [event_of (sp_event_type p) (sp_data_lines p)]),
      p\<lparr>sp_data_lines := [], sp_buffer := []\<rparr>)"

section \<open>Chunking\<close>

text \<open>A parser whose first line does not decode.\<close>

definition blocked :: "sse_parser \<Rightarrow> bool" where
  "blocked p = (NL \<in> set (sp_buffer p) \<and> \<not> utf8_valid (first_line (sp_buffer p)))"

fun feed_all :: "string list \<Rightarrow> sse_parser \<Rightarrow> sse_event list \<times> sse_parser" where
  "feed_all [] p = ([], p)"
| "feed_all (c # cs) p = (case feed c p of (evs, q) \<Rightarrow> case feed_all cs q of (evs', r) \<Rightarrow> (evs @ evs', r))"

lemma utf8_snoc_ascii: "utf8_valid s \<Longrightarrow> (of_char c :: nat) < 128 \<Longrightarrow> utf8_valid (s @ [c])"
  by (simp add: utf8_valid_append)

lemma chomp_invalid:
  assumes "\<not> utf8_valid line"
  shows "\<not> utf8_valid (chomp line)"
proof (cases "line \<noteq> [] \<and> last line = CR")
  case True
  then have "line = butlast line @ [CR]" by (metis append_butlast_last_id)
  then show ?thesis using utf8_snoc_ascii [of "butlast line" CR] assms True by (auto simp: chomp_def)
qed (use assms in \<open>auto simp: chomp_def\<close>)

lemma chomp_no_NL: "NL \<notin> set line \<Longrightarrow> NL \<notin> set (chomp line)"
  by (auto simp: chomp_def dest: in_set_butlastD)

lemma first_line_no_NL: "NL \<notin> set (first_line buf)"
  unfolding first_line_def by (intro chomp_no_NL) (auto dest: set_takeWhileD)

lemma lines_of [simp]:
  "NL \<notin> set line \<Longrightarrow> first_line (line @ NL # rest) = chomp line" "NL \<notin> set line \<Longrightarrow> other_lines (line @ NL # rest) = rest"
  by (simp_all add: first_line_def other_lines_def takeWhile_append dropWhile_append)

lemma lines_append:
  assumes "NL \<in> set buf"
  shows "first_line (buf @ d) = first_line buf" "other_lines (buf @ d) = other_lines buf @ d"
  using assms buffer_split [OF assms] by (simp_all add: first_line_def other_lines_def takeWhile_append1 dropWhile_append1 tl_append2)

lemma blocked_loop:
  assumes "blocked p"
  shows "fst (feed_loop p) = [] \<and> blocked (snd (feed_loop p))
    \<and> sp_event_type (snd (feed_loop p)) = sp_event_type p \<and> sp_data_lines (snd (feed_loop p)) = sp_data_lines p"
proof -
  let ?l = "first_line (sp_buffer p)"
  have "?l \<noteq> []" using assms by (auto simp: blocked_def)
  then have f: "feed_loop p = ([], p\<lparr>sp_buffer := ?l @ NL # other_lines (sp_buffer p)\<rparr>)"
    using assms by (subst feed_loop.simps) (simp add: blocked_def)
  show ?thesis unfolding f using assms chomp_invalid by (auto simp: blocked_def first_line_no_NL)
qed

lemma blocked_append: "blocked p \<Longrightarrow> blocked (p\<lparr>sp_buffer := sp_buffer p @ d\<rparr>)"
  by (auto simp: blocked_def lines_append)

lemma blocked_feed_all:
  "blocked p \<Longrightarrow> fst (feed_all cs p) = [] \<and> blocked (snd (feed_all cs p))
    \<and> sp_event_type (snd (feed_all cs p)) = sp_event_type p \<and> sp_data_lines (snd (feed_all cs p)) = sp_data_lines p"
proof (induction cs arbitrary: p)
  case (Cons c cs)
  let ?q = "snd (feed c p)"
  have q: "fst (feed c p) = []" "blocked ?q" "sp_event_type ?q = sp_event_type p" "sp_data_lines ?q = sp_data_lines p"
    using blocked_loop [OF blocked_append [OF Cons.prems], of c] by (simp_all add: feed_def)
  with Cons.IH [OF q(2)] show ?case by (simp add: case_prod_beta)
qed simp

text \<open>Parsers that will yield the same events: equal, or both blocked with the same pending event.\<close>

definition same_future :: "sse_parser \<Rightarrow> sse_parser \<Rightarrow> bool" where
  "same_future p q \<longleftrightarrow> p = q \<or> (blocked p \<and> blocked q \<and> sp_event_type p = sp_event_type q \<and> sp_data_lines p = sp_data_lines q)"

lemma loop_append:
  "let (evs, q) = feed_loop p; (evs', r) = feed_loop (q\<lparr>sp_buffer := sp_buffer q @ d\<rparr>);
       (evs2, r2) = feed_loop (p\<lparr>sp_buffer := sp_buffer p @ d\<rparr>)
   in evs2 = evs @ evs' \<and> same_future r2 r \<and> (\<not> blocked q \<longrightarrow> r2 = r)"
proof (induction p rule: feed_loop.induct)
  case (1 p)
  let ?b = "sp_buffer p"
  let ?l = "first_line ?b" and ?r = "other_lines ?b"
  show ?case
  proof (cases "NL \<in> set ?b")
    case False
    then show ?thesis by (simp add: feed_loop.simps [of p] same_future_def case_prod_beta)
  next
    case nl: True
    consider (blank) "?l = []" "sp_data_lines p = []" | (event) "?l = []" "sp_data_lines p \<noteq> []"
      | (bad) "?l \<noteq> []" "\<not> utf8_valid ?l" | (line) "?l \<noteq> []" "utf8_valid ?l" by blast
    then show ?thesis
    proof cases
      case blank
      with 1(1) [OF _ refl refl refl] nl show ?thesis
        by (simp add: feed_loop.simps [of p] feed_loop.simps [of "p\<lparr>sp_buffer := ?b @ d\<rparr>"] lines_append)
    next
      case event
      let ?q = "p\<lparr>sp_buffer := ?r, sp_event_type := ''message'', sp_data_lines := []\<rparr>"
      let ?qd = "?q\<lparr>sp_buffer := sp_buffer ?q @ d\<rparr>"
      let ?ev = "event_of (sp_event_type p) (sp_data_lines p)"
      have e: "p\<lparr>sp_buffer := ?r @ d, sp_event_type := ''message'', sp_data_lines := []\<rparr> = ?qd" by simp
      have f: "feed_loop p = (?ev # fst (feed_loop ?q), snd (feed_loop ?q))"
        using event nl by (simp add: feed_loop.simps [of p] case_prod_beta Let_def)
      have "feed_loop (p\<lparr>sp_buffer := ?b @ d\<rparr>) = (?ev # fst (feed_loop ?qd), snd (feed_loop ?qd))"
        unfolding e [symmetric] using event nl
        by (simp add: feed_loop.simps [of "p\<lparr>sp_buffer := ?b @ d\<rparr>"] lines_append case_prod_beta Let_def)
      moreover have "\<not> NL \<notin> set ?b" using nl by simp
      ultimately show ?thesis using 1(2) [OF _ refl refl refl event] f by (simp add: case_prod_beta Let_def)
    next
      case bad
      then have b: "blocked p" using nl by (simp add: blocked_def)
      note l = blocked_loop [OF b]
      note l2 = blocked_loop [OF blocked_append [OF conjunct1 [OF conjunct2 [OF l]]], of d]
      note l3 = blocked_loop [OF blocked_append [OF b], of d]
      show ?thesis using l l2 l3 by (simp add: case_prod_beta same_future_def)
    next
      case line
      have t: "take_line ?l (p\<lparr>sp_buffer := ?r @ d\<rparr>) = (take_line ?l (p\<lparr>sp_buffer := ?r\<rparr>))\<lparr>sp_buffer := sp_buffer (take_line ?l (p\<lparr>sp_buffer := ?r\<rparr>)) @ d\<rparr>"
        by (simp add: take_line_def)
      from line 1(3) [OF _ refl refl refl] nl show ?thesis
        by (simp add: feed_loop.simps [of p] feed_loop.simps [of "p\<lparr>sp_buffer := ?b @ d\<rparr>"] lines_append t Let_def)
    qed
  qed
qed

lemma feed_append:
  assumes "feed c p = (evs, q)" and "feed d q = (evs', r)" and "feed (c @ d) p = (evs2, r2)"
  shows "evs2 = evs @ evs'" "same_future r2 r" "\<not> blocked q \<Longrightarrow> r2 = r"
  using assms loop_append [of "p\<lparr>sp_buffer := sp_buffer p @ c\<rparr>" d] by (simp_all add: feed_def)

text \<open>No complete line is left to process.\<close>

definition settled :: "sse_parser \<Rightarrow> bool" where
  "settled p = (NL \<notin> set (sp_buffer p) \<or> blocked p)"

lemma loop_settled: "settled (snd (feed_loop p))"
proof (induction p rule: feed_loop.induct)
  case (1 p)
  show ?case
  proof (cases "NL \<in> set (sp_buffer p) \<and> first_line (sp_buffer p) \<noteq> [] \<and> \<not> utf8_valid (first_line (sp_buffer p))")
    case True
    then have "blocked p" by (simp add: blocked_def)
    from blocked_loop [OF this] show ?thesis by (simp add: settled_def)
  next
    case False
    then show ?thesis using 1(1) [OF _ refl refl refl] 1(2) [OF _ refl refl refl] 1(3) [OF _ refl refl refl]
      by (subst feed_loop.simps) (auto simp: Let_def case_prod_beta settled_def)
  qed
qed

lemma feed_settled: "feed c p = (evs, q) \<Longrightarrow> settled q"
  using loop_settled [of "p\<lparr>sp_buffer := sp_buffer p @ c\<rparr>"] by (simp add: feed_def)

lemma same_future_trans: "same_future p q \<Longrightarrow> same_future q r \<Longrightarrow> same_future p r"
  by (auto simp: same_future_def)

lemma same_future_sym: "same_future p q \<Longrightarrow> same_future q p"
  by (auto simp: same_future_def)

text \<open>Feeding a stream in pieces yields the events of feeding it at once, and leaves the same events to come.\<close>

lemma feed_all_concat:
  "settled p \<Longrightarrow> feed_all cs p = (evs, q) \<Longrightarrow> feed (concat cs) p = (evs2, q2) \<Longrightarrow> evs2 = evs \<and> same_future q2 q"
proof (induction cs arbitrary: p evs q evs2 q2)
  case Nil
  show ?case
  proof (cases "blocked p")
    case True
    with Nil blocked_loop [OF True] show ?thesis by (auto simp: feed_def same_future_def)
  next
    case False
    with Nil show ?thesis by (auto simp: feed_def settled_def feed_loop.simps [of q] same_future_def)
  qed
next
  case (Cons c cs)
  obtain e1 p1 where 1: "feed c p = (e1, p1)" by fastforce
  obtain e2 r2 where 2: "feed_all cs p1 = (e2, r2)" by fastforce
  obtain e3 r3 where 3: "feed (concat cs) p1 = (e3, r3)" by fastforce
  have "evs2 = e1 @ e3" "same_future q2 r3" using feed_append(1,2) [OF 1 3] Cons.prems(3) by auto
  moreover have "e3 = e2 \<and> same_future r3 r2" using Cons.IH [OF feed_settled [OF 1] 2 3] .
  ultimately show ?case using Cons.prems(2) 1 2 same_future_trans by auto
qed

lemma feed_all_settled: "settled p \<Longrightarrow> feed_all cs p = (evs, q) \<Longrightarrow> settled q"
proof (induction cs arbitrary: p evs q)
  case (Cons c cs)
  obtain e1 p1 where 1: "feed c p = (e1, p1)" by fastforce
  obtain e2 r2 where 2: "feed_all cs p1 = (e2, r2)" by fastforce
  from Cons.IH [OF feed_settled [OF 1] 2] Cons.prems 1 2 show ?case by simp
qed simp

lemma new_parser_settled: "settled new_parser"
  by (simp add: settled_def new_parser_def)

section \<open>The assembler\<close>

record tool_part =
  tp_id :: json
  tp_name :: json
  tp_args :: string

record assembler =
  as_text_content :: string
  as_reasoning_content :: string
  as_reasoning_signature :: json
  as_tool_calls :: "(json, tool_part) dict"
  as_finish_reason :: json

definition new_assembler :: assembler where
  "new_assembler = \<lparr>as_text_content = [], as_reasoning_content = [], as_reasoning_signature = JNull, as_tool_calls = [],
     as_finish_reason = JNull\<rparr>"

definition empty_part :: tool_part where
  "empty_part = \<lparr>tp_id = JStr [], tp_name = JStr [], tp_args = []\<rparr>"

text \<open>A step of the assembler and its sequencing: an exception leaves the changes made before it.\<close>

type_synonym asm_step = "assembler \<Rightarrow> unit result \<times> assembler"

definition asm_ok :: asm_step where
  "asm_ok a = (Inr (), a)"

definition asm_raise :: "gateway_error \<Rightarrow> asm_step" where
  "asm_raise e a = (Inl e, a)"

definition asm_then :: "asm_step \<Rightarrow> asm_step \<Rightarrow> asm_step" where
  "asm_then f g a = (case f a of (Inl e, a') \<Rightarrow> (Inl e, a') | (Inr _, a') \<Rightarrow> g a')"

definition asm_with :: "'a result \<Rightarrow> ('a \<Rightarrow> asm_step) \<Rightarrow> asm_step" where
  "asm_with r f = (case r of Inl e \<Rightarrow> asm_raise e | Inr x \<Rightarrow> f x)"

definition add_str :: "json \<Rightarrow> (string \<Rightarrow> assembler \<Rightarrow> assembler) \<Rightarrow> asm_step" where
  "add_str v f a = (case v of JStr s \<Rightarrow> (Inr (), f s a) | _ \<Rightarrow> (Inl TypeError, a))"

definition add_text :: "string \<Rightarrow> assembler \<Rightarrow> assembler" where
  "add_text s a = a\<lparr>as_text_content := as_text_content a @ s\<rparr>"

definition add_reasoning :: "string \<Rightarrow> assembler \<Rightarrow> assembler" where
  "add_reasoning s a = a\<lparr>as_reasoning_content := as_reasoning_content a @ s\<rparr>"

text \<open>Dictionary keys: \<open>True\<close>, \<open>1\<close> and \<open>1.0\<close> are one key; lists and dictionaries are none.\<close>

definition key_of :: "json \<Rightarrow> json result" where
  "key_of j =
     (case j of
        JArr _ \<Rightarrow> Inl TypeError
      | JObj _ \<Rightarrow> Inl TypeError
      | JBool b \<Rightarrow> Inr (JInt (if b then 1 else 0))
      | JFloat r \<Rightarrow> Inr (if of_int \<lfloor>r\<rfloor> = r then JInt \<lfloor>r\<rfloor> else j)
      | _ \<Rightarrow> Inr j)"

definition on_part :: "json \<Rightarrow> (tool_part \<Rightarrow> tool_part) \<Rightarrow> assembler \<Rightarrow> assembler" where
  "on_part k f a =
     a\<lparr>as_tool_calls := AList.update k (f (dict_get (as_tool_calls a) k empty_part)) (as_tool_calls a)\<rparr>"

text \<open>The entry is created before anything is added to it.\<close>

definition ensure_part :: "json \<Rightarrow> assembler \<Rightarrow> assembler" where
  "ensure_part k a = (if map_of (as_tool_calls a) k = None then on_part k id a else a)"

definition add_args :: "json \<Rightarrow> string \<Rightarrow> assembler \<Rightarrow> assembler" where
  "add_args k s = on_part k (\<lambda>t. t\<lparr>tp_args := tp_args t @ s\<rparr>)"

definition block_delta :: "json \<Rightarrow> asm_step" where
  "block_delta payload =
     asm_with (get_or payload ''delta'' (JObj [])) (\<lambda>delta.
     asm_with (json_get delta ''type'') (\<lambda>dtype.
       if dtype = Some (JStr ''text_delta'')
       then asm_with (get_or delta ''text'' (JStr [])) (\<lambda>v. add_str v add_text)
       else if dtype = Some (JStr ''thinking_delta'')
       then asm_with (get_or delta ''thinking'' (JStr [])) (\<lambda>v. add_str v add_reasoning)
       else if dtype = Some (JStr ''signature_delta'')
       then asm_with (get_or delta ''signature'' JNull) (\<lambda>v a. asm_ok (a\<lparr>as_reasoning_signature := v\<rparr>))
       else if dtype = Some (JStr ''input_json_delta'')
       then asm_with (get_or payload ''index'' (JInt 0)) (\<lambda>idx. asm_with (key_of idx) (\<lambda>k a.
              asm_with (get_or delta ''partial_json'' (JStr [])) (\<lambda>v. add_str v (add_args k)) (ensure_part k a)))
       else asm_ok))"

definition block_start :: "json \<Rightarrow> asm_step" where
  "block_start payload =
     asm_with (get_or payload ''content_block'' (JObj [])) (\<lambda>cb.
     asm_with (json_get cb ''type'') (\<lambda>t.
       if t = Some (JStr ''tool_use'')
       then asm_with (get_or payload ''index'' (JInt 0)) (\<lambda>idx.
            asm_with (get_or cb ''id'' (JStr [])) (\<lambda>i. asm_with (get_or cb ''name'' (JStr [])) (\<lambda>n.
            asm_with (key_of idx) (\<lambda>k a. asm_ok (on_part k (\<lambda>_. \<lparr>tp_id = i, tp_name = n, tp_args = []\<rparr>) a)))))
       else asm_ok))"

text \<open>\<open>x[0]\<close> of a truthy value.\<close>

definition item0 :: "json \<Rightarrow> json result" where
  "item0 j =
     (case j of
        JArr (x # _) \<Rightarrow> Inr x | JArr [] \<Rightarrow> Inl IndexError | JStr (c # _) \<Rightarrow> Inr (JStr [c]) | JStr [] \<Rightarrow> Inl IndexError
      | JObj _ \<Rightarrow> Inl KeyError | _ \<Rightarrow> Inl TypeError)"

definition truthy_opt :: "json option \<Rightarrow> bool" where
  "truthy_opt v = (case v of None \<Rightarrow> False | Some j \<Rightarrow> truthy_json j)"

text \<open>The value of a key, when it is there and truthy, is handed to \<open>f\<close>.\<close>

definition when_key :: "json \<Rightarrow> string \<Rightarrow> (json \<Rightarrow> asm_step) \<Rightarrow> asm_step" where
  "when_key j k f = asm_with (json_get j k) (\<lambda>v. if truthy_opt v then f (the v) else asm_ok)"

definition tool_delta :: "json \<Rightarrow> asm_step" where
  "tool_delta tc =
     asm_with (get_or tc ''index'' (JInt 0)) (\<lambda>idx. asm_with (key_of idx) (\<lambda>k a.
       asm_then (when_key tc ''id'' (\<lambda>v a. asm_ok (on_part k (\<lambda>t. t\<lparr>tp_id := v\<rparr>) a)))
         (asm_with (get_or tc ''function'' (JObj [])) (\<lambda>fn.
            asm_then (when_key fn ''name'' (\<lambda>v a. asm_ok (on_part k (\<lambda>t. t\<lparr>tp_name := v\<rparr>) a)))
              (when_key fn ''arguments'' (\<lambda>v. add_str v (add_args k))))) (ensure_part k a)))"

fun asm_each :: "(json \<Rightarrow> asm_step) \<Rightarrow> json list \<Rightarrow> asm_step" where
  "asm_each f [] = asm_ok"
| "asm_each f (x # xs) = asm_then (f x) (asm_each f xs)"

definition choices_delta :: "json \<Rightarrow> asm_step" where
  "choices_delta payload =
     when_key payload ''choices'' (\<lambda>choices. asm_with (item0 choices) (\<lambda>c0.
       asm_then (when_key c0 ''finish_reason'' (\<lambda>v a. asm_ok (a\<lparr>as_finish_reason := v\<rparr>)))
         (asm_with (get_or c0 ''delta'' (JObj [])) (\<lambda>delta.
            asm_then (when_key delta ''content'' (\<lambda>v. add_str v add_text))
              (asm_then (when_key delta ''reasoning_content'' (\<lambda>v. add_str v add_reasoning))
                 (asm_with (get_or delta ''tool_calls'' (JArr [])) (\<lambda>tcs.
                    asm_with (json_elements tcs) (asm_each tool_delta))))))))"

definition process_event :: "sse_event \<Rightarrow> asm_step" where
  "process_event ev =
     (if ev_done ev \<or> \<not> truthy_json (ev_json ev) then asm_ok
      else
        asm_with (if ev_event ev \<noteq> [] then Inr (JStr (ev_event ev)) else get_or (ev_json ev) ''type'' (JStr [])) (\<lambda>etype.
          asm_then
            (if etype = JStr ''content_block_delta'' then block_delta (ev_json ev)
             else if etype = JStr ''content_block_start'' then block_start (ev_json ev) else asm_ok)
            (choices_delta (ev_json ev))))"

fun process_events :: "sse_event list \<Rightarrow> asm_step" where
  "process_events [] = asm_ok"
| "process_events (e # es) = asm_then (process_event e) (process_events es)"

text \<open>\<open>sorted(keys)\<close>: numbers by value, strings by text, a mixture does not compare.\<close>

definition numeric :: "json \<Rightarrow> rat option" where
  "numeric j = (case j of JInt i \<Rightarrow> Some (of_int i) | JFloat r \<Rightarrow> Some r | _ \<Rightarrow> None)"

definition sorted_keys :: "json list \<Rightarrow> json list result" where
  "sorted_keys ks =
     (if length ks \<le> 1 then Inr ks
      else if list_all (\<lambda>k. numeric k \<noteq> None) ks then Inr (sort_key (\<lambda>k. the (numeric k)) ks)
      else if list_all (\<lambda>k. case k of JStr _ \<Rightarrow> True | _ \<Rightarrow> False) ks
      then Inr (sort_key (\<lambda>k. case k of JStr s \<Rightarrow> s | _ \<Rightarrow> []) ks)
      else Inl TypeError)"

definition parsed_args :: "string \<Rightarrow> json" where
  "parsed_args raw =
     (if raw = [] then JObj [] else case loads True raw of Some v \<Rightarrow> v | None \<Rightarrow> JObj [(''_raw'', JStr raw)])"

definition assembled_call :: "tool_part \<Rightarrow> json" where
  "assembled_call t = JObj [(''id'', tp_id t), (''name'', tp_name t), (''arguments'', parsed_args (tp_args t))]"

definition assembled_tool_calls :: "assembler \<Rightarrow> json list result" where
  "assembled_tool_calls a =
     (case sorted_keys (map fst (as_tool_calls a)) of
        Inl e \<Rightarrow> Inl e
      | Inr ks \<Rightarrow> Inr (map (\<lambda>k. assembled_call (dict_get (as_tool_calls a) k empty_part)) ks))"

section \<open>Synthetic streams\<close>

definition data_frame :: "(rat \<Rightarrow> string) \<Rightarrow> json \<Rightarrow> string" where
  "data_frame fr payload = ''data: '' @ dumps fr payload @ [NL, NL]"

definition sse_frame :: "(rat \<Rightarrow> string) \<Rightarrow> string \<Rightarrow> json \<Rightarrow> string" where
  "sse_frame fr ev payload = ''event: '' @ ev @ [NL] @ data_frame fr payload"

definition done_frame :: string where
  "done_frame = ''data: [DONE]'' @ [NL, NL]"

definition interruption_sse :: "(rat \<Rightarrow> string) \<Rightarrow> string \<Rightarrow> string \<Rightarrow> string \<Rightarrow> string" where
  "interruption_sse fr protocol message endpoint_id =
     (let detail = JObj [(''event'', JStr ''interrupted''), (''continuation_required'', JBool True),
                         (''endpoint_id'', JStr endpoint_id), (''message'', JStr (take_codes 500 message))];
          note = JStr ''Upstream stream interrupted; start a new continuation turn.'' in
      if protocol = ''anthropic''
      then sse_frame fr ''error''
             (JObj [(''type'', JStr ''error''),
                    (''error'', JObj [(''type'', JStr ''api_error''), (''message'', note), (''lcb'', detail)])])
      else sse_frame fr ''lcb.interrupted''
             (JObj [(''error'', JObj [(''type'', JStr ''stream_interrupted''), (''message'', note), (''lcb'', detail)])])
           @ done_frame)"

definition prefixed :: "string \<Rightarrow> string \<Rightarrow> string" where
  "prefixed p s = (if startswith s p then s else p @ s)"

definition block_event :: "string \<Rightarrow> nat \<Rightarrow> (string \<times> json) list \<Rightarrow> json" where
  "block_event kind idx extra = JObj ([(''type'', JStr kind), (''index'', JInt (int idx))] @ extra)"

definition start_event :: "nat \<Rightarrow> (string \<times> json) list \<Rightarrow> string \<times> json" where
  "start_event idx block = (''content_block_start'', block_event ''content_block_start'' idx [(''content_block'', JObj block)])"

definition delta_event :: "nat \<Rightarrow> (string \<times> json) list \<Rightarrow> string \<times> json" where
  "delta_event idx delta = (''content_block_delta'', block_event ''content_block_delta'' idx [(''delta'', JObj delta)])"

definition stop_event :: "nat \<Rightarrow> string \<times> json" where
  "stop_event idx = (''content_block_stop'', block_event ''content_block_stop'' idx [])"

definition thinking_events :: "normalized_response \<Rightarrow> (string \<times> json) list" where
  "thinking_events r =
     (if \<not> truthy_str (rs_reasoning_content r) then []
      else [start_event 0 [(''type'', JStr ''thinking''), (''thinking'', JStr [])],
            delta_event 0 [(''type'', JStr ''thinking_delta''), (''thinking'', JStr (the (rs_reasoning_content r)))]]
           @ (if truthy_str (rs_reasoning_signature r)
              then [delta_event 0 [(''type'', JStr ''signature_delta''), (''signature'', JStr (the (rs_reasoning_signature r)))]] else [])
           @ [stop_event 0])"

definition text_events :: "nat \<Rightarrow> normalized_response \<Rightarrow> (string \<times> json) list" where
  "text_events idx r =
     (if \<not> truthy_str (rs_content r) then []
      else [start_event idx [(''type'', JStr ''text''), (''text'', JStr [])],
            delta_event idx [(''type'', JStr ''text_delta''), (''text'', JStr (the (rs_content r)))], stop_event idx])"

definition raw_or_dumped :: "(json \<Rightarrow> string) \<Rightarrow> normalized_tool_call \<Rightarrow> string" where
  "raw_or_dumped print tc = (if tc_raw_arguments tc \<noteq> [] then tc_raw_arguments tc else print (tc_arguments tc))"

definition tool_events :: "(rat \<Rightarrow> string) \<Rightarrow> nat \<Rightarrow> normalized_tool_call \<Rightarrow> (string \<times> json) list" where
  "tool_events fr idx tc =
     [start_event idx [(''type'', JStr ''tool_use''), (''id'', JStr (tc_id tc)), (''name'', JStr (tc_name tc)), (''input'', JObj [])],
      delta_event idx [(''type'', JStr ''input_json_delta''), (''partial_json'', JStr (raw_or_dumped (dumps fr) tc))], stop_event idx]"

fun tools_events :: "(rat \<Rightarrow> string) \<Rightarrow> nat \<Rightarrow> normalized_tool_call list \<Rightarrow> (string \<times> json) list" where
  "tools_events fr idx [] = []"
| "tools_events fr idx (tc # tcs) = tool_events fr idx tc @ tools_events fr (Suc idx) tcs"

definition stop_reason_of :: "string \<Rightarrow> string" where
  "stop_reason_of finish =
     dict_get [(''stop'', ''end_turn''), (''tool_calls'', ''tool_use''), (''length'', ''max_tokens'')] finish ''end_turn''"

definition anthropic_events :: "(rat \<Rightarrow> string) \<Rightarrow> normalized_response \<Rightarrow> string \<Rightarrow> (string \<times> json) list" where
  "anthropic_events fr r requested_model =
     (let t = (if truthy_str (rs_reasoning_content r) then 1 else 0); c = (if truthy_str (rs_content r) then 1 else 0) in
      [(''message_start'', JObj [(''type'', JStr ''message_start''), (''message'', JObj [
          (''id'', JStr (prefixed ''msg_'' (rs_response_id r))), (''type'', JStr ''message''), (''role'', JStr ''assistant''),
          (''model'', JStr requested_model), (''content'', JArr []), (''stop_reason'', JNull), (''stop_sequence'', JNull),
          (''usage'', JObj [(''input_tokens'', JInt (rs_input_tokens r)), (''output_tokens'', JInt 1)])])])]
      @ thinking_events r @ text_events t r @ tools_events fr (t + c) (rs_tool_calls r)
      @ [(''message_delta'', JObj [(''type'', JStr ''message_delta''),
            (''delta'', JObj [(''stop_reason'', JStr (stop_reason_of (rs_finish_reason r))), (''stop_sequence'', JNull)]),
            (''usage'', JObj [(''output_tokens'', JInt (rs_output_tokens r))])]),
         (''message_stop'', JObj [(''type'', JStr ''message_stop'')])])"

definition synthesize_anthropic_sse :: "(rat \<Rightarrow> string) \<Rightarrow> normalized_response \<Rightarrow> string \<Rightarrow> string list" where
  "synthesize_anthropic_sse fr r requested_model = map (\<lambda>(ev, payload). sse_frame fr ev payload) (anthropic_events fr r requested_model)"

fun indexed :: "nat \<Rightarrow> 'a list \<Rightarrow> (nat \<times> 'a) list" where
  "indexed n [] = []"
| "indexed n (x # xs) = (n, x) # indexed (Suc n) xs"

definition openai_tool_delta :: "(rat \<Rightarrow> string) \<Rightarrow> nat \<times> normalized_tool_call \<Rightarrow> json" where
  "openai_tool_delta fr = (\<lambda>(idx, tc). JObj [(''index'', JInt (int idx)), (''id'', JStr (tc_id tc)), (''type'', JStr ''function''),
     (''function'', JObj [(''name'', JStr (tc_name tc)), (''arguments'', JStr (raw_or_dumped (dumps_ascii fr) tc))])])"

definition openai_chunk :: "(rat \<Rightarrow> string) \<Rightarrow> int \<Rightarrow> normalized_response \<Rightarrow> string \<Rightarrow> json" where
  "openai_chunk fr now r requested_model =
     (let delta = [(''role'', JStr ''assistant'')]
            @ (if truthy_str (rs_content r) then [(''content'', JStr (the (rs_content r)))] else [])
            @ (if truthy_str (rs_reasoning_content r) then [(''reasoning_content'', JStr (the (rs_reasoning_content r)))] else [])
            @ (if rs_tool_calls r \<noteq> [] then [(''tool_calls'', JArr (map (openai_tool_delta fr) (indexed 0 (rs_tool_calls r))))] else []);
          finish = (if rs_tool_calls r \<noteq> [] then ''tool_calls'' else rs_finish_reason r) in
      JObj [(''id'', JStr (prefixed ''chatcmpl-'' (rs_response_id r))), (''object'', JStr ''chat.completion.chunk''),
            (''created'', JInt now), (''model'', JStr requested_model),
            (''choices'', JArr [JObj [(''index'', JInt 0), (''delta'', JObj delta), (''finish_reason'', JStr finish)]])])"

definition synthesize_openai_sse :: "(rat \<Rightarrow> string) \<Rightarrow> int \<Rightarrow> normalized_response \<Rightarrow> string \<Rightarrow> string list" where
  "synthesize_openai_sse fr now r requested_model = [data_frame fr (openai_chunk fr now r requested_model), done_frame]"

end
