(* ===== verification/StreamTheorems.thy ===== *)
theory StreamTheorems
  imports Streaming
begin

text \<open>
  What a client reads from the gateway's streams: any division of the bytes into chunks gives the same
  events, and the synthetic streams carry the response they were made from.
\<close>

section \<open>Printed JSON on the wire\<close>

text \<open>Values whose strings are UTF-8 and whose floats print without control characters.\<close>

definition printable :: "string \<Rightarrow> bool" where
  "printable s = list_all (\<lambda>c. 32 \<le> (of_char c :: nat) \<and> (of_char c :: nat) < 128) s"

fun wire_text :: "(rat \<Rightarrow> string) \<Rightarrow> json \<Rightarrow> bool" where
  "wire_text fr (JStr s) = utf8_valid s"
| "wire_text fr (JFloat r) = printable (fr r)"
| "wire_text fr (JArr xs) = list_all (wire_text fr) xs"
| "wire_text fr (JObj kvs) = list_all (\<lambda>(k, v). utf8_valid k \<and> wire_text fr v) kvs"
| "wire_text fr j = True"

lemma printable_utf8: "printable s \<Longrightarrow> utf8_valid s"
  by (induction s) (auto simp: printable_def)

lemma printable_append [simp]: "printable (s @ t) \<longleftrightarrow> printable s \<and> printable t"
  by (simp add: printable_def)

lemma str_of_nat_printable: "printable (str_of_nat n)"
  using str_of_nat_digits [of n] by (auto simp: printable_def list_all_iff is_digit_def Let_def)

lemma str_of_int_printable: "printable (str_of_int i)"
  using str_of_nat_printable by (simp add: str_of_int_def printable_def)

lemma hex_digit_code: "n < 16 \<Longrightarrow> 32 \<le> (of_char (hex_digit n) :: nat) \<and> (of_char (hex_digit n) :: nat) < 128"
  by (auto simp: hex_digit_def)

lemma escape_char_ascii: "(of_char c :: nat) < 128 \<Longrightarrow> printable (escape_char c)"
  by (simp add: escape_char_def Let_def printable_def hex_digit_code)

lemma escape_char_high: "128 \<le> (of_char c :: nat) \<Longrightarrow> escape_char c = [c]"
  by (simp add: escape_char_def Let_def)

lemma next_code_cases:
  assumes "next_code s = Some t"
  obtains (ascii) c where "s = c # t" "(of_char c :: nat) < 128"
  | (high) p where "s = p @ t" "list_all (\<lambda>c. 128 \<le> (of_char c :: nat)) p" "\<And>u. next_code (p @ u) = Some u"
proof (cases s)
  case (Cons c u)
  show ?thesis
  proof (cases "(of_char c :: nat) < 128")
    case True
    with assms Cons show ?thesis by (intro ascii) (auto simp: next_code_def)
  next
    case False
    let ?n = "of_char c :: nat"
    from False assms Cons consider
      (two) d where "u = d # t" "194 \<le> ?n" "?n < 224" "continuation d"
      | (three) d e where "u = d # e # t" "224 \<le> ?n" "?n < 240" "continuation d" "continuation e"
          "?n = 224 \<longrightarrow> 160 \<le> (of_char d :: nat)" "?n = 237 \<longrightarrow> (of_char d :: nat) < 160"
      | (four) d e f where "u = d # e # f # t" "240 \<le> ?n" "?n < 245" "continuation d" "continuation e" "continuation f"
          "?n = 240 \<longrightarrow> 144 \<le> (of_char d :: nat)" "?n = 244 \<longrightarrow> (of_char d :: nat) < 144"
      by (auto simp: next_code_def Let_def split: list.splits if_splits)
    then show ?thesis
    proof cases
      case two
      with Cons show ?thesis by (intro high [of "[c, d]"]) (simp_all add: next_code_def continuation_def Let_def)
    next
      case three
      with Cons show ?thesis by (intro high [of "[c, d, e]"]) (simp_all add: next_code_def continuation_def Let_def)
    next
      case four
      with Cons show ?thesis by (intro high [of "[c, d, e, f]"]) (simp_all add: next_code_def continuation_def Let_def)
    qed
  qed
qed (use assms in \<open>simp add: next_code_def\<close>)

lemma escaped_utf8: "utf8_valid s \<Longrightarrow> utf8_valid (concat (map escape_char s))"
proof (induction s rule: utf8_valid.induct)
  case (1 s)
  show ?case
  proof (cases "s = []")
    case False
    then obtain t where t: "next_code s = Some t" "utf8_valid t"
      using "1.prems" by (auto simp: utf8_valid.simps [of s] split: option.splits)
    with 1 False have ih: "utf8_valid (concat (map escape_char t))" by blast
    from t(1) show ?thesis
    proof (cases rule: next_code_cases)
      case (ascii c)
      with ih escape_char_ascii [of c] show ?thesis by (simp add: utf8_valid_append printable_utf8)
    next
      case (high p)
      have "concat (map escape_char p) = p" using high(2) by (induction p) (simp_all add: escape_char_high)
      with high(1) ih high(3) [of "concat (map escape_char t)"] show ?thesis by (simp add: utf8_valid.simps [of "p @ concat (map escape_char t)"])
    qed
  qed simp
qed

lemma quote_utf8: "utf8_valid s \<Longrightarrow> utf8_valid (quote s)"
  by (simp add: quote_def Let_def escaped_utf8 utf8_valid_append)

definition no_control :: "string \<Rightarrow> bool" where
  "no_control s = list_all (\<lambda>c. 32 \<le> (of_char c :: nat)) s"

lemma no_control_simps [simp]: "no_control []" "no_control (c # s) \<longleftrightarrow> 32 \<le> (of_char c :: nat) \<and> no_control s"
  "no_control (s @ t) \<longleftrightarrow> no_control s \<and> no_control t"
  by (simp_all add: no_control_def)

lemma printable_no_control: "printable s \<Longrightarrow> no_control s"
  by (induction s) (simp_all add: printable_def no_control_def)

lemma escape_no_control: "no_control (escape_char c)"
  using escape_char_ascii [of c] escape_char_high [of c] by (cases "(of_char c :: nat) < 128") (auto simp: printable_no_control)

lemma quote_no_control: "no_control (quote s)"
proof -
  have "no_control (concat (map escape_char s))" by (induction s) (simp_all add: escape_no_control)
  then show ?thesis by (simp add: quote_def Let_def)
qed

lemma join_lift:
  assumes "P []" "\<And>s t. P s \<Longrightarrow> P t \<Longrightarrow> P (s @ t)" "P sep" "list_all P xs"
  shows "P (join sep xs)"
  using assms(4) by (induction xs) (simp_all add: join_Cons assms)

lemma dumps_clean: "wire_text fr j \<Longrightarrow> utf8_valid (dumps fr j) \<and> no_control (dumps fr j)"
proof (induction j)
  case (JFloat r)
  then show ?case by (simp add: printable_utf8 printable_no_control)
next
  case (JInt i)
  show ?case by (simp add: str_of_int_printable printable_utf8 printable_no_control)
next
  case (JStr s)
  then show ?case by (simp add: quote_utf8 quote_no_control)
next
  case (JArr xs)
  then have "list_all (\<lambda>s. utf8_valid s \<and> no_control s) (map (dumps fr) xs)" by (auto simp: list_all_iff)
  then have "utf8_valid (join '', '' (map (dumps fr) xs)) \<and> no_control (join '', '' (map (dumps fr) xs))"
    by (intro join_lift [where P = "\<lambda>s. utf8_valid s \<and> no_control s"]) (auto simp: utf8_valid_append)
  then show ?case by (simp add: utf8_valid_append)
next
  case (JObj kvs)
  have "list_all (\<lambda>s. utf8_valid s \<and> no_control s) (map (member_text fr) kvs)"
    using JObj by (fastforce simp: list_all_iff member_text_def utf8_valid_append quote_utf8 quote_no_control)
  then have "utf8_valid (join '', '' (map (member_text fr) kvs)) \<and> no_control (join '', '' (map (member_text fr) kvs))"
    by (intro join_lift [where P = "\<lambda>s. utf8_valid s \<and> no_control s"]) (auto simp: utf8_valid_append)
  then show ?case by (simp add: utf8_valid_append)
qed simp_all

section \<open>One frame\<close>

lemma no_control_no_NL: "no_control s \<Longrightarrow> NL \<notin> set s \<and> CR \<notin> set s"
  by (induction s) auto

lemma chomp_no_CR: "CR \<notin> set s \<Longrightarrow> chomp s = s"
  by (auto simp: chomp_def dest: last_in_set)

lemma feed_line:
  assumes "no_control line" "line \<noteq> []" "utf8_valid line"
  shows "feed_loop (p\<lparr>sp_buffer := line @ NL # rest\<rparr>) = feed_loop (take_line line (p\<lparr>sp_buffer := rest\<rparr>))"
  using assms no_control_no_NL [OF assms(1)] by (subst feed_loop.simps) (simp add: chomp_no_CR Let_def)

lemma feed_blank:
  assumes "sp_data_lines p \<noteq> []"
  shows "feed_loop (p\<lparr>sp_buffer := NL # rest\<rparr>) =
    (case feed_loop (p\<lparr>sp_buffer := rest, sp_event_type := ''message'', sp_data_lines := []\<rparr>) of
       (evs, q) \<Rightarrow> (event_of (sp_event_type p) (sp_data_lines p) # evs, q))"
  using assms by (subst feed_loop.simps) (simp add: first_line_def other_lines_def chomp_def Let_def)

lemma feed_done: "feed_loop (p\<lparr>sp_buffer := []\<rparr>) = ([], p\<lparr>sp_buffer := []\<rparr>)"
  by (subst feed_loop.simps) simp

text \<open>A text without surrounding white space.\<close>

definition trimmed :: "string \<Rightarrow> bool" where
  "trimmed s = (s \<noteq> [] \<and> \<not> is_space (hd s) \<and> \<not> is_space (last s))"

lemma dropWhile_hd: "s = [] \<or> \<not> P (hd s) \<Longrightarrow> dropWhile P s = s"
  by (cases s) auto

lemma strip_trimmed:
  assumes "trimmed s"
  shows "strip (CHR '' '' # s) = s" "strip s = s"
proof -
  have 1: "dropWhile is_space s = s" "dropWhile is_space (CHR '' '' # s) = s"
    using assms by (simp_all add: trimmed_def dropWhile_hd is_space_def)
  have "dropWhile is_space (rev s) = rev s" using assms by (intro dropWhile_hd) (simp add: trimmed_def hd_rev)
  with 1 show "strip (CHR '' '' # s) = s" "strip s = s" by (simp_all add: strip_def)
qed

definition event_name :: "string \<Rightarrow> bool" where
  "event_name ev = (trimmed ev \<and> printable ev)"

text \<open>The event a frame stands for.\<close>

definition frame_event :: "(rat \<Rightarrow> string) \<Rightarrow> string \<Rightarrow> json \<Rightarrow> sse_event" where
  "frame_event fr ev payload = \<lparr>ev_event = ev, ev_data = dumps fr payload, ev_json = payload, ev_done = False\<rparr>"

definition wire_object :: "(rat \<Rightarrow> string) \<Rightarrow> json \<Rightarrow> bool" where
  "wire_object fr j = ((\<exists>kvs. j = JObj kvs) \<and> json_ok fr j \<and> wire_text fr j)"

lemma object_trimmed: "trimmed (dumps fr (JObj kvs))"
  by (simp add: trimmed_def is_space_def)

lemma event_of_object:
  assumes "wire_object fr j"
  shows "event_of ev [dumps fr j] = frame_event fr ev j"
proof -
  obtain kvs where j: "j = JObj kvs" using assms by (auto simp: wire_object_def)
  have "dumps fr j \<noteq> ''[DONE]''" "dumps fr j \<noteq> []" by (simp_all add: j)
  moreover have "strip (dumps fr j) = dumps fr j" unfolding j by (rule strip_trimmed(2) [OF object_trimmed])
  moreover have "loads True (dumps fr j) = Some j" using assms by (intro loads_dumps) (simp add: wire_object_def)
  ultimately show ?thesis by (simp add: event_of_def frame_event_def Let_def)
qed

lemma data_line:
  assumes "trimmed d" "no_control d" "utf8_valid d"
  shows "feed_loop (p\<lparr>sp_buffer := ''data: '' @ d @ NL # rest\<rparr>)
    = feed_loop (p\<lparr>sp_buffer := rest, sp_data_lines := sp_data_lines p @ [d]\<rparr>)"
  using feed_line [where line = "''data: '' @ d" and p = p and rest = rest] assms strip_trimmed(1) [OF assms(1)]
  by (simp add: take_line_def startswith_def)

lemma event_line:
  assumes "event_name ev"
  shows "feed_loop (p\<lparr>sp_buffer := ''event: '' @ ev @ NL # rest\<rparr>) = feed_loop (p\<lparr>sp_buffer := rest, sp_event_type := ev\<rparr>)"
  using feed_line [where line = "''event: '' @ ev" and p = p and rest = rest] assms strip_trimmed(1) [of ev]
  by (simp add: take_line_def startswith_def event_name_def printable_utf8 printable_no_control)

lemma object_clean:
  assumes "wire_object fr j"
  shows "trimmed (dumps fr j)" "no_control (dumps fr j)" "utf8_valid (dumps fr j)"
  using assms dumps_clean [of fr j] object_trimmed by (auto simp: wire_object_def simp del: dumps_simps)

lemma feed_data_frame:
  assumes "wire_object fr j"
  shows "feed (data_frame fr j) (new_parser\<lparr>sp_event_type := ev\<rparr>) = ([frame_event fr ev j], new_parser)"
  using data_line [OF object_clean [OF assms], where p = "new_parser\<lparr>sp_event_type := ev\<rparr>" and rest = "[NL]"] event_of_object [OF assms]
    feed_blank [where p = "new_parser\<lparr>sp_event_type := ev, sp_data_lines := [dumps fr j]\<rparr>" and rest = "[]"] feed_done [of new_parser]
  by (simp add: feed_def data_frame_def new_parser_def)

lemma feed_sse_frame:
  assumes "event_name ev" "wire_object fr j"
  shows "feed (sse_frame fr ev j) new_parser = ([frame_event fr ev j], new_parser)"
  using event_line [OF assms(1), where p = new_parser and rest = "data_frame fr j"] feed_data_frame [OF assms(2), of ev]
  by (simp add: feed_def sse_frame_def new_parser_def)

lemma feed_done_frame:
  "feed done_frame new_parser = ([\<lparr>ev_event = ''message'', ev_data = ''[DONE]'', ev_json = JNull, ev_done = True\<rparr>], new_parser)"
  by code_simp

lemma feed_frames:
  assumes "list_all (\<lambda>(ev, j). event_name ev \<and> wire_object fr j) evs"
  shows "feed_all (map (\<lambda>(ev, j). sse_frame fr ev j) evs) new_parser = (map (\<lambda>(ev, j). frame_event fr ev j) evs, new_parser)"
  using assms by (induction evs) (auto simp: feed_sse_frame)

text \<open>Hence in every division into chunks.\<close>

lemma not_blocked_new [simp]: "\<not> blocked new_parser"
  by (simp add: blocked_def new_parser_def)

lemma any_chunks:
  assumes "feed_all frames new_parser = (evs, new_parser)" "concat cs = concat frames"
  shows "feed_all cs new_parser = (evs, new_parser)"
proof -
  obtain e q where q: "feed_all cs new_parser = (e, q)" by fastforce
  obtain e2 q2 where q2: "feed (concat cs) new_parser = (e2, q2)" by fastforce
  note a = feed_all_concat [OF new_parser_settled q q2]
  note b = feed_all_concat [OF new_parser_settled assms(1) q2 [unfolded assms(2)]]
  from b have "q2 = new_parser" by (auto simp: same_future_def)
  with a b have "q = new_parser" by (auto simp: same_future_def)
  with a b q show ?thesis by simp
qed

section \<open>Assembling a replayed response\<close>

lemmas asm_simps = asm_ok_def asm_raise_def asm_then_def asm_with_def add_str_def when_key_def json_get_def get_or_def truthy_opt_def

abbreviation event_pair :: "(rat \<Rightarrow> string) \<Rightarrow> string \<times> json \<Rightarrow> sse_event" where
  "event_pair fr \<equiv> \<lambda>(ev, j). frame_event fr ev j"

lemma process_append: "process_events (xs @ ys) a = asm_then (process_events xs) (process_events ys) a"
proof (induction xs arbitrary: a)
  case (Cons x xs)
  then show ?case by (simp add: asm_then_def split: prod.split sum.split)
qed (simp add: asm_ok_def asm_then_def)

lemma no_choices: "map_of kvs ''choices'' = None \<Longrightarrow> choices_delta (JObj kvs) a = (Inr (), a)"
  by (simp add: choices_delta_def asm_simps)

lemma process_skip:
  assumes "ev \<noteq> []" "ev \<noteq> ''content_block_delta''" "ev \<noteq> ''content_block_start''" "map_of kvs ''choices'' = None"
  shows "process_event (frame_event fr ev (JObj kvs)) a = (Inr (), a)"
  using assms by (simp add: process_event_def frame_event_def no_choices asm_simps)

lemma process_stop: "process_event (event_pair fr (stop_event idx)) a = (Inr (), a)"
  by (simp add: stop_event_def block_event_def process_skip)

lemma process_start:
  "process_event (event_pair fr (start_event idx block)) a =
     (if map_of block ''type'' = Some (JStr ''tool_use'')
      then (Inr (), on_part (JInt (int idx)) (\<lambda>_. \<lparr>tp_id = (case map_of block ''id'' of None \<Rightarrow> JStr [] | Some v \<Rightarrow> v),
              tp_name = (case map_of block ''name'' of None \<Rightarrow> JStr [] | Some v \<Rightarrow> v), tp_args = []\<rparr>) a)
      else (Inr (), a))"
  by (simp add: start_event_def block_event_def process_event_def frame_event_def no_choices block_start_def key_of_def asm_simps
      split: option.split)

lemma process_delta:
  "process_event (event_pair fr (delta_event idx [(''type'', JStr ''text_delta''), (''text'', JStr s)])) a = (Inr (), add_text s a)"
  "process_event (event_pair fr (delta_event idx [(''type'', JStr ''thinking_delta''), (''thinking'', JStr s)])) a = (Inr (), add_reasoning s a)"
  "process_event (event_pair fr (delta_event idx [(''type'', JStr ''signature_delta''), (''signature'', JStr s)])) a
     = (Inr (), a\<lparr>as_reasoning_signature := JStr s\<rparr>)"
  "process_event (event_pair fr (delta_event idx [(''type'', JStr ''input_json_delta''), (''partial_json'', JStr s)])) a
     = (Inr (), add_args (JInt (int idx)) s (ensure_part (JInt (int idx)) a))"
  by (simp_all add: delta_event_def block_event_def process_event_def frame_event_def no_choices block_delta_def key_of_def asm_simps)

lemmas process_simps = process_stop process_start process_delta

lemma update_fresh: "k \<notin> fst ` set d \<Longrightarrow> AList.update k v d = d @ [(k, v)]"
  by (induction d) auto

lemma update_last: "k \<notin> fst ` set d \<Longrightarrow> AList.update k v (d @ [(k, w)]) = d @ [(k, v)]"
  by (induction d) auto

definition part_of :: "(rat \<Rightarrow> string) \<Rightarrow> normalized_tool_call \<Rightarrow> tool_part" where
  "part_of fr tc = \<lparr>tp_id = JStr (tc_id tc), tp_name = JStr (tc_name tc), tp_args = raw_or_dumped (dumps fr) tc\<rparr>"

definition parts_of :: "(rat \<Rightarrow> string) \<Rightarrow> nat \<Rightarrow> normalized_tool_call list \<Rightarrow> (json, tool_part) dict" where
  "parts_of fr idx tcs = map (\<lambda>(i, tc). (JInt (int i), part_of fr tc)) (indexed idx tcs)"

definition keys_below :: "nat \<Rightarrow> assembler \<Rightarrow> bool" where
  "keys_below n a = (\<forall>k \<in> fst ` set (as_tool_calls a). \<exists>i<n. k = JInt (int i))"

lemma process_tool:
  assumes "keys_below idx a"
  shows "process_events (map (event_pair fr) (tool_events fr idx tc)) a
    = (Inr (), a\<lparr>as_tool_calls := as_tool_calls a @ [(JInt (int idx), part_of fr tc)]\<rparr>)"
proof -
  have k: "JInt (int idx) \<notin> fst ` set (as_tool_calls a)" using assms by (auto simp: keys_below_def)
  then have "map_of (as_tool_calls a) (JInt (int idx)) = None" by (simp add: map_of_eq_None_iff)
  with k show ?thesis
    by (simp add: tool_events_def asm_then_def asm_ok_def process_start process_delta process_stop on_part_def ensure_part_def add_args_def
        update_fresh update_last dict_get_def part_of_def map_add_def del: split_paired_All split: prod.split)
qed

lemma process_tools:
  "keys_below idx a \<Longrightarrow> process_events (map (event_pair fr) (tools_events fr idx tcs)) a
    = (Inr (), a\<lparr>as_tool_calls := as_tool_calls a @ parts_of fr idx tcs\<rparr>)"
proof (induction tcs arbitrary: idx a)
  case Nil
  then show ?case by (simp add: asm_ok_def parts_of_def)
next
  case (Cons tc tcs)
  let ?a = "a\<lparr>as_tool_calls := as_tool_calls a @ [(JInt (int idx), part_of fr tc)]\<rparr>"
  have "keys_below (Suc idx) ?a" using Cons.prems by (auto simp: keys_below_def less_SucI)
  from Cons.IH [OF this] show ?case
    by (simp add: process_append asm_then_def process_tool [OF Cons.prems] parts_of_def)
qed

definition text_of :: "string option \<Rightarrow> string" where
  "text_of x = (if truthy_str x then the x else [])"

definition signed :: "normalized_response \<Rightarrow> bool" where
  "signed r = (truthy_str (rs_reasoning_content r) \<and> truthy_str (rs_reasoning_signature r))"

definition signature_of :: "normalized_response \<Rightarrow> json" where
  "signature_of r = (if signed r then JStr (the (rs_reasoning_signature r)) else JNull)"

lemma process_thinking:
  "process_events (map (event_pair fr) (thinking_events r)) new_assembler =
     (Inr (), new_assembler\<lparr>as_reasoning_content := text_of (rs_reasoning_content r), as_reasoning_signature := signature_of r\<rparr>)"
  by (simp add: thinking_events_def process_simps asm_then_def asm_ok_def add_reasoning_def text_of_def signature_of_def signed_def
      new_assembler_def del: split_paired_All split_beta)

lemma process_text:
  "process_events (map (event_pair fr) (text_events idx r)) a = (Inr (), add_text (text_of (rs_content r)) a)"
  by (simp add: text_events_def process_simps asm_then_def asm_ok_def add_text_def text_of_def)

lemma process_anthropic:
  "process_events (map (event_pair fr) (anthropic_events fr r model)) new_assembler =
     (Inr (), \<lparr>as_text_content = text_of (rs_content r), as_reasoning_content = text_of (rs_reasoning_content r),
        as_reasoning_signature = signature_of r,
        as_tool_calls = parts_of fr ((if truthy_str (rs_reasoning_content r) then 1 else 0) + (if truthy_str (rs_content r) then 1 else 0))
          (rs_tool_calls r),
        as_finish_reason = JNull\<rparr>)"
proof -
  let ?a = "add_text (text_of (rs_content r)) (new_assembler\<lparr>as_reasoning_content := text_of (rs_reasoning_content r), as_reasoning_signature := signature_of r\<rparr>)"
  have "keys_below n ?a" for n by (simp add: keys_below_def add_text_def new_assembler_def)
  note tools = process_tools [OF this]
  show ?thesis
    by (simp add: anthropic_events_def Let_def process_append asm_then_def process_skip process_thinking process_text tools asm_ok_def)
      (simp add: add_text_def new_assembler_def)
qed

text \<open>Tool calls whose raw text is the printed arguments, as \<open>NormalizedToolCall\<close> builds it.\<close>

definition opt_utf8 :: "string option \<Rightarrow> bool" where
  "opt_utf8 x = (case x of None \<Rightarrow> True | Some s \<Rightarrow> utf8_valid s)"

definition wire_call :: "(rat \<Rightarrow> string) \<Rightarrow> normalized_tool_call \<Rightarrow> bool" where
  "wire_call fr tc = (utf8_valid (tc_id tc) \<and> utf8_valid (tc_name tc) \<and> json_ok fr (tc_arguments tc) \<and> wire_text fr (tc_arguments tc)
     \<and> (tc_raw_arguments tc = dumps fr (tc_arguments tc) \<or> (tc_raw_arguments tc = [] \<and> tc_arguments tc = JObj [])))"

definition wire_response :: "(rat \<Rightarrow> string) \<Rightarrow> normalized_response \<Rightarrow> bool" where
  "wire_response fr r = (utf8_valid (rs_response_id r) \<and> opt_utf8 (rs_content r) \<and> opt_utf8 (rs_reasoning_content r)
     \<and> opt_utf8 (rs_reasoning_signature r) \<and> utf8_valid (rs_finish_reason r) \<and> list_all (wire_call fr) (rs_tool_calls r))"

lemma wire_raw: "wire_call fr tc \<Longrightarrow> raw_or_dumped (dumps fr) tc = dumps fr (tc_arguments tc)"
  by (auto simp: wire_call_def raw_or_dumped_def)

lemma wire_parsed: "wire_call fr tc \<Longrightarrow> parsed_args (dumps fr (tc_arguments tc)) = tc_arguments tc"
  using dumps_nonempty [of fr "tc_arguments tc"] loads_dumps [of fr "tc_arguments tc" True] by (auto simp: parsed_args_def wire_call_def)

lemma fst_parts: "map fst (parts_of fr n tcs) = map (\<lambda>i. JInt (int i)) [n..<n + length tcs]"
  by (induction tcs arbitrary: n) (simp_all add: parts_of_def upt_rec)

lemma sorted_ints: "sorted_keys (map (\<lambda>i. JInt (int i)) [m..<n]) = Inr (map (\<lambda>i. JInt (int i)) [m..<n])"
proof -
  have "sorted (map (\<lambda>k. the (numeric k)) (map (\<lambda>i. JInt (int i)) [m..<n]))"
    by (auto simp: numeric_def sorted_wrt_map comp_def intro!: sorted_wrt_mono_rel [OF _ sorted_upt])
  then show ?thesis by (simp add: sorted_keys_def list_all_iff numeric_def sort_key_id_if_sorted)
qed

lemma parts_lookup:
  "map (\<lambda>k. assembled_call (dict_get (parts_of fr n tcs) k empty_part)) (map fst (parts_of fr n tcs)) = map (\<lambda>tc. assembled_call (part_of fr tc)) tcs"
proof -
  have d: "distinct (map fst (parts_of fr n tcs))" unfolding fst_parts by (simp add: distinct_map inj_on_def)
  have "map (\<lambda>k. assembled_call (dict_get (parts_of fr n tcs) k empty_part)) (map fst (parts_of fr n tcs))
      = map (assembled_call \<circ> snd) (parts_of fr n tcs)"
    using d by (auto simp: dict_get_def map_of_is_SomeI)
  also have "\<dots> = map (\<lambda>tc. assembled_call (part_of fr tc)) tcs" by (induction tcs arbitrary: n) (simp_all add: parts_of_def)
  finally show ?thesis .
qed

definition call_object :: "normalized_tool_call \<Rightarrow> json" where
  "call_object tc = JObj [(''id'', JStr (tc_id tc)), (''name'', JStr (tc_name tc)), (''arguments'', tc_arguments tc)]"

lemma assembled_parts:
  assumes "list_all (wire_call fr) tcs" "as_tool_calls a = parts_of fr n tcs"
  shows "assembled_tool_calls a = Inr (map call_object tcs)"
proof -
  have "assembled_tool_calls a = Inr (map (\<lambda>tc. assembled_call (part_of fr tc)) tcs)"
    using parts_lookup [of fr n tcs] sorted_ints [of n "n + length tcs"] by (simp add: assembled_tool_calls_def assms(2) fst_parts)
  also have "map (\<lambda>tc. assembled_call (part_of fr tc)) tcs = map call_object tcs"
    using assms(1) by (auto simp: assembled_call_def part_of_def call_object_def list_all_iff wire_raw wire_parsed)
  finally show ?thesis .
qed

lemma event_names:
  "event_name ''message_start''" "event_name ''content_block_start''" "event_name ''content_block_delta''"
  "event_name ''content_block_stop''" "event_name ''message_delta''" "event_name ''message_stop''" "event_name ''error''"
  "event_name ''lcb.interrupted''"
  by code_simp+

lemma utf8_prefixed: "utf8_valid p \<Longrightarrow> utf8_valid s \<Longrightarrow> utf8_valid (prefixed p s)"
  by (simp add: prefixed_def utf8_valid_append)

lemma utf8_take_object: "wire_object fr (JObj kvs) \<longleftrightarrow> distinct (map fst kvs) \<and> list_all (\<lambda>(k, v). utf8_valid k \<and> json_ok fr v \<and> wire_text fr v) kvs"
  by (auto simp: wire_object_def list_all_iff)

lemmas wire_simps = utf8_take_object block_event_def start_event_def delta_event_def stop_event_def event_names

lemma stop_reason_utf8: "utf8_valid (stop_reason_of f)"
  by (simp add: stop_reason_of_def dict_get_def)

lemma wire_raw_utf8: "wire_call fr tc \<Longrightarrow> utf8_valid (raw_or_dumped (dumps fr) tc)"
  using dumps_clean [of fr "tc_arguments tc"] by (simp add: wire_raw) (simp add: wire_call_def)

abbreviation wire_events :: "(rat \<Rightarrow> string) \<Rightarrow> (string \<times> json) list \<Rightarrow> bool" where
  "wire_events fr \<equiv> list_all (\<lambda>(ev, j). event_name ev \<and> wire_object fr j)"

lemma thinking_wire: "wire_response fr r \<Longrightarrow> wire_events fr (thinking_events r)"
  by (auto simp: thinking_events_def wire_simps wire_response_def opt_utf8_def truthy_str_def split: option.splits)

lemma text_wire: "wire_response fr r \<Longrightarrow> wire_events fr (text_events n r)"
  by (auto simp: text_events_def wire_simps wire_response_def opt_utf8_def truthy_str_def split: option.splits)

lemma tool_wire: "wire_call fr tc \<Longrightarrow> wire_events fr (tool_events fr n tc)"
  using wire_raw_utf8 [of fr tc] by (simp add: tool_events_def wire_simps wire_call_def)

lemma tools_wire: "list_all (wire_call fr) tcs \<Longrightarrow> wire_events fr (tools_events fr n tcs)"
  by (induction tcs arbitrary: n) (simp_all add: tool_wire)

lemma anthropic_wire:
  assumes "wire_response fr r" "utf8_valid model"
  shows "wire_events fr (anthropic_events fr r model)"
  using assms thinking_wire [OF assms(1)] text_wire [OF assms(1)] tools_wire [of fr "rs_tool_calls r"]
  by (simp add: anthropic_events_def Let_def event_names utf8_take_object stop_reason_utf8 utf8_prefixed wire_response_def)

section \<open>Properties\<close>

text \<open>
  C23: The division of a stream into network chunks does not matter.  However the same bytes are cut, in the
  middle of a line, of an event or of a multi-byte character, \<open>SSEStreamParser\<close> yields the same events in the
  same order, and \<open>flush\<close> at the end of the stream yields the same event.
\<close>

theorem sse_chunking_irrelevant:
  assumes "concat cs = concat cs'"
  shows "fst (feed_all cs new_parser) = fst (feed_all cs' new_parser)
    \<and> fst (flush (snd (feed_all cs new_parser))) = fst (flush (snd (feed_all cs' new_parser)))"
proof -
  obtain e q e' q' e2 q2 where 1: "feed_all cs new_parser = (e, q)" "feed_all cs' new_parser = (e', q')" "feed (concat cs) new_parser = (e2, q2)"
    by (metis surj_pair)
  have "e2 = e \<and> same_future q2 q" "e2 = e' \<and> same_future q2 q'"
    using feed_all_concat [OF new_parser_settled 1(1) 1(3)] feed_all_concat [OF new_parser_settled 1(2) 1(3) [unfolded assms]] by auto
  then have "e = e'" "same_future q q'" using same_future_trans same_future_sym by blast+
  with 1 show ?thesis by (auto simp: same_future_def flush_def)
qed

theorem sse_chunking_irrelevant_witness:
  "fst (feed_all [''data: {'', [CHR 0x7D, NL], [NL, CHR ''d'']] new_parser) = fst (feed_all [''data: {}'' @ [NL, NL] @ ''d''] new_parser)"
proof -
  have "concat [''data: {'', [CHR 0x7D, NL], [NL, CHR ''d'']] = concat [''data: {}'' @ [NL, NL] @ ''d'']" by simp
  from sse_chunking_irrelevant [OF this] show ?thesis by blast
qed

text \<open>
  A line that is not UTF-8 stops the stream.  Once such a line is complete the parser puts it back and waits,
  and whatever bytes follow, no further event is ever produced: the newline that completed the line cannot
  become part of a character.
\<close>

theorem sse_invalid_line_blocks:
  assumes "NL \<in> set (sp_buffer p)" and "\<not> utf8_valid (first_line (sp_buffer p))"
  shows "fst (feed_all cs p) = []"
  using blocked_feed_all [of p cs] assms by (simp add: blocked_def)

theorem sse_invalid_line_blocks_witness:
  "fst (feed_all [''data: {}'', [NL, NL]] (snd (feed (''data: '' @ [CHR 0xFF, NL]) new_parser))) = []"
proof -
  let ?p = "snd (feed (''data: '' @ [CHR 0xFF, NL]) new_parser)"
  have "NL \<in> set (sp_buffer ?p)" "\<not> utf8_valid (first_line (sp_buffer ?p))" by code_simp+
  then show ?thesis by (rule sse_invalid_line_blocks)
qed

text \<open>
  C24: A replayed response arrives unchanged.  The bytes of \<open>synthesize_anthropic_sse\<close>, cut into chunks in any
  way, are parsed without error, and \<open>WireStreamAssembler\<close> rebuilds from the events the text, the reasoning with
  its signature, and the tool calls in their order with their identifiers, names and arguments.
\<close>

theorem anthropic_stream_roundtrip:
  assumes "wire_response fr r" and "utf8_valid model" and "concat cs = concat (synthesize_anthropic_sse fr r model)"
  shows "\<exists>evs a. feed_all cs new_parser = (evs, new_parser) \<and> process_events evs new_assembler = (Inr (), a)
    \<and> as_text_content a = text_of (rs_content r) \<and> as_reasoning_content a = text_of (rs_reasoning_content r)
    \<and> as_reasoning_signature a = signature_of r \<and> assembled_tool_calls a = Inr (map call_object (rs_tool_calls r))"
proof -
  have calls: "list_all (wire_call fr) (rs_tool_calls r)" using assms(1) by (simp add: wire_response_def)
  have "feed_all cs new_parser = (map (event_pair fr) (anthropic_events fr r model), new_parser)"
    using any_chunks [OF feed_frames [OF anthropic_wire [OF assms(1,2)]]] assms(3) by (simp add: synthesize_anthropic_sse_def)
  then show ?thesis using process_anthropic [of fr r model] assembled_parts [OF calls] by auto
qed

definition sample_reply :: normalized_response where
  "sample_reply = \<lparr>rs_response_id = ''r1'', rs_model = ''m'', rs_content = Some (''caf'' @ [CHR 0xC3, CHR 0xA9, NL]),
     rs_reasoning_content = Some ''because'', rs_reasoning_signature = Some ''sig'',
     rs_tool_calls = [\<lparr>tc_id = ''c1'', tc_name = ''f'', tc_arguments = JObj [(''n'', JArr [JInt 4, JBool True])],
       tc_raw_arguments = dumps (\<lambda>_. ''0.0'') (JObj [(''n'', JArr [JInt 4, JBool True])]), tc_metadata = []\<rparr>],
     rs_finish_reason = ''tool_calls'', rs_input_tokens = 1, rs_output_tokens = 1, rs_raw_response = None\<rparr>"

lemma sample_reply_wire: "wire_response (\<lambda>_. ''0.0'') sample_reply"
proof -
  have "utf8_valid (''caf'' @ [CHR 0xC3, CHR 0xA9, NL])" by code_simp
  then show ?thesis by (simp add: wire_response_def sample_reply_def opt_utf8_def wire_call_def)
qed

theorem anthropic_stream_roundtrip_witness:
  "\<exists>evs a. feed_all (map (\<lambda>c. [c]) (concat (synthesize_anthropic_sse (\<lambda>_. ''0.0'') sample_reply ''m''))) new_parser = (evs, new_parser)
    \<and> process_events evs new_assembler = (Inr (), a) \<and> as_text_content a = ''caf'' @ [CHR 0xC3, CHR 0xA9, NL]"
proof -
  have "concat (map (\<lambda>c. [c]) s) = s" for s :: string by (induction s) simp_all
  then have "concat (map (\<lambda>c. [c]) (concat (synthesize_anthropic_sse (\<lambda>_. ''0.0'') sample_reply ''m'')))
      = concat (synthesize_anthropic_sse (\<lambda>_. ''0.0'') sample_reply ''m'')" .
  from anthropic_stream_roundtrip [OF sample_reply_wire _ this] show ?thesis
    by (simp add: text_of_def sample_reply_def truthy_str_def) metis
qed

text \<open>The OpenAI stream: one chunk, then the terminator.\<close>

lemma ascii_braces: "dumps_ascii fr (JObj []) = ''{}''"
  by (simp add: dumps_ascii_def)

lemma wire_raw_ascii: "wire_call fr tc \<Longrightarrow> raw_or_dumped (dumps_ascii fr) tc = dumps fr (tc_arguments tc)"
  using dumps_nonempty [of fr "tc_arguments tc"] by (auto simp: wire_call_def raw_or_dumped_def ascii_braces)

lemma openai_tool:
  assumes "keys_below i a" "wire_call fr tc"
  shows "tool_delta (openai_tool_delta fr (i, tc)) a = (Inr (), a\<lparr>as_tool_calls := as_tool_calls a @ [(JInt (int i), part_of fr tc)]\<rparr>)"
proof -
  have k: "JInt (int i) \<notin> fst ` set (as_tool_calls a)" using assms(1) by (auto simp: keys_below_def)
  then have "map_of (as_tool_calls a) (JInt (int i)) = None" by (simp add: map_of_eq_None_iff)
  moreover have "dumps fr (tc_arguments tc) \<noteq> []" using assms(2) dumps_nonempty [of fr "tc_arguments tc"] by (auto simp: wire_call_def)
  ultimately show ?thesis using k wire_raw [OF assms(2)] wire_raw_ascii [OF assms(2)]
    by (simp add: tool_delta_def openai_tool_delta_def asm_simps key_of_def on_part_def ensure_part_def add_args_def
        update_fresh update_last dict_get_def part_of_def map_add_def empty_part_def)
qed

lemma openai_tools:
  "keys_below i a \<Longrightarrow> list_all (wire_call fr) tcs \<Longrightarrow>
   asm_each tool_delta (map (openai_tool_delta fr) (indexed i tcs)) a = (Inr (), a\<lparr>as_tool_calls := as_tool_calls a @ parts_of fr i tcs\<rparr>)"
proof (induction tcs arbitrary: i a)
  case Nil
  then show ?case by (simp add: asm_ok_def parts_of_def)
next
  case (Cons tc tcs)
  let ?a = "a\<lparr>as_tool_calls := as_tool_calls a @ [(JInt (int i), part_of fr tc)]\<rparr>"
  have "keys_below (Suc i) ?a" using Cons.prems by (auto simp: keys_below_def less_SucI)
  from Cons.IH [OF this] Cons.prems openai_tool [of i a fr tc] show ?case by (simp add: asm_then_def parts_of_def)
qed

definition finish_of :: "normalized_response \<Rightarrow> json" where
  "finish_of r = (let f = if rs_tool_calls r \<noteq> [] then ''tool_calls'' else rs_finish_reason r in if f = [] then JNull else JStr f)"

lemma process_openai:
  assumes "list_all (wire_call fr) (rs_tool_calls r)"
  shows "process_event (frame_event fr ''message'' (openai_chunk fr now r model)) new_assembler =
     (Inr (), \<lparr>as_text_content = text_of (rs_content r), as_reasoning_content = text_of (rs_reasoning_content r),
        as_reasoning_signature = JNull, as_tool_calls = parts_of fr 0 (rs_tool_calls r), as_finish_reason = finish_of r\<rparr>)"
proof -
  have "keys_below 0 a = (as_tool_calls a = [])" for a by (auto simp: keys_below_def)
  note tools = openai_tools [OF iffD2 [OF this] assms]
  have "parts_of fr 0 [] = []" by (simp add: parts_of_def)
  then show ?thesis
    by (auto simp: process_event_def frame_event_def openai_chunk_def Let_def choices_delta_def item0_def asm_simps json_elements_def
        new_assembler_def add_text_def add_reasoning_def text_of_def truthy_str_def finish_of_def tools split: option.split)
qed

lemma openai_wire:
  assumes "wire_response fr r" "utf8_valid model"
  shows "wire_object fr (openai_chunk fr now r model)"
proof -
  have tool: "json_ok fr (openai_tool_delta fr (i, tc)) \<and> wire_text fr (openai_tool_delta fr (i, tc))" if "wire_call fr tc" for i tc
    using that wire_raw_utf8 [OF that] by (simp add: openai_tool_delta_def wire_raw wire_raw_ascii wire_call_def)
  have "list_all (wire_call fr) tcs \<Longrightarrow> list_all (json_ok fr) (map (openai_tool_delta fr) (indexed n tcs))
      \<and> list_all (wire_text fr) (map (openai_tool_delta fr) (indexed n tcs))" for n tcs
    by (induction tcs arbitrary: n) (simp_all add: tool)
  with assms show ?thesis
    by (auto simp: openai_chunk_def Let_def utf8_take_object utf8_prefixed wire_response_def opt_utf8_def truthy_str_def split: option.splits)
qed

text \<open>
  The same for \<open>synthesize_openai_sse\<close>, which also carries the finish reason; the last event is the terminator.
\<close>

theorem openai_stream_roundtrip:
  assumes "wire_response fr r" and "utf8_valid model" and "concat cs = concat (synthesize_openai_sse fr now r model)"
  shows "\<exists>e t a. feed_all cs new_parser = ([e, t], new_parser) \<and> ev_done t \<and> process_events [e, t] new_assembler = (Inr (), a)
    \<and> as_text_content a = text_of (rs_content r) \<and> as_reasoning_content a = text_of (rs_reasoning_content r)
    \<and> as_finish_reason a = finish_of r \<and> assembled_tool_calls a = Inr (map call_object (rs_tool_calls r))"
proof -
  have calls: "list_all (wire_call fr) (rs_tool_calls r)" using assms(1) by (simp add: wire_response_def)
  let ?e = "frame_event fr ''message'' (openai_chunk fr now r model)"
  let ?t = "\<lparr>ev_event = ''message'', ev_data = ''[DONE]'', ev_json = JNull, ev_done = True\<rparr>"
  have m: "new_parser\<lparr>sp_event_type := ''message''\<rparr> = new_parser" by (simp add: new_parser_def)
  have "feed_all [data_frame fr (openai_chunk fr now r model), done_frame] new_parser = ([?e, ?t], new_parser)"
    using feed_data_frame [OF openai_wire [OF assms(1,2)], of now "''message''"] feed_done_frame by (simp add: m)
  from any_chunks [OF this] assms(3) have "feed_all cs new_parser = ([?e, ?t], new_parser)" by (simp add: synthesize_openai_sse_def)
  moreover have "process_events [?e, ?t] new_assembler =
     (Inr (), \<lparr>as_text_content = text_of (rs_content r), as_reasoning_content = text_of (rs_reasoning_content r),
        as_reasoning_signature = JNull, as_tool_calls = parts_of fr 0 (rs_tool_calls r), as_finish_reason = finish_of r\<rparr>)"
    using process_openai [OF calls] by (simp add: asm_then_def asm_ok_def process_event_def)
  ultimately show ?thesis using assembled_parts [OF calls] by auto
qed

theorem openai_stream_roundtrip_witness:
  "\<exists>e t a. feed_all (synthesize_openai_sse (\<lambda>_. ''0.0'') 5 sample_reply ''m'') new_parser = ([e, t], new_parser)
    \<and> process_events [e, t] new_assembler = (Inr (), a) \<and> as_finish_reason a = JStr ''tool_calls''"
proof -
  have "utf8_valid ''m''" by simp
  from openai_stream_roundtrip [OF sample_reply_wire this refl, of 5] show ?thesis by (simp add: finish_of_def sample_reply_def) metis
qed

lemma next_code_split:
  assumes "next_code s = Some t"
  shows "utf8_valid (take (length s - length t) s)"
  using assms
proof (cases rule: next_code_cases)
  case (high p)
  from high(3) [of "[]"] have "utf8_valid p" by (simp add: utf8_valid.simps [of p])
  with high(1) show ?thesis by simp
qed simp

lemma take_codes_utf8: "utf8_valid s \<Longrightarrow> utf8_valid (take_codes n s)"
proof (induction n arbitrary: s)
  case (Suc n)
  show ?case
  proof (cases "next_code s")
    case (Some t)
    have "utf8_valid t" using Suc.prems Some by (cases "s = []") (auto simp: utf8_valid.simps [of s] next_code_def)
    with Suc.IH [of t] Some show ?thesis by (simp add: utf8_valid_append next_code_split)
  qed simp
qed simp

text \<open>
  An interruption is never taken for a completion.  The terminal event of \<open>interruption_sse\<close>, in either
  protocol and cut in any way, reaches the assembler without changing what was received before it: no text,
  no tool call and no finish reason is added.
\<close>

theorem interruption_is_not_completion:
  assumes "utf8_valid message" and "utf8_valid endpoint_id" and "concat cs = interruption_sse fr protocol message endpoint_id"
  shows "\<exists>evs. feed_all cs new_parser = (evs, new_parser) \<and> evs \<noteq> [] \<and> process_events evs a = (Inr (), a)"
proof -
  have m: "utf8_valid (take_codes 500 message)" by (rule take_codes_utf8 [OF assms(1)])
  obtain ev kvs tail where i: "interruption_sse fr protocol message endpoint_id = concat (sse_frame fr ev (JObj kvs) # tail)"
      "tail = [] \<or> tail = [done_frame]" "event_name ev" "ev \<noteq> []" "ev \<noteq> ''content_block_delta''" "ev \<noteq> ''content_block_start''"
      "map_of kvs ''choices'' = None" "wire_object fr (JObj kvs)"
  proof (cases "protocol = ''anthropic''")
    case True
    with that [of _ _ "[]"] m assms(2) show ?thesis by (simp add: interruption_sse_def Let_def utf8_take_object event_names)
  next
    case False
    with that [of _ _ "[done_frame]"] m assms(2) show ?thesis by (simp add: interruption_sse_def Let_def utf8_take_object event_names)
  qed
  let ?e = "frame_event fr ev (JObj kvs)"
  obtain evs where evs: "feed_all (sse_frame fr ev (JObj kvs) # tail) new_parser = (?e # evs, new_parser)" "list_all ev_done evs"
    using feed_sse_frame [OF i(3,8)] i(2) feed_done_frame by auto
  have "process_events evs a = (Inr (), a)" using evs(2)
    by (induction evs) (simp_all add: asm_ok_def asm_then_def process_event_def)
  then have "process_events (?e # evs) a = (Inr (), a)" using process_skip [OF i(4-7)] by (simp add: asm_then_def)
  with any_chunks [OF evs(1)] assms(3) i(1) show ?thesis by auto
qed

theorem interruption_is_not_completion_witness:
  "\<exists>evs. feed_all [interruption_sse (\<lambda>_. ''0.0'') ''anthropic'' ''lost'' ''e1''] new_parser = (evs, new_parser) \<and> evs \<noteq> []
    \<and> process_events evs new_assembler = (Inr (), new_assembler)"
proof -
  have "utf8_valid ''lost''" "utf8_valid ''e1''" by simp_all
  moreover have "concat [interruption_sse (\<lambda>_. ''0.0'') ''anthropic'' ''lost'' ''e1''] = interruption_sse (\<lambda>_. ''0.0'') ''anthropic'' ''lost'' ''e1''"
    by simp
  ultimately show ?thesis by (rule interruption_is_not_completion)
qed

end
