(* ===== verification/NativeStream.thy ===== *)
theory NativeStream
  imports ExecutorSafety
begin

text \<open>
  \<^verbatim>\<open>execution/executor.py\<close>: native streaming.  \<open>open_native_stream\<close> tries endpoints until one delivers its
  first bytes; the \<open>NativeStreamHandle\<close> it returns relays that provider's bytes and closes the books once.

  The loop shares the state, the ticks and the failure bookkeeping of \<open>execute\<close>.  What the adapter's
  \<open>open_stream\<close> and the first read of the stream answer is a \<open>stream_answer\<close>; \<open>tk_prepare\<close> stands for
  \<open>prepare_request\<close> together with the switch of its body to streaming.
\<close>

section \<open>Opening a stream\<close>

text \<open>
  The first read: a chunk (possibly empty), the end of the stream, or an exception, with whether it is a
  \<open>ProviderStreamError\<close>.
\<close>

datatype first_read = Chunk string | Closed | Broke error_info bool

datatype stream_answer =
    Open_raised gateway_error
  | Opened rat "(string, string) dict" first_read
  | Refused int "(string, string) dict" string

record stream_tick =
  sk_tick :: tick
  sk_has_stream :: bool
  sk_answer :: stream_answer

record native_handle =
  nh_endpoint :: endpoint
  nh_decision :: routing_decision
  nh_attempt :: attempt_record
  nh_first_chunk :: string
  nh_finished :: bool

datatype stream_outcome = SNext | SReturned native_handle | SRaised gateway_error

definition stream_error :: "string \<Rightarrow> error_info" where
  "stream_error message = \<lparr>ei_text = message, ei_type_name = ''ProviderStreamError'', ei_status_code = None, ei_code = None,
     ei_response_status = None, ei_body_text = None\<rparr>"

text \<open>The bytes of the first read, or the failure it stands for: its source and its status.\<close>

definition first_failure :: "first_read \<Rightarrow> string + error_info \<times> int" where
  "first_failure r =
     (case r of
        Chunk b \<Rightarrow> if b \<noteq> [] then Inl b else Inr (error_of_text ''provider returned an empty stream'', 502)
      | Closed \<Rightarrow> Inr (stream_error ''provider closed an empty stream'', 597)
      | Broke err provider_error \<Rightarrow> Inr (err, if provider_error then 597 else 502))"

definition stream_budget :: "(rat \<Rightarrow> string) \<Rightarrow> model_profile \<Rightarrow> normalized_request \<Rightarrow> context_budget" where
  "stream_budget fr p rq =
     (let max_supported_out = or_int (Some (mp_max_output_tokens p)) 4096;
          desired = min (or_int (rq_max_output_tokens rq) max_supported_out) max_supported_out;
          est_in = estimate_tokens fr rq;
          desired' = (if mp_context_window p - 2048 - desired < est_in \<and> desired > 1024
                      then max 1024 (min desired (mp_context_window p - 2048 - est_in)) else desired)
      in \<lparr>model_context_window = mp_context_window p, desired_output_tokens = desired', safety_margin_tokens = 2048\<rparr>)"

definition stream_adapt :: "'l exec_config \<Rightarrow> model_profile \<Rightarrow> normalized_request \<Rightarrow> (normalized_request \<times> bool) result" where
  "stream_adapt cfg p rq =
     (let b = stream_budget (py_repr (xc_env cfg)) p rq in
      case compact_request (py_repr (xc_env cfg)) (xc_tail_turns cfg) rq b of
        Inl e \<Rightarrow> Inl e
      | Inr (rq', compacted) \<Rightarrow> Inr (rq'\<lparr>rq_max_output_tokens := Some (desired_output_tokens b)\<rparr>, compacted))"

definition skip_route :: "string \<Rightarrow> endpoint \<Rightarrow> 'l exec_state \<Rightarrow> stream_outcome \<times> 'l exec_state" where
  "skip_route reason e st = (SNext, (exclude (ep_id e) st)\<lparr>xs_last_failure := Some reason\<rparr>)"

text \<open>Billing marks: as in \<open>execute\<close>, without the durable lockouts.\<close>

definition stream_billing :: "'l exec_config \<Rightarrow> tick \<Rightarrow> endpoint \<Rightarrow> failure_classification \<Rightarrow> 'l exec_state \<Rightarrow> 'l exec_state" where
  "stream_billing cfg tk e c st =
     (if fc_reason c \<noteq> R_billing then st
      else
        let wall = tk_wall tk; pool = xc_pool cfg; wide = account_wide e c;
            retry_sec = (if truthy_num (quota_for c) then the (quota_for c)
                         else if wide then calculate_seconds_until_utc_midnight wall else 86400);
            st1 = on_pm cfg (\<lambda>m. (if wide then mark_provider_quota_exhausted wall pool (ep_provider e) retry_sec else id)
                                  (mark_quota_exhausted wall pool (route_id_of e) retry_sec m)) st
        in if wide
           then st1\<lparr>xs_excluded := exclude_siblings (ep_provider e)
                      (endpoints_for_pool pool (rt_capabilities (xs_router st1))) (xs_excluded st1)\<rparr>
           else st1)"

definition stream_record :: "'l exec_config \<Rightarrow> tick \<Rightarrow> endpoint \<Rightarrow> attempt_record \<Rightarrow> failure_classification \<Rightarrow> 'l exec_state \<Rightarrow> 'l exec_state" where
  "stream_record cfg tk e a c st =
     (let wall = tk_wall tk;
          st1 = on_breaker (resource_key e) (record_failure (tk_done tk) (ar_latency_ms a) (Some c)) st;
          st2 = on_health (health_record_failure (tk_done tk) wall (ep_id e) (ar_latency_ms a) None
                  (take 160 (fc_message c)) None (quota_for c) (fc_is_permanent c)) st1;
          st3 = death_marks cfg tk e c (stream_billing cfg tk e c st2);
          st4 = on_ledger (record_attempt a) (record_lane_outcome wall e (Some c) st3)
      in (finish_durable_attempt wall a ''stream_open_failed'' (fc_message c) st4)
           \<lparr>xs_last_failure := Some (reason_value (fc_reason c))\<rparr>)"

text \<open>The flag of the retry loop of \<open>execute\<close> does not exist here.\<close>

definition stream_abandon :: "'l exec_config \<Rightarrow> tick \<Rightarrow> endpoint \<Rightarrow> failure_classification \<Rightarrow> 'l exec_state \<Rightarrow> 'l exec_state" where
  "stream_abandon cfg tk e c st = (abandon cfg tk e c st)\<lparr>xs_fallback_marked := xs_fallback_marked st\<rparr>"

definition stream_failed ::
  "'l exec_config \<Rightarrow> tick \<Rightarrow> endpoint \<Rightarrow> attempt_record \<Rightarrow> error_info \<Rightarrow> int \<Rightarrow> (string, string) dict \<Rightarrow> 'l exec_state
    \<Rightarrow> stream_outcome \<times> 'l exec_state" where
  "stream_failed cfg tk e attempt source status headers st0 =
     (let c = classify_failure (xc_classifier cfg) (tk_wall tk) source (Some status) headers;
          a = finish (tk_start tk) (tk_done tk) False (Some status) (Some c) attempt;
          st = stream_record cfg tk e a c st0;
          backoff = compute_backoff_seconds (tk_uniform tk) (attempts_on (ep_id e) (xs_ledger st))
                      (fc_retry_after_seconds c) (ep_retry (al_policy (xs_ledger st))) in
      if \<not> fc_should_fallback c then (SRaised (NonRecoverableFailureError (ep_id e)), st)
      else if fc_retryable c \<and> can_attempt_endpoint (ep_id e) (xs_ledger st)
              \<and> backoff < remaining_ms (tk_backoff tk) (xc_deadline cfg) / 1000
      then (SNext,
            let st1 = st\<lparr>xs_sleeps := xs_sleeps st @ [backoff]\<rparr> in
            case ep_resource_lane e of None \<Rightarrow> st1 | Some lane \<Rightarrow> on_lanes (set_available lane) st1)
      else (SNext, stream_abandon cfg tk e c st))"

definition stream_send ::
  "'l exec_config \<Rightarrow> stream_tick \<Rightarrow> endpoint \<Rightarrow> routing_decision \<Rightarrow> string \<Rightarrow> normalized_request \<Rightarrow> bool \<Rightarrow> 'l exec_state
    \<Rightarrow> stream_outcome \<times> 'l exec_state" where
  "stream_send cfg sk e decision key adapted compacted st0 =
     (let tk = sk_tick sk; attempt = new_attempt tk e compacted st0;
          st = prepare_durable_attempt (tk_wall tk) attempt st0 in
      case transport_timeouts (tk_plan tk) True (xc_deadline cfg) of
        Inl err \<Rightarrow> (SRaised err, st)
      | Inr t \<Rightarrow>
          let st1 = st\<lparr>xs_sent := xs_sent st @ [\<lparr>sn_endpoint = e, sn_time = tk_plan tk, sn_timeout = tt_total t / 1000,
                                                sn_key = key, sn_request = adapted\<rparr>]\<rparr> in
          (case sk_answer sk of
             Open_raised err \<Rightarrow> (SRaised err, st1)
           | Opened duration headers r \<Rightarrow>
               (case first_failure r of
                  Inl bytes \<Rightarrow>
                    (SReturned \<lparr>nh_endpoint = e, nh_decision = decision, nh_attempt = attempt, nh_first_chunk = bytes,
                                nh_finished = False\<rparr>,
                     on_pm cfg (record_route_success (tk_done tk) (xc_pool cfg) (ep_id e)) st1)
                | Inr (source, status) \<Rightarrow> stream_failed cfg tk e attempt source status headers st1)
           | Refused status headers body \<Rightarrow> stream_failed cfg tk e attempt (error_of_text body) status headers st1))"

text \<open>With the breaker's permission: compaction, adapter, key, request.\<close>

definition stream_dispatch ::
  "'l exec_config \<Rightarrow> stream_tick \<Rightarrow> endpoint \<Rightarrow> routing_decision \<Rightarrow> 'l exec_state \<Rightarrow> stream_outcome \<times> 'l exec_state" where
  "stream_dispatch cfg sk e decision st =
     (let tk = sk_tick sk; p = endpoint_profile e (xs_router st) in
      case stream_adapt cfg p (xs_request st) of
        Inl (ContextOverflowError _ _) \<Rightarrow> skip_route ''context_overflow'' e st
      | Inl err \<Rightarrow> (SRaised err, st)
      | Inr (adapted, compacted) \<Rightarrow>
          if \<not> sk_has_stream sk then skip_route ''adapter_has_no_native_stream'' e st
          else
            (case get_active_key (tk_wall tk) e (xc_api_keys cfg) (xs_keys st) of
               ((key_val, key_id), kp) \<Rightarrow>
                 let st1 = st\<lparr>xs_keys := kp\<rparr>;
                     key = (case key_val of Some k \<Rightarrow> k
                            | None \<Rightarrow> if truthy_str (ep_env_key e) then dict_get (xc_api_keys cfg) (the (ep_env_key e)) [] else []) in
                 (case tk_prepare tk of
                    Inl err \<Rightarrow> (SRaised err, st1)
                  | Inr _ \<Rightarrow> stream_send cfg sk e decision key adapted compacted st1)))"

text \<open>Ledger and breaker.\<close>

definition stream_admit ::
  "'l exec_config \<Rightarrow> stream_tick \<Rightarrow> endpoint \<Rightarrow> routing_decision \<Rightarrow> 'l exec_state \<Rightarrow> stream_outcome \<times> 'l exec_state" where
  "stream_admit cfg sk e decision st =
     (case validate_next_candidate (ep_id e) (xs_ledger st) of
        Inl _ \<Rightarrow> skip_route ''stream_route_rejected'' e st
      | Inr _ \<Rightarrow>
          (case registry_get_or_create (resource_key e) None (rt_breakers (xs_router st)) of
             (b, reg) \<Rightarrow>
               (case acquire_permission (tk_admit (sk_tick sk)) b of
                  (r, b') \<Rightarrow>
                    let st1 = on_router (\<lambda>x. x\<lparr>rt_breakers := registry_put (resource_key e) b' reg\<rparr>) st in
                    (case r of
                       Inl _ \<Rightarrow> skip_route ''breaker_admission_denied'' e st1
                     | Inr _ \<Rightarrow> stream_dispatch cfg sk e decision st1))))"

definition stream_route ::
  "string \<Rightarrow> 'l exec_config \<Rightarrow> stream_tick \<Rightarrow> endpoint \<Rightarrow> routing_decision \<Rightarrow> 'l exec_state \<Rightarrow> stream_outcome \<times> 'l exec_state" where
  "stream_route client_protocol cfg sk e decision st =
     (if ep_protocol e \<noteq> client_protocol then skip_route ''stream_protocol_mismatch'' e st
      else if \<not> mp_supports_streaming (endpoint_profile e (xs_router st)) then skip_route ''streaming_not_supported'' e st
      else stream_admit cfg sk e decision st)"

definition stream_step ::
  "string \<Rightarrow> 'l exec_config \<Rightarrow> stream_tick \<Rightarrow> 'l exec_state \<Rightarrow> stream_outcome \<times> 'l exec_state" where
  "stream_step client_protocol cfg sk st0 =
     (let tk = sk_tick sk; st = st0\<lparr>xs_attempt_idx := xs_attempt_idx st0 + 1\<rparr> in
      case deadline_check (tk_check tk) (xc_deadline cfg) of
        Inl err \<Rightarrow> (SRaised err, st)
      | Inr _ \<Rightarrow>
          (case select_candidate (tk_select tk) (tk_wall tk) (xc_requirements cfg) (xc_pool cfg) (xc_strategy cfg)
                  (rq_request_id (xs_request st)) (xs_excluded st) (xs_last_failure st) (xs_router st) of
             (None, decision, r) \<Rightarrow>
               (case rollover cfg tk (st\<lparr>xs_router := r\<rparr>) of
                  (Next, st') \<Rightarrow> (SNext, st')
                | (_, st') \<Rightarrow> (SRaised (NoHealthyRouteError (xc_pool cfg)), st'))
           | (Some e, decision, r) \<Rightarrow> stream_route client_protocol cfg sk e decision (st\<lparr>xs_router := r\<rparr>)))"

fun stream_loop ::
  "string \<Rightarrow> 'l exec_config \<Rightarrow> stream_tick list \<Rightarrow> 'l exec_state \<Rightarrow> (native_handle result \<times> 'l exec_state) option" where
  "stream_loop client_protocol cfg [] st = None"
| "stream_loop client_protocol cfg (sk # sks) st =
     (if loop_over cfg (sk_tick sk) st then Some (Inl (NoHealthyRouteError (xc_pool cfg)), st)
      else case stream_step client_protocol cfg sk st of
        (SNext, st') \<Rightarrow> stream_loop client_protocol cfg sks st'
      | (SReturned h, st') \<Rightarrow> Some (Inr h, st')
      | (SRaised err, st') \<Rightarrow> Some (Inl err, st'))"

text \<open>\<open>RequirementVector()\<close>.\<close>

definition default_requirements :: requirement_vector where
  "default_requirements =
     \<lparr>rv_require_tools = False, rv_require_parallel_tools = False, rv_require_structured_output = False,
      rv_require_vision = False, rv_require_reasoning = False, rv_minimum_context_tokens = 0,
      rv_maximum_cost_usd = None, rv_latency_budget_ms = None, rv_task_class = ''general'',
      rv_allowed_providers = None, rv_forbidden_providers = None, rv_estimated_input_tokens = 0,
      rv_expected_output_tokens = 0, rv_safety_margin_tokens = 0, rv_allow_context_compaction = True,
      rv_required_region = None, rv_required_compliance = None, rv_allow_external_traffic = None,
      rv_require_verified_capabilities = False, rv_minimum_quality_score = None,
      rv_allow_quality_degradation = False, rv_budget_scope = None, rv_budget_limit_usd = None, rv_prefix_hash = None\<rparr>"

definition stream_vector :: "(rat \<Rightarrow> string) \<Rightarrow> string \<Rightarrow> string option \<Rightarrow> normalized_request \<Rightarrow> requirement_vector" where
  "stream_vector fr pool prefix_hash rq =
     default_requirements\<lparr>rv_require_tools := False, rv_task_class := (if pool = ''coding'' then ''coding'' else ''general''),
       rv_estimated_input_tokens := estimate_tokens fr rq,
       rv_expected_output_tokens := or_int (rq_max_output_tokens rq) 4096, rv_prefix_hash := prefix_hash\<rparr>"

definition open_native_stream ::
  "string \<Rightarrow> 'l exec_config \<Rightarrow> execution_policy \<Rightarrow> normalized_request \<Rightarrow> stream_tick list \<Rightarrow> 'l exec_state
    \<Rightarrow> (native_handle result \<times> 'l exec_state) option" where
  "open_native_stream client_protocol cfg policy rq sks st =
     (if rq_tools rq \<noteq> [] then Some (Inl ConfigurationError, st)
      else stream_loop client_protocol
             (cfg\<lparr>xc_requirements := stream_vector (py_repr (xc_env cfg)) (xc_pool cfg) (xc_prefix_hash cfg) rq\<rparr>)
             sks (start_call rq policy st))"

section \<open>The handle\<close>

definition finish_success :: "'l exec_config \<Rightarrow> tick \<Rightarrow> native_handle \<Rightarrow> 'l exec_state \<Rightarrow> native_handle \<times> 'l exec_state" where
  "finish_success cfg tk h st =
     (if nh_finished h then (h, st)
      else
        let e = nh_endpoint h; a = finish (tk_start tk) (tk_done tk) True (Some 200) None (nh_attempt h);
            st1 = on_breaker (resource_key e) (record_success (tk_done tk) (ar_latency_ms a)) st;
            st2 = on_health (health_record_success (tk_wall tk) (ep_id e) (ar_latency_ms a) None) st1
        in (h\<lparr>nh_finished := True, nh_attempt := a\<rparr>,
            finish_durable_attempt (tk_wall tk) a ''stream_succeeded'' []
              (on_ledger (record_attempt a) (record_lane_outcome (tk_wall tk) e None st2))))"

definition failure_status :: "string option \<Rightarrow> int" where
  "failure_status phase =
     (let p = (case phase of Some x \<Rightarrow> x | None \<Rightarrow> ''connection'') in
      if p \<in> {''idle'', ''total'', ''first_byte''} then 597 else 598)"

text \<open>\<open>phase\<close> is that of a \<open>ProviderStreamError\<close>, \<open>None\<close> for any other exception.\<close>

definition finish_failure ::
  "'l exec_config \<Rightarrow> tick \<Rightarrow> string option \<Rightarrow> string \<Rightarrow> native_handle \<Rightarrow> 'l exec_state \<Rightarrow> native_handle \<times> 'l exec_state" where
  "finish_failure cfg tk phase text h st =
     (if nh_finished h then (h, st)
      else
        let e = nh_endpoint h; status = failure_status phase;
            c = classify_failure (xc_classifier cfg) (tk_wall tk) (error_of_text text) (Some status) [];
            a = finish (tk_start tk) (tk_done tk) False (Some status) (Some c) (nh_attempt h);
            st1 = on_breaker (resource_key e) (record_failure (tk_done tk) (ar_latency_ms a) (Some c)) st;
            st2 = on_health (health_record_failure (tk_done tk) (tk_wall tk) (ep_id e) (ar_latency_ms a) None
                    (take 160 (fc_message c)) (Some 30) None False) st1
        in (h\<lparr>nh_finished := True, nh_attempt := a\<rparr>,
            finish_durable_attempt (tk_wall tk) a ''stream_interrupted'' text
              (on_ledger (record_attempt a) (record_lane_outcome (tk_wall tk) e (Some c) st2))))"

text \<open>How the rest of the stream ends: at its end, or with an exception (of the stream or of the consumer).\<close>

datatype stream_end = Ended | Failed_with "string option" string

definition iter_bytes ::
  "'l exec_config \<Rightarrow> tick \<Rightarrow> string list \<Rightarrow> stream_end \<Rightarrow> native_handle \<Rightarrow> 'l exec_state
    \<Rightarrow> string list \<times> native_handle \<times> 'l exec_state" where
  "iter_bytes cfg tk chunks fin h st =
     (nh_first_chunk h # filter (\<lambda>c. c \<noteq> []) chunks,
      case fin of Ended \<Rightarrow> finish_success cfg tk h st | Failed_with phase text \<Rightarrow> finish_failure cfg tk phase text h st)"

end
