(* ===== verification/NativeStreamTheorems.thy ===== *)
theory NativeStreamTheorems
  imports NativeStream ExecutorTheorems
begin

text \<open>
  What native streaming guarantees: it ends, it sends a bounded number of sound requests, no provider is
  replaced once its bytes are visible, and the books of a stream are closed once.
\<close>

section \<open>Iterations\<close>

definition launched :: "sent \<Rightarrow> 'l exec_state \<Rightarrow> 'l exec_state \<Rightarrow> bool" where
  "launched s st st' \<longleftrightarrow> caps st' = caps st \<and> pol st' = pol st \<and> xs_waits st' = xs_waits st \<and> xs_sent st' = xs_sent st @ [s]"

lemma flown_launched: "flown s st st' \<Longrightarrow> launched s st st'"
  by (simp add: flown_def launched_def)

lemma skip_booked: "skip_route reason e st = (out, st') \<Longrightarrow> out = SNext \<and> booked 0 st st' \<and> ep_id e \<in> set (xs_excluded st')"
  by (auto simp: skip_route_def booked_def)

lemma stream_billing_quiet [simp]: "quiet st (stream_billing cfg tk e c st)"
  using exclude_siblings_extends [of "xs_excluded st"] by (simp add: quiet_def stream_billing_def Let_def)

lemma stream_record_booked: "booked 1 st (stream_record cfg tk e a c st)"
proof -
  let ?st2 = "on_health (health_record_failure (tk_done tk) (tk_wall tk) (ep_id e) (ar_latency_ms a) None
       (take 160 (fc_message c)) None (quota_for c) (fc_is_permanent c))
     (on_breaker (resource_key e) (record_failure (tk_done tk) (ar_latency_ms a) (Some c)) st)"
  let ?st3 = "record_lane_outcome (tk_wall tk) e (Some c) (death_marks cfg tk e c (stream_billing cfg tk e c ?st2))"
  have "quiet st ?st2" by (simp add: quiet_def)
  then have "quiet st ?st3"
    using quiet_trans [OF quiet_trans [OF quiet_trans [OF _ stream_billing_quiet] death_quiet(1)] durable_quiet(3)] by blast
  from booked_then_quiet [OF quiet_then_booked [OF this booked_record] durable_quiet(2)]
  show ?thesis by (simp add: stream_record_def Let_def booked_def)
qed

lemma booked_then_still: "booked n a b \<Longrightarrow> booked 0 b c \<Longrightarrow> booked n a c"
  using booked_trans [of n a b 0 c] by simp

lemma stream_pause_booked:
  "booked 0 st (st\<lparr>xs_sleeps := x\<rparr>)" "booked 0 st (on_lanes f (st\<lparr>xs_sleeps := x\<rparr>))" "booked 0 st (stream_abandon cfg tk e c st)"
  by (auto simp: booked_def shrinks_ok_def stream_abandon_def)

lemma stream_failed_booked:
  assumes "stream_failed cfg tk e attempt source status headers st = (out, st')"
  shows "booked 1 st st'" "\<And>h. out \<noteq> SReturned h"
proof -
  define c where "c = classify_failure (xc_classifier cfg) (tk_wall tk) source (Some status) headers"
  define st1 where "st1 = stream_record cfg tk e (finish (tk_start tk) (tk_done tk) False (Some status) (Some c) attempt) c st"
  have r: "booked 1 st st1" unfolding st1_def by (rule stream_record_booked)
  note after = r booked_then_still [OF r stream_pause_booked(1)] booked_then_still [OF r stream_pause_booked(2)]
    booked_then_still [OF r stream_pause_booked(3)]
  show "booked 1 st st'" using assms after
    unfolding stream_failed_def Let_def c_def [symmetric] st1_def [symmetric] by (auto split: if_splits option.splits)
  show "\<And>h. out \<noteq> SReturned h" using assms by (auto simp: stream_failed_def Let_def split: if_splits)
qed

text \<open>A request sent over a stream that may still answer.\<close>

definition stream_sound :: "'l exec_config \<Rightarrow> router \<Rightarrow> sent \<Rightarrow> bool" where
  "stream_sound cfg r s \<longleftrightarrow>
     sn_endpoint s \<in> set (endpoints_for_pool (xc_pool cfg) (rt_capabilities r))
     \<and> \<not> is_expired (sn_time s) (xc_deadline cfg)
     \<and> sn_timeout s \<le> max (1 / 1000) (remaining_ms (sn_time s) (xc_deadline cfg) / 1000)
     \<and> fits_window (py_repr (xc_env cfg)) (endpoint_profile (sn_endpoint s) r) (sn_request s)"

text \<open>The answer of an iteration has bytes a client can see.\<close>

definition visible :: "stream_tick \<Rightarrow> bool" where
  "visible sk = (case sk_answer sk of Opened _ _ (Chunk b) \<Rightarrow> b \<noteq> [] | _ \<Rightarrow> False)"

definition shot :: "stream_tick \<Rightarrow> endpoint \<Rightarrow> string \<Rightarrow> normalized_request \<Rightarrow> timeout_budget \<Rightarrow> sent" where
  "shot sk e key adapted t =
     \<lparr>sn_endpoint = e, sn_time = tk_plan (sk_tick sk), sn_timeout = tt_total t / 1000, sn_key = key, sn_request = adapted\<rparr>"

lemma send_cases:
  assumes "stream_send cfg sk e d key adapted compacted st = (out, st')"
  obtains (expired) err where "out = SRaised err" "booked 0 st st'"
    | (raised) err t where "out = SRaised err" "\<not> visible sk" "launched (shot sk e key adapted t) st st'"
        "transport_timeouts (tk_plan (sk_tick sk)) True (xc_deadline cfg) = Inr t"
    | (returned) h t where "out = SReturned h" "visible sk" "nh_endpoint h = e" "nh_first_chunk h \<noteq> []" "\<not> nh_finished h"
        "launched (shot sk e key adapted t) st st'" "xs_ledger st' = xs_ledger st"
        "transport_timeouts (tk_plan (sk_tick sk)) True (xc_deadline cfg) = Inr t"
    | (failed) t where "out = SNext" "\<not> visible sk" "flown (shot sk e key adapted t) st st'"
        "transport_timeouts (tk_plan (sk_tick sk)) True (xc_deadline cfg) = Inr t"
proof (cases "transport_timeouts (tk_plan (sk_tick sk)) True (xc_deadline cfg)")
  case (Inl err)
  with assms show ?thesis by (intro expired) (auto simp: stream_send_def Let_def booked_def)
next
  case (Inr t)
  define attempt where "attempt = new_attempt (sk_tick sk) e compacted st"
  define st1 where "st1 = (prepare_durable_attempt (tk_wall (sk_tick sk)) attempt st)
    \<lparr>xs_sent := xs_sent st @ [shot sk e key adapted t]\<rparr>"
  have l: "launched (shot sk e key adapted t) st st1" "xs_ledger st1 = xs_ledger st" by (simp_all add: launched_def st1_def)
  have f: "flown (shot sk e key adapted t) st x" if "booked 1 st1 x" for x
    using that by (auto simp: booked_def flown_def st1_def shrinks_ok_same)
  have fail: thesis if s: "stream_failed cfg (sk_tick sk) e attempt source status headers st1 = (out, st')" and v: "\<not> visible sk"
    for source status headers
  proof (cases out)
    case SNext
    then show ?thesis using failed [OF _ v f [OF stream_failed_booked(1) [OF s]] Inr] by simp
  next
    case (SRaised err)
    then show ?thesis using raised [OF _ v flown_launched [OF f [OF stream_failed_booked(1) [OF s]]] Inr] by simp
  qed (use stream_failed_booked(2) [OF s] in simp)
  consider err where "sk_answer sk = Open_raised err"
    | duration headers b where "sk_answer sk = Opened duration headers b" | status headers body where "sk_answer sk = Refused status headers body"
    by (cases "sk_answer sk") auto
  then show ?thesis
  proof cases
    case 1
    with assms Inr l show ?thesis by (intro raised) (auto simp: stream_send_def Let_def st1_def attempt_def shot_def visible_def)
  next
    case (2 duration headers b)
    show ?thesis
    proof (cases "first_failure b")
      case (Inl bytes)
      then have "bytes \<noteq> []" "b = Chunk bytes" by (auto simp: first_failure_def split: first_read.splits if_splits)
      with assms Inr 2 Inl l show ?thesis
        by (intro returned) (auto simp: stream_send_def Let_def st1_def attempt_def shot_def launched_def visible_def)
    next
      case (Inr sp)
      then have "\<not> visible sk" using 2 by (auto simp: visible_def first_failure_def split: first_read.splits if_splits)
      with Inr assms \<open>transport_timeouts (tk_plan (sk_tick sk)) True (xc_deadline cfg) = Inr t\<close> 2 show ?thesis
        by (intro fail [of "fst sp" "snd sp" headers]) (auto simp: stream_send_def Let_def st1_def attempt_def shot_def split: prod.splits)
    qed
  next
    case (3 status headers body)
    with assms Inr show ?thesis
      by (intro fail [of "error_of_text body" status headers]) (auto simp: stream_send_def Let_def st1_def attempt_def shot_def visible_def)
  qed
qed

lemma stream_budget_fits:
  "available_input_budget (stream_budget fr p rq) \<le> max 512 (max 0 (mp_context_window p) - desired_output_tokens (stream_budget fr p rq))"
proof -
  have "model_context_window (stream_budget fr p rq) = mp_context_window p" "safety_margin_tokens (stream_budget fr p rq) = 2048"
    by (simp_all add: stream_budget_def Let_def)
  then show ?thesis unfolding available_input_budget_def by linarith
qed

lemma stream_adapted_fits:
  assumes "stream_adapt cfg p rq = Inr (adapted, compacted)"
  shows "fits_window (py_repr (xc_env cfg)) p adapted"
proof -
  let ?fr = "py_repr (xc_env cfg)"
  let ?b = "stream_budget ?fr p rq"
  obtain rq' where c: "compact_request ?fr (xc_tail_turns cfg) rq ?b = Inr (rq', compacted)"
    and a: "adapted = rq'\<lparr>rq_max_output_tokens := Some (desired_output_tokens ?b)\<rparr>"
    using assms by (auto simp: stream_adapt_def Let_def split: sum.splits)
  have "estimate_tokens ?fr rq' \<le> available_input_budget ?b"
    using compact_outcome [where fr = ?fr and tail = "xc_tail_turns cfg" and r = rq and b = ?b] by (simp add: c)
  with stream_budget_fits [where fr = ?fr and p = p and rq = rq] show ?thesis by (simp add: fits_window_def a)
qed

lemma stream_timeout_within:
  assumes "transport_timeouts now True d = Inr t"
  shows "\<not> is_expired now d \<and> tt_total t / 1000 \<le> max (1 / 1000) (remaining_ms now d / 1000)"
  using assms by (auto simp: transport_timeouts_def deadline_check_def Let_def le_max_iff_disj split: sum.splits if_splits)

lemma shot_sound:
  assumes "e \<in> set (pool_of cfg st)" "stream_adapt cfg (endpoint_profile e (xs_router st)) rq = Inr (adapted, compacted)"
    "transport_timeouts (tk_plan (sk_tick sk)) True (xc_deadline cfg) = Inr t"
  shows "stream_sound cfg (xs_router st) (shot sk e key adapted t)"
  using assms stream_adapted_fits [OF assms(2)] stream_timeout_within [OF assms(3)] by (simp add: stream_sound_def shot_def)

lemma dispatch_stream_cases:
  assumes "stream_dispatch cfg sk e d st = (out, st')" "e \<in> set (pool_of cfg st)"
  obtains (raised) err where "out = SRaised err" "booked 0 st st'"
    | (skipped) "out = SNext" "booked 0 st st'" "ep_id e \<in> set (xs_excluded st')"
    | (sent_raised) err s where "out = SRaised err" "\<not> visible sk" "launched s st st'" "stream_sound cfg (xs_router st) s"
    | (returned) h s where "out = SReturned h" "visible sk" "nh_endpoint h = e" "nh_first_chunk h \<noteq> []" "\<not> nh_finished h"
        "launched s st st'" "xs_ledger st' = xs_ledger st" "stream_sound cfg (xs_router st) s" "sn_endpoint s = e"
    | (failed) s where "out = SNext" "\<not> visible sk" "flown s st st'" "stream_sound cfg (xs_router st) s"
proof (cases "stream_adapt cfg (endpoint_profile e (xs_router st)) (xs_request st)")
  case (Inl err)
  with assms(1) consider "skip_route ''context_overflow'' e st = (out, st')" | "(SRaised err, st) = (out, st')"
    by (auto simp: stream_dispatch_def Let_def split: gateway_error.splits)
  then show ?thesis
  proof cases
    case 1
    from skip_booked [OF this] skipped show ?thesis by blast
  next
    case 2
    with raised [of err] show ?thesis by (simp add: booked_def)
  qed
next
  case ad: (Inr pr)
  obtain adapted compacted where pr: "pr = (adapted, compacted)" by fastforce
  obtain kv kid kp where k: "get_active_key (tk_wall (sk_tick sk)) e (xc_api_keys cfg) (xs_keys st) = ((kv, kid), kp)" by (metis surj_pair)
  define st1 where "st1 = st\<lparr>xs_keys := kp\<rparr>"
  have b1: "booked 0 st st1" by (simp add: booked_def shrinks_ok_def st1_def)
  have eqs: "caps st1 = caps st" "xs_sent st1 = xs_sent st" "xs_ledger st1 = xs_ledger st" "pol st1 = pol st" "xs_waits st1 = xs_waits st"
    by (simp_all add: st1_def)
  define key where "key = (case kv of Some x \<Rightarrow> x
    | None \<Rightarrow> if truthy_str (ep_env_key e) then dict_get (xc_api_keys cfg) (the (ep_env_key e)) [] else [])"
  from assms(1) ad pr k consider (no) "skip_route ''adapter_has_no_native_stream'' e st = (out, st')"
    | (bad) err where "(SRaised err, st1) = (out, st')" | (go) "stream_send cfg sk e d key adapted compacted st1 = (out, st')"
    unfolding stream_dispatch_def Let_def st1_def key_def by (auto split: sum.splits if_splits)
  then show ?thesis
  proof cases
    case no
    from skip_booked [OF this] skipped show ?thesis by blast
  next
    case (bad err)
    with raised [of err] b1 show ?thesis by simp
  next
    case go
    note sound = shot_sound [OF assms(2) ad [unfolded pr]]
    from go show ?thesis
    proof (cases rule: send_cases)
      case (expired err)
      show ?thesis by (rule that(1) [OF expired(1)]) (use booked_trans [OF b1 expired(2)] in simp)
    next
      case (raised err t)
      show ?thesis by (rule that(3) [OF raised(1,2) _ sound [OF raised(4)]]) (use raised(3) eqs in \<open>simp add: launched_def\<close>)
    next
      case (returned h t)
      show ?thesis by (rule that(4) [OF returned(1-5) _ _ sound [OF returned(8)]])
          (use returned(6,7) eqs in \<open>simp_all add: launched_def shot_def\<close>)
    next
      case (failed t)
      show ?thesis by (rule that(5) [OF failed(1,2) booked_flown [OF b1 failed(3)] sound [OF failed(4)]])
    qed
  qed
qed

lemma admit_stream_cases:
  assumes "stream_admit cfg sk e d st = (out, st')"
  obtains (skipped) "out = SNext" "booked 0 st st'" "ep_id e \<in> set (xs_excluded st')"
    | (dispatched) st1 where "stream_dispatch cfg sk e d st1 = (out, st')" "booked 0 st st1" "xs_ledger st1 = xs_ledger st"
proof -
  obtain b reg where g: "registry_get_or_create (resource_key e) None (rt_breakers (xs_router st)) = (b, reg)" by fastforce
  obtain r b' where a: "acquire_permission (tk_admit (sk_tick sk)) b = (r, b')" by fastforce
  define st1 where "st1 = on_router (\<lambda>x. x\<lparr>rt_breakers := registry_put (resource_key e) b' reg\<rparr>) st"
  have b1: "booked 0 st st1" "xs_ledger st1 = xs_ledger st" by (simp_all add: booked_def st1_def)
  have skip: thesis if "skip_route reason e x = (out, st')" "booked 0 st x" for reason x
    using skip_booked [OF that(1)] booked_then_still [OF that(2)] skipped by blast
  from assms g a consider (bad) "skip_route ''stream_route_rejected'' e st = (out, st')"
    | (denied) "skip_route ''breaker_admission_denied'' e st1 = (out, st')" | (go) "stream_dispatch cfg sk e d st1 = (out, st')"
    unfolding stream_admit_def Let_def st1_def by (auto split: sum.splits)
  then show ?thesis
  proof cases
    case bad
    then show ?thesis by (rule skip) (simp add: booked_def)
  next
    case denied
    then show ?thesis by (rule skip) (rule b1(1))
  next
    case go
    then show ?thesis by (rule dispatched [OF _ b1])
  qed
qed

lemma stream_sound_caps: "rt_capabilities r = rt_capabilities r' \<Longrightarrow> stream_sound cfg r s = stream_sound cfg r' s"
  by (simp add: stream_sound_def endpoint_profile_def split: option.split)

lemma booked_launched: "booked 0 a b \<Longrightarrow> launched s b c \<Longrightarrow> launched s a c"
  by (simp add: booked_def launched_def)

lemma stream_step_cases:
  assumes "stream_step proto cfg sk st = (out, st')" "\<not> loop_over cfg (sk_tick sk) st"
  obtains (raised) err where "out = SRaised err" "booked 0 st st'"
    | (skipped) e where "out = SNext" "booked 0 st st'" "e \<in> set (pool_of cfg st)" "ep_id e \<notin> set (xs_excluded st)"
        "ep_id e \<in> set (xs_excluded st')"
    | (waited) "out = SNext" "caps st' = caps st" "pol st' = pol st" "xs_waits st < MAX_RATE_LIMIT_WAITS"
        "xs_waits st' = Suc (xs_waits st)" "xs_sent st' = xs_sent st" "tot st' = tot st"
    | (sent_raised) err s where "out = SRaised err" "\<not> visible sk" "launched s st st'" "stream_sound cfg (xs_router st) s"
    | (returned) h s where "out = SReturned h" "visible sk" "ep_protocol (nh_endpoint h) = proto" "nh_first_chunk h \<noteq> []" "\<not> nh_finished h"
        "launched s st st'" "xs_ledger st' = xs_ledger st" "stream_sound cfg (xs_router st) s" "sn_endpoint s = nh_endpoint h"
    | (failed) s where "out = SNext" "\<not> visible sk" "flown s st st'" "stream_sound cfg (xs_router st) s"
proof (cases "deadline_check (tk_check (sk_tick sk)) (xc_deadline cfg)")
  case (Inl err)
  with assms(1) show ?thesis by (intro raised) (auto simp: stream_step_def Let_def booked_def shrinks_ok_def)
next
  case dl: (Inr u)
  let ?tk = "sk_tick sk"
  define st0 where "st0 = st\<lparr>xs_attempt_idx := xs_attempt_idx st + 1\<rparr>"
  obtain sel d r where sel: "select_candidate (tk_select ?tk) (tk_wall ?tk) (xc_requirements cfg) (xc_pool cfg) (xc_strategy cfg)
      (rq_request_id (xs_request st0)) (xs_excluded st0) (xs_last_failure st0) (xs_router st0) = (sel, d, r)" by (metis prod_cases3)
  define st1 where "st1 = st0\<lparr>xs_router := r\<rparr>"
  have c: "rt_capabilities r = caps st" using select_members(1) [OF sel] by (simp add: st0_def)
  have b: "booked 0 st st1" using c by (simp add: booked_def shrinks_ok_def st1_def st0_def)
  have l: "xs_ledger st1 = xs_ledger st" by (simp add: st1_def st0_def)
  show ?thesis
  proof (cases sel)
    case None
    have "exec_step cfg ?tk st = rollover cfg ?tk st1"
      using dl sel None by (simp add: exec_step_def Let_def st0_def st1_def)
    moreover have "stream_step proto cfg sk st = (case rollover cfg ?tk st1 of (Next, x) \<Rightarrow> (SNext, x)
        | (_, x) \<Rightarrow> (SRaised (NoHealthyRouteError (xc_pool cfg)), x))"
      using dl sel None by (simp add: stream_step_def Let_def st0_def st1_def)
    ultimately obtain out1 where ro: "exec_step cfg ?tk st = (out1, st')"
        "(out1 = Next \<and> out = SNext) \<or> (out1 \<noteq> Next \<and> (\<exists>err. out = SRaised err))"
      using assms(1) by (auto split: prod.splits step_outcome.splits)
    from ro(1) assms(2) show ?thesis
    proof (cases rule: step_cases)
      case (raised err)
      with ro(2) that(1) show ?thesis by auto
    next
      case (skipped e)
      with ro(2) that(2) show ?thesis by auto
    next
      case waited
      with ro(2) that(3) show ?thesis by auto
    next
      case (sent e key timeout adapted compacted)
      have "xs_sent (snd (rollover cfg ?tk st1)) = xs_sent st1" by (simp add: rollover_def Let_def split: prod.split)
      with sent(3) ro(1) \<open>exec_step cfg ?tk st = rollover cfg ?tk st1\<close> show ?thesis by (simp add: flown_def st1_def st0_def)
    qed
  next
    case (Some e)
    have m: "e \<in> set (pool_of cfg st)" "ep_id e \<notin> set (xs_excluded st)"
      using select_members(2) [OF sel] Some by (auto simp: st0_def)
    have skip: thesis if "skip_route reason e st1 = (out, st')" for reason
      using skip_booked [OF that] booked_then_still [OF b] skipped m by blast
    from assms(1) dl sel Some consider (mismatch) reason where "skip_route reason e st1 = (out, st')"
      | (admit) "stream_admit cfg sk e d st1 = (out, st')" "ep_protocol e = proto"
      unfolding stream_step_def Let_def st0_def [symmetric] st1_def by (auto simp: stream_route_def split: if_splits)
    then show ?thesis
    proof cases
      case mismatch
      then show ?thesis by (rule skip)
    next
      case admit
      from admit(1) show ?thesis
      proof (cases rule: admit_stream_cases)
        case sk: skipped
        show ?thesis by (rule skipped [OF sk(1) booked_then_still [OF b sk(2)] m sk(3)])
      next
        case (dispatched st2)
        have b2: "booked 0 st st2" by (rule booked_then_still [OF b dispatched(2)])
        then have c2: "caps st2 = caps st" by (simp add: booked_def)
        with m have e: "e \<in> set (pool_of cfg st2)" by simp
        have snd: "stream_sound cfg (xs_router st2) s = stream_sound cfg (xs_router st) s" for s
          by (rule stream_sound_caps) (rule c2)
        have l2: "xs_ledger st2 = xs_ledger st" using dispatched(3) l by simp
        from dispatched(1) e show ?thesis
        proof (cases rule: dispatch_stream_cases)
          case (raised err)
          show ?thesis by (rule that(1) [OF raised(1) booked_then_still [OF b2 raised(2)]])
        next
          case sk: skipped
          show ?thesis by (rule skipped [OF sk(1) booked_then_still [OF b2 sk(2)] m sk(3)])
        next
          case (sent_raised err s)
          show ?thesis by (rule that(4) [OF sent_raised(1,2) booked_launched [OF b2 sent_raised(3)] sent_raised(4) [unfolded snd]])
        next
          case (returned h s)
          show ?thesis by (rule that(5) [OF returned(1,2) _ returned(4,5) booked_launched [OF b2 returned(6)] _ returned(8) [unfolded snd]])
            (use returned(3,7,9) l2 admit(2) in simp_all)
        next
          case (failed s)
          show ?thesis by (rule that(6) [OF failed(1,2) booked_flown [OF b2 failed(3)] failed(4) [unfolded snd]])
        qed
      qed
    qed
  qed
qed

section \<open>The loop\<close>

lemma stream_fuel:
  assumes "stream_step proto cfg sk st = (SNext, st')" "\<not> loop_over cfg (sk_tick sk) st"
  shows "fuel cfg st' < fuel cfg st"
  using assms
proof (cases rule: stream_step_cases)
  case (skipped e)
  show ?thesis by (rule fuel_skipped [OF skipped(2-5)])
next
  case waited
  show ?thesis by (rule fuel_waited [OF waited(2-5,7)])
next
  case (failed s)
  show ?thesis by (rule fuel_flown [OF failed(3) assms(2)])
qed simp_all

definition stream_result :: "stream_outcome \<Rightarrow> native_handle result" where
  "stream_result out = (case out of SReturned h \<Rightarrow> Inr h | SRaised err \<Rightarrow> Inl err | SNext \<Rightarrow> Inl RuntimeError)"

interpretation native_loop: attempt_loop "stream_loop proto cfg" "\<lambda>sk. loop_over cfg (sk_tick sk)" "stream_step proto cfg" "\<lambda>out. out = SNext"
  stream_result "Inl (NoHealthyRouteError (xc_pool cfg))" "fuel cfg" for proto cfg
proof unfold_locales
  fix t s out s' ts
  assume "\<not> loop_over cfg (sk_tick t) s" "stream_step proto cfg t s = (out, s')" "out \<noteq> SNext"
  then show "stream_loop proto cfg (t # ts) s = Some (stream_result out, s')" by (cases out) (simp_all add: stream_result_def)
qed (auto simp: stream_fuel)

text \<open>For every request a run sends, whether the answer had visible bytes.\<close>

fun visible_sends :: "string \<Rightarrow> 'l exec_config \<Rightarrow> stream_tick list \<Rightarrow> 'l exec_state \<Rightarrow> bool list" where
  "visible_sends proto cfg [] st = []"
| "visible_sends proto cfg (sk # sks) st =
     (if loop_over cfg (sk_tick sk) st then []
      else case stream_step proto cfg sk st of
        (out, st') \<Rightarrow> (if length (xs_sent st) < length (xs_sent st') then [visible sk] else [])
                      @ (if out = SNext then visible_sends proto cfg sks st' else []))"

lemma visible_once:
  "stream_loop proto cfg sks st = Some (res, st') \<Longrightarrow>
   \<exists>n. visible_sends proto cfg sks st = replicate n False @ (case res of Inr _ \<Rightarrow> [True] | Inl _ \<Rightarrow> [])"
proof (induction sks arbitrary: st)
  case (Cons sk sks)
  show ?case
  proof (cases "loop_over cfg (sk_tick sk) st")
    case True
    with Cons.prems show ?thesis by auto
  next
    case False
    obtain out st1 where s: "stream_step proto cfg sk st = (out, st1)" by fastforce
    have go: "\<exists>n. visible_sends proto cfg sks st1 = replicate n False @ (case res of Inr _ \<Rightarrow> [True] | Inl _ \<Rightarrow> [])" if "out = SNext"
      using Cons.IH [of st1] Cons.prems False s that by simp
    from s False show ?thesis
    proof (cases rule: stream_step_cases)
      case (raised err)
      with Cons.prems False s show ?thesis by (auto simp: booked_def)
    next
      case (skipped e)
      with go False s show ?thesis by (auto simp: booked_def)
    next
      case waited
      with go False s show ?thesis by auto
    next
      case (sent_raised err x)
      with Cons.prems False s show ?thesis by (auto simp: launched_def intro: exI [of _ "Suc 0"])
    next
      case (returned h x)
      with Cons.prems False s show ?thesis by (auto simp: launched_def intro: exI [of _ 0])
    next
      case (failed x)
      then have "length (xs_sent st) < length (xs_sent st1)" by (simp add: flown_def)
      with go failed obtain n where "visible_sends proto cfg (sk # sks) st = replicate (Suc n) False @ (case res of Inr _ \<Rightarrow> [True] | Inl _ \<Rightarrow> [])"
        using False s by auto
      then show ?thesis by blast
    qed
  qed
qed simp

definition stream_inv :: "'l exec_config \<Rightarrow> router \<Rightarrow> execution_policy \<Rightarrow> 'l exec_state \<Rightarrow> bool" where
  "stream_inv cfg r policy st \<longleftrightarrow> caps st = rt_capabilities r \<and> pol st = policy \<and> length (xs_sent st) \<le> tot st
     \<and> length (xs_sent st) \<le> nat (max_total_attempts policy) \<and> list_all (stream_sound cfg r) (xs_sent st)"

lemma stream_inv_on:
  assumes "stream_step proto cfg sk st = (SNext, st')" "\<not> loop_over cfg (sk_tick sk) st" "stream_inv cfg r policy st"
  shows "stream_inv cfg r policy st'"
  using assms(1,2)
proof (cases rule: stream_step_cases)
  case (skipped e)
  with assms(3) show ?thesis by (auto simp: stream_inv_def booked_def)
next
  case waited
  with assms(3) show ?thesis by (auto simp: stream_inv_def)
next
  case (failed s)
  have "tot st < nat (max_total_attempts policy)"
    using assms(2,3) by (simp add: loop_over_def total_attempts_def stream_inv_def zless_nat_eq_int_zless)
  moreover have "stream_sound cfg r s = stream_sound cfg (xs_router st) s"
    using assms(3) by (intro stream_sound_caps) (simp add: stream_inv_def)
  ultimately show ?thesis using failed(3,4) assms(3) by (auto simp: stream_inv_def flown_def)
qed simp_all

lemma stream_inv_stop:
  assumes "stream_step proto cfg sk st = (out, st')" "\<not> loop_over cfg (sk_tick sk) st" "stream_inv cfg r policy st" "out \<noteq> SNext"
  shows "length (xs_sent st') \<le> nat (max_total_attempts policy) \<and> list_all (stream_sound cfg r) (xs_sent st')
    \<and> (\<forall>h. out = SReturned h \<longrightarrow> nh_first_chunk h \<noteq> [] \<and> \<not> nh_finished h \<and> ep_protocol (nh_endpoint h) = proto
         \<and> xs_sent st' \<noteq> [] \<and> sn_endpoint (last (xs_sent st')) = nh_endpoint h)"
proof -
  have "tot st < nat (max_total_attempts policy)"
    using assms(2,3) by (simp add: loop_over_def total_attempts_def stream_inv_def zless_nat_eq_int_zless)
  moreover have "stream_sound cfg r s = stream_sound cfg (xs_router st) s" for s
    using assms(3) by (intro stream_sound_caps) (simp add: stream_inv_def)
  ultimately show ?thesis using assms
    by (cases rule: stream_step_cases [OF assms(1,2)]) (auto simp: stream_inv_def booked_def launched_def)
qed

lemma stream_loop_sends:
  assumes "stream_loop proto cfg sks st = Some (res, st')" "stream_inv cfg r policy st"
  shows "length (xs_sent st') \<le> nat (max_total_attempts policy) \<and> list_all (stream_sound cfg r) (xs_sent st')
    \<and> (\<forall>h. res = Inr h \<longrightarrow> nh_first_chunk h \<noteq> [] \<and> \<not> nh_finished h \<and> ep_protocol (nh_endpoint h) = proto
         \<and> xs_sent st' \<noteq> [] \<and> sn_endpoint (last (xs_sent st')) = nh_endpoint h)"
proof (rule native_loop.ends [OF assms(1), where I = "stream_inv cfg r policy"])
  fix sk s out s'
  assume "\<not> loop_over cfg (sk_tick sk) s" "stream_step proto cfg sk s = (out, s')" "out = SNext" "stream_inv cfg r policy s"
  then show "stream_inv cfg r policy s'" using stream_inv_on by simp
next
  assume "res = Inl (NoHealthyRouteError (xc_pool cfg))" "stream_inv cfg r policy st'"
  then show ?thesis by (simp add: stream_inv_def)
next
  fix sk s out
  assume s: "stream_inv cfg r policy s" "\<not> loop_over cfg (sk_tick sk) s" "stream_step proto cfg sk s = (out, st')" "out \<noteq> SNext"
    "res = stream_result out"
  then show ?thesis using stream_inv_stop [OF s(3,2,1,4)] by (cases out) (simp_all add: stream_result_def)
qed (rule assms(2))

section \<open>A sample stream\<close>

definition plain_request :: normalized_request where
  "plain_request = demo_request\<lparr>rq_tools := []\<rparr>"

definition stream_sample :: "stream_answer \<Rightarrow> stream_tick" where
  "stream_sample answer =
     \<lparr>sk_tick = sample_tick ''a1'' (Transport_error (error_text [])), sk_has_stream = True, sk_answer = answer\<rparr>"

abbreviation stream_run :: "(native_handle result \<times> (durable_ledger \<times> unit sqlite_store) exec_state) option" where
  "stream_run \<equiv> open_native_stream ''openai'' sample_config default_policy plain_request
     (replicate 24 (stream_sample (Opened 5 [] (Chunk ''data'')))) sample_state"

lemma stream_run_returns: "case stream_run of Some (Inr h, st') \<Rightarrow> nh_first_chunk h = ''data'' | _ \<Rightarrow> False"
  by code_simp

section \<open>Properties\<close>

text \<open>
  \<open>open_native_stream\<close> returns: it hands out a stream or raises after a bounded number of iterations,
  whatever the providers and the clocks do.
\<close>

theorem native_stream_terminates:
  assumes "nat (max_total_attempts policy)
      + 4 * length (endpoints_for_pool (xc_pool cfg) (rt_capabilities (xs_router st))) + 3 < length sks"
  shows "\<exists>res st'. open_native_stream proto cfg policy rq sks st = Some (res, st')"
proof -
  let ?cfg = "cfg\<lparr>xc_requirements := stream_vector (py_repr (xc_env cfg)) (xc_pool cfg) (xc_prefix_hash cfg) rq\<rparr>"
  let ?st = "start_call rq policy st"
  have "fuel ?cfg ?st \<le> 3 * (length (pool_of cfg st) + 1) + nat (max_total_attempts policy) + length (pool_of cfg st)"
    using room_le [of ?cfg ?st] by (simp add: fuel_def MAX_RATE_LIMIT_WAITS_def)
  with assms have "fuel ?cfg ?st < length sks" by simp
  from native_loop.returns [OF this] show ?thesis by (auto simp: open_native_stream_def)
qed

theorem native_stream_terminates_witness:
  "\<exists>res st'. stream_run = Some (res, st')"
proof -
  have "nat (max_total_attempts default_policy)
      + 4 * length (endpoints_for_pool (xc_pool sample_config) (rt_capabilities (xs_router sample_state))) + 3
    < length (replicate 24 (stream_sample (Opened 5 [] (Chunk ''data''))))"
    by code_simp
  then show ?thesis by (rule native_stream_terminates)
qed

text \<open>
  C8: No provider is replaced once its bytes are visible.  A request with tools is refused before anything is
  sent.  Otherwise the requests sent are at most \<open>max_total_attempts\<close>, each to an endpoint of the pool before
  the deadline and within the window of its profile, and none of them but the last delivered a byte; if a
  stream is handed out, its first chunk is not empty, it speaks the client's protocol, and it is the stream of
  the last request.
\<close>

theorem native_stream_commits_once:
  assumes "open_native_stream proto cfg policy rq sks st = Some (res, st')"
  shows "(rq_tools rq \<noteq> [] \<longrightarrow> res = Inl ConfigurationError \<and> st' = st) \<and>
    (rq_tools rq = [] \<longrightarrow>
       length (xs_sent st') \<le> nat (max_total_attempts policy) \<and> list_all (stream_sound cfg (xs_router st)) (xs_sent st')
       \<and> (\<exists>n. visible_sends proto (cfg\<lparr>xc_requirements := stream_vector (py_repr (xc_env cfg)) (xc_pool cfg) (xc_prefix_hash cfg) rq\<rparr>)
                 sks (start_call rq policy st) = replicate n False @ (case res of Inr _ \<Rightarrow> [True] | Inl _ \<Rightarrow> []))
       \<and> (\<forall>h. res = Inr h \<longrightarrow> nh_first_chunk h \<noteq> [] \<and> ep_protocol (nh_endpoint h) = proto
            \<and> xs_sent st' \<noteq> [] \<and> sn_endpoint (last (xs_sent st')) = nh_endpoint h))"
proof (cases "rq_tools rq = []")
  case False
  with assms show ?thesis by (simp add: open_native_stream_def)
next
  case True
  let ?cfg = "cfg\<lparr>xc_requirements := stream_vector (py_repr (xc_env cfg)) (xc_pool cfg) (xc_prefix_hash cfg) rq\<rparr>"
  from assms True have run: "stream_loop proto ?cfg sks (start_call rq policy st) = Some (res, st')" by (simp add: open_native_stream_def)
  have "stream_inv ?cfg (xs_router st) policy (start_call rq policy st)"
    by (simp add: stream_inv_def start_call_def new_attempt_ledger_def)
  note sends = stream_loop_sends [OF run this]
  have "stream_sound ?cfg (xs_router st) = stream_sound cfg (xs_router st)" by (rule ext) (simp add: stream_sound_def)
  with sends visible_once [OF run] True show ?thesis by simp
qed

theorem native_stream_commits_once_witness:
  "\<exists>h st'. stream_run = Some (Inr h, st') \<and> nh_first_chunk h = ''data'' \<and> sn_endpoint (last (xs_sent st')) = nh_endpoint h"
proof -
  obtain h st' where run: "stream_run = Some (Inr h, st')" "nh_first_chunk h = ''data''"
    using stream_run_returns by (auto split: option.splits prod.splits sum.splits)
  have "rq_tools plain_request = []" by (simp add: plain_request_def)
  with native_stream_commits_once [OF run(1)] run show ?thesis by auto
qed

text \<open>
  The books of a stream are closed once.  Relaying a fresh handle yields its first chunk and the later
  chunks that are not empty, and records exactly one attempt, a success if and only if the stream came to its
  end; any later attempt to finish the handle changes nothing.
\<close>

theorem native_handle_books_once:
  assumes "\<not> nh_finished h" and "iter_bytes cfg tk chunks fin h st = (out, h', st')"
  shows "out = nh_first_chunk h # filter (\<lambda>c. c \<noteq> []) chunks
    \<and> al_attempts (xs_ledger st') = al_attempts (xs_ledger st) @ [nh_attempt h'] \<and> ar_success (nh_attempt h') = (fin = Ended)
    \<and> finish_success cfg tk' h' st' = (h', st') \<and> finish_failure cfg tk' phase text h' st' = (h', st')"
  using assms
  by (cases fin) (auto simp: iter_bytes_def finish_success_def finish_failure_def Let_def finish_def)

definition sample_handle :: native_handle where
  "sample_handle = \<lparr>nh_endpoint = tool_endpoint, nh_decision = fl_decision probing_flight,
     nh_attempt = new_attempt (sk_tick (stream_sample (Refused 500 [] []))) tool_endpoint False sample_state,
     nh_first_chunk = ''a'', nh_finished = False\<rparr>"

theorem native_handle_books_once_witness:
  "fst (iter_bytes sample_config (sk_tick (stream_sample (Refused 500 [] []))) [[], ''b''] Ended sample_handle sample_state) = [''a'', ''b'']"
proof -
  have h: "\<not> nh_finished sample_handle" "nh_first_chunk sample_handle = ''a''" by (simp_all add: sample_handle_def)
  obtain out h' st' where i: "iter_bytes sample_config (sk_tick (stream_sample (Refused 500 [] []))) [[], ''b''] Ended sample_handle sample_state
    = (out, h', st')" by (metis prod_cases3)
  from native_handle_books_once [OF h(1) i] h(2) i show ?thesis by simp
qed

text \<open>
  Admission before the local checks leaks probe permits.  \<open>open_native_stream\<close> takes the breaker's
  permission first; when the request then does not fit the window of the endpoint, or its adapter cannot
  stream, the endpoint is skipped and the breaker, which the registry keeps with the permit taken, is never
  told.
\<close>

theorem native_stream_leaks_permit:
  assumes "validate_next_candidate (ep_id e) (xs_ledger st) = Inr ()"
    and "registry_get_or_create (resource_key e) None (rt_breakers (xs_router st)) = (b, reg)"
    and "acquire_permission (tk_admit (sk_tick sk)) b = (Inr True, b')"
    and "(\<exists>n m. stream_adapt cfg (endpoint_profile e (xs_router st)) (xs_request st) = Inl (ContextOverflowError n m))
      \<or> (\<exists>x. stream_adapt cfg (endpoint_profile e (xs_router st)) (xs_request st) = Inr x) \<and> \<not> sk_has_stream sk"
  shows "fst (stream_admit cfg sk e d st) = SNext
    \<and> registry_get (resource_key e) (rt_breakers (xs_router (snd (stream_admit cfg sk e d st)))) = Some b'"
proof -
  have "endpoint_profile e (x\<lparr>rt_breakers := y\<rparr>) = endpoint_profile e x" for x :: router and y
    by (simp add: endpoint_profile_def split: option.split)
  with assms show ?thesis
    by (auto simp: stream_admit_def stream_dispatch_def skip_route_def Let_def registry_get_def registry_put_def)
qed

definition mute_tick :: stream_tick where
  "mute_tick = \<lparr>sk_tick = limited_tick, sk_has_stream = False, sk_answer = Refused 500 [] []\<rparr>"

theorem native_stream_leaks_permit_witness:
  "\<exists>b'. registry_get (resource_key tool_endpoint) (rt_breakers (xs_router (snd (stream_admit sample_config mute_tick tool_endpoint
      (fl_decision probing_flight) (start_call plain_request default_policy probing_state))))) = Some b'
    \<and> half_open_in_flight b' = half_open_max_calls (cb_config b')"
proof -
  let ?st = "start_call plain_request default_policy probing_state"
  let ?b = "run cb_step stale_breaker [(31, Acquire)]" and ?b' = "run cb_step stale_breaker [(31, Acquire), (32, Acquire)]"
  have 1: "validate_next_candidate (ep_id tool_endpoint) (xs_ledger ?st) = Inr ()" by code_simp
  have 2: "registry_get_or_create (resource_key tool_endpoint) None (rt_breakers (xs_router ?st)) = (?b, rt_breakers (xs_router probing_state))"
    by (simp add: probing_state_def registry_get_or_create_def registry_put_def update_conv')
  have "fst (acquire_permission 32 ?b) = Inr True" by code_simp
  moreover have "snd (acquire_permission 32 ?b) = ?b'" by simp
  ultimately have 3: "acquire_permission (tk_admit (sk_tick mute_tick)) ?b = (Inr True, ?b')"
    by (simp add: mute_tick_def limited_tick_def prod_eq_iff)
  have "case stream_adapt sample_config (endpoint_profile tool_endpoint (xs_router ?st)) (xs_request ?st) of Inr _ \<Rightarrow> True | Inl _ \<Rightarrow> False"
    by code_simp
  then have 4: "(\<exists>n m. stream_adapt sample_config (endpoint_profile tool_endpoint (xs_router ?st)) (xs_request ?st) = Inl (ContextOverflowError n m))
      \<or> (\<exists>x. stream_adapt sample_config (endpoint_profile tool_endpoint (xs_router ?st)) (xs_request ?st) = Inr x) \<and> \<not> sk_has_stream mute_tick"
    by (auto simp: mute_tick_def split: sum.splits)
  have "half_open_in_flight ?b' = half_open_max_calls (cb_config ?b')" by code_simp
  with native_stream_leaks_permit [OF 1 2 3 4] show ?thesis by blast
qed

end
