(* ===== verification/Wire.thy ===== *)
theory Wire
  imports Streaming
begin

text \<open>
  Reading wire values.  The translators of \<^verbatim>\<open>protocol/\<close> take untyped dictionaries apart with \<open>get\<close> and put
  what they find into the data classes of \<^verbatim>\<open>protocol/ir.py\<close>.  Three things can happen: the object is built
  (\<open>Decoded\<close>), a Python operation raises (\<open>Raises\<close>), or a value lands in a field whose declared type it does
  not have, which Python does not check (\<open>Untyped\<close>); in the last case the records of \<open>Ir\<close> cannot hold the
  object and nothing is said about the rest of the call.

  Also here: \<open>str()\<close> of a JSON value.  Characters outside ASCII count as printable.
\<close>

section \<open>The results of a decoder\<close>

datatype 'a decoded = Decoded 'a | Raises gateway_error | Untyped

primrec dbind :: "'a decoded \<Rightarrow> ('a \<Rightarrow> 'b decoded) \<Rightarrow> 'b decoded" where
  "dbind (Decoded x) f = f x"
| "dbind (Raises e) f = Raises e"
| "dbind Untyped f = Untyped"

definition of_result :: "'a result \<Rightarrow> 'a decoded" where
  "of_result r = (case r of Inl e \<Rightarrow> Raises e | Inr x \<Rightarrow> Decoded x)"

lemma of_result_simps [simp]: "of_result (Inl e) = Raises e" "of_result (Inr x) = Decoded x"
  by (simp_all add: of_result_def)

fun dmap :: "('a \<Rightarrow> 'b decoded) \<Rightarrow> 'a list \<Rightarrow> 'b list decoded" where
  "dmap f [] = Decoded []"
| "dmap f (x # xs) = dbind (f x) (\<lambda>y. dbind (dmap f xs) (\<lambda>ys. Decoded (y # ys)))"

fun dfold :: "('a \<Rightarrow> 's \<Rightarrow> 's decoded) \<Rightarrow> 'a list \<Rightarrow> 's \<Rightarrow> 's decoded" where
  "dfold f [] s = Decoded s"
| "dfold f (x # xs) s = dbind (f x s) (dfold f xs)"

lemma dmap_append: "dmap f (xs @ ys) = dbind (dmap f xs) (\<lambda>us. dbind (dmap f ys) (\<lambda>vs. Decoded (us @ vs)))"
proof (induction xs)
  case Nil
  then show ?case by (cases "dmap f ys") simp_all
next
  case (Cons x xs)
  then show ?case by (cases "f x"; cases "dmap f xs"; cases "dmap f ys") simp_all
qed

lemma dmap_Decoded: "(\<And>x. x \<in> set xs \<Longrightarrow> f x = Decoded (g x)) \<Longrightarrow> dmap f xs = Decoded (map g xs)"
  by (induction xs) simp_all

lemma dfold_append: "dfold f (xs @ ys) s = dbind (dfold f xs s) (dfold f ys)"
proof (induction xs arbitrary: s)
  case (Cons x xs)
  then show ?case by (cases "f x s") simp_all
qed simp

lemma dbind_Decoded_iff: "dbind m f = Decoded y \<longleftrightarrow> (\<exists>x. m = Decoded x \<and> f x = Decoded y)"
  by (cases m) auto

section \<open>Dictionary access and declared types\<close>

definition fetch :: "json \<Rightarrow> string \<Rightarrow> json \<Rightarrow> json decoded" where
  "fetch j k d = of_result (get_or j k d)"

definition items_of :: "json \<Rightarrow> json list decoded" where
  "items_of j = of_result (json_elements j)"

definition or_json :: "json \<Rightarrow> json \<Rightarrow> json" where
  "or_json a b = (if truthy_json a then a else b)"

definition need_str :: "json \<Rightarrow> string decoded" where
  "need_str j = (case j of JStr s \<Rightarrow> Decoded s | _ \<Rightarrow> Untyped)"

definition need_opt_str :: "json \<Rightarrow> string option decoded" where
  "need_opt_str j = (case j of JNull \<Rightarrow> Decoded None | JStr s \<Rightarrow> Decoded (Some s) | _ \<Rightarrow> Untyped)"

definition need_int :: "json \<Rightarrow> int decoded" where
  "need_int j = (case j of JInt i \<Rightarrow> Decoded i | _ \<Rightarrow> Untyped)"

definition need_opt_int :: "json \<Rightarrow> int option decoded" where
  "need_opt_int j = (case j of JNull \<Rightarrow> Decoded None | JInt i \<Rightarrow> Decoded (Some i) | _ \<Rightarrow> Untyped)"

text \<open>A declared \<open>float\<close> holds an integer too; it is read as the number it is.\<close>

definition need_opt_num :: "json \<Rightarrow> rat option decoded" where
  "need_opt_num j =
     (case j of JNull \<Rightarrow> Decoded None | JInt i \<Rightarrow> Decoded (Some (of_int i)) | JFloat r \<Rightarrow> Decoded (Some r) | _ \<Rightarrow> Untyped)"

definition need_opt_dict :: "json \<Rightarrow> json option decoded" where
  "need_opt_dict j = (case j of JNull \<Rightarrow> Decoded None | JObj kvs \<Rightarrow> Decoded (Some j) | _ \<Rightarrow> Untyped)"

text \<open>\<open>Optional[Any]\<close>: an absent value and \<open>None\<close> are the same.\<close>

definition any_opt :: "json \<Rightarrow> json option" where
  "any_opt j = (if j = JNull then None else Some j)"

definition the_any :: "json option \<Rightarrow> json" where
  "the_any v = (case v of None \<Rightarrow> JNull | Some j \<Rightarrow> j)"

definition opt_str :: "string option \<Rightarrow> json" where
  "opt_str v = (case v of None \<Rightarrow> JNull | Some s \<Rightarrow> JStr s)"

definition is_dict :: "json \<Rightarrow> bool" where
  "is_dict j = (case j of JObj _ \<Rightarrow> True | _ \<Rightarrow> False)"

text \<open>An entry of a dictionary under construction that is set only in some cases.\<close>

definition entry_if :: "bool \<Rightarrow> string \<Rightarrow> json \<Rightarrow> (string \<times> json) list" where
  "entry_if b k v = (if b then [(k, v)] else [])"

lemma fetch_obj [simp]: "fetch (JObj kvs) k d = Decoded (case map_of kvs k of None \<Rightarrow> d | Some v \<Rightarrow> v)"
  by (simp add: fetch_def get_or_def json_get_def of_result_def split: option.split)

lemma entry_if_simps [simp]: "entry_if True k v = [(k, v)]" "entry_if False k v = []"
  by (simp_all add: entry_if_def)

lemma map_of_entry_if:
  "map_of (entry_if b k v @ kvs) k' = (if b \<and> k' = k then Some v else map_of kvs k')"
  by (simp add: entry_if_def)

lemma need_simps [simp]:
  "need_str (JStr s) = Decoded s" "need_opt_str JNull = Decoded None" "need_opt_str (JStr s) = Decoded (Some s)"
  "need_opt_str (opt_str v) = Decoded v"
  "need_int (JInt i) = Decoded i" "need_opt_int JNull = Decoded None" "need_opt_int (JInt i) = Decoded (Some i)"
  "need_opt_num JNull = Decoded None" "need_opt_num (JFloat r) = Decoded (Some r)"
  "need_opt_dict JNull = Decoded None" "need_opt_dict (JObj kvs) = Decoded (Some (JObj kvs))"
  "items_of (JArr xs) = Decoded xs"
  by (simp_all add: need_str_def need_opt_str_def need_int_def need_opt_int_def need_opt_num_def need_opt_dict_def items_of_def
        json_elements_def opt_str_def split: option.split)

section \<open>\<open>str()\<close>\<close>

definition repr_char :: "char \<Rightarrow> char \<Rightarrow> string" where
  "repr_char q c =
     (let n = (of_char c :: nat); bs = char_of (92 :: nat) in
      if c = q \<or> n = 92 then [bs, c]
      else if n = 9 then [bs, CHR ''t'']
      else if n = 10 then [bs, CHR ''n'']
      else if n = 13 then [bs, CHR ''r'']
      else if n < 32 \<or> n = 127 then bs # ''x'' @ [hex_digit (n div 16), hex_digit (n mod 16)]
      else [c])"

definition repr_str :: "string \<Rightarrow> string" where
  "repr_str s =
     (let single = char_of (39 :: nat); double = char_of (34 :: nat);
          q = (if single \<in> set s \<and> double \<notin> set s then double else single)
      in q # concat (map (repr_char q) s) @ [q])"

fun repr_json :: "(rat \<Rightarrow> string) \<Rightarrow> json \<Rightarrow> string" where
  "repr_json fr JNull = ''None''"
| "repr_json fr (JBool b) = (if b then ''True'' else ''False'')"
| "repr_json fr (JInt i) = str_of_int i"
| "repr_json fr (JFloat r) = fr r"
| "repr_json fr (JStr s) = repr_str s"
| "repr_json fr (JArr xs) = ''['' @ join '', '' (map (repr_json fr) xs) @ '']''"
| "repr_json fr (JObj kvs) = ''{'' @ join '', '' (map (\<lambda>(k, v). repr_str k @ '': '' @ repr_json fr v) kvs) @ ''}''"

definition str_json :: "(rat \<Rightarrow> string) \<Rightarrow> json \<Rightarrow> string" where
  "str_json fr j = (case j of JStr s \<Rightarrow> s | _ \<Rightarrow> repr_json fr j)"

lemma str_json_str [simp]: "str_json fr (JStr s) = s"
  by (simp add: str_json_def)

end
