(* ===== verification/OpenAi.thy ===== *)
theory OpenAi
  imports Wire
begin

text \<open>
  \<^verbatim>\<open>protocol/openai.py\<close>: OpenAI chat completions to and from the neutral representation.  The identifiers made
  with \<open>uuid4\<close> and the clock are arguments; \<open>uuid i j\<close> is the value drawn for call \<open>j\<close> of message \<open>i\<close>.
\<close>

section \<open>Requests\<close>

definition openai_arguments :: "(rat \<Rightarrow> string) \<Rightarrow> json \<Rightarrow> json \<times> string" where
  "openai_arguments fr raw =
     (if is_dict raw then (raw, dumps fr raw)
      else let raw_str = str_json fr raw in
           (case loads True raw_str of Some v \<Rightarrow> v | None \<Rightarrow> JObj [], raw_str))"

definition openai_call :: "(rat \<Rightarrow> string) \<Rightarrow> string \<Rightarrow> json \<Rightarrow> normalized_tool_call decoded" where
  "openai_call fr uuid tc =
     dbind (fetch tc ''function'' (JObj [])) (\<lambda>fn.
     dbind (fetch fn ''arguments'' (JStr ''{}'')) (\<lambda>raw.
     dbind (fetch tc ''id'' JNull) (\<lambda>i.
     dbind (if truthy_json i then need_str i else Decoded (''call_'' @ take 8 uuid)) (\<lambda>tid.
     dbind (fetch fn ''name'' (JStr [])) (\<lambda>n. dbind (need_str n) (\<lambda>name.
       case openai_arguments fr raw of (args, raw_str) \<Rightarrow> Decoded (new_tool_call fr tid name args raw_str)))))))"

definition openai_calls :: "(rat \<Rightarrow> string) \<Rightarrow> (nat \<Rightarrow> string) \<Rightarrow> json \<Rightarrow> normalized_tool_call list decoded" where
  "openai_calls fr uuid msg =
     dbind (fetch msg ''tool_calls'' (JArr [])) (\<lambda>tcs. dbind (items_of tcs) (\<lambda>xs.
       dmap (\<lambda>(j, tc). openai_call fr (uuid j) tc) (indexed 0 xs)))"

text \<open>A message with its role and the text its content prints as, which the system prompt is taken from.\<close>

definition openai_message :: "(rat \<Rightarrow> string) \<Rightarrow> (nat \<Rightarrow> string) \<Rightarrow> json \<Rightarrow> normalized_message decoded" where
  "openai_message fr uuid msg =
     dbind (fetch msg ''role'' (JStr ''user'')) (\<lambda>r. dbind (need_str r) (\<lambda>role.
     dbind (fetch msg ''content'' (JStr [])) (\<lambda>c.
     dbind (fetch msg ''reasoning_content'' JNull) (\<lambda>rc. dbind (fetch msg ''thinking'' JNull) (\<lambda>th.
     dbind (openai_calls fr uuid msg) (\<lambda>tool_calls.
     dbind (fetch msg ''tool_call_id'' (JStr [])) (\<lambda>ti.
     dbind (if role = ''tool'' then need_str ti else Decoded []) (\<lambda>tool_call_id.
     dbind (fetch msg ''name'' JNull) (\<lambda>n. dbind (need_opt_str n) (\<lambda>name.
       let content = str_json fr (or_json c (JStr [])); reasoning = or_json rc th in
       Decoded
         \<lparr>msg_role = role, msg_content = content,
          msg_reasoning_content = (if truthy_json reasoning then Some (str_json fr reasoning) else None),
          msg_reasoning_signature = None, msg_tool_calls = tool_calls,
          msg_tool_results =
            (if role = ''tool''
             then [\<lparr>nr_tool_call_id = tool_call_id, nr_tool_name = name, nr_content = content, nr_is_error = False\<rparr>] else []),
          msg_name = name, msg_cache_control = None, msg_metadata = []\<rparr>))))))))))"

definition take_system :: "normalized_message \<Rightarrow> string option \<Rightarrow> string option" where
  "take_system m sys = (if msg_role m = ''system'' \<and> \<not> truthy_str sys then Some (msg_content m) else sys)"

definition empty_schema :: json where
  "empty_schema = JObj [(''type'', JStr ''object''), (''properties'', JObj [])]"

definition openai_tool :: "json \<Rightarrow> normalized_tool_definition list decoded" where
  "openai_tool t =
     dbind (fetch t ''type'' JNull) (\<lambda>ty. dbind (of_result (json_contains ''function'' t)) (\<lambda>has.
       if ty = JStr ''function'' \<and> has
       then dbind (fetch t ''function'' JNull) (\<lambda>fn.
            dbind (fetch fn ''name'' (JStr [])) (\<lambda>n. dbind (need_str n) (\<lambda>name.
            dbind (fetch fn ''description'' (JStr [])) (\<lambda>d. dbind (need_str d) (\<lambda>description.
            dbind (fetch fn ''parameters'' empty_schema) (\<lambda>p.
              Decoded [\<lparr>nd_name = name, nd_description = description, nd_parameters = p, nd_cache_control = None\<rparr>]))))))
       else Decoded []))"

definition openai_request_to_ir ::
  "(rat \<Rightarrow> string) \<Rightarrow> string \<Rightarrow> (nat \<Rightarrow> nat \<Rightarrow> string) \<Rightarrow> json \<Rightarrow> normalized_request decoded" where
  "openai_request_to_ir fr req_uuid uuid body =
     dbind (fetch body ''model'' (JStr ''default'')) (\<lambda>mo. dbind (need_str mo) (\<lambda>model.
     dbind (fetch body ''messages'' (JArr [])) (\<lambda>ms. dbind (items_of ms) (\<lambda>msgs.
     dbind (dmap (\<lambda>(i, msg). openai_message fr (uuid i) msg) (indexed 0 msgs)) (\<lambda>messages.
     dbind (fetch body ''tools'' (JArr [])) (\<lambda>ts. dbind (items_of ts) (\<lambda>tls. dbind (dmap openai_tool tls) (\<lambda>tools.
     dbind (fetch body ''tool_choice'' JNull) (\<lambda>choice.
     dbind (fetch body ''max_tokens'' JNull) (\<lambda>mt. dbind (fetch body ''max_completion_tokens'' JNull) (\<lambda>mc.
     dbind (need_opt_int (or_json mt mc)) (\<lambda>max_out.
     dbind (fetch body ''temperature'' JNull) (\<lambda>te. dbind (need_opt_num te) (\<lambda>temperature.
     dbind (fetch body ''stream'' (JBool False)) (\<lambda>st.
       Decoded
         \<lparr>rq_request_id = ''req_'' @ take 12 req_uuid, rq_model = model, rq_messages = messages,
          rq_system_instruction = fold take_system messages None, rq_system_cache_control = None,
          rq_tools = concat tools, rq_tool_choice = any_opt choice, rq_max_output_tokens = max_out,
          rq_temperature = temperature, rq_stream = truthy_json st, rq_metadata = []\<rparr>)))))))))))))))"

definition tool_choice_to_openai :: "json option \<Rightarrow> json option" where
  "tool_choice_to_openai tool_choice =
     (case tool_choice of
        Some (JStr s) \<Rightarrow> if s \<in> {''auto'', ''required'', ''none''} then Some (JStr s) else None
      | Some (JObj kvs) \<Rightarrow>
          (case map_of kvs ''type'' of
             Some (JStr kind) \<Rightarrow>
               if kind = ''function'' then Some (JObj kvs)
               else if kind \<in> {''auto'', ''none''} then Some (JStr kind)
               else if kind = ''any'' then Some (JStr ''required'')
               else if kind = ''tool'' \<and> truthy_opt (map_of kvs ''name'')
               then Some (JObj [(''type'', JStr ''function''), (''function'', JObj [(''name'', the (map_of kvs ''name''))])])
               else None
           | _ \<Rightarrow> None)
      | _ \<Rightarrow> None)"

definition tool_id_to_name :: "normalized_message list \<Rightarrow> (string, string) dict" where
  "tool_id_to_name ms =
     fold (\<lambda>tc d. if tc_id tc \<noteq> [] \<and> tc_name tc \<noteq> [] then AList.update (tc_id tc) (tc_name tc) d else d)
       (concat (map msg_tool_calls ms)) []"

definition openai_wire_result :: "(string, string) dict \<Rightarrow> normalized_tool_result \<Rightarrow> json" where
  "openai_wire_result names tr =
     JObj [(''role'', JStr ''tool''), (''tool_call_id'', JStr (nr_tool_call_id tr)),
       (''name'', JStr (if truthy_str (nr_tool_name tr) then the (nr_tool_name tr) else dict_get names (nr_tool_call_id tr) ''tool'')),
       (''content'', JStr (nr_content tr))]"

definition openai_wire_call :: "(rat \<Rightarrow> string) \<Rightarrow> normalized_tool_call \<Rightarrow> json" where
  "openai_wire_call fr tc =
     JObj [(''id'', JStr (tc_id tc)), (''type'', JStr ''function''),
       (''function'', JObj [(''name'', JStr (tc_name tc)), (''arguments'', JStr (raw_or_dumped (dumps fr) tc))])]"

definition openai_wire_message :: "(rat \<Rightarrow> string) \<Rightarrow> (string, string) dict \<Rightarrow> normalized_message \<Rightarrow> json list" where
  "openai_wire_message fr names m =
     (if msg_role m = ''system'' then [JObj [(''role'', JStr ''system''), (''content'', JStr (msg_content m))]]
      else if msg_role m = ''user''
      then (if msg_content m = [] then [] else [JObj [(''role'', JStr ''user''), (''content'', JStr (msg_content m))]])
           @ map (openai_wire_result names) (msg_tool_results m)
      else if msg_role m = ''assistant''
      then [JObj ([(''role'', JStr ''assistant''), (''content'', if msg_content m = [] then JNull else JStr (msg_content m))]
              @ entry_if (truthy_str (msg_reasoning_content m)) ''reasoning_content'' (opt_str (msg_reasoning_content m))
              @ entry_if (msg_tool_calls m \<noteq> []) ''tool_calls'' (JArr (map (openai_wire_call fr) (msg_tool_calls m))))]
      else if msg_role m = ''tool''
      then map (openai_wire_result names) (msg_tool_results m)
           @ (if msg_tool_results m = [] then [JObj [(''role'', JStr ''tool''), (''content'', JStr (msg_content m))]] else [])
      else [])"

definition openai_wire_tool :: "normalized_tool_definition \<Rightarrow> json" where
  "openai_wire_tool t =
     JObj [(''type'', JStr ''function''),
       (''function'', JObj [(''name'', JStr (nd_name t)), (''description'', JStr (nd_description t)), (''parameters'', nd_parameters t)])]"

definition openai_wire_messages :: "(rat \<Rightarrow> string) \<Rightarrow> normalized_request \<Rightarrow> json list" where
  "openai_wire_messages fr rq =
     (if truthy_str (rq_system_instruction rq) \<and> (\<forall>m \<in> set (rq_messages rq). msg_role m \<noteq> ''system'')
      then [JObj [(''role'', JStr ''system''), (''content'', JStr (the (rq_system_instruction rq)))]] else [])
     @ concat (map (openai_wire_message fr (tool_id_to_name (rq_messages rq))) (rq_messages rq))"

definition ir_to_openai_request :: "(rat \<Rightarrow> string) \<Rightarrow> normalized_request \<Rightarrow> string \<Rightarrow> json" where
  "ir_to_openai_request fr rq target_model =
     JObj ([(''model'', JStr target_model), (''messages'', JArr (openai_wire_messages fr rq))]
       @ entry_if (rq_max_output_tokens rq \<notin> {None, Some 0}) ''max_tokens'' (JInt (the (rq_max_output_tokens rq)))
       @ entry_if (rq_temperature rq \<noteq> None) ''temperature'' (JFloat (the (rq_temperature rq)))
       @ entry_if (rq_stream rq) ''stream'' (JBool True)
       @ entry_if (rq_tools rq \<noteq> []) ''tools'' (JArr (map openai_wire_tool (rq_tools rq)))
       @ entry_if (rq_tools rq \<noteq> [] \<and> tool_choice_to_openai (rq_tool_choice rq) \<noteq> None) ''tool_choice''
           (the (tool_choice_to_openai (rq_tool_choice rq))))"

section \<open>Responses\<close>

definition first_choice :: "json \<Rightarrow> json decoded" where
  "first_choice choices = (if truthy_json choices then of_result (item0 choices) else Decoded (JObj []))"

definition openai_response_to_ir ::
  "(rat \<Rightarrow> string) \<Rightarrow> string \<Rightarrow> (nat \<Rightarrow> string) \<Rightarrow> json \<Rightarrow> normalized_response decoded" where
  "openai_response_to_ir fr resp_uuid uuid resp =
     dbind (fetch resp ''choices'' (JArr [])) (\<lambda>choices. dbind (first_choice choices) (\<lambda>choice.
     dbind (fetch choice ''message'' (JObj [])) (\<lambda>msg.
     dbind (fetch msg ''content'' JNull) (\<lambda>c.
     dbind (fetch msg ''reasoning_content'' JNull) (\<lambda>rc. dbind (fetch msg ''thinking'' JNull) (\<lambda>th.
     dbind (openai_calls fr uuid msg) (\<lambda>tool_calls.
     dbind (fetch choice ''finish_reason'' (JStr ''stop'')) (\<lambda>fi.
     dbind (fetch resp ''usage'' (JObj [])) (\<lambda>usage.
     dbind (fetch resp ''id'' (JStr (''resp_'' @ take 12 resp_uuid))) (\<lambda>i. dbind (fetch resp ''model'' (JStr ''default'')) (\<lambda>mo.
     dbind (fetch usage ''prompt_tokens'' (JInt 0)) (\<lambda>pt. dbind (fetch usage ''completion_tokens'' (JInt 0)) (\<lambda>ct.
     dbind (need_str i) (\<lambda>response_id. dbind (need_str mo) (\<lambda>model. dbind (need_opt_str c) (\<lambda>content.
     dbind (need_opt_str (or_json rc th)) (\<lambda>reasoning. dbind (need_str fi) (\<lambda>finish_reason.
     dbind (need_int pt) (\<lambda>input_tokens. dbind (need_int ct) (\<lambda>output_tokens.
       Decoded
         \<lparr>rs_response_id = response_id, rs_model = model, rs_content = content, rs_reasoning_content = reasoning,
          rs_reasoning_signature = None, rs_tool_calls = tool_calls, rs_finish_reason = finish_reason,
          rs_input_tokens = input_tokens, rs_output_tokens = output_tokens, rs_raw_response = Some resp\<rparr>))))))))))))))))))))"

definition ir_to_openai_response :: "(rat \<Rightarrow> string) \<Rightarrow> int \<Rightarrow> normalized_response \<Rightarrow> string \<Rightarrow> json" where
  "ir_to_openai_response fr now r requested_model =
     JObj [(''id'', JStr (prefixed ''chatcmpl-'' (rs_response_id r))), (''object'', JStr ''chat.completion''), (''created'', JInt now),
       (''model'', JStr requested_model),
       (''choices'', JArr [JObj [(''index'', JInt 0),
          (''message'', JObj ([(''role'', JStr ''assistant''), (''content'', opt_str (rs_content r))]
             @ entry_if (truthy_str (rs_reasoning_content r)) ''reasoning_content'' (opt_str (rs_reasoning_content r))
             @ entry_if (rs_tool_calls r \<noteq> []) ''tool_calls'' (JArr (map (openai_wire_call fr) (rs_tool_calls r))))),
          (''finish_reason'', JStr (if rs_tool_calls r \<noteq> [] then ''tool_calls'' else rs_finish_reason r))]]),
       (''usage'', JObj [(''prompt_tokens'', JInt (rs_input_tokens r)), (''completion_tokens'', JInt (rs_output_tokens r)),
          (''total_tokens'', JInt (rs_input_tokens r + rs_output_tokens r))])]"

section \<open>Event streams\<close>

record chunk_part =
  cp_id :: json
  cp_name :: json
  cp_arguments :: string

record chunk_state =
  ch_content_parts :: "json list"
  ch_reasoning_parts :: "json list"
  ch_tool_calls :: "(json, chunk_part) dict"
  ch_finish_reason :: json
  ch_response_id :: json
  ch_model :: json
  ch_prompt_tokens :: json
  ch_completion_tokens :: json

text \<open>\<open>a += b\<close> on text: a string and another value raise, two other values are not followed.\<close>

definition concat_json :: "json \<Rightarrow> json \<Rightarrow> string decoded" where
  "concat_json a b =
     (case (a, b) of (JStr s, JStr t) \<Rightarrow> Decoded (s @ t) | (JStr _, _) \<Rightarrow> Raises TypeError | (_, JStr _) \<Rightarrow> Raises TypeError
      | _ \<Rightarrow> Untyped)"

definition set_part :: "json \<Rightarrow> chunk_part \<Rightarrow> chunk_state \<Rightarrow> chunk_state" where
  "set_part k p s = s\<lparr>ch_tool_calls := AList.update k p (ch_tool_calls s)\<rparr>"

text \<open>The entry of a fragment before its arguments are appended; \<open>uuid\<close> is drawn for a new entry without an id.\<close>

definition chunk_part_of :: "string \<Rightarrow> json \<Rightarrow> json \<Rightarrow> chunk_part option \<Rightarrow> chunk_part decoded" where
  "chunk_part_of uuid tc fn old =
     (case old of
        None \<Rightarrow>
          dbind (fetch tc ''id'' JNull) (\<lambda>i. dbind (fetch fn ''name'' (JStr [])) (\<lambda>n.
            Decoded \<lparr>cp_id = or_json i (JStr (''call_'' @ take 8 uuid)), cp_name = n, cp_arguments = []\<rparr>))
      | Some p \<Rightarrow>
          dbind (fetch tc ''id'' JNull) (\<lambda>i. dbind (fetch fn ''name'' JNull) (\<lambda>n.
            let p1 = (if truthy_json i then p\<lparr>cp_id := i\<rparr> else p) in
            if truthy_json n then dbind (concat_json (cp_name p1) n) (\<lambda>s. Decoded (p1\<lparr>cp_name := JStr s\<rparr>)) else Decoded p1)))"

definition chunk_tool :: "(json \<Rightarrow> string) \<Rightarrow> json \<Rightarrow> chunk_state \<Rightarrow> chunk_state decoded" where
  "chunk_tool uuid tc s =
     dbind (fetch tc ''index'' (JInt 0)) (\<lambda>idx. dbind (of_result (key_of idx)) (\<lambda>k.
     dbind (fetch tc ''function'' (JObj [])) (\<lambda>fn.
     dbind (chunk_part_of (uuid k) tc fn (map_of (ch_tool_calls s) k)) (\<lambda>p.
     dbind (fetch fn ''arguments'' JNull) (\<lambda>a.
       if truthy_json a then dbind (concat_json (JStr (cp_arguments p)) a) (\<lambda>t. Decoded (set_part k (p\<lparr>cp_arguments := t\<rparr>) s))
       else Decoded (set_part k p s))))))"

definition chunk_choice :: "(json \<Rightarrow> string) \<Rightarrow> json \<Rightarrow> chunk_state \<Rightarrow> chunk_state decoded" where
  "chunk_choice uuid choice s =
     dbind (fetch choice ''finish_reason'' JNull) (\<lambda>f.
     dbind (fetch choice ''delta'' (JObj [])) (\<lambda>delta.
     dbind (fetch delta ''content'' JNull) (\<lambda>c.
     dbind (fetch delta ''reasoning'' JNull) (\<lambda>r1. dbind (fetch delta ''reasoning_content'' JNull) (\<lambda>r2.
     dbind (fetch delta ''tool_calls'' (JArr [])) (\<lambda>tcs. dbind (items_of tcs) (\<lambda>xs.
       let s1 = (if truthy_json f then s\<lparr>ch_finish_reason := f\<rparr> else s);
           s2 = (if truthy_json c then s1\<lparr>ch_content_parts := ch_content_parts s1 @ [c]\<rparr> else s1);
           r = or_json r1 r2;
           s3 = (if truthy_json r then s2\<lparr>ch_reasoning_parts := ch_reasoning_parts s2 @ [r]\<rparr> else s2)
       in dfold (chunk_tool uuid) xs s3)))))))"

definition chunk_usage :: "json \<Rightarrow> chunk_state \<Rightarrow> chunk_state" where
  "chunk_usage chunk s =
     (case chunk of
        JObj kvs \<Rightarrow>
          (case map_of kvs ''usage'' of
             Some (JObj us) \<Rightarrow>
               s\<lparr>ch_prompt_tokens := dict_get us ''prompt_tokens'' (ch_prompt_tokens s),
                 ch_completion_tokens := dict_get us ''completion_tokens'' (ch_completion_tokens s)\<rparr>
           | _ \<Rightarrow> s)
      | _ \<Rightarrow> s)"

definition chunk_step :: "(json \<Rightarrow> string) \<Rightarrow> json \<Rightarrow> chunk_state \<Rightarrow> chunk_state decoded" where
  "chunk_step uuid chunk s =
     (if \<not> is_dict chunk then Decoded s
      else
        dbind (fetch chunk ''id'' JNull) (\<lambda>i. dbind (fetch chunk ''model'' JNull) (\<lambda>m.
        dbind (fetch chunk ''choices'' (JArr [])) (\<lambda>cs. dbind (items_of cs) (\<lambda>xs.
          let s1 = (if truthy_json i then s\<lparr>ch_response_id := i\<rparr> else s);
              s2 = (if truthy_json m then s1\<lparr>ch_model := m\<rparr> else s1)
          in dfold (chunk_choice uuid) xs (chunk_usage chunk s2))))))"

fun chunk_lines :: "(json \<Rightarrow> string) \<Rightarrow> string list \<Rightarrow> chunk_state \<Rightarrow> chunk_state decoded" where
  "chunk_lines uuid [] s = Decoded s"
| "chunk_lines uuid (raw # lines) s =
     (let line = strip raw in
      if startswith line ''data:''
      then (let data = strip (drop 5 line) in
            if data = ''[DONE]'' then Decoded s
            else case loads True data of
                   None \<Rightarrow> chunk_lines uuid lines s
                 | Some chunk \<Rightarrow> dbind (chunk_step uuid chunk s) (chunk_lines uuid lines))
      else chunk_lines uuid lines s)"

definition chunk_call :: "(rat \<Rightarrow> string) \<Rightarrow> chunk_part \<Rightarrow> normalized_tool_call decoded" where
  "chunk_call fr p =
     dbind (need_str (cp_id p)) (\<lambda>i. dbind (need_str (cp_name p)) (\<lambda>n.
       Decoded (new_tool_call fr i n
         (if cp_arguments p = [] then JObj [] else case loads True (cp_arguments p) of Some v \<Rightarrow> v | None \<Rightarrow> JObj [])
         (cp_arguments p))))"

text \<open>\<open>"".join(parts) if parts else None\<close>.\<close>

definition joined :: "json list \<Rightarrow> string option decoded" where
  "joined parts =
     (if parts = [] then Decoded None
      else if list_all (\<lambda>p. case p of JStr _ \<Rightarrow> True | _ \<Rightarrow> False) parts
      then Decoded (Some (concat (map (\<lambda>p. case p of JStr s \<Rightarrow> s | _ \<Rightarrow> []) parts)))
      else Raises TypeError)"

definition chunks_raw :: "chunk_state \<Rightarrow> string option \<Rightarrow> normalized_tool_call list \<Rightarrow> json" where
  "chunks_raw s content calls =
     JObj [(''id'', ch_response_id s), (''model'', ch_model s),
       (''choices'', JArr [JObj [(''index'', JInt 0),
          (''message'', JObj [(''role'', JStr ''assistant''), (''content'', opt_str content),
             (''tool_calls'', if calls = [] then JNull
                else JArr (map (\<lambda>tc. JObj [(''id'', JStr (tc_id tc)), (''type'', JStr ''function''),
                       (''function'', JObj [(''name'', JStr (tc_name tc)), (''arguments'', JStr (tc_raw_arguments tc))])]) calls))]),
          (''finish_reason'', ch_finish_reason s)]]),
       (''usage'', JObj [(''prompt_tokens'', ch_prompt_tokens s), (''completion_tokens'', ch_completion_tokens s)])]"

definition chunks_result :: "(rat \<Rightarrow> string) \<Rightarrow> chunk_state \<Rightarrow> normalized_response decoded" where
  "chunks_result fr s =
     dbind (of_result (sorted_keys (map fst (ch_tool_calls s)))) (\<lambda>ks.
     dbind (dmap (\<lambda>k. chunk_call fr (the (map_of (ch_tool_calls s) k))) ks) (\<lambda>calls.
     dbind (joined (ch_content_parts s)) (\<lambda>content. dbind (joined (ch_reasoning_parts s)) (\<lambda>reasoning.
     dbind (need_str (ch_response_id s)) (\<lambda>i. dbind (need_str (ch_model s)) (\<lambda>m. dbind (need_str (ch_finish_reason s)) (\<lambda>f.
     dbind (need_int (ch_prompt_tokens s)) (\<lambda>pt. dbind (need_int (ch_completion_tokens s)) (\<lambda>ct.
       Decoded
         \<lparr>rs_response_id = i, rs_model = m, rs_content = content, rs_reasoning_content = reasoning, rs_reasoning_signature = None,
          rs_tool_calls = calls, rs_finish_reason = f, rs_input_tokens = pt, rs_output_tokens = ct,
          rs_raw_response = Some (chunks_raw s content calls)\<rparr>)))))))))"

definition sse_chunks_to_ir ::
  "(rat \<Rightarrow> string) \<Rightarrow> string \<Rightarrow> (json \<Rightarrow> string) \<Rightarrow> string \<Rightarrow> string \<Rightarrow> normalized_response decoded" where
  "sse_chunks_to_ir fr resp_uuid uuid sse_text default_model =
     dbind (chunk_lines uuid (splitlines sse_text)
              \<lparr>ch_content_parts = [], ch_reasoning_parts = [], ch_tool_calls = [], ch_finish_reason = JStr ''stop'',
               ch_response_id = JStr (''resp_'' @ take 12 resp_uuid), ch_model = JStr default_model, ch_prompt_tokens = JInt 0,
               ch_completion_tokens = JInt 0\<rparr>)
       (chunks_result fr)"

end
