(* ===== verification/Anthropic.thy ===== *)
theory Anthropic
  imports OpenAi
begin

text \<open>
  \<^verbatim>\<open>protocol/anthropic.py\<close>: Anthropic messages to and from the neutral representation, and the reading of
  Anthropic responses in \<^verbatim>\<open>providers/adapters.py\<close>.  \<open>uuid i j\<close> is the value drawn for block \<open>j\<close> of message \<open>i\<close>.
\<close>

section \<open>Requests\<close>

text \<open>The dictionaries among the items of a list, and \<open>sep.join(xs)\<close>, where an item that is not a string raises.\<close>

fun dicts_of :: "json list \<Rightarrow> (string, json) dict list" where
  "dicts_of [] = []"
| "dicts_of (JObj kvs # xs) = kvs # dicts_of xs"
| "dicts_of (_ # xs) = dicts_of xs"

definition str_items :: "json list \<Rightarrow> string list decoded" where
  "str_items xs = (if list_all (\<lambda>p. case p of JStr _ \<Rightarrow> True | _ \<Rightarrow> False) xs
     then Decoded (map (\<lambda>p. case p of JStr s \<Rightarrow> s | _ \<Rightarrow> []) xs) else Raises TypeError)"

definition join_json :: "string \<Rightarrow> json list \<Rightarrow> string decoded" where
  "join_json sep xs = dbind (str_items xs) (\<lambda>ss. Decoded (join sep ss))"

definition join_opt :: "string \<Rightarrow> json list \<Rightarrow> string option decoded" where
  "join_opt sep xs = (if xs = [] then Decoded None else dbind (join_json sep xs) (\<lambda>s. Decoded (Some s)))"

definition anthropic_system :: "json \<Rightarrow> (string option \<times> json option) decoded" where
  "anthropic_system raw =
     (case raw of
        JStr s \<Rightarrow> Decoded (if s = [] then None else Some s, None)
      | JArr bs \<Rightarrow>
          let dicts = dicts_of bs;
              parts = map (\<lambda>b. dict_get b ''text'' (JStr [])) (filter (\<lambda>b. map_of b ''type'' = Some (JStr ''text'')) dicts)
          in dbind (join_opt [NL] parts) (\<lambda>text.
             dbind (case find (\<lambda>b. truthy_opt (map_of b ''cache_control'')) dicts of
                      Some b \<Rightarrow> need_opt_dict (dict_get b ''cache_control'' JNull) | None \<Rightarrow> Decoded None) (\<lambda>cache.
               Decoded (text, cache)))
      | _ \<Rightarrow> Decoded (None, None))"

definition anthropic_tool :: "(string, json) dict \<Rightarrow> normalized_tool_definition decoded" where
  "anthropic_tool t =
     dbind (need_str (dict_get t ''name'' (JStr []))) (\<lambda>name.
     dbind (need_str (dict_get t ''description'' (JStr []))) (\<lambda>description.
     dbind (need_opt_dict (dict_get t ''cache_control'' JNull)) (\<lambda>cache.
       Decoded \<lparr>nd_name = name, nd_description = description, nd_parameters = dict_get t ''input_schema'' empty_schema,
                nd_cache_control = cache\<rparr>)))"

record block_state =
  bk_text_parts :: "json list"
  bk_reasoning_parts :: "json list"
  bk_signatures :: "json list"
  bk_tool_calls :: "normalized_tool_call list"
  bk_tool_results :: "normalized_tool_result list"
  bk_cache_control :: json

definition no_blocks :: block_state where
  "no_blocks = \<lparr>bk_text_parts = [], bk_reasoning_parts = [], bk_signatures = [], bk_tool_calls = [], bk_tool_results = [],
     bk_cache_control = JNull\<rparr>"

definition tool_use_block :: "(rat \<Rightarrow> string) \<Rightarrow> string \<Rightarrow> (string, json) dict \<Rightarrow> normalized_tool_call decoded" where
  "tool_use_block fr uuid b =
     dbind (need_str (or_json (dict_get b ''id'' JNull) (JStr (''toolu_'' @ take 8 uuid)))) (\<lambda>tid.
     dbind (need_str (dict_get b ''name'' (JStr []))) (\<lambda>name.
       let tinput = dict_get b ''input'' (JObj []) in
       Decoded (if is_dict tinput then new_tool_call fr tid name tinput (dumps fr tinput)
                else new_tool_call fr tid name (JObj []) (str_json fr tinput))))"

definition result_text :: "(rat \<Rightarrow> string) \<Rightarrow> json \<Rightarrow> string decoded" where
  "result_text fr c =
     (case c of JArr xs \<Rightarrow> join_json [NL] (map (\<lambda>x. dict_get x ''text'' (JStr [])) (dicts_of xs)) | _ \<Rightarrow> Decoded (str_json fr c))"

definition tool_result_block :: "(rat \<Rightarrow> string) \<Rightarrow> (string, json) dict \<Rightarrow> normalized_tool_result decoded" where
  "tool_result_block fr b =
     dbind (result_text fr (dict_get b ''content'' (JStr []))) (\<lambda>content.
     dbind (need_str (dict_get b ''tool_use_id'' (JStr []))) (\<lambda>i.
       Decoded \<lparr>nr_tool_call_id = i, nr_tool_name = None, nr_content = content,
                nr_is_error = truthy_json (dict_get b ''is_error'' (JBool False))\<rparr>))"

definition take_block :: "(rat \<Rightarrow> string) \<Rightarrow> (nat \<Rightarrow> string) \<Rightarrow> nat \<times> (string, json) dict \<Rightarrow> block_state \<Rightarrow> block_state decoded" where
  "take_block fr uuid jb s0 =
     (case jb of (j, b) \<Rightarrow>
        let cc = dict_get b ''cache_control'' JNull;
            s = (if truthy_json cc then s0\<lparr>bk_cache_control := cc\<rparr> else s0);
            btype = dict_get b ''type'' JNull in
        if btype = JStr ''text'' then Decoded (s\<lparr>bk_text_parts := bk_text_parts s @ [dict_get b ''text'' (JStr [])]\<rparr>)
        else if btype = JStr ''thinking''
        then let sg = dict_get b ''signature'' JNull;
                 s1 = s\<lparr>bk_reasoning_parts := bk_reasoning_parts s @ [dict_get b ''thinking'' (JStr [])]\<rparr>
             in Decoded (if truthy_json sg then s1\<lparr>bk_signatures := bk_signatures s1 @ [sg]\<rparr> else s1)
        else if btype = JStr ''tool_use''
        then dbind (tool_use_block fr (uuid j) b) (\<lambda>tc. Decoded (s\<lparr>bk_tool_calls := bk_tool_calls s @ [tc]\<rparr>))
        else if btype = JStr ''tool_result''
        then dbind (tool_result_block fr b) (\<lambda>tr. Decoded (s\<lparr>bk_tool_results := bk_tool_results s @ [tr]\<rparr>))
        else Decoded s)"

definition message_of_blocks :: "string \<Rightarrow> block_state \<Rightarrow> normalized_message decoded" where
  "message_of_blocks role s =
     dbind (join_opt [NL] (bk_text_parts s)) (\<lambda>text.
     dbind (join_opt [NL] (bk_reasoning_parts s)) (\<lambda>reasoning.
     dbind (if length (bk_reasoning_parts s) = 1 \<and> bk_signatures s \<noteq> [] then need_opt_str (hd (bk_signatures s)) else Decoded None)
       (\<lambda>signature.
     dbind (need_opt_dict (bk_cache_control s)) (\<lambda>cache.
       Decoded ((new_message role (case text of None \<Rightarrow> [] | Some t \<Rightarrow> t))
         \<lparr>msg_reasoning_content := reasoning, msg_reasoning_signature := signature, msg_tool_calls := bk_tool_calls s,
          msg_tool_results := bk_tool_results s, msg_cache_control := cache\<rparr>)))))"

definition anthropic_message :: "(rat \<Rightarrow> string) \<Rightarrow> (nat \<Rightarrow> string) \<Rightarrow> json \<Rightarrow> normalized_message decoded" where
  "anthropic_message fr uuid msg =
     dbind (fetch msg ''role'' (JStr ''user'')) (\<lambda>r. dbind (fetch msg ''content'' JNull) (\<lambda>content.
     dbind (need_str r) (\<lambda>role.
       case content of
         JArr bs \<Rightarrow> dbind (dfold (take_block fr uuid) (indexed 0 (dicts_of bs)) no_blocks) (message_of_blocks role)
       | _ \<Rightarrow> Decoded (new_message role (str_json fr (or_json content (JStr [])))))))"

definition anthropic_request_to_ir ::
  "(rat \<Rightarrow> string) \<Rightarrow> string \<Rightarrow> (nat \<Rightarrow> nat \<Rightarrow> string) \<Rightarrow> json \<Rightarrow> normalized_request decoded" where
  "anthropic_request_to_ir fr req_uuid uuid body =
     dbind (fetch body ''model'' (JStr ''auto-coding-agent'')) (\<lambda>mo.
     dbind (fetch body ''system'' JNull) (\<lambda>raw_system. dbind (anthropic_system raw_system) (\<lambda>(system_text, system_cache).
     dbind (fetch body ''tools'' (JArr [])) (\<lambda>ts. dbind (items_of ts) (\<lambda>tls. dbind (dmap anthropic_tool (dicts_of tls)) (\<lambda>tools.
     dbind (fetch body ''messages'' (JArr [])) (\<lambda>ms. dbind (items_of ms) (\<lambda>msgs.
     dbind (dmap (\<lambda>(i, msg). anthropic_message fr (uuid i) msg) (indexed 0 msgs)) (\<lambda>messages.
     dbind (need_str mo) (\<lambda>model.
     dbind (fetch body ''tool_choice'' JNull) (\<lambda>choice.
     dbind (fetch body ''max_tokens'' JNull) (\<lambda>mt. dbind (need_opt_int mt) (\<lambda>max_out.
     dbind (fetch body ''temperature'' JNull) (\<lambda>te. dbind (need_opt_num te) (\<lambda>temperature.
     dbind (fetch body ''stream'' (JBool False)) (\<lambda>st.
       Decoded
         \<lparr>rq_request_id = ''req_'' @ take 12 req_uuid, rq_model = model, rq_messages = messages,
          rq_system_instruction = system_text, rq_system_cache_control = system_cache, rq_tools = tools,
          rq_tool_choice = any_opt choice, rq_max_output_tokens = max_out, rq_temperature = temperature,
          rq_stream = truthy_json st, rq_metadata = []\<rparr>))))))))))))))))"

text \<open>\<open>(tool_choice.get("function") or {}).get("name")\<close>, for the translators that read an OpenAI choice.\<close>

definition function_name :: "(string, json) dict \<Rightarrow> json result" where
  "function_name kvs = get_or (or_json (dict_get kvs ''function'' JNull) (JObj [])) ''name'' JNull"

definition tool_choice_to_anthropic :: "json option \<Rightarrow> json option result" where
  "tool_choice_to_anthropic tool_choice =
     (case tool_choice of
        Some (JStr s) \<Rightarrow>
          Inr (map_option (\<lambda>k. JObj [(''type'', JStr k)])
                 (map_of [(''auto'', ''auto''), (''required'', ''any''), (''none'', ''none'')] s))
      | Some (JObj kvs) \<Rightarrow>
          (case map_of kvs ''type'' of
             Some (JStr kind) \<Rightarrow>
               if kind \<in> {''auto'', ''any'', ''tool'', ''none''} then Inr (Some (JObj kvs))
               else if kind = ''function''
               then (case function_name kvs of
                       Inl e \<Rightarrow> Inl e
                     | Inr name \<Rightarrow> Inr (if truthy_json name then Some (JObj [(''type'', JStr ''tool''), (''name'', name)]) else None))
               else Inr None
           | _ \<Rightarrow> Inr None)
      | _ \<Rightarrow> Inr None)"

definition anthropic_wire_tool :: "normalized_tool_definition \<Rightarrow> json" where
  "anthropic_wire_tool t =
     JObj ([(''name'', JStr (nd_name t)), (''description'', JStr (nd_description t)), (''input_schema'', nd_parameters t)]
       @ entry_if (truthy_opt (nd_cache_control t)) ''cache_control'' (the_any (nd_cache_control t)))"

definition tool_use_wire :: "normalized_tool_call \<Rightarrow> (string, json) dict" where
  "tool_use_wire tc =
     [(''type'', JStr ''tool_use''), (''id'', JStr (tc_id tc)), (''name'', JStr (tc_name tc)), (''input'', tc_arguments tc)]"

definition tool_result_wire :: "normalized_tool_result \<Rightarrow> (string, json) dict" where
  "tool_result_wire tr =
     [(''type'', JStr ''tool_result''), (''tool_use_id'', JStr (nr_tool_call_id tr)), (''content'', JStr (nr_content tr)),
      (''is_error'', JBool (nr_is_error tr))]"

definition thinking_wire :: "string option \<Rightarrow> string option \<Rightarrow> (string, json) dict list" where
  "thinking_wire reasoning signature =
     (if truthy_str reasoning \<and> truthy_str signature
      then [[(''type'', JStr ''thinking''), (''thinking'', opt_str reasoning), (''signature'', opt_str signature)]] else [])"

definition text_wire :: "string \<Rightarrow> (string, json) dict list" where
  "text_wire s = (if s = [] then [] else [[(''type'', JStr ''text''), (''text'', JStr s)]])"

text \<open>\<open>content_blocks[-1]["cache_control"] = ...\<close>: no block has that key yet.\<close>

definition mark_last :: "json option \<Rightarrow> (string, json) dict list \<Rightarrow> (string, json) dict list" where
  "mark_last cache bs =
     (if bs \<noteq> [] \<and> truthy_opt cache then butlast bs @ [last bs @ [(''cache_control'', the_any cache)]] else bs)"

definition content_blocks :: "normalized_message \<Rightarrow> (string, json) dict list" where
  "content_blocks m =
     thinking_wire (msg_reasoning_content m) (msg_reasoning_signature m) @ text_wire (msg_content m)
     @ map tool_use_wire (msg_tool_calls m) @ map tool_result_wire (msg_tool_results m)"

definition anthropic_wire_message :: "normalized_message \<Rightarrow> json" where
  "anthropic_wire_message m =
     (let bs = mark_last (msg_cache_control m) (content_blocks m) in
      JObj [(''role'', JStr (msg_role m)), (''content'', if bs = [] then JStr (msg_content m) else JArr (map JObj bs))])"

definition anthropic_wire_system :: "normalized_request \<Rightarrow> json option" where
  "anthropic_wire_system rq =
     (if truthy_str (rq_system_instruction rq)
      then Some (if truthy_opt (rq_system_cache_control rq)
                 then JArr [JObj [(''type'', JStr ''text''), (''text'', opt_str (rq_system_instruction rq)),
                                  (''cache_control'', the_any (rq_system_cache_control rq))]]
                 else opt_str (rq_system_instruction rq))
      else map_option (\<lambda>m. JStr (msg_content m)) (find (\<lambda>m. msg_role m = ''system'') (rq_messages rq)))"

text \<open>
  The payload as the set of its entries; a system prompt taken from a message comes after the other keys, which
  no reader of a dictionary can tell apart from the order used here.
\<close>

definition ir_to_anthropic_request :: "normalized_request \<Rightarrow> string \<Rightarrow> json result" where
  "ir_to_anthropic_request rq target_model =
     (case (if rq_tools rq = [] then Inr None else tool_choice_to_anthropic (rq_tool_choice rq)) of
        Inl e \<Rightarrow> Inl e
      | Inr choice \<Rightarrow>
          let sys = anthropic_wire_system rq; own = truthy_str (rq_system_instruction rq) in
          Inr (JObj ([(''model'', JStr target_model),
              (''messages'', JArr (map anthropic_wire_message (filter (\<lambda>m. msg_role m \<noteq> ''system'') (rq_messages rq))))]
            @ entry_if own ''system'' (the_any sys)
            @ entry_if (rq_max_output_tokens rq \<notin> {None, Some 0}) ''max_tokens'' (JInt (the (rq_max_output_tokens rq)))
            @ entry_if (rq_temperature rq \<noteq> None) ''temperature'' (JFloat (the (rq_temperature rq)))
            @ entry_if (rq_stream rq) ''stream'' (JBool True)
            @ entry_if (rq_tools rq \<noteq> []) ''tools'' (JArr (map anthropic_wire_tool (rq_tools rq)))
            @ entry_if (choice \<noteq> None) ''tool_choice'' (the_any choice)
            @ entry_if (\<not> own \<and> sys \<noteq> None) ''system'' (the_any sys))))"

section \<open>Responses\<close>

definition ir_to_anthropic_response :: "(nat \<Rightarrow> string) \<Rightarrow> normalized_response \<Rightarrow> string \<Rightarrow> json" where
  "ir_to_anthropic_response uuid r requested_model =
     JObj [(''id'', JStr (prefixed ''msg_'' (rs_response_id r))), (''type'', JStr ''message''), (''role'', JStr ''assistant''),
       (''model'', JStr requested_model),
       (''content'', JArr (map JObj
          (thinking_wire (rs_reasoning_content r) (rs_reasoning_signature r)
           @ text_wire (case rs_content r of None \<Rightarrow> [] | Some s \<Rightarrow> s)
           @ map (\<lambda>(j, tc). tool_use_wire (if tc_id tc = [] then tc\<lparr>tc_id := ''toolu_'' @ take 8 (uuid j)\<rparr> else tc))
               (indexed 0 (rs_tool_calls r))))),
       (''stop_reason'', JStr (stop_reason_of (rs_finish_reason r))), (''stop_sequence'', JNull),
       (''usage'', JObj [(''input_tokens'', JInt (rs_input_tokens r)), (''output_tokens'', JInt (rs_output_tokens r))])]"

definition finish_of_stop :: "json \<Rightarrow> string decoded" where
  "finish_of_stop stop =
     (case stop of
        JArr _ \<Rightarrow> Raises TypeError
      | JObj _ \<Rightarrow> Raises TypeError
      | JStr s \<Rightarrow> Decoded (dict_get [(''end_turn'', ''stop''), (''tool_use'', ''tool_calls''), (''max_tokens'', ''length'')] s ''stop'')
      | _ \<Rightarrow> Decoded ''stop'')"

record answer_state =
  an_text_parts :: "json list"
  an_reasoning :: json
  an_signature :: json
  an_tool_calls :: "normalized_tool_call list"

definition answer_block :: "(rat \<Rightarrow> string) \<Rightarrow> json \<Rightarrow> answer_state \<Rightarrow> answer_state decoded" where
  "answer_block fr b s =
     dbind (fetch b ''type'' JNull) (\<lambda>ty.
       if ty = JStr ''text''
       then dbind (fetch b ''text'' (JStr [])) (\<lambda>t. Decoded (s\<lparr>an_text_parts := an_text_parts s @ [t]\<rparr>))
       else if ty = JStr ''thinking''
       then dbind (fetch b ''thinking'' (JStr [])) (\<lambda>t. dbind (fetch b ''signature'' JNull) (\<lambda>g.
              Decoded (s\<lparr>an_reasoning := t, an_signature := g\<rparr>)))
       else if ty = JStr ''tool_use''
       then dbind (fetch b ''id'' (JStr [])) (\<lambda>i. dbind (need_str i) (\<lambda>tid.
            dbind (fetch b ''name'' (JStr [])) (\<lambda>n. dbind (need_str n) (\<lambda>name.
            dbind (fetch b ''input'' (JObj [])) (\<lambda>args.
              Decoded (s\<lparr>an_tool_calls := an_tool_calls s @ [new_tool_call fr tid name args []]\<rparr>))))))
       else Decoded s)"

text \<open>\<open>AnthropicAdapter.normalize_response\<close> on a JSON body.\<close>

definition anthropic_response_to_ir :: "(rat \<Rightarrow> string) \<Rightarrow> string \<Rightarrow> json \<Rightarrow> normalized_response decoded" where
  "anthropic_response_to_ir fr endpoint_model raw =
     dbind (fetch raw ''content'' (JArr [])) (\<lambda>c. dbind (items_of c) (\<lambda>blocks.
     dbind (dfold (answer_block fr) blocks \<lparr>an_text_parts = [], an_reasoning = JNull, an_signature = JNull, an_tool_calls = []\<rparr>) (\<lambda>s.
     dbind (fetch raw ''usage'' (JObj [])) (\<lambda>usage.
     dbind (fetch raw ''stop_reason'' (JStr ''end_turn'')) (\<lambda>stop.
     dbind (fetch raw ''id'' (JStr [])) (\<lambda>i. dbind (join_json [] (an_text_parts s)) (\<lambda>content.
     dbind (finish_of_stop stop) (\<lambda>finish.
     dbind (fetch usage ''input_tokens'' (JInt 0)) (\<lambda>pt. dbind (fetch usage ''output_tokens'' (JInt 0)) (\<lambda>ct.
     dbind (need_str i) (\<lambda>response_id. dbind (need_opt_str (an_reasoning s)) (\<lambda>reasoning.
     dbind (need_opt_str (an_signature s)) (\<lambda>signature. dbind (need_int pt) (\<lambda>input_tokens. dbind (need_int ct) (\<lambda>output_tokens.
       Decoded
         \<lparr>rs_response_id = response_id, rs_model = endpoint_model, rs_content = Some content, rs_reasoning_content = reasoning,
          rs_reasoning_signature = signature, rs_tool_calls = an_tool_calls s, rs_finish_reason = finish,
          rs_input_tokens = input_tokens, rs_output_tokens = output_tokens, rs_raw_response = Some raw\<rparr>)))))))))))))))"

end
