(* ===== verification/Gemini.thy ===== *)
theory Gemini
  imports Anthropic
begin

text \<open>
  \<^verbatim>\<open>protocol/gemini.py\<close>: the neutral representation to and from Gemini's \<^verbatim>\<open>generateContent\<close>, with the
  sanitising of tool schemas.  SHA-1 is a parameter.
\<close>

section \<open>Schemas\<close>

definition upper_char :: "char \<Rightarrow> char" where
  "upper_char c = (let n = (of_char c :: nat) in if 97 \<le> n \<and> n \<le> 122 then char_of (n - 32) else c)"

definition upper :: "string \<Rightarrow> string" where
  "upper s = map upper_char s"

definition GEMINI_TYPE_MAP :: "(string, string) dict" where
  "GEMINI_TYPE_MAP =
     [(''object'', ''OBJECT''), (''string'', ''STRING''), (''integer'', ''INTEGER''), (''number'', ''NUMBER''),
      (''boolean'', ''BOOLEAN''), (''array'', ''ARRAY'')]"

definition GEMINI_PROHIBITED_KEYS :: "string list" where
  "GEMINI_PROHIBITED_KEYS =
     [''$schema'', ''additionalProperties'', ''default'', ''title'', ''$id'', ''$comment'', ''examples'', ''definitions'', ''$defs'']"

definition MAX_REF_DEPTH :: nat where
  "MAX_REF_DEPTH = 8"

text \<open>\<open>{**a, **b}\<close>.\<close>

definition dict_merge :: "('k, 'v) dict \<Rightarrow> ('k, 'v) dict \<Rightarrow> ('k, 'v) dict" where
  "dict_merge a b = fold (\<lambda>(k, v). AList.update k v) b a"

definition resolve_local_ref :: "string \<Rightarrow> (string, json) dict \<Rightarrow> (string, json) dict option" where
  "resolve_local_ref ref definitions =
     (let parts = split_on (CHR ''/'') ref in
      if length parts = 3 \<and> parts ! 0 = ''#'' \<and> parts ! 1 \<in> {''$defs'', ''definitions''}
      then (case map_of definitions (parts ! 2) of Some (JObj kvs) \<Rightarrow> Some kvs | _ \<Rightarrow> None)
      else None)"

definition clean_type :: "json \<Rightarrow> string result" where
  "clean_type v =
     (case v of
        JStr s \<Rightarrow> Inr (dict_get GEMINI_TYPE_MAP (lower s) (upper s))
      | JArr xs \<Rightarrow>
          (case filter (\<lambda>x. x \<noteq> JStr ''null'') xs of
             [] \<Rightarrow> Inr ''STRING''
           | JStr s # _ \<Rightarrow> Inr (dict_get GEMINI_TYPE_MAP (lower s) ''STRING'')
           | _ \<Rightarrow> Inl AttributeError)
      | _ \<Rightarrow> Inr ''OBJECT'')"

fun rmap :: "('a \<Rightarrow> 'b result) \<Rightarrow> 'a list \<Rightarrow> 'b list result" where
  "rmap f [] = Inr []"
| "rmap f (x # xs) =
     (case f x of Inl e \<Rightarrow> Inl e | Inr y \<Rightarrow> (case rmap f xs of Inl e \<Rightarrow> Inl e | Inr ys \<Rightarrow> Inr (y # ys)))"

lemma rmap_cong [fundef_cong]:
  "xs = ys \<Longrightarrow> (\<And>x. x \<in> set ys \<Longrightarrow> f x = g x) \<Longrightarrow> rmap f xs = rmap g ys"
  by (induction xs arbitrary: ys) (auto split: sum.split)

lemma rmap_Inr: "rmap f xs = Inr ys \<Longrightarrow> list_all2 (\<lambda>x y. f x = Inr y) xs ys"
  by (induction xs arbitrary: ys) (auto split: sum.splits)

lemma rmap_defined: "(\<And>x. x \<in> set xs \<Longrightarrow> \<exists>y. f x = Inr y) \<Longrightarrow> \<exists>ys. rmap f xs = Inr ys"
proof (induction xs)
  case (Cons x xs)
  then obtain y ys where "f x = Inr y" "rmap f xs = Inr ys" by (metis list.set_intros)
  then show ?case by simp
qed simp

text \<open>What one entry of a schema contributes to the cleaned one; \<open>rec\<close> is the recursive call.\<close>

definition clean_entry :: "(json \<Rightarrow> json result) \<Rightarrow> (rat \<Rightarrow> string) \<Rightarrow> string \<times> json \<Rightarrow> (string, json) dict result" where
  "clean_entry rec fr kv =
     (case kv of (k, v) \<Rightarrow>
        if k \<in> set GEMINI_PROHIBITED_KEYS then Inr []
        else if k = ''type'' then map_sum id (\<lambda>t. [(k, JStr t)]) (clean_type v)
        else (case v of
                JObj ps \<Rightarrow>
                  if k = ''properties''
                  then map_sum id (\<lambda>qs. [(k, JObj qs)]) (rmap (\<lambda>(pk, pv). map_sum id (Pair pk) (rec pv)) ps)
                  else if k = ''items'' then map_sum id (\<lambda>s. [(k, s)]) (rec v)
                  else Inr []
              | JArr xs \<Rightarrow> if k \<in> {''required'', ''enum''} then Inr [(k, JArr (map (\<lambda>x. JStr (str_json fr x)) xs))] else Inr []
              | JStr s \<Rightarrow> if k = ''description'' then Inr [(k, v)] else Inr []
              | _ \<Rightarrow> Inr []))"

definition sub_schemas :: "json \<Rightarrow> json list" where
  "sub_schemas v = (case v of JObj ps \<Rightarrow> v # map snd ps | _ \<Rightarrow> [])"

lemma clean_entry_cong [fundef_cong]:
  assumes "kv = kv'" and "fr = fr'" and rec: "\<And>x. x \<in> set (sub_schemas (snd kv')) \<Longrightarrow> rec x = rec' x"
  shows "clean_entry rec fr kv = clean_entry rec' fr' kv'"
proof -
  obtain k v where kv: "kv' = (k, v)" by (cases kv')
  show ?thesis
  proof (cases v)
    case (JObj ps)
    have r: "rec (JObj ps) = rec' (JObj ps)" by (intro rec) (simp add: kv JObj sub_schemas_def)
    have m: "rmap (\<lambda>(pk, pv). map_sum id (Pair pk) (rec pv)) ps = rmap (\<lambda>(pk, pv). map_sum id (Pair pk) (rec' pv)) ps"
    proof (rule rmap_cong [OF refl])
      fix x assume "x \<in> set ps"
      then have "rec (snd x) = rec' (snd x)" by (intro rec) (simp add: kv JObj sub_schemas_def)
      then show "(case x of (pk, pv) \<Rightarrow> map_sum id (Pair pk) (rec pv)) = (case x of (pk, pv) \<Rightarrow> map_sum id (Pair pk) (rec' pv))"
        by (simp add: case_prod_beta)
    qed
    show ?thesis unfolding clean_entry_def assms(1,2) kv JObj prod.case json.case r m by (rule refl)
  qed (unfold clean_entry_def assms(1,2) kv prod.case, simp_all only: json.case)
qed

definition ensure_type :: "(string, json) dict \<Rightarrow> (string, json) dict" where
  "ensure_type cleaned = (if ''type'' \<in> set (map fst cleaned) then cleaned else cleaned @ [(''type'', JStr ''OBJECT'')])"

lemma size_entry: "(k, v) \<in> set kvs \<Longrightarrow> size v < size (JObj kvs)"
  by (induction kvs) auto

lemma size_sub: "kv \<in> set kvs \<Longrightarrow> x \<in> set (sub_schemas (snd kv)) \<Longrightarrow> size x < size (JObj kvs)"
proof -
  assume a: "kv \<in> set kvs" "x \<in> set (sub_schemas (snd kv))"
  obtain k v where kv: "kv = (k, v)" by (cases kv)
  have v: "size v < size (JObj kvs)" using a(1) kv size_entry by simp
  show ?thesis
  proof (cases v)
    case (JObj ps)
    with a kv consider "x = v" | p where "(p, x) \<in> set ps" by (auto simp: sub_schemas_def)
    then show ?thesis
    proof cases
      case 2
      then show ?thesis using size_entry [OF 2] v JObj by simp
    qed (use v in simp)
  qed (use a kv in \<open>simp_all add: sub_schemas_def\<close>)
qed

text \<open>\<open>clean_gemini_schema\<close> below the top level, where the definitions are known.\<close>

function clean_schema :: "(rat \<Rightarrow> string) \<Rightarrow> (string, json) dict \<Rightarrow> nat \<Rightarrow> json \<Rightarrow> json result" where
  "clean_schema fr definitions depth schema =
     (case schema of
        JObj kvs \<Rightarrow>
          (case map_of kvs ''$ref'' of
             Some (JStr ref) \<Rightarrow>
               (case resolve_local_ref ref definitions of
                  None \<Rightarrow> Inr (JObj [(''type'', JStr ''OBJECT'')])
                | Some target \<Rightarrow>
                    if depth \<ge> MAX_REF_DEPTH then Inr (JObj [(''type'', JStr ''OBJECT'')])
                    else clean_schema fr definitions (depth + 1)
                           (JObj (dict_merge target (filter (\<lambda>(k, v). k \<noteq> ''$ref'') kvs))))
           | _ \<Rightarrow>
               map_sum id (\<lambda>es. JObj (ensure_type (concat es)))
                 (rmap (clean_entry (clean_schema fr definitions (depth + 1)) fr) kvs))
      | _ \<Rightarrow> Inr schema)"
  by pat_completeness auto
termination
  by (relation "inv_image (less_than <*lex*> less_than) (\<lambda>(fr, defs, depth, s). (MAX_REF_DEPTH - depth, size s))")
    (auto dest: size_sub)

declare clean_schema.simps [simp del]

text \<open>\<open>{**schema.get("definitions", {}), **schema.get("$defs", {})}\<close>.\<close>

definition schema_definitions :: "(string, json) dict \<Rightarrow> (string, json) dict result" where
  "schema_definitions kvs =
     (case (dict_get kvs ''definitions'' (JObj []), dict_get kvs ''$defs'' (JObj [])) of
        (JObj a, JObj b) \<Rightarrow> Inr (dict_merge a b) | _ \<Rightarrow> Inl TypeError)"

definition clean_gemini_schema :: "(rat \<Rightarrow> string) \<Rightarrow> json \<Rightarrow> json result" where
  "clean_gemini_schema fr schema =
     (case schema of
        JObj kvs \<Rightarrow> (case schema_definitions kvs of Inl e \<Rightarrow> Inl e | Inr defs \<Rightarrow> clean_schema fr defs 0 schema)
      | _ \<Rightarrow> Inr schema)"

section \<open>Requests\<close>

definition tool_choice_to_gemini :: "json option \<Rightarrow> json option result" where
  "tool_choice_to_gemini tool_choice =
     (let config = (\<lambda>mode names. JObj [(''functionCallingConfig'',
             JObj ([(''mode'', JStr mode)] @ entry_if (names \<noteq> []) ''allowedFunctionNames'' (JArr names)))]) in
      case tool_choice of
        Some (JStr s) \<Rightarrow>
          Inr (map_option (\<lambda>m. config m []) (map_of [(''auto'', ''AUTO''), (''required'', ''ANY''), (''none'', ''NONE'')] s))
      | Some (JObj kvs) \<Rightarrow>
          (case map_of kvs ''type'' of
             Some (JStr kind) \<Rightarrow>
               if kind \<in> {''auto'', ''none''} then Inr (Some (config (upper kind) []))
               else if kind = ''any'' then Inr (Some (config ''ANY'' []))
               else if kind = ''tool''
               then Inr (if truthy_opt (map_of kvs ''name'') then Some (config ''ANY'' [the (map_of kvs ''name'')]) else None)
               else if kind = ''function''
               then (case function_name kvs of
                       Inl e \<Rightarrow> Inl e
                     | Inr name \<Rightarrow> Inr (if truthy_json name then Some (config ''ANY'' [name]) else None))
               else Inr None
           | _ \<Rightarrow> Inr None)
      | _ \<Rightarrow> Inr None)"

definition text_part :: "string \<Rightarrow> json" where
  "text_part s = JObj [(''text'', JStr s)]"

definition response_part :: "string option \<Rightarrow> string \<Rightarrow> json" where
  "response_part name content =
     JObj [(''functionResponse'', JObj [(''name'', JStr (if truthy_str name then the name else ''tool'')),
        (''response'', JObj [(''output'', JStr content)])])]"

definition result_part :: "normalized_tool_result \<Rightarrow> json" where
  "result_part tr = response_part (nr_tool_name tr) (nr_content tr)"

definition call_part :: "normalized_tool_call \<Rightarrow> json" where
  "call_part tc = JObj [(''functionCall'', JObj [(''name'', JStr (tc_name tc)), (''args'', tc_arguments tc)])]"

definition gemini_turn :: "string \<Rightarrow> json list \<Rightarrow> json" where
  "gemini_turn role parts = JObj [(''role'', JStr role), (''parts'', JArr parts)]"

definition gemini_wire_message :: "normalized_message \<Rightarrow> json list" where
  "gemini_wire_message m =
     (let text = (if msg_content m = [] then [] else [text_part (msg_content m)]);
          or_blank = (\<lambda>parts. if parts = [] then [text_part []] else parts) in
      if msg_role m = ''user'' then [gemini_turn ''user'' (or_blank (text @ map result_part (msg_tool_results m)))]
      else if msg_role m = ''assistant'' then [gemini_turn ''model'' (or_blank (text @ map call_part (msg_tool_calls m)))]
      else if msg_role m = ''tool''
      then map (\<lambda>tr. gemini_turn ''user'' [result_part tr]) (msg_tool_results m)
           @ (if msg_tool_results m = [] \<and> msg_content m \<noteq> []
              then [gemini_turn ''user'' [response_part (msg_name m) (msg_content m)]] else [])
      else [])"

definition gemini_declaration :: "(rat \<Rightarrow> string) \<Rightarrow> normalized_tool_definition \<Rightarrow> json result" where
  "gemini_declaration fr t =
     map_sum id (\<lambda>p. JObj [(''name'', JStr (nd_name t)), (''description'', JStr (nd_description t)), (''parameters'', p)])
       (clean_gemini_schema fr (nd_parameters t))"

definition gemini_tools :: "(rat \<Rightarrow> string) \<Rightarrow> normalized_request \<Rightarrow> (string, json) dict result" where
  "gemini_tools fr rq =
     (if rq_tools rq = [] then Inr []
      else case rmap (gemini_declaration fr) (rq_tools rq) of
             Inl e \<Rightarrow> Inl e
           | Inr ds \<Rightarrow>
               map_sum id (\<lambda>c. (''tools'', JArr [JObj [(''functionDeclarations'', JArr ds)]]) # entry_if (c \<noteq> None) ''toolConfig'' (the_any c))
                 (tool_choice_to_gemini (rq_tool_choice rq)))"

definition gemini_gen_config :: "normalized_request \<Rightarrow> (string, json) dict" where
  "gemini_gen_config rq =
     entry_if (rq_max_output_tokens rq \<notin> {None, Some 0}) ''maxOutputTokens'' (JInt (min (the (rq_max_output_tokens rq)) 8192))
     @ entry_if (rq_temperature rq \<noteq> None) ''temperature'' (JFloat (the (rq_temperature rq)))"

definition ir_to_gemini_request :: "(rat \<Rightarrow> string) \<Rightarrow> normalized_request \<Rightarrow> json result" where
  "ir_to_gemini_request fr rq =
     map_sum id (\<lambda>tools.
       JObj ([(''contents'', JArr (concat (map gemini_wire_message (rq_messages rq))))]
         @ entry_if (truthy_str (get_effective_system_instruction rq)) ''systemInstruction''
             (JObj [(''parts'', JArr [JObj [(''text'', opt_str (get_effective_system_instruction rq))]])])
         @ tools
         @ entry_if (gemini_gen_config rq \<noteq> []) ''generationConfig'' (JObj (gemini_gen_config rq))))
       (gemini_tools fr rq)"

section \<open>Responses\<close>

definition gemini_response_id :: "(rat \<Rightarrow> string) \<Rightarrow> (string \<Rightarrow> string) \<Rightarrow> json \<Rightarrow> string decoded" where
  "gemini_response_id fr sha1 resp =
     dbind (fetch resp ''responseId'' JNull) (\<lambda>rid.
       Decoded (case rid of
          JStr (c # s) \<Rightarrow> c # s
        | _ \<Rightarrow> ''gemini_'' @ take 12 (sha1 (dumps_ascii fr (canon resp)))))"

text \<open>\<open>p[k]\<close> for a string \<open>k\<close>.\<close>

definition index_key :: "json \<Rightarrow> string \<Rightarrow> json decoded" where
  "index_key p k =
     (case p of JObj kvs \<Rightarrow> (case map_of kvs k of None \<Rightarrow> Raises KeyError | Some v \<Rightarrow> Decoded v) | _ \<Rightarrow> Raises TypeError)"

text \<open>A part gives text, a call, or nothing.\<close>

definition gemini_part ::
  "(rat \<Rightarrow> string) \<Rightarrow> string \<Rightarrow> nat \<times> json \<Rightarrow> json list \<times> normalized_tool_call list \<Rightarrow> (json list \<times> normalized_tool_call list) decoded" where
  "gemini_part fr response_id ip acc =
     (case (ip, acc) of ((index, p), (texts, calls)) \<Rightarrow>
        dbind (of_result (json_contains ''text'' p)) (\<lambda>has_text.
          if has_text then dbind (index_key p ''text'') (\<lambda>t. Decoded (texts @ [t], calls))
          else dbind (of_result (json_contains ''functionCall'' p)) (\<lambda>has_call.
            if has_call
            then dbind (index_key p ''functionCall'') (\<lambda>fc.
                 dbind (fetch fc ''args'' (JObj [])) (\<lambda>args.
                 dbind (fetch fc ''name'' (JStr [])) (\<lambda>n. dbind (need_str n) (\<lambda>name.
                   let i = ''call_'' @ response_id @ ''_'' @ str_of_nat index in
                   Decoded (texts, calls @ [if is_dict args then new_tool_call fr i name args (dumps fr args)
                                            else new_tool_call fr i name (JObj []) (str_json fr args)])))))
            else Decoded acc)))"

definition gemini_response_to_ir :: "(rat \<Rightarrow> string) \<Rightarrow> (string \<Rightarrow> string) \<Rightarrow> json \<Rightarrow> string \<Rightarrow> normalized_response decoded" where
  "gemini_response_to_ir fr sha1 resp model_name =
     dbind (fetch resp ''candidates'' (JArr [])) (\<lambda>candidates. dbind (gemini_response_id fr sha1 resp) (\<lambda>response_id.
       if \<not> truthy_json candidates
       then Decoded
         \<lparr>rs_response_id = response_id, rs_model = model_name, rs_content = Some [], rs_reasoning_content = None,
          rs_reasoning_signature = None, rs_tool_calls = [], rs_finish_reason = ''stop'', rs_input_tokens = 0, rs_output_tokens = 0,
          rs_raw_response = Some resp\<rparr>
       else
         dbind (of_result (item0 candidates)) (\<lambda>cand. dbind (fetch cand ''content'' (JObj [])) (\<lambda>content_obj.
         dbind (fetch content_obj ''parts'' (JArr [])) (\<lambda>ps. dbind (items_of ps) (\<lambda>parts.
         dbind (dfold (gemini_part fr response_id) (indexed 0 parts) ([], [])) (\<lambda>(texts, calls).
         dbind (fetch resp ''usageMetadata'' (JObj [])) (\<lambda>usage.
         dbind (join_opt [] texts) (\<lambda>content.
         dbind (fetch usage ''promptTokenCount'' (JInt 0)) (\<lambda>pt. dbind (fetch usage ''candidatesTokenCount'' (JInt 0)) (\<lambda>ct.
         dbind (need_int pt) (\<lambda>input_tokens. dbind (need_int ct) (\<lambda>output_tokens.
           Decoded
             \<lparr>rs_response_id = response_id, rs_model = model_name, rs_content = content, rs_reasoning_content = None,
              rs_reasoning_signature = None, rs_tool_calls = calls, rs_finish_reason = (if calls = [] then ''stop'' else ''tool_calls''),
              rs_input_tokens = input_tokens, rs_output_tokens = output_tokens, rs_raw_response = Some resp\<rparr>)))))))))))))"

end
