(* ===== verification/OpenAiTheorems.thy ===== *)
theory OpenAiTheorems
  imports Gemini StreamTheorems
begin

text \<open>
  What the OpenAI translators preserve.  \<open>rereads\<close> is the shared notion for requests: a wire message that is
  read as one message of the representation, which is written back as that wire message.
\<close>

section \<open>Requests\<close>

definition rereads :: "(rat \<Rightarrow> string) \<Rightarrow> json \<Rightarrow> bool" where
  "rereads fr j = (\<exists>m. (\<forall>uuid. openai_message fr uuid j = Decoded m) \<and> (\<forall>names. openai_wire_message fr names m = [j]))"

lemmas openai_read = openai_message_def openai_calls_def or_json_def Let_def

lemma rereads_system: "rereads fr (JObj [(''role'', JStr ''system''), (''content'', JStr c)])"
  by (simp add: rereads_def openai_read openai_wire_message_def)

lemma rereads_user: "c \<noteq> [] \<Longrightarrow> rereads fr (JObj [(''role'', JStr ''user''), (''content'', JStr c)])"
  by (simp add: rereads_def openai_read openai_wire_message_def)

lemma rereads_tool:
  "n \<noteq> [] \<Longrightarrow> rereads fr (JObj [(''role'', JStr ''tool''), (''tool_call_id'', JStr i), (''name'', JStr n), (''content'', JStr c)])"
  by (simp add: rereads_def openai_read openai_wire_message_def openai_wire_result_def truthy_str_def)

definition call_ready :: "normalized_tool_call \<Rightarrow> bool" where
  "call_ready tc = (tc_id tc \<noteq> [] \<and> (tc_raw_arguments tc \<noteq> [] \<or> is_dict (tc_arguments tc)))"

definition recalled :: "(rat \<Rightarrow> string) \<Rightarrow> normalized_tool_call \<Rightarrow> normalized_tool_call" where
  "recalled fr tc =
     (let raw = raw_or_dumped (dumps fr) tc in
      new_tool_call fr (tc_id tc) (tc_name tc) (case loads True raw of Some v \<Rightarrow> v | None \<Rightarrow> JObj []) raw)"

lemma raw_ready: "call_ready tc \<Longrightarrow> raw_or_dumped (dumps fr) tc \<noteq> []"
  by (auto simp: call_ready_def raw_or_dumped_def is_dict_def dumps_def split: json.splits)

lemma openai_call_wire: "call_ready tc \<Longrightarrow> openai_call fr uuid (openai_wire_call fr tc) = Decoded (recalled fr tc)"
  by (simp add: openai_call_def openai_wire_call_def openai_arguments_def is_dict_def recalled_def call_ready_def Let_def)

lemma raw_or_dumped_raw: "tc_raw_arguments tc \<noteq> [] \<Longrightarrow> raw_or_dumped d tc = tc_raw_arguments tc"
  by (simp add: raw_or_dumped_def)

lemma openai_wire_recalled: "call_ready tc \<Longrightarrow> openai_wire_call fr (recalled fr tc) = openai_wire_call fr tc"
  using raw_ready [of tc fr] by (simp add: openai_wire_call_def recalled_def Let_def new_tool_call_def raw_or_dumped_raw)

lemma dmap_indexed:
  "(\<And>j x. x \<in> set xs \<Longrightarrow> f (j, h x) = Decoded (g x)) \<Longrightarrow> dmap f (indexed n (map h xs)) = Decoded (map g xs)"
  by (induction xs arbitrary: n) simp_all

lemma rereads_assistant:
  assumes "list_all call_ready (msg_tool_calls m)" and "msg_role m = ''assistant''"
  shows "list_all (rereads fr) (openai_wire_message fr names m)"
proof -
  have calls: "dmap (\<lambda>(j, tc). openai_call fr (uuid j) tc) (indexed 0 (map (openai_wire_call fr) (msg_tool_calls m)))
      = Decoded (map (recalled fr) (msg_tool_calls m))" for uuid
    by (rule dmap_indexed) (use assms(1) openai_call_wire in \<open>auto simp: list_all_iff\<close>)
  have wires: "map (openai_wire_call fr \<circ> recalled fr) (msg_tool_calls m) = map (openai_wire_call fr) (msg_tool_calls m)"
    using assms(1) openai_wire_recalled by (simp add: list_all_iff)
  show ?thesis
    by (cases "msg_tool_calls m"; cases "msg_content m"; cases "msg_reasoning_content m")
      (use calls wires assms(2) in \<open>simp_all add: rereads_def openai_read openai_wire_message_def entry_if_def truthy_str_def opt_str_def\<close>)
qed

lemma names_nonempty: "map_of (tool_id_to_name ms) i = Some n \<Longrightarrow> n \<noteq> []"
proof -
  define add where "add = (\<lambda>(tc :: normalized_tool_call) d. if tc_id tc \<noteq> [] \<and> tc_name tc \<noteq> [] then AList.update (tc_id tc) (tc_name tc) d else d)"
  have "[] \<notin> ran (map_of d) \<Longrightarrow> [] \<notin> ran (map_of (fold add tcs d))" for tcs d
  proof (induction tcs arbitrary: d)
    case (Cons tc tcs)
    have "[] \<notin> ran (map_of (add tc d))" using Cons.prems by (auto simp: add_def update_conv ran_def)
    with Cons show ?case by simp
  qed simp
  from this [of "[]" "concat (map msg_tool_calls ms)"]
  show "map_of (tool_id_to_name ms) i = Some n \<Longrightarrow> n \<noteq> []"
    unfolding tool_id_to_name_def add_def [symmetric] by (auto simp: ran_def)
qed

lemma rereads_result: "rereads fr (openai_wire_result (tool_id_to_name ms) tr)"
  unfolding openai_wire_result_def
  by (rule rereads_tool) (auto simp: truthy_str_def dict_get_def dest: names_nonempty split: option.splits)

text \<open>Messages the translator writes without loss: a tool turn has results, calls have identifiers and arguments.\<close>

definition message_ready :: "normalized_message \<Rightarrow> bool" where
  "message_ready m = (list_all call_ready (msg_tool_calls m) \<and> (msg_role m = ''tool'' \<longrightarrow> msg_tool_results m \<noteq> []))"

lemma rereads_message:
  assumes "message_ready m"
  shows "list_all (rereads fr) (openai_wire_message fr (tool_id_to_name ms) m)"
proof (cases "msg_role m = ''assistant''")
  case True
  with assms rereads_assistant show ?thesis by (simp add: message_ready_def)
next
  case False
  with assms show ?thesis
    by (auto simp: openai_wire_message_def message_ready_def list_all_iff rereads_system rereads_user rereads_result)
qed

lemma rereads_messages:
  "list_all message_ready (rq_messages rq) \<Longrightarrow> list_all (rereads fr) (openai_wire_messages fr rq)"
  using rereads_message by (auto simp: openai_wire_messages_def list_all_iff rereads_system)

lemma rereads_list:
  "list_all (rereads fr) js \<Longrightarrow> \<exists>ms. dmap (\<lambda>(i, msg). openai_message fr (uuid i) msg) (indexed n js) = Decoded ms
     \<and> (\<forall>names. concat (map (openai_wire_message fr names) ms) = js)"
proof (induction js arbitrary: n)
  case (Cons j js)
  then obtain m ms where "\<forall>uuid. openai_message fr uuid j = Decoded m" "\<forall>names. openai_wire_message fr names m = [j]"
      "dmap (\<lambda>(i, msg). openai_message fr (uuid i) msg) (indexed (Suc n) js) = Decoded ms"
      "\<forall>names. concat (map (openai_wire_message fr names) ms) = js"
    unfolding list.pred_inject rereads_def by metis
  then show ?case by (intro exI [where x = "m # ms"]) simp
qed simp

lemma no_system_taken: "\<forall>m \<in> set ms. msg_role m \<noteq> ''system'' \<Longrightarrow> fold take_system ms None = None"
  by (induction ms) (simp_all add: take_system_def)

lemma openai_choice_stable: "tool_choice_to_openai (tool_choice_to_openai c) = tool_choice_to_openai c"
  by (auto simp: tool_choice_to_openai_def split: option.splits json.splits if_splits)

lemma openai_choice_not_null: "tool_choice_to_openai c \<noteq> Some JNull"
  by (auto simp: tool_choice_to_openai_def split: option.splits json.splits if_splits)

lemma openai_tool_wire:
  "openai_tool (openai_wire_tool t) = Decoded [t\<lparr>nd_cache_control := None\<rparr>]"
  by (simp add: openai_tool_def openai_wire_tool_def json_contains_def)

lemma openai_tools_wire: "dmap openai_tool (map openai_wire_tool ts) = Decoded (map (\<lambda>t. [t\<lparr>nd_cache_control := None\<rparr>]) ts)"
  by (induction ts) (simp_all add: openai_tool_wire)


definition request_ready :: "normalized_request \<Rightarrow> bool" where
  "request_ready rq = list_all message_ready (rq_messages rq)"

lemma map_of_request [simp]:
  "map_of (entry_if b k v @ kvs) k' = (if b \<and> k' = k then Some v else map_of kvs k')"
  "map_of (entry_if b k v) k' = (if b \<and> k' = k then Some v else None)"
  by (simp_all add: entry_if_def)

text \<open>
  C25: Forwarding loses nothing.  An OpenAI request that the gateway writes can be read back, and writing what
  was read, for whatever model, gives the request that would have been written in the first place: messages,
  tool calls with their argument texts, tool results with their names, tools, tool choice and limits.
\<close>

theorem openai_request_stable:
  assumes "request_ready rq"
  shows "\<exists>rq'. openai_request_to_ir fr req_uuid uuid (ir_to_openai_request fr rq model) = Decoded rq'
    \<and> rq_model rq' = model \<and> (\<forall>model'. ir_to_openai_request fr rq' model' = ir_to_openai_request fr rq model')"
proof -
  obtain ms where ms: "dmap (\<lambda>(i, msg). openai_message fr (uuid i) msg) (indexed 0 (openai_wire_messages fr rq)) = Decoded ms"
      "\<forall>names. concat (map (openai_wire_message fr names) ms) = openai_wire_messages fr rq"
    using rereads_list [OF rereads_messages] assms unfolding request_ready_def by blast
  have sys: "truthy_str (fold take_system ms None) \<longrightarrow> (\<exists>m \<in> set ms. msg_role m = ''system'')"
    using no_system_taken [of ms] by (cases "\<exists>m \<in> set ms. msg_role m = ''system''") (simp_all add: truthy_str_def)
  define choice where "choice = (if rq_tools rq = [] then None else tool_choice_to_openai (rq_tool_choice rq))"
  define rq' where "rq' =
     \<lparr>rq_request_id = ''req_'' @ take 12 req_uuid, rq_model = model, rq_messages = ms, rq_system_instruction = fold take_system ms None,
      rq_system_cache_control = None, rq_tools = map (nd_cache_control_update (\<lambda>_. None)) (rq_tools rq), rq_tool_choice = choice,
      rq_max_output_tokens = (if rq_max_output_tokens rq = Some 0 then None else rq_max_output_tokens rq),
      rq_temperature = rq_temperature rq, rq_stream = rq_stream rq, rq_metadata = []\<rparr>"
  have entries: "ir_to_openai_request fr rq model' =
      JObj ([(''model'', JStr model'), (''messages'', JArr (openai_wire_messages fr rq))]
       @ entry_if (rq_max_output_tokens rq \<notin> {None, Some 0}) ''max_tokens'' (JInt (the (rq_max_output_tokens rq)))
       @ entry_if (rq_temperature rq \<noteq> None) ''temperature'' (JFloat (the (rq_temperature rq)))
       @ entry_if (rq_stream rq) ''stream'' (JBool True)
       @ entry_if (rq_tools rq \<noteq> []) ''tools'' (JArr (map openai_wire_tool (rq_tools rq)))
       @ entry_if (choice \<noteq> None) ''tool_choice'' (the choice))" for model'
    by (simp add: ir_to_openai_request_def choice_def entry_if_def)
  have null: "choice \<noteq> Some JNull" using openai_choice_not_null [of "rq_tool_choice rq"] by (simp add: choice_def)
  have stable: "tool_choice_to_openai choice = choice" "rq_tools rq = [] \<Longrightarrow> choice = None"
    by (simp_all add: choice_def openai_choice_stable) (simp add: tool_choice_to_openai_def)
  have tools: "openai_wire_tool \<circ> nd_cache_control_update (\<lambda>_. None) = openai_wire_tool"
    by (simp add: fun_eq_iff openai_wire_tool_def)
  have "openai_request_to_ir fr req_uuid uuid (ir_to_openai_request fr rq model) = Decoded rq'"
    by (cases "rq_max_output_tokens rq"; cases "rq_temperature rq"; cases choice)
      (use null in \<open>simp_all add: openai_request_to_ir_def entries ms(1) openai_tools_wire rq'_def or_json_def any_opt_def comp_def
          del: map_of_append\<close>)
  moreover have "ir_to_openai_request fr rq' model' = ir_to_openai_request fr rq model'" for model'
    using sys stable unfolding entries
    by (cases choice; cases "rq_tools rq = []") (simp_all add: ir_to_openai_request_def rq'_def openai_wire_messages_def ms(2) tools)
  ultimately show ?thesis by (intro exI [where x = rq']) (simp add: rq'_def)
qed


definition sample_request :: normalized_request where
  "sample_request =
     (new_request ''r1''
        [new_message ''user'' ''list files'',
         (new_message ''assistant'' [])
           \<lparr>msg_tool_calls := [\<lparr>tc_id = ''c1'', tc_name = ''ls'', tc_arguments = JObj [], tc_raw_arguments = [], tc_metadata = []\<rparr>]\<rparr>,
         (new_message ''user'' [])
           \<lparr>msg_tool_results := [\<lparr>nr_tool_call_id = ''c1'', nr_tool_name = None, nr_content = ''a.py'', nr_is_error = False\<rparr>]\<rparr>])
     \<lparr>rq_system_instruction := Some ''be brief'', rq_max_output_tokens := Some 100\<rparr>"

theorem openai_request_stable_witness:
  "\<exists>rq'. openai_request_to_ir (\<lambda>_. ''0.5'') ''u'' (\<lambda>_ _. ''v'') (ir_to_openai_request (\<lambda>_. ''0.5'') sample_request ''gpt'') = Decoded rq'
    \<and> rq_model rq' = ''gpt''
    \<and> (\<forall>model'. ir_to_openai_request (\<lambda>_. ''0.5'') rq' model' = ir_to_openai_request (\<lambda>_. ''0.5'') sample_request model')
    \<and> length (openai_wire_messages (\<lambda>_. ''0.5'') sample_request) = 4"
proof -
  have "request_ready sample_request"
    by (simp add: sample_request_def request_ready_def message_ready_def call_ready_def new_request_def new_message_def is_dict_def)
  moreover have "length (openai_wire_messages (\<lambda>_. ''0.5'') sample_request) = 4"
    by (simp add: sample_request_def openai_wire_messages_def openai_wire_message_def new_request_def new_message_def truthy_str_def)
  ultimately show ?thesis
    using openai_request_stable [of sample_request "\<lambda>_. ''0.5''" "''u''" "\<lambda>_ _. ''v''" "''gpt''"] by blast
qed

section \<open>Responses\<close>

definition reread_call :: "(rat \<Rightarrow> string) \<Rightarrow> normalized_tool_call \<Rightarrow> normalized_tool_call" where
  "reread_call fr tc = tc\<lparr>tc_raw_arguments := dumps fr (tc_arguments tc), tc_metadata := []\<rparr>"

lemma recalled_wire: "wire_call fr tc \<Longrightarrow> recalled fr tc = reread_call fr tc"
  using dumps_nonempty [of fr "tc_arguments tc"] loads_dumps [of fr "tc_arguments tc" True]
  by (auto simp: recalled_def wire_raw reread_call_def new_tool_call_def wire_call_def)

lemma wire_call_ready: "wire_call fr tc \<Longrightarrow> tc_id tc \<noteq> [] \<Longrightarrow> call_ready tc"
  using dumps_nonempty [of fr "tc_arguments tc"] by (auto simp: wire_call_def call_ready_def is_dict_def)

text \<open>
  A response survives the OpenAI wire format.  Reading what \<open>ir_to_openai_response\<close> writes gives the response
  back: the same content, the same reasoning unless it was empty, the same tool calls in the same order with
  their arguments, and the same token counts; the finish reason says whether there are tool calls, and what the format has no place
  for (the thinking signature and the gateway's annotations of calls) is gone.
\<close>

theorem openai_response_roundtrip:
  assumes "list_all (\<lambda>tc. wire_call fr tc \<and> tc_id tc \<noteq> []) (rs_tool_calls r)"
  shows "openai_response_to_ir fr resp_uuid uuid (ir_to_openai_response fr now r model) =
    Decoded (r\<lparr>rs_response_id := prefixed ''chatcmpl-'' (rs_response_id r), rs_model := model,
      rs_reasoning_content := (if truthy_str (rs_reasoning_content r) then rs_reasoning_content r else None),
      rs_reasoning_signature := None, rs_tool_calls := map (reread_call fr) (rs_tool_calls r),
      rs_finish_reason := (if rs_tool_calls r \<noteq> [] then ''tool_calls'' else rs_finish_reason r),
      rs_raw_response := Some (ir_to_openai_response fr now r model)\<rparr>)"
proof -
  have "dmap (\<lambda>(j, tc). openai_call fr (uuid j) tc) (indexed 0 (map (openai_wire_call fr) (rs_tool_calls r)))
      = Decoded (map (reread_call fr) (rs_tool_calls r))"
    by (rule dmap_indexed) (use assms in \<open>auto simp: list_all_iff openai_call_wire wire_call_ready recalled_wire\<close>)
  then show ?thesis
    by (cases "rs_tool_calls r"; cases "rs_reasoning_content r"; cases "rs_content r")
      (simp_all add: ir_to_openai_response_def openai_response_to_ir_def first_choice_def item0_def openai_calls_def or_json_def
        truthy_str_def opt_str_def del: map_of_append)
qed


definition sample_response :: normalized_response where
  "sample_response =
     \<lparr>rs_response_id = ''42'', rs_model = ''m'', rs_content = None, rs_reasoning_content = Some ''why'', rs_reasoning_signature = Some ''sig'',
      rs_tool_calls = [\<lparr>tc_id = ''c1'', tc_name = ''ls'', tc_arguments = JObj [], tc_raw_arguments = [], tc_metadata = []\<rparr>],
      rs_finish_reason = ''stop'', rs_input_tokens = 3, rs_output_tokens = 4, rs_raw_response = None\<rparr>"

theorem openai_response_roundtrip_witness:
  "\<exists>r. openai_response_to_ir (\<lambda>_. ''0.5'') ''u'' (\<lambda>_. ''v'') (ir_to_openai_response (\<lambda>_. ''0.5'') 7 sample_response ''gpt'') = Decoded r
    \<and> map tc_id (rs_tool_calls r) = [''c1''] \<and> rs_finish_reason r = ''tool_calls'' \<and> rs_output_tokens r = 4"
proof -
  have u: "utf8_valid ''c1''" "utf8_valid ''ls''" by code_simp+
  have "list_all (\<lambda>tc. wire_call (\<lambda>_. ''0.5'') tc \<and> tc_id tc \<noteq> []) (rs_tool_calls sample_response)"
    by (simp add: sample_response_def wire_call_def u)
  from openai_response_roundtrip [OF this, of "''u''" "\<lambda>_. ''v''" 7 "''gpt''"] show ?thesis
    by (simp add: sample_response_def reread_call_def)
qed

text \<open>
  A null list of tool calls is fatal.  Providers write \<open>"tool_calls": null\<close> for an answer without calls, and
  clients send such messages back.  The translators then iterate over \<open>None\<close> and raise, for a response, for a
  request message and for a fragment of a stream alike; what \<open>sse_chunks_to_ir\<close> records as the raw
  response of an answer without calls is of this form.
\<close>

theorem openai_null_tool_calls_raises:
  assumes "map_of kvs ''tool_calls'' = Some JNull"
  shows "openai_response_to_ir fr resp_uuid uuid (JObj [(''choices'', JArr [JObj [(''message'', JObj kvs)]])]) = Raises TypeError
    \<and> (map_of kvs ''role'' = Some (JStr ''assistant'') \<longrightarrow> openai_message fr uuid (JObj kvs) = Raises TypeError)
    \<and> chunk_choice uuid' (JObj [(''delta'', JObj kvs)]) s = Raises TypeError
    \<and> openai_response_to_ir fr resp_uuid uuid (chunks_raw s content []) = Raises TypeError"
  using assms
  by (simp add: openai_response_to_ir_def first_choice_def item0_def openai_calls_def openai_message_def chunk_choice_def chunks_raw_def
      items_of_def json_elements_def)

theorem openai_null_tool_calls_raises_witness:
  "openai_response_to_ir (\<lambda>_. []) ''u'' (\<lambda>_. ''v'') (JObj [(''choices'', JArr [JObj [(''message'',
     JObj [(''content'', JStr ''hi''), (''tool_calls'', JNull)])]])]) = Raises TypeError"
  using openai_null_tool_calls_raises [of "[(''content'', JStr ''hi''), (''tool_calls'', JNull)]" "\<lambda>_. []" "''u''" "\<lambda>_. ''v''"] by simp

end
