(* ===== verification/AnthropicTheorems.thy ===== *)
theory AnthropicTheorems
  imports OpenAiTheorems
begin

text \<open>
  What the Anthropic translators preserve.  The content blocks of a message are read by a fold over \<open>take_block\<close>;
  \<open>blocks_read\<close> says what the fold makes of the blocks of one message.
\<close>

section \<open>Blocks\<close>

lemma dict_get_snoc: "k \<noteq> k' \<Longrightarrow> dict_get (b @ [(k', v)]) k d = dict_get b k d"
  by (induction b) (auto simp: dict_get_def)

lemma dict_get_new: "k \<notin> fst ` set b \<Longrightarrow> dict_get (b @ [(k, v)]) k d = v"
  by (induction b) (auto simp: dict_get_def)

lemma take_block_marked:
  assumes "''cache_control'' \<notin> fst ` set b" and "truthy_json v"
  shows "take_block fr uuid (j, b @ [(''cache_control'', v)]) s =
    dbind (take_block fr uuid (j, b) s) (\<lambda>s'. Decoded (s'\<lparr>bk_cache_control := v\<rparr>))"
proof -
  have "dict_get b ''cache_control'' JNull = JNull"
    using assms(1) by (induction b) (auto simp: dict_get_def)
  with assms(2) show ?thesis
    by (cases "tool_use_block fr (uuid j) b"; cases "tool_result_block fr b")
      (simp_all add: take_block_def dict_get_snoc dict_get_new [OF assms(1)] tool_use_block_def tool_result_block_def Let_def)
qed

lemma indexed_append: "indexed n (xs @ ys) = indexed n xs @ indexed (n + length xs) ys"
  by (induction xs arbitrary: n) simp_all

definition reused_call :: "(rat \<Rightarrow> string) \<Rightarrow> normalized_tool_call \<Rightarrow> normalized_tool_call" where
  "reused_call fr tc = new_tool_call fr (tc_id tc) (tc_name tc) (tc_arguments tc) (dumps fr (tc_arguments tc))"

definition reused_result :: "normalized_tool_result \<Rightarrow> normalized_tool_result" where
  "reused_result tr = tr\<lparr>nr_tool_name := None\<rparr>"

lemma take_tool_use:
  "tc_id tc \<noteq> [] \<Longrightarrow> is_dict (tc_arguments tc) \<Longrightarrow>
   take_block fr uuid (j, tool_use_wire tc) s = Decoded (s\<lparr>bk_tool_calls := bk_tool_calls s @ [reused_call fr tc]\<rparr>)"
  by (simp add: take_block_def tool_use_wire_def tool_use_block_def dict_get_def reused_call_def or_json_def Let_def)

lemma take_tool_result:
  "take_block fr uuid (j, tool_result_wire tr) s = Decoded (s\<lparr>bk_tool_results := bk_tool_results s @ [reused_result tr]\<rparr>)"
  by (simp add: take_block_def tool_result_wire_def tool_result_block_def result_text_def dict_get_def reused_result_def)

lemma take_tool_uses:
  "list_all (\<lambda>tc. tc_id tc \<noteq> [] \<and> is_dict (tc_arguments tc)) tcs \<Longrightarrow>
   dfold (take_block fr uuid) (indexed n (map tool_use_wire tcs)) s =
     Decoded (s\<lparr>bk_tool_calls := bk_tool_calls s @ map (reused_call fr) tcs\<rparr>)"
  by (induction tcs arbitrary: n s) (simp_all add: take_tool_use)

lemma take_tool_results:
  "dfold (take_block fr uuid) (indexed n (map tool_result_wire trs)) s =
     Decoded (s\<lparr>bk_tool_results := bk_tool_results s @ map reused_result trs\<rparr>)"
  by (induction trs arbitrary: n s) (simp_all add: take_tool_result)

definition signed_text :: "string option \<Rightarrow> string option \<Rightarrow> bool" where
  "signed_text reasoning signature = (truthy_str reasoning \<and> truthy_str signature)"

definition blocks_read :: "(rat \<Rightarrow> string) \<Rightarrow> normalized_message \<Rightarrow> block_state" where
  "blocks_read fr m =
     \<lparr>bk_text_parts = (if msg_content m = [] then [] else [JStr (msg_content m)]),
      bk_reasoning_parts = (if signed_text (msg_reasoning_content m) (msg_reasoning_signature m) then [opt_str (msg_reasoning_content m)] else []),
      bk_signatures = (if signed_text (msg_reasoning_content m) (msg_reasoning_signature m) then [opt_str (msg_reasoning_signature m)] else []),
      bk_tool_calls = map (reused_call fr) (msg_tool_calls m), bk_tool_results = map reused_result (msg_tool_results m),
      bk_cache_control = JNull\<rparr>"

definition typed_cache :: "json option \<Rightarrow> bool" where
  "typed_cache c = (case c of None \<Rightarrow> True | Some j \<Rightarrow> is_dict j)"

definition anthropic_ready :: "normalized_message \<Rightarrow> bool" where
  "anthropic_ready m = (list_all (\<lambda>tc. tc_id tc \<noteq> [] \<and> is_dict (tc_arguments tc)) (msg_tool_calls m) \<and> typed_cache (msg_cache_control m))"

lemma take_content_blocks:
  assumes "list_all (\<lambda>tc. tc_id tc \<noteq> [] \<and> is_dict (tc_arguments tc)) (msg_tool_calls m)"
  shows "dfold (take_block fr uuid) (indexed n (content_blocks m)) no_blocks = Decoded (blocks_read fr m)"
proof -
  define pre where "pre = thinking_wire (msg_reasoning_content m) (msg_reasoning_signature m) @ text_wire (msg_content m)"
  have pre: "dfold (take_block fr uuid) (indexed n pre) no_blocks = Decoded ((blocks_read fr m)\<lparr>bk_tool_calls := [], bk_tool_results := []\<rparr>)"
    by (cases "msg_reasoning_content m"; cases "msg_reasoning_signature m")
      (simp_all add: pre_def thinking_wire_def text_wire_def no_blocks_def blocks_read_def signed_text_def truthy_str_def take_block_def
        dict_get_def opt_str_def)
  have "content_blocks m = pre @ map tool_use_wire (msg_tool_calls m) @ map tool_result_wire (msg_tool_results m)"
    by (simp add: content_blocks_def pre_def)
  then show ?thesis
    by (simp add: indexed_append dfold_append pre take_tool_uses [OF assms] take_tool_results blocks_read_def)
qed

lemma no_cache_key: "b \<in> set (content_blocks m) \<Longrightarrow> ''cache_control'' \<notin> fst ` set b"
  by (auto simp: content_blocks_def thinking_wire_def text_wire_def tool_use_wire_def tool_result_wire_def split: if_splits)

lemma dicts_of_blocks: "dicts_of (map JObj bs) = bs"
  by (induction bs) simp_all

definition reused_message :: "(rat \<Rightarrow> string) \<Rightarrow> normalized_message \<Rightarrow> normalized_message" where
  "reused_message fr m =
     (new_message (msg_role m) (msg_content m))
       \<lparr>msg_reasoning_content := (if signed_text (msg_reasoning_content m) (msg_reasoning_signature m) then msg_reasoning_content m else None),
        msg_reasoning_signature := (if signed_text (msg_reasoning_content m) (msg_reasoning_signature m) then msg_reasoning_signature m else None),
        msg_tool_calls := map (reused_call fr) (msg_tool_calls m), msg_tool_results := map reused_result (msg_tool_results m),
        msg_cache_control := (if content_blocks m \<noteq> [] \<and> truthy_opt (msg_cache_control m) then msg_cache_control m else None)\<rparr>"


lemma take_marked_blocks:
  assumes "list_all (\<lambda>tc. tc_id tc \<noteq> [] \<and> is_dict (tc_arguments tc)) (msg_tool_calls m)"
  shows "dfold (take_block fr uuid) (indexed 0 (mark_last (msg_cache_control m) (content_blocks m))) no_blocks =
    Decoded ((blocks_read fr m)\<lparr>bk_cache_control :=
      (if content_blocks m \<noteq> [] \<and> truthy_opt (msg_cache_control m) then the_any (msg_cache_control m) else JNull)\<rparr>)"
proof (cases "content_blocks m \<noteq> [] \<and> truthy_opt (msg_cache_control m)")
  case True
  define bs b where "bs = butlast (content_blocks m)" and "b = last (content_blocks m)"
  have cb: "content_blocks m = bs @ [b]" using True by (simp add: bs_def b_def)
  have t: "truthy_json (the_any (msg_cache_control m))" using True by (auto simp: truthy_opt_def the_any_def split: option.splits)
  have "dfold (take_block fr uuid) (indexed 0 (bs @ [b])) no_blocks = Decoded (blocks_read fr m)"
    using take_content_blocks [OF assms, of fr uuid 0] unfolding cb .
  then obtain s where s: "dfold (take_block fr uuid) (indexed 0 bs) no_blocks = Decoded s"
      "take_block fr uuid (length bs, b) s = Decoded (blocks_read fr m)"
    by (auto simp: indexed_append dfold_append dbind_Decoded_iff)
  have "mark_last (msg_cache_control m) (content_blocks m) = bs @ [b @ [(''cache_control'', the_any (msg_cache_control m))]]"
    using True by (simp add: mark_last_def bs_def b_def)
  then show ?thesis
    using True by (simp add: indexed_append dfold_append s take_block_marked [OF no_cache_key [of b m] t] cb)
next
  case False
  then have "mark_last (msg_cache_control m) (content_blocks m) = content_blocks m" by (auto simp: mark_last_def)
  with False show ?thesis using take_content_blocks [OF assms, of fr uuid 0] by (auto simp: blocks_read_def)
qed

lemma anthropic_message_wire:
  assumes "anthropic_ready m"
  shows "anthropic_message fr uuid (anthropic_wire_message m) = Decoded (reused_message fr m)"
proof (cases "content_blocks m = []")
  case True
  then show ?thesis
    by (auto simp: anthropic_message_def anthropic_wire_message_def mark_last_def reused_message_def new_message_def or_json_def
        content_blocks_def thinking_wire_def text_wire_def signed_text_def split: if_splits)
next
  case False
  have calls: "list_all (\<lambda>tc. tc_id tc \<noteq> [] \<and> is_dict (tc_arguments tc)) (msg_tool_calls m)" and c: "typed_cache (msg_cache_control m)"
    using assms by (simp_all add: anthropic_ready_def)
  have ne: "mark_last (msg_cache_control m) (content_blocks m) \<noteq> []" using False by (simp add: mark_last_def)
  have cc: "need_opt_dict (if truthy_opt (msg_cache_control m) then the_any (msg_cache_control m) else JNull)
      = Decoded (if truthy_opt (msg_cache_control m) then msg_cache_control m else None)"
    using c by (auto simp: truthy_opt_def the_any_def typed_cache_def is_dict_def need_opt_dict_def split: option.splits json.splits)
  show ?thesis
    using False ne cc
    by (cases "msg_reasoning_content m"; cases "msg_reasoning_signature m")
      (simp_all add: anthropic_message_def anthropic_wire_message_def dicts_of_blocks take_marked_blocks [OF calls] message_of_blocks_def
        join_opt_def join_json_def str_items_def blocks_read_def reused_message_def new_message_def signed_text_def truthy_str_def opt_str_def)
qed

lemma reused_wires:
  "tool_use_wire (reused_call fr tc) = tool_use_wire tc" "tool_result_wire (reused_result tr) = tool_result_wire tr"
  by (simp_all add: tool_use_wire_def reused_call_def new_tool_call_def tool_result_wire_def reused_result_def)

lemma reused_message_wire: "anthropic_wire_message (reused_message fr m) = anthropic_wire_message m"
proof -
  have "content_blocks (reused_message fr m) = content_blocks m"
    by (auto simp: content_blocks_def reused_message_def new_message_def reused_wires comp_def thinking_wire_def signed_text_def truthy_str_def)
  moreover have "msg_role (reused_message fr m) = msg_role m" "msg_content (reused_message fr m) = msg_content m"
    by (simp_all add: reused_message_def new_message_def)
  moreover have "msg_cache_control (reused_message fr m) = (if content_blocks m \<noteq> [] \<and> truthy_opt (msg_cache_control m) then msg_cache_control m else None)"
    by (simp add: reused_message_def)
  moreover have "\<not> truthy_opt None" by (simp add: truthy_opt_def)
  ultimately show ?thesis by (auto simp: anthropic_wire_message_def mark_last_def Let_def)
qed


section \<open>Requests\<close>

lemma anthropic_choice_stable:
  "tool_choice_to_anthropic c = Inr (Some j) \<Longrightarrow> tool_choice_to_anthropic (Some j) = Inr (Some j) \<and> j \<noteq> JNull"
  by (auto simp: tool_choice_to_anthropic_def split: option.splits json.splits if_splits sum.splits)

lemma anthropic_choice_none: "tool_choice_to_anthropic None = Inr None"
  by (simp add: tool_choice_to_anthropic_def)

lemma anthropic_tool_wire:
  assumes "typed_cache (nd_cache_control t)"
  shows "\<exists>kvs. anthropic_wire_tool t = JObj kvs \<and> anthropic_tool kvs =
    Decoded (t\<lparr>nd_cache_control := (if truthy_opt (nd_cache_control t) then nd_cache_control t else None)\<rparr>)"
  using assms
  by (cases "nd_cache_control t")
    (auto simp: anthropic_wire_tool_def anthropic_tool_def dict_get_def truthy_opt_def the_any_def typed_cache_def is_dict_def
      need_opt_dict_def entry_if_def split: json.splits)

lemma anthropic_tools_wire:
  "list_all (\<lambda>t. typed_cache (nd_cache_control t)) ts \<Longrightarrow>
   dmap anthropic_tool (dicts_of (map anthropic_wire_tool ts)) =
     Decoded (map (\<lambda>t. t\<lparr>nd_cache_control := (if truthy_opt (nd_cache_control t) then nd_cache_control t else None)\<rparr>) ts)"
proof (induction ts)
  case (Cons t ts)
  then obtain kvs where "anthropic_wire_tool t = JObj kvs"
      "anthropic_tool kvs = Decoded (t\<lparr>nd_cache_control := (if truthy_opt (nd_cache_control t) then nd_cache_control t else None)\<rparr>)"
    using anthropic_tool_wire by fastforce
  with Cons show ?case by simp
qed simp

lemma anthropic_tools_rewire:
  "anthropic_wire_tool (t\<lparr>nd_cache_control := (if truthy_opt (nd_cache_control t) then nd_cache_control t else None)\<rparr>) = anthropic_wire_tool t"
  by (simp add: anthropic_wire_tool_def truthy_opt_def entry_if_def)

definition system_cache_read :: "normalized_request \<Rightarrow> json option" where
  "system_cache_read rq = (if truthy_opt (rq_system_cache_control rq) then rq_system_cache_control rq else None)"

lemma anthropic_system_wire:
  assumes "typed_cache (rq_system_cache_control rq)" and "truthy_str (rq_system_instruction rq)"
  shows "anthropic_system (the_any (anthropic_wire_system rq)) = Decoded (rq_system_instruction rq, system_cache_read rq)"
proof -
  obtain s where s: "rq_system_instruction rq = Some s" "s \<noteq> []"
    using assms(2) by (cases "rq_system_instruction rq") (auto simp: truthy_str_def)
  show ?thesis
  proof (cases "truthy_opt (rq_system_cache_control rq)")
    case True
    then obtain kvs where "rq_system_cache_control rq = Some (JObj kvs)" "kvs \<noteq> []"
      using assms(1) by (auto simp: truthy_opt_def typed_cache_def is_dict_def split: option.splits json.splits)
    with s show ?thesis
      by (simp add: anthropic_system_def anthropic_wire_system_def truthy_str_def truthy_opt_def the_any_def system_cache_read_def
          dict_get_def join_opt_def join_json_def str_items_def opt_str_def)
  next
    case False
    with s show ?thesis
      by (simp add: anthropic_system_def anthropic_wire_system_def truthy_str_def the_any_def system_cache_read_def opt_str_def)
  qed
qed

text \<open>
  Requests the translator writes without loss: calls have identifiers and dictionaries as arguments, cache marks
  are dictionaries, and a system prompt is in its own field.
\<close>

definition anthropic_request_ready :: "normalized_request \<Rightarrow> bool" where
  "anthropic_request_ready rq =
     (list_all anthropic_ready (rq_messages rq) \<and> list_all (\<lambda>t. typed_cache (nd_cache_control t)) (rq_tools rq)
      \<and> typed_cache (rq_system_cache_control rq)
      \<and> (truthy_str (rq_system_instruction rq) \<or> (\<forall>m \<in> set (rq_messages rq). msg_role m \<noteq> ''system'')))"

text \<open>
  C26: The same for the Anthropic format: what is written can be read back, and writing what was read gives the
  request that would have been written in the first place, with the thinking blocks and their signatures, the
  tool results and their error flags, and the cache marks.
\<close>

theorem anthropic_request_stable:
  assumes ready: "anthropic_request_ready rq" and body: "ir_to_anthropic_request rq model = Inr body"
  shows "\<exists>rq'. anthropic_request_to_ir fr req_uuid uuid body = Decoded rq' \<and> rq_model rq' = model
    \<and> (\<forall>model'. ir_to_anthropic_request rq' model' = ir_to_anthropic_request rq model')"
proof -
  define own where "own = truthy_str (rq_system_instruction rq)"
  define turns where "turns = filter (\<lambda>m. msg_role m \<noteq> ''system'') (rq_messages rq)"
  obtain choice where c: "(if rq_tools rq = [] then Inr None else tool_choice_to_anthropic (rq_tool_choice rq)) = Inr choice"
    using body by (auto simp: ir_to_anthropic_request_def split: sum.splits)
  have stable: "tool_choice_to_anthropic choice = Inr choice" "choice \<noteq> Some JNull" "rq_tools rq = [] \<Longrightarrow> choice = None"
    using c anthropic_choice_none anthropic_choice_stable [of "rq_tool_choice rq"] by (cases choice; auto split: if_splits)+
  have nosys: "\<not> own \<Longrightarrow> anthropic_wire_system rq = None"
    using ready by (auto simp: own_def anthropic_request_ready_def anthropic_wire_system_def find_None_iff)
  have entries: "ir_to_anthropic_request rq model' = Inr (JObj ([(''model'', JStr model'), (''messages'', JArr (map anthropic_wire_message turns))]
       @ entry_if own ''system'' (the_any (anthropic_wire_system rq))
       @ entry_if (rq_max_output_tokens rq \<notin> {None, Some 0}) ''max_tokens'' (JInt (the (rq_max_output_tokens rq)))
       @ entry_if (rq_temperature rq \<noteq> None) ''temperature'' (JFloat (the (rq_temperature rq)))
       @ entry_if (rq_stream rq) ''stream'' (JBool True)
       @ entry_if (rq_tools rq \<noteq> []) ''tools'' (JArr (map anthropic_wire_tool (rq_tools rq)))
       @ entry_if (choice \<noteq> None) ''tool_choice'' (the_any choice)))" for model'
    using nosys by (cases own) (simp_all add: ir_to_anthropic_request_def c own_def turns_def Let_def)
  define rq' where "rq' =
     \<lparr>rq_request_id = ''req_'' @ take 12 req_uuid, rq_model = model, rq_messages = map (reused_message fr) turns,
      rq_system_instruction = (if own then rq_system_instruction rq else None),
      rq_system_cache_control = (if own then system_cache_read rq else None),
      rq_tools = map (\<lambda>t. t\<lparr>nd_cache_control := (if truthy_opt (nd_cache_control t) then nd_cache_control t else None)\<rparr>) (rq_tools rq),
      rq_tool_choice = choice,
      rq_max_output_tokens = (if rq_max_output_tokens rq = Some 0 then None else rq_max_output_tokens rq),
      rq_temperature = rq_temperature rq, rq_stream = rq_stream rq, rq_metadata = []\<rparr>"
  have msgs: "dmap (\<lambda>(i, msg). anthropic_message fr (uuid i) msg) (indexed 0 (map anthropic_wire_message turns)) = Decoded (map (reused_message fr) turns)"
    by (rule dmap_indexed) (use ready in \<open>auto simp: anthropic_request_ready_def turns_def list_all_iff intro: anthropic_message_wire\<close>)
  have tools: "dmap anthropic_tool (dicts_of (map anthropic_wire_tool (rq_tools rq))) = Decoded (rq_tools rq')"
    using ready by (simp add: rq'_def anthropic_tools_wire anthropic_request_ready_def)
  have sys: "anthropic_system (if own then the_any (anthropic_wire_system rq) else JNull)
      = Decoded (rq_system_instruction rq', rq_system_cache_control rq')"
    using ready anthropic_system_wire [of rq] by (simp add: rq'_def own_def anthropic_request_ready_def anthropic_system_def)
  have "anthropic_request_to_ir fr req_uuid uuid body = Decoded rq'"
    using sys tools body [unfolded entries, symmetric] stable(2)
    by (cases "rq_max_output_tokens rq"; cases "rq_temperature rq"; cases choice; cases own; cases "rq_tools rq = []")
      (simp_all add: anthropic_request_to_ir_def msgs any_opt_def the_any_def del: map_of_append, simp_all add: rq'_def)
  moreover have "ir_to_anthropic_request rq' model' = ir_to_anthropic_request rq model'" for model'
  proof -
    have role: "msg_role (reused_message fr m) = msg_role m" for m by (simp add: reused_message_def new_message_def)
    have turns: "filter (\<lambda>m. msg_role m \<noteq> ''system'') (rq_messages rq') = rq_messages rq'"
      by (auto simp: rq'_def filter_id_conv role turns_def)
    have "map anthropic_wire_message (rq_messages rq') = map anthropic_wire_message turns"
      by (simp add: rq'_def reused_message_wire)
    moreover have "map anthropic_wire_tool (rq_tools rq') = map anthropic_wire_tool (rq_tools rq)"
      by (simp add: rq'_def anthropic_tools_rewire)
    moreover have "(if rq_tools rq' = [] then Inr None else tool_choice_to_anthropic (rq_tool_choice rq')) = Inr choice"
      using stable by (simp add: rq'_def)
    moreover have "find (\<lambda>m. msg_role m = ''system'') (rq_messages rq') = None"
      by (auto simp: find_None_iff rq'_def role turns_def)
    then have "truthy_str (rq_system_instruction rq') = own" "own \<Longrightarrow> anthropic_wire_system rq' = anthropic_wire_system rq"
        "\<not> own \<Longrightarrow> anthropic_wire_system rq' = None"
      by (auto simp: rq'_def own_def anthropic_wire_system_def system_cache_read_def truthy_str_def truthy_opt_def)
    moreover have "rq_tools rq' = [] \<longleftrightarrow> rq_tools rq = []" by (simp add: rq'_def)
    ultimately show ?thesis unfolding entries
      by (cases own; cases "rq_max_output_tokens rq")
        (simp_all add: ir_to_anthropic_request_def turns Let_def, simp_all add: rq'_def)
  qed
  ultimately show ?thesis by (intro exI [where x = rq']) (simp add: rq'_def)
qed


definition sample_turns :: normalized_request where
  "sample_turns =
     (new_request ''r1''
        [(new_message ''user'' ''list files'')\<lparr>msg_cache_control := Some (JObj [(''type'', JStr ''ephemeral'')])\<rparr>,
         (new_message ''assistant'' ''on it'')
           \<lparr>msg_reasoning_content := Some ''why'', msg_reasoning_signature := Some ''sig'',
            msg_tool_calls := [\<lparr>tc_id = ''c1'', tc_name = ''ls'', tc_arguments = JObj [], tc_raw_arguments = [], tc_metadata = []\<rparr>]\<rparr>,
         (new_message ''user'' [])
           \<lparr>msg_tool_results := [\<lparr>nr_tool_call_id = ''c1'', nr_tool_name = None, nr_content = ''a.py'', nr_is_error = True\<rparr>]\<rparr>])
     \<lparr>rq_system_instruction := Some ''be brief'', rq_max_output_tokens := Some 100\<rparr>"

theorem anthropic_request_stable_witness:
  "\<exists>body rq'. ir_to_anthropic_request sample_turns ''claude'' = Inr body
    \<and> anthropic_request_to_ir (\<lambda>_. ''0.5'') ''u'' (\<lambda>_ _. ''v'') body = Decoded rq' \<and> rq_model rq' = ''claude''
    \<and> (\<forall>model'. ir_to_anthropic_request rq' model' = ir_to_anthropic_request sample_turns model')"
proof -
  have "anthropic_request_ready sample_turns"
    by (simp add: sample_turns_def anthropic_request_ready_def anthropic_ready_def typed_cache_def new_request_def new_message_def
        is_dict_def truthy_str_def)
  moreover obtain body where "ir_to_anthropic_request sample_turns ''claude'' = Inr body"
    by (simp add: ir_to_anthropic_request_def sample_turns_def new_request_def Let_def)
  ultimately show ?thesis
    using anthropic_request_stable [of sample_turns "''claude''" body "\<lambda>_. ''0.5''" "''u''" "\<lambda>_ _. ''v''"] by blast
qed

section \<open>Tool turns between protocols\<close>

text \<open>
  Tool turns change when they cross protocols.  The tool message of an OpenAI client goes to Anthropic with
  the role \<open>tool\<close>, which that API does not have, and with its text twice.  The user turn of an Anthropic client
  that brings a tool result and a remark goes to an OpenAI provider with the remark first, between the call and
  its result, and to Gemini as the answer of a function named \<open>tool\<close>, whatever the function was.
\<close>

theorem tool_turns_cross_protocols:
  "(\<exists>m. openai_message fr uuid (JObj [(''role'', JStr ''tool''), (''tool_call_id'', JStr i), (''content'', JStr (c # cs))]) = Decoded m
      \<and> anthropic_wire_message m = JObj [(''role'', JStr ''tool''),
          (''content'', JArr [JObj [(''type'', JStr ''text''), (''text'', JStr (c # cs))],
             JObj [(''type'', JStr ''tool_result''), (''tool_use_id'', JStr i), (''content'', JStr (c # cs)), (''is_error'', JBool False)]])])
   \<and> (\<exists>m. anthropic_message fr uuid (JObj [(''role'', JStr ''user''), (''content'', JArr
          [JObj [(''type'', JStr ''tool_result''), (''tool_use_id'', JStr i), (''content'', JStr r)],
           JObj [(''type'', JStr ''text''), (''text'', JStr (t # ts))]])]) = Decoded m
      \<and> (\<exists>result. openai_wire_message fr names m = [JObj [(''role'', JStr ''user''), (''content'', JStr (t # ts))], result]
            \<and> fetch result ''role'' JNull = Decoded (JStr ''tool'') \<and> fetch result ''tool_call_id'' JNull = Decoded (JStr i))
      \<and> gemini_wire_message m = [gemini_turn ''user'' [text_part (t # ts), response_part (Some ''tool'') r]])"
  by (simp add: openai_message_def openai_calls_def or_json_def anthropic_wire_message_def content_blocks_def thinking_wire_def text_wire_def
      tool_result_wire_def mark_last_def truthy_opt_def anthropic_message_def take_block_def dict_get_def tool_result_block_def
      result_text_def no_blocks_def message_of_blocks_def join_opt_def join_json_def str_items_def new_message_def openai_wire_message_def
      openai_wire_result_def gemini_wire_message_def result_part_def response_part_def truthy_str_def Let_def)

end
