(* ===== verification/GeminiTheorems.thy ===== *)
theory GeminiTheorems
  imports OpenAiTheorems
begin

text \<open>What reaches Gemini: the shape of sanitised schemas and the identifiers of calls.\<close>

section \<open>Schemas\<close>

text \<open>
  The schemas Gemini's declaration of functions knows: six keys, a type at every level; with \<open>False\<close> the map of the
  properties of a schema.
\<close>

definition GEMINI_KEYS :: "string list" where
  "GEMINI_KEYS = [''type'', ''properties'', ''items'', ''required'', ''description'', ''enum'']"

fun schema_ok :: "bool \<Rightarrow> json \<Rightarrow> bool" where
  "schema_ok True (JObj kvs) =
     (''type'' \<in> set (map fst kvs)
      \<and> list_all (\<lambda>(k, v). k \<in> set GEMINI_KEYS \<and> (k = ''type'' \<longrightarrow> (case v of JStr _ \<Rightarrow> True | _ \<Rightarrow> False))
           \<and> (k = ''properties'' \<longrightarrow> is_dict v \<and> schema_ok False v) \<and> (k = ''items'' \<longrightarrow> schema_ok True v)) kvs)"
| "schema_ok False (JObj kvs) = list_all (\<lambda>(k, v). schema_ok True v) kvs"
| "schema_ok b j = True"

definition entry_ok :: "string \<times> json \<Rightarrow> bool" where
  "entry_ok kv = (case kv of (k, v) \<Rightarrow> k \<in> set GEMINI_KEYS \<and> (k = ''type'' \<longrightarrow> (case v of JStr _ \<Rightarrow> True | _ \<Rightarrow> False))
     \<and> (k = ''properties'' \<longrightarrow> is_dict v \<and> schema_ok False v) \<and> (k = ''items'' \<longrightarrow> schema_ok True v))"

lemma schema_ok_obj: "schema_ok True (JObj kvs) = (''type'' \<in> set (map fst kvs) \<and> list_all entry_ok kvs)"
  by (auto simp: entry_ok_def list_all_iff)

lemma map_sum_Inr: "map_sum id f r = Inr y \<longleftrightarrow> (\<exists>x. r = Inr x \<and> y = f x)"
  by (cases r) auto

lemma clean_entry_cases:
  assumes "clean_entry rec fr (k, v) = Inr es"
  obtains "es = []" | t where "k = ''type''" "es = [(k, JStr t)]"
    | ps qs where "k = ''properties''" "v = JObj ps" "rmap (\<lambda>(pk, pv). map_sum id (Pair pk) (rec pv)) ps = Inr qs" "es = [(k, JObj qs)]"
    | w where "k = ''items''" "is_dict v" "rec v = Inr w" "es = [(k, w)]"
    | w where "k \<in> {''required'', ''enum'', ''description''}" "es = [(k, w)]"
  using assms unfolding clean_entry_def prod.case
  by (cases v) (auto simp: map_sum_Inr is_dict_def simp del: split_paired_Ex split: if_split_asm)

lemma rmap_preimage: "rmap f xs = Inr ys \<Longrightarrow> y \<in> set ys \<Longrightarrow> \<exists>x \<in> set xs. f x = Inr y"
  by (induction xs arbitrary: ys) (auto split: sum.splits)

lemma entry_ok_simps [simp]:
  "entry_ok (''type'', JStr t)" "entry_ok (''items'', v) = schema_ok True v"
  "entry_ok (''properties'', JObj qs) = (\<forall>q \<in> set qs. schema_ok True (snd q))"
  "entry_ok (''required'', v)" "entry_ok (''enum'', v)" "entry_ok (''description'', v)"
  by (simp_all add: entry_ok_def GEMINI_KEYS_def is_dict_def list_all_iff case_prod_beta)

lemma clean_entry_ok:
  assumes "clean_entry rec fr (k, v) = Inr es" and rec: "\<And>x y. x \<in> set (sub_schemas v) \<Longrightarrow> rec x = Inr y \<Longrightarrow> schema_ok True y"
  shows "list_all entry_ok es"
  using assms(1)
proof (cases rule: clean_entry_cases)
  case (3 ps qs)
  have "schema_ok True (snd q)" if q: "q \<in> set qs" for q
  proof -
    obtain p where p: "p \<in> set ps" "map_sum id (Pair (fst p)) (rec (snd p)) = Inr q"
      using rmap_preimage [OF 3(3) q] by (auto simp: case_prod_beta)
    have "rec (snd p) = Inr (snd q)" using p(2) by (auto simp: map_sum_Inr)
    moreover have "snd p \<in> set (sub_schemas v)" using p(1) 3(2) by (simp add: sub_schemas_def)
    ultimately show ?thesis by (rule rec [rotated])
  qed
  with 3 show ?thesis by simp
next
  case (4 w)
  have "v \<in> set (sub_schemas v)" using 4(2) by (simp add: sub_schemas_def is_dict_def split: json.splits)
  then have "schema_ok True w" using 4(3) by (rule rec)
  with 4 show ?thesis by simp
next
  case (5 w)
  then show ?thesis by (elim insertE) simp_all
qed simp_all

lemma clean_schema_ref:
  "map_of kvs ''$ref'' = Some (JStr ref) \<Longrightarrow> clean_schema fr defs depth (JObj kvs) =
     (case resolve_local_ref ref defs of
        None \<Rightarrow> Inr (JObj [(''type'', JStr ''OBJECT'')])
      | Some target \<Rightarrow> if depth \<ge> MAX_REF_DEPTH then Inr (JObj [(''type'', JStr ''OBJECT'')])
          else clean_schema fr defs (depth + 1) (JObj (dict_merge target (filter (\<lambda>(k, v). k \<noteq> ''$ref'') kvs))))"
  by (subst clean_schema.simps) simp

lemma clean_schema_entries:
  "\<nexists>ref. map_of kvs ''$ref'' = Some (JStr ref) \<Longrightarrow> clean_schema fr defs depth (JObj kvs) =
     map_sum id (\<lambda>es. JObj (ensure_type (concat es))) (rmap (clean_entry (clean_schema fr defs (depth + 1)) fr) kvs)"
  by (subst clean_schema.simps) (auto split: option.split json.split)

lemma clean_schema_other: "\<not> is_dict s \<Longrightarrow> clean_schema fr defs depth s = Inr s"
  by (subst clean_schema.simps) (auto simp: is_dict_def split: json.split)

lemma schema_induct:
  assumes "\<And>depth s. (\<And>t. depth < MAX_REF_DEPTH \<Longrightarrow> P (depth + 1) t) \<Longrightarrow> (\<And>t. size t < size s \<Longrightarrow> P (depth + 1) t) \<Longrightarrow> P depth s"
  shows "P depth (s :: json)"
proof -
  let ?r = "inv_image (less_than <*lex*> less_than) (\<lambda>(depth, s :: json). (MAX_REF_DEPTH - depth, size s))"
  have "wf ?r" by (simp add: wf_lex_prod)
  then have "P (fst p) (snd p)" for p
  proof (induction p rule: wf_induct_rule)
    case (less p)
    show ?case by (rule assms; rule less [of "(_, _)", simplified fst_conv snd_conv]) (auto simp: case_prod_beta)
  qed
  from this [of "(depth, s)"] show ?thesis by simp
qed

lemma bare_ok: "schema_ok True (JObj [(''type'', JStr ''OBJECT'')])"
  by (simp add: schema_ok_obj del: schema_ok.simps)

lemma clean_entries_ok:
  assumes es: "rmap (clean_entry rec fr) kvs = Inr es"
    and rec: "\<And>k v x y. (k, v) \<in> set kvs \<Longrightarrow> x \<in> set (sub_schemas v) \<Longrightarrow> rec x = Inr y \<Longrightarrow> schema_ok True y"
  shows "schema_ok True (JObj (ensure_type (concat es)))"
proof -
  have "list_all entry_ok e" if e: "e \<in> set es" for e
  proof -
    obtain k v where kv: "(k, v) \<in> set kvs" "clean_entry rec fr (k, v) = Inr e"
      using rmap_preimage [OF es e] by (metis surj_pair)
    show ?thesis by (rule clean_entry_ok [OF kv(2)]) (rule rec [OF kv(1)])
  qed
  then have "list_all entry_ok (concat es)" by (auto simp: list_all_iff)
  then show ?thesis unfolding schema_ok_obj by (auto simp: ensure_type_def)
qed

lemma clean_schema_ok: "clean_schema fr defs depth s = Inr s' \<Longrightarrow> schema_ok True s'"
proof (induction depth s arbitrary: s' rule: schema_induct)
  case (1 depth s)
  show ?case
  proof (cases s)
    case (JObj kvs)
    show ?thesis
    proof (cases "\<exists>ref. map_of kvs ''$ref'' = Some (JStr ref)")
      case True
      then obtain ref where "map_of kvs ''$ref'' = Some (JStr ref)" ..
      from 1(3) [unfolded JObj clean_schema_ref [OF this]] 1(1) bare_ok show ?thesis
        by (auto simp del: schema_ok.simps split: option.splits if_splits)
    next
      case False
      from 1(3) [unfolded JObj clean_schema_entries [OF False]] obtain es
        where es: "rmap (clean_entry (clean_schema fr defs (depth + 1)) fr) kvs = Inr es" "s' = JObj (ensure_type (concat es))"
        by (auto simp: map_sum_Inr simp del: schema_ok.simps)
      show ?thesis unfolding es(2)
        by (rule clean_entries_ok [OF es(1)], rule 1(2), unfold JObj, rule size_sub [of "(k, v)" for k v], assumption, simp)
    qed
  qed (use 1(3) in \<open>auto simp: clean_schema_other is_dict_def\<close>)
qed


lemma rmap_defined_at: "rmap f xs = Inr ys \<Longrightarrow> x \<in> set xs \<Longrightarrow> \<exists>y. f x = Inr y"
  by (induction xs arbitrary: ys) (auto split: sum.splits)

lemma clean_entry_keys: "clean_entry rec fr (k, v) = Inr es \<Longrightarrow> k' \<noteq> k \<Longrightarrow> map_of (es @ rest) k' = map_of rest k'"
  by (erule clean_entry_cases) simp_all

lemma cleaned_lookup:
  "rmap (clean_entry rec fr) kvs = Inr es \<Longrightarrow> distinct (map fst kvs) \<Longrightarrow> map_of kvs k = Some v \<Longrightarrow>
   clean_entry rec fr (k, v) = Inr [(k, w)] \<Longrightarrow> map_of (ensure_type (concat es)) k = Some w"
proof -
  assume *: "rmap (clean_entry rec fr) kvs = Inr es" "distinct (map fst kvs)" "map_of kvs k = Some v" "clean_entry rec fr (k, v) = Inr [(k, w)]"
  have "map_of (concat es) k = Some w"
    using *
  proof (induction kvs arbitrary: es)
    case (Cons kv kvs)
    obtain k0 v0 where kv: "kv = (k0, v0)" by (cases kv)
    with Cons.prems(1) obtain e es' where e: "clean_entry rec fr (k0, v0) = Inr e" "rmap (clean_entry rec fr) kvs = Inr es'" "es = e # es'"
      by (auto split: sum.splits)
    show ?case
    proof (cases "k0 = k")
      case True
      with Cons.prems e kv have "es = [(k, w)] # es'" by simp
      then show ?thesis by simp
    next
      case False
      with Cons.IH [OF e(2)] Cons.prems kv e(3) clean_entry_keys [OF e(1), of k "concat es'"] show ?thesis by simp
    qed
  qed simp
  then show ?thesis by (simp add: ensure_type_def)
qed

lemma cleaned_names: "rmap (\<lambda>(pk, pv). map_sum id (Pair pk) (rec pv)) ps = Inr qs \<Longrightarrow> map fst qs = map fst ps"
  by (induction ps arbitrary: qs) (auto simp: map_sum_Inr split: sum.splits)

lemma clean_entry_properties:
  assumes "clean_entry rec fr (''properties'', JObj ps) = Inr e"
  obtains qs where "e = [(''properties'', JObj qs)]" "map fst qs = map fst ps"
  using assms cleaned_names by (auto simp: clean_entry_def map_sum_Inr GEMINI_PROHIBITED_KEYS_def)

lemma clean_entry_required:
  "clean_entry rec fr (''required'', JArr rs) = Inr [(''required'', JArr (map (\<lambda>x. JStr (str_json fr x)) rs))]"
  by (simp add: clean_entry_def GEMINI_PROHIBITED_KEYS_def)


definition sample_schema :: json where
  "sample_schema = JObj [(''$defs'', JObj [(''node'', JObj [(''type'', JStr ''object''), (''title'', JStr ''Node''),
        (''properties'', JObj [(''next'', JObj [(''$ref'', JStr ''#/$defs/node'')])])])]),
      (''properties'', JObj [(''title'', JObj [(''type'', JArr [JStr ''null'', JStr ''string''])]), (''root'', JObj [(''$ref'', JStr ''#/$defs/node'')])]),
      (''required'', JArr [JStr ''title''])]"


end
