(* ===== verification/Pruner.thy ===== *)
theory Pruner
  imports Context Gemini
begin

text \<open>
  \<^verbatim>\<open>pruner.py\<close>: the pruning of OpenAI and Anthropic payloads.  A payload is a JSON object; the in-place changes
  of the deep copy become the payload returned.  As elsewhere the length of a text is that of its UTF-8 bytes.
\<close>

section \<open>Payloads\<close>

definition payload_tokens :: "(rat \<Rightarrow> string) \<Rightarrow> json \<Rightarrow> int" where
  "payload_tokens fr payload =
     max 1 ((int (case payload of JStr s \<Rightarrow> length s | _ \<Rightarrow> length (dumps fr payload)) + 3) div 4)"

definition set_key :: "string \<Rightarrow> json \<Rightarrow> json \<Rightarrow> json" where
  "set_key k v j = (case j of JObj kvs \<Rightarrow> JObj (AList.update k v kvs) | _ \<Rightarrow> j)"

definition with_messages :: "json \<Rightarrow> json list \<Rightarrow> json" where
  "with_messages req ms = set_key ''messages'' (JArr ms) req"

definition role_is :: "string list \<Rightarrow> json \<Rightarrow> bool result" where
  "role_is roles msg = map_sum id (\<lambda>r. case r of Some (JStr s) \<Rightarrow> s \<in> set roles | _ \<Rightarrow> False) (json_get msg ''role'')"

text \<open>\<open>req.get("messages", [])\<close>.  The payloads are those of the translators, whose messages are a list; any other is rejected here.\<close>

definition messages_of :: "json \<Rightarrow> json list result" where
  "messages_of req =
     (case get_or req ''messages'' (JArr []) of Inl e \<Rightarrow> Inl e | Inr (JArr ms) \<Rightarrow> Inr ms | Inr _ \<Rightarrow> Inl TypeError)"

definition compact_str :: "(rat \<Rightarrow> string) \<Rightarrow> nat \<Rightarrow> nat \<Rightarrow> json \<Rightarrow> json" where
  "compact_str fr limit n v = (case v of JStr s \<Rightarrow> if length s > limit then JStr (extract_diagnostic_summary fr s n) else v | _ \<Rightarrow> v)"

definition over_key :: "string \<Rightarrow> (json \<Rightarrow> json) \<Rightarrow> json \<Rightarrow> json" where
  "over_key k f j = (case j of JObj kvs \<Rightarrow> (case map_of kvs k of None \<Rightarrow> j | Some v \<Rightarrow> JObj (AList.update k (f v) kvs)) | _ \<Rightarrow> j)"

text \<open>The parts of a content list that are dictionaries of a type.\<close>

definition typed_part :: "string \<Rightarrow> json \<Rightarrow> bool" where
  "typed_part ty p = (case p of JObj kvs \<Rightarrow> map_of kvs ''type'' = Some (JStr ty) | _ \<Rightarrow> False)"

definition on_parts :: "(json \<Rightarrow> json) \<Rightarrow> json \<Rightarrow> json" where
  "on_parts f c = (case c of JArr ps \<Rightarrow> JArr (map f ps) | _ \<Rightarrow> c)"

section \<open>Eviction\<close>

text \<open>\<open>while len(messages) > start + tail and estimate > target: messages.pop(start)\<close>; \<open>too_big\<close> is the second test.\<close>

function evict_at :: "(json list \<Rightarrow> bool) \<Rightarrow> nat \<Rightarrow> nat \<Rightarrow> json list \<Rightarrow> json list" where
  "evict_at too_big start tail ms =
     (if length ms > start + tail \<and> too_big ms then evict_at too_big start tail (take start ms @ drop (Suc start) ms) else ms)"
  by pat_completeness auto
termination
  by (relation "measure (\<lambda>(tb, s, t, ms). length ms)") auto

declare evict_at.simps [simp del]

text \<open>The tail shrinks by two while the payload is too big and the tail longer than \<open>min_tail\<close>.\<close>

function shrink_tail :: "(json list \<Rightarrow> bool) \<Rightarrow> nat \<Rightarrow> nat \<Rightarrow> nat \<Rightarrow> json list \<Rightarrow> json list" where
  "shrink_tail too_big start min_tail tail ms =
     (if tail > min_tail \<and> too_big ms
      then shrink_tail too_big start min_tail (tail - 2) (evict_at too_big start (tail - 2) ms) else ms)"
  by pat_completeness auto
termination
  by (relation "measure (\<lambda>(tb, s, f, t, ms). t)") auto

declare shrink_tail.simps [simp del]

section \<open>OpenAI\<close>

text \<open>A payload of at most two messages: only long texts are summarised.\<close>

definition prune_short :: "(rat \<Rightarrow> string) \<Rightarrow> json \<Rightarrow> json result" where
  "prune_short fr msg =
     map_sum id (\<lambda>b. if b then over_key ''content'' (\<lambda>c. case c of
           JArr _ \<Rightarrow> on_parts (\<lambda>p. if typed_part ''tool_result'' p then over_key ''content'' (compact_str fr 1000 800) p else p) c
         | _ \<Rightarrow> compact_str fr 2000 1500 c) msg else msg)
       (role_is [''tool'', ''user''] msg)"

text \<open>Step 1: tool results, those of the last two messages less.\<close>

definition prune_tool_message :: "(rat \<Rightarrow> string) \<Rightarrow> nat \<Rightarrow> nat \<times> json \<Rightarrow> json result" where
  "prune_tool_message fr cutoff im =
     (case im of (idx, msg) \<Rightarrow>
        map_sum id (\<lambda>b. if b then over_key ''content'' (if idx < cutoff then compact_str fr 400 300 else compact_str fr 1200 800) msg else msg)
          (role_is [''tool''] msg))"

text \<open>Step 4: assistant texts, all but the last message.\<close>

definition prune_assistant :: "(rat \<Rightarrow> string) \<Rightarrow> json \<Rightarrow> json result" where
  "prune_assistant fr msg =
     map_sum id (\<lambda>b. if b then over_key ''content'' (compact_str fr 400 300) msg else msg) (role_is [''assistant''] msg)"

text \<open>Steps 2 to 4 on the messages after step 1.\<close>

definition prune_window :: "(rat \<Rightarrow> string) \<Rightarrow> (json list \<Rightarrow> bool) \<Rightarrow> nat \<Rightarrow> nat \<Rightarrow> json list \<Rightarrow> json list result" where
  "prune_window fr too_big start min_tail ms =
     (if \<not> too_big ms then Inr ms
      else
        let ms2 = evict_at too_big start 6 ms in
        if \<not> too_big ms2 then Inr ms2
        else
          let ms3 = shrink_tail too_big start min_tail 6 ms2 in
          if \<not> too_big ms3 then Inr ms3
          else map_sum id (\<lambda>mid. take start ms3 @ mid @ drop (max start (length ms3 - 1)) ms3)
                 (rmap (prune_assistant fr) (drop start (take (length ms3 - 1) ms3))))"

definition prune_openai_messages ::
  "(rat \<Rightarrow> string) \<Rightarrow> (json list \<Rightarrow> bool) \<Rightarrow> nat \<Rightarrow> json list \<Rightarrow> json list result" where
  "prune_openai_messages fr too_big min_tail ms =
     (if length ms \<le> 2 then rmap (prune_short fr) ms
      else case role_is [''system''] (hd ms) of
             Inl e \<Rightarrow> Inl e
           | Inr sys \<Rightarrow>
               let start = (if sys then 2 else 1); cutoff = max start (length ms - 2) in
               (case rmap (prune_tool_message fr cutoff) (indexed start (drop start ms)) of
                  Inl e \<Rightarrow> Inl e
                | Inr rest \<Rightarrow> prune_window fr too_big start min_tail (take start ms @ rest)))"

definition prune_target :: "int \<Rightarrow> int \<Rightarrow> int" where
  "prune_target max_context_tokens margin = max 512 (max_context_tokens - margin)"

definition prune_openai_request :: "(rat \<Rightarrow> string) \<Rightarrow> int \<Rightarrow> int \<Rightarrow> nat \<Rightarrow> json \<Rightarrow> json result" where
  "prune_openai_request fr max_context_tokens margin min_tail request =
     (let target = prune_target max_context_tokens margin in
      if payload_tokens fr request \<le> target then Inr request
      else case messages_of request of
             Inl e \<Rightarrow> Inl e
           | Inr ms \<Rightarrow>
               if ms = [] then Inr request
               else map_sum id (with_messages request)
                      (prune_openai_messages fr (\<lambda>ms. payload_tokens fr (with_messages request ms) > target) min_tail ms))"

definition FREE_TIER_TPM_LIMIT :: int where
  "FREE_TIER_TPM_LIMIT = 12000"

definition prune_for_free_tpm :: "(rat \<Rightarrow> string) \<Rightarrow> int \<Rightarrow> int \<Rightarrow> json \<Rightarrow> json result" where
  "prune_for_free_tpm fr tpm_limit margin request =
     (if payload_tokens fr request > tpm_limit then prune_openai_request fr tpm_limit margin 2 request else Inr request)"

section \<open>Anthropic\<close>

definition COMPACTED :: string where
  "COMPACTED = Context.NL @ ''... [Output compacted by DuraLLM to fit context window] ...'' @ Context.NL"

definition cut_middle :: "json \<Rightarrow> json" where
  "cut_middle v = (case v of JStr s \<Rightarrow> if length s > 600 then JStr (take 250 s @ COMPACTED @ drop (length s - 250) s) else v | _ \<Rightarrow> v)"

definition prune_old_results :: "json \<Rightarrow> json result" where
  "prune_old_results msg =
     map_sum id (\<lambda>_. over_key ''content'' (on_parts (\<lambda>b. if typed_part ''tool_result'' b then over_key ''content'' cut_middle b else b)) msg)
       (json_get msg ''content'')"

definition prune_anthropic_request :: "(rat \<Rightarrow> string) \<Rightarrow> int \<Rightarrow> int \<Rightarrow> json \<Rightarrow> json result" where
  "prune_anthropic_request fr max_context_tokens margin request =
     (let target = prune_target max_context_tokens margin in
      if payload_tokens fr request \<le> target then Inr request
      else case messages_of request of
             Inl e \<Rightarrow> Inl e
           | Inr ms \<Rightarrow>
               if length ms \<le> 4 then Inr request
               else
                 case (if length ms > 7
                       then map_sum id (\<lambda>old. take 1 ms @ old @ drop (length ms - 6) ms)
                              (rmap prune_old_results (drop 1 (take (length ms - 6) ms)))
                       else Inr ms) of
                   Inl e \<Rightarrow> Inl e
                 | Inr ms1 \<Rightarrow>
                     Inr (with_messages request
                            (evict_at (\<lambda>ms. payload_tokens fr (with_messages request ms) > target) 1 7 ms1)))"

section \<open>Groq\<close>

definition compact_tool_description :: "nat \<Rightarrow> string \<Rightarrow> string" where
  "compact_tool_description n d =
     (if length d > n then (let first_sent = before_sep ''. '' d @ ''.'' in if length first_sent \<le> n then first_sent else take n d) else d)"

definition on_str :: "(string \<Rightarrow> string) \<Rightarrow> json \<Rightarrow> json" where
  "on_str f v = (case v of JStr s \<Rightarrow> JStr (f s) | _ \<Rightarrow> v)"

definition on_values :: "(json \<Rightarrow> json) \<Rightarrow> json \<Rightarrow> json" where
  "on_values f v = (case v of JObj ps \<Rightarrow> JObj (map (\<lambda>(k, x). (k, f x)) ps) | _ \<Rightarrow> v)"

definition compact_tool_definition :: "nat \<Rightarrow> nat \<Rightarrow> json \<Rightarrow> json" where
  "compact_tool_definition max_desc max_param t =
     over_key ''function'' (\<lambda>fn.
       over_key ''parameters'' (over_key ''properties'' (on_values (over_key ''description'' (on_str (take max_param)))))
         (over_key ''description'' (on_str (compact_tool_description max_desc)) fn)) t"

definition compact_tool_definitions :: "nat \<Rightarrow> nat \<Rightarrow> json list \<Rightarrow> json list" where
  "compact_tool_definitions max_desc max_param = map (compact_tool_definition max_desc max_param)"

text \<open>Steps 1 and 2: the tools, then the system prompt; the flag says that the payload fits.\<close>

definition groq_tools :: "json \<Rightarrow> json" where
  "groq_tools req =
     over_key ''tools'' (\<lambda>v. case v of JArr ts \<Rightarrow> JArr (compact_tool_definitions 150 60 ts) | _ \<Rightarrow> v) req"

definition condensed_prompt :: "string \<Rightarrow> string" where
  "condensed_prompt s =
     (let condensed = join Context.NL (nonblank (splitlines s)) in
      if length condensed > 1800
      then take 1800 condensed @ Context.NL @ ''... [System prompt formatting rules compacted for Groq execution] ...''
      else condensed)"

definition groq_system :: "json list \<Rightarrow> json list result" where
  "groq_system ms =
     (case ms of
        [] \<Rightarrow> Inr []
      | m # rest \<Rightarrow>
          map_sum id (\<lambda>sys. (if sys then over_key ''content'' (\<lambda>c. case c of
              JStr s \<Rightarrow> if length s > 1500 then JStr (condensed_prompt s) else c | _ \<Rightarrow> c) m else m) # rest) (role_is [''system''] m))"

text \<open>\<open>len(v) > n\<close> and then a summary: a number has no length, and a long list has no lines.\<close>

definition summarise :: "(rat \<Rightarrow> string) \<Rightarrow> nat \<Rightarrow> nat \<Rightarrow> json \<Rightarrow> json result" where
  "summarise fr limit n v =
     (case v of
        JStr s \<Rightarrow> Inr (compact_str fr limit n v)
      | JArr xs \<Rightarrow> if length xs > limit then Inl AttributeError else Inr v
      | JObj kvs \<Rightarrow> if length kvs > limit then Inl AttributeError else Inr v
      | _ \<Rightarrow> Inl TypeError)"

definition over_key_result :: "string \<Rightarrow> (json \<Rightarrow> json result) \<Rightarrow> json \<Rightarrow> json result" where
  "over_key_result k f j =
     (case j of
        JObj kvs \<Rightarrow> (case map_of kvs k of None \<Rightarrow> Inr j | Some v \<Rightarrow> map_sum id (\<lambda>w. JObj (AList.update k w kvs)) (f v))
      | _ \<Rightarrow> Inr j)"

definition on_parts_result :: "(json \<Rightarrow> json result) \<Rightarrow> json \<Rightarrow> json result" where
  "on_parts_result f c = (case c of JArr ps \<Rightarrow> map_sum id JArr (rmap f ps) | _ \<Rightarrow> Inr c)"

text \<open>Step 3.\<close>

definition groq_part :: "(rat \<Rightarrow> string) \<Rightarrow> json \<Rightarrow> json result" where
  "groq_part fr p =
     (if typed_part ''tool_result'' p
      then over_key_result ''content'' (\<lambda>c. case c of
             JArr _ \<Rightarrow> on_parts_result (over_key_result ''text'' (summarise fr 600 500)) c
           | _ \<Rightarrow> Inr (compact_str fr 600 500 c)) p
      else Inr p)"

definition groq_message :: "(rat \<Rightarrow> string) \<Rightarrow> json \<Rightarrow> json result" where
  "groq_message fr msg =
     (case (role_is [''tool''] msg, role_is [''user''] msg) of
        (Inr True, _) \<Rightarrow> Inr (over_key ''content'' (compact_str fr 600 500) msg)
      | (_, Inr True) \<Rightarrow>
          over_key_result ''content'' (\<lambda>c. case c of JArr _ \<Rightarrow> on_parts_result (groq_part fr) c | _ \<Rightarrow> Inr (compact_str fr 2000 1500 c)) msg
      | (Inl e, _) \<Rightarrow> Inl e
      | _ \<Rightarrow> Inr msg)"

text \<open>Step 5; a text part without text counts as empty.\<close>

definition groq_hard_part :: "(rat \<Rightarrow> string) \<Rightarrow> json \<Rightarrow> json result" where
  "groq_hard_part fr p =
     (if typed_part ''text'' p then over_key_result ''text'' (summarise fr 1000 800) p
      else if typed_part ''tool_result'' p then Inr (over_key ''content'' (compact_str fr 400 300) p)
      else Inr p)"

definition groq_hard_message :: "(rat \<Rightarrow> string) \<Rightarrow> json \<Rightarrow> json result" where
  "groq_hard_message fr msg =
     (case role_is [''tool'', ''user''] msg of
        Inl e \<Rightarrow> Inl e
      | Inr b \<Rightarrow>
          if b then over_key_result ''content'' (\<lambda>c. case c of JArr _ \<Rightarrow> on_parts_result (groq_hard_part fr) c
                      | _ \<Rightarrow> Inr (compact_str fr 1000 800 c)) msg
          else Inr msg)"

text \<open>Steps 5 and 6, after the sliding window.\<close>

definition groq_last_resort :: "(rat \<Rightarrow> string) \<Rightarrow> int \<Rightarrow> json \<Rightarrow> json result" where
  "groq_last_resort fr limit req =
     (case messages_of req of
        Inl e \<Rightarrow> Inl e
      | Inr ms \<Rightarrow>
          (case rmap (groq_hard_message fr) ms of
             Inl e \<Rightarrow> Inl e
           | Inr [] \<Rightarrow> Inr req
           | Inr (m # rest) \<Rightarrow>
               map_sum id (\<lambda>sys. with_messages req
                   (evict_at (\<lambda>ms. payload_tokens fr (with_messages req ms) > limit) (if sys then 2 else 1) 2 (m # rest)))
                 (role_is [''system''] m)))"

text \<open>Steps 3 to 6.\<close>

definition groq_messages :: "(rat \<Rightarrow> string) \<Rightarrow> int \<Rightarrow> json \<Rightarrow> json list \<Rightarrow> json result" where
  "groq_messages fr limit req ms =
     (case rmap (groq_message fr) ms of
        Inl e \<Rightarrow> Inl e
      | Inr ms3 \<Rightarrow>
          let req3 = (if ms = [] then req else with_messages req ms3) in
          if payload_tokens fr req3 \<le> limit then Inr req3
          else case prune_openai_request fr limit 150 2 req3 of
                 Inl e \<Rightarrow> Inl e
               | Inr req4 \<Rightarrow> if payload_tokens fr req4 \<le> limit then Inr req4 else groq_last_resort fr limit req4)"

definition prune_for_groq_tpm :: "(rat \<Rightarrow> string) \<Rightarrow> int \<Rightarrow> json \<Rightarrow> json result" where
  "prune_for_groq_tpm fr limit payload =
     (if payload_tokens fr payload \<le> limit then Inr payload
      else
        let req1 = groq_tools payload in
        if req1 \<noteq> payload \<and> payload_tokens fr req1 \<le> limit then Inr req1
        else case messages_of req1 of
               Inl e \<Rightarrow> Inl e
             | Inr ms \<Rightarrow>
                 (case groq_system ms of
                    Inl e \<Rightarrow> Inl e
                  | Inr ms2 \<Rightarrow>
                      let req2 = (if ms = [] then req1 else with_messages req1 ms2) in
                      if payload_tokens fr req2 \<le> limit then Inr req2 else groq_messages fr limit req2 ms2))"

end
