(* ===== verification/PrunerTheorems.thy ===== *)
theory PrunerTheorems
  imports Pruner
begin

text \<open>What pruning keeps of a conversation.\<close>

section \<open>Eviction\<close>

text \<open>\<open>rest\<close> after some of its first elements were dropped, but never one of its last \<open>n\<close>.\<close>

definition tail_of :: "nat \<Rightarrow> 'a list \<Rightarrow> 'a list \<Rightarrow> bool" where
  "tail_of n rest out = (\<exists>j. out = drop j rest \<and> min n (length rest) \<le> length rest - j)"

lemma tail_of_refl [simp]: "tail_of n rest rest"
  unfolding tail_of_def by (rule exI [of _ 0]) simp

lemma tail_of_trans: "tail_of n rest mid \<Longrightarrow> tail_of n mid out \<Longrightarrow> tail_of n rest out"
  unfolding tail_of_def by (clarsimp simp: drop_drop) (metis add.commute diff_diff_left min.bounded_iff min.cobounded1 le_trans)

lemma tail_of_mono: "tail_of n rest out \<Longrightarrow> m \<le> n \<Longrightarrow> tail_of m rest out"
  unfolding tail_of_def by (auto intro: exI)

lemma evict_at_tail:
  "\<exists>out. evict_at too_big (length pre) tail (pre @ rest) = pre @ out \<and> tail_of tail rest out \<and> (too_big (pre @ out) \<longrightarrow> length out \<le> tail)"
proof (induction rest)
  case Nil
  then show ?case by (subst evict_at.simps) simp
next
  case (Cons m rest)
  show ?case
  proof (cases "length (m # rest) > tail \<and> too_big (pre @ m # rest)")
    case True
    then have e: "evict_at too_big (length pre) tail (pre @ m # rest) = evict_at too_big (length pre) tail (pre @ rest)"
      by (subst evict_at.simps) simp
    obtain out where out: "evict_at too_big (length pre) tail (pre @ rest) = pre @ out" "tail_of tail rest out"
        "too_big (pre @ out) \<longrightarrow> length out \<le> tail"
      using Cons by blast
    have "tail_of tail (m # rest) rest" unfolding tail_of_def by (rule exI [of _ 1]) (use True in simp)
    from tail_of_trans [OF this out(2)] out e show ?thesis by auto
  next
    case False
    then have "evict_at too_big (length pre) tail (pre @ m # rest) = pre @ m # rest" by (subst evict_at.simps) auto
    with False show ?thesis by (intro exI [of _ "m # rest"]) auto
  qed
qed

lemma shrink_tail_six:
  "shrink_tail too_big start 2 6 ms =
     (if too_big ms then let ms1 = evict_at too_big start 4 ms in if too_big ms1 then evict_at too_big start 2 ms1 else ms1 else ms)"
  by (subst shrink_tail.simps, subst shrink_tail.simps, subst shrink_tail.simps) simp

lemma shrink_tail_tail:
  "\<exists>out. shrink_tail too_big (length pre) 2 6 (pre @ rest) = pre @ out \<and> tail_of 2 rest out \<and> (too_big (pre @ out) \<longrightarrow> length out \<le> 2)"
proof (cases "too_big (pre @ rest)")
  case False
  then show ?thesis by (simp add: shrink_tail_six)
next
  case True
  obtain a where a: "evict_at too_big (length pre) 4 (pre @ rest) = pre @ a" "tail_of 4 rest a"
    using evict_at_tail by blast
  obtain b where b: "evict_at too_big (length pre) 2 (pre @ a) = pre @ b" "tail_of 2 a b" "too_big (pre @ b) \<longrightarrow> length b \<le> 2"
    using evict_at_tail by blast
  have "tail_of 2 rest a" by (rule tail_of_mono [OF a(2)]) simp
  with True a b tail_of_trans [OF this b(2)] show ?thesis by (cases "too_big (pre @ a)") (auto simp: shrink_tail_six)
qed

section \<open>Roles\<close>

definition role_of :: "json \<Rightarrow> json option" where
  "role_of m = (case m of JObj kvs \<Rightarrow> map_of kvs ''role'' | _ \<Rightarrow> None)"

lemma role_over_content: "role_of (over_key ''content'' f m) = role_of m \<and> is_dict (over_key ''content'' f m) = is_dict m"
  by (cases m) (auto simp: role_of_def over_key_def is_dict_def update_conv split: option.split)

text \<open>A change of a message that keeps its role and that a dictionary always admits.\<close>

definition keeps_role :: "(json \<Rightarrow> json result) \<Rightarrow> bool" where
  "keeps_role f = (\<forall>m. is_dict m \<longrightarrow> (\<exists>m'. f m = Inr m' \<and> role_of m' = role_of m \<and> is_dict m'))"

lemma role_is_dict: "is_dict m \<Longrightarrow> \<exists>b. role_is roles m = Inr b"
  by (auto simp: role_is_def json_get_def is_dict_def split: json.splits)

lemma keeps_role_if: "keeps_role (\<lambda>m. map_sum id (\<lambda>b. if b then over_key ''content'' f m else m) (role_is roles m))"
  unfolding keeps_role_def using role_is_dict [of _ roles] role_over_content by fastforce

lemma prune_keeps_role: "keeps_role (prune_short fr)" "keeps_role (\<lambda>m. prune_tool_message fr cutoff (i, m))" "keeps_role (prune_assistant fr)"
  unfolding prune_short_def prune_tool_message_def prune_assistant_def prod.case by (rule keeps_role_if)+

lemma rmap_roles:
  assumes "keeps_role f" and "list_all is_dict ms"
  shows "\<exists>ys. rmap f ms = Inr ys \<and> map role_of ys = map role_of ms \<and> list_all is_dict ys"
  using assms(2)
proof (induction ms)
  case (Cons m ms)
  then obtain ys where "rmap f ms = Inr ys" "map role_of ys = map role_of ms" "list_all is_dict ys" by fastforce
  moreover obtain y where "f m = Inr y" "role_of y = role_of m" "is_dict y"
    using assms(1) Cons.prems unfolding keeps_role_def by auto
  ultimately show ?case by simp
qed simp

lemma rmap_indexed_roles:
  assumes "\<And>i. keeps_role (\<lambda>m. f (i, m))" and "list_all is_dict ms"
  shows "\<exists>ys. rmap f (indexed n ms) = Inr ys \<and> map role_of ys = map role_of ms \<and> list_all is_dict ys"
  using assms(2)
proof (induction ms arbitrary: n)
  case (Cons m ms)
  then obtain ys where "rmap f (indexed (Suc n) ms) = Inr ys" "map role_of ys = map role_of ms" "list_all is_dict ys" by fastforce
  moreover obtain y where "f (n, m) = Inr y" "role_of y = role_of m" "is_dict y"
    using assms(1) [of n] Cons.prems unfolding keeps_role_def by auto
  ultimately show ?case by simp
qed simp


section \<open>OpenAI payloads\<close>

text \<open>The roles of the pruned messages: the first \<open>n\<close> and the last ones of the originals, two at least.\<close>

definition kept_roles :: "nat \<Rightarrow> json list \<Rightarrow> json list \<Rightarrow> bool" where
  "kept_roles n ms ms' = (\<exists>out. map role_of ms' = map role_of (take n ms) @ out \<and> tail_of 2 (map role_of (drop n ms)) out)"

lemma tail_of_map: "tail_of n rest out \<Longrightarrow> tail_of n (map f rest) (map f out)"
  unfolding tail_of_def by (auto simp: drop_map)

lemma tail_of_dicts: "tail_of n rest out \<Longrightarrow> list_all is_dict rest \<Longrightarrow> list_all is_dict out"
  unfolding tail_of_def by (auto simp: list_all_iff dest: in_set_dropD)

lemma prune_assistants:
  assumes "list_all is_dict out"
  shows "\<exists>out'. map_sum id (\<lambda>mid. take (length pre) (pre @ out) @ mid @ drop (max (length pre) (length (pre @ out) - 1)) (pre @ out))
      (rmap (prune_assistant fr) (drop (length pre) (take (length (pre @ out) - 1) (pre @ out)))) = Inr (pre @ out')
    \<and> map role_of out' = map role_of out"
proof (cases out rule: rev_cases)
  case Nil
  then show ?thesis by simp
next
  case (snoc front m)
  with assms have "list_all is_dict front" by simp
  from rmap_roles [OF prune_keeps_role(3) this, of fr] snoc show ?thesis by auto
qed

lemma prune_window_keeps:
  assumes "list_all is_dict rest"
  shows "\<exists>out. prune_window fr too_big (length pre) 2 (pre @ rest) = Inr (pre @ out)
    \<and> tail_of 2 (map role_of rest) (map role_of out) \<and> (too_big (pre @ out) \<longrightarrow> length out \<le> 2)"
proof -
  obtain a where a: "evict_at too_big (length pre) 6 (pre @ rest) = pre @ a" "tail_of 6 rest a" using evict_at_tail by blast
  obtain b where b: "shrink_tail too_big (length pre) 2 6 (pre @ a) = pre @ b" "tail_of 2 a b" "too_big (pre @ b) \<longrightarrow> length b \<le> 2"
    using shrink_tail_tail by blast
  have ra: "tail_of 2 rest a" by (rule tail_of_mono [OF a(2)]) simp
  have rb: "tail_of 2 rest b" by (rule tail_of_trans [OF ra b(2)])
  obtain out where out: "map_sum id (\<lambda>mid. take (length pre) (pre @ b) @ mid @ drop (max (length pre) (length (pre @ b) - 1)) (pre @ b))
      (rmap (prune_assistant fr) (drop (length pre) (take (length (pre @ b) - 1) (pre @ b)))) = Inr (pre @ out)"
      "map role_of out = map role_of b"
    using prune_assistants [OF tail_of_dicts [OF rb assms]] by blast
  consider "\<not> too_big (pre @ rest)" | "too_big (pre @ rest)" "\<not> too_big (pre @ a)"
    | "too_big (pre @ rest)" "too_big (pre @ a)" "\<not> too_big (pre @ b)" | "too_big (pre @ rest)" "too_big (pre @ a)" "too_big (pre @ b)"
    by blast
  then show ?thesis
  proof cases
    case 1
    then show ?thesis by (simp add: prune_window_def)
  next
    case 2
    then show ?thesis using a tail_of_map [OF ra] by (simp add: prune_window_def)
  next
    case 3
    then show ?thesis using a b tail_of_map [OF rb] by (simp add: prune_window_def)
  next
    case 4
    have "length out = length b" using out(2) by (metis length_map)
    with 4 b(3) have "length out \<le> 2" by simp
    moreover have "prune_window fr too_big (length pre) 2 (pre @ rest) = Inr (pre @ out)"
      unfolding prune_window_def Let_def a(1) b(1) using 4 out(1) by (simp only: if_False not_True_eq_False)
    ultimately show ?thesis using tail_of_map [OF rb, of role_of] out(2) by auto
  qed
qed


definition root_count :: "json list \<Rightarrow> nat" where
  "root_count ms = (if ms \<noteq> [] \<and> role_of (hd ms) = Some (JStr ''system'') then 2 else 1)"

lemma role_is_system: "is_dict m \<Longrightarrow> role_is [''system''] m = Inr (role_of m = Some (JStr ''system''))"
  by (auto simp: role_is_def json_get_def role_of_def is_dict_def split: json.splits option.splits)

lemma kept_roles_same: "map role_of ms' = map role_of ms \<Longrightarrow> kept_roles n ms ms'"
  unfolding kept_roles_def by (intro exI [of _ "map role_of (drop n ms)"]) (simp flip: map_append)

lemma prune_messages_keeps:
  assumes "list_all is_dict ms" and "ms \<noteq> []"
  shows "\<exists>ms'. prune_openai_messages fr too_big 2 ms = Inr ms' \<and> kept_roles (root_count ms) ms ms' \<and> (too_big ms' \<longrightarrow> length ms' \<le> 4)"
proof (cases "length ms \<le> 2")
  case True
  obtain ys where ys: "rmap (prune_short fr) ms = Inr ys" "map role_of ys = map role_of ms"
    using rmap_roles [OF prune_keeps_role(1) assms(1)] by blast
  have "length ys \<le> 4" using True ys(2) by (metis length_map le_trans numeral_le_iff semiring_norm(68,69) Suc_1 le_add2 numeral_Bit0)
  with True ys kept_roles_same show ?thesis by (simp add: prune_openai_messages_def)
next
  case False
  define n where "n = root_count ms"
  have n: "n \<le> 2" "n \<le> length ms" using False by (auto simp: n_def root_count_def)
  have sys: "role_is [''system''] (hd ms) = Inr (role_of (hd ms) = Some (JStr ''system''))"
    using assms by (intro role_is_system) (auto simp: list_all_iff)
  have start: "(if role_of (hd ms) = Some (JStr ''system'') then 2 else 1) = n" using assms(2) by (simp add: n_def root_count_def)
  obtain rest where rest: "rmap (prune_tool_message fr (max n (length ms - 2))) (indexed n (drop n ms)) = Inr rest"
      "map role_of rest = map role_of (drop n ms)" "list_all is_dict rest"
    using rmap_indexed_roles [OF prune_keeps_role(2)] assms(1) by (metis list_all_append append_take_drop_id)
  have len: "length (take n ms) = n" using n(2) by simp
  obtain out where out: "prune_window fr too_big n 2 (take n ms @ rest) = Inr (take n ms @ out)"
      "tail_of 2 (map role_of rest) (map role_of out)" "too_big (take n ms @ out) \<longrightarrow> length out \<le> 2"
    using prune_window_keeps [OF rest(3), of fr too_big "take n ms"] unfolding len by blast
  have "prune_openai_messages fr too_big 2 ms = Inr (take n ms @ out)"
    using False rest(1) out(1) by (simp add: prune_openai_messages_def sys start Let_def)
  moreover have "kept_roles n ms (take n ms @ out)"
    unfolding kept_roles_def using out(2) rest(2) by auto
  moreover have "too_big (take n ms @ out) \<longrightarrow> length (take n ms @ out) \<le> 4" using out(3) n(1) by auto
  ultimately show ?thesis unfolding n_def by blast
qed

lemma messages_of_with: "messages_of req = Inr ms \<Longrightarrow> messages_of (with_messages req ms') = Inr ms'"
  by (cases req) (auto simp: messages_of_def with_messages_def set_key_def get_or_def json_get_def update_conv split: sum.splits)


definition long_payload :: json where
  "long_payload = JObj [(''model'', JStr ''m''), (''messages'', JArr
     (map (\<lambda>(r, t). JObj [(''role'', JStr r), (''content'', JStr t)])
        [(''system'', ''be brief''), (''user'', ''build it''), (''assistant'', replicate 3000 (CHR ''x'')), (''user'', ''go on''),
         (''assistant'', ''done'')]))]"


end
