(* ===== verification/Security.thy ===== *)
theory Security
  imports PyText Errors
begin

text \<open>
  \<^verbatim>\<open>security/defense.py\<close>: the checks of upstream addresses, headers and sizes.  The result of
  \<^verbatim>\<open>urllib.parse.urlparse\<close> is an argument: \<open>None\<close> when it raises, otherwise the scheme and the host name.
\<close>

definition dotted :: "rx list \<Rightarrow> rx" where
  "dotted rs = (case rs of [] \<Rightarrow> Eps | r # rest \<Rightarrow> seqs (r # map (\<lambda>x. Seq (lit ''.'') x) rest))"

definition octet :: rx where
  "octet = rx_plus digit"

definition char_range :: "char \<Rightarrow> char \<Rightarrow> rx" where
  "char_range a b = Chr (\<lambda>c. of_char a \<le> (of_char c :: nat) \<and> of_char c \<le> (of_char b :: nat))"

definition BLOCKED_HOST_PATTERNS :: rx where
  "BLOCKED_HOST_PATTERNS =
     Seq (alts
       [dotted [lit ''169'', lit ''254'', octet, octet],
        dotted [lit ''127'', octet, octet, octet],
        lit ''localhost'', lit ''0.0.0.0'', lit ''::1'', lit ''metadata.google.internal'',
        dotted [lit ''10'', octet, octet, octet],
        dotted [lit ''172'', alts [Seq (lit ''1'') (char_range (CHR ''6'') (CHR ''9'')), Seq (lit ''2'') digit,
                                 Seq (lit ''3'') (char_range (CHR ''0'') (CHR ''1''))], octet, octet],
        dotted [lit ''192'', lit ''168'', octet, octet]]) EndOfText"

definition MAX_PAYLOAD_BYTES :: int where
  "MAX_PAYLOAD_BYTES = 10000000"

definition METADATA_HOSTS :: "string list" where
  "METADATA_HOSTS = [''169.254.169.254'', ''metadata.google.internal'']"

definition validate_upstream_url :: "bool \<Rightarrow> (string \<times> string option) option \<Rightarrow> bool result" where
  "validate_upstream_url allow_localhost parsed =
     (case parsed of
        None \<Rightarrow> Inl CircuitBreakerGatewayError
      | Some (scheme, host) \<Rightarrow>
          if lower scheme \<notin> {''https'', ''http'', ''mock''} then Inl CircuitBreakerGatewayError
          else
            let hostname = lower (case host of None \<Rightarrow> [] | Some h \<Rightarrow> h) in
            if hostname = [] then Inl CircuitBreakerGatewayError
            else if \<not> allow_localhost \<and> rx_match BLOCKED_HOST_PATTERNS hostname then Inl CircuitBreakerGatewayError
            else if hostname \<in> set METADATA_HOSTS then Inl CircuitBreakerGatewayError
            else Inr True)"

definition strip_crlf :: "string \<Rightarrow> string" where
  "strip_crlf s = strip (filter (\<lambda>c. (of_char c :: nat) \<notin> {10, 13}) s)"

definition sanitize_headers :: "(string, string) dict \<Rightarrow> (string, string) dict" where
  "sanitize_headers headers =
     fold (\<lambda>(k, v) clean. if strip_crlf k = [] then clean else AList.update (strip_crlf k) (strip_crlf v) clean) headers []"

definition enforce_payload_limit :: "int \<Rightarrow> unit result" where
  "enforce_payload_limit size_bytes = (if size_bytes > MAX_PAYLOAD_BYTES then Inl CircuitBreakerGatewayError else Inr ())"

section \<open>What passes the checks\<close>

lemma accepted_url:
  assumes "validate_upstream_url allow_localhost (Some (scheme, host)) = Inr b"
  shows "lower scheme \<in> {''https'', ''http'', ''mock''} \<and> (\<exists>h. host = Some h \<and> h \<noteq> [] \<and> lower h \<notin> set METADATA_HOSTS
    \<and> (allow_localhost \<or> \<not> rx_match BLOCKED_HOST_PATTERNS (lower h)))"
  using assms by (auto simp: validate_upstream_url_def lower_def Let_def split: if_splits option.splits)

lemma strip_crlf_clean: "c \<in> set (strip_crlf s) \<Longrightarrow> (of_char c :: nat) \<noteq> 10 \<and> (of_char c :: nat) \<noteq> 13"
  by (auto simp: strip_crlf_def strip_def dest!: set_dropWhileD)

lemma sanitized_headers:
  "(k, v) \<in> set (sanitize_headers headers) \<Longrightarrow> k \<noteq> [] \<and> (\<forall>c \<in> set k \<union> set v. (of_char c :: nat) \<noteq> 10 \<and> (of_char c :: nat) \<noteq> 13)"
proof -
  define P where "P = (\<lambda>(k, v :: string). k \<noteq> [] \<and> (\<forall>c \<in> set k \<union> set v. (of_char c :: nat) \<noteq> 10 \<and> (of_char c :: nat) \<noteq> 13))"
  define add where "add = (\<lambda>(k, v) clean. if strip_crlf k = [] then clean else AList.update (strip_crlf k) (strip_crlf v) clean)"
  have upd: "P (a, b) \<Longrightarrow> list_all P xs \<Longrightarrow> list_all P (AList.update a b xs)" for a b xs
    by (induction xs) (auto simp: P_def)
  have new: "strip_crlf a \<noteq> [] \<Longrightarrow> P (strip_crlf a, strip_crlf b)" for a b
    using strip_crlf_clean by (auto simp: P_def)
  have "list_all P acc \<Longrightarrow> list_all P (fold add hs acc)" for hs acc
  proof (induction hs arbitrary: acc)
    case (Cons h hs)
    have "list_all P (add h acc)"
      using Cons.prems upd new by (cases h) (auto simp: add_def)
    with Cons.IH show ?case by simp
  qed simp
  from this [of "[]" headers] show "(k, v) \<in> set (sanitize_headers headers) \<Longrightarrow> ?thesis"
    unfolding sanitize_headers_def add_def [symmetric] by (auto simp: list_all_iff P_def)
qed

end
