(* ===== verification/Adapters.thy ===== *)
theory Adapters
  imports Pruner Executor Security
begin

text \<open>
  \<^verbatim>\<open>providers/base.py\<close>, \<^verbatim>\<open>providers/adapters.py\<close> and \<open>_streaming_prepared_request\<close> of
  \<^verbatim>\<open>execution/executor.py\<close>: the wire requests of the three kinds of provider, the reading of their answers, the
  registry of adapters, cancellation, and what the HTTP executor makes of what the transport does.  The
  transport itself (sockets, TLS, \<^verbatim>\<open>urllib\<close>) is an argument, and so are the extra headers of an endpoint and the
  decoder for bodies that are not UTF-8 (\<open>errors="replace"\<close>).
\<close>

section \<open>Wire requests\<close>

record prepared_request =
  pr_url :: string
  pr_headers :: "(string, string) dict"
  pr_body :: string
  pr_method :: string

definition endswith :: "string \<Rightarrow> string \<Rightarrow> bool" where
  "endswith s p = startswith (rev s) (rev p)"

definition rstrip_slash :: "string \<Rightarrow> string" where
  "rstrip_slash s = rev (dropWhile (\<lambda>c. c = CHR ''/'') (rev s))"

definition USER_AGENT :: string where
  "USER_AGENT = ''durallm/0.2.1''"

definition clamp_key :: "string \<Rightarrow> int \<Rightarrow> json \<Rightarrow> json" where
  "clamp_key k n = over_key k (\<lambda>v. case v of JInt i \<Rightarrow> JInt (min i n) | _ \<Rightarrow> v)"

definition payload_has :: "string \<Rightarrow> json \<Rightarrow> bool" where
  "payload_has k j = (case j of JObj kvs \<Rightarrow> k \<in> set (map fst kvs) | _ \<Rightarrow> False)"

definition profile_max_out :: "endpoint \<Rightarrow> int" where
  "profile_max_out e = or_int (Some (case ep_profile e of None \<Rightarrow> 8192 | Some p \<Rightarrow> mp_max_output_tokens p)) 8192"

text \<open>The payload with streaming off and the output limit of the endpoint.\<close>

definition openai_limits :: "int \<Rightarrow> json \<Rightarrow> json" where
  "openai_limits max_out payload =
     (let p1 = set_key ''stream'' (JBool False) payload;
          p2 = (if payload_has ''max_tokens'' p1 then clamp_key ''max_tokens'' max_out p1
                else set_key ''max_tokens'' (JInt (min max_out 8192)) p1)
      in clamp_key ''max_completion_tokens'' max_out p2)"

definition openai_payload :: "(rat \<Rightarrow> string) \<Rightarrow> endpoint \<Rightarrow> normalized_request \<Rightarrow> json result" where
  "openai_payload fr e rq =
     (let payload = openai_limits (profile_max_out e) (ir_to_openai_request fr rq (ep_model e)) in
      if lower (ep_provider e) = ''groq''
      then prune_for_groq_tpm fr 3800 (clamp_key ''max_completion_tokens'' 950 (clamp_key ''max_tokens'' 950 payload))
      else if lower (ep_provider e) = ''nvidia'' then prune_openai_request fr 16000 500 2 payload
      else Inr payload)"

definition openai_prepare ::
  "(rat \<Rightarrow> string) \<Rightarrow> (string, string) dict \<Rightarrow> endpoint \<Rightarrow> normalized_request \<Rightarrow> string option \<Rightarrow> prepared_request result" where
  "openai_prepare fr extra e rq api_key =
     map_sum id (\<lambda>payload.
       let base = rstrip_slash (ep_base_url e) in
       \<lparr>pr_url = (if endswith base ''/chat/completions'' then base else base @ ''/chat/completions''),
        pr_headers = dict_merge ([(''Content-Type'', ''application/json''), (''Accept'', ''application/json''), (''User-Agent'', USER_AGENT)]
          @ (if truthy_str api_key then [(''Authorization'', ''Bearer '' @ the api_key)] else [])) extra,
        pr_body = dumps fr payload, pr_method = ''POST''\<rparr>) (openai_payload fr e rq)"

definition anthropic_prepare ::
  "(rat \<Rightarrow> string) \<Rightarrow> (string, string) dict \<Rightarrow> endpoint \<Rightarrow> normalized_request \<Rightarrow> string option \<Rightarrow> prepared_request result" where
  "anthropic_prepare fr extra e rq api_key =
     map_sum id (\<lambda>payload.
       let base = rstrip_slash (ep_base_url e) in
       \<lparr>pr_url = (if endswith base ''/messages'' then base else base @ ''/messages''),
        pr_headers = dict_merge ([(''Content-Type'', ''application/json''), (''anthropic-version'', ''2023-06-01''), (''User-Agent'', USER_AGENT)]
          @ (if truthy_str api_key then [(''x-api-key'', the api_key)] else [])) extra,
        pr_body = dumps fr (set_key ''stream'' (JBool False) payload), pr_method = ''POST''\<rparr>)
       (ir_to_anthropic_request rq (ep_model e))"

definition gemini_prepare ::
  "(rat \<Rightarrow> string) \<Rightarrow> (string, string) dict \<Rightarrow> endpoint \<Rightarrow> normalized_request \<Rightarrow> string option \<Rightarrow> prepared_request result" where
  "gemini_prepare fr extra e rq api_key =
     map_sum id (\<lambda>payload.
       \<lparr>pr_url = rstrip_slash (ep_base_url e) @ ''/models/'' @ ep_model e @ '':generateContent'',
        pr_headers = dict_merge ([(''Content-Type'', ''application/json''), (''User-Agent'', USER_AGENT)]
          @ (if truthy_str api_key then [(''x-goog-api-key'', the api_key)] else [])) extra,
        pr_body = dumps fr payload, pr_method = ''POST''\<rparr>) (ir_to_gemini_request fr rq)"

text \<open>\<open>_streaming_prepared_request\<close>.\<close>

definition streaming_prepared_request :: "(rat \<Rightarrow> string) \<Rightarrow> prepared_request \<Rightarrow> prepared_request result" where
  "streaming_prepared_request fr p =
     (if \<not> utf8_valid (pr_body p) then Inl ConfigurationError
      else case loads True (pr_body p) of
             Some (JObj kvs) \<Rightarrow>
               Inr (p\<lparr>pr_body := dumps fr (JObj (AList.update ''stream'' (JBool True) kvs)),
                      pr_headers := AList.update ''Accept'' ''text/event-stream'' (pr_headers p)\<rparr>)
           | _ \<Rightarrow> Inl ConfigurationError)"

section \<open>Answers\<close>

record http_result =
  hr_status :: int
  hr_headers :: "(string, string) dict"
  hr_body :: string
  hr_duration_ms :: rat
  hr_transport :: "string option"

definition body_text :: "(string \<Rightarrow> string) \<Rightarrow> string \<Rightarrow> string" where
  "body_text replace b = strip (if utf8_valid b then b else replace b)"

definition openai_normalize ::
  "(rat \<Rightarrow> string) \<Rightarrow> (string \<Rightarrow> string) \<Rightarrow> string \<Rightarrow> (json \<Rightarrow> string) \<Rightarrow> (nat \<Rightarrow> string) \<Rightarrow> endpoint \<Rightarrow> http_result \<Rightarrow> normalized_response decoded" where
  "openai_normalize fr replace resp_uuid part_uuid uuid e res =
     (let text = body_text replace (hr_body res) in
      if text = [] then Raises ValueError
      else if startswith text ''data:'' \<or> contains text (Streaming.NL # ''data:'')
      then sse_chunks_to_ir fr resp_uuid part_uuid text (ep_model e)
      else case loads True text of None \<Rightarrow> Raises ValueError | Some raw \<Rightarrow> openai_response_to_ir fr resp_uuid uuid raw)"

record message_stream =
  ms_text_parts :: "json list"
  ms_reasoning :: json
  ms_signature :: json
  ms_tool_calls :: "normalized_tool_call list"
  ms_model :: json
  ms_id :: json
  ms_input_tokens :: json
  ms_output_tokens :: json
  ms_stop_reason :: json
  ms_block_type :: json
  ms_tool_id :: json
  ms_tool_name :: json
  ms_tool_input :: string

definition new_message_stream :: "string \<Rightarrow> string \<Rightarrow> message_stream" where
  "new_message_stream uuid default_model =
     \<lparr>ms_text_parts = [], ms_reasoning = JNull, ms_signature = JNull, ms_tool_calls = [], ms_model = JStr default_model,
      ms_id = JStr (''msg_'' @ take 12 uuid), ms_input_tokens = JInt 0, ms_output_tokens = JInt 0, ms_stop_reason = JStr ''end_turn'',
      ms_block_type = JNull, ms_tool_id = JStr [], ms_tool_name = JStr [], ms_tool_input = []\<rparr>"

definition on_message_start :: "json \<Rightarrow> message_stream \<Rightarrow> message_stream decoded" where
  "on_message_start data s =
     dbind (fetch data ''message'' (JObj [])) (\<lambda>msg.
     dbind (fetch msg ''id'' JNull) (\<lambda>i. dbind (fetch msg ''model'' JNull) (\<lambda>m.
     dbind (fetch msg ''usage'' (JObj [])) (\<lambda>usage. dbind (fetch usage ''input_tokens'' (ms_input_tokens s)) (\<lambda>n.
       Decoded (s\<lparr>ms_id := or_json i (ms_id s), ms_model := or_json m (ms_model s), ms_input_tokens := n\<rparr>))))))"

text \<open>\<open>uuid\<close> is drawn for a tool block without an identifier.\<close>

definition on_block_start :: "string \<Rightarrow> json \<Rightarrow> message_stream \<Rightarrow> message_stream decoded" where
  "on_block_start uuid data s0 =
     dbind (fetch data ''content_block'' (JObj [])) (\<lambda>cb. dbind (fetch cb ''type'' JNull) (\<lambda>ty.
       let s = s0\<lparr>ms_block_type := ty\<rparr> in
       if ty = JStr ''text''
       then dbind (fetch cb ''text'' (JStr [])) (\<lambda>t. Decoded (s\<lparr>ms_text_parts := ms_text_parts s @ [t]\<rparr>))
       else if ty = JStr ''thinking''
       then dbind (fetch cb ''thinking'' (JStr [])) (\<lambda>t. dbind (fetch cb ''signature'' JNull) (\<lambda>g.
              Decoded (s\<lparr>ms_reasoning := t, ms_signature := g\<rparr>)))
       else if ty = JStr ''tool_use''
       then dbind (fetch cb ''id'' (JStr (''toolu_'' @ take 8 uuid))) (\<lambda>i. dbind (fetch cb ''name'' (JStr [])) (\<lambda>n.
              Decoded (s\<lparr>ms_tool_id := i, ms_tool_name := n, ms_tool_input := []\<rparr>)))
       else Decoded s))"

definition on_block_delta :: "json \<Rightarrow> message_stream \<Rightarrow> message_stream decoded" where
  "on_block_delta data s =
     dbind (fetch data ''delta'' (JObj [])) (\<lambda>delta. dbind (fetch delta ''type'' JNull) (\<lambda>ty.
       if ty = JStr ''text_delta''
       then dbind (fetch delta ''text'' (JStr [])) (\<lambda>t. Decoded (s\<lparr>ms_text_parts := ms_text_parts s @ [t]\<rparr>))
       else if ty = JStr ''thinking_delta''
       then dbind (fetch delta ''thinking'' (JStr [])) (\<lambda>t.
            dbind (concat_json (or_json (ms_reasoning s) (JStr [])) t) (\<lambda>r. Decoded (s\<lparr>ms_reasoning := JStr r\<rparr>)))
       else if ty = JStr ''input_json_delta''
       then dbind (fetch delta ''partial_json'' (JStr [])) (\<lambda>t.
            dbind (concat_json (JStr (ms_tool_input s)) t) (\<lambda>r. Decoded (s\<lparr>ms_tool_input := r\<rparr>)))
       else Decoded s))"

definition on_block_stop :: "(rat \<Rightarrow> string) \<Rightarrow> message_stream \<Rightarrow> message_stream decoded" where
  "on_block_stop fr s =
     (if ms_block_type s = JStr ''tool_use''
      then dbind (need_str (ms_tool_id s)) (\<lambda>i. dbind (need_str (ms_tool_name s)) (\<lambda>n.
             let args = (if ms_tool_input s = [] then JObj [] else case loads True (ms_tool_input s) of Some v \<Rightarrow> v | None \<Rightarrow> JObj []) in
             Decoded (s\<lparr>ms_tool_calls := ms_tool_calls s @ [new_tool_call fr i n args (ms_tool_input s)], ms_block_type := JNull\<rparr>)))
      else Decoded (s\<lparr>ms_block_type := JNull\<rparr>))"

definition on_message_delta :: "json \<Rightarrow> message_stream \<Rightarrow> message_stream decoded" where
  "on_message_delta data s =
     dbind (fetch data ''delta'' (JObj [])) (\<lambda>delta. dbind (fetch delta ''stop_reason'' JNull) (\<lambda>r.
     dbind (fetch data ''usage'' (JObj [])) (\<lambda>usage. dbind (fetch usage ''output_tokens'' (ms_output_tokens s)) (\<lambda>n.
       Decoded (s\<lparr>ms_stop_reason := or_json r (ms_stop_reason s), ms_output_tokens := n\<rparr>)))))"

definition message_event :: "(rat \<Rightarrow> string) \<Rightarrow> (nat \<Rightarrow> string) \<Rightarrow> json \<Rightarrow> message_stream \<Rightarrow> message_stream decoded" where
  "message_event fr uuid data s =
     (if \<not> is_dict data then Decoded s
      else dbind (fetch data ''type'' JNull) (\<lambda>ty.
        if ty = JStr ''message_start'' then on_message_start data s
        else if ty = JStr ''content_block_start'' then on_block_start (uuid (length (ms_tool_calls s))) data s
        else if ty = JStr ''content_block_delta'' then on_block_delta data s
        else if ty = JStr ''content_block_stop'' then on_block_stop fr s
        else if ty = JStr ''message_delta'' then on_message_delta data s
        else Decoded s))"

definition message_line :: "(rat \<Rightarrow> string) \<Rightarrow> (nat \<Rightarrow> string) \<Rightarrow> string \<Rightarrow> message_stream \<Rightarrow> message_stream decoded" where
  "message_line fr uuid raw s =
     (let line = strip raw in
      if startswith line ''data:''
      then (case loads True (strip (drop 5 line)) of None \<Rightarrow> Decoded s | Some data \<Rightarrow> message_event fr uuid data s)
      else Decoded s)"

definition message_result :: "message_stream \<Rightarrow> normalized_response decoded" where
  "message_result s =
     dbind (joined (ms_text_parts s)) (\<lambda>content. dbind (finish_of_stop (ms_stop_reason s)) (\<lambda>finish.
     dbind (need_str (ms_id s)) (\<lambda>i. dbind (need_str (ms_model s)) (\<lambda>m. dbind (need_opt_str (ms_reasoning s)) (\<lambda>reasoning.
     dbind (need_opt_str (ms_signature s)) (\<lambda>signature. dbind (need_int (ms_input_tokens s)) (\<lambda>pt. dbind (need_int (ms_output_tokens s)) (\<lambda>ct.
       Decoded
         \<lparr>rs_response_id = i, rs_model = m, rs_content = content, rs_reasoning_content = reasoning, rs_reasoning_signature = signature,
          rs_tool_calls = ms_tool_calls s, rs_finish_reason = finish, rs_input_tokens = pt, rs_output_tokens = ct,
          rs_raw_response = Some (JObj [(''id'', ms_id s), (''model'', ms_model s), (''content'', JArr (ms_text_parts s))])\<rparr>))))))))"

definition parse_anthropic_sse :: "(rat \<Rightarrow> string) \<Rightarrow> string \<Rightarrow> (nat \<Rightarrow> string) \<Rightarrow> string \<Rightarrow> string \<Rightarrow> normalized_response decoded" where
  "parse_anthropic_sse fr msg_uuid uuid sse_text default_model =
     dbind (dfold (message_line fr uuid) (splitlines sse_text) (new_message_stream msg_uuid default_model)) message_result"

definition anthropic_normalize ::
  "(rat \<Rightarrow> string) \<Rightarrow> (string \<Rightarrow> string) \<Rightarrow> string \<Rightarrow> (nat \<Rightarrow> string) \<Rightarrow> endpoint \<Rightarrow> http_result \<Rightarrow> normalized_response decoded" where
  "anthropic_normalize fr replace msg_uuid uuid e res =
     (let text = body_text replace (hr_body res) in
      if text = [] then Raises ValueError
      else if startswith text ''event:'' \<or> contains text (Streaming.NL # ''event:'') then parse_anthropic_sse fr msg_uuid uuid text (ep_model e)
      else case loads True text of None \<Rightarrow> Raises ValueError | Some raw \<Rightarrow> anthropic_response_to_ir fr (ep_model e) raw)"

definition gemini_normalize :: "(rat \<Rightarrow> string) \<Rightarrow> (string \<Rightarrow> string) \<Rightarrow> endpoint \<Rightarrow> http_result \<Rightarrow> normalized_response decoded" where
  "gemini_normalize fr sha1 e res =
     (if \<not> utf8_valid (hr_body res) then Raises ValueError
      else case loads True (hr_body res) of None \<Rightarrow> Raises ValueError | Some raw \<Rightarrow> gemini_response_to_ir fr sha1 raw (ep_model e))"

section \<open>The registry\<close>

datatype adapter_kind = OpenAICompatibleAdapter | AnthropicAdapter | GeminiAdapter

record adapter =
  ad_kind :: adapter_kind
  ad_provider_id :: string

type_synonym adapter_registry = "(string, adapter) dict"

definition default_adapters :: adapter_registry where
  "default_adapters =
     map (\<lambda>p. (p, \<lparr>ad_kind = OpenAICompatibleAdapter, ad_provider_id = p\<rparr>)) [''openai'', ''groq'', ''cerebras'', ''openrouter'', ''mistral'', ''nvidia'']
     @ [(''anthropic'', \<lparr>ad_kind = AnthropicAdapter, ad_provider_id = ''anthropic''\<rparr>),
        (''gemini'', \<lparr>ad_kind = GeminiAdapter, ad_provider_id = ''gemini''\<rparr>)]"

definition register_adapter :: "string \<Rightarrow> adapter \<Rightarrow> adapter_registry \<Rightarrow> adapter_registry" where
  "register_adapter provider a reg = AList.update (lower provider) a reg"

definition get_adapter :: "string \<Rightarrow> string option \<Rightarrow> adapter_registry \<Rightarrow> adapter result" where
  "get_adapter provider protocol reg =
     (case map_of reg (lower provider) of
        Some a \<Rightarrow> Inr a
      | None \<Rightarrow>
          if truthy_str protocol \<and> lower (the protocol) \<in> {''openai'', ''anthropic'', ''gemini''}
          then (case map_of reg (lower (the protocol)) of Some a \<Rightarrow> Inr a | None \<Rightarrow> Inl KeyError)
          else Inl ConfigurationError)"

definition prepare_request ::
  "adapter \<Rightarrow> (rat \<Rightarrow> string) \<Rightarrow> (string, string) dict \<Rightarrow> endpoint \<Rightarrow> normalized_request \<Rightarrow> string option \<Rightarrow> prepared_request result" where
  "prepare_request a =
     (case ad_kind a of OpenAICompatibleAdapter \<Rightarrow> openai_prepare | AnthropicAdapter \<Rightarrow> anthropic_prepare | GeminiAdapter \<Rightarrow> gemini_prepare)"

end
