(* ===== verification/Transport.thy ===== *)
theory Transport
  imports Adapters
begin

text \<open>
  The rest of \<^verbatim>\<open>providers/base.py\<close> and \<^verbatim>\<open>providers/adapters.py\<close>: cancellation, the HTTP executor and the
  provider-native byte stream.  What the network does is an argument: the outcome of each phase and the clock
  readings taken between them.
\<close>

section \<open>Cancellation\<close>

text \<open>Callbacks are values; an operation also gives the list of those it invokes, in order.\<close>

record 'c cancellation =
  cn_cancelled :: bool
  cn_reason :: string
  cn_callbacks :: "'c list"

definition new_cancellation :: "'c cancellation" where
  "new_cancellation = \<lparr>cn_cancelled = False, cn_reason = [], cn_callbacks = []\<rparr>"

definition add_callback :: "'c \<Rightarrow> 'c cancellation \<Rightarrow> 'c list \<times> 'c cancellation" where
  "add_callback c s = (if cn_cancelled s then ([c], s) else ([], s\<lparr>cn_callbacks := cn_callbacks s @ [c]\<rparr>))"

definition cancel :: "string \<Rightarrow> 'c cancellation \<Rightarrow> 'c list \<times> 'c cancellation" where
  "cancel reason s =
     (if cn_cancelled s then ([], s)
      else (cn_callbacks s, s\<lparr>cn_reason := reason, cn_cancelled := True, cn_callbacks := []\<rparr>))"

section \<open>Failures of the transport\<close>

text \<open>The classes \<open>_transport_kind\<close> tells apart, each by its most specific one.\<close>

datatype exc_class = Timeout_error | Ssl_error | Url_error | Os_error | Other_error

fun transport_kind :: "exc_class option list \<Rightarrow> string \<Rightarrow> string" where
  "transport_kind [] text = (if contains (lower text) ''timed out'' then ''timeout'' else ''unknown'')"
| "transport_kind (c # cs) text =
     (case c of
        Some Timeout_error \<Rightarrow> ''timeout''
      | Some Ssl_error \<Rightarrow> ''tls''
      | Some Os_error \<Rightarrow> ''connection''
      | _ \<Rightarrow> transport_kind cs text)"

definition TRANSPORT_STATUS :: "(string, int) dict" where
  "TRANSPORT_STATUS = [(''tls'', 596), (''timeout'', 597), (''connection'', 598), (''unknown'', 599)]"

text \<open>An exception: its reason, cause and context, itself, and its text.\<close>

record transport_exc =
  te_reason :: "exc_class option"
  te_cause :: "exc_class option"
  te_context :: "exc_class option"
  te_class :: exc_class
  te_text :: string

definition exc_kind :: "transport_exc \<Rightarrow> string" where
  "exc_kind x = transport_kind [te_reason x, te_cause x, te_context x, Some (te_class x)] (te_text x)"

definition failure_result :: "string \<Rightarrow> string \<Rightarrow> rat \<Rightarrow> http_result" where
  "failure_result kind text duration =
     \<lparr>hr_status = dict_get TRANSPORT_STATUS kind 0, hr_headers = [], hr_body = ''transport_error:'' @ kind @ '': '' @ text,
      hr_duration_ms = duration, hr_transport = Some kind\<rparr>"

definition lower_headers :: "(string, string) dict \<Rightarrow> (string, string) dict" where
  "lower_headers hs = fold (\<lambda>(k, v). AList.update (lower k) v) hs []"

text \<open>\<open>read(MAX_PAYLOAD_BYTES + 1)\<close>.\<close>

definition bounded_read :: "string \<Rightarrow> string" where
  "bounded_read b = take (nat (MAX_PAYLOAD_BYTES + 1)) b"

section \<open>Buffered execution\<close>

datatype transport_outcome =
    Responded int "(string, string) dict" string
  | Http_error int "(string, string) dict" "string option"
  | Transport_failed transport_exc

definition body_within_limit :: "string \<Rightarrow> bool" where
  "body_within_limit b = (int (length b) \<le> MAX_PAYLOAD_BYTES)"

text \<open>What \<open>execute\<close> does with the outcome of \<open>urlopen\<close>.\<close>

definition http_outcome :: "transport_outcome \<Rightarrow> rat \<Rightarrow> http_result result" where
  "http_outcome out duration =
     (case out of
        Responded status headers body \<Rightarrow>
          (case enforce_payload_limit (int (length (bounded_read body))) of
             Inl e \<Rightarrow> Inl e
           | Inr _ \<Rightarrow> Inr \<lparr>hr_status = status, hr_headers = lower_headers headers, hr_body = bounded_read body,
                              hr_duration_ms = duration, hr_transport = None\<rparr>)
      | Http_error status headers body \<Rightarrow>
          Inr \<lparr>hr_status = status, hr_headers = lower_headers headers,
               hr_body = (case body of Some b \<Rightarrow> if body_within_limit (bounded_read b) then bounded_read b else [] | None \<Rightarrow> []),
               hr_duration_ms = duration, hr_transport = None\<rparr>
      | Transport_failed x \<Rightarrow> Inr (failure_result (exc_kind x) (te_text x) duration))"

text \<open>\<open>net\<close> is the network: what it answers to a request, and how long it took.\<close>

definition http_execute ::
  "bool \<Rightarrow> (string \<Rightarrow> (string \<times> string option) option) \<Rightarrow> (prepared_request \<Rightarrow> transport_outcome \<times> rat) \<Rightarrow> prepared_request \<Rightarrow> http_result result" where
  "http_execute allow_local urlparse net p =
     (case validate_upstream_url allow_local (urlparse (pr_url p)) of
        Inl e \<Rightarrow> Inl e
      | Inr _ \<Rightarrow>
          (case enforce_payload_limit (int (length (pr_body p))) of
             Inl e \<Rightarrow> Inl e
           | Inr _ \<Rightarrow> case_prod http_outcome (net p)))"

section \<open>Native streams\<close>

definition timeout_seconds :: "rat \<Rightarrow> rat" where
  "timeout_seconds ms = max (1 / 1000) (ms / 1000)"

text \<open>
  The phases of \<open>open_stream\<close>: each with its outcome and the milliseconds since the start read after it.
  \<open>op_length\<close> is \<open>int(content_length)\<close> when that header is there and is a number.
\<close>

record stream_phases =
  op_cancelled :: "string option"
  op_connect :: "transport_exc option"
  op_connected_ms :: rat
  op_request :: "transport_exc option"
  op_requested_ms :: rat
  op_response :: "transport_exc + int \<times> (string, string) dict \<times> string"
  op_response_ms :: rat
  op_length :: "int option"

datatype open_result =
    Stream_opened "(string, string) dict"
  | Stream_refused http_result
  | Stream_raised gateway_error

definition phase_kind :: "string \<Rightarrow> string" where
  "phase_kind phase = (if phase \<in> {''total'', ''first_byte'', ''idle''} then ''timeout'' else ''connection'')"

definition socket_timeout :: "timeout_budget \<Rightarrow> rat \<Rightarrow> rat" where
  "socket_timeout t elapsed = min (timeout_seconds (tt_first_byte t)) (max (1 / 1000) ((tt_total t - elapsed) / 1000))"

text \<open>What \<open>open_stream\<close> makes of a response.\<close>

definition stream_response :: "stream_phases \<Rightarrow> int \<Rightarrow> (string, string) dict \<Rightarrow> string \<Rightarrow> open_result" where
  "stream_response ph status headers body =
     (case (case op_length ph of None \<Rightarrow> Inr () | Some n \<Rightarrow> enforce_payload_limit n) of
        Inl e \<Rightarrow> Stream_raised e
      | Inr _ \<Rightarrow>
          if status = 200 then Stream_opened (lower_headers headers)
          else (case enforce_payload_limit (int (length (bounded_read body))) of
                  Inl e \<Rightarrow> Stream_raised e
                | Inr _ \<Rightarrow> Stream_refused \<lparr>hr_status = status, hr_headers = lower_headers headers, hr_body = bounded_read body,
                             hr_duration_ms = op_response_ms ph, hr_transport = None\<rparr>))"

definition refused_phase :: "string \<Rightarrow> string \<Rightarrow> rat \<Rightarrow> open_result" where
  "refused_phase phase text ms = Stream_refused (failure_result (phase_kind phase) text ms)"

definition refused_exc :: "transport_exc \<Rightarrow> rat \<Rightarrow> open_result" where
  "refused_exc x ms = Stream_refused (failure_result (exc_kind x) (te_text x) ms)"

text \<open>The result and the timeouts, in seconds, that were set on the socket before writing and before reading.\<close>

definition open_stream ::
  "bool \<Rightarrow> (string \<Rightarrow> (string \<times> string option) option) \<Rightarrow> timeout_budget \<Rightarrow> stream_phases \<Rightarrow> prepared_request \<Rightarrow> open_result \<times> rat list" where
  "open_stream allow_local urlparse t ph p =
     (case (validate_upstream_url allow_local (urlparse (pr_url p)), enforce_payload_limit (int (length (pr_body p)))) of
        (Inl e, _) \<Rightarrow> (Stream_raised e, [])
      | (_, Inl e) \<Rightarrow> (Stream_raised e, [])
      | _ \<Rightarrow>
          (case op_cancelled ph of
             Some reason \<Rightarrow> (refused_phase ''cancelled'' (if reason = [] then ''stream cancelled before connect'' else reason) (op_connected_ms ph), [])
           | None \<Rightarrow>
               (case op_connect ph of
                  Some x \<Rightarrow> (refused_exc x (op_connected_ms ph), [])
                | None \<Rightarrow>
                    if op_connected_ms ph \<ge> tt_total t
                    then (refused_phase ''total'' ''upstream stream exceeded its total deadline during setup'' (op_connected_ms ph), [])
                    else
                      let s1 = socket_timeout t (op_connected_ms ph) in
                      (case op_request ph of
                         Some x \<Rightarrow> (refused_exc x (op_requested_ms ph), [s1])
                       | None \<Rightarrow>
                           if op_requested_ms ph \<ge> tt_total t
                           then (refused_phase ''total'' ''upstream stream exceeded its total deadline while sending request'' (op_requested_ms ph), [s1])
                           else
                             let s2 = socket_timeout t (op_requested_ms ph) in
                             (case op_response ph of
                                Inl x \<Rightarrow> (refused_exc x (op_response_ms ph), [s1, s2])
                              | Inr (status, headers, body) \<Rightarrow> (stream_response ph status headers body, [s1, s2]))))))"

text \<open>
  One read of the byte stream: whether the request was cancelled before it and after it, whether the connection
  still has its socket (\<open>http.client\<close> gives it up when the response ends with the connection), the milliseconds since
  the start, and what the read gave.
\<close>

datatype read_result = Got string | Read_timeout | Read_failed string

record read_event =
  re_cancelled :: "string option"
  re_sock :: bool
  re_elapsed_ms :: rat
  re_result :: read_result
  re_cancelled_after :: bool

text \<open>The socket timeouts that were set, with the chunks, and how the stream ends: the source is exhausted, or an error with its phase and message.\<close>

fun byte_stream :: "timeout_budget \<Rightarrow> int \<Rightarrow> read_event list \<Rightarrow> (rat option \<times> string) list \<times> (string \<times> string) option option" where
  "byte_stream t n [] = ([], None)"
| "byte_stream t n (r # rs) =
     (case re_cancelled r of
        Some reason \<Rightarrow> ([], Some (Some (''cancelled'', if reason = [] then ''stream cancelled'' else reason)))
      | None \<Rightarrow>
          let remaining = tt_total t - re_elapsed_ms r in
          if re_sock r \<and> remaining \<le> 0 then ([], Some (Some (''total'', ''upstream stream exceeded its total deadline'')))
          else
            let wait = (if re_sock r then Some (min (timeout_seconds (tt_idle t)) (remaining / 1000)) else None) in
            (case re_result r of
               Read_timeout \<Rightarrow> ([], Some (Some (''idle'', ''upstream stream was idle beyond its deadline'')))
             | Read_failed text \<Rightarrow>
                 ([], Some (Some (if re_cancelled_after r then ''cancelled'' else ''connection'', ''upstream stream read failed: '' @ text)))
             | Got chunk \<Rightarrow>
                 if chunk = [] then ([], Some None)
                 else if n + int (length chunk) > MAX_PAYLOAD_BYTES
                 then ([], Some (Some (''buffer_limit'', ''upstream stream exceeded 10000000 byte safety ceiling'')))
                 else (case byte_stream t (n + int (length chunk)) rs of (out, fin) \<Rightarrow> ((wait, chunk) # out, fin))))"

end
