(* ===== verification/TransportTheorems.thy ===== *)
theory TransportTheorems
  imports Transport
begin

text \<open>Guarantees of the transport layer: what is sent and where, how much is read, and what cancellation calls.\<close>

section \<open>Cancellation\<close>

datatype 'c cn_op = Add 'c | Cancel string

fun cn_run :: "'c cn_op list \<Rightarrow> 'c cancellation \<Rightarrow> 'c list \<times> 'c cancellation" where
  "cn_run [] s = ([], s)"
| "cn_run (op # ops) s =
     (case (case op of Add c \<Rightarrow> add_callback c s | Cancel r \<Rightarrow> cancel r s) of
        (called, s1) \<Rightarrow> (case cn_run ops s1 of (called', s2) \<Rightarrow> (called @ called', s2)))"

fun cn_added :: "'c cn_op list \<Rightarrow> 'c list" where
  "cn_added [] = []"
| "cn_added (Add c # ops) = c # cn_added ops"
| "cn_added (Cancel r # ops) = cn_added ops"

lemma cn_run_cancelled: "cn_cancelled s \<Longrightarrow> cn_run ops s = (cn_added ops, s)"
proof (induction ops)
  case (Cons op ops)
  then show ?case by (cases op) (simp_all add: add_callback_def cancel_def)
qed simp

lemma cn_run_pending:
  "\<not> cn_cancelled s \<Longrightarrow> cn_run ops s = (called, s') \<Longrightarrow>
   (if cn_cancelled s' then called = cn_callbacks s @ cn_added ops \<and> cn_callbacks s' = []
    else called = [] \<and> cn_callbacks s' = cn_callbacks s @ cn_added ops)"
proof (induction ops arbitrary: s called)
  case (Cons op ops)
  show ?case
  proof (cases op)
    case (Add c)
    with Cons.prems Cons.IH [of "s\<lparr>cn_callbacks := cn_callbacks s @ [c]\<rparr>"] show ?thesis
      by (auto simp: add_callback_def split: prod.splits)
  next
    case (Cancel r)
    with Cons.prems show ?thesis by (auto simp: cancel_def cn_run_cancelled)
  qed
qed auto

text \<open>
  Cancellation reaches every connection once.  Whatever the order of registrations and cancellations,
  repeated ones and late registrations included, once a request is cancelled each registered callback has been
  invoked exactly once, in the order of registration; before that none is invoked and none is lost.
\<close>

theorem cancellation_calls_once:
  "case cn_run ops new_cancellation of
     (called, s) \<Rightarrow> if cn_cancelled s then called = cn_added ops \<and> cn_callbacks s = [] else called = [] \<and> cn_callbacks s = cn_added ops"
proof (cases "cn_run ops new_cancellation")
  case (Pair called s)
  from cn_run_pending [OF _ this] show ?thesis unfolding Pair by (simp add: new_cancellation_def)
qed

section \<open>Guards\<close>



section \<open>Keys\<close>

definition key_header :: "adapter_kind \<Rightarrow> string \<Rightarrow> string \<times> string" where
  "key_header k key =
     (case k of OpenAICompatibleAdapter \<Rightarrow> (''Authorization'', ''Bearer '' @ key) | AnthropicAdapter \<Rightarrow> (''x-api-key'', key)
      | GeminiAdapter \<Rightarrow> (''x-goog-api-key'', key))"

text \<open>
  C31: The key travels in one header.  For every adapter the address, the method and the body of the wire request
  are those of the request without a key, and the headers differ only in the authentication header, which the
  configured headers of the endpoint may still override.
\<close>

theorem api_key_in_header_only:
  "\<exists>base res. prepare_request a fr extra e rq None = map_sum id (\<lambda>p. p\<lparr>pr_headers := dict_merge base extra\<rparr>) res
   \<and> prepare_request a fr extra e rq (Some (c # cs)) =
       map_sum id (\<lambda>p. p\<lparr>pr_headers := dict_merge (base @ [key_header (ad_kind a) (c # cs)]) extra\<rparr>) res"
proof (cases "ad_kind a")
  case OpenAICompatibleAdapter
  then show ?thesis
    by (intro exI [of _ "[(''Content-Type'', ''application/json''), (''Accept'', ''application/json''), (''User-Agent'', USER_AGENT)]"]
          exI [of _ "openai_prepare fr extra e rq None"])
      (cases "openai_payload fr e rq", simp_all add: prepare_request_def openai_prepare_def key_header_def truthy_str_def Let_def)
next
  case AnthropicAdapter
  then show ?thesis
    by (intro exI [of _ "[(''Content-Type'', ''application/json''), (''anthropic-version'', ''2023-06-01''), (''User-Agent'', USER_AGENT)]"]
          exI [of _ "anthropic_prepare fr extra e rq None"])
      (cases "ir_to_anthropic_request rq (ep_model e)", simp_all add: prepare_request_def anthropic_prepare_def key_header_def truthy_str_def Let_def)
next
  case GeminiAdapter
  then show ?thesis
    by (intro exI [of _ "[(''Content-Type'', ''application/json''), (''User-Agent'', USER_AGENT)]"] exI [of _ "gemini_prepare fr extra e rq None"])
      (cases "ir_to_gemini_request fr rq", simp_all add: prepare_request_def gemini_prepare_def key_header_def truthy_str_def Let_def)
qed

section \<open>Byte streams\<close>

definition chunk_ok :: "timeout_budget \<Rightarrow> read_event \<Rightarrow> rat option \<times> string \<Rightarrow> bool" where
  "chunk_ok t r wc = (re_result r = Got (snd wc) \<and> snd wc \<noteq> []
     \<and> (case fst wc of
          Some w \<Rightarrow> re_sock r \<and> re_elapsed_ms r < tt_total t \<and> w \<le> timeout_seconds (tt_idle t) \<and> w \<le> (tt_total t - re_elapsed_ms r) / 1000
        | None \<Rightarrow> \<not> re_sock r))"

lemma byte_stream_chunks:
  "n \<le> MAX_PAYLOAD_BYTES \<Longrightarrow> byte_stream t n rs = (out, fin) \<Longrightarrow>
   n + (\<Sum>wc\<leftarrow>out. int (length (snd wc))) \<le> MAX_PAYLOAD_BYTES \<and> length out \<le> length rs \<and> list_all2 (chunk_ok t) (take (length out) rs) out"
proof (induction t n rs arbitrary: out fin rule: byte_stream.induct)
  case (2 t n r rs)
  show ?case
  proof (cases "out")
    case (Cons wc out')
    then obtain chunk where step: "re_cancelled r = None" "\<not> (re_sock r \<and> tt_total t - re_elapsed_ms r \<le> 0)" "re_result r = Got chunk" "chunk \<noteq> []"
        "n + int (length chunk) \<le> MAX_PAYLOAD_BYTES" "byte_stream t (n + int (length chunk)) rs = (out', fin)"
        "wc = (if re_sock r then Some (min (timeout_seconds (tt_idle t)) ((tt_total t - re_elapsed_ms r) / 1000)) else None, chunk)"
      using 2(3) by (auto simp: Let_def split: option.splits read_result.splits if_splits prod.splits)
    from 2(1) [OF step(1) refl step(2) refl step(3,4) _ step(5,6)] step(5)
    have "n + int (length chunk) + (\<Sum>wc\<leftarrow>out'. int (length (snd wc))) \<le> MAX_PAYLOAD_BYTES \<and> length out' \<le> length rs
        \<and> list_all2 (chunk_ok t) (take (length out') rs) out'" by simp
    moreover have "chunk_ok t r wc"
      unfolding chunk_ok_def step(7) fst_conv snd_conv using step(2,3,4) by (cases "re_sock r") (simp_all only: if_True if_False option.case min.cobounded1 min.cobounded2 not_le simp_thms diff_le_0_iff_le)
    ultimately show ?thesis using Cons step(7) by simp
  qed (use 2(2) in simp)
qed simp

text \<open>
  C30: A native stream is bounded in size, and in time while the connection keeps its socket.  The chunks relayed are
  the first chunks the reads gave, in order and complete; they amount to at most \<open>MAX_PAYLOAD_BYTES\<close>; each that was
  read through a socket of the connection was asked for before the total deadline, with a timeout of at most the idle
  timeout and at most the time that was left.
\<close>

theorem byte_stream_bounded:
  assumes "byte_stream t 0 rs = (out, fin)"
  shows "(\<Sum>wc\<leftarrow>out. int (length (snd wc))) \<le> MAX_PAYLOAD_BYTES \<and> length out \<le> length rs \<and> list_all2 (chunk_ok t) (take (length out) rs) out"
  using byte_stream_chunks [OF _ assms] by (simp add: MAX_PAYLOAD_BYTES_def)

theorem byte_stream_bounded_witness:
  "let t = \<lparr>tt_connect = 5000, tt_tls = 5000, tt_first_byte = 15000, tt_idle = 10000, tt_total = 60000\<rparr>;
       r = \<lparr>re_cancelled = None, re_sock = True, re_elapsed_ms = 100, re_result = Got ''data: x'', re_cancelled_after = False\<rparr>
   in \<exists>out. byte_stream t 0 [r, r\<lparr>re_result := Got []\<rparr>] = (out, Some None) \<and> list_all2 (chunk_ok t) [r] out"
proof -
  let ?t = "\<lparr>tt_connect = 5000, tt_tls = 5000, tt_first_byte = 15000, tt_idle = 10000, tt_total = 60000\<rparr>"
  let ?r = "\<lparr>re_cancelled = None, re_sock = True, re_elapsed_ms = 100, re_result = Got ''data: x'', re_cancelled_after = False\<rparr>"
  have *: "byte_stream ?t 0 [?r, ?r\<lparr>re_result := Got []\<rparr>] = ([(Some (min (timeout_seconds 10000) (59900 / 1000)), ''data: x'')], Some None)"
    by (simp add: MAX_PAYLOAD_BYTES_def)
  from byte_stream_bounded [OF *] * show ?thesis by (auto simp: Let_def)
qed

text \<open>
  Without a socket there is no deadline: when the upstream closes the connection with its response, the connection
  object has no socket any more, \<open>_set_idle_timeout\<close> does nothing, and chunks are relayed however late they come.
\<close>

lemma closed_connection_has_no_deadline:
  assumes "re_cancelled r = None" "\<not> re_sock r" "re_result r = Got chunk" "chunk \<noteq> []" "int (length chunk) \<le> MAX_PAYLOAD_BYTES"
  shows "byte_stream t 0 [r\<lparr>re_elapsed_ms := late\<rparr>] = ([(None, chunk)], None)"
  using assms by simp

end
