(* ===== verification/StreamReading.thy ===== *)
theory StreamReading
  imports Adapters OpenAiTheorems
begin

text \<open>
  The adapters' own reading of event streams (\<open>_parse_anthropic_sse\<close>, \<open>sse_chunks_to_ir\<close>), which goes by lines of
  text, against the streams the gateway itself writes.
\<close>

section \<open>Lines\<close>

fun unbroken :: "string \<Rightarrow> bool" where
  "unbroken [] = True"
| "unbroken (c # s) = (after_linebreak (c # s) = None \<and> unbroken s)"

lemma first_some_None: "first_some f xs = None \<longleftrightarrow> (\<forall>x \<in> set xs. f x = None)"
  by (induction xs) (auto split: option.splits)

lemma after_linebreak_None:
  "after_linebreak s = None \<longleftrightarrow> (\<forall>ns \<in> set [[13, 10], [10], [11], [12], [13], [28], [29], [30], [194, 133], [226, 128, 168], [226, 128, 169]].
     codes_follow ns s = None)"
  unfolding after_linebreak_def first_some_None by (rule refl)

lemma code_NL: "(of_char Streaming.NL :: nat) = 10"
  by simp

lemma after_linebreak_ext: "after_linebreak (c # s) = None \<Longrightarrow> after_linebreak (c # s @ Streaming.NL # t) = None"
proof (cases s)
  case (Cons d s')
  assume "after_linebreak (c # s) = None"
  then show ?thesis unfolding Cons after_linebreak_None by (cases s') (simp_all add: code_NL split: if_splits)
qed (simp add: after_linebreak_None code_NL split: if_splits)

lemma after_linebreak_NL: "after_linebreak (Streaming.NL # t) = Some t"
  by (simp add: after_linebreak_def code_NL)

lemma splitlines_from_line: "unbroken s \<Longrightarrow> splitlines_from cur (s @ Streaming.NL # t) = (rev cur @ s) # splitlines_from [] t"
proof (induction s arbitrary: cur)
  case Nil
  then show ?case by (subst splitlines_from.simps) (simp add: after_linebreak_NL)
next
  case (Cons c s)
  then have "after_linebreak (c # s @ Streaming.NL # t) = None" by (intro after_linebreak_ext) simp
  then have "splitlines_from cur ((c # s) @ Streaming.NL # t) = splitlines_from (c # cur) (s @ Streaming.NL # t)"
    by (subst splitlines_from.simps) simp
  with Cons show ?case by simp
qed

lemma splitlines_line: "unbroken s \<Longrightarrow> splitlines (s @ Streaming.NL # t) = s # splitlines t"
  by (simp add: splitlines_def splitlines_from_line)

lemma unbroken_ascii: "(32 \<le> (of_char c :: nat) \<and> (of_char c :: nat) < 128) \<Longrightarrow> unbroken s \<Longrightarrow> unbroken (c # s)"
  by (simp add: after_linebreak_None)

declare unbroken.simps(2) [simp del]

lemma unbroken_printable: "printable p \<Longrightarrow> unbroken s \<Longrightarrow> unbroken (p @ s)"
  unfolding printable_def by (induction p) (auto simp: unbroken_ascii)

section \<open>Frames\<close>

lemma splitlines_frame:
  assumes "printable ev" and "unbroken (dumps fr j)"
  shows "splitlines (sse_frame fr ev j @ t) = (''event: '' @ ev) # (''data: '' @ dumps fr j) # [] # splitlines t"
proof -
  have p: "printable (''event: '' @ ev)" "printable ''data: ''" using assms(1) by (simp_all add: printable_def)
  have e: "unbroken (''event: '' @ ev)" using unbroken_printable [OF p(1), of "[]"] by (simp only: unbroken.simps(1) append_Nil2)
  have d: "unbroken (''data: '' @ dumps fr j)" by (rule unbroken_printable [OF p(2) assms(2)])
  have "sse_frame fr ev j @ t = (''event: '' @ ev) @ Streaming.NL # (''data: '' @ dumps fr j) @ Streaming.NL # [] @ Streaming.NL # t"
    by (simp add: sse_frame_def data_frame_def)
  then show ?thesis
    by (simp only: splitlines_line [OF e] splitlines_line [OF d] splitlines_line [OF unbroken.simps(1) [THEN iffD2, OF TrueI]])
qed

lemma data_line_text:
  "strip (''data: '' @ dumps fr (JObj kvs)) = ''data: '' @ dumps fr (JObj kvs)"
  "strip (drop 5 (''data: '' @ dumps fr (JObj kvs))) = dumps fr (JObj kvs)"
proof -
  have "trimmed (''data: '' @ dumps fr (JObj kvs))" using object_trimmed [of fr kvs] by (simp add: trimmed_def is_space_def)
  then show "strip (''data: '' @ dumps fr (JObj kvs)) = ''data: '' @ dumps fr (JObj kvs)" by (rule strip_trimmed(2))
  have "drop 5 (''data: '' @ dumps fr (JObj kvs)) = CHR '' '' # dumps fr (JObj kvs)" by simp
  then show "strip (drop 5 (''data: '' @ dumps fr (JObj kvs))) = dumps fr (JObj kvs)"
    by (simp only: strip_trimmed(1) [OF object_trimmed])
qed


lemma message_line_other: "message_line fr uuid [] s = Decoded s"
  "event_name ev \<Longrightarrow> ev \<noteq> [] \<Longrightarrow> message_line fr uuid (''event: '' @ ev) s = Decoded s"
proof -
  show "message_line fr uuid [] s = Decoded s" by (simp add: message_line_def strip_def startswith_def)
  assume "event_name ev" "ev \<noteq> []"
  then have "trimmed (''event: '' @ ev)" by (simp add: trimmed_def is_space_def event_name_def)
  then have "strip (''event: '' @ ev) = ''event: '' @ ev" by (rule strip_trimmed(2))
  then show "message_line fr uuid (''event: '' @ ev) s = Decoded s" by (simp add: message_line_def startswith_def)
qed

lemma message_line_data:
  assumes "json_ok fr (JObj kvs)"
  shows "message_line fr uuid (''data: '' @ dumps fr (JObj kvs)) s = message_event fr uuid (JObj kvs) s"
proof -
  have "startswith (''data: '' @ dumps fr (JObj kvs)) ''data:''" by (simp add: startswith_def)
  then show ?thesis
    unfolding message_line_def Let_def data_line_text using loads_dumps [OF assms, of True] by (simp only: if_True option.case)
qed

text \<open>An event that can be read line by line: a name, and an object whose text no line separator interrupts.\<close>

definition line_event :: "(rat \<Rightarrow> string) \<Rightarrow> string \<times> json \<Rightarrow> bool" where
  "line_event fr e = (case e of (ev, j) \<Rightarrow> event_name ev \<and> ev \<noteq> [] \<and> is_dict j \<and> json_ok fr j \<and> unbroken (dumps fr j))"

lemma read_frames:
  "list_all (line_event fr) es \<Longrightarrow>
   dfold (message_line fr uuid) (splitlines (concat (map (\<lambda>(ev, j). sse_frame fr ev j) es))) s =
     dfold (\<lambda>(ev, j). message_event fr uuid j) es s"
proof (induction es arbitrary: s)
  case Nil
  then show ?case by (simp add: splitlines_def splitlines_from.simps)
next
  case (Cons e es)
  obtain ev kvs where e: "e = (ev, JObj kvs)" "event_name ev" "ev \<noteq> []" "json_ok fr (JObj kvs)" "unbroken (dumps fr (JObj kvs))"
    using Cons.prems by (cases e) (auto simp: line_event_def is_dict_def split: json.splits)
  have "printable ev" using e(2) by (simp add: event_name_def)
  note lines = splitlines_frame [OF this e(5), of "concat (map (\<lambda>(ev, j). sse_frame fr ev j) es)"]
  have tail: "dfold (message_line fr uuid) ([] # splitlines (concat (map (\<lambda>(ev, j). sse_frame fr ev j) es))) s'
      = dfold (\<lambda>(ev, j). message_event fr uuid j) es s'" for s'
    using Cons by (simp add: message_line_other(1))
  have "dfold (message_line fr uuid) (splitlines (concat (map (\<lambda>(ev, j). sse_frame fr ev j) (e # es)))) s
      = dbind (message_event fr uuid (JObj kvs) s) (dfold (message_line fr uuid) ([] # splitlines (concat (map (\<lambda>(ev, j). sse_frame fr ev j) es))))"
    unfolding e(1) list.map prod.case concat.simps lines dfold.simps(2) [of _ "''event: '' @ ev"] dfold.simps(2) [of _ "''data: '' @ x" for x]
      message_line_other(2) [OF e(2,3)] message_line_data [OF e(4)] dbind.simps ..
  also have "\<dots> = dfold (\<lambda>(ev, j). message_event fr uuid j) (e # es) s"
    unfolding e(1) dfold.simps(2) [of _ "(ev, JObj kvs)"] prod.case using tail by (cases "message_event fr uuid (JObj kvs) s") simp_all
  finally show ?case .
qed


section \<open>Replayed responses\<close>

abbreviation read_events :: "(rat \<Rightarrow> string) \<Rightarrow> (nat \<Rightarrow> string) \<Rightarrow> (string \<times> json) list \<Rightarrow> message_stream \<Rightarrow> message_stream decoded" where
  "read_events fr uuid \<equiv> dfold (\<lambda>(ev, j). message_event fr uuid j)"

lemmas event_reading = message_event_def is_dict_def start_event_def delta_event_def stop_event_def block_event_def on_block_start_def
  on_block_delta_def on_block_stop_def concat_json_def or_json_def Let_def

lemma read_thinking:
  "read_events fr uuid (thinking_events r) s =
     Decoded (if truthy_str (rs_reasoning_content r)
       then s\<lparr>ms_reasoning := JStr (the (rs_reasoning_content r)), ms_signature := JNull, ms_block_type := JNull\<rparr> else s)"
  by (simp add: thinking_events_def event_reading)

lemma read_text:
  "read_events fr uuid (text_events n r) s =
     Decoded (if truthy_str (rs_content r)
       then s\<lparr>ms_text_parts := ms_text_parts s @ [JStr [], JStr (the (rs_content r))], ms_block_type := JNull\<rparr> else s)"
  by (simp add: text_events_def event_reading)

lemma read_tool:
  assumes "wire_call fr tc"
  shows "read_events fr uuid (tool_events fr n tc) s =
    Decoded (s\<lparr>ms_tool_calls := ms_tool_calls s @ [reread_call fr tc], ms_block_type := JNull, ms_tool_id := JStr (tc_id tc),
      ms_tool_name := JStr (tc_name tc), ms_tool_input := dumps fr (tc_arguments tc)\<rparr>)"
proof -
  have "dumps fr (tc_arguments tc) \<noteq> []" "loads True (dumps fr (tc_arguments tc)) = Some (tc_arguments tc)"
    using assms dumps_nonempty [of fr "tc_arguments tc"] loads_dumps [of fr "tc_arguments tc" True] by (auto simp: wire_call_def)
  then show ?thesis
    by (simp add: tool_events_def event_reading wire_raw [OF assms] reread_call_def new_tool_call_def)
qed

lemma read_tools:
  "list_all (wire_call fr) tcs \<Longrightarrow> \<exists>b i n t. read_events fr uuid (tools_events fr m tcs) s =
     Decoded (s\<lparr>ms_tool_calls := ms_tool_calls s @ map (reread_call fr) tcs, ms_block_type := b, ms_tool_id := i, ms_tool_name := n,
       ms_tool_input := t\<rparr>)"
proof (induction tcs arbitrary: m s)
  case Nil
  show ?case
    by (intro exI [of _ "ms_block_type s"] exI [of _ "ms_tool_id s"] exI [of _ "ms_tool_name s"] exI [of _ "ms_tool_input s"]) simp
next
  case (Cons tc tcs)
  let ?s = "s\<lparr>ms_tool_calls := ms_tool_calls s @ [reread_call fr tc], ms_block_type := JNull, ms_tool_id := JStr (tc_id tc),
      ms_tool_name := JStr (tc_name tc), ms_tool_input := dumps fr (tc_arguments tc)\<rparr>"
  from Cons.IH [of "Suc m" ?s] Cons.prems obtain b i n t where
    "read_events fr uuid (tools_events fr (Suc m) tcs) ?s = Decoded (?s\<lparr>ms_tool_calls := ms_tool_calls ?s @ map (reread_call fr) tcs, ms_block_type := b,
       ms_tool_id := i, ms_tool_name := n, ms_tool_input := t\<rparr>)" by auto
  then show ?case using Cons.prems
    by (intro exI [of _ b] exI [of _ i] exI [of _ n] exI [of _ t]) (simp add: dfold_append read_tool)
qed

definition reread_finish :: "string \<Rightarrow> string" where
  "reread_finish f = (if f \<in> {''tool_calls'', ''length''} then f else ''stop'')"

lemma finish_reread: "finish_of_stop (JStr (stop_reason_of f)) = Decoded (reread_finish f)" "stop_reason_of f \<noteq> []"
  by (auto simp: finish_of_stop_def stop_reason_of_def dict_get_def reread_finish_def)

lemma read_start:
  "p \<noteq> [] \<Longrightarrow> model \<noteq> [] \<Longrightarrow> message_event fr uuid (JObj [(''type'', JStr ''message_start''), (''message'', JObj [
      (''id'', JStr p), (''type'', JStr ''message''), (''role'', JStr ''assistant''), (''model'', JStr model), (''content'', JArr []),
      (''stop_reason'', JNull), (''stop_sequence'', JNull),
      (''usage'', JObj [(''input_tokens'', JInt n), (''output_tokens'', JInt 1)])])]) s
   = Decoded (s\<lparr>ms_id := JStr p, ms_model := JStr model, ms_input_tokens := JInt n\<rparr>)"
  by (simp add: message_event_def is_dict_def on_message_start_def or_json_def)

lemma read_end:
  "message_event fr uuid (JObj [(''type'', JStr ''message_delta''),
      (''delta'', JObj [(''stop_reason'', JStr (stop_reason_of f)), (''stop_sequence'', JNull)]),
      (''usage'', JObj [(''output_tokens'', JInt n)])]) s
   = Decoded (s\<lparr>ms_stop_reason := JStr (stop_reason_of f), ms_output_tokens := JInt n\<rparr>)"
  "message_event fr uuid (JObj [(''type'', JStr ''message_stop'')]) s = Decoded s"
  using finish_reread(2) by (simp_all add: message_event_def is_dict_def on_message_delta_def or_json_def)

lemma message_result_fields:
  assumes "joined (ms_text_parts s) = Decoded c" "finish_of_stop (ms_stop_reason s) = Decoded f" "ms_id s = JStr i" "ms_model s = JStr m"
    "need_opt_str (ms_reasoning s) = Decoded rc" "ms_signature s = JNull" "ms_input_tokens s = JInt pt" "ms_output_tokens s = JInt ct"
    "ms_tool_calls s = tcs"
  shows "\<exists>raw. message_result s = Decoded
    \<lparr>rs_response_id = i, rs_model = m, rs_content = c, rs_reasoning_content = rc, rs_reasoning_signature = None,
     rs_tool_calls = tcs, rs_finish_reason = f, rs_input_tokens = pt, rs_output_tokens = ct, rs_raw_response = raw\<rparr>"
  unfolding message_result_def assms need_simps dbind.simps by (rule exI, rule refl)

lemma response_as_update:
  "\<lparr>rs_response_id = i, rs_model = m, rs_content = c, rs_reasoning_content = rc, rs_reasoning_signature = g, rs_tool_calls = tcs,
    rs_finish_reason = f, rs_input_tokens = rs_input_tokens r, rs_output_tokens = rs_output_tokens r, rs_raw_response = raw\<rparr>
   = r\<lparr>rs_response_id := i, rs_model := m, rs_content := c, rs_reasoning_content := rc, rs_reasoning_signature := g, rs_tool_calls := tcs,
    rs_finish_reason := f, rs_raw_response := raw\<rparr>"
  by (rule normalized_response.equality) simp_all




text \<open>
  A line separator inside a text destroys its chunk.  \<open>sse_chunks_to_ir\<close> divides the stream with \<open>splitlines\<close>, which
  also breaks at U+2028, U+2029 and U+0085; JSON leaves these characters as they are, so a chunk whose text contains
  one is cut in two, neither half is JSON, and the text is silently missing from the response.
\<close>

theorem line_separator_loses_text:
  "let chunk = (\<lambda>t. data_frame (\<lambda>_. ''0.0'') (JObj [(''choices'', JArr [JObj [(''delta'', JObj [(''content'', JStr t)])]])]));
       sep = [CHR 0xE2, CHR 0x80, CHR 0xA8] in
   (case sse_chunks_to_ir (\<lambda>_. ''0.0'') ''u'' (\<lambda>_. ''v'') (chunk ''one '' @ chunk (''two'' @ sep) @ chunk ''three'' @ done_frame) ''m'' of
      Decoded r \<Rightarrow> rs_content r = Some ''one three'' | _ \<Rightarrow> False)
   \<and> map ev_json (fst (feed (chunk (''two'' @ sep)) new_parser))
       = [JObj [(''choices'', JArr [JObj [(''delta'', JObj [(''content'', JStr (''two'' @ sep))])]])]]"
  by code_simp

end
