(* ===== verification/McpProxy.thy ===== *)
theory McpProxy
  imports ToolPass OpenAi
begin

text \<open>
  \<^verbatim>\<open>mcp/proxy.py\<close>: the reverse proxy for MCP tools, over any tool ledger.  What a registered handler does on a
  call is an input of the request: it returns a JSON value or raises; a value that \<^verbatim>\<open>json.dumps\<close> rejects takes the
  path of an exception.  Every request reads the ledger's clock and \<open>time.time()\<close> once.
\<close>

section \<open>The proxy\<close>

record mcp_tool =
  mt_name :: string
  mt_description :: string
  mt_input_schema :: json
  mt_has_handler :: bool

record 'l mcp_proxy =
  mp_ledger :: 'l
  mp_validator :: tool_call_validator
  mp_tools :: "(string, mcp_tool) dict"

definition register_tool :: "mcp_tool \<Rightarrow> 'l mcp_proxy \<Rightarrow> 'l mcp_proxy" where
  "register_tool t p = p\<lparr>mp_tools := AList.update (mt_name t) t (mp_tools p)\<rparr>"

definition new_mcp_proxy :: "'l \<Rightarrow> mcp_tool list \<Rightarrow> tool_call_validator \<Rightarrow> 'l mcp_proxy" where
  "new_mcp_proxy l tools tv = fold register_tool tools \<lparr>mp_ledger = l, mp_validator = tv, mp_tools = []\<rparr>"

text \<open>The ledger methods beyond those of the executor.\<close>

record 'l mcp_ops = "'l ledger_ops" +
  lo_mark_submitted :: "time \<Rightarrow> string \<Rightarrow> 'l \<Rightarrow> unit result \<times> 'l"
  lo_mark_committed :: "time \<Rightarrow> time \<Rightarrow> string \<Rightarrow> json \<Rightarrow> 'l \<Rightarrow> unit result \<times> 'l"

definition memory_mcp_ops :: "digest_env \<Rightarrow> tool_ledger mcp_ops" where
  "memory_mcp_ops env =
     ledger_ops.extend (memory_ops env)
       \<lparr>lo_mark_submitted = (\<lambda>wall i l. (Inr (), mark_submitted wall i l)),
        lo_mark_committed = (\<lambda>now wall i r l. (Inr (), mark_committed now wall i r l))\<rparr>"

datatype handler_outcome = Handler_returns json | Handler_raises string

record mcp_request =
  mq_body :: json
  mq_headers :: "(string, string) dict"
  mq_now :: time
  mq_wall :: time
  mq_outcome :: handler_outcome

type_synonym mcp_answer = "int \<times> json \<times> (string, string) dict"

record mcp_env =
  me_digest :: digest_env
  me_py :: py_env
  me_exc_text :: "gateway_error \<Rightarrow> string"

section \<open>Answers\<close>

definition quoted :: "string \<Rightarrow> string" where
  "quoted s = char_of (39 :: nat) # s @ [char_of (39 :: nat)]"

definition rpc_result :: "json \<Rightarrow> json \<Rightarrow> json" where
  "rpc_result req_id r = JObj [(''jsonrpc'', JStr ''2.0''), (''id'', req_id), (''result'', r)]"

definition rpc_error :: "json \<Rightarrow> int \<Rightarrow> string \<Rightarrow> (string \<times> json) list \<Rightarrow> json" where
  "rpc_error req_id code text extra =
     JObj [(''jsonrpc'', JStr ''2.0''), (''id'', req_id), (''error'', JObj ([(''code'', JInt code), (''message'', JStr text)] @ extra))]"

definition json_header :: "string \<times> string" where
  "json_header = (''Content-Type'', ''application/json'')"

definition handle_initialize :: "json \<Rightarrow> (string, json) dict \<Rightarrow> mcp_answer" where
  "handle_initialize req_id params =
     (200, rpc_result req_id (JObj
        [(''protocolVersion'', dict_get params ''protocolVersion'' (JStr ''2024-11-05'')),
         (''capabilities'', JObj [(''tools'', JObj [(''listChanged'', JBool False)])]),
         (''serverInfo'', JObj [(''name'', JStr ''durallm-mcp-proxy''), (''version'', JStr ''3.0.0'')])]), [json_header])"

definition handle_tools_list :: "json \<Rightarrow> (string, mcp_tool) dict \<Rightarrow> mcp_answer" where
  "handle_tools_list req_id tools =
     (200, rpc_result req_id (JObj [(''tools'', JArr (map (\<lambda>(_, t). JObj [(''name'', JStr (mt_name t)),
        (''description'', JStr (mt_description t)), (''inputSchema'', mt_input_schema t)]) tools))]), [json_header])"

definition tool_answer :: "json \<Rightarrow> string \<Rightarrow> json \<Rightarrow> string \<Rightarrow> (string \<times> json) list \<Rightarrow> json" where
  "tool_answer req_id text is_error status extra =
     rpc_result req_id (JObj ([(''content'', JArr [JObj [(''type'', JStr ''text''), (''text'', JStr text)]]),
        (''isError'', is_error), (''_lcb_status'', JStr status)] @ extra))"

section \<open>What a call means\<close>

text \<open>\<open>a or b or \<dots>\<close> over the values found.\<close>

fun first_truthy :: "json list \<Rightarrow> json" where
  "first_truthy [] = JNull"
| "first_truthy (j # js) = (if truthy_json j then j else first_truthy js)"

definition dict_json :: "(string, json) dict \<Rightarrow> string \<Rightarrow> json" where
  "dict_json d k = dict_get d k JNull"

definition header_json :: "(string, string) dict \<Rightarrow> string \<Rightarrow> json" where
  "header_json h k = opt_str (map_of h k)"

definition meta_of :: "(string, json) dict \<Rightarrow> (string, json) dict" where
  "meta_of params = (case dict_get params ''_meta'' (JObj []) of JObj kvs \<Rightarrow> kvs | _ \<Rightarrow> [])"

definition operation_id_of :: "digest_env \<Rightarrow> (string, json) dict \<Rightarrow> (string, string) dict \<Rightarrow> string \<Rightarrow> json \<Rightarrow> string decoded" where
  "operation_id_of env params headers tool_name arguments =
     (let meta = meta_of params;
          found = first_truthy
            [dict_json meta ''operation_id'', dict_json meta ''idempotency_key'', dict_json params ''operation_id'',
             dict_json params ''idempotency_key'', header_json headers ''Idempotency-Key'', header_json headers ''idempotency-key'',
             header_json headers ''X-LCB-Operation-Id'', header_json headers ''x-lcb-operation-id'']
      in if truthy_json found then need_str found
         else Decoded (''op_'' @ tool_name @ ''_'' @ take 16 (compute_arguments_hash env arguments)))"

definition tool_call_id_of ::
  "digest_env \<Rightarrow> time \<Rightarrow> json \<Rightarrow> (string, json) dict \<Rightarrow> (string, string) dict \<Rightarrow> string \<Rightarrow> string decoded" where
  "tool_call_id_of env wall req_id params headers operation_id =
     (let meta = meta_of params;
          found = first_truthy
            [dict_json meta ''tool_call_id'', dict_json params ''tool_call_id'',
             header_json headers ''X-LCB-Tool-Call-Id'', header_json headers ''x-lcb-tool-call-id'']
      in if truthy_json found then need_str found
         else Decoded (''mcp_'' @ operation_id @ ''_''
           @ (if truthy_json req_id then str_json (float_repr env) req_id else str_of_int \<lfloor>wall * 1000\<rfloor>)))"

text \<open>A call that goes to the ledger.\<close>

record planned_call =
  pc_call_id :: string
  pc_operation_id :: string
  pc_tool :: string
  pc_arguments :: json

text \<open>Steps 1 and 2: validation against the registered schema and the identifiers.\<close>

definition checked_arguments ::
  "mcp_env \<Rightarrow> tool_call_validator \<Rightarrow> (string, mcp_tool) dict \<Rightarrow> json \<Rightarrow> string \<Rightarrow> json \<Rightarrow> (mcp_answer + json) decoded" where
  "checked_arguments env tv tools req_id tool_name arguments =
     (case map_of tools tool_name of
        None \<Rightarrow> Decoded (Inr arguments)
      | Some t \<Rightarrow>
          dbind (of_result (validate_tool_call (me_py env) tv tool_name arguments (Some (mt_input_schema t)) None)) (\<lambda>rep.
            if is_executable rep then Decoded (Inr (JObj (vr_validated_arguments rep)))
            else Decoded (Inl (200,
              tool_answer req_id (''Schema Validation Error: '' @ (case vr_error rep of None \<Rightarrow> ''None'' | Some x \<Rightarrow> py_message (me_py env) x))
                (JBool True) ''schema_invalid'' [], [(''X-LCB-Tool-Status'', ''schema_invalid'')]))))"

definition plan_call ::
  "mcp_env \<Rightarrow> tool_call_validator \<Rightarrow> (string, mcp_tool) dict \<Rightarrow> mcp_request \<Rightarrow> json \<Rightarrow> (string, json) dict \<Rightarrow> (mcp_answer + planned_call) decoded" where
  "plan_call env tv tools q req_id params =
     (case dict_json params ''name'' of
        JStr (c # cs) \<Rightarrow>
          dbind (checked_arguments env tv tools req_id (c # cs) (dict_get params ''arguments'' (JObj []))) (\<lambda>checked.
            case checked of
              Inl a \<Rightarrow> Decoded (Inl a)
            | Inr arguments \<Rightarrow>
                dbind (operation_id_of (me_digest env) params (mq_headers q) (c # cs) arguments) (\<lambda>op.
                dbind (tool_call_id_of (me_digest env) (mq_wall q) req_id params (mq_headers q) op) (\<lambda>i.
                  Decoded (Inr \<lparr>pc_call_id = i, pc_operation_id = op, pc_tool = c # cs, pc_arguments = arguments\<rparr>))))
      | _ \<Rightarrow> Decoded (Inl (200, rpc_error req_id (-32602) (''Invalid params: '' @ quoted ''name'' @ '' is required'') [], [])))"

section \<open>Execution\<close>

definition committed_receipt :: "time \<Rightarrow> string \<Rightarrow> json" where
  "committed_receipt wall output =
     JObj [(''status'', JStr ''committed''), (''output'', JStr output), (''is_error'', JBool False), (''timestamp'', JFloat wall)]"

definition status_headers :: "string \<Rightarrow> (string, string) dict" where
  "status_headers s = [(''X-LCB-Tool-Status'', s), (''X-LCB-Tool-Idempotency'', s), json_header]"

definition committed_answer :: "json \<Rightarrow> time \<Rightarrow> string \<Rightarrow> mcp_answer" where
  "committed_answer req_id wall output =
     (200, tool_answer req_id output (JBool False) ''committed'' [(''_lcb_receipt'', committed_receipt wall output)], status_headers ''committed'')"

definition blocked_answer :: "json \<Rightarrow> string \<Rightarrow> string \<Rightarrow> mcp_answer" where
  "blocked_answer req_id tool_name operation_id =
     (409, rpc_error req_id (-32001)
        (''Duplicate side-effect hazard: tool '' @ quoted tool_name @ '' has indeterminate status from a prior execution. ''
          @ ''Automatic re-execution prohibited by DuraLLM.'')
        [(''data'', JObj [(''operation_id'', JStr operation_id), (''indeterminate'', JBool True)])],
      [(''X-LCB-Tool-Status'', ''indeterminate''), (''X-LCB-Tool-Idempotency'', ''blocked'')])"

text \<open>The answer from a receipt; it raises when the receipt is not a dictionary.\<close>

definition replayed_answer :: "(rat \<Rightarrow> string) \<Rightarrow> json \<Rightarrow> json \<Rightarrow> mcp_answer decoded" where
  "replayed_answer fr req_id receipt =
     dbind (fetch receipt ''output'' (JStr [])) (\<lambda>output. dbind (fetch receipt ''is_error'' (JBool False)) (\<lambda>is_error.
       Decoded (200, tool_answer req_id (case output of JStr s \<Rightarrow> s | _ \<Rightarrow> dumps fr output) is_error ''replayed'' [(''_lcb_receipt'', receipt)],
                status_headers ''replayed'')))"

text \<open>
  Step 6.  A call gives the answer, the operation its handler ran for and whether the handler returned, and the
  ledger.
\<close>

definition failed_call :: "mcp_env \<Rightarrow> 'l mcp_ops \<Rightarrow> time \<Rightarrow> json \<Rightarrow> string \<Rightarrow> string \<Rightarrow> 'l \<Rightarrow> mcp_answer decoded \<times> 'l" where
  "failed_call env ops wall req_id call_id text l =
     (case lo_mark_failed ops wall call_id text l of
        (Inl e, l') \<Rightarrow> (Raises e, l')
      | (Inr _, l') \<Rightarrow> (Decoded (200, tool_answer req_id (''Error: '' @ text) (JBool True) ''failed'' [],
                            [(''X-LCB-Tool-Status'', ''failed''), json_header]), l'))"

definition run_tool ::
  "mcp_env \<Rightarrow> 'l mcp_ops \<Rightarrow> mcp_request \<Rightarrow> json \<Rightarrow> planned_call \<Rightarrow> bool \<Rightarrow> 'l \<Rightarrow> mcp_answer decoded \<times> bool option \<times> 'l" where
  "run_tool env ops q req_id c has_handler l =
     (let fr = float_repr (me_digest env) in
      if has_handler
      then (case mq_outcome q of
              Handler_raises text \<Rightarrow>
                (case failed_call env ops (mq_wall q) req_id (pc_call_id c) text l of (a, l') \<Rightarrow> (a, Some False, l'))
            | Handler_returns j \<Rightarrow>
                let output = (case j of JStr s \<Rightarrow> s | _ \<Rightarrow> dumps fr j) in
                (case lo_mark_committed ops (mq_now q) (mq_wall q) (pc_call_id c) (committed_receipt (mq_wall q) output) l of
                   (Inr _, l') \<Rightarrow> (Decoded (committed_answer req_id (mq_wall q) output), Some True, l')
                 | (Inl e, l') \<Rightarrow>
                     (case failed_call env ops (mq_wall q) req_id (pc_call_id c) (me_exc_text env e) l' of (a, l'') \<Rightarrow> (a, Some True, l''))))
      else
        let output = dumps_ascii fr (JObj [(''acknowledged'', JBool True), (''tool'', JStr (pc_tool c)), (''arguments'', pc_arguments c)]) in
        (case lo_mark_committed ops (mq_now q) (mq_wall q) (pc_call_id c) (committed_receipt (mq_wall q) output) l of
           (Inr _, l') \<Rightarrow> (Decoded (committed_answer req_id (mq_wall q) output), None, l')
         | (Inl e, l') \<Rightarrow> (Raises e, None, l')))"

text \<open>Step 5: the call is registered, validated and submitted.\<close>

definition submit_call :: "'l mcp_ops \<Rightarrow> mcp_request \<Rightarrow> planned_call \<Rightarrow> 'l \<Rightarrow> unit result \<times> 'l" where
  "submit_call ops q c l =
     (case lo_register ops (mq_now q) (pc_call_id c) (pc_operation_id c) (pc_tool c) (pc_arguments c) l of
        (Inl e, l1) \<Rightarrow> (Inl e, l1)
      | (Inr _, l1) \<Rightarrow>
          (case lo_mark_validated ops (mq_wall q) (pc_call_id c) l1 of
             (Inl e, l2) \<Rightarrow> (Inl e, l2)
           | (Inr _, l2) \<Rightarrow> lo_mark_submitted ops (mq_wall q) (pc_call_id c) l2))"

text \<open>Steps 3 to 6.\<close>

definition perform_call ::
  "mcp_env \<Rightarrow> 'l mcp_ops \<Rightarrow> mcp_request \<Rightarrow> json \<Rightarrow> planned_call \<Rightarrow> bool \<Rightarrow> 'l \<Rightarrow> mcp_answer decoded \<times> bool option \<times> 'l" where
  "perform_call env ops q req_id c has_handler l =
     (if lo_indeterminate ops (pc_operation_id c) (pc_tool c) (pc_arguments c) l
      then (Decoded (blocked_answer req_id (pc_tool c) (pc_operation_id c)), None, l)
      else case lo_check ops (mq_now q) (pc_operation_id c) (pc_tool c) (pc_arguments c) l of
             (True, Some receipt) \<Rightarrow>
               (case lo_mark_replayed ops (mq_now q) (pc_call_id c) (Some receipt) l of
                  (Inl e, l') \<Rightarrow> (Raises e, None, l')
                | (Inr _, l') \<Rightarrow> (replayed_answer (float_repr (me_digest env)) req_id receipt, None, l'))
           | _ \<Rightarrow>
               (case submit_call ops q c l of
                  (Inl e, l') \<Rightarrow> (Raises e, None, l')
                | (Inr _, l') \<Rightarrow> run_tool env ops q req_id c has_handler l'))"

definition tool_has_handler :: "(string, mcp_tool) dict \<Rightarrow> string \<Rightarrow> bool" where
  "tool_has_handler tools name = (case map_of tools name of None \<Rightarrow> False | Some t \<Rightarrow> mt_has_handler t)"

section \<open>Requests\<close>

text \<open>What a request asks for: an answer that needs no ledger, or a call.\<close>

definition rpc_params :: "(string, json) dict \<Rightarrow> (string, json) dict" where
  "rpc_params body = (case dict_get body ''params'' (JObj []) of JObj kvs \<Rightarrow> kvs | _ \<Rightarrow> [])"

definition plan_request ::
  "mcp_env \<Rightarrow> tool_call_validator \<Rightarrow> (string, mcp_tool) dict \<Rightarrow> mcp_request \<Rightarrow> (mcp_answer + planned_call) decoded" where
  "plan_request env tv tools q =
     (case mq_body q of
        JObj body \<Rightarrow>
          let req_id = dict_json body ''id'' in
          if dict_json body ''jsonrpc'' \<noteq> JStr ''2.0'' \<or> map_of body ''method'' = None
          then Decoded (Inl (400, rpc_error req_id (-32600) ''Invalid Request: must be valid JSON-RPC 2.0'' [], []))
          else
            let rpc_method = dict_json body ''method''; params = rpc_params body in
            if rpc_method = JStr ''initialize'' then Decoded (Inl (handle_initialize req_id params))
            else if rpc_method \<in> {JStr ''tools/list'', JStr ''tools/list_tools''} then Decoded (Inl (handle_tools_list req_id tools))
            else if rpc_method = JStr ''tools/call'' then plan_call env tv tools q req_id params
            else Decoded (Inl (200, rpc_error req_id (-32601)
                   (''Method not found: '' @ str_json (float_repr (me_digest env)) rpc_method) [], []))
      | _ \<Rightarrow> Raises AttributeError)"

definition request_id :: "mcp_request \<Rightarrow> json" where
  "request_id q = (case mq_body q of JObj body \<Rightarrow> dict_json body ''id'' | _ \<Rightarrow> JNull)"

definition handle_json_rpc ::
  "mcp_env \<Rightarrow> 'l mcp_ops \<Rightarrow> mcp_request \<Rightarrow> 'l mcp_proxy \<Rightarrow> mcp_answer decoded \<times> bool option \<times> 'l mcp_proxy" where
  "handle_json_rpc env ops q p =
     (case plan_request env (mp_validator p) (mp_tools p) q of
        Raises e \<Rightarrow> (Raises e, None, p)
      | Untyped \<Rightarrow> (Untyped, None, p)
      | Decoded (Inl a) \<Rightarrow> (Decoded a, None, p)
      | Decoded (Inr c) \<Rightarrow>
          (case perform_call env ops q (request_id q) c (tool_has_handler (mp_tools p) (pc_tool c)) (mp_ledger p) of
             (a, done_run, l') \<Rightarrow> (a, done_run, p\<lparr>mp_ledger := l'\<rparr>)))"

section \<open>Repeated operations\<close>

text \<open>The operation a request is for, and the identifier it registers under.\<close>

definition planned_key :: "digest_env \<Rightarrow> planned_call \<Rightarrow> string" where
  "planned_key env c = op_key (pc_operation_id c) (pc_tool c) (compute_arguments_hash env (pc_arguments c))"

definition request_target ::
  "mcp_env \<Rightarrow> tool_call_validator \<Rightarrow> (string, mcp_tool) dict \<Rightarrow> mcp_request \<Rightarrow> (string \<times> string) option" where
  "request_target env tv tools q =
     (case plan_request env tv tools q of
        Decoded (Inr c) \<Rightarrow> Some (pc_call_id c, planned_key (me_digest env) c)
      | _ \<Rightarrow> None)"

text \<open>A sequence of requests, with the operations whose handler returned.\<close>

fun mcp_run :: "mcp_env \<Rightarrow> 'l mcp_ops \<Rightarrow> mcp_request list \<Rightarrow> 'l mcp_proxy \<Rightarrow> string list \<times> 'l mcp_proxy" where
  "mcp_run env ops [] p = ([], p)"
| "mcp_run env ops (q # qs) p =
     (case handle_json_rpc env ops q p of
        (_, done_run, p') \<Rightarrow>
          (case mcp_run env ops qs p' of
             (keys, p'') \<Rightarrow>
               ((case (done_run, request_target env (mp_validator p) (mp_tools p) q) of (Some True, Some (_, key)) \<Rightarrow> [key] | _ \<Rightarrow> []) @ keys, p'')))"

end
