(* ===== verification/McpTheorems.thy ===== *)
theory McpTheorems
  imports McpProxy
begin

text \<open>
  The idempotency of the MCP proxy: what it relies on of a ledger, that the in-memory ledger provides it, and the
  consequence for sequences of requests.
\<close>

section \<open>The contract\<close>

text \<open>
  A ledger that keeps receipts: \<open>fits k\<close> says that it has room for \<open>k\<close> more receipts, \<open>committed\<close> are the operations
  with a receipt, and \<open>call_key\<close> gives the operation of a call identifier.
\<close>

locale once_ledger =
  fixes ops :: "'l mcp_ops" and env :: digest_env and fits :: "nat \<Rightarrow> 'l \<Rightarrow> bool" and committed :: "'l \<Rightarrow> string set"
    and known :: "string \<Rightarrow> 'l \<Rightarrow> bool" and due :: "time \<Rightarrow> bool" and call_key :: "string \<Rightarrow> string"
  assumes check: "fits k l \<Longrightarrow> due now \<Longrightarrow> op_key op tool (compute_arguments_hash env args) \<in> committed l
      \<Longrightarrow> \<exists>r. lo_check ops now op tool args l = (True, Some r)"
    and fewer: "fits (Suc k) l \<Longrightarrow> fits k l"
    and register: "fits (Suc k) l \<Longrightarrow> due now \<Longrightarrow> call_key i = op_key op tool (compute_arguments_hash env args)
      \<Longrightarrow> lo_register ops now i op tool args l = (r, l') \<Longrightarrow> r = Inr () \<and> fits (Suc k) l' \<and> committed l' = committed l \<and> known i l'"
    and validated: "fits k l \<Longrightarrow> lo_mark_validated ops wall i l = (r, l') \<Longrightarrow> known i l
      \<Longrightarrow> r = Inr () \<and> fits k l' \<and> committed l' = committed l \<and> known i l'"
    and submitted: "fits k l \<Longrightarrow> lo_mark_submitted ops wall i l = (r, l') \<Longrightarrow> known i l
      \<Longrightarrow> r = Inr () \<and> fits k l' \<and> committed l' = committed l \<and> known i l'"
    and failed: "fits k l \<Longrightarrow> lo_mark_failed ops wall i text l = (r, l') \<Longrightarrow> fits k l' \<and> committed l' = committed l"
    and replayed: "fits k l \<Longrightarrow> lo_mark_replayed ops now i receipt l = (r, l') \<Longrightarrow> fits k l' \<and> committed l' = committed l"
    and commit: "fits (Suc k) l \<Longrightarrow> due now \<Longrightarrow> known i l \<Longrightarrow> lo_mark_committed ops now wall i rc l = (r, l')
      \<Longrightarrow> r = Inr () \<and> fits k l' \<and> committed l' = insert (call_key i) (committed l)"
begin

lemma submit_known:
  assumes "fits (Suc k) l" "due (mq_now q)" "call_key (pc_call_id c) = planned_key env c" "submit_call ops q c l = (r, l')"
  shows "r = Inr () \<and> fits (Suc k) l' \<and> committed l' = committed l \<and> known (pc_call_id c) l'"
proof -
  obtain r1 l1 where reg: "lo_register ops (mq_now q) (pc_call_id c) (pc_operation_id c) (pc_tool c) (pc_arguments c) l = (r1, l1)"
    by fastforce
  from register [OF assms(1,2) assms(3) [unfolded planned_key_def] reg]
  have l1: "r1 = Inr ()" "fits (Suc k) l1" "committed l1 = committed l" "known (pc_call_id c) l1" by auto
  obtain r2 l2 where val: "lo_mark_validated ops (mq_wall q) (pc_call_id c) l1 = (r2, l2)" by fastforce
  from validated [OF l1(2) val l1(4)]
  have l2: "r2 = Inr ()" "fits (Suc k) l2" "committed l2 = committed l1" "known (pc_call_id c) l2" by auto
  have "lo_mark_submitted ops (mq_wall q) (pc_call_id c) l2 = (r, l')" using assms(4) reg val l1(1) l2(1) by (simp add: submit_call_def)
  from submitted [OF l2(2) this l2(4)] l1(3) l2(3) show ?thesis by simp
qed

lemma run_tool_commits:
  assumes "fits (Suc k) l" "due (mq_now q)" "known (pc_call_id c) l" "call_key (pc_call_id c) = planned_key (me_digest cfg) c"
    and "run_tool cfg ops q req_id c h l = (a, done_run, l')"
  shows "fits k l' \<and> committed l \<subseteq> committed l' \<and> (done_run = Some True \<longrightarrow> planned_key (me_digest cfg) c \<in> committed l')"
proof -
  have com: "fst (lo_mark_committed ops (mq_now q) (mq_wall q) (pc_call_id c) rc l) = Inr ()
      \<and> fits k (snd (lo_mark_committed ops (mq_now q) (mq_wall q) (pc_call_id c) rc l))
      \<and> committed (snd (lo_mark_committed ops (mq_now q) (mq_wall q) (pc_call_id c) rc l)) = insert (planned_key (me_digest cfg) c) (committed l)" for rc
    using commit [OF assms(1,2,3), of "mq_wall q" rc] assms(4)
    by (cases "lo_mark_committed ops (mq_now q) (mq_wall q) (pc_call_id c) rc l") simp
  have fail: "fits k (snd (failed_call cfg ops w req_id i msg l)) \<and> committed (snd (failed_call cfg ops w req_id i msg l)) = committed l" for w i msg
    using failed [OF assms(1), of w i msg] fewer
    by (cases "lo_mark_failed ops w i msg l") (auto simp: failed_call_def split: sum.splits)
  show ?thesis
    using assms(5) com fail
    by (auto simp: run_tool_def Let_def prod.case_eq_if split: if_splits handler_outcome.splits sum.splits)
qed

lemma perform_once:
  assumes "fits (Suc k) l" "due (mq_now q)" "call_key (pc_call_id c) = planned_key (me_digest cfg) c" "me_digest cfg = env"
    and "perform_call cfg ops q req_id c h l = (a, done_run, l')"
  shows "fits k l' \<and> committed l \<subseteq> committed l'
    \<and> (done_run = Some True \<longrightarrow> planned_key env c \<notin> committed l \<and> planned_key env c \<in> committed l')"
proof (cases "lo_indeterminate ops (pc_operation_id c) (pc_tool c) (pc_arguments c) l")
  case True
  then show ?thesis using assms(1,5) fewer by (simp add: perform_call_def)
next
  case False
  show ?thesis
  proof (cases "\<exists>r. lo_check ops (mq_now q) (pc_operation_id c) (pc_tool c) (pc_arguments c) l = (True, Some r)")
    case True
    then show ?thesis
      using assms(1,5) False replayed [OF assms(1)] fewer by (fastforce simp: perform_call_def split: prod.splits sum.splits)
  next
    case unseen: False
    then have fresh: "planned_key env c \<notin> committed l" using check [OF assms(1,2)] by (metis planned_key_def)
    obtain r l1 where sub: "submit_call ops q c l = (r, l1)" by fastforce
    from submit_known [OF assms(1,2) assms(3) [unfolded assms(4)] sub]
    have l1: "r = Inr ()" "fits (Suc k) l1" "committed l1 = committed l" "known (pc_call_id c) l1" by auto
    have "perform_call cfg ops q req_id c h l = run_tool cfg ops q req_id c h l1"
      using False unseen sub l1(1) by (auto simp: perform_call_def split: prod.splits option.splits bool.splits)
    then have "run_tool cfg ops q req_id c h l1 = (a, done_run, l')" using assms(5) by simp
    from run_tool_commits [OF l1(2) assms(2) l1(4) assms(3) this] l1(3) fresh assms(4) show ?thesis by auto
  qed
qed

lemma run_once:
  assumes "length qs \<le> k" "fits k (mp_ledger p)" "\<forall>q \<in> set qs. due (mq_now q)" "me_digest cfg = env"
    and "\<forall>q \<in> set qs. case request_target cfg (mp_validator p) (mp_tools p) q of None \<Rightarrow> True | Some (i, key) \<Rightarrow> call_key i = key"
  shows "distinct (fst (mcp_run cfg ops qs p)) \<and> set (fst (mcp_run cfg ops qs p)) \<inter> committed (mp_ledger p) = {}"
  using assms
proof (induction qs arbitrary: p k)
  case (Cons q qs)
  obtain k' where k: "k = Suc k'" using Cons.prems(1) by (cases k) auto
  obtain a done_run p' where h: "handle_json_rpc cfg ops q p = (a, done_run, p')" by (metis prod_cases3)
  have p': "mp_validator p' = mp_validator p" "mp_tools p' = mp_tools p"
    using h by (auto simp: handle_json_rpc_def split: decoded.splits sum.splits prod.splits)
  have step: "fits k' (mp_ledger p') \<and> committed (mp_ledger p) \<subseteq> committed (mp_ledger p')
      \<and> (done_run = Some True \<longrightarrow> (\<exists>i key. request_target cfg (mp_validator p) (mp_tools p) q = Some (i, key)
            \<and> key \<notin> committed (mp_ledger p) \<and> key \<in> committed (mp_ledger p')))"
  proof (cases "\<exists>c. plan_request cfg (mp_validator p) (mp_tools p) q = Decoded (Inr c)")
    case True
    then obtain c where c: "plan_request cfg (mp_validator p) (mp_tools p) q = Decoded (Inr c)" by blast
    then have target: "request_target cfg (mp_validator p) (mp_tools p) q = Some (pc_call_id c, planned_key env c)"
      using Cons.prems(4) by (simp add: request_target_def)
    then have key: "call_key (pc_call_id c) = planned_key (me_digest cfg) c" using Cons.prems(4,5) by simp
    obtain l' where "perform_call cfg ops q (request_id q) c (tool_has_handler (mp_tools p) (pc_tool c)) (mp_ledger p) = (a, done_run, l')"
        "p' = p\<lparr>mp_ledger := l'\<rparr>"
      using h c by (auto simp: handle_json_rpc_def split: prod.splits)
    from perform_once [OF Cons.prems(2) [unfolded k] _ key Cons.prems(4) this(1)] this(2) Cons.prems(3) target
    show ?thesis by auto
  next
    case False
    then have "p' = p" "done_run = None" using h by (auto simp: handle_json_rpc_def split: decoded.splits sum.splits)
    then show ?thesis using Cons.prems(2) k fewer by simp
  qed
  have "length qs \<le> k'" using Cons.prems(1) k by simp
  from Cons.IH [OF this, of p'] step Cons.prems(3-5) p'
  have "distinct (fst (mcp_run cfg ops qs p'))" "set (fst (mcp_run cfg ops qs p')) \<inter> committed (mp_ledger p') = {}" by auto
  with step h show ?case
    by (cases "mcp_run cfg ops qs p'"; cases done_run) (auto split: option.splits bool.splits)
qed simp

end

section \<open>The in-memory ledger\<close>

definition record_key :: "tool_record \<Rightarrow> string" where
  "record_key rec = op_key (tr_logical_operation_id rec) (tr_tool_name rec) (tr_arguments_hash rec)"

definition memory_fits :: "nat \<Rightarrow> rat \<Rightarrow> time \<Rightarrow> (string \<Rightarrow> string) \<Rightarrow> nat \<Rightarrow> tool_ledger \<Rightarrow> bool" where
  "memory_fits n ttl start call_key k l \<longleftrightarrow> ledger_inv n l \<and> tl_ttl l = Some ttl \<and> 0 \<le> ttl \<and> length (tl_receipts l) + k \<le> n
     \<and> (\<forall>(key, r, stamp) \<in> set (tl_receipts l). start \<le> stamp) \<and> (\<forall>(i, rec) \<in> set (tl_records l). record_key rec = call_key i)"

definition receipt_keys :: "tool_ledger \<Rightarrow> string set" where
  "receipt_keys l = set (map fst (tl_receipts l))"

definition within_ttl :: "rat \<Rightarrow> time \<Rightarrow> time \<Rightarrow> bool" where
  "within_ttl ttl start now \<longleftrightarrow> start \<le> now \<and> now \<le> start + ttl"

lemma evict_ttl_id: "\<forall>p \<in> set d. \<not> past_ttl ttl now (stamp (snd p)) \<Longrightarrow> evict_ttl ttl now stamp d = d"
  by (cases d) auto

lemma evict_receipts:
  assumes "tl_ttl l = Some ttl" "length (tl_receipts l) \<le> tl_max_records l" "\<forall>(key, r, stamp) \<in> set (tl_receipts l). start \<le> stamp" "now \<le> start + ttl"
  shows "tl_receipts (evict now l) = tl_receipts l"
proof -
  have "\<forall>p \<in> set (tl_receipts l). \<not> past_ttl (tl_ttl l) now (snd (snd p))" using assms by (fastforce simp: past_ttl_def)
  then show ?thesis using assms(2) by (simp add: evict_def evict_ttl_id evict_len_id)
qed

lemma evict_records: "set (tl_records (evict now l)) \<subseteq> set (tl_records l)"
  using evict_suffix [of "tl_max_records l" "tl_ttl l" now tr_created_at "tl_records l"] set_drop_subset by (fastforce simp: evict_def)

lemma update_record_fits:
  assumes "memory_fits n ttl start call_key k l" "\<And>rec. tr_tool_call_id (f rec) = tr_tool_call_id rec" "\<And>rec. record_key (f rec) = record_key rec"
  shows "memory_fits n ttl start call_key k (update_record i f l) \<and> receipt_keys (update_record i f l) = receipt_keys l
    \<and> (map_of (tl_records (update_record i f l)) j = None \<longleftrightarrow> map_of (tl_records l) j = None)"
proof (cases "map_of (tl_records l) i")
  case (Some rec)
  then have "(i, rec) \<in> set (tl_records l)" by (rule map_of_SomeD)
  with Some assms update_record_inv [of n l f i] show ?thesis
    by (auto simp: memory_fits_def update_record_def receipt_keys_def update_conv' dest!: in_set_update)
qed (use assms(1) in \<open>simp add: update_record_def\<close>)

lemma mark_fits:
  assumes "memory_fits n ttl start call_key k l"
  shows "memory_fits n ttl start call_key k (mark_validated wall i l) \<and> receipt_keys (mark_validated wall i l) = receipt_keys l
      \<and> (map_of (tl_records (mark_validated wall i l)) j = None \<longleftrightarrow> map_of (tl_records l) j = None)"
    and "memory_fits n ttl start call_key k (mark_submitted wall i l) \<and> receipt_keys (mark_submitted wall i l) = receipt_keys l
      \<and> (map_of (tl_records (mark_submitted wall i l)) j = None \<longleftrightarrow> map_of (tl_records l) j = None)"
    and "memory_fits n ttl start call_key k (mark_failed wall i m l) \<and> receipt_keys (mark_failed wall i m l) = receipt_keys l
      \<and> (map_of (tl_records (mark_failed wall i m l)) j = None \<longleftrightarrow> map_of (tl_records l) j = None)"
    and "memory_fits n ttl start call_key k (mark_replayed wall i r l) \<and> receipt_keys (mark_replayed wall i r l) = receipt_keys l
      \<and> (map_of (tl_records (mark_replayed wall i r l)) j = None \<longleftrightarrow> map_of (tl_records l) j = None)"
  unfolding mark_validated_def mark_submitted_def mark_failed_def mark_replayed_def
  by (rule update_record_fits [OF assms]; simp add: record_key_def)+

lemma register_fits:
  assumes fits: "memory_fits n ttl start call_key (Suc k) l" and due: "within_ttl ttl start now"
    and key: "call_key i = op_key op tool (compute_arguments_hash env args)"
  defines "l' \<equiv> snd (register_tool_call env now i op tool args l)"
  shows "memory_fits n ttl start call_key (Suc k) l' \<and> receipt_keys l' = receipt_keys l \<and> map_of (tl_records l') i \<noteq> None"
proof (cases "map_of (tl_records l) i")
  case None
  define rec where "rec = \<lparr>tr_tool_call_id = i, tr_logical_operation_id = op, tr_tool_name = tool, tr_arguments_hash = compute_arguments_hash env args,
    tr_arguments = args, tr_status = PROPOSED, tr_execution_receipt = None, tr_created_at = now, tr_updated_at = now, tr_error_message = None\<rparr>"
  let ?u = "l\<lparr>tl_records := AList.update i rec (tl_records l)\<rparr>"
  have l': "l' = evict now ?u" by (simp add: l'_def register_tool_call_def None rec_def Let_def)
  have l: "ledger_inv n l" "tl_ttl l = Some ttl" "0 \<le> ttl" "length (tl_receipts l) + Suc k \<le> n"
      "\<forall>(key, r, stamp) \<in> set (tl_receipts l). start \<le> stamp" "\<forall>(i, rec) \<in> set (tl_records l). record_key rec = call_key i"
    using fits by (simp_all add: memory_fits_def)
  have "tl_receipts l' = tl_receipts l"
    unfolding l' using evict_receipts [of ?u ttl start now] l due by (simp add: ledger_inv_def within_ttl_def)
  moreover have "ledger_inv n l'"
    using ledger_step_inv [OF l(1), of env "Register now i op tool args"] by (simp add: l'_def)
  moreover have "\<forall>(j, r) \<in> set (tl_records l'). record_key r = call_key j"
  proof -
    have "record_key rec = call_key i" by (simp add: rec_def record_key_def key)
    then have "\<forall>(j, r) \<in> set (tl_records ?u). record_key r = call_key j" using l(6) by (auto dest!: in_set_update)
    then show ?thesis unfolding l' using evict_records [of now ?u] by blast
  qed
  moreover have "map_of (tl_records l') i = Some rec"
  proof -
    have "map_of (evict_len n (evict_ttl (Some ttl) now tr_created_at (AList.update i rec (tl_records l)))) i = Some rec"
      using l by (intro evict_keeps_update) (auto simp: ledger_inv_def past_ttl_def rec_def)
    then show ?thesis using l(1,2) by (simp add: l' evict_def ledger_inv_def)
  qed
  moreover have "tl_ttl l' = Some ttl" using l(2) by (simp add: l' evict_def)
  ultimately show ?thesis using l(3,4,5) by (simp add: memory_fits_def receipt_keys_def)
qed (use fits in \<open>simp add: l'_def register_tool_call_def\<close>)

lemma commit_fits:
  fixes wall :: time and rc :: json
  assumes fits: "memory_fits n ttl start call_key (Suc k) l" and due: "within_ttl ttl start now" and known: "map_of (tl_records l) i \<noteq> None"
  defines "l' \<equiv> mark_committed now wall i rc l"
  shows "memory_fits n ttl start call_key k l' \<and> receipt_keys l' = insert (call_key i) (receipt_keys l)"
proof -
  obtain rec where rec: "map_of (tl_records l) i = Some rec" using known by blast
  let ?r = "rec\<lparr>tr_status := COMMITTED, tr_execution_receipt := Some rc, tr_updated_at := wall\<rparr>"
  let ?u = "l\<lparr>tl_records := AList.update i ?r (tl_records l), tl_receipts := AList.update (record_key rec) (rc, now) (tl_receipts l)\<rparr>"
  have l': "l' = evict now ?u" by (simp add: l'_def mark_committed_def rec record_key_def Let_def)
  have l: "ledger_inv n l" "tl_ttl l = Some ttl" "0 \<le> ttl" "length (tl_receipts l) + Suc k \<le> n"
      "\<forall>(key, r, stamp) \<in> set (tl_receipts l). start \<le> stamp" "\<forall>(i, rec) \<in> set (tl_records l). record_key rec = call_key i"
    using fits by (simp_all add: memory_fits_def)
  have key: "record_key rec = call_key i" using l(6) map_of_SomeD [OF rec] by blast
  have len: "length (tl_receipts ?u) \<le> Suc (length (tl_receipts l))"
    using update_absent [of "tl_receipts l" "record_key rec" "(rc, now)"] length_update_present [of "tl_receipts l" "record_key rec" "(rc, now)"]
    by (cases "map_of (tl_receipts l) (record_key rec)") simp_all
  have stamps: "\<forall>(key, r, stamp) \<in> set (tl_receipts ?u). start \<le> stamp"
    using l(5) due by (auto simp: within_ttl_def dest!: in_set_update)
  have receipts: "tl_receipts l' = tl_receipts ?u"
    unfolding l' by (rule evict_receipts [OF _ _ stamps]) (use l(1,2,4) len due in \<open>auto simp: ledger_inv_def within_ttl_def\<close>)
  moreover have "ledger_inv n l'" using ledger_step_inv [OF l(1), of undefined "Committed now wall i rc"] by (simp add: l'_def)
  moreover have "\<forall>(j, r) \<in> set (tl_records l'). record_key r = call_key j"
  proof -
    have "record_key ?r = call_key i" using key by (simp add: record_key_def)
    then have "\<forall>(j, r) \<in> set (tl_records ?u). record_key r = call_key j" using l(6) by (auto dest!: in_set_update)
    then show ?thesis unfolding l' using evict_records [of now ?u] by blast
  qed
  moreover have "tl_ttl l' = Some ttl" using l(2) by (simp add: l' evict_def)
  moreover have "receipt_keys l' = insert (call_key i) (receipt_keys l)"
    unfolding receipt_keys_def receipts by (simp add: key dom_update)
  ultimately show ?thesis using l(3,4) stamps len by (simp add: memory_fits_def)
qed

lemma memory_mcp_simps:
  "lo_register (memory_mcp_ops env) now i op tool args l = (Inr (), snd (register_tool_call env now i op tool args l))"
  "lo_check (memory_mcp_ops env) = check_idempotency env"
  "lo_indeterminate (memory_mcp_ops env) = has_indeterminate_operation env"
  "lo_mark_validated (memory_mcp_ops env) wall i l = (Inr (), mark_validated wall i l)"
  "lo_mark_submitted (memory_mcp_ops env) wall i l = (Inr (), mark_submitted wall i l)"
  "lo_mark_committed (memory_mcp_ops env) now wall i rc l = (Inr (), mark_committed now wall i rc l)"
  "lo_mark_failed (memory_mcp_ops env) wall i m l = (Inr (), mark_failed wall i m l)"
  "lo_mark_replayed (memory_mcp_ops env) now i r l = (Inr (), mark_replayed now i r l)"
  by (simp_all add: memory_mcp_ops_def memory_ops_def ledger_ops.defs)

interpretation memory_once: once_ledger "memory_mcp_ops env" env "memory_fits n ttl start call_key" receipt_keys
  "\<lambda>i l. map_of (tl_records l) i \<noteq> None" "within_ttl ttl start" call_key
proof unfold_locales
  fix k l now op tool args
  assume fits: "memory_fits n ttl start call_key k l" and due: "within_ttl ttl start now"
    and key: "op_key op tool (compute_arguments_hash env args) \<in> receipt_keys l"
  obtain r stamp where r: "map_of (tl_receipts l) (op_key op tool (compute_arguments_hash env args)) = Some (r, stamp)"
    using key by (metis receipt_keys_def map_of_eq_None_iff option.exhaust old.prod.exhaust set_map)
  then have "start \<le> stamp" using fits map_of_SomeD [OF r] by (auto simp: memory_fits_def)
  with r fits due show "\<exists>r. lo_check (memory_mcp_ops env) now op tool args l = (True, Some r)"
    by (simp add: memory_mcp_simps check_idempotency_def memory_fits_def past_ttl_def within_ttl_def)
next
  fix k l now i op tool args r l'
  assume "memory_fits n ttl start call_key (Suc k) l" "within_ttl ttl start now" "call_key i = op_key op tool (compute_arguments_hash env args)"
    and reg: "lo_register (memory_mcp_ops env) now i op tool args l = (r, l')"
  from register_fits [OF this(1-3)] reg
  show "r = Inr () \<and> memory_fits n ttl start call_key (Suc k) l' \<and> receipt_keys l' = receipt_keys l \<and> map_of (tl_records l') i \<noteq> None"
    by (auto simp: memory_mcp_simps)
next
  fix k l now i wall rc r l'
  assume "memory_fits n ttl start call_key (Suc k) l" "within_ttl ttl start now" "map_of (tl_records l) i \<noteq> None"
    and com: "lo_mark_committed (memory_mcp_ops env) now wall i rc l = (r, l')"
  from commit_fits [OF this(1-3), of wall rc] com
  show "r = Inr () \<and> memory_fits n ttl start call_key k l' \<and> receipt_keys l' = insert (call_key i) (receipt_keys l)"
    by (auto simp: memory_mcp_simps)
next
  fix k l
  assume "memory_fits n ttl start call_key (Suc k) l"
  then show "memory_fits n ttl start call_key k l" by (simp add: memory_fits_def)
qed (auto simp: memory_mcp_simps mark_fits simp del: not_None_eq)

section \<open>Properties\<close>

definition targets_consistent :: "mcp_env \<Rightarrow> tool_call_validator \<Rightarrow> (string, mcp_tool) dict \<Rightarrow> mcp_request list \<Rightarrow> bool" where
  "targets_consistent env tv tools qs =
     list_all (\<lambda>(i, key). list_all (\<lambda>(i', key'). i = i' \<longrightarrow> key = key') (List.map_filter (request_target env tv tools) qs))
       (List.map_filter (request_target env tv tools) qs)"


definition sample_mcp_env :: mcp_env where
  "sample_mcp_env = \<lparr>me_digest = \<lparr>sha256 = (\<lambda>x. x), float_repr = (\<lambda>_. ''0.0'')\<rparr>,
     me_py = \<lparr>py_repr = (\<lambda>_. ''0.0''), py_float = (\<lambda>_. None), py_literal_eval = (\<lambda>_. None), py_message = (\<lambda>_. [])\<rparr>, me_exc_text = (\<lambda>_. [])\<rparr>"

definition pay_proxy :: "tool_ledger mcp_proxy" where
  "pay_proxy = new_mcp_proxy (new_tool_ledger 4 (Some 60))
     [\<lparr>mt_name = ''pay'', mt_description = [], mt_input_schema = JObj [(''type'', JStr ''object'')], mt_has_handler = True\<rparr>] default_validator"

text \<open>A call of \<open>pay\<close> with an operation identifier, an amount and, possibly, a call identifier.\<close>

definition pay_request :: "string \<Rightarrow> int \<Rightarrow> string \<Rightarrow> time \<Rightarrow> mcp_request" where
  "pay_request op amount call_id now =
     \<lparr>mq_body = JObj [(''jsonrpc'', JStr ''2.0''), (''id'', JInt 1), (''method'', JStr ''tools/call''),
        (''params'', JObj [(''name'', JStr ''pay''), (''arguments'', JObj [(''amount'', JInt amount)]), (''operation_id'', JStr op),
           (''tool_call_id'', JStr call_id)])],
      mq_headers = [], mq_now = now, mq_wall = now, mq_outcome = Handler_returns (JStr ''paid'')\<rparr>"


text \<open>
  A reused call identifier defeats the receipts.  When a second operation comes with the call identifier of an
  earlier one, the ledger returns the earlier record and the receipt is filed under the earlier operation: a retry
  of the second operation runs its handler again, and a retry of the first is answered with the second's receipt.
\<close>

theorem mcp_call_id_reuse_repeats:
  "let ops = memory_mcp_ops (me_digest sample_mcp_env);
       second = (pay_request ''b'' 7 ''call'' 1)\<lparr>mq_outcome := Handler_returns (JStr ''paid seven'')\<rparr>;
       (keys, p) = mcp_run sample_mcp_env ops [pay_request ''a'' 5 ''call'' 0, second, second\<lparr>mq_now := 2\<rparr>] pay_proxy
   in length keys = 3 \<and> \<not> distinct keys
      \<and> (case handle_json_rpc sample_mcp_env ops (pay_request ''a'' 5 ''call'' 3) p of
           (Decoded (status, answer, _), done_run, _) \<Rightarrow> done_run = None
             \<and> answer = tool_answer (JInt 1) ''paid seven'' (JBool False) ''replayed'' [(''_lcb_receipt'', committed_receipt 1 ''paid seven'')]
         | _ \<Rightarrow> False)"
  by code_simp

end
