(* ===== verification/AgentState.thy ===== *)
theory AgentState
  imports Gemini ToolLedger
begin

text \<open>
  \<^verbatim>\<open>agent/state.py\<close>: the semantic state of an agent and its snapshots.  SHA-256 and \<open>repr\<close> of a float come from
  \<open>digest_env\<close>; \<open>now\<close> is \<open>time.time()\<close>.
\<close>

section \<open>The state\<close>

record agent_state =
  as_agent_id :: string
  as_objective :: string
  as_constraints :: "string list"
  as_important_decisions :: "string list"
  as_tool_definitions :: "normalized_tool_definition list"
  as_tool_execution_state :: "(string, json) dict"
  as_known_files :: "(string, string) dict"
  as_latest_tool_outputs :: "(string, string) dict"
  as_unresolved_errors :: "string list"
  as_current_subgoal :: "string option"
  as_version :: int
  as_updated_at :: time

definition new_agent_state :: "string \<Rightarrow> time \<Rightarrow> agent_state" where
  "new_agent_state uuid now =
     \<lparr>as_agent_id = ''agent_'' @ take 8 uuid, as_objective = [], as_constraints = [], as_important_decisions = [], as_tool_definitions = [],
      as_tool_execution_state = [], as_known_files = [], as_latest_tool_outputs = [], as_unresolved_errors = [], as_current_subgoal = None,
      as_version = 1, as_updated_at = now\<rparr>"

definition bump_version :: "time \<Rightarrow> agent_state \<Rightarrow> agent_state" where
  "bump_version now s = s\<lparr>as_version := as_version s + 1, as_updated_at := now\<rparr>"

definition add_constraint :: "time \<Rightarrow> string \<Rightarrow> agent_state \<Rightarrow> agent_state" where
  "add_constraint now c s =
     (if c \<noteq> [] \<and> c \<notin> set (as_constraints s) then bump_version now (s\<lparr>as_constraints := as_constraints s @ [c]\<rparr>) else s)"

definition add_decision :: "time \<Rightarrow> string \<Rightarrow> agent_state \<Rightarrow> agent_state" where
  "add_decision now d s =
     (if d \<noteq> [] \<and> d \<notin> set (as_important_decisions s)
      then bump_version now (s\<lparr>as_important_decisions := as_important_decisions s @ [d]\<rparr>) else s)"

definition record_tool_output :: "time \<Rightarrow> string \<Rightarrow> string \<Rightarrow> agent_state \<Rightarrow> agent_state" where
  "record_tool_output now tool_id output s =
     bump_version now (s\<lparr>as_latest_tool_outputs := AList.update tool_id output (as_latest_tool_outputs s)\<rparr>)"

section \<open>Snapshots\<close>

record state_snapshot =
  sn_snapshot_id :: string
  sn_agent_id :: string
  sn_version :: int
  sn_payload_json :: string
  sn_digest :: string
  sn_created_at :: time

definition tool_json :: "normalized_tool_definition \<Rightarrow> json" where
  "tool_json t = JObj [(''name'', JStr (nd_name t)), (''description'', JStr (nd_description t)), (''parameters'', nd_parameters t)]"

definition strings_json :: "string list \<Rightarrow> json" where
  "strings_json xs = JArr (map JStr xs)"

definition string_dict_json :: "(string, string) dict \<Rightarrow> json" where
  "string_dict_json d = JObj (map (\<lambda>(k, v). (k, JStr v)) d)"

definition state_json :: "agent_state \<Rightarrow> json" where
  "state_json s = JObj
     [(''agent_id'', JStr (as_agent_id s)), (''objective'', JStr (as_objective s)), (''constraints'', strings_json (as_constraints s)),
      (''important_decisions'', strings_json (as_important_decisions s)), (''tool_definitions'', JArr (map tool_json (as_tool_definitions s))),
      (''tool_execution_state'', JObj (as_tool_execution_state s)), (''known_files'', string_dict_json (as_known_files s)),
      (''latest_tool_outputs'', string_dict_json (as_latest_tool_outputs s)), (''unresolved_errors'', strings_json (as_unresolved_errors s)),
      (''current_subgoal'', opt_str (as_current_subgoal s)), (''version'', JInt (as_version s)), (''updated_at'', JFloat (as_updated_at s))]"

definition from_agent_state :: "digest_env \<Rightarrow> time \<Rightarrow> agent_state \<Rightarrow> state_snapshot" where
  "from_agent_state env now s =
     (let raw_json = dumps_sorted (float_repr env) (state_json s); digest = sha256 env raw_json in
      \<lparr>sn_snapshot_id = ''snap_'' @ as_agent_id s @ ''_'' @ str_of_int (as_version s) @ ''_'' @ take 8 digest,
       sn_agent_id = as_agent_id s, sn_version = as_version s, sn_payload_json = raw_json, sn_digest = digest, sn_created_at = now\<rparr>)"

section \<open>Restoring\<close>

definition need_strings :: "json \<Rightarrow> string list decoded" where
  "need_strings j = (case j of JArr xs \<Rightarrow> dmap need_str xs | _ \<Rightarrow> Untyped)"

definition need_dict :: "json \<Rightarrow> (string, json) dict decoded" where
  "need_dict j = (case j of JObj kvs \<Rightarrow> Decoded kvs | _ \<Rightarrow> Untyped)"

definition need_string_dict :: "json \<Rightarrow> (string, string) dict decoded" where
  "need_string_dict j = dbind (need_dict j) (dmap (\<lambda>(k, v). dbind (need_str v) (\<lambda>t. Decoded (k, t))))"

definition need_float :: "json \<Rightarrow> rat decoded" where
  "need_float j = (case j of JInt i \<Rightarrow> Decoded (of_int i) | JFloat r \<Rightarrow> Decoded r | _ \<Rightarrow> Untyped)"

definition restore_tool :: "json \<Rightarrow> normalized_tool_definition decoded" where
  "restore_tool t =
     dbind (index_key t ''name'') (\<lambda>name. dbind (fetch t ''description'' (JStr [])) (\<lambda>description. dbind (fetch t ''parameters'' (JObj [])) (\<lambda>params.
     dbind (need_str name) (\<lambda>n. dbind (need_str description) (\<lambda>d.
       Decoded \<lparr>nd_name = n, nd_description = d, nd_parameters = params, nd_cache_control = None\<rparr>)))))"

text \<open>The restored object holds whatever values the payload has; its fields have their declared types or \<open>Untyped\<close>.\<close>

definition restore_fields :: "time \<Rightarrow> json \<Rightarrow> normalized_tool_definition list \<Rightarrow> agent_state decoded" where
  "restore_fields now data tools =
     dbind (index_key data ''agent_id'') (\<lambda>j. dbind (need_str j) (\<lambda>agent_id.
     dbind (fetch data ''objective'' (JStr [])) (\<lambda>j. dbind (need_str j) (\<lambda>objective.
     dbind (fetch data ''constraints'' (JArr [])) (\<lambda>j. dbind (need_strings j) (\<lambda>cons.
     dbind (fetch data ''important_decisions'' (JArr [])) (\<lambda>j. dbind (need_strings j) (\<lambda>decisions.
     dbind (fetch data ''tool_execution_state'' (JObj [])) (\<lambda>j. dbind (need_dict j) (\<lambda>execution.
     dbind (fetch data ''known_files'' (JObj [])) (\<lambda>j. dbind (need_string_dict j) (\<lambda>files.
     dbind (fetch data ''latest_tool_outputs'' (JObj [])) (\<lambda>j. dbind (need_string_dict j) (\<lambda>outputs.
     dbind (fetch data ''unresolved_errors'' (JArr [])) (\<lambda>j. dbind (need_strings j) (\<lambda>errors.
     dbind (fetch data ''current_subgoal'' JNull) (\<lambda>j. dbind (need_opt_str j) (\<lambda>subgoal.
     dbind (fetch data ''version'' (JInt 1)) (\<lambda>j. dbind (need_int j) (\<lambda>version.
     dbind (fetch data ''updated_at'' (JFloat now)) (\<lambda>j. dbind (need_float j) (\<lambda>updated.
       Decoded \<lparr>as_agent_id = agent_id, as_objective = objective, as_constraints = cons, as_important_decisions = decisions,
         as_tool_definitions = tools, as_tool_execution_state = execution, as_known_files = files, as_latest_tool_outputs = outputs,
         as_unresolved_errors = errors, as_current_subgoal = subgoal, as_version = version, as_updated_at = updated\<rparr>))))))))))))))))))))))"

definition restore_agent_state :: "time \<Rightarrow> state_snapshot \<Rightarrow> agent_state decoded" where
  "restore_agent_state now snap =
     (case loads True (sn_payload_json snap) of
        None \<Rightarrow> Raises ValueError
      | Some data \<Rightarrow>
          dbind (fetch data ''tool_definitions'' (JArr [])) (\<lambda>j. dbind (items_of j) (\<lambda>ts. dbind (dmap restore_tool ts) (restore_fields now data))))"

section \<open>Reading sorted objects\<close>

lemma map_of_sort_key: "distinct (map fst xs) \<Longrightarrow> map_of (sort_key fst xs) k = map_of xs k"
proof -
  assume d: "distinct (map fst xs)"
  then have "distinct (map fst (sort_key fst xs))" by (simp add: distinct_map)
  with d show ?thesis using map_of_eq_Some_iff [of "sort_key fst xs" k] map_of_eq_Some_iff [of xs k]
    by (metis option.exhaust set_sort)
qed

lemma insort_key_map_snd: "insort_key fst (k, h v) (map (\<lambda>(k, v). (k, h v)) xs) = map (\<lambda>(k, v). (k, h v)) (insort_key fst (k, v) xs)"
  by (induction xs) auto

lemma sort_key_map_snd: "sort_key fst (map (\<lambda>(k, v). (k, h v)) xs) = map (\<lambda>(k, v). (k, h v)) (sort_key fst xs)"
  by (induction xs) (auto simp: insort_key_map_snd)

lemmas sort_key_map_pairs = sort_key_map_snd [unfolded case_prod_unfold]

lemma sort_key_twice: "sort_key fst (sort_key fst xs) = sort_key fst xs"
  by (rule sort_key_id_if_sorted) simp

lemma canon_obj: "canon (JObj kvs) = JObj (map (\<lambda>(k, v). (k, canon v)) (sort_key fst kvs))"
  by (simp add: sort_key_map_snd)

lemma canon_idem: "canon (canon j) = canon j"
proof (induction j rule: canon.induct)
  case (2 kvs)
  then have "map (\<lambda>(k, v). (k, canon (canon v))) (sort_key fst kvs) = map (\<lambda>(k, v). (k, canon v)) (sort_key fst kvs)"
    by auto
  then show ?case by (simp add: canon_obj sort_key_map_pairs sort_key_twice o_def case_prod_unfold del: canon.simps(2))
qed simp_all

lemma json_ok_canon: "json_ok fr j \<Longrightarrow> json_ok fr (canon j)"
proof (induction j rule: canon.induct)
  case (2 kvs)
  then show ?case by (auto simp: canon_obj list_all_iff distinct_map o_def case_prod_unfold inj_on_def simp del: canon.simps(2))
qed (auto simp: list_all_iff)

lemma fetch_canon:
  "distinct (map fst kvs) \<Longrightarrow> fetch (canon (JObj kvs)) k d = Decoded (case map_of kvs k of None \<Rightarrow> d | Some v \<Rightarrow> canon v)"
  by (simp add: canon_obj map_of_map map_of_sort_key split: option.split del: canon.simps(2))

lemma index_key_canon:
  "distinct (map fst kvs) \<Longrightarrow> map_of kvs k = Some v \<Longrightarrow> index_key (canon (JObj kvs)) k = Decoded (canon v)"
  by (simp add: canon_obj map_of_map map_of_sort_key index_key_def del: canon.simps(2))

section \<open>The round trip\<close>

text \<open>What a snapshot keeps: dictionaries lose their order, tool definitions their cache mark.\<close>

definition restored :: "agent_state \<Rightarrow> agent_state" where
  "restored s = s\<lparr>as_tool_definitions := map (\<lambda>t. t\<lparr>nd_parameters := canon (nd_parameters t), nd_cache_control := None\<rparr>) (as_tool_definitions s),
     as_tool_execution_state := map (\<lambda>(k, v). (k, canon v)) (sort_key fst (as_tool_execution_state s)),
     as_known_files := sort_key fst (as_known_files s), as_latest_tool_outputs := sort_key fst (as_latest_tool_outputs s)\<rparr>"

definition state_ok :: "(rat \<Rightarrow> string) \<Rightarrow> agent_state \<Rightarrow> bool" where
  "state_ok fr s \<longleftrightarrow> float_text fr (as_updated_at s) \<and> list_all (\<lambda>t. json_ok fr (nd_parameters t)) (as_tool_definitions s)
     \<and> json_ok fr (JObj (as_tool_execution_state s)) \<and> distinct (map fst (as_known_files s)) \<and> distinct (map fst (as_latest_tool_outputs s))"

lemma strings_back: "canon (strings_json xs) = strings_json xs" "need_strings (strings_json xs) = Decoded xs"
proof -
  show "canon (strings_json xs) = strings_json xs" by (simp add: strings_json_def)
  have "dmap need_str (map JStr xs) = Decoded xs" by (induction xs) simp_all
  then show "need_strings (strings_json xs) = Decoded xs" by (simp add: strings_json_def need_strings_def)
qed

lemma string_dict_canon: "canon (string_dict_json d) = string_dict_json (sort_key fst d)"
  by (simp add: string_dict_json_def canon_obj sort_key_map_pairs o_def case_prod_unfold del: canon.simps(2))

lemma string_dict_back: "need_string_dict (string_dict_json d) = Decoded d"
proof -
  have "dmap (\<lambda>(k, v). dbind (need_str v) (\<lambda>t. Decoded (k, t))) (map (\<lambda>(k, v). (k, JStr v)) d) = Decoded d"
    by (induction d) auto
  then show ?thesis by (simp add: need_string_dict_def string_dict_json_def need_dict_def)
qed

lemma tool_back: "restore_tool (canon (tool_json t)) = Decoded (t\<lparr>nd_parameters := canon (nd_parameters t), nd_cache_control := None\<rparr>)"
  by (simp add: restore_tool_def tool_json_def fetch_canon index_key_canon del: canon.simps(2) fetch_obj)

lemma tools_back:
  "dmap restore_tool (map (\<lambda>t. canon (tool_json t)) ts) = Decoded (map (\<lambda>t. t\<lparr>nd_parameters := canon (nd_parameters t), nd_cache_control := None\<rparr>) ts)"
  by (induction ts) (simp_all add: tool_back)

lemma state_json_ok: "state_ok fr s \<Longrightarrow> json_ok fr (state_json s)"
  by (auto simp: state_ok_def state_json_def strings_json_def string_dict_json_def tool_json_def opt_str_def list_all_iff o_def case_prod_unfold
      split: option.splits)

lemma state_json_restored: "canon (state_json (restored s)) = canon (state_json s)"
proof -
  have "canon (JObj (map (\<lambda>(k, v). (k, canon v)) (sort_key fst d))) = canon (JObj d)" for d
    using canon_idem [of "JObj d"] unfolding canon_obj .
  moreover have "canon (string_dict_json (sort_key fst d)) = canon (string_dict_json d)" for d
    using canon_idem [of "string_dict_json d"] unfolding string_dict_canon .
  moreover have "canon (tool_json (t\<lparr>nd_parameters := canon (nd_parameters t), nd_cache_control := None\<rparr>)) = canon (tool_json t)" for t
    by (simp add: tool_json_def canon_idem)
  ultimately show ?thesis
    by (simp add: state_json_def restored_def o_def del: canon.simps(2)) (simp add: o_def)
qed

lemma state_fetch:
  "index_key (canon (state_json s)) ''agent_id'' = Decoded (JStr (as_agent_id s))"
  "fetch (canon (state_json s)) ''objective'' d = Decoded (JStr (as_objective s))"
  "fetch (canon (state_json s)) ''constraints'' d = Decoded (strings_json (as_constraints s))"
  "fetch (canon (state_json s)) ''important_decisions'' d = Decoded (strings_json (as_important_decisions s))"
  "fetch (canon (state_json s)) ''tool_definitions'' d = Decoded (JArr (map (\<lambda>t. canon (tool_json t)) (as_tool_definitions s)))"
  "fetch (canon (state_json s)) ''tool_execution_state'' d = Decoded (canon (JObj (as_tool_execution_state s)))"
  "fetch (canon (state_json s)) ''known_files'' d = Decoded (string_dict_json (sort_key fst (as_known_files s)))"
  "fetch (canon (state_json s)) ''latest_tool_outputs'' d = Decoded (string_dict_json (sort_key fst (as_latest_tool_outputs s)))"
  "fetch (canon (state_json s)) ''unresolved_errors'' d = Decoded (strings_json (as_unresolved_errors s))"
  "fetch (canon (state_json s)) ''current_subgoal'' d = Decoded (opt_str (as_current_subgoal s))"
  "fetch (canon (state_json s)) ''version'' d = Decoded (JInt (as_version s))"
  "fetch (canon (state_json s)) ''updated_at'' d = Decoded (JFloat (as_updated_at s))"
  by (simp_all add: state_json_def index_key_canon fetch_canon strings_back(1) string_dict_canon opt_str_def o_def del: canon.simps(2) fetch_obj split: option.split)

lemma restore_state:
  "restore_fields now (canon (state_json s)) (map (\<lambda>t. t\<lparr>nd_parameters := canon (nd_parameters t), nd_cache_control := None\<rparr>) (as_tool_definitions s))
   = Decoded (restored s)"
  unfolding restore_fields_def state_fetch dbind.simps need_simps strings_back string_dict_back
  by (simp add: canon_obj need_dict_def need_float_def restored_def del: canon.simps(2))

text \<open>
  C37: Snapshots restore the agent.  For every state whose values print as JSON that reads back, the snapshot
  restores to the same state, up to the order of dictionary entries and the cache marks of tool definitions; and a
  snapshot of the restored state has the same payload, digest and identifier as one of the original.
\<close>

theorem snapshot_roundtrip:
  assumes "state_ok (float_repr env) s"
  shows "restore_agent_state now (from_agent_state env t s) = Decoded (restored s)
    \<and> (\<forall>t'. from_agent_state env t' (restored s) = from_agent_state env t' s)
    \<and> (\<forall>k. map_of (as_known_files (restored s)) k = map_of (as_known_files s) k
          \<and> map_of (as_latest_tool_outputs (restored s)) k = map_of (as_latest_tool_outputs s) k)"
proof -
  have "loads True (dumps (float_repr env) (canon (state_json s))) = Some (canon (state_json s))"
    by (rule loads_dumps [OF json_ok_canon [OF state_json_ok [OF assms]]])
  then have "restore_agent_state now (from_agent_state env t s) = Decoded (restored s)"
    by (simp add: restore_agent_state_def from_agent_state_def dumps_sorted_def Let_def state_fetch tools_back restore_state)
  moreover have "as_agent_id (restored s) = as_agent_id s" "as_version (restored s) = as_version s" by (simp_all add: restored_def)
  then have "from_agent_state env t' (restored s) = from_agent_state env t' s" for t'
    by (simp add: from_agent_state_def dumps_sorted_def state_json_restored)
  moreover have "map_of (as_known_files (restored s)) k = map_of (as_known_files s) k"
      "map_of (as_latest_tool_outputs (restored s)) k = map_of (as_latest_tool_outputs s) k" for k
    using assms by (simp_all add: restored_def state_ok_def map_of_sort_key)
  ultimately show ?thesis by blast
qed

definition sample_agent :: agent_state where
  "sample_agent = record_tool_output 0 ''t2'' ''ok'' (record_tool_output 0 ''t10'' ''done'' (add_constraint 0 ''no network'' (new_agent_state ''12345678ab'' 0)))"

theorem snapshot_roundtrip_witness:
  "restore_agent_state 9 (from_agent_state \<lparr>sha256 = (\<lambda>x. x), float_repr = (\<lambda>_. ''0.0'')\<rparr> 5 sample_agent) = Decoded (restored sample_agent)
   \<and> as_constraints (restored sample_agent) = [''no network''] \<and> as_version (restored sample_agent) = 4"
proof -
  have "json_number (''0.0'' @ rest) = Some (JFloat 0, rest)" if "ends rest" for rest
    using that span_append [of "''0''" rest] ends_no_exponent [OF that]
    by (simp add: json_number_def startswith_def fraction_part_def is_digit_def nat_of_digits_def)
  then have "float_text (\<lambda>_. ''0.0'') 0" by (simp add: float_text_def is_digit_def)
  then have "state_ok (float_repr \<lparr>sha256 = (\<lambda>x. x), float_repr = (\<lambda>_. ''0.0'')\<rparr>) sample_agent"
    by (simp add: state_ok_def sample_agent_def new_agent_state_def add_constraint_def record_tool_output_def bump_version_def)
  from snapshot_roundtrip [OF this, of 9 5] show ?thesis
    by (simp add: sample_agent_def restored_def new_agent_state_def add_constraint_def record_tool_output_def bump_version_def)
qed

end
