(* ===== verification/Translators.thy ===== *)
theory Translators
  imports Gemini
begin

text \<open>
  \<^verbatim>\<open>translators.py\<close>: the translations of the V1 router between untyped payloads.  Identifiers drawn from \<open>uuid\<close> and
  the clock are arguments.  Dictionary keys that are not strings are compared by structure.
\<close>

section \<open>Repair of arguments\<close>

definition json_fence_open :: rx where
  "json_fence_open = seqs [lit fence, rx_opt (lit ''json''), Star (Chr is_space)]"

definition repair_text :: "string \<Rightarrow> string" where
  "repair_text raw =
     (let cleaned = strip raw;
          unfenced = (if startswith cleaned fence then rx_sub fence_close (\<lambda>_. []) (rx_drop_prefix json_fence_open cleaned) else cleaned)
      in strip_trailing_commas unfenced)"

definition repair_json_string :: "json \<Rightarrow> string option decoded" where
  "repair_json_string raw =
     (if \<not> truthy_json raw then Decoded (Some ''{}'')
      else case raw of
             JStr s \<Rightarrow>
               if strip s = [] then Decoded (Some ''{}'')
               else Decoded (case loads True (repair_text s) of Some (JObj _) \<Rightarrow> Some (repair_text s) | _ \<Rightarrow> None)
           | _ \<Rightarrow> Raises AttributeError)"

section \<open>OpenAI to Gemini\<close>

definition v1_gemini_call :: "json \<Rightarrow> json decoded" where
  "v1_gemini_call tc =
     dbind (fetch tc ''function'' (JObj [])) (\<lambda>fn. dbind (fetch fn ''arguments'' (JStr ''{}'')) (\<lambda>args.
     dbind (fetch fn ''name'' JNull) (\<lambda>name.
       Decoded (JObj [(''functionCall'', JObj [(''name'', name),
         (''args'', case args of JStr s \<Rightarrow> (case loads True s of Some v \<Rightarrow> v | None \<Rightarrow> JObj []) | _ \<Rightarrow> args)])]))))"

text \<open>One message: the system instruction and the contents so far.\<close>

definition v1_gemini_message :: "(rat \<Rightarrow> string) \<Rightarrow> json \<Rightarrow> json option \<times> json list \<Rightarrow> (json option \<times> json list) decoded" where
  "v1_gemini_message fr msg acc =
     (case acc of (system, contents) \<Rightarrow>
        dbind (fetch msg ''role'' (JStr ''user'')) (\<lambda>role. dbind (fetch msg ''content'' (JStr [])) (\<lambda>c.
          let content = or_json c (JStr []); text = text_part (str_json fr content) in
          if role = JStr ''system'' then Decoded (Some (JObj [(''parts'', JArr [text])]), contents)
          else if role = JStr ''user'' then Decoded (system, contents @ [gemini_turn ''user'' [text]])
          else if role = JStr ''assistant''
          then dbind (fetch msg ''tool_calls'' (JArr [])) (\<lambda>tcs. dbind (items_of tcs) (\<lambda>calls. dbind (dmap v1_gemini_call calls) (\<lambda>parts.
                 let all = (if truthy_json content then [text] else []) @ parts in
                 Decoded (system, contents @ [gemini_turn ''model'' (if all = [] then [text_part []] else all)]))))
          else if role = JStr ''tool''
          then dbind (fetch msg ''name'' JNull) (\<lambda>name.
                 Decoded (system, contents @ [gemini_turn ''function'' [JObj [(''functionResponse'', JObj [
                   (''name'', or_json name (JStr ''bash'')), (''response'', JObj [(''output'', JStr (str_json fr content))])])]]]))
          else Decoded acc)))"

definition v1_gemini_declaration :: "(rat \<Rightarrow> string) \<Rightarrow> json \<Rightarrow> json decoded" where
  "v1_gemini_declaration fr t =
     dbind (fetch t ''function'' (JObj [])) (\<lambda>fn.
     dbind (fetch fn ''parameters'' (JObj [(''type'', JStr ''object''), (''properties'', JObj [])])) (\<lambda>raw.
     dbind (of_result (clean_gemini_schema fr raw)) (\<lambda>params.
     dbind (fetch fn ''name'' JNull) (\<lambda>name. dbind (fetch fn ''description'' (JStr [])) (\<lambda>description.
       Decoded (JObj [(''name'', name), (''description'', description), (''parameters'', params)]))))))"

definition convert_openai_to_gemini_payload :: "(rat \<Rightarrow> string) \<Rightarrow> json \<Rightarrow> json decoded" where
  "convert_openai_to_gemini_payload fr req =
     dbind (fetch req ''messages'' (JArr [])) (\<lambda>ms. dbind (items_of ms) (\<lambda>msgs.
     dbind (dfold (v1_gemini_message fr) msgs (None, [])) (\<lambda>(system, contents).
     dbind (fetch req ''tools'' JNull) (\<lambda>tools.
     dbind (if truthy_json tools then dbind (items_of tools) (dmap (v1_gemini_declaration fr)) else Decoded []) (\<lambda>declarations.
       Decoded (JObj ([(''contents'', JArr contents)] @ entry_if (system \<noteq> None) ''systemInstruction'' (the_any system)
         @ entry_if (truthy_json tools) ''tools'' (JArr [JObj [(''functionDeclarations'', JArr declarations)]]))))))))"

section \<open>Gemini to OpenAI\<close>

definition v1_part :: "(rat \<Rightarrow> string) \<Rightarrow> (nat \<Rightarrow> string) \<Rightarrow> json \<Rightarrow> json list \<times> json list \<Rightarrow> (json list \<times> json list) decoded" where
  "v1_part fr uuid p acc =
     (case acc of (texts, calls) \<Rightarrow>
        dbind (of_result (json_contains ''text'' p)) (\<lambda>has_text.
          if has_text then dbind (index_key p ''text'') (\<lambda>t. Decoded (texts @ [t], calls))
          else dbind (of_result (json_contains ''functionCall'' p)) (\<lambda>has_call.
            if has_call
            then dbind (index_key p ''functionCall'') (\<lambda>fc. dbind (fetch fc ''name'' JNull) (\<lambda>name. dbind (fetch fc ''args'' (JObj [])) (\<lambda>args.
                   Decoded (texts, calls @ [JObj [(''id'', JStr (''call_'' @ take 8 (uuid (length calls)))), (''type'', JStr ''function''),
                     (''function'', JObj [(''name'', name), (''arguments'', JStr (dumps_ascii fr args))])]]))))
            else Decoded acc)))"

definition v1_completion :: "string \<Rightarrow> int \<Rightarrow> string \<Rightarrow> json \<Rightarrow> string \<Rightarrow> (string \<times> json) list \<Rightarrow> json" where
  "v1_completion uuid now model message finish usage =
     JObj ([(''id'', JStr (''chatcmpl-'' @ take 12 uuid)), (''object'', JStr ''chat.completion''), (''created'', JInt now), (''model'', JStr model),
       (''choices'', JArr [JObj [(''index'', JInt 0), (''message'', message), (''finish_reason'', JStr finish)]])] @ usage)"

definition convert_gemini_to_openai_response ::
  "(rat \<Rightarrow> string) \<Rightarrow> string \<Rightarrow> (nat \<Rightarrow> string) \<Rightarrow> int \<Rightarrow> json \<Rightarrow> string \<Rightarrow> json decoded" where
  "convert_gemini_to_openai_response fr uuid call_uuid now resp model_name =
     dbind (fetch resp ''candidates'' (JArr [])) (\<lambda>candidates.
       if \<not> truthy_json candidates
       then Decoded (v1_completion uuid now model_name (JObj [(''role'', JStr ''assistant''), (''content'', JStr [])]) ''stop'' [])
       else
         dbind (of_result (item0 candidates)) (\<lambda>cand. dbind (fetch cand ''content'' (JObj [])) (\<lambda>content.
         dbind (fetch content ''parts'' (JArr [])) (\<lambda>ps. dbind (items_of ps) (\<lambda>parts.
         dbind (dfold (v1_part fr call_uuid) parts ([], [])) (\<lambda>(texts, calls).
         dbind (join_opt [] texts) (\<lambda>text.
         dbind (fetch resp ''usageMetadata'' (JObj [])) (\<lambda>usage.
         dbind (fetch usage ''promptTokenCount'' (JInt 0)) (\<lambda>pt. dbind (fetch usage ''candidatesTokenCount'' (JInt 0)) (\<lambda>ct.
         dbind (fetch usage ''totalTokenCount'' (JInt 0)) (\<lambda>tt.
           Decoded (v1_completion uuid now model_name
             (JObj ([(''role'', JStr ''assistant''), (''content'', opt_str text)] @ entry_if (calls \<noteq> []) ''tool_calls'' (JArr calls)))
             (if calls \<noteq> [] then ''tool_calls'' else ''stop'')
             [(''usage'', JObj [(''prompt_tokens'', pt), (''completion_tokens'', ct), (''total_tokens'', tt)])]))))))))))))"

section \<open>Anthropic to OpenAI\<close>

definition plain_message :: "json \<Rightarrow> json \<Rightarrow> json" where
  "plain_message role content = JObj [(''role'', role), (''content'', content)]"

definition v1_system :: "json \<Rightarrow> json list decoded" where
  "v1_system system =
     (if \<not> truthy_json system then Decoded []
      else case system of
             JStr s \<Rightarrow> Decoded [plain_message (JStr ''system'') system]
           | JArr bs \<Rightarrow>
               dbind (join_opt [Streaming.NL] (map (\<lambda>b. dict_get b ''text'' (JStr [])) (filter (\<lambda>b. map_of b ''type'' = Some (JStr ''text'')) (dicts_of bs))))
                 (\<lambda>t. Decoded (case t of None \<Rightarrow> [] | Some s \<Rightarrow> [plain_message (JStr ''system'') (JStr s)]))
           | _ \<Rightarrow> Decoded [])"

text \<open>Names of the tools by the identifiers of the calls; a list or a dictionary cannot be a key.\<close>

definition v1_tool_name :: "(string, json) dict \<Rightarrow> (json, json) dict \<Rightarrow> (json, json) dict decoded" where
  "v1_tool_name b names =
     (let tid = dict_get b ''id'' JNull; tname = dict_get b ''name'' JNull in
      if map_of b ''type'' = Some (JStr ''tool_use'') \<and> truthy_json tid \<and> truthy_json tname
      then (if hashable tid then Decoded (AList.update tid tname names) else Raises TypeError)
      else Decoded names)"

definition v1_tool_names :: "json list \<Rightarrow> (json, json) dict decoded" where
  "v1_tool_names msgs =
     dfold (\<lambda>msg names.
       dbind (fetch msg ''role'' JNull) (\<lambda>role.
         if role \<noteq> JStr ''assistant'' then Decoded names
         else dbind (fetch msg ''content'' JNull) (\<lambda>c. case c of JArr bs \<Rightarrow> dfold v1_tool_name (dicts_of bs) names | _ \<Rightarrow> Decoded names))) msgs []"

definition v1_assistant_call :: "(rat \<Rightarrow> string) \<Rightarrow> string \<Rightarrow> (string, json) dict \<Rightarrow> json" where
  "v1_assistant_call fr uuid b =
     JObj [(''id'', or_json (dict_get b ''id'' JNull) (JStr (''toolu_'' @ take 8 uuid))), (''type'', JStr ''function''),
       (''function'', JObj [(''name'', dict_get b ''name'' JNull), (''arguments'', JStr (dumps fr (dict_get b ''input'' (JObj []))))])]"

definition v1_assistant :: "(rat \<Rightarrow> string) \<Rightarrow> (nat \<Rightarrow> string) \<Rightarrow> json list \<Rightarrow> json decoded" where
  "v1_assistant fr uuid bs =
     (let texts = map (\<lambda>b. dict_get b ''text'' (JStr [])) (filter (\<lambda>b. map_of b ''type'' = Some (JStr ''text'')) (dicts_of bs));
          uses = filter (\<lambda>b. map_of b ''type'' = Some (JStr ''tool_use'')) (dicts_of bs);
          calls = map (\<lambda>(i, b). v1_assistant_call fr (uuid i) b) (indexed 0 uses)
      in dbind (join_opt [Streaming.NL] texts) (\<lambda>t.
           Decoded (JObj ([(''role'', JStr ''assistant''), (''content'', opt_str t)] @ entry_if (calls \<noteq> []) ''tool_calls'' (JArr calls)))))"

text \<open>\<open>messages.append({"role": "user", "content": "\n".join(...)})\<close> when there is text.\<close>

definition flush_text :: "json list \<Rightarrow> json list decoded" where
  "flush_text texts =
     dbind (join_opt [Streaming.NL] texts) (\<lambda>t. Decoded (case t of None \<Rightarrow> [] | Some s \<Rightarrow> [plain_message (JStr ''user'') (JStr s)]))"

definition v1_tool_result :: "(rat \<Rightarrow> string) \<Rightarrow> (json, json) dict \<Rightarrow> (string, json) dict \<Rightarrow> json decoded" where
  "v1_tool_result fr names b =
     (let tid = or_json (dict_get b ''tool_use_id'' JNull) (JStr ''call_unknown'') in
      if \<not> hashable tid then Raises TypeError
      else
        dbind (case dict_get b ''content'' (JStr []) of
                 JArr xs \<Rightarrow> dbind (join_json [Streaming.NL] (map (\<lambda>x. dict_get x ''text'' (JStr [])) (dicts_of xs))) (\<lambda>s. Decoded (JStr s))
               | j \<Rightarrow> Decoded j) (\<lambda>content.
          Decoded (JObj [(''role'', JStr ''tool''), (''name'', dict_get names tid (JStr ''bash'')), (''tool_call_id'', tid),
            (''content'', JStr (str_json fr content))])))"

text \<open>The blocks of a user message: the messages so far and the text not yet emitted.\<close>

definition v1_user_block ::
  "(rat \<Rightarrow> string) \<Rightarrow> (json, json) dict \<Rightarrow> (string, json) dict \<Rightarrow> json list \<times> json list \<Rightarrow> (json list \<times> json list) decoded" where
  "v1_user_block fr names b acc =
     (case acc of (out, texts) \<Rightarrow>
        if map_of b ''type'' = Some (JStr ''tool_result'')
        then dbind (flush_text texts) (\<lambda>before. dbind (v1_tool_result fr names b) (\<lambda>m. Decoded (out @ before @ [m], [])))
        else if map_of b ''type'' = Some (JStr ''text'') then Decoded (out, texts @ [dict_get b ''text'' (JStr [])])
        else Decoded acc)"

definition v1_user :: "(rat \<Rightarrow> string) \<Rightarrow> (json, json) dict \<Rightarrow> json list \<Rightarrow> json list decoded" where
  "v1_user fr names bs =
     dbind (dfold (v1_user_block fr names) (dicts_of bs) ([], [])) (\<lambda>(out, texts). dbind (flush_text texts) (\<lambda>rest. Decoded (out @ rest)))"

definition v1_message :: "(rat \<Rightarrow> string) \<Rightarrow> (nat \<Rightarrow> string) \<Rightarrow> (json, json) dict \<Rightarrow> json \<Rightarrow> json list decoded" where
  "v1_message fr uuid names msg =
     dbind (fetch msg ''role'' (JStr ''user'')) (\<lambda>role. dbind (fetch msg ''content'' JNull) (\<lambda>content.
       case content of
         JStr _ \<Rightarrow> Decoded [plain_message role content]
       | JArr bs \<Rightarrow>
           if role = JStr ''assistant'' then dbind (v1_assistant fr uuid bs) (\<lambda>m. Decoded [m])
           else if role = JStr ''user'' then v1_user fr names bs
           else Decoded []
       | _ \<Rightarrow> Decoded [plain_message role (JStr (str_json fr (or_json content (JStr []))))]))"

text \<open>\<open>min(x, 8192)\<close>.\<close>

definition min_tokens :: "json \<Rightarrow> json decoded" where
  "min_tokens j =
     (case j of
        JInt i \<Rightarrow> Decoded (JInt (min i 8192))
      | JFloat r \<Rightarrow> Decoded (if 8192 < r then JInt 8192 else j)
      | JBool _ \<Rightarrow> Decoded j
      | _ \<Rightarrow> Raises TypeError)"

definition v1_tool :: "(string, json) dict \<Rightarrow> json" where
  "v1_tool t = JObj [(''type'', JStr ''function''), (''function'', JObj [(''name'', dict_get t ''name'' JNull),
     (''description'', dict_get t ''description'' (JStr [])),
     (''parameters'', dict_get t ''input_schema'' (JObj [(''type'', JStr ''object''), (''properties'', JObj [])]))])]"

definition v1_tools :: "json \<Rightarrow> (string \<times> json) list" where
  "v1_tools tools = (case tools of JArr ts \<Rightarrow> entry_if (dicts_of ts \<noteq> []) ''tools'' (JArr (map v1_tool (dicts_of ts))) | _ \<Rightarrow> [])"

text \<open>\<open>uuid i j\<close> is drawn for the \<open>j\<close>th call of message \<open>i\<close>.\<close>

definition anthropic_to_openai_request :: "(rat \<Rightarrow> string) \<Rightarrow> (nat \<Rightarrow> nat \<Rightarrow> string) \<Rightarrow> json \<Rightarrow> string \<Rightarrow> json decoded" where
  "anthropic_to_openai_request fr uuid req model_name =
     dbind (fetch req ''system'' JNull) (\<lambda>sys. dbind (v1_system sys) (\<lambda>system.
     dbind (fetch req ''messages'' (JArr [])) (\<lambda>ms. dbind (items_of ms) (\<lambda>msgs.
     dbind (v1_tool_names msgs) (\<lambda>names.
     dbind (dmap (\<lambda>(i, m). v1_message fr (uuid i) names m) (indexed 0 msgs)) (\<lambda>turns.
     dbind (fetch req ''max_tokens'' (JInt 8192)) (\<lambda>mt. dbind (min_tokens mt) (\<lambda>max_tokens.
     dbind (of_result (json_contains ''temperature'' req)) (\<lambda>has_temperature.
     dbind (fetch req ''temperature'' JNull) (\<lambda>temperature. dbind (fetch req ''tools'' JNull) (\<lambda>tools.
       Decoded (JObj ([(''model'', JStr model_name), (''messages'', JArr (system @ concat turns)), (''stream'', JBool False),
         (''max_tokens'', max_tokens)] @ entry_if has_temperature ''temperature'' temperature @ v1_tools tools)))))))))))))"

section \<open>OpenAI to Anthropic\<close>

definition v1_text_block :: "string \<Rightarrow> json \<Rightarrow> json list" where
  "v1_text_block key v =
     (case v of JStr (c # cs) \<Rightarrow> [JObj [(''type'', JStr key), (key, v)]] | _ \<Rightarrow> [])"

text \<open>Unparseable arguments become text, never a call.\<close>

definition v1_tool_use :: "(rat \<Rightarrow> string) \<Rightarrow> string \<Rightarrow> json \<Rightarrow> json decoded" where
  "v1_tool_use fr uuid tc =
     dbind (fetch tc ''function'' (JObj [])) (\<lambda>fn. dbind (fetch fn ''arguments'' (JStr ''{}'')) (\<lambda>raw_args.
     dbind (repair_json_string raw_args) (\<lambda>repaired. dbind (fetch fn ''name'' JNull) (\<lambda>name.
       case repaired of
         None \<Rightarrow> Decoded (JObj [(''type'', JStr ''text''), (''text'', JStr (''[unparseable tool_call arguments for '' @ repr_json fr name
                   @ '': '' @ str_json fr raw_args @ '']''))])
       | Some t \<Rightarrow>
           dbind (fetch tc ''id'' JNull) (\<lambda>i.
             case loads True t of
               None \<Rightarrow> Raises ValueError
             | Some input \<Rightarrow> Decoded (JObj [(''type'', JStr ''tool_use''), (''id'', or_json i (JStr (''toolu_'' @ take 8 uuid))),
                 (''name'', name), (''input'', input)]))))))"

definition v1_stop_reason :: "json \<Rightarrow> string decoded" where
  "v1_stop_reason finish =
     (case finish of
        JStr s \<Rightarrow> Decoded (dict_get [(''stop'', ''end_turn''), (''tool_calls'', ''tool_use''), (''length'', ''max_tokens'')] s ''end_turn'')
      | JArr _ \<Rightarrow> Raises TypeError
      | JObj _ \<Rightarrow> Raises TypeError
      | _ \<Rightarrow> Decoded ''end_turn'')"

definition has_tool_use :: "json list \<Rightarrow> bool" where
  "has_tool_use blocks = list_ex (\<lambda>b. case b of JObj kvs \<Rightarrow> map_of kvs ''type'' = Some (JStr ''tool_use'') | _ \<Rightarrow> False) blocks"

text \<open>The content blocks: reasoning, text, tool calls.\<close>

definition v1_blocks :: "(rat \<Rightarrow> string) \<Rightarrow> (nat \<Rightarrow> string) \<Rightarrow> json \<Rightarrow> json list decoded" where
  "v1_blocks fr uuid msg =
     dbind (fetch msg ''reasoning_content'' JNull) (\<lambda>rc. dbind (fetch msg ''thinking'' JNull) (\<lambda>th.
     dbind (fetch msg ''content'' JNull) (\<lambda>text_content.
     dbind (fetch msg ''tool_calls'' (JArr [])) (\<lambda>tcs. dbind (items_of tcs) (\<lambda>calls.
     dbind (dmap (\<lambda>(i, tc). v1_tool_use fr (uuid i) tc) (indexed 0 calls)) (\<lambda>uses.
       Decoded (v1_text_block ''thinking'' (or_json rc th) @ v1_text_block ''text'' text_content @ uses)))))))"

definition v1_response :: "string \<Rightarrow> string \<Rightarrow> json \<Rightarrow> json \<Rightarrow> json list \<Rightarrow> json decoded" where
  "v1_response msg_uuid requested_model resp choice blocks =
     dbind (fetch choice ''finish_reason'' (JStr ''stop'')) (\<lambda>finish. dbind (v1_stop_reason finish) (\<lambda>stop.
     dbind (fetch resp ''usage'' (JObj [])) (\<lambda>usage. dbind (fetch resp ''id'' JNull) (\<lambda>i.
     dbind (fetch usage ''prompt_tokens'' (JInt 0)) (\<lambda>pt. dbind (fetch usage ''completion_tokens'' (JInt 0)) (\<lambda>ct.
       Decoded (JObj
         [(''id'', or_json i (JStr (''msg_'' @ take 12 msg_uuid))), (''type'', JStr ''message''), (''role'', JStr ''assistant''),
          (''model'', JStr requested_model), (''content'', JArr blocks),
          (''stop_reason'', JStr (if stop = ''tool_use'' \<and> \<not> has_tool_use blocks then ''end_turn'' else stop)), (''stop_sequence'', JNull),
          (''usage'', JObj [(''input_tokens'', pt), (''output_tokens'', ct)])])))))))"

definition openai_to_anthropic_response :: "(rat \<Rightarrow> string) \<Rightarrow> string \<Rightarrow> (nat \<Rightarrow> string) \<Rightarrow> json \<Rightarrow> string \<Rightarrow> json decoded" where
  "openai_to_anthropic_response fr msg_uuid uuid resp requested_model =
     dbind (fetch resp ''choices'' (JArr [])) (\<lambda>choices.
     dbind (if truthy_json choices then of_result (item0 choices) else Decoded (JObj [])) (\<lambda>choice.
     dbind (fetch choice ''message'' (JObj [])) (\<lambda>msg.
     dbind (v1_blocks fr uuid msg) (v1_response msg_uuid requested_model resp choice))))"

end
