(* ===== verification/TranslatorTheorems.thy ===== *)
theory TranslatorTheorems
  imports Translators
begin

text \<open>
  What the V1 translators keep: tool calls are never invented, the turns of a user message keep their order; and
  where the textual repair of arguments goes wrong.
\<close>

section \<open>Tool calls of a response\<close>

text \<open>The call \<open>tc\<close> of the OpenAI response has arguments that, repaired, parse as the object \<open>input\<close>.\<close>

definition call_parses :: "json \<Rightarrow> json \<Rightarrow> bool" where
  "call_parses tc input =
     (case dbind (fetch tc ''function'' (JObj [])) (\<lambda>fn. dbind (fetch fn ''arguments'' (JStr ''{}'')) repair_json_string) of
        Decoded (Some t) \<Rightarrow> loads True t = Some input \<and> is_dict input
      | _ \<Rightarrow> False)"

definition use_input :: "json \<Rightarrow> json option" where
  "use_input b =
     (case b of JObj kvs \<Rightarrow> if map_of kvs ''type'' = Some (JStr ''tool_use'') then Some (dict_get kvs ''input'' JNull) else None | _ \<Rightarrow> None)"

lemma has_tool_use_iff: "has_tool_use blocks \<longleftrightarrow> (\<exists>b \<in> set blocks. use_input b \<noteq> None)"
  by (auto simp: has_tool_use_def use_input_def list_ex_iff split: json.splits if_splits)

lemma loads_braces: "loads True ''{}'' = Some (JObj [])"
  by code_simp

lemma repaired_object: "repair_json_string raw = Decoded (Some t) \<Longrightarrow> \<exists>kvs. loads True t = Some (JObj kvs)"
  using loads_braces by (auto simp: repair_json_string_def split: if_splits json.splits option.splits)

lemma v1_tool_use_parses: "v1_tool_use fr uuid tc = Decoded b \<Longrightarrow> use_input b = Some input \<Longrightarrow> call_parses tc input"
  by (auto simp: v1_tool_use_def dbind_Decoded_iff use_input_def call_parses_def dict_get_def is_dict_def
      dest!: repaired_object split: option.splits if_splits)

lemma text_block_no_use: "b \<in> set (v1_text_block key v) \<Longrightarrow> key \<noteq> ''tool_use'' \<Longrightarrow> use_input b = None"
  by (auto simp: v1_text_block_def use_input_def split: json.splits list.splits if_splits)

lemma dmap_member: "dmap f xs = Decoded ys \<Longrightarrow> y \<in> set ys \<Longrightarrow> \<exists>x \<in> set xs. f x = Decoded y"
  by (induction xs arbitrary: ys) (auto simp: dbind_Decoded_iff)

lemma indexed_member: "(i, x) \<in> set (indexed n xs) \<Longrightarrow> x \<in> set xs"
  by (induction xs arbitrary: n) auto

text \<open>The tool calls of a response: those of the message of its first choice.\<close>

definition response_calls :: "json \<Rightarrow> json list decoded" where
  "response_calls resp =
     dbind (fetch resp ''choices'' (JArr [])) (\<lambda>choices.
     dbind (if truthy_json choices then of_result (item0 choices) else Decoded (JObj [])) (\<lambda>choice.
     dbind (fetch choice ''message'' (JObj [])) (\<lambda>msg. dbind (fetch msg ''tool_calls'' (JArr [])) items_of)))"

lemma v1_blocks_parts:
  assumes "v1_blocks fr uuid msg = Decoded blocks"
  obtains rc th tc tcs calls uses where "fetch msg ''tool_calls'' (JArr []) = Decoded tcs" "items_of tcs = Decoded calls"
      "dmap (\<lambda>(i, tc). v1_tool_use fr (uuid i) tc) (indexed 0 calls) = Decoded uses"
      "blocks = v1_text_block ''thinking'' (or_json rc th) @ v1_text_block ''text'' tc @ uses"
  using assms unfolding v1_blocks_def dbind_Decoded_iff decoded.inject by (elim exE conjE) (rule that; (assumption | rule sym; assumption))

lemma use_in_uses:
  assumes "b \<in> set (v1_text_block ''thinking'' v @ v1_text_block ''text'' w @ uses)" and use: "use_input b = Some input"
  shows "b \<in> set uses"
proof -
  have "b \<notin> set (v1_text_block ''thinking'' v)" using use text_block_no_use [of b "''thinking''"] by force
  moreover have "b \<notin> set (v1_text_block ''text'' w)" using use text_block_no_use [of b "''text''"] by force
  ultimately show ?thesis using assms(1) unfolding set_append by blast
qed

lemma v1_blocks_parse:
  assumes "v1_blocks fr uuid msg = Decoded blocks"
  shows "\<exists>calls. dbind (fetch msg ''tool_calls'' (JArr [])) items_of = Decoded calls
    \<and> (\<forall>b \<in> set blocks. \<forall>input. use_input b = Some input \<longrightarrow> (\<exists>tc \<in> set calls. call_parses tc input))"
proof -
  from assms obtain rc th tc tcs calls uses where tcs: "fetch msg ''tool_calls'' (JArr []) = Decoded tcs" "items_of tcs = Decoded calls"
      and uses: "dmap (\<lambda>(i, tc). v1_tool_use fr (uuid i) tc) (indexed 0 calls) = Decoded uses"
      and blocks: "blocks = v1_text_block ''thinking'' (or_json rc th) @ v1_text_block ''text'' tc @ uses"
    by (rule v1_blocks_parts)
  have "\<exists>tc \<in> set calls. call_parses tc input" if b: "b \<in> set blocks" "use_input b = Some input" for b input
  proof -
    have "b \<in> set uses" by (rule use_in_uses [OF b(1) [unfolded blocks] b(2)])
    from dmap_member [OF uses this] obtain itc where itc: "itc \<in> set (indexed 0 calls)" "(case itc of (i, tc) \<Rightarrow> v1_tool_use fr (uuid i) tc) = Decoded b" ..
    obtain i tc where "itc = (i, tc)" by (rule prod.exhaust)
    then have "call_parses tc input" "tc \<in> set calls"
      using itc v1_tool_use_parses [OF _ b(2)] indexed_member by (simp_all only: prod.case) fast+
    then show ?thesis ..
  qed
  then have "\<forall>b \<in> set blocks. \<forall>input. use_input b = Some input \<longrightarrow> (\<exists>tc \<in> set calls. call_parses tc input)" by blast
  moreover have "dbind (fetch msg ''tool_calls'' (JArr [])) items_of = Decoded calls" unfolding tcs(1) dbind.simps by (rule tcs(2))
  ultimately show ?thesis by blast
qed

lemma v1_response_fields:
  assumes "v1_response msg_uuid model resp choice blocks = Decoded body"
  shows "\<exists>kvs stop. body = JObj kvs \<and> map_of kvs ''content'' = Some (JArr blocks) \<and> map_of kvs ''stop_reason'' = Some (JStr stop)
    \<and> (stop = ''tool_use'' \<longrightarrow> has_tool_use blocks)"
  using assms by (auto simp: v1_response_def dbind_Decoded_iff)


definition sample_completion :: json where
  "sample_completion = JObj [(''choices'', JArr [JObj [(''finish_reason'', JStr ''tool_calls''), (''message'', JObj [(''content'', JStr ''sure''),
     (''tool_calls'', JArr [JObj [(''id'', JStr ''c1''), (''function'', JObj [(''name'', JStr ''ls''), (''arguments'', JStr ''{}'')])],
        JObj [(''id'', JStr ''c2''), (''function'', JObj [(''name'', JStr ''rm''), (''arguments'', JStr ''rm -rf'')])]])])]])]"


section \<open>User turns\<close>

definition message_text :: "json \<Rightarrow> string" where
  "message_text m = (case m of JObj kvs \<Rightarrow> (case map_of kvs ''content'' of Some (JStr s) \<Rightarrow> s | _ \<Rightarrow> []) | _ \<Rightarrow> [])"

definition message_call :: "json \<Rightarrow> json option" where
  "message_call m = (case m of JObj kvs \<Rightarrow> map_of kvs ''tool_call_id'' | _ \<Rightarrow> None)"

text \<open>What the blocks say, in order, and the calls they answer.\<close>

definition json_text :: "json \<Rightarrow> string" where
  "json_text j = (case j of JStr s \<Rightarrow> s | _ \<Rightarrow> [])"

definition block_text :: "(rat \<Rightarrow> string) \<Rightarrow> (string, json) dict \<Rightarrow> string list" where
  "block_text fr b =
     (if map_of b ''type'' = Some (JStr ''tool_result'')
      then [case dict_get b ''content'' (JStr []) of
              JArr xs \<Rightarrow> join [Streaming.NL] (map (\<lambda>x. json_text (dict_get x ''text'' (JStr []))) (dicts_of xs))
            | j \<Rightarrow> str_json fr j]
      else if map_of b ''type'' = Some (JStr ''text'') then [json_text (dict_get b ''text'' (JStr []))]
      else [])"

definition block_call :: "(string, json) dict \<Rightarrow> json list" where
  "block_call b =
     (if map_of b ''type'' = Some (JStr ''tool_result'') then [or_json (dict_get b ''tool_use_id'' JNull) (JStr ''call_unknown'')] else [])"

definition lines_of :: "string list \<Rightarrow> string" where
  "lines_of ts = concat (map (\<lambda>t. t @ [Streaming.NL]) ts)"

lemma map_filter_append: "List.map_filter f (xs @ ys) = List.map_filter f xs @ List.map_filter f ys"
  by (simp add: List.map_filter_def)

lemma lines_of_append: "lines_of (xs @ ys) = lines_of xs @ lines_of ys"
  by (simp add: lines_of_def)

lemma lines_of_group: "ts \<noteq> [] \<Longrightarrow> lines_of [join [Streaming.NL] ts] = lines_of ts"
proof (induction ts)
  case (Cons t ts)
  then show ?case by (cases ts) (simp_all add: lines_of_def)
qed simp

lemma str_items_texts: "str_items js = Decoded ss \<Longrightarrow> ss = map json_text js"
  by (simp add: str_items_def json_text_def [abs_def] split: if_splits)

lemma flushed:
  assumes "flush_text texts = Decoded ms"
  shows "lines_of (map message_text ms) = lines_of (map json_text texts)" "List.map_filter message_call ms = []"
proof -
  have "(texts = [] \<and> ms = []) \<or> (texts \<noteq> [] \<and> ms = [plain_message (JStr ''user'') (JStr (join [Streaming.NL] (map json_text texts)))])"
    using assms by (auto simp: flush_text_def join_opt_def join_json_def dbind_Decoded_iff dest!: str_items_texts split: if_splits)
  then show "lines_of (map message_text ms) = lines_of (map json_text texts)" "List.map_filter message_call ms = []"
    using lines_of_group [of "map json_text texts"]
    by (auto simp: plain_message_def message_text_def message_call_def List.map_filter_def)
qed

lemma result_message:
  assumes "v1_tool_result fr names b = Decoded m" "map_of b ''type'' = Some (JStr ''tool_result'')"
  shows "[message_text m] = block_text fr b" "List.map_filter message_call [m] = block_call b"
  using assms
  by (auto simp: v1_tool_result_def block_text_def block_call_def message_text_def message_call_def Let_def dbind_Decoded_iff join_json_def
      List.map_filter_def o_def dest!: str_items_texts split: if_splits json.splits)

lemma user_block_step:
  assumes "v1_user_block fr names b (out, texts) = Decoded (out', texts')"
  shows "lines_of (map message_text out' @ map json_text texts') = lines_of (map message_text out @ map json_text texts) @ lines_of (block_text fr b)
    \<and> List.map_filter message_call out' = List.map_filter message_call out @ block_call b"
proof (cases "map_of b ''type'' = Some (JStr ''tool_result'')")
  case True
  then obtain before m where "flush_text texts = Decoded before" "v1_tool_result fr names b = Decoded m" "out' = out @ before @ [m]" "texts' = []"
    using assms by (auto simp: v1_user_block_def dbind_Decoded_iff)
  with flushed [OF this(1)] result_message [OF this(2) True] show ?thesis
    by (simp add: lines_of_append map_filter_append)
next
  case False
  with assms show ?thesis
    by (auto simp: v1_user_block_def block_text_def block_call_def lines_of_append lines_of_def split: if_splits)
qed

lemma user_blocks:
  "dfold (v1_user_block fr names) bs (out, texts) = Decoded (out', texts') \<Longrightarrow>
   lines_of (map message_text out' @ map json_text texts')
     = lines_of (map message_text out @ map json_text texts) @ lines_of (concat (map (block_text fr) bs))
   \<and> List.map_filter message_call out' = List.map_filter message_call out @ concat (map block_call bs)"
proof (induction bs arbitrary: out texts)
  case (Cons b bs)
  then obtain o1 t1 where step: "v1_user_block fr names b (out, texts) = Decoded (o1, t1)" "dfold (v1_user_block fr names) bs (o1, t1) = Decoded (out', texts')"
    by (auto simp: dbind_Decoded_iff)
  from Cons.IH [OF step(2)] user_block_step [OF step(1)] show ?case by (simp add: lines_of_append)
qed (simp add: lines_of_def)

text \<open>
  The turns of a user keep their order.  The messages made of the blocks of an Anthropic user message say, line
  by line, what its texts and tool results say, in the same order, and answer the same calls in the same order.
\<close>

theorem v1_user_keeps_order:
  assumes "v1_user fr names bs = Decoded out"
  shows "lines_of (map message_text out) = lines_of (concat (map (block_text fr) (dicts_of bs)))
    \<and> List.map_filter message_call out = concat (map block_call (dicts_of bs))"
proof -
  from assms obtain o1 t1 rest where "dfold (v1_user_block fr names) (dicts_of bs) ([], []) = Decoded (o1, t1)" "flush_text t1 = Decoded rest"
      "out = o1 @ rest"
    by (auto simp: v1_user_def dbind_Decoded_iff)
  with user_blocks [OF this(1)] flushed [OF this(2)] show ?thesis by (simp add: lines_of_append map_filter_append lines_of_def)
qed

theorem v1_user_keeps_order_witness:
  "\<exists>out. v1_user (\<lambda>_. ''0.0'') [] [JObj [(''type'', JStr ''text''), (''text'', JStr ''one'')],
       JObj [(''type'', JStr ''tool_result''), (''tool_use_id'', JStr ''c''), (''content'', JStr ''two'')],
       JObj [(''type'', JStr ''text''), (''text'', JStr ''three'')]] = Decoded out
     \<and> lines_of (map message_text out) = lines_of [''one'', ''two'', ''three''] \<and> List.map_filter message_call out = [JStr ''c'']"
proof -
  let ?bs = "[JObj [(''type'', JStr ''text''), (''text'', JStr ''one'')],
       JObj [(''type'', JStr ''tool_result''), (''tool_use_id'', JStr ''c''), (''content'', JStr ''two'')],
       JObj [(''type'', JStr ''text''), (''text'', JStr ''three'')]]"
  have "case v1_user (\<lambda>_. ''0.0'') [] ?bs of Decoded _ \<Rightarrow> True | _ \<Rightarrow> False" by code_simp
  then obtain out where out: "v1_user (\<lambda>_. ''0.0'') [] ?bs = Decoded out" by (cases "v1_user (\<lambda>_. ''0.0'') [] ?bs") simp_all
  have "concat (map (block_text (\<lambda>_. ''0.0'')) (dicts_of ?bs)) = [''one'', ''two'', ''three'']" "concat (map block_call (dicts_of ?bs)) = [JStr ''c'']"
    by code_simp+
  with v1_user_keeps_order [OF out] out show ?thesis by simp
qed

section \<open>Textual repair\<close>

text \<open>
  The textual repair changes arguments that are already valid.  Commas before closing brackets are removed
  without regard to string literals, so a command with such text in it reaches the tool altered.
\<close>

theorem repair_alters_valid_arguments:
  "let args = JObj [(''command'', JStr ''echo [1,]'')]; raw = dumps (\<lambda>_. ''0.0'') args in
   loads True raw = Some args
   \<and> (case v1_tool_use (\<lambda>_. ''0.0'') ''u'' (JObj [(''id'', JStr ''c''), (''function'', JObj [(''name'', JStr ''bash''), (''arguments'', JStr raw)])]) of
        Decoded b \<Rightarrow> use_input b = Some (JObj [(''command'', JStr ''echo [1]'')]) | _ \<Rightarrow> False)"
  by code_simp

end
