(* ===== verification/LegacyRouter.thy ===== *)
theory LegacyRouter
  imports Translators Transport Classifier
begin

text \<open>
  \<^verbatim>\<open>router.py\<close>: the V1 failover router over the isolated pools.  The network, the clocks, \<open>uuid\<close>, \<open>urlparse\<close> and
  the decoder for bodies that are not UTF-8 are inputs of each attempt; the text of a refusal by the security
  checks, which the classifier reads, is an input too.  The dictionary that the caller passes is changed in place
  by the source; here the payload is threaded through the attempts.
\<close>

section \<open>Timeouts and secrets\<close>

definition calculate_adaptive_timeout :: "(rat \<Rightarrow> string) \<Rightarrow> string \<Rightarrow> json \<Rightarrow> rat \<Rightarrow> rat result" where
  "calculate_adaptive_timeout fr provider payload default_timeout =
     (case get_or payload ''messages'' (JArr []) of
        Inl e \<Rightarrow> Inl e
      | Inr ms \<Rightarrow>
          (case json_elements ms of
             Inl e \<Rightarrow> Inl e
           | Inr msgs \<Rightarrow>
               let base = (if lower provider \<in> {''nvidia'', ''sambanova'', ''cerebras''} then 45 else 35);
                   char_count = sum_list (map (\<lambda>m. length (str_json fr (dict_get m ''content'' (JStr [])))) (dicts_of msgs));
                   approx_tokens = char_count div 4
               in Inr (min default_timeout (if approx_tokens > 16000 then base + 25 else if approx_tokens > 8000 then base + 15 else base))))"

text \<open>\<open>fresh\<close> is what \<open>load_all_env_keys([key_name])\<close> gives.\<close>

definition resolve_secret :: "(string \<Rightarrow> string option) \<Rightarrow> (string, string) dict \<Rightarrow> string \<Rightarrow> pool_manager \<Rightarrow> string option" where
  "resolve_secret getenv fresh key_name m =
     (case getenv key_name of
        Some v \<Rightarrow> if strip v \<noteq> [] then Some (strip v)
                  else if strip (dict_get (pm_keys m) key_name []) \<noteq> [] then Some (strip (dict_get (pm_keys m) key_name []))
                  else map_of fresh key_name
      | None \<Rightarrow> if strip (dict_get (pm_keys m) key_name []) \<noteq> [] then Some (strip (dict_get (pm_keys m) key_name []))
                else map_of fresh key_name)"

section \<open>One upstream request\<close>

text \<open>\<open>min(x, n)\<close> of a JSON value and an integer.\<close>

definition min_json :: "json \<Rightarrow> int \<Rightarrow> json result" where
  "min_json j n =
     (case j of
        JInt i \<Rightarrow> Inr (JInt (min i n))
      | JFloat r \<Rightarrow> Inr (if of_int n < r then JInt n else j)
      | JBool b \<Rightarrow> Inr (if n < (if b then 1 else 0) then JInt n else j)
      | _ \<Rightarrow> Inl TypeError)"

definition route_key :: "route_definition \<Rightarrow> pool_manager \<Rightarrow> string option" where
  "route_key r m = (if truthy_str (ro_env_key r) then map_of (pm_keys m) (the (ro_env_key r)) else None)"

definition v1_gemini_request :: "(rat \<Rightarrow> string) \<Rightarrow> route_definition \<Rightarrow> pool_manager \<Rightarrow> json \<Rightarrow> prepared_request decoded" where
  "v1_gemini_request fr r m payload =
     dbind (convert_openai_to_gemini_payload fr payload) (\<lambda>body.
     dbind (fetch payload ''max_tokens'' (JInt (ro_max_output_tokens r))) (\<lambda>mt.
     dbind (of_result (min_json mt (min (ro_max_output_tokens r) 8192))) (\<lambda>max_out.
     dbind (fetch payload ''temperature'' (JFloat (7 / 10))) (\<lambda>temperature.
       Decoded \<lparr>pr_url = rstrip_slash (ro_base_url r) @ ''/models/'' @ ro_model r @ '':generateContent'',
          pr_headers = [(''Content-Type'', ''application/json'')]
            @ (if truthy_str (route_key r m) then [(''x-goog-api-key'', the (route_key r m))] else []),
          pr_body = dumps fr (set_key ''generationConfig'' (JObj [(''maxOutputTokens'', max_out), (''temperature'', temperature)]) body),
          pr_method = ''POST''\<rparr>))))"

definition drop_thinking :: "route_definition \<Rightarrow> (string, json) dict \<Rightarrow> (string, json) dict" where
  "drop_thinking r kvs = (if ro_provider r \<notin> {''anthropic'', ''openrouter''} then filter (\<lambda>(k, _). k \<noteq> ''thinking'') kvs else kvs)"

definition v1_openai_request :: "(rat \<Rightarrow> string) \<Rightarrow> route_definition \<Rightarrow> pool_manager \<Rightarrow> (string, json) dict \<Rightarrow> prepared_request decoded" where
  "v1_openai_request fr r m payload =
     (let copy = AList.update ''model'' (JStr (ro_model r)) payload in
      dbind (case map_of copy ''max_tokens'' of
               None \<Rightarrow> Decoded copy
             | Some v \<Rightarrow> dbind (of_result (min_json v (min (ro_max_output_tokens r) 8192))) (\<lambda>w. Decoded (AList.update ''max_tokens'' w copy))) (\<lambda>capped.
        Decoded \<lparr>pr_url = rstrip_slash (ro_base_url r) @ ''/chat/completions'',
          pr_headers = dict_merge ([(''Content-Type'', ''application/json''), (''Accept'', ''application/json''), (''User-Agent'', BROWSER_UA)]
            @ (if truthy_str (route_key r m) then [(''Authorization'', ''Bearer '' @ the (route_key r m))] else [])) (ro_headers r),
          pr_body = dumps fr (JObj (drop_thinking r capped)), pr_method = ''POST''\<rparr>))"

definition v1_request :: "(rat \<Rightarrow> string) \<Rightarrow> route_definition \<Rightarrow> pool_manager \<Rightarrow> json \<Rightarrow> prepared_request decoded" where
  "v1_request fr r m payload =
     (if ro_api_format r = ''gemini'' then v1_gemini_request fr r m payload
      else case payload of JObj kvs \<Rightarrow> v1_openai_request fr r m kvs | _ \<Rightarrow> Raises AttributeError)"

text \<open>The world an attempt meets.\<close>

record v1_world =
  vw_mono :: time
  vw_wall :: time
  vw_uuid :: string
  vw_call_uuid :: "nat \<Rightarrow> string"
  vw_net :: "prepared_request \<Rightarrow> int \<Rightarrow> transport_outcome"
  vw_refusal :: "gateway_error \<Rightarrow> string"

record v1_config =
  vc_fr :: "rat \<Rightarrow> string"
  vc_allow_local :: bool
  vc_urlparse :: "string \<Rightarrow> (string \<times> string option) option"
  vc_ignore :: "string \<Rightarrow> string"
  vc_classifier :: classifier_env
  vc_default_timeout :: rat

type_synonym v1_reply = "int \<times> (string, string) dict \<times> string"

definition v1_exchange :: "v1_config \<Rightarrow> v1_world \<Rightarrow> prepared_request \<Rightarrow> int \<Rightarrow> v1_reply" where
  "v1_exchange cfg w p timeout =
     (case (validate_upstream_url (vc_allow_local cfg) (vc_urlparse cfg (pr_url p)), enforce_payload_limit (int (length (pr_body p)))) of
        (Inl e, _) \<Rightarrow> (599, [], ''transport_error:blocked: '' @ vw_refusal w e)
      | (_, Inl e) \<Rightarrow> (599, [], ''transport_error:blocked: '' @ vw_refusal w e)
      | _ \<Rightarrow>
          (case vw_net w p timeout of
             Responded status headers body \<Rightarrow>
               (case enforce_payload_limit (int (length (bounded_read body))) of
                  Inl e \<Rightarrow> (599, [], vw_refusal w e)
                | Inr _ \<Rightarrow> (status, lower_headers headers, bounded_read body))
           | Http_error status headers body \<Rightarrow> (status, lower_headers headers, (case body of Some b \<Rightarrow> b | None \<Rightarrow> []))
           | Transport_failed x \<Rightarrow> (599, [], te_text x)))"

section \<open>Dispatch\<close>

text \<open>A body of status 200: the completion, or nothing when it cannot be read.\<close>

definition v1_completion_of :: "v1_config \<Rightarrow> v1_world \<Rightarrow> route_definition \<Rightarrow> string \<Rightarrow> json option" where
  "v1_completion_of cfg w r body =
     (if \<not> utf8_valid body then None
      else case loads True body of
             None \<Rightarrow> None
           | Some raw \<Rightarrow>
               if ro_api_format r = ''gemini''
               then (case convert_gemini_to_openai_response (vc_fr cfg) (vw_uuid w) (vw_call_uuid w) \<lfloor>vw_wall w\<rfloor> raw (ro_model r) of
                       Decoded j \<Rightarrow> Some j | _ \<Rightarrow> None)
               else Some raw)"

definition decoded_text :: "v1_config \<Rightarrow> string \<Rightarrow> string" where
  "decoded_text cfg b = (if utf8_valid b then b else vc_ignore cfg b)"

text \<open>\<open>current_max is None or current_max > cap\<close>.\<close>

definition exceeds_cap :: "json \<Rightarrow> int \<Rightarrow> bool result" where
  "exceeds_cap j cap =
     (case j of
        JNull \<Rightarrow> Inr True
      | JInt i \<Rightarrow> Inr (i > cap)
      | JFloat r \<Rightarrow> Inr (r > of_int cap)
      | JBool b \<Rightarrow> Inr ((if b then 1 else 0) > cap)
      | _ \<Rightarrow> Inl TypeError)"

definition clamped_output :: "int \<Rightarrow> int" where
  "clamped_output cap = (if cap > 64 then max 1 (cap - 64) else cap)"

definition rate_limit_seconds :: "classifier_env \<Rightarrow> (string, string) dict \<Rightarrow> rat" where
  "rate_limit_seconds env headers =
     (let header = map_of headers ''retry-after'' in
      case parse_float env (if truthy_str header then the header else ''60'') of
        Some x \<Rightarrow> of_int (min 120 (max 30 (if x < 0 then - \<lfloor>- x\<rfloor> else \<lfloor>x\<rfloor>)))
      | None \<Rightarrow> 60)"

definition v1_account_wide :: "route_definition \<Rightarrow> string \<Rightarrow> bool" where
  "v1_account_wide r msg =
     (contains (lower msg) ''free-models-per-day'' \<or> contains (lower msg) ''free model requests'' \<or> lower (ro_provider r) = ''openrouter'')"

text \<open>The penalties after a failure that is not answered by changing the payload.\<close>

definition v1_penalise ::
  "v1_config \<Rightarrow> v1_world \<Rightarrow> string \<Rightarrow> route_definition \<Rightarrow> v1_reply \<Rightarrow> failure_classification \<Rightarrow> pool_manager \<Rightarrow> pool_manager" where
  "v1_penalise cfg w pool r reply c m =
     (case reply of (status, headers, body) \<Rightarrow>
        if fc_reason c = R_billing
        then (if v1_account_wide r (fc_message c)
              then mark_provider_quota_exhausted (vw_wall w) pool (ro_provider r) (calculate_seconds_until_utc_midnight (vw_wall w)) m
              else mark_quota_exhausted (vw_wall w) pool (ro_id r) 86400 m)
        else if fc_reason c \<in> {R_rate_limit, R_upstream_rate_limit}
        then mark_cooldown (vw_mono w) pool (ro_id r) (rate_limit_seconds (vc_classifier cfg) headers) m
        else if fc_reason c = R_model_not_found \<or> status = 404 then mark_deprecated pool (ro_model r) m
        else if fc_reason c \<in> {R_overloaded, R_server_error, R_timeout, R_connection_refused}
        then mark_cooldown (vw_mono w) pool (ro_id r) 30 m
        else m)"

text \<open>A failure answered by changing the payload: \<open>None\<close> when it is not.\<close>

definition v1_adapt :: "v1_config \<Rightarrow> string \<Rightarrow> failure_classification \<Rightarrow> json \<Rightarrow> json option result" where
  "v1_adapt cfg text c payload =
     (if fc_reason c = R_output_cap_exceeded
      then (case parse_output_cap_from_error text of
              Some cap \<Rightarrow>
                if cap > 0
                then (case get_or payload ''max_tokens'' JNull of
                        Inl e \<Rightarrow> Inl e
                      | Inr cur \<Rightarrow> map_sum id (\<lambda>b. if b then Some (set_key ''max_tokens'' (JInt (clamped_output cap)) payload) else None) (exceeds_cap cur cap))
                else Inr None
            | None \<Rightarrow> Inr None)
      else if fc_reason c \<in> {R_payload_too_large, R_context_overflow}
      then (case parse_input_tpm_limit text of
              Some limit \<Rightarrow>
                if limit > 0 then map_sum id Some (prune_openai_request (vc_fr cfg) (max 1000 (limit * 85 div 100)) 2048 2 payload) else Inr None
            | None \<Rightarrow> Inr None)
      else Inr None)"

datatype v1_step_result =
    V1_done json route_definition
  | V1_exhausted
  | V1_again json
  | V1_raised gateway_error

text \<open>After the exchange.\<close>

definition v1_after ::
  "v1_config \<Rightarrow> v1_world \<Rightarrow> string \<Rightarrow> route_definition \<Rightarrow> v1_reply \<Rightarrow> json \<Rightarrow> pool_manager \<Rightarrow> v1_step_result \<times> pool_manager" where
  "v1_after cfg w pool r reply payload m =
     (case reply of (status0, headers, body) \<Rightarrow>
        case (if status0 = 200 then v1_completion_of cfg w r body else None) of
          Some j \<Rightarrow> (V1_done j r, record_route_success (vw_mono w) pool (ro_id r) m)
        | None \<Rightarrow>
            let status = (if status0 = 200 then 502 else status0); text = decoded_text cfg body in
            (case classify_api_error (vc_classifier cfg) (vw_wall w) (error_text text) (Some status) [] (Some pool) (Some (ro_id r)) (Some (ro_provider r)) m of
               (c, m') \<Rightarrow>
                 (case v1_adapt cfg text c payload of
                    Inl e \<Rightarrow> (V1_raised e, m')
                  | Inr (Some payload') \<Rightarrow> (V1_again payload', m')
                  | Inr None \<Rightarrow> (V1_again payload, v1_penalise cfg w pool r (status, headers, body) c m'))))"

text \<open>One attempt, with the request that was sent.\<close>

definition v1_attempt ::
  "v1_config \<Rightarrow> v1_world \<Rightarrow> string \<Rightarrow> json \<Rightarrow> pool_manager \<Rightarrow> v1_step_result \<times> (route_definition \<times> prepared_request) option \<times> pool_manager" where
  "v1_attempt cfg w pool payload m0 =
     (case select_route (vw_mono w) (vw_wall w) pool m0 of
        (None, m) \<Rightarrow> (V1_exhausted, None, m)
      | (Some r, m) \<Rightarrow>
          (case prune_openai_request (vc_fr cfg) (ro_context_length r) 2048 2 payload of
             Inl e \<Rightarrow> (V1_raised e, None, m)
           | Inr pruned \<Rightarrow>
               (case calculate_adaptive_timeout (vc_fr cfg) (ro_provider r) pruned (vc_default_timeout cfg) of
                  Inl e \<Rightarrow> (V1_raised e, None, m)
                | Inr timeout \<Rightarrow>
                    (case v1_request (vc_fr cfg) r m pruned of
                       Raises e \<Rightarrow> (V1_raised e, None, m)
                     | Untyped \<Rightarrow> (V1_raised TypeError, None, m)
                     | Decoded p \<Rightarrow>
                         (case v1_after cfg w pool r (v1_exchange cfg w p \<lfloor>timeout\<rfloor>) payload m of
                            (res, m') \<Rightarrow> (res, Some (r, p), m'))))))"

datatype v1_outcome = V1_answer json route_definition | V1_unavailable | V1_error gateway_error

text \<open>\<open>worlds k\<close> is met by the attempt before which \<open>k\<close> remain.\<close>

fun v1_loop ::
  "v1_config \<Rightarrow> (nat \<Rightarrow> v1_world) \<Rightarrow> string \<Rightarrow> nat \<Rightarrow> json \<Rightarrow> pool_manager \<Rightarrow> v1_outcome \<times> (route_definition \<times> prepared_request) list \<times> pool_manager" where
  "v1_loop cfg worlds pool 0 payload m = (V1_unavailable, [], m)"
| "v1_loop cfg worlds pool (Suc k) payload m =
     (case v1_attempt cfg (worlds k) pool payload m of
        (res, sent, m') \<Rightarrow>
          let log1 = (case sent of None \<Rightarrow> [] | Some s \<Rightarrow> [s]) in
          (case res of
             V1_done j r \<Rightarrow> (V1_answer j r, log1, m')
           | V1_exhausted \<Rightarrow> (V1_unavailable, log1, m')
           | V1_raised e \<Rightarrow> (V1_error e, log1, m')
           | V1_again payload' \<Rightarrow>
               (case v1_loop cfg worlds pool k payload' m' of (out, sents, m'') \<Rightarrow> (out, log1 @ sents, m''))))"

definition v1_dispatch ::
  "v1_config \<Rightarrow> (nat \<Rightarrow> v1_world) \<Rightarrow> string \<Rightarrow> json \<Rightarrow> nat \<Rightarrow> pool_manager \<Rightarrow> (int \<times> json \<times> route_definition option) result \<times> pool_manager" where
  "v1_dispatch cfg worlds pool payload max_attempts m =
     (case v1_loop cfg worlds pool max_attempts payload m of
        (V1_answer j r, _, m') \<Rightarrow> (Inr (200, j, Some r), m')
      | (V1_unavailable, _, m') \<Rightarrow>
          (Inr (503, JObj [(''error'', JObj [(''message'', JStr (''All providers in pool '' @ [CHR 0x27] @ pool @ [CHR 0x27] @ '' are temporarily unavailable.''))])], None), m')
      | (V1_error e, _, m') \<Rightarrow> (Inl e, m'))"

section \<open>The router object\<close>

text \<open>A configured fallback; a key that is absent is \<open>None\<close>.\<close>

record fallback_item =
  fi_id :: "string option"
  fi_provider :: "string option"
  fi_model :: "string option"
  fi_pool :: "string option"
  fi_base_url :: "string option"
  fi_api_format :: "string option"
  fi_key_env :: "string option"
  fi_env_key :: "string option"
  fi_context_length :: "int option"
  fi_headers :: "(string, string) dict option"

record v1_router =
  ur_default_pool :: string
  ur_allowed_providers :: "string list option"
  ur_fallback_chain :: "fallback_item list"
  ur_provider_cooldowns :: "(string, time) dict"
  ur_deprecated_models :: "string list"
  ur_auth_failed :: "string list"
  ur_fallback_index :: int

definition or_text :: "string option \<Rightarrow> string \<Rightarrow> string" where
  "or_text v d = (case v of None \<Rightarrow> d | Some s \<Rightarrow> s)"

definition item_provider :: "fallback_item \<Rightarrow> string" where
  "item_provider i = strip (lower (or_text (fi_provider i) []))"

text \<open>\<open>LLM_ALLOWED_PROVIDERS\<close> applies when no providers are given.\<close>

definition resolve_allowed :: "string list option \<Rightarrow> string option \<Rightarrow> string list option" where
  "resolve_allowed given env =
     (case given of
        Some ps \<Rightarrow> Some (map (\<lambda>p. strip (lower p)) ps)
      | None \<Rightarrow> if truthy_str env then Some (map (\<lambda>p. strip (lower p)) (filter (\<lambda>p. strip p \<noteq> []) (split_on (CHR '','') (the env)))) else None)"

definition fallback_route :: "string \<Rightarrow> fallback_item \<Rightarrow> route_definition" where
  "fallback_route default_pool i =
     \<lparr>ro_id = (if truthy_str (fi_id i) then the (fi_id i) else or_text (fi_provider i) ''None'' @ ''-'' @ or_text (fi_model i) ''None''),
      ro_provider = or_text (fi_provider i) ''custom'', ro_model = or_text (fi_model i) ''default'', ro_pool = or_text (fi_pool i) default_pool,
      ro_base_url = or_text (fi_base_url i) ''https://api.openai.com/v1'', ro_api_format = or_text (fi_api_format i) ''openai'',
      ro_env_key = (if truthy_str (fi_key_env i) then fi_key_env i else fi_env_key i), ro_env_keys = [],
      ro_context_length = (case fi_context_length i of None \<Rightarrow> 65536 | Some n \<Rightarrow> n), ro_max_output_tokens = 4096,
      ro_headers = (case fi_headers i of None \<Rightarrow> [] | Some h \<Rightarrow> h), ro_is_discovered = False\<rparr>"

text \<open>Construction; network discovery, which is opt-in, comes after it.\<close>

definition new_v1_router ::
  "fallback_item list \<Rightarrow> string \<Rightarrow> string list option \<Rightarrow> string option \<Rightarrow> pool_manager \<Rightarrow> v1_router \<times> pool_manager" where
  "new_v1_router fallbacks default_pool given env m =
     (let allowed = resolve_allowed given env;
          m1 = (case allowed of None \<Rightarrow> m | Some ps \<Rightarrow> m\<lparr>pm_allowed_providers := Some ps\<rparr>);
          chain = filter (\<lambda>i. case allowed of None \<Rightarrow> True | Some ps \<Rightarrow> item_provider i \<in> set ps) fallbacks;
          routes = map (fallback_route default_pool) chain
      in (\<lparr>ur_default_pool = default_pool, ur_allowed_providers = allowed, ur_fallback_chain = chain, ur_provider_cooldowns = [],
           ur_deprecated_models = [], ur_auth_failed = [], ur_fallback_index = -1\<rparr>,
          if chain = [] then m1
          else if default_pool = ''coding'' then m1\<lparr>pm_coding_routes := routes @ pm_coding_routes m1\<rparr>
          else m1\<lparr>pm_agent_routes := routes @ pm_agent_routes m1\<rparr>))"

definition v1_pool :: "string option \<Rightarrow> v1_router \<Rightarrow> string" where
  "v1_pool pool u = (if truthy_str pool then the pool else ur_default_pool u)"

definition v1_mark_cooldown ::
  "time \<Rightarrow> string \<Rightarrow> rat \<Rightarrow> string option \<Rightarrow> string option \<Rightarrow> v1_router \<times> pool_manager \<Rightarrow> v1_router \<times> pool_manager" where
  "v1_mark_cooldown mclk provider seconds pool route_id um =
     (case um of (u, m) \<Rightarrow>
        (u\<lparr>ur_provider_cooldowns := AList.update (lower provider) (mclk + seconds) (ur_provider_cooldowns u)\<rparr>,
         mark_cooldown mclk (v1_pool pool u) (if truthy_str route_id then the route_id else provider) seconds m))"

definition v1_mark_deprecated :: "string \<Rightarrow> string option \<Rightarrow> v1_router \<times> pool_manager \<Rightarrow> v1_router \<times> pool_manager" where
  "v1_mark_deprecated model pool um =
     (case um of (u, m) \<Rightarrow>
        (u\<lparr>ur_deprecated_models := List.insert model (ur_deprecated_models u)\<rparr>, mark_deprecated (v1_pool pool u) model m))"

definition v1_record_success ::
  "time \<Rightarrow> string \<Rightarrow> string option \<Rightarrow> string option \<Rightarrow> v1_router \<times> pool_manager \<Rightarrow> v1_router \<times> pool_manager" where
  "v1_record_success mclk provider pool route_id um =
     (case um of (u, m) \<Rightarrow>
        let p = lower provider; m1 = clear_cooldown (if truthy_str route_id then the route_id else p) None m in
        (u\<lparr>ur_provider_cooldowns := AList.delete p (ur_provider_cooldowns u), ur_auth_failed := filter (\<lambda>x. x \<noteq> p) (ur_auth_failed u)\<rparr>,
         if truthy_str route_id then record_route_success mclk (v1_pool pool u) (the route_id) m1 else m1))"

definition v1_mark_auth_failed :: "string \<Rightarrow> v1_router \<Rightarrow> v1_router" where
  "v1_mark_auth_failed provider u = u\<lparr>ur_auth_failed := List.insert (lower provider) (ur_auth_failed u)\<rparr>"

text \<open>A route handed to the caller: a configured fallback or a pool route.\<close>

datatype v1_choice = Chosen_item fallback_item | Chosen_route route_definition

definition item_usable :: "time \<Rightarrow> v1_router \<Rightarrow> fallback_item \<Rightarrow> bool" where
  "item_usable mclk u i =
     (let p = lower (or_text (fi_provider i) []) in
      (case ur_allowed_providers u of None \<Rightarrow> True | Some ps \<Rightarrow> p \<in> set ps)
      \<and> p \<notin> set (ur_auth_failed u) \<and> or_text (fi_model i) [] \<notin> set (ur_deprecated_models u)
      \<and> \<not> mclk < dict_get (ur_provider_cooldowns u) p 0)"

text \<open>The scan of the chain: at most \<open>n\<close> steps, one clock reading each.\<close>

fun scan_chain :: "(nat \<Rightarrow> time) \<Rightarrow> nat \<Rightarrow> v1_router \<Rightarrow> fallback_item option \<times> v1_router" where
  "scan_chain mclk 0 u = (None, u)"
| "scan_chain mclk (Suc n) u =
     (let i = (ur_fallback_index u + 1) mod int (length (ur_fallback_chain u));
          u' = u\<lparr>ur_fallback_index := i\<rparr>; candidate = ur_fallback_chain u ! nat i
      in if item_usable (mclk n) u' candidate then (Some candidate, u') else scan_chain mclk n u')"

definition get_next_available_route ::
  "(nat \<Rightarrow> time) \<Rightarrow> time \<Rightarrow> time \<Rightarrow> string option \<Rightarrow> v1_router \<times> pool_manager \<Rightarrow> v1_choice option \<times> v1_router \<times> pool_manager" where
  "get_next_available_route clock mclk wall pool um =
     (case um of (u, m) \<Rightarrow>
        case (if ur_fallback_chain u = [] then (None, u) else scan_chain clock (2 * length (ur_fallback_chain u)) u) of
          (Some i, u') \<Rightarrow> (Some (Chosen_item i), u', m)
        | (None, u') \<Rightarrow>
            (case select_route mclk wall (v1_pool pool u') m of
               (None, m') \<Rightarrow> (None, u', m') | (Some r, m') \<Rightarrow> (Some (Chosen_route r), u', m')))"

definition active_provider :: "time \<Rightarrow> time \<Rightarrow> v1_router \<times> pool_manager \<Rightarrow> v1_choice option \<times> pool_manager" where
  "active_provider mclk wall um =
     (case um of (u, m) \<Rightarrow>
        if ur_fallback_chain u \<noteq> []
        then (Some (Chosen_item (ur_fallback_chain u ! nat (max 0 (ur_fallback_index u) mod int (length (ur_fallback_chain u))))), m)
        else (case select_route mclk wall (ur_default_pool u) m of (r, m') \<Rightarrow> (map_option Chosen_route r, m')))"

end
