(* ===== verification/LegacyTheorems.thy ===== *)
theory LegacyTheorems
  imports LegacyRouter
begin

text \<open>
  Theorems on the V1 router: what a dispatch sends and where its answer comes from, what it does to the pool it
  was not called for, and that the scan of the fallback chain finds a usable entry whenever there is one.
\<close>

section \<open>Selection\<close>

lemma candidates_of_pool: "get_candidate_routes t w p m = (cs, m') \<Longrightarrow>
  set cs \<subseteq> set (pool_routes p m) \<and> pool_routes p m' = pool_routes p m"
  by (auto simp: get_candidate_routes_def Let_def expire_fields)

lemma relieve_routes [simp]: "pool_routes p (relieve_oldest q m) = pool_routes p m"
  by (simp add: relieve_oldest_def pool_routes_def split: option.split)

lemma relief_of_pool:
  assumes "candidates_with_relief t w p m = (cs, m')"
  shows "set cs \<subseteq> set (pool_routes p m) \<and> pool_routes p m' = pool_routes p m"
proof -
  obtain cs1 m1 where c: "get_candidate_routes t w p m = (cs1, m1)" by fastforce
  note c1 = candidates_of_pool [OF c]
  show ?thesis
  proof (cases "cs1 = [] \<and> filter (\<lambda>(k, _). fst k = lower p) (pm_cooldowns m1) \<noteq> []")
    case True
    with assms c have "get_candidate_routes t w p (relieve_oldest p m1) = (cs, m')"
      by (simp add: candidates_with_relief_def)
    from candidates_of_pool [OF this] c1 show ?thesis by simp
  next
    case False
    with assms c have "(cs1, m1) = (cs, m')" by (auto simp: candidates_with_relief_def)
    with c1 show ?thesis by simp
  qed
qed

lemma round_robin_routes: "round_robin p cs m = (r, m') \<Longrightarrow> pool_routes q m' = pool_routes q m"
  by (auto simp: round_robin_def Let_def pool_routes_def)

lemma select_of_pool:
  assumes "select_route t w p m = (sel, m')"
  shows "(case sel of None \<Rightarrow> True | Some r \<Rightarrow> r \<in> set (pool_routes p m)) \<and> pool_routes p m' = pool_routes p m"
proof -
  obtain cs m1 where c: "candidates_with_relief t w p m = (cs, m1)" by fastforce
  have "pool_routes p m' = pool_routes p m1"
    using assms
    by (auto dest: round_robin_routes simp: select_route_def c split: if_splits option.splits prod.splits)
  with select_from [OF assms] relief_of_pool [OF c] c show ?thesis by (auto split: option.splits)
qed

section \<open>Penalties keep the route tables\<close>

lemma mark_routes [simp]:
  "pool_routes p (mark_cooldown t q i s m) = pool_routes p m"
  "pool_routes p (mark_quota_exhausted t q i s m) = pool_routes p m"
  "pool_routes p (mark_provider_quota_exhausted t q i s m) = pool_routes p m"
  "pool_routes p (mark_deprecated q i m) = pool_routes p m"
  "pool_routes p (record_route_success t q i m) = pool_routes p m"
  by (simp_all add: pool_routes_def mark_cooldown_def mark_quota_exhausted_def mark_provider_quota_exhausted_def
      mark_deprecated_def record_route_success_def)

lemma penalise_routes [simp]: "pool_routes p (v1_penalise cfg w q r reply c m) = pool_routes p m"
  by (cases reply) (simp add: v1_penalise_def)

lemma classify_routes [simp]: "pool_routes p (snd (classify_api_error env t e s h q i pr m)) = pool_routes p m"
  by (simp add: classify_api_error_def Let_def)

lemma after_cases:
  assumes "v1_after cfg w pool r (status, headers, body) payload m = (res, m')"
  obtains (answered) j where "status = 200" "v1_completion_of cfg w r body = Some j" "res = V1_done j r"
      "m' = record_route_success (vw_mono w) pool (ro_id r) m"
  | (failed) c n where "res \<noteq> V1_exhausted" "\<forall>j r. res \<noteq> V1_done j r"
      "n = snd (classify_api_error (vc_classifier cfg) (vw_wall w) (error_text (decoded_text cfg body))
             (Some (if status = 200 then 502 else status)) [] (Some pool) (Some (ro_id r)) (Some (ro_provider r)) m)"
      "m' = n \<or> m' = v1_penalise cfg w pool r (if status = 200 then 502 else status, headers, body) c n"
proof (cases "if status = 200 then v1_completion_of cfg w r body else None")
  case (Some j)
  with assms show thesis by (intro answered) (auto simp: v1_after_def split: if_splits)
next
  case None
  obtain c n where cn: "classify_api_error (vc_classifier cfg) (vw_wall w) (error_text (decoded_text cfg body))
      (Some (if status = 200 then 502 else status)) [] (Some pool) (Some (ro_id r)) (Some (ro_provider r)) m = (c, n)" by fastforce
  show thesis
    by (rule failed [of n c])
      (use assms in \<open>auto simp: v1_after_def None Let_def cn simp del: if_split split: sum.splits option.splits\<close>)
qed

lemma attempt_cases:
  assumes "v1_attempt cfg w pool payload m = (res, sent, m')"
  obtains (exhausted) "select_route (vw_mono w) (vw_wall w) pool m = (None, m')" "res = V1_exhausted" "sent = None"
  | (raised) r e where "select_route (vw_mono w) (vw_wall w) pool m = (Some r, m')" "res = V1_raised e" "sent = None"
  | (sent) r n p timeout where "select_route (vw_mono w) (vw_wall w) pool m = (Some r, n)" "sent = Some (r, p)"
      "v1_after cfg w pool r (v1_exchange cfg w p timeout) payload n = (res, m')"
proof (cases "select_route (vw_mono w) (vw_wall w) pool m")
  case (Pair s n)
  show thesis
  proof (cases s)
    case None
    with Pair assms show thesis by (intro exhausted) (auto simp: v1_attempt_def)
  next
    case (Some r)
    have unsent: thesis if "res = V1_raised e" "sent = None" "n = m'" for e
      using that Pair Some by (intro raised [of r e]) auto
    have exchanged: thesis if "v1_after cfg w pool r (v1_exchange cfg w p timeout) payload n = (res, m')" "sent = Some (r, p)" for p timeout
      using that Pair Some by (intro sent [of r n p timeout]) auto
    from assms show thesis
      unfolding v1_attempt_def Pair Some prod.case option.case
      by (auto split: sum.splits decoded.splits prod.splits intro: unsent exchanged)
  qed
qed

lemma attempt_routes:
  assumes "v1_attempt cfg w pool payload m = (res, sent, m')"
  shows "pool_routes pool m' = pool_routes pool m"
  using assms
proof (cases rule: attempt_cases)
  case (sent r n p timeout)
  obtain status headers body where e: "v1_exchange cfg w p timeout = (status, headers, body)" by (metis prod_cases3)
  from sent(3) have "pool_routes pool m' = pool_routes pool n"
    unfolding e by (cases rule: after_cases) auto
  with select_of_pool [OF sent(1)] show ?thesis by simp
qed (use select_of_pool in fastforce)+

section \<open>What a dispatch sends\<close>

text \<open>The answer \<open>j\<close> of route \<open>r\<close> was read from a response to the request \<open>p\<close>.\<close>

definition answered_by :: "v1_config \<Rightarrow> (nat \<Rightarrow> v1_world) \<Rightarrow> nat \<Rightarrow> json \<Rightarrow> route_definition \<Rightarrow> prepared_request \<Rightarrow> bool" where
  "answered_by cfg worlds k j r p =
     (\<exists>timeout headers body. v1_exchange cfg (worlds k) p timeout = (200, headers, body) \<and> v1_completion_of cfg (worlds k) r body = Some j)"

lemma attempt_sound:
  assumes "v1_attempt cfg (worlds k) pool payload m = (res, sent, m')"
  shows "(case sent of None \<Rightarrow> True | Some (r, p) \<Rightarrow> r \<in> set (pool_routes pool m))
    \<and> (case res of V1_done j r \<Rightarrow> \<exists>p. sent = Some (r, p) \<and> answered_by cfg worlds k j r p | _ \<Rightarrow> True)"
  using assms
proof (cases rule: attempt_cases)
  case (sent r n p timeout)
  obtain status headers body where e: "v1_exchange cfg (worlds k) p timeout = (status, headers, body)" by (metis prod_cases3)
  have "case res of V1_done j r' \<Rightarrow> r' = r \<and> answered_by cfg worlds k j r p | _ \<Rightarrow> True"
    using sent(3) unfolding e
    by (cases rule: after_cases) (use e in \<open>auto simp: answered_by_def split: v1_step_result.split\<close>)
  with select_of_pool [OF sent(1)] sent(2) show ?thesis by (auto split: v1_step_result.splits)
qed simp_all

lemma loop_sound:
  assumes "v1_loop cfg worlds pool n payload m = (out, sents, m')"
  shows "length sents \<le> n \<and> fst ` set sents \<subseteq> set (pool_routes pool m) \<and> pool_routes pool m' = pool_routes pool m
    \<and> (case out of V1_answer j r \<Rightarrow> \<exists>p k. k < n \<and> sents \<noteq> [] \<and> last sents = (r, p) \<and> answered_by cfg worlds k j r p | _ \<Rightarrow> True)"
  using assms
proof (induction n arbitrary: payload m out sents m')
  case (Suc n)
  obtain res sent m1 where a: "v1_attempt cfg (worlds n) pool payload m = (res, sent, m1)" by (metis prod_cases3)
  note a1 = attempt_sound [where worlds = worlds and k = n, OF a] attempt_routes [OF a]
  show ?case
  proof (cases res)
    case (V1_again payload')
    obtain out2 sents2 m2 where l: "v1_loop cfg worlds pool n payload' m1 = (out2, sents2, m2)" by (metis prod_cases3)
    have "out = out2" "m' = m2" "sents = (case sent of None \<Rightarrow> [] | Some s \<Rightarrow> [s]) @ sents2"
      using Suc.prems by (simp_all add: a V1_again l)
    with Suc.IH [OF l] a1 show ?thesis
      by (auto split: option.splits v1_outcome.splits intro: less_SucI)
  qed (use Suc.prems a a1 in \<open>auto split: option.splits\<close>)
qed simp

text \<open>A sample world that answers every request with the same status and body.\<close>

definition sample_v1_config :: v1_config where
  "sample_v1_config = \<lparr>vc_fr = (\<lambda>r. ''0.7''), vc_allow_local = False, vc_urlparse = (\<lambda>u. Some (''https'', Some ''api.groq.com'')),
     vc_ignore = id, vc_classifier = sample_classifier_env, vc_default_timeout = 120\<rparr>"

definition sample_v1_world :: "int \<Rightarrow> string \<Rightarrow> v1_world" where
  "sample_v1_world status body = \<lparr>vw_mono = 0, vw_wall = 0, vw_uuid = ''u'', vw_call_uuid = (\<lambda>i. ''c''),
     vw_net = (\<lambda>p timeout. if status = 200 then Responded status [] body else Http_error status [] (Some body)), vw_refusal = (\<lambda>e. [])\<rparr>"

definition sample_v1_pools :: pool_manager where
  "sample_v1_pools = new_pool_manager None [(''NVIDIA_API_KEY'', ''n''), (''GROQ_API_KEY'', ''k'')]"

definition sample_v1_run :: "int \<Rightarrow> string \<Rightarrow> v1_outcome \<times> (route_definition \<times> prepared_request) list \<times> pool_manager" where
  "sample_v1_run status body =
     v1_loop sample_v1_config (\<lambda>k. sample_v1_world status body) ''general_agent'' 1 (JObj [(''messages'', JArr [])]) sample_v1_pools"

text \<open>
  C34: A dispatch sends at most \<open>max_attempts\<close> requests, each to a route of the pool it was called for.  Status 200
  comes with a route only if the last request went to that route, was answered with status 200, and its body gave
  the completion that is returned.  Every other return is 503 with no route.
\<close>

theorem v1_dispatch_sound:
  assumes "v1_loop cfg worlds pool max_attempts payload m = (out, sents, m')"
  shows "length sents \<le> max_attempts \<and> (\<forall>(r, p) \<in> set sents. r \<in> set (pool_routes pool m))
    \<and> snd (v1_dispatch cfg worlds pool payload max_attempts m) = m'
    \<and> (case fst (v1_dispatch cfg worlds pool payload max_attempts m) of
         Inl e \<Rightarrow> True
       | Inr (status, j, None) \<Rightarrow> status = 503
       | Inr (status, j, Some r) \<Rightarrow>
           status = 200 \<and> sents \<noteq> [] \<and> fst (last sents) = r
           \<and> (\<exists>k < max_attempts. \<exists>timeout headers body. v1_exchange cfg (worlds k) (snd (last sents)) timeout = (200, headers, body)
                \<and> v1_completion_of cfg (worlds k) r body = Some j))"
  using loop_sound [OF assms]
  by (cases out) (fastforce simp: v1_dispatch_def assms answered_by_def)+

theorem v1_dispatch_sound_witness:
  "length (fst (snd (sample_v1_run 200 ''{}''))) \<le> 1
   \<and> (\<exists>timeout headers body.
        v1_exchange sample_v1_config (sample_v1_world 200 ''{}'') (snd (last (fst (snd (sample_v1_run 200 ''{}''))))) timeout = (200, headers, body)
        \<and> v1_completion_of sample_v1_config (sample_v1_world 200 ''{}'') (DEFAULT_AGENT_ROUTES ! 0) body = Some (JObj []))"
proof -
  obtain out sents m' where run: "sample_v1_run 200 ''{}'' = (out, sents, m')" by (metis prod_cases3)
  have "fst (v1_dispatch sample_v1_config (\<lambda>k. sample_v1_world 200 ''{}'') ''general_agent'' (JObj [(''messages'', JArr [])]) 1 sample_v1_pools)
      = Inr (200, JObj [], Some (DEFAULT_AGENT_ROUTES ! 0))" by code_simp
  with v1_dispatch_sound [OF run [unfolded sample_v1_run_def]] show ?thesis by (simp add: run)
qed

section \<open>The other pool\<close>

text \<open>What pool \<open>q\<close> sees, but for the lockouts of the accounts in \<open>accounts\<close>.\<close>

definition view_but :: "string set \<Rightarrow> time \<Rightarrow> string \<Rightarrow> pool_manager \<Rightarrow> pool_manager \<Rightarrow> bool" where
  "view_but accounts wall q m m' =
     (same_view wall q m (m'\<lparr>pm_account_lockouts := pm_account_lockouts m\<rparr>)
      \<and> (\<forall>x t. x \<notin> accounts \<longrightarrow> wall \<le> t \<longrightarrow>
           (t < dict_get (pm_account_lockouts m') x 0 \<longleftrightarrow> t < dict_get (pm_account_lockouts m) x 0)))"

lemma view_but_same: "same_view wall q m m' \<Longrightarrow> view_but accounts wall q m m'"
  by (auto simp: view_but_def same_view_def pool_routes_def)

lemma view_but_refl: "view_but accounts wall q m m"
  by (rule view_but_same [OF same_view_refl])

lemma view_but_trans: "view_but A wall q m m' \<Longrightarrow> view_but B wall q m' m'' \<Longrightarrow> view_but (A \<union> B) wall q m m''"
  by (cases "q = ''coding''") (auto simp: view_but_def same_view_def pool_routes_def)

text \<open>The accounts that a failure of route \<open>r\<close> may lock out.\<close>

definition blamed :: "route_definition \<Rightarrow> string set" where
  "blamed r = {lower (ro_provider r), lower (if ro_provider r = [] then provider_of_route (ro_id r) else ro_provider r)}"

lemma of_pool_mark_all:
  "lower p \<noteq> lower q \<Longrightarrow>
   of_pool q (foldl (\<lambda>d r. if P r then AList.update (pool_key p (ro_id r)) v d else d) d rs) = of_pool q d"
  by (induction rs arbitrary: d) (simp_all add: of_pool_update pool_key_def)

lemma lockout_view:
  "apart p q \<Longrightarrow> pool_wf m \<Longrightarrow> lower provider \<in> accounts \<Longrightarrow>
   view_but accounts wall q m (mark_provider_quota_exhausted t p provider s m) \<and> pool_wf (mark_provider_quota_exhausted t p provider s m)"
  by (auto simp: view_but_def same_view_def apart_def mark_provider_quota_exhausted_def pool_routes_def of_pool_mark_all
      pool_wf_def distinct_update dict_get_def)

lemma marks_view:
  assumes "apart p q" and "pool_wf m"
  shows "view_but A wall q m (mark_cooldown t p i s m)" and "pool_wf (mark_cooldown t p i s m)"
    and "view_but A wall q m (mark_quota_exhausted t p i s m)" and "pool_wf (mark_quota_exhausted t p i s m)"
    and "view_but A wall q m (mark_deprecated p i m)" and "pool_wf (mark_deprecated p i m)"
    and "view_but A wall q m (record_route_success t p i m)" and "pool_wf (record_route_success t p i m)"
  using assms
  by (auto intro!: view_but_same simp: apart_def same_view_def pool_wf_def pool_routes_def mark_cooldown_def pool_key_def
      mark_quota_exhausted_def mark_deprecated_def record_route_success_def of_pool_update)

lemma classify_view:
  assumes "apart p q" and "pool_wf m"
  shows "view_but (blamed r) wall q m (snd (classify_api_error env t e s h (Some p) (Some (ro_id r)) (Some (ro_provider r)) m))
    \<and> pool_wf (snd (classify_api_error env t e s h (Some p) (Some (ro_id r)) (Some (ro_provider r)) m))"
proof -
  let ?prov = "if truthy_str (Some (ro_provider r)) then ro_provider r else provider_of_route (ro_id r)"
  have b: "lower ?prov \<in> blamed r" by (simp add: blamed_def truthy_str_def)
  have two: "view_but (blamed r) wall q m (mark_provider_quota_exhausted t p ?prov x (mark_quota_exhausted t p (ro_id r) x m))
      \<and> pool_wf (mark_provider_quota_exhausted t p ?prov x (mark_quota_exhausted t p (ro_id r) x m))" for x
    using lockout_view [OF assms(1) marks_view(4) [OF assms] b] marks_view(3) [OF assms]
      view_but_trans [of "blamed r" wall q m "mark_quota_exhausted t p (ro_id r) x m" "blamed r"] by simp
  show ?thesis
    unfolding classify_api_error_def Let_def snd_conv option.sel
    using two marks_view [OF assms] assms(2) view_but_refl by simp
qed

lemma penalise_view:
  assumes "apart p q" and "pool_wf m"
  shows "view_but (blamed r) wall q m (v1_penalise cfg w p r reply c m) \<and> pool_wf (v1_penalise cfg w p r reply c m)"
  using lockout_view [OF assms, of "ro_provider r" "blamed r"] marks_view [OF assms] assms(2) view_but_refl
  by (cases reply) (simp add: v1_penalise_def blamed_def)

lemma attempt_view:
  assumes "apart pool q" and "pool_wf m" and "vw_wall w \<le> wall" and "0 \<le> wall"
    and "v1_attempt cfg w pool payload m = (res, sent, m')"
  shows "view_but (case sent of None \<Rightarrow> {} | Some (r, p) \<Rightarrow> blamed r) wall q m m' \<and> pool_wf m'"
  using assms(5)
proof (cases rule: attempt_cases)
  case (sent r n p timeout)
  have v: "view_but {} wall q m n" "pool_wf n"
    using select_view [OF assms(1-4), of "vw_mono w"] sent(1) by (auto intro: view_but_same)
  obtain status headers body where e: "v1_exchange cfg w p timeout = (status, headers, body)" by (metis prod_cases3)
  have "view_but (blamed r) wall q n m' \<and> pool_wf m'"
    using sent(3) unfolding e
  proof (cases rule: after_cases)
    case (answered j)
    with marks_view [OF assms(1) v(2)] show ?thesis by simp
  next
    case (failed c n')
    note n' = classify_view [OF assms(1) v(2), of r wall, folded failed(3)]
    from failed(4) show ?thesis
      using n' failed(3) penalise_view [OF assms(1), of n'] view_but_trans [of "blamed r" wall q n n' "blamed r"]
        classify_view [OF assms(1) v(2)] by (metis Un_absorb)
  qed
  with view_but_trans [OF v(1), of "blamed r" m'] sent(2) show ?thesis by simp
qed (use select_view [OF assms(1-4), of "vw_mono w"] in \<open>auto intro: view_but_same\<close>)

lemma loop_view:
  assumes "apart pool q" and "\<And>k. vw_wall (worlds k) \<le> wall" and "0 \<le> wall" and "pool_wf m"
    and "v1_loop cfg worlds pool n payload m = (out, sents, m')"
  shows "view_but (\<Union>(r, p) \<in> set sents. blamed r) wall q m m' \<and> pool_wf m'"
  using assms(4,5)
proof (induction n arbitrary: payload m out sents m')
  case (Suc n)
  obtain res sent m1 where a: "v1_attempt cfg (worlds n) pool payload m = (res, sent, m1)" by (metis prod_cases3)
  note v = attempt_view [OF assms(1) Suc.prems(1) assms(2,3) a]
  show ?case
  proof (cases res)
    case (V1_again payload')
    obtain out2 sents2 m2 where l: "v1_loop cfg worlds pool n payload' m1 = (out2, sents2, m2)" by (metis prod_cases3)
    have e: "m' = m2" "sents = (case sent of None \<Rightarrow> [] | Some s \<Rightarrow> [s]) @ sents2"
      using Suc.prems by (simp_all add: a V1_again l)
    from view_but_trans [OF conjunct1 [OF v] conjunct1 [OF Suc.IH [OF conjunct2 [OF v] l]]] Suc.IH [OF conjunct2 [OF v] l] e
    show ?thesis by (auto split: option.splits)
  qed (use Suc.prems a v in \<open>auto split: option.splits\<close>)
qed (simp add: view_but_refl)

lemma view_but_candidate:
  assumes "view_but A wall q m m'" and "lower (ro_provider r) \<notin> A" and "wall \<le> w"
  shows "route_candidate t w q m' r = route_candidate t w q m r"
proof -
  have "of_pool q (pm_cooldowns m') = of_pool q (pm_cooldowns m)" "of_pool q (pm_exhausted_quotas m') = of_pool q (pm_exhausted_quotas m)"
    using assms(1) by (simp_all add: view_but_def same_view_def)
  note c = cooldown_cong [OF this(1)] of_pool_dict_get [OF this(2)]
  from assms show ?thesis
    by (simp add: route_candidate_def c route_enabled_def is_route_quota_exhausted_def pool_key_def is_provider_quota_exhausted_def
        view_but_def same_view_def has_key_for_def)
qed

text \<open>
  C35: A dispatch on one pool leaves the other alone: it offers the same routes in the same order, and a route of it is a candidate
  at any later time exactly if it would have been without the dispatch, unless the account of its provider was
  locked out by a failure of one of the routes that were used.
\<close>

theorem v1_dispatch_isolated:
  assumes "apart pool q" and "pool_wf m" and "\<And>k. vw_wall (worlds k) \<le> wall" and "0 \<le> wall" and "wall \<le> w"
    and "v1_loop cfg worlds pool max_attempts payload m = (out, sents, m')"
    and "\<forall>(s, p) \<in> set sents. lower (ro_provider r) \<notin> blamed s"
  shows "pool_routes q m' = pool_routes q m \<and> route_candidate t w q m' r = route_candidate t w q m r"
proof -
  have v: "view_but (\<Union>(r, p) \<in> set sents. blamed r) wall q m m'"
    using loop_view [OF assms(1,3,4,2,6)] by simp
  from view_but_candidate [OF v _ assms(5), of r t] assms(7) have "route_candidate t w q m' r = route_candidate t w q m r" by auto
  with v show ?thesis by (auto simp: view_but_def same_view_def pool_routes_def)
qed

theorem v1_dispatch_isolated_witness:
  "route_candidate 5 5 ''coding'' (snd (snd (sample_v1_run 500 ''down''))) (DEFAULT_CODING_ROUTES ! 0)"
proof -
  obtain out sents m' where run: "sample_v1_run 500 ''down'' = (out, sents, m')" by (metis prod_cases3)
  have "apart ''general_agent'' ''coding''" "pool_wf sample_v1_pools" by code_simp+
  moreover have "map (\<lambda>x. ro_provider (fst x)) (fst (snd (sample_v1_run 500 ''down''))) = [''nvidia'']" by code_simp
  then have "\<forall>(s, p) \<in> set sents. ro_provider s = ''nvidia''" using run by auto
  then have "\<forall>(s, p) \<in> set sents. lower (ro_provider (DEFAULT_CODING_ROUTES ! 0)) \<notin> blamed s"
    by (auto simp: blamed_def DEFAULT_CODING_ROUTES_def cloud_route_def lower_def GROQ_def)
  moreover have "vw_wall (sample_v1_world 500 ''down'') \<le> 0" by (simp add: sample_v1_world_def)
  ultimately have "route_candidate 5 5 ''coding'' m' (DEFAULT_CODING_ROUTES ! 0)
      = route_candidate 5 5 ''coding'' sample_v1_pools (DEFAULT_CODING_ROUTES ! 0)"
    using v1_dispatch_isolated [OF _ _ _ order_refl _ run [unfolded sample_v1_run_def]] by simp
  also have "\<dots>" by code_simp
  finally show ?thesis by (simp add: run)
qed

section \<open>The fallback chain\<close>

lemma usable_index [simp]: "item_usable t (u\<lparr>ur_fallback_index := i\<rparr>) c = item_usable t u c"
  by (simp add: item_usable_def Let_def)

lemma scan_sound: "scan_chain clock n u = (Some c, u') \<Longrightarrow> ur_fallback_chain u \<noteq> [] \<Longrightarrow>
  c \<in> set (ur_fallback_chain u) \<and> (\<exists>k < n. item_usable (clock k) u c)"
proof (induction n arbitrary: u)
  case (Suc n)
  let ?i = "(ur_fallback_index u + 1) mod int (length (ur_fallback_chain u))"
  have i: "nat ?i < length (ur_fallback_chain u)" using Suc.prems(2) by (simp add: nat_less_iff)
  show ?case
  proof (cases "item_usable (clock n) u (ur_fallback_chain u ! nat ?i)")
    case True
    with Suc.prems i show ?thesis by (auto simp: Let_def)
  next
    case False
    with Suc.prems have "scan_chain clock n (u\<lparr>ur_fallback_index := ?i\<rparr>) = (Some c, u')" by (simp add: Let_def)
    from Suc.IH [OF this] Suc.prems(2) show ?thesis by (auto intro: less_SucI)
  qed
qed simp

lemma scan_none:
  assumes "scan_chain clock n u = (None, u')" and "ur_fallback_chain u \<noteq> []" and "k < n"
  shows "\<not> item_usable (clock (n - Suc k)) u
      (ur_fallback_chain u ! nat ((ur_fallback_index u + 1 + int k) mod int (length (ur_fallback_chain u))))"
  using assms
proof (induction n arbitrary: u k)
  case (Suc n)
  let ?l = "int (length (ur_fallback_chain u))"
  let ?i = "(ur_fallback_index u + 1) mod ?l"
  have no: "\<not> item_usable (clock n) u (ur_fallback_chain u ! nat ?i)"
    and rest: "scan_chain clock n (u\<lparr>ur_fallback_index := ?i\<rparr>) = (None, u')"
    using Suc.prems(1) by (auto simp: Let_def split: if_splits)
  show ?case
  proof (cases k)
    case (Suc k')
    have "(?i + 1 + int k') mod ?l = (ur_fallback_index u + 1 + int k) mod ?l"
      using Suc by (metis (no_types, lifting) add.assoc mod_add_left_eq of_nat_Suc)
    with Suc.IH [OF rest, of k'] Suc Suc.prems show ?thesis by simp
  qed (use no in simp)
qed simp

text \<open>
  The scan of the fallback chain returns an entry that is allowed, has not failed authentication, is not deprecated and is not cooling
  down; and if an entry is usable at every reading of the clock, the scan does not fall through to the pools.
\<close>

theorem fallback_scan_finds:
  assumes "c \<in> set (ur_fallback_chain u)" and "\<And>k. item_usable (clock k) u c"
  shows "\<exists>c' u'. get_next_available_route clock mclk wall pool (u, m) = (Some (Chosen_item c'), u', m)
    \<and> c' \<in> set (ur_fallback_chain u) \<and> (\<exists>k. item_usable (clock k) u c')"
proof -
  let ?n = "2 * length (ur_fallback_chain u)" and ?l = "int (length (ur_fallback_chain u))"
  have ne: "ur_fallback_chain u \<noteq> []" using assms(1) by auto
  then have l: "?l > 0" by simp
  obtain j where j: "j < length (ur_fallback_chain u)" "ur_fallback_chain u ! j = c" using assms(1) by (auto simp: in_set_conv_nth)
  define k where "k = nat ((int j - (ur_fallback_index u + 1)) mod ?l)"
  have "int k < ?l" using l by (simp add: k_def)
  then have k: "k < ?n" "(ur_fallback_index u + 1 + int k) mod ?l = int j"
    using l j(1) by (linarith, simp add: k_def mod_add_right_eq)
  obtain r u' where s: "scan_chain clock ?n u = (r, u')" by fastforce
  with scan_none [OF _ ne k(1), of clock u'] k(2) assms(2) j have "r \<noteq> None" by auto
  with s scan_sound [OF _ ne, of clock ?n _ u'] ne show ?thesis
    by (auto simp: get_next_available_route_def)
qed

end
