(* ===== verification/Accelerator.thy ===== *)
theory Accelerator
  imports Prelude "HOL-Library.Word"
begin

text \<open>
  \<^verbatim>\<open>performance/accelerator.py\<close>: the relay of raw SSE frames, the token estimators and the ring buffer of call
  outcomes.  A generator is consumed to its end; the 8-byte and 4-byte floats of the ring buffer are rationals.

  Theorems: the relay loses and reorders nothing, and for streams without carriage returns its frames do not depend on
  the network chunks (\<open>relay_lossless\<close>); for mixed line ends they do (\<open>relay_mixed_line_ends\<close>).  The ring buffer with its
  bit mask reports exactly the latest calls that are young enough (\<open>fast_window_refines\<close>).
\<close>

unbundle bit_operations_syntax

section \<open>The stream relay\<close>

record stream_relay =
  fr_buffer :: string
  fr_check_errors :: bool
  fr_bytes_relayed :: nat
  fr_frames_relayed :: nat

definition new_stream_relay :: "bool \<Rightarrow> stream_relay" where
  "new_stream_relay check = \<lparr>fr_buffer = [], fr_check_errors = check, fr_bytes_relayed = 0, fr_frames_relayed = 0\<rparr>"

text \<open>\<open>bytearray.find\<close>: the first position of a non-empty pattern.\<close>

fun find_sub :: "string \<Rightarrow> string \<Rightarrow> nat option" where
  "find_sub sub [] = (if sub = [] then Some 0 else None)"
| "find_sub sub (c # cs) = (if startswith (c # cs) sub then Some 0 else map_option Suc (find_sub sub cs))"

definition LF :: char where
  "LF = CHR 0x0A"

definition CR :: char where
  "CR = CHR 0x0D"

text \<open>The end of the next frame.\<close>

definition frame_end :: "string \<Rightarrow> nat option" where
  "frame_end buf =
     (case find_sub [LF, LF] buf of
        Some i \<Rightarrow> Some (i + 2)
      | None \<Rightarrow> (case find_sub [CR, LF, CR, LF] buf of Some i \<Rightarrow> Some (i + 4) | None \<Rightarrow> None))"

lemma startswith_iff: "startswith s p \<longleftrightarrow> (\<exists>t. s = p @ t)"
  unfolding startswith_def by (metis append_eq_conv_conj append_take_drop_id)

lemma find_sub_bound: "find_sub sub buf = Some i \<Longrightarrow> i + length sub \<le> length buf"
proof (induction sub buf arbitrary: i rule: find_sub.induct)
  case (2 sub c cs)
  then show ?case by (auto simp: startswith_iff split: if_splits dest: arg_cong [where f = length])
qed (auto split: if_splits)

lemma frame_end_bound: "frame_end buf = Some e \<Longrightarrow> 2 \<le> e \<and> e \<le> length buf"
  by (auto simp: frame_end_def split: option.splits dest!: find_sub_bound)

text \<open>The loop: complete frames and what is left.\<close>

function relay_frames :: "string \<Rightarrow> string list \<times> string" where
  "relay_frames buf =
     (case frame_end buf of
        None \<Rightarrow> ([], buf)
      | Some e \<Rightarrow> (case relay_frames (drop e buf) of (frames, rest) \<Rightarrow> (take e buf # frames, rest)))"
  by pat_completeness auto
termination
  by (relation "measure length") (use frame_end_bound in fastforce)+

declare relay_frames.simps [simp del]

definition relay_feed :: "string \<Rightarrow> stream_relay \<Rightarrow> string list \<times> stream_relay" where
  "relay_feed chunk r =
     (if chunk = [] then ([], r)
      else case relay_frames (fr_buffer r @ chunk) of
             (frames, rest) \<Rightarrow>
               (frames, r\<lparr>fr_buffer := rest, fr_bytes_relayed := fr_bytes_relayed r + length chunk,
                          fr_frames_relayed := fr_frames_relayed r + length frames\<rparr>))"

definition relay_flush :: "stream_relay \<Rightarrow> string option \<times> stream_relay" where
  "relay_flush r =
     (if fr_buffer r = [] then (None, r)
      else (Some (fr_buffer r), r\<lparr>fr_buffer := [], fr_frames_relayed := fr_frames_relayed r + 1\<rparr>))"

definition detect_stream_error :: "string \<Rightarrow> stream_relay \<Rightarrow> bool" where
  "detect_stream_error frame r =
     (fr_check_errors r
      \<and> (contains frame ([CHR 0x22] @ ''error'' @ [CHR 0x22] @ '':'') \<or> contains frame ([CHR 0x22] @ ''statusCode'' @ [CHR 0x22] @ '':'')
         \<or> contains frame ([CHR 0x22] @ ''type'' @ [CHR 0x22] @ '':'' @ [CHR 0x22] @ ''error'' @ [CHR 0x22])))"

text \<open>A stream of chunks.\<close>

fun relay_run :: "string list \<Rightarrow> stream_relay \<Rightarrow> string list \<times> stream_relay" where
  "relay_run [] r = ([], r)"
| "relay_run (c # cs) r =
     (case relay_feed c r of (frames, r') \<Rightarrow> (case relay_run cs r' of (more_frames, r'') \<Rightarrow> (frames @ more_frames, r'')))"

section \<open>Token estimates\<close>

definition PUNCT :: string where
  "PUNCT = ''{}[]():;,.'' @ [CHR 0x22, CHR 0x27, CHR 0x5C] @ ''/<>!@#$%^&*+-=|~'' @ [CHR 0x60] @ ''?''"

definition BLANKS :: string where
  "BLANKS = [CHR 0x20, CHR 0x09, CHR 0x0A, CHR 0x0D]"

definition fast_text_tokens :: "string \<Rightarrow> nat" where
  "fast_text_tokens s =
     (let n = length s in
      if s = [] then 0
      else if n \<le> 4 then 1
      else
        let sample_len = min n 256; sample = take sample_len s;
            space_count = length (filter (\<lambda>c. c \<in> set BLANKS) sample);
            punct_count = length (filter (\<lambda>c. c \<notin> set BLANKS \<and> c \<in> set PUNCT) sample)
        in if (of_nat punct_count / of_nat sample_len :: rat) > 12 / 100 then max 1 (n * 10 div 32)
           else if (of_nat space_count / of_nat sample_len :: rat) > 20 / 100 then max 1 (drop_bit 2 n)
           else max 1 (n * 10 div 37))"

definition fast_bytes_tokens :: "string \<Rightarrow> nat" where
  "fast_bytes_tokens data =
     (let n = length data in if n \<le> 4 then (if n > 0 then 1 else 0) else max 1 (n * 10 div 38))"

section \<open>The ring buffer\<close>

function round_up :: "int \<Rightarrow> int \<Rightarrow> int" where
  "round_up capacity pw = (if pw < capacity \<and> 0 < pw then round_up capacity (push_bit 1 pw) else pw)"
  by pat_completeness auto
termination
  by (relation "measure (\<lambda>(capacity, pw). nat (capacity - pw))") (auto simp: push_bit_eq_mult)

declare round_up.simps [simp del]

record fast_window =
  fw_capacity :: int
  fw_mask :: int
  fw_duration :: rat
  fw_head :: int
  fw_count :: int
  fw_timestamps :: "rat list"
  fw_outcomes :: "nat list"
  fw_durations :: "rat list"

definition new_fast_window :: "int \<Rightarrow> rat \<Rightarrow> fast_window" where
  "new_fast_window capacity duration =
     (let pw = round_up capacity 1 in
      \<lparr>fw_capacity = pw, fw_mask = pw - 1, fw_duration = duration, fw_head = 0, fw_count = 0,
       fw_timestamps = replicate (nat pw) 0, fw_outcomes = replicate (nat pw) 0, fw_durations = replicate (nat pw) 0\<rparr>)"

definition fw_record :: "fast_window \<Rightarrow> rat \<times> bool \<times> rat \<Rightarrow> fast_window" where
  "fw_record w e =
     (case e of (now, success, duration_ms) \<Rightarrow>
        let idx = nat (fw_head w AND fw_mask w) in
        w\<lparr>fw_timestamps := (fw_timestamps w)[idx := now], fw_outcomes := (fw_outcomes w)[idx := if success then 1 else 0],
          fw_durations := (fw_durations w)[idx := duration_ms], fw_head := fw_head w + 1,
          fw_count := (if fw_count w < fw_capacity w then fw_count w + 1 else fw_count w)\<rparr>)"

record window_report =
  wr_total :: nat
  wr_successful :: nat
  wr_failed :: nat
  wr_failure_rate :: rat
  wr_avg_latency :: rat

text \<open>The backward scan with its break.\<close>

fun scan_back :: "fast_window \<Rightarrow> rat \<Rightarrow> nat list \<Rightarrow> nat \<times> nat \<times> nat \<times> rat \<Rightarrow> nat \<times> nat \<times> nat \<times> rat" where
  "scan_back w cutoff [] acc = acc"
| "scan_back w cutoff (i # rest) (calls, successful, failed, duration) =
     (let idx = nat ((fw_head w - 1 - int i) AND fw_mask w) in
      if fw_timestamps w ! idx < cutoff then (calls, successful, failed, duration)
      else scan_back w cutoff rest
             (calls + 1, if fw_outcomes w ! idx = 1 then successful + 1 else successful,
              if fw_outcomes w ! idx = 1 then failed else failed + 1, duration + fw_durations w ! idx))"

definition report_of :: "nat \<times> nat \<times> nat \<times> rat \<Rightarrow> window_report" where
  "report_of acc =
     (case acc of (calls, successful, failed, duration) \<Rightarrow>
        \<lparr>wr_total = calls, wr_successful = successful, wr_failed = failed,
         wr_failure_rate = (if calls > 0 then of_nat failed / of_nat calls * 100 else 0),
         wr_avg_latency = (if calls > 0 then duration / of_nat calls else 0)\<rparr>)"

definition fw_snapshot :: "rat \<Rightarrow> fast_window \<Rightarrow> window_report" where
  "fw_snapshot now w = report_of (scan_back w (now - fw_duration w) [0..<nat (fw_count w)] (0, 0, 0, 0))"

section \<open>Relay lemmas\<close>

lemma frames_concat: "relay_frames buf = (fs, rest) \<Longrightarrow> concat fs @ rest = buf"
proof (induction buf arbitrary: fs rest rule: relay_frames.induct)
  case (1 buf)
  show ?case
  proof (cases "frame_end buf")
    case (Some e)
    obtain gs r where g: "relay_frames (drop e buf) = (gs, r)" by fastforce
    with 1 Some have "concat gs @ r = drop e buf" "fs = take e buf # gs" "rest = r" by (simp_all add: relay_frames.simps [of buf])
    then show ?thesis by simp
  qed (use 1 in \<open>simp add: relay_frames.simps [of buf]\<close>)
qed

lemma feed_concat: "relay_feed c r = (fs, r') \<Longrightarrow>
  concat fs @ fr_buffer r' = fr_buffer r @ c \<and> fr_bytes_relayed r' = fr_bytes_relayed r + length c
  \<and> fr_frames_relayed r' = fr_frames_relayed r + length fs"
  by (auto simp: relay_feed_def split: if_splits prod.splits dest!: frames_concat)

lemma run_concat: "relay_run cs r = (fs, r') \<Longrightarrow>
  concat fs @ fr_buffer r' = fr_buffer r @ concat cs \<and> fr_bytes_relayed r' = fr_bytes_relayed r + length (concat cs)
  \<and> fr_frames_relayed r' = fr_frames_relayed r + length fs"
proof (induction cs arbitrary: r fs)
  case (Cons c cs)
  obtain f1 r1 where f: "relay_feed c r = (f1, r1)" by fastforce
  obtain f2 r2 where g: "relay_run cs r1 = (f2, r2)" by fastforce
  from Cons.prems f g have e: "fs = f1 @ f2" "r' = r2" by auto
  with Cons.IH g feed_concat [OF f] have "concat f2 @ fr_buffer r' = fr_buffer r1 @ concat cs" by simp
  with feed_concat [OF f] Cons.IH g e show ?case by (metis add.assoc append.assoc concat.simps(2) concat_append length_append)
qed simp

text \<open>Without carriage returns a frame once complete stays the same.\<close>

lemma find_sub_extend: "find_sub sub buf = Some i \<Longrightarrow> sub \<noteq> [] \<Longrightarrow> find_sub sub (buf @ c) = Some i"
proof (induction sub buf arbitrary: i rule: find_sub.induct)
  case (2 sub d ds)
  show ?case
  proof (cases "startswith (d # ds) sub")
    case True
    then have "startswith (d # ds @ c) sub" by (metis append.assoc append_Cons startswith_iff)
    with True 2 show ?thesis by simp
  next
    case False
    with 2 obtain j where j: "find_sub sub ds = Some j" "i = Suc j" by auto
    have "length sub \<le> length ds" using find_sub_bound [OF j(1)] by simp
    then have "take (length sub) (d # ds @ c) = take (length sub) (d # ds)" using take_append [of "length sub" "d # ds" c] by simp
    with False have "\<not> startswith (d # ds @ c) sub" by (simp add: startswith_def)
    with j 2 False show ?thesis by simp
  qed
qed simp

lemma find_sub_absent: "x \<in> set sub \<Longrightarrow> x \<notin> set buf \<Longrightarrow> find_sub sub buf = None"
  by (induction sub buf rule: find_sub.induct) (auto simp: startswith_iff append_eq_Cons_conv Cons_eq_append_conv)

lemma frame_end_extend: "frame_end buf = Some e \<Longrightarrow> CR \<notin> set buf \<Longrightarrow> frame_end (buf @ c) = Some e"
  using find_sub_absent [of CR "[CR, LF, CR, LF]" buf]
  by (auto simp: frame_end_def find_sub_extend split: option.splits)

lemma frames_extend:
  "relay_frames buf = (fs, rest) \<Longrightarrow> CR \<notin> set buf \<Longrightarrow>
   relay_frames (buf @ c) = (case relay_frames (rest @ c) of (gs, r) \<Rightarrow> (fs @ gs, r))"
proof (induction buf arbitrary: fs rest rule: relay_frames.induct)
  case (1 buf)
  show ?case
  proof (cases "frame_end buf")
    case None
    with 1 show ?thesis by (simp add: relay_frames.simps [of buf])
  next
    case (Some e)
    obtain gs r where g: "relay_frames (drop e buf) = (gs, r)" by fastforce
    with 1 Some have fs: "fs = take e buf # gs" "rest = r" by (simp_all add: relay_frames.simps [of buf])
    have "CR \<notin> set (drop e buf)" using 1(3) by (auto dest: in_set_dropD)
    from 1(1) [OF Some g this] have "relay_frames (drop e buf @ c) = (case relay_frames (r @ c) of (hs, q) \<Rightarrow> (gs @ hs, q))" .
    with Some fs frame_end_bound [OF Some] frame_end_extend [OF Some 1(3), of c] show ?thesis
      by (simp add: relay_frames.simps [of "buf @ c"] split: prod.split)
  qed
qed

lemma run_frames: "CR \<notin> set (fr_buffer r @ concat cs) \<Longrightarrow> relay_frames (fr_buffer r) = ([], fr_buffer r) \<Longrightarrow>
  relay_run cs r = (fs, r') \<Longrightarrow> relay_frames (fr_buffer r @ concat cs) = (fs, fr_buffer r')"
proof (induction cs arbitrary: r fs r')
  case (Cons c cs)
  obtain f1 r1 where f: "relay_feed c r = (f1, r1)" by fastforce
  obtain f2 r2 where g: "relay_run cs r1 = (f2, r2)" by fastforce
  from Cons.prems f g have e: "fs = f1 @ f2" "r' = r2" by auto
  have h: "relay_frames (fr_buffer r @ c) = (f1, fr_buffer r1)"
    using f Cons.prems(2) by (auto simp: relay_feed_def split: if_splits prod.splits)
  have "set (fr_buffer r1) \<subseteq> set (fr_buffer r @ c)" using frames_concat [OF h] by (metis Un_upper2 set_append)
  then have cr: "CR \<notin> set (fr_buffer r @ c)" "CR \<notin> set (fr_buffer r1 @ concat cs)"
    using Cons.prems(1) by auto
  from frames_extend [OF h cr(1), of "[]"] have "relay_frames (fr_buffer r1) = ([], fr_buffer r1)"
    by (auto simp: h split: prod.splits)
  from Cons.IH [OF cr(2) this g] frames_extend [OF h cr(1), of "concat cs"] show ?case by (simp add: e)
qed simp

lemma frames_nil: "relay_frames [] = ([], [])"
  by (simp add: relay_frames.simps [of "[]"] frame_end_def)

text \<open>
  The relay hands on exactly the bytes it was given, in order: the frames, followed by what a flush returns, are the chunks
  put together, and the counters agree with them.  In a stream without carriage returns the frames are those of
  the whole stream, however the network has cut it.
\<close>

theorem relay_lossless:
  assumes "relay_run chunks (new_stream_relay check) = (frames, r)"
  shows "concat frames @ (case fst (relay_flush r) of None \<Rightarrow> [] | Some rest \<Rightarrow> rest) = concat chunks
    \<and> fr_bytes_relayed r = length (concat chunks) \<and> fr_frames_relayed r = length frames
    \<and> (CR \<notin> set (concat chunks) \<longrightarrow> frames = fst (relay_run [concat chunks] (new_stream_relay check)))"
proof -
  have "frames = fst (relay_run [concat chunks] (new_stream_relay check))" if "CR \<notin> set (concat chunks)"
    using run_frames [OF _ _ assms] that frames_nil
    by (cases "concat chunks = []") (auto simp: new_stream_relay_def relay_feed_def simp del: concat_eq_Nil_conv split: prod.split)
  with run_concat [OF assms] show ?thesis by (auto simp: new_stream_relay_def relay_flush_def)
qed

theorem relay_lossless_witness:
  "relay_run [''a'' @ [LF], [LF] @ ''b''] (new_stream_relay True) = ([''a'' @ [LF, LF]], \<lparr>fr_buffer = ''b'', fr_check_errors = True,
      fr_bytes_relayed = 4, fr_frames_relayed = 1\<rparr>)
   \<and> [''a'' @ [LF, LF]] = fst (relay_run [''a'' @ [LF, LF] @ ''b''] (new_stream_relay True))"
proof -
  have "relay_run [''a'' @ [LF], [LF] @ ''b''] (new_stream_relay True) = ([''a'' @ [LF, LF]], \<lparr>fr_buffer = ''b'', fr_check_errors = True,
      fr_bytes_relayed = 4, fr_frames_relayed = 1\<rparr>)" by code_simp
  moreover have "CR \<notin> set (concat [''a'' @ [LF], [LF] @ ''b''])" by code_simp
  ultimately show ?thesis using relay_lossless [of "[''a'' @ [LF], [LF] @ ''b'']" True] by simp
qed

text \<open>With mixed line ends the frames depend on the chunks: two events may be handed on as one.\<close>

theorem relay_mixed_line_ends:
  "let one = ''a'' @ [CR, LF, CR, LF]; two = ''b'' @ [LF, LF] in
   fst (relay_run [one, two] (new_stream_relay True)) = [one, two]
   \<and> fst (relay_run [one @ two] (new_stream_relay True)) = [one @ two]"
  by code_simp

section \<open>Estimates\<close>

theorem text_estimate_bounds:
  assumes "s \<noteq> []"
  shows "1 \<le> fast_text_tokens s \<and> fast_text_tokens s \<le> length s"
proof -
  let ?n = "length s"
  have r: "max 1 (?n * 10 div 32) \<in> {1..?n}" "max 1 (drop_bit 2 ?n) \<in> {1..?n}" "max 1 (?n * 10 div 37) \<in> {1..?n}" "(1 :: nat) \<in> {1..?n}"
    using assms by (auto simp: drop_bit_eq_div Suc_le_eq)
  have "fast_text_tokens s \<in> {1..?n}"
    unfolding fast_text_tokens_def Let_def by (simp only: assms r if_False simp_thms split: if_split)
  then show ?thesis by simp
qed

section \<open>The ring buffer as a list\<close>

lemma round_up_power: "0 < pw \<Longrightarrow> \<exists>k. round_up capacity pw = pw * 2 ^ k"
proof (induction capacity pw rule: round_up.induct)
  case (1 capacity pw)
  show ?case
  proof (cases "pw < capacity")
    case True
    with 1 obtain k where "round_up capacity (push_bit 1 pw) = push_bit 1 pw * 2 ^ k" by (auto simp: push_bit_eq_mult)
    with True 1(2) show ?thesis by (intro exI [of _ "Suc k"]) (simp add: round_up.simps [of capacity pw] push_bit_eq_mult)
  next
    case False
    then show ?thesis by (intro exI [of _ 0]) (simp add: round_up.simps [of capacity pw])
  qed
qed

lemma round_up_covers: "0 < pw \<Longrightarrow> capacity \<le> round_up capacity pw"
  by (induction capacity pw rule: round_up.induct) (subst round_up.simps, auto simp: push_bit_eq_mult)

lemma mask_mod: "(x :: int) AND (2 ^ k - 1) = x mod 2 ^ k"
  by (metis mask_eq_exp_minus_1 take_bit_eq_mask take_bit_eq_mod)

text \<open>The buffer holds the latest calls of \<open>es\<close>.\<close>

definition ring :: "nat \<Rightarrow> (rat \<times> bool \<times> rat) list \<Rightarrow> fast_window \<Rightarrow> bool" where
  "ring k es w =
     (fw_capacity w = 2 ^ k \<and> fw_mask w = 2 ^ k - 1 \<and> fw_head w = int (length es) \<and> fw_count w = min (int (length es)) (2 ^ k)
      \<and> length (fw_timestamps w) = 2 ^ k \<and> length (fw_outcomes w) = 2 ^ k \<and> length (fw_durations w) = 2 ^ k
      \<and> (\<forall>i < length es. length es \<le> i + 2 ^ k \<longrightarrow>
           (fw_timestamps w ! (i mod 2 ^ k), fw_outcomes w ! (i mod 2 ^ k), fw_durations w ! (i mod 2 ^ k))
             = (fst (es ! i), if fst (snd (es ! i)) then 1 else 0, snd (snd (es ! i)))))"

lemma slot: "nat (int n AND (2 ^ k - 1)) = n mod 2 ^ k"
  by (simp add: mask_mod nat_mod_distrib nat_power_eq)

lemma record_duration [simp]: "fw_duration (fw_record w e) = fw_duration w"
  by (simp add: fw_record_def Let_def split: prod.split)

lemma mod_apart:
  assumes "i < n" and "n < i + (c :: nat)"
  shows "i mod c \<noteq> n mod c"
proof
  assume "i mod c = n mod c"
  then have "c dvd n - i" using assms(1) by (metis mod_eq_dvd_iff_nat less_imp_le)
  with assms show False by (auto dest!: dvd_imp_le)
qed

lemma ring_record: "ring k es w \<Longrightarrow> ring k (es @ [e]) (fw_record w e)"
proof -
  assume r: "ring k es w"
  obtain t b d where e: "e = (t, b, d)" by (metis prod_cases3)
  have idx: "nat (fw_head w AND fw_mask w) = length es mod 2 ^ k" using r by (simp add: ring_def slot)
  have apart: "length es mod 2 ^ k \<noteq> i mod 2 ^ k" if "i < length es" "Suc (length es) \<le> i + 2 ^ k" for i
    using mod_apart [of i "length es" "2 ^ k"] that by auto
  show ?thesis
    using r unfolding ring_def fw_record_def e prod.case Let_def idx
    by (auto simp: nth_append less_Suc_eq nth_list_update apart of_nat_less_iff [symmetric] simp del: of_nat_less_iff)
qed

lemma ring_new: "\<exists>k. round_up capacity 1 = 2 ^ k \<and> ring k [] (new_fast_window capacity duration)"
proof -
  obtain k where "round_up capacity 1 = 2 ^ k" using round_up_power [of 1 capacity] by auto
  then show ?thesis by (intro exI [of _ k]) (simp add: ring_def new_fast_window_def Let_def nat_power_eq)
qed

lemma ring_run: "ring k es w \<Longrightarrow> ring k (es @ fs) (run fw_record w fs) \<and> fw_duration (run fw_record w fs) = fw_duration w"
proof (induction fs arbitrary: es w)
  case (Cons f fs)
  from Cons.IH [OF ring_record [OF Cons.prems, of f]] show ?case by simp
qed simp

text \<open>The figures of a list of calls.\<close>

definition tally :: "(rat \<times> bool \<times> rat) list \<Rightarrow> nat \<times> nat \<times> nat \<times> rat" where
  "tally es = (length es, length (filter (\<lambda>e. fst (snd e)) es), length (filter (\<lambda>e. \<not> fst (snd e)) es), sum_list (map (\<lambda>e. snd (snd e)) es))"

definition plus_tally :: "nat \<times> nat \<times> nat \<times> rat \<Rightarrow> nat \<times> nat \<times> nat \<times> rat \<Rightarrow> nat \<times> nat \<times> nat \<times> rat" where
  "plus_tally a b = (case a of (a1, a2, a3, a4) \<Rightarrow> case b of (b1, b2, b3, b4) \<Rightarrow> (a1 + b1, a2 + b2, a3 + b3, a4 + b4))"

lemma scan_spec:
  assumes "ring k es w" and "m \<le> length es" and "m \<le> 2 ^ k"
  shows "scan_back w cutoff [j..<m] acc = plus_tally acc (tally (takeWhile (\<lambda>e. \<not> fst e < cutoff) (drop j (take m (rev es)))))"
proof (induction "m - j" arbitrary: j acc)
  case 0
  then show ?case by (cases acc) (simp add: plus_tally_def tally_def)
next
  case (Suc n)
  obtain a b c d where acc: "acc = (a, b, c, d)" by (metis prod_cases4)
  let ?i = "length es - 1 - j"
  have j: "j < m" "j < length es" using Suc(2) assms(2) by auto
  have i: "nat ((fw_head w - 1 - int j) AND fw_mask w) = ?i mod 2 ^ k"
    using assms(1) j slot [of ?i k] by (simp add: ring_def of_nat_diff diff_diff_eq)
  have e: "(fw_timestamps w ! (?i mod 2 ^ k), fw_outcomes w ! (?i mod 2 ^ k), fw_durations w ! (?i mod 2 ^ k))
      = (fst (es ! ?i), if fst (snd (es ! ?i)) then 1 else 0, snd (snd (es ! ?i)))"
    using assms(1,3) j unfolding ring_def by (elim conjE allE [of _ ?i]) simp
  have l: "drop j (take m (rev es)) = es ! ?i # drop (Suc j) (take m (rev es))" "[j..<m] = j # [Suc j..<m]"
    using j assms(2) by (simp_all add: Cons_nth_drop_Suc [symmetric] rev_nth upt_conv_Cons)
  show ?case
  proof (cases "fst (es ! ?i) < cutoff")
    case True
    with e show ?thesis by (simp add: l acc i plus_tally_def tally_def)
  next
    case False
    from Suc(1) [of "Suc j"] Suc(2) have "scan_back w cutoff [Suc j..<m] acc'
        = plus_tally acc' (tally (takeWhile (\<lambda>e. \<not> fst e < cutoff) (drop (Suc j) (take m (rev es)))))" for acc' by simp
    with False e show ?thesis by (simp add: l acc i Let_def plus_tally_def tally_def)
  qed
qed

text \<open>
  C40: The ring buffer refines the list of calls: whatever calls were recorded, a snapshot reports the latest of them, at most
  the capacity rounded up to a power of two, back to the first that is older than the window.  The number of
  calls, successes and failures, the failure rate and the mean latency are those of exactly these calls.
\<close>

theorem fast_window_refines:
  "fw_snapshot now (run fw_record (new_fast_window capacity duration) es)
     = report_of (tally (takeWhile (\<lambda>e. \<not> fst e < now - duration) (take (nat (round_up capacity 1)) (rev es))))
   \<and> capacity \<le> round_up capacity 1 \<and> (\<exists>k. round_up capacity 1 = 2 ^ k)"
proof -
  obtain k where k: "round_up capacity 1 = 2 ^ k" "ring k [] (new_fast_window capacity duration)" using ring_new by blast
  let ?w = "run fw_record (new_fast_window capacity duration) es"
  have r: "ring k es ?w" "fw_duration ?w = duration"
    using ring_run [OF k(2), of es] by (simp_all add: new_fast_window_def Let_def)
  define m where "m = min (length es) (2 ^ k)"
  have c: "nat (fw_count ?w) = m" using r(1) by (simp add: ring_def m_def nat_power_eq min_def split: if_splits)
  have "take m (rev es) = take (2 ^ k) (rev es)" by (simp add: m_def min_def)
  moreover have "scan_back ?w (now - duration) [0..<m] (0, 0, 0, 0)
      = tally (takeWhile (\<lambda>e. \<not> fst e < now - duration) (take m (rev es)))"
    using scan_spec [OF r(1), of m _ 0 "(0, 0, 0, 0)"] by (simp add: m_def plus_tally_def tally_def)
  ultimately show ?thesis
    using k(1) round_up_covers [of 1 capacity] by (simp add: fw_snapshot_def r c nat_power_eq)
qed

end
