(* ===== verification/Gateway.thy ===== *)
theory Gateway
  imports Continuation ExecutorTheorems NativeStream
begin

text \<open>
  \<^verbatim>\<open>gateway.py\<close>: the bridge from the pool tables to the executor.  It mirrors the usable routes into the executor's
  registry, restores the quota lockouts of an earlier process, and runs a request inside a turn of the continuation
  protocol.  The continuation store is an argument (\<open>acp_ops\<close>), as the gateway takes it by injection; the headers of a
  route reach the adapters as an argument there.  The gateway and its executor share one pool manager.  A call is \<open>None\<close> only when the executor was given too few ticks.
\<close>

section \<open>Routes and errors\<close>

definition endpoint_key :: "string \<Rightarrow> route_definition \<Rightarrow> string" where
  "endpoint_key pool r = pool @ '':'' @ ro_id r"

definition endpoint_from_route :: "route_definition \<Rightarrow> string \<Rightarrow> int \<Rightarrow> endpoint" where
  "endpoint_from_route r pool priority =
     \<lparr>ep_id = endpoint_key pool r, ep_provider = ro_provider r, ep_model = ro_model r, ep_base_url = ro_base_url r,
      ep_protocol = ro_api_format r, ep_deployment = None, ep_quota_bucket_id = None, ep_env_key = ro_env_key r,
      ep_env_keys = ro_env_keys r, ep_weight = 1, ep_priority = priority,
      ep_profile = Some (profile_post_init ((raw_profile (ro_provider r) (ro_model r))
        \<lparr>mp_protocol := ro_api_format r, mp_context_window := ro_context_length r, mp_max_output_tokens := ro_max_output_tokens r,
         mp_supports_tools := Some True\<rparr>)),
      ep_pool = pool, ep_is_discovered = ro_is_discovered r, ep_resource_lane = None\<rparr>"

text \<open>\<open>code\<close> is the status of the classification that a \<open>NonRecoverableFailureError\<close> carries.\<close>

fun http_error_for :: "int option \<Rightarrow> gateway_error \<Rightarrow> int \<times> string" where
  "http_error_for code (NoHealthyRouteError pool) = (503, ''no_healthy_route'')"
| "http_error_for code (NoCandidateMatchesError pool) = (503, ''no_healthy_route'')"
| "http_error_for code (DeadlineExceededError a b) = (504, ''deadline_exceeded'')"
| "http_error_for code (ContextOverflowError a b) = (413, ''context_overflow'')"
| "http_error_for code (NonRecoverableFailureError m) =
     (case code of Some c \<Rightarrow> if 400 \<le> c \<and> c < 500 then c else 502 | None \<Rightarrow> 502, ''upstream_failure'')"
| "http_error_for code ConfigurationError = (500, ''configuration_error'')"
| "http_error_for code (ContinuationProtocolError status) = (status, ''continuation_protocol_error'')"
| "http_error_for code (IndeterminateToolOperationError a b) = (409, ''indeterminate_tool_operation'')"
| "http_error_for code (ToolOperationProtocolError status) = (status, ''tool_operation_protocol_error'')"
| "http_error_for code e = (502, ''gateway_error'')"

section \<open>The records as dictionaries\<close>

text \<open>\<open>dataclasses.asdict\<close> of a request and of a response.\<close>

definition opt_json :: "json option \<Rightarrow> json" where
  "opt_json v = (case v of None \<Rightarrow> JNull | Some j \<Rightarrow> j)"

definition tool_definition_dict :: "normalized_tool_definition \<Rightarrow> json" where
  "tool_definition_dict t = JObj [(''name'', JStr (nd_name t)), (''description'', JStr (nd_description t)), (''parameters'', nd_parameters t),
     (''cache_control'', opt_json (nd_cache_control t))]"

definition tool_call_dict :: "normalized_tool_call \<Rightarrow> json" where
  "tool_call_dict c = JObj [(''id'', JStr (tc_id c)), (''name'', JStr (tc_name c)), (''arguments'', tc_arguments c),
     (''raw_arguments'', JStr (tc_raw_arguments c)), (''metadata'', JObj (tc_metadata c))]"

definition tool_result_dict :: "normalized_tool_result \<Rightarrow> json" where
  "tool_result_dict r = JObj [(''tool_call_id'', JStr (nr_tool_call_id r)), (''tool_name'', jopt (nr_tool_name r)),
     (''content'', JStr (nr_content r)), (''is_error'', JBool (nr_is_error r))]"

definition message_dict :: "normalized_message \<Rightarrow> json" where
  "message_dict m = JObj [(''role'', JStr (msg_role m)), (''content'', JStr (msg_content m)), (''reasoning_content'', jopt (msg_reasoning_content m)),
     (''reasoning_signature'', jopt (msg_reasoning_signature m)), (''tool_calls'', JArr (map tool_call_dict (msg_tool_calls m))),
     (''tool_results'', JArr (map tool_result_dict (msg_tool_results m))), (''name'', jopt (msg_name m)),
     (''cache_control'', opt_json (msg_cache_control m)), (''metadata'', JObj (msg_metadata m))]"

definition request_dict :: "normalized_request \<Rightarrow> json" where
  "request_dict r = JObj [(''request_id'', JStr (rq_request_id r)), (''model'', JStr (rq_model r)), (''messages'', JArr (map message_dict (rq_messages r))),
     (''system_instruction'', jopt (rq_system_instruction r)), (''system_cache_control'', opt_json (rq_system_cache_control r)),
     (''tools'', JArr (map tool_definition_dict (rq_tools r))), (''tool_choice'', opt_json (rq_tool_choice r)),
     (''max_output_tokens'', opt_json (map_option JInt (rq_max_output_tokens r))), (''temperature'', opt_json (map_option JFloat (rq_temperature r))),
     (''stream'', JBool (rq_stream r)), (''metadata'', JObj (rq_metadata r))]"

definition response_dict :: "normalized_response \<Rightarrow> (string \<times> json) list" where
  "response_dict r = [(''response_id'', JStr (rs_response_id r)), (''model'', JStr (rs_model r)), (''content'', jopt (rs_content r)),
     (''reasoning_content'', jopt (rs_reasoning_content r)), (''reasoning_signature'', jopt (rs_reasoning_signature r)),
     (''tool_calls'', JArr (map tool_call_dict (rs_tool_calls r))), (''finish_reason'', JStr (rs_finish_reason r)),
     (''input_tokens'', JInt (rs_input_tokens r)), (''output_tokens'', JInt (rs_output_tokens r)), (''raw_response'', opt_json (rs_raw_response r))]"

section \<open>The gateway\<close>

record 'l gateway =
  gw_exec :: "'l exec_state"
  gw_synced :: "string list"

definition gw_pools :: "'l exec_config \<Rightarrow> 'l exec_state \<Rightarrow> pool_manager" where
  "gw_pools cfg st = (case xc_pm cfg of Own_pm \<Rightarrow> xs_own_pools st | _ \<Rightarrow> xs_global_pools st)"

text \<open>One persisted lockout; \<open>wall\<close> is the epoch clock at start.\<close>

definition restore_lockout ::
  "'l exec_config \<Rightarrow> time \<Rightarrow> time \<Rightarrow> (string \<times> string \<times> string) \<times> quota_row \<Rightarrow> 'l exec_state \<Rightarrow> 'l exec_state" where
  "restore_lockout cfg mclk wall item st =
     (case item of ((provider_id, pool_name, route_id), row) \<Rightarrow>
        let provider = lower provider_id; pool = lower pool_name; route = lower route_id;
            exp_at = qr_expires_at row; rem_sec = max 0 (exp_at - wall)
        in if \<not> exp_at > wall then st
           else if route = ''*'' \<or> route = []
           then (if provider = [] then st
                 else on_pm cfg (\<lambda>m. mark_provider_quota_exhausted wall pool provider rem_sec
                        (m\<lparr>pm_account_lockouts := AList.update provider exp_at (pm_account_lockouts m)\<rparr>)) st)
           else on_health (health_record_failure mclk wall (pool @ '':'' @ route) 0 None
                  (''Persisted daily quota lockout: '' @ qr_reason row) None (Some rem_sec) False)
                (on_pm cfg (\<lambda>m. m\<lparr>pm_exhausted_quotas := AList.update (pool, route) exp_at (pm_exhausted_quotas m)\<rparr>) st))"

definition new_gateway :: "'l exec_config \<Rightarrow> time \<Rightarrow> time \<Rightarrow> 'l exec_state \<Rightarrow> 'l gateway" where
  "new_gateway cfg mclk wall st =
     \<lparr>gw_exec = (case xs_store st of
                   None \<Rightarrow> st
                 | Some s \<Rightarrow> fold (restore_lockout cfg mclk wall) (get_active_quota_lockouts wall None s) st),
      gw_synced = []\<rparr>"

definition usable_route :: "pool_manager \<Rightarrow> route_definition \<Rightarrow> bool" where
  "usable_route pm r =
     ((case pm_allowed_providers pm of None \<Rightarrow> True | Some ps \<Rightarrow> lower (ro_provider r) \<in> set ps)
      \<and> (truthy_str (ro_env_key r) \<longrightarrow> strip (dict_get (pm_keys pm) (the (ro_env_key r)) []) \<noteq> []))"

text \<open>One route of a pool at a position of its table.\<close>

definition sync_route ::
  "pool_manager \<Rightarrow> string \<times> int \<times> route_definition \<Rightarrow> string list \<times> capability_registry \<Rightarrow> string list \<times> capability_registry" where
  "sync_route pm entry acc =
     (case entry of (pool, position, r) \<Rightarrow> case acc of (synced, g) \<Rightarrow>
        if endpoint_key pool r \<in> set synced \<or> \<not> usable_route pm r then (synced, g)
        else (endpoint_key pool r # synced, register_endpoint (endpoint_from_route r pool position) g))"

definition pool_table :: "string \<Rightarrow> route_definition list \<Rightarrow> (string \<times> int \<times> route_definition) list" where
  "pool_table pool rs = map (\<lambda>(i, r). (pool, int i + 1, r)) (enumerate 0 rs)"

definition route_table :: "pool_manager \<Rightarrow> (string \<times> int \<times> route_definition) list" where
  "route_table pm = pool_table ''coding'' (pm_coding_routes pm) @ pool_table ''general_agent'' (pm_agent_routes pm)"

definition sync_endpoints :: "'l exec_config \<Rightarrow> 'l gateway \<Rightarrow> 'l gateway" where
  "sync_endpoints cfg g =
     (case fold (sync_route (gw_pools cfg (gw_exec g))) (route_table (gw_pools cfg (gw_exec g)))
             (gw_synced g, rt_capabilities (xs_router (gw_exec g))) of
        (synced, caps') \<Rightarrow> g\<lparr>gw_exec := on_router (\<lambda>r. r\<lparr>rt_capabilities := caps'\<rparr>) (gw_exec g), gw_synced := synced\<rparr>)"

definition call_config :: "'l exec_config \<Rightarrow> string \<Rightarrow> 'l exec_state \<Rightarrow> 'l exec_config" where
  "call_config cfg pool st = cfg\<lparr>xc_pool := pool, xc_strategy := Some ''priority'', xc_api_keys := pm_keys (gw_pools cfg st)\<rparr>"

definition gw_complete ::
  "'l exec_config \<Rightarrow> execution_policy \<Rightarrow> requirement_vector \<Rightarrow> normalized_request \<Rightarrow> string \<Rightarrow> tick list \<Rightarrow> 'l gateway
    \<Rightarrow> ((normalized_response \<times> routing_decision) result \<times> 'l gateway) option" where
  "gw_complete cfg policy requirements rq pool ticks g0 =
     (let g = sync_endpoints cfg g0 in
      case execute (call_config cfg pool (gw_exec g)) policy requirements rq ticks (gw_exec g) of
        None \<Rightarrow> None
      | Some (res, st') \<Rightarrow> Some (res, g\<lparr>gw_exec := st'\<rparr>))"

definition gw_open_native_stream ::
  "'l exec_config \<Rightarrow> execution_policy \<Rightarrow> normalized_request \<Rightarrow> string \<Rightarrow> string \<Rightarrow> stream_tick list \<Rightarrow> 'l gateway
    \<Rightarrow> (native_handle result \<times> 'l gateway) option" where
  "gw_open_native_stream cfg policy rq pool client_protocol sks g0 =
     (let g = sync_endpoints cfg g0 in
      case open_native_stream client_protocol (call_config cfg pool (gw_exec g)) policy rq sks (gw_exec g) of
        None \<Rightarrow> None
      | Some (res, st') \<Rightarrow> Some (res, g\<lparr>gw_exec := st'\<rparr>))"

section \<open>Turns\<close>

text \<open>The methods of a continuation store that the gateway calls; identifiers and clocks are inside.\<close>

record 'c acp_ops =
  co_begin :: "continuation_request \<Rightarrow> 'c \<Rightarrow> continuation_turn result \<times> 'c"
  co_complete :: "continuation_turn \<Rightarrow> normalized_request \<Rightarrow> normalized_response \<Rightarrow> string \<Rightarrow> 'c \<Rightarrow> continuation_event result \<times> 'c"
  co_interrupt :: "continuation_turn \<Rightarrow> string \<Rightarrow> 'c \<Rightarrow> continuation_event result \<times> 'c"
  co_acknowledge :: "string \<Rightarrow> string \<Rightarrow> int \<Rightarrow> string \<Rightarrow> 'c \<Rightarrow> continuation_event result \<times> 'c"

definition memory_acp_ops :: "digest_env \<Rightarrow> time \<Rightarrow> string \<Rightarrow> string \<Rightarrow> (nat \<Rightarrow> string) \<Rightarrow> acp_store acp_ops" where
  "memory_acp_ops env now uuid_session uuid_turn uuid =
     \<lparr>co_begin = begin_turn uuid_session uuid_turn (uuid 0),
      co_complete = (\<lambda>turn rq rs endpoint. complete_turn env now (uuid 1) turn (request_dict rq) (response_dict rs) endpoint),
      co_interrupt = (\<lambda>turn detail. interrupt_turn (uuid 1) turn detail),
      co_acknowledge = acknowledge (uuid 0)\<rparr>"

type_synonym turn_result = "(normalized_response \<times> routing_decision \<times> continuation_event option) result"

definition selected_id :: "routing_decision \<Rightarrow> string" where
  "selected_id d = (case rd_selected_endpoint d of Some e \<Rightarrow> ep_id e | None \<Rightarrow> ''unknown'')"

definition gw_complete_turn ::
  "'c acp_ops \<Rightarrow> (gateway_error \<Rightarrow> string) \<Rightarrow> 'l exec_config \<Rightarrow> execution_policy \<Rightarrow> requirement_vector \<Rightarrow> normalized_request \<Rightarrow> string
    \<Rightarrow> tick list \<Rightarrow> continuation_request option \<Rightarrow> 'l gateway \<times> 'c \<Rightarrow> (turn_result \<times> 'l gateway \<times> 'c) option" where
  "gw_complete_turn ops exc_text cfg policy requirements rq pool ticks continuation gs =
     (case gs of (g, s) \<Rightarrow>
        case continuation of
          None \<Rightarrow>
            map_option (\<lambda>(res, g'). (map_sum id (\<lambda>(rs, d). (rs, d, None)) res, g', s)) (gw_complete cfg policy requirements rq pool ticks g)
        | Some c \<Rightarrow>
            (case co_begin ops c s of
               (Inl e, s1) \<Rightarrow> Some (Inl e, g, s1)
             | (Inr turn, s1) \<Rightarrow>
                 (case gw_complete cfg policy requirements rq pool ticks g of
                    None \<Rightarrow> None
                  | Some (Inl e, g') \<Rightarrow>
                      (case co_interrupt ops turn (exc_text e) s1 of
                         (Inl e', s2) \<Rightarrow> Some (Inl e', g', s2) | (Inr _, s2) \<Rightarrow> Some (Inl e, g', s2))
                  | Some (Inr (rs, d), g') \<Rightarrow>
                      (case co_complete ops turn rq rs (selected_id d) s1 of
                         (Inl e, s2) \<Rightarrow> Some (Inl e, g', s2) | (Inr event, s2) \<Rightarrow> Some (Inr (rs, d, Some event), g', s2)))))"

definition acknowledge_continuation ::
  "'c acp_ops \<Rightarrow> string \<Rightarrow> string \<Rightarrow> int \<Rightarrow> string \<Rightarrow> 'l gateway \<times> 'c \<Rightarrow> continuation_event result \<times> 'l gateway \<times> 'c" where
  "acknowledge_continuation ops session_id turn_id epoch digest gs =
     (case gs of (g, s) \<Rightarrow> case co_acknowledge ops session_id turn_id epoch digest s of (r, s') \<Rightarrow> (r, g, s'))"

end
