(* ===== verification/Catalog.thy ===== *)
theory Catalog
  imports Transport Pools
begin

text \<open>
  \<^verbatim>\<open>discovery.py\<close> and \<^verbatim>\<open>canary.py\<close>: discovery of free models in a live catalog, their registration in the pools, and the
  probe that keeps the ledger of provider quirks.  What the catalog and the probed providers answer, the files and the
  clock are inputs; \<open>float()\<close> and \<open>int()\<close> of a text are arguments.

  Theorems: only models that cost nothing, know tools and have the context asked for are registered, and no free model of the old
  catalog is forgotten (\<open>discovery_adds_free_models\<close>, \<open>catalog_forgets_nothing\<close>); the probe deprecates in both pools what left the
  catalog (\<open>probe_retires_models\<close>), but a price of zero that is a number is not recognised
  (\<open>canary_misses_numeric_zero\<close>).
\<close>

section \<open>Numbers\<close>

record py_numbers =
  pn_float :: "string \<Rightarrow> rat option"
  pn_int :: "string \<Rightarrow> int option"

definition float_json :: "py_numbers \<Rightarrow> json \<Rightarrow> rat result" where
  "float_json pn j =
     (case j of
        JInt i \<Rightarrow> Inr (of_int i)
      | JFloat r \<Rightarrow> Inr r
      | JBool b \<Rightarrow> Inr (if b then 1 else 0)
      | JStr s \<Rightarrow> (case pn_float pn s of None \<Rightarrow> Inl ValueError | Some r \<Rightarrow> Inr r)
      | _ \<Rightarrow> Inl TypeError)"

definition int_json :: "py_numbers \<Rightarrow> json \<Rightarrow> int result" where
  "int_json pn j =
     (case j of
        JInt i \<Rightarrow> Inr i
      | JFloat r \<Rightarrow> Inr (if r < 0 then - \<lfloor>- r\<rfloor> else \<lfloor>r\<rfloor>)
      | JBool b \<Rightarrow> Inr (if b then 1 else 0)
      | JStr s \<Rightarrow> (case pn_int pn s of None \<Rightarrow> Inl ValueError | Some i \<Rightarrow> Inr i)
      | _ \<Rightarrow> Inl TypeError)"

section \<open>Discovery\<close>

text \<open>\<open>float(pricing.get(k, "0") or 0) == 0\<close>; \<open>TypeError\<close> and \<open>ValueError\<close> mean no.\<close>

definition price_is_zero :: "py_numbers \<Rightarrow> (string, json) dict \<Rightarrow> string \<Rightarrow> bool" where
  "price_is_zero pn pricing k = (float_json pn (or_json (dict_get pricing k (JStr ''0'')) (JInt 0)) = Inr 0)"

definition is_model_free :: "py_numbers \<Rightarrow> json \<Rightarrow> bool" where
  "is_model_free pn pricing =
     (case pricing of
        JObj d \<Rightarrow> price_is_zero pn d ''prompt'' \<and> price_is_zero pn d ''completion'' \<and> price_is_zero pn d ''request'' \<and> price_is_zero pn d ''image''
      | _ \<Rightarrow> False)"

definition supports_tool_calling :: "json \<Rightarrow> bool" where
  "supports_tool_calling item =
     (case item of
        JObj d \<Rightarrow> (case dict_get d ''supported_parameters'' JNull of JArr ps \<Rightarrow> JStr ''tools'' \<in> set ps | _ \<Rightarrow> True)
      | _ \<Rightarrow> True)"

definition CODING_KEYWORDS :: "string list" where
  "CODING_KEYWORDS = [''coder'', ''code'', ''devstral'', ''codestral'', ''deepseek-coder'', ''starcoder'', ''wizardcoder'']"

definition is_coding_model :: "string \<Rightarrow> string \<Rightarrow> bool" where
  "is_coding_model model_id name = list_ex (\<lambda>k. contains (lower (model_id @ '' '' @ name)) k) CODING_KEYWORDS"

record catalog_model =
  cm_id :: string
  cm_name :: json
  cm_context_length :: int
  cm_pricing :: json
  cm_parameters :: json

text \<open>One entry of the live catalog: the model, or nothing when it is filtered out.\<close>

definition catalog_entry :: "py_numbers \<Rightarrow> int \<Rightarrow> json \<Rightarrow> catalog_model option decoded" where
  "catalog_entry pn min_context item =
     dbind (fetch item ''id'' (JStr [])) (\<lambda>mid. dbind (fetch item ''pricing'' (JObj [])) (\<lambda>pricing.
     dbind (fetch item ''context_length'' (JInt 0)) (\<lambda>ctx. dbind (of_result (int_json pn (or_json ctx (JInt 0)))) (\<lambda>context_len.
       if \<not> is_model_free pn pricing \<or> \<not> supports_tool_calling item \<or> context_len < min_context then Decoded None
       else dbind (need_str mid) (\<lambda>i. dbind (fetch item ''name'' mid) (\<lambda>name.
            dbind (fetch item ''supported_parameters'' (JArr [])) (\<lambda>params.
              Decoded (Some \<lparr>cm_id = i, cm_name = name, cm_context_length = context_len, cm_pricing = pricing, cm_parameters = params\<rparr>))))))))"

definition catalog_entries :: "py_numbers \<Rightarrow> int \<Rightarrow> json list \<Rightarrow> catalog_model list decoded" where
  "catalog_entries pn min_context raw = dbind (dmap (catalog_entry pn min_context) raw) (\<lambda>ms. Decoded (List.map_filter id ms))"

text \<open>\<open>sort(key=context_length, reverse=True)\<close>, which keeps the order of equal keys.\<close>

definition by_context :: "catalog_model list \<Rightarrow> catalog_model list" where
  "by_context ms = sort_key (\<lambda>m. - cm_context_length m) ms"

record model_catalog =
  mc_last_updated :: "string option"
  mc_free_models :: "catalog_model list"
  mc_deprecated_models :: "string list"

definition empty_catalog :: model_catalog where
  "empty_catalog = \<lparr>mc_last_updated = None, mc_free_models = [], mc_deprecated_models = []\<rparr>"

text \<open>\<open>file\<close> is the catalog on disk if it can be read; the second component is what is written.\<close>

definition load_model_catalog :: "model_catalog option \<Rightarrow> model_catalog" where
  "load_model_catalog file = (case file of None \<Rightarrow> empty_catalog | Some c \<Rightarrow> c)"

definition discover_models ::
  "py_numbers \<Rightarrow> string \<Rightarrow> int \<Rightarrow> json list \<Rightarrow> model_catalog option \<Rightarrow> (model_catalog \<times> model_catalog option) decoded" where
  "discover_models pn now_iso min_context raw file =
     (let existing = load_model_catalog file in
      if raw = [] then Decoded (existing, None)
      else dbind (catalog_entries pn min_context raw) (\<lambda>found.
        let current = by_context found;
            missing = filter (\<lambda>i. i \<notin> set (map cm_id current)) (map cm_id (mc_free_models existing));
            cat = \<lparr>mc_last_updated = Some now_iso, mc_free_models = current,
                   mc_deprecated_models = sorted_list_of_set (set (mc_deprecated_models existing) \<union> set missing)\<rparr>
        in Decoded (cat, Some cat)))"

definition get_top_free_models ::
  "py_numbers \<Rightarrow> string \<Rightarrow> nat \<Rightarrow> int \<Rightarrow> json list \<Rightarrow> model_catalog option \<Rightarrow> (catalog_model list \<times> model_catalog option) decoded" where
  "get_top_free_models pn now_iso limit min_context raw file =
     dbind (discover_models pn now_iso min_context raw file) (\<lambda>(cat, written). Decoded (take limit (mc_free_models cat), written))"

text \<open>The models by pool; the provider, address and key are those of OpenRouter for all of them.\<close>

definition name_text :: "(rat \<Rightarrow> string) \<Rightarrow> json \<Rightarrow> string" where
  "name_text fr item = str_json fr (case item of JObj d \<Rightarrow> dict_get d ''name'' (JStr []) | _ \<Rightarrow> JStr [])"

definition discover_free_models ::
  "(rat \<Rightarrow> string) \<Rightarrow> py_numbers \<Rightarrow> int \<Rightarrow> json list \<Rightarrow> (catalog_model list \<times> catalog_model list) decoded" where
  "discover_free_models fr pn min_context raw =
     dbind (dmap (\<lambda>item. dbind (catalog_entry pn min_context item) (\<lambda>m. Decoded (map_option (\<lambda>m. (is_coding_model (cm_id m) (name_text fr item), m)) m))) raw)
       (\<lambda>tagged. let ms = List.map_filter id tagged in
          Decoded (by_context (map snd (filter fst ms)), by_context (map snd (filter (\<lambda>x. \<not> fst x) ms))))"

definition dashed :: "string \<Rightarrow> string" where
  "dashed s = map (\<lambda>c. if c = CHR ''/'' then CHR ''-'' else c) s"

definition discovered_route :: "string \<Rightarrow> catalog_model \<Rightarrow> route_definition" where
  "discovered_route pool m =
     \<lparr>ro_id = ''openrouter-discovered-'' @ dashed (cm_id m), ro_provider = ''openrouter'', ro_model = cm_id m, ro_pool = pool,
      ro_base_url = ''https://openrouter.ai/api/v1'', ro_api_format = ''openai'', ro_env_key = Some ''OPENROUTER_API_KEY'', ro_env_keys = [],
      ro_context_length = cm_context_length m, ro_max_output_tokens = 4096, ro_headers = [], ro_is_discovered = True\<rparr>"

text \<open>Any exception is logged and leaves the pools as they are: both lists are complete before the first route is added.\<close>

definition register_discovered_models_to_pools ::
  "(rat \<Rightarrow> string) \<Rightarrow> py_numbers \<Rightarrow> nat \<Rightarrow> json list \<Rightarrow> pool_manager \<Rightarrow> pool_manager" where
  "register_discovered_models_to_pools fr pn limit raw m =
     (case discover_free_models fr pn 16384 raw of
        Decoded (coding, agent) \<Rightarrow>
          fold (add_discovered_route ''general_agent'') (map (discovered_route ''general_agent'') (take limit agent))
            (fold (add_discovered_route ''coding'') (map (discovered_route ''coding'') (take limit coding)) m)
      | _ \<Rightarrow> m)"

section \<open>The nightly probe\<close>

text \<open>
  \<open>compute_seconds_until_next_1am_uk\<close> for a time of the same zone: \<open>tod\<close> is the local time of day in seconds.
  Datetimes of one zone are subtracted by their local readings, so a change of the clocks in between is not seen.
\<close>

definition seconds_until_1am :: "rat \<Rightarrow> rat" where
  "seconds_until_1am tod = max 0 (if tod \<ge> 3600 then 3600 + 86400 - tod else 3600 - tod)"

record free_model =
  fm_id :: string
  fm_name :: json
  fm_context_length :: int
  fm_supports_tools :: bool

text \<open>\<open>float(pricing.get(k, 1) or 1) == 0\<close>.\<close>

definition canary_price :: "py_numbers \<Rightarrow> json \<Rightarrow> string \<Rightarrow> rat decoded" where
  "canary_price pn pricing k = dbind (fetch pricing k (JInt 1)) (\<lambda>v. of_result (float_json pn (or_json v (JInt 1))))"

definition canary_entry :: "py_numbers \<Rightarrow> json \<Rightarrow> free_model option decoded" where
  "canary_entry pn item =
     dbind (fetch item ''id'' (JStr [])) (\<lambda>mid. dbind (fetch item ''pricing'' (JObj [])) (\<lambda>pricing.
     dbind (case mid of JStr s \<Rightarrow> Decoded s | _ \<Rightarrow> Raises AttributeError) (\<lambda>i.
     dbind (if endswith i '':free'' then Decoded True
            else dbind (canary_price pn pricing ''prompt'') (\<lambda>p.
                   if p \<noteq> 0 then Decoded False else dbind (canary_price pn pricing ''completion'') (\<lambda>c. Decoded (c = 0)))) (\<lambda>is_free.
       if \<not> is_free then Decoded None
       else dbind (fetch item ''supported_parameters'' (JArr [])) (\<lambda>params. dbind (fetch item ''name'' mid) (\<lambda>name.
            dbind (fetch item ''context_length'' (JInt 0)) (\<lambda>ctx. dbind (of_result (int_json pn (or_json ctx (JInt 0)))) (\<lambda>n.
            dbind (if truthy_json params then of_result (json_contains ''tools'' params) else Decoded True) (\<lambda>tools.
              Decoded (Some \<lparr>fm_id = i, fm_name = name, fm_context_length = n, fm_supports_tools = tools\<rparr>))))))))))"

text \<open>The loop inside \<open>try\<close>: the first exception ends it and what was found stays.\<close>

fun fetch_openrouter_free_models :: "py_numbers \<Rightarrow> json list \<Rightarrow> free_model list" where
  "fetch_openrouter_free_models pn [] = []"
| "fetch_openrouter_free_models pn (item # items) =
     (case canary_entry pn item of
        Decoded None \<Rightarrow> fetch_openrouter_free_models pn items
      | Decoded (Some m) \<Rightarrow> m # fetch_openrouter_free_models pn items
      | _ \<Rightarrow> [])"

text \<open>What a ping of a route comes to; the last datum is the latency in milliseconds, rounded to one digit.\<close>

datatype ping_result =
    Ping_skipped
  | Ping_active int rat "string option" "string option"
  | Ping_deprecated int string
  | Ping_quota_exhausted
  | Ping_rate_limited rat
  | Ping_error int string
  | Ping_unreachable string

definition ping_endpoint ::
  "(rat \<Rightarrow> rat) \<Rightarrow> (string \<Rightarrow> string) \<Rightarrow> rat \<Rightarrow> string \<Rightarrow> transport_outcome \<Rightarrow> ping_result" where
  "ping_endpoint round1 decode elapsed api_key answer =
     (if api_key = [] then Ping_skipped
      else case answer of
             Responded status headers body \<Rightarrow>
               Ping_active status (round1 (elapsed * 1000)) (map_of (lower_headers headers) ''x-ratelimit-limit-tokens'')
                 (map_of (lower_headers headers) ''x-ratelimit-limit-requests'')
           | Http_error status headers body \<Rightarrow>
               let raw_body = decode (case body of Some b \<Rightarrow> b | None \<Rightarrow> []) in
               if status \<in> {404, 410} \<or> contains raw_body ''unavailable for free'' then Ping_deprecated status (take 160 raw_body)
               else if status = 429
               then (if contains raw_body ''free-models-per-day'' then Ping_quota_exhausted else Ping_rate_limited (round1 (elapsed * 1000)))
               else Ping_error status (take 160 raw_body)
           | Transport_failed x \<Rightarrow> Ping_unreachable (take 160 (te_text x)))"

text \<open>The quirks ledger: providers with their models; a model's record is a dictionary of the file, in which \<open>quirks\<close> is a list.\<close>

type_synonym model_data = "(string, json) dict"

record ledger_provider =
  lp_fields :: "(string, json) dict"
  lp_models :: "(string, model_data) dict"

record quirks_ledger =
  ql_last_updated_utc :: "string option"
  ql_providers :: "(string, ledger_provider) dict"

definition openrouter_defaults :: ledger_provider where
  "openrouter_defaults = \<lparr>lp_fields = [(''name'', JStr ''OpenRouter''), (''base_url'', JStr ''https://openrouter.ai/api/v1''),
     (''auth_env'', JStr ''OPENROUTER_API_KEY'')], lp_models = []\<rparr>"

text \<open>A model of the ledger that left the live catalog.\<close>

definition is_retired :: "string list \<Rightarrow> string \<times> model_data \<Rightarrow> bool" where
  "is_retired active entry =
     (case entry of (mid, mdata) \<Rightarrow> endswith mid '':free'' \<and> mid \<notin> set active \<and> map_of mdata ''status'' = Some (JStr ''active''))"

definition append_quirk :: "string \<Rightarrow> model_data \<Rightarrow> model_data" where
  "append_quirk q d =
     (case dict_get d ''quirks'' (JArr []) of JArr qs \<Rightarrow> AList.update ''quirks'' (JArr (qs @ [JStr q])) d | _ \<Rightarrow> d)"

definition retire_model :: "string \<Rightarrow> model_data \<Rightarrow> model_data" where
  "retire_model now_iso d =
     append_quirk ''Removed from live OpenRouter free catalog''
       (AList.update ''last_verified_utc'' (JStr now_iso) (AList.update ''status'' (JStr ''deprecated'') d))"

definition deprecate_everywhere :: "string \<Rightarrow> pool_manager \<Rightarrow> pool_manager" where
  "deprecate_everywhere mid m = mark_deprecated ''general_agent'' mid (mark_deprecated ''coding'' mid m)"

definition retire_missing ::
  "bool \<Rightarrow> string \<Rightarrow> string list \<Rightarrow> (string, model_data) dict \<times> pool_manager \<Rightarrow> (string, model_data) dict \<times> pool_manager" where
  "retire_missing update_pools now_iso active mm =
     (case mm of (models, m) \<Rightarrow>
        if active = [] then (models, m)
        else (map (\<lambda>e. if is_retired active e then (fst e, retire_model now_iso (snd e)) else e) models,
              if update_pools then fold deprecate_everywhere (map fst (filter (is_retired active) models)) m else m))"

definition or_num :: "int \<Rightarrow> int \<Rightarrow> int" where
  "or_num n d = (if n = 0 then d else n)"

definition canary_pool :: "string \<Rightarrow> string" where
  "canary_pool mid = (if list_ex (contains (lower mid)) [''code'', ''coder'', ''devstral'', ''codestral''] then ''coding'' else ''general_agent'')"

definition new_model_data :: "string \<Rightarrow> free_model \<Rightarrow> model_data" where
  "new_model_data now_iso dm =
     [(''pool'', JStr (canary_pool (fm_id dm))), (''context_window'', JInt (or_num (fm_context_length dm) 65536)),
      (''safe_input_tokens'', JInt (min 32000 (or_num (fm_context_length dm) 32000))), (''max_output_tokens'', JInt 8192),
      (''supports_tools'', JBool (fm_supports_tools dm)), (''supports_streaming'', JBool True), (''status'', JStr ''active''),
      (''last_verified_utc'', JStr now_iso), (''quirks'', JArr [JStr ''Discovered via live OpenRouter aggregator catalog''])]"

definition canary_route :: "free_model \<Rightarrow> route_definition" where
  "canary_route dm =
     \<lparr>ro_id = ''openrouter-canary-'' @ dashed (fm_id dm), ro_provider = ''openrouter'', ro_model = fm_id dm, ro_pool = canary_pool (fm_id dm),
      ro_base_url = ''https://openrouter.ai/api/v1'', ro_api_format = ''openai'', ro_env_key = Some ''OPENROUTER_API_KEY'', ro_env_keys = [],
      ro_context_length = or_num (fm_context_length dm) 65536, ro_max_output_tokens = 8192, ro_headers = [], ro_is_discovered = True\<rparr>"

definition add_model ::
  "bool \<Rightarrow> string \<Rightarrow> free_model \<Rightarrow> (string, model_data) dict \<times> pool_manager \<Rightarrow> (string, model_data) dict \<times> pool_manager" where
  "add_model update_pools now_iso dm mm =
     (case mm of (models, m) \<Rightarrow>
        if map_of models (fm_id dm) \<noteq> None then (models, m)
        else (AList.update (fm_id dm) (new_model_data now_iso dm) models,
              if update_pools then add_discovered_route (canary_pool (fm_id dm)) (canary_route dm) m else m))"

text \<open>The routes that are pinged, with the names of their keys.\<close>

definition PROBED_ROUTES :: "(string \<times> string \<times> string \<times> string) list" where
  "PROBED_ROUTES =
     [(''cerebras'', ''qwen-3.8-27b'', ''https://api.cerebras.ai/v1'', ''CEREBRAS_API_KEY''),
      (''gemini'', ''gemini-2.5-flash'', ''https://generativelanguage.googleapis.com/v1beta/openai'', ''GEMINI_API_KEY''),
      (''groq'', ''qwen/qwen3.6-27b'', ''https://api.groq.com/openai/v1'', ''GROQ_API_KEY''),
      (''openrouter'', ''openrouter/free'', ''https://openrouter.ai/api/v1'', ''OPENROUTER_API_KEY''),
      (''nvidia'', ''meta/llama-3.2-11b-vision-instruct'', ''https://integrate.api.nvidia.com/v1'', ''NVIDIA_API_KEY'')]"

definition probed_data :: "string \<Rightarrow> ping_result \<Rightarrow> model_data \<Rightarrow> model_data" where
  "probed_data now_iso res d =
     (let d1 = AList.update ''last_verified_utc'' (JStr now_iso) d in
      case res of
        Ping_active status latency a b \<Rightarrow> AList.update ''last_probe_latency_ms'' (JFloat latency) (AList.update ''status'' (JStr ''active'') d1)
      | Ping_rate_limited latency \<Rightarrow> AList.update ''last_probe_latency_ms'' (JFloat latency) (AList.update ''status'' (JStr ''active'') d1)
      | Ping_deprecated status msg \<Rightarrow> AList.update ''status'' (JStr ''deprecated'') d1
      | _ \<Rightarrow> d1)"

definition note_probe ::
  "bool \<Rightarrow> string \<Rightarrow> (string \<times> string) \<times> ping_result \<Rightarrow> (string, ledger_provider) dict \<times> pool_manager \<Rightarrow> (string, ledger_provider) dict \<times> pool_manager" where
  "note_probe update_pools now_iso probe pm =
     (case probe of ((prov, model), res) \<Rightarrow> case pm of (provs, m) \<Rightarrow>
        case map_of provs prov of
          None \<Rightarrow> (provs, m)
        | Some p \<Rightarrow>
            (case map_of (lp_models p) model of
               None \<Rightarrow> (provs, m)
             | Some d \<Rightarrow>
                 if d = [] then (provs, m)
                 else (AList.update prov (p\<lparr>lp_models := AList.update model (probed_data now_iso res d) (lp_models p)\<rparr>) provs,
                       case res of Ping_deprecated status msg \<Rightarrow> (if update_pools then mark_deprecated ''coding'' model m else m) | _ \<Rightarrow> m)))"

text \<open>The discovery half of \<open>run_probe\<close>, on the models of OpenRouter.\<close>

definition probe_catalog ::
  "bool \<Rightarrow> string \<Rightarrow> free_model list \<Rightarrow> (string, model_data) dict \<times> pool_manager \<Rightarrow> (string, model_data) dict \<times> pool_manager" where
  "probe_catalog update_pools now_iso found mm =
     fold (add_model update_pools now_iso) found (retire_missing update_pools now_iso (map fm_id found) mm)"

text \<open>\<open>results\<close> are the pings of \<open>PROBED_ROUTES\<close> in order; the ledger that is returned is the one saved.\<close>

definition run_probe ::
  "bool \<Rightarrow> string \<Rightarrow> free_model list \<Rightarrow> ping_result list \<Rightarrow> quirks_ledger \<Rightarrow> pool_manager \<Rightarrow> quirks_ledger \<times> pool_manager" where
  "run_probe update_pools now_iso found results ledger m =
     (let openrouter = dict_get (ql_providers ledger) ''openrouter'' openrouter_defaults in
      case probe_catalog update_pools now_iso found (lp_models openrouter, m) of
        (models, m1) \<Rightarrow>
          (case fold (note_probe update_pools now_iso) (zip (map (\<lambda>(p, md, _). (p, md)) PROBED_ROUTES) results)
                  (AList.update ''openrouter'' (openrouter\<lparr>lp_models := models\<rparr>) (ql_providers ledger), m1) of
             (provs, m2) \<Rightarrow> (ledger\<lparr>ql_last_updated_utc := Some now_iso, ql_providers := provs\<rparr>, m2)))"

section \<open>The scheduler\<close>

text \<open>\<open>alive\<close> is whether the thread lives.\<close>

record canary_scheduler =
  cs_alive :: bool
  cs_stopped :: bool
  cs_last_run_utc :: "string option"

definition scheduler_start :: "canary_scheduler \<Rightarrow> canary_scheduler" where
  "scheduler_start c = (if cs_alive c then c else c\<lparr>cs_stopped := False, cs_alive := True\<rparr>)"

definition scheduler_stop :: "canary_scheduler \<Rightarrow> canary_scheduler" where
  "scheduler_stop c = c\<lparr>cs_stopped := True, cs_alive := False\<rparr>"

definition trigger_now ::
  "string \<Rightarrow> free_model list \<Rightarrow> ping_result list \<Rightarrow> canary_scheduler \<times> quirks_ledger \<times> pool_manager
    \<Rightarrow> canary_scheduler \<times> quirks_ledger \<times> pool_manager" where
  "trigger_now now_iso found results csm =
     (case csm of (c, ledger, m) \<Rightarrow>
        case run_probe True now_iso found results ledger m of
          (ledger', m') \<Rightarrow> (c\<lparr>cs_last_run_utc := Some now_iso\<rparr>, ledger', m'))"

text \<open>The sleeps of one wait: chunks of ten seconds until the time is over; \<open>stops\<close> says when the event is seen set.\<close>

function wait_chunks :: "rat \<Rightarrow> (nat \<Rightarrow> bool) \<Rightarrow> nat \<Rightarrow> rat list" where
  "wait_chunks sleep_sec stops k =
     (if of_nat k * 10 < sleep_sec \<and> \<not> stops k then min 10 (sleep_sec - of_nat k * 10) # wait_chunks sleep_sec stops (Suc k) else [])"
  by pat_completeness auto
termination
proof (relation "measure (\<lambda>(sleep_sec, stops, k). nat \<lceil>sleep_sec / 10\<rceil> - k)", goal_cases)
  case (2 sleep_sec stops k)
  then have "of_nat k < sleep_sec / 10" by simp
  then have "int k < \<lceil>sleep_sec / 10\<rceil>" by (simp add: less_ceiling_iff)
  then show ?case by simp
qed simp

declare wait_chunks.simps [simp del]

end
