(* ===== verification/CatalogTheorems.thy ===== *)
theory CatalogTheorems
  imports Catalog
begin

text \<open>Theorems on discovery and on the nightly probe.\<close>

section \<open>Entries of the catalog\<close>

text \<open>The entry \<open>item\<close> of the live catalog offers the model \<open>i\<close> with context \<open>n\<close> for nothing.\<close>

definition offers_free :: "py_numbers \<Rightarrow> int \<Rightarrow> json \<Rightarrow> string \<Rightarrow> int \<Rightarrow> bool" where
  "offers_free pn min_context item i n =
     (\<exists>d. item = JObj d \<and> dict_get d ''id'' (JStr []) = JStr i \<and> is_model_free pn (dict_get d ''pricing'' (JObj []))
        \<and> supports_tool_calling item \<and> int_json pn (or_json (dict_get d ''context_length'' (JInt 0)) (JInt 0)) = Inr n \<and> min_context \<le> n)"

lemma fetch_dict: "fetch j k d = Decoded v \<Longrightarrow> \<exists>kvs. j = JObj kvs \<and> v = dict_get kvs k d"
  by (cases j) (auto simp: fetch_def get_or_def json_get_def dict_get_def split: option.splits)

lemma of_result_Decoded: "of_result r = Decoded x \<longleftrightarrow> r = Inr x"
  by (cases r) simp_all

lemma entry_free: "catalog_entry pn min_context item = Decoded (Some m) \<Longrightarrow> offers_free pn min_context item (cm_id m) (cm_context_length m)"
  unfolding catalog_entry_def offers_free_def
  by (auto simp: dbind_Decoded_iff of_result_Decoded need_str_def not_less split: if_splits json.splits dest!: fetch_dict)

lemma dmap_set: "dmap f xs = Decoded ys \<Longrightarrow> y \<in> set ys \<Longrightarrow> \<exists>x \<in> set xs. f x = Decoded y"
  by (induction xs arbitrary: ys) (auto simp: dbind_Decoded_iff)

lemma map_filter_id: "y \<in> set (List.map_filter id xs) \<longleftrightarrow> Some y \<in> set xs"
  by (auto simp: List.map_filter_def) force

lemma entries_free:
  assumes "catalog_entries pn min_context raw = Decoded ms" and "m \<in> set ms"
  shows "\<exists>item \<in> set raw. offers_free pn min_context item (cm_id m) (cm_context_length m)"
proof -
  from assms obtain ys where "dmap (catalog_entry pn min_context) raw = Decoded ys" "Some m \<in> set ys"
    by (auto simp: catalog_entries_def dbind_Decoded_iff map_filter_id)
  from dmap_set [OF this] show ?thesis by (blast dest: entry_free)
qed

lemma discovered_free:
  assumes "discover_free_models fr pn min_context raw = Decoded (coding, agent)" and "m \<in> set coding \<union> set agent"
  shows "\<exists>item \<in> set raw. offers_free pn min_context item (cm_id m) (cm_context_length m)"
proof -
  let ?f = "\<lambda>item. dbind (catalog_entry pn min_context item) (\<lambda>m. Decoded (map_option (\<lambda>m. (is_coding_model (cm_id m) (name_text fr item), m)) m))"
  from assms obtain ys b where ys: "dmap ?f raw = Decoded ys" "Some (b, m) \<in> set ys"
    by (auto simp: discover_free_models_def dbind_Decoded_iff by_context_def map_filter_id Let_def)
  from dmap_set [OF this] obtain item where "item \<in> set raw" "?f item = Decoded (Some (b, m))" by blast
  then have "catalog_entry pn min_context item = Decoded (Some m)" by (auto simp: dbind_Decoded_iff map_option_case split: option.splits)
  with \<open>item \<in> set raw\<close> show ?thesis by (blast dest: entry_free)
qed

section \<open>Registration\<close>

lemma discovered_route_sel [simp]:
  "ro_model (discovered_route pool m) = cm_id m" "ro_context_length (discovered_route pool m) = cm_context_length m"
  by (simp_all add: discovered_route_def)

lemma add_routes_coding: "\<exists>cs. fold (add_discovered_route ''coding'') rs m = m\<lparr>pm_coding_routes := pm_coding_routes m @ cs\<rparr>
  \<and> length cs \<le> length rs \<and> set cs \<subseteq> set rs"
proof (induction rs arbitrary: m)
  case (Cons r rs)
  let ?m = "add_discovered_route ''coding'' r m"
  obtain cs where cs: "fold (add_discovered_route ''coding'') rs ?m = ?m\<lparr>pm_coding_routes := pm_coding_routes ?m @ cs\<rparr>"
      "length cs \<le> length rs" "set cs \<subseteq> set rs" using Cons by blast
  show ?case
  proof (cases "?m = m")
    case True
    with cs show ?thesis by (intro exI [of _ cs]) auto
  next
    case False
    then have "?m = m\<lparr>pm_coding_routes := pm_coding_routes m @ [r]\<rparr>" by (simp add: add_discovered_route_def split: if_splits)
    with cs show ?thesis by (intro exI [of _ "r # cs"]) auto
  qed
qed (auto intro: exI [of _ "[]"])

lemma add_routes_agent: "\<exists>cs. fold (add_discovered_route ''general_agent'') rs m = m\<lparr>pm_agent_routes := pm_agent_routes m @ cs\<rparr>
  \<and> length cs \<le> length rs \<and> set cs \<subseteq> set rs"
proof (induction rs arbitrary: m)
  case (Cons r rs)
  let ?m = "add_discovered_route ''general_agent'' r m"
  obtain cs where cs: "fold (add_discovered_route ''general_agent'') rs ?m = ?m\<lparr>pm_agent_routes := pm_agent_routes ?m @ cs\<rparr>"
      "length cs \<le> length rs" "set cs \<subseteq> set rs" using Cons by blast
  show ?case
  proof (cases "?m = m")
    case True
    with cs show ?thesis by (intro exI [of _ cs]) auto
  next
    case False
    then have "?m = m\<lparr>pm_agent_routes := pm_agent_routes m @ [r]\<rparr>" by (simp add: add_discovered_route_def split: if_splits)
    with cs show ?thesis by (intro exI [of _ "r # cs"]) auto
  qed
qed (auto intro: exI [of _ "[]"])


definition sample_numbers :: py_numbers where
  "sample_numbers = \<lparr>pn_float = decimal, pn_int = (\<lambda>_. None)\<rparr>"

definition sample_live_catalog :: "json list" where
  "sample_live_catalog =
     [JObj [(''id'', JStr ''x/coder:free''), (''pricing'', JObj [(''prompt'', JStr ''0'')]), (''context_length'', JInt 20000)],
      JObj [(''id'', JStr ''y/paid''), (''pricing'', JObj [(''prompt'', JStr ''1'')]), (''context_length'', JInt 20000)]]"


section \<open>Deprecation\<close>

text \<open>
  The catalog forgets no model: every model that was free or deprecated in the old catalog is free or deprecated in the new one,
  and one that was deprecated stays so.
\<close>

theorem catalog_forgets_nothing:
  assumes "discover_models pn now_iso min_context raw file = Decoded (cat, written)"
  shows "set (map cm_id (mc_free_models (load_model_catalog file))) \<subseteq> set (map cm_id (mc_free_models cat)) \<union> set (mc_deprecated_models cat)
    \<and> set (mc_deprecated_models (load_model_catalog file)) \<subseteq> set (mc_deprecated_models cat)"
  using assms by (auto simp: discover_models_def Let_def dbind_Decoded_iff split: if_splits)

lemma deprecated_key: "pool_key p i \<in> set (pm_deprecated (mark_deprecated q j m)) \<longleftrightarrow>
  pool_key p i = pool_key q j \<or> pool_key p i \<in> set (pm_deprecated m)"
  by (auto simp: mark_deprecated_def)

lemma deprecate_all: "mid \<in> set mids \<or> pool_key p mid \<in> set (pm_deprecated m) \<Longrightarrow> p \<in> {''coding'', ''general_agent''} \<Longrightarrow>
  pool_key p mid \<in> set (pm_deprecated (fold deprecate_everywhere mids m))"
proof (induction mids arbitrary: m)
  case (Cons x mids)
  then show ?case by (auto simp: deprecate_everywhere_def deprecated_key)
qed simp

lemma add_models_deprecated: "pm_deprecated (snd (fold (add_model up now_iso) found mm)) = pm_deprecated (snd mm)"
  by (induction found arbitrary: mm) (simp_all add: add_model_def add_discovered_route_def split: prod.split)

lemma add_models_keep: "map_of (fst mm) k = Some d \<Longrightarrow> map_of (fst (fold (add_model up now_iso) found mm)) k = Some d"
proof (induction found arbitrary: mm)
  case (Cons dm found)
  have "map_of (fst (add_model up now_iso dm mm)) k = Some d" using Cons.prems by (auto simp: add_model_def split: prod.split)
  from Cons.IH [OF this] show ?case by simp
qed simp

lemma add_models_all: "dm \<in> set found \<Longrightarrow> map_of (fst (fold (add_model up now_iso) found mm)) (fm_id dm) \<noteq> None"
proof (induction found arbitrary: mm)
  case (Cons x found)
  show ?case
  proof (cases "dm = x")
    case True
    have "map_of (fst (add_model up now_iso x mm)) (fm_id x) \<noteq> None" by (auto simp: add_model_def split: prod.split)
    then obtain d where "map_of (fst (add_model up now_iso x mm)) (fm_id x) = Some d" by blast
    from add_models_keep [OF this] True show ?thesis by simp
  qed (use Cons in simp)
qed simp

lemma retired_lookup:
  "map_of (map (\<lambda>e. if is_retired act e then (fst e, f (snd e)) else e) ms) k
     = map_option (\<lambda>d. if is_retired act (k, d) then f d else d) (map_of ms k)"
  by (induction ms) auto

text \<open>
  The probe of the catalog retires what has left it.  When the live catalog offers something, a free model of the ledger that was
  active and is offered no longer is marked deprecated in the ledger and taken out of both pools; every other model
  keeps its record, and every model that is offered has one.
\<close>

theorem probe_retires_models:
  assumes "found \<noteq> []" and "map_of models mid = Some d"
    and "probe_catalog True now_iso found (models, m) = (models', m')"
  shows "(if is_retired (map fm_id found) (mid, d)
          then map_of models' mid = Some (retire_model now_iso d)
            \<and> pool_key ''coding'' mid \<in> set (pm_deprecated m') \<and> pool_key ''general_agent'' mid \<in> set (pm_deprecated m')
          else map_of models' mid = Some d)
    \<and> (\<forall>dm \<in> set found. map_of models' (fm_id dm) \<noteq> None)"
proof -
  let ?act = "map fm_id found"
  let ?mm = "retire_missing True now_iso ?act (models, m)"
  have e: "models' = fst (fold (add_model True now_iso) found ?mm)" "m' = snd (fold (add_model True now_iso) found ?mm)"
    using assms(3) by (simp_all add: probe_catalog_def)
  have f: "map_of (fst ?mm) mid = Some (if is_retired ?act (mid, d) then retire_model now_iso d else d)"
    using assms(1,2) by (simp add: retire_missing_def retired_lookup)
  have "pool_key p mid \<in> set (pm_deprecated m')" if "is_retired ?act (mid, d)" "p \<in> {''coding'', ''general_agent''}" for p
  proof -
    have "mid \<in> set (map fst (filter (is_retired ?act) models))" using map_of_SomeD [OF assms(2)] that(1) by force
    with deprecate_all that(2) assms(1) show ?thesis unfolding e(2) add_models_deprecated by (simp add: retire_missing_def)
  qed
  with add_models_keep [OF f] add_models_all show ?thesis unfolding e(1) by simp
qed

section \<open>Prices\<close>

text \<open>
  The probe reads \<open>pricing.get(k, 1) or 1\<close>, so a price of zero that is a number counts as one; the discovery reads
  \<open>pricing.get(k, "0") or 0\<close>, so an entry without prices counts as free.
\<close>

theorem canary_misses_numeric_zero:
  "let item = JObj [(''id'', JStr ''m''), (''pricing'', JObj [(''prompt'', JInt 0), (''completion'', JInt 0)])];
       pn = \<lparr>pn_float = (\<lambda>s. Some 0), pn_int = (\<lambda>s. Some 0)\<rparr> in
   is_model_free pn (JObj [(''prompt'', JInt 0), (''completion'', JInt 0)]) \<and> canary_entry pn item = Decoded None"
  by code_simp

theorem missing_prices_are_free: "pn_float pn ''0'' = Some 0 \<Longrightarrow> is_model_free pn (JObj [])"
  by (simp add: is_model_free_def price_is_zero_def float_json_def or_json_def dict_get_def)

text \<open>A pinged model that is gone is deprecated in the coding pool only, wherever its route is.\<close>

theorem ping_spares_agent_pool:
  assumes "note_probe True now_iso ((prov, model), Ping_deprecated status msg) (provs, m) = (provs', m')"
  shows "pool_key ''general_agent'' x \<in> set (pm_deprecated m') \<longleftrightarrow> pool_key ''general_agent'' x \<in> set (pm_deprecated m)"
proof -
  have "pool_key ''general_agent'' x \<noteq> pool_key ''coding'' model" by (simp add: pool_key_def lower_def lower_char_def)
  with assms show ?thesis by (auto simp: note_probe_def deprecated_key split: option.splits if_splits)
qed

section \<open>Waiting\<close>

theorem wait_within_a_day: "0 \<le> tod \<Longrightarrow> tod < 86400 \<Longrightarrow> 0 < seconds_until_1am tod \<and> seconds_until_1am tod \<le> 86400"
  by (simp add: seconds_until_1am_def)

lemma wait_sum: "(\<And>k. \<not> stops k) \<Longrightarrow> of_nat k * 10 \<le> sleep_sec \<Longrightarrow> sum_list (wait_chunks sleep_sec stops k) = sleep_sec - of_nat k * 10"
proof (induction sleep_sec stops k rule: wait_chunks.induct)
  case (1 sleep_sec stops k)
  show ?case
  proof (cases "of_nat k * 10 < sleep_sec")
    case True
    note w = wait_chunks.simps [of sleep_sec stops k]
    show ?thesis
    proof (cases "of_nat (Suc k) * 10 \<le> sleep_sec")
      case le: True
      with 1 True have "sum_list (wait_chunks sleep_sec stops (Suc k)) = sleep_sec - of_nat (Suc k) * 10" by blast
      with le True 1(2) show ?thesis by (subst w) (simp add: min_def algebra_simps)
    next
      case gt: False
      then have "wait_chunks sleep_sec stops (Suc k) = []" by (subst wait_chunks.simps) simp
      with gt True 1(2) show ?thesis by (subst w) (simp add: min_def algebra_simps)
    qed
  next
    case False
    with 1(3) show ?thesis by (subst wait_chunks.simps) simp
  qed
qed

end
