(* ===== verification/Spec2Isabelle.thy ===== *)
theory Spec2Isabelle
  imports Prelude Errors Models Metrics Breaker Json ToolLedger Contracts DurableStore DurableLedger Cluster
    Continuation DurableContinuation Execution Capability Health RoutingState Router PyText Ir Context ToolValidation Pools Classifier ToolPass Executor ExecutorSafety ExecutorTheorems
    JsonText Streaming StreamTheorems NativeStream NativeStreamTheorems
    Wire OpenAi Anthropic Gemini OpenAiTheorems AnthropicTheorems GeminiTheorems Pruner PrunerTheorems
    Security Adapters Transport TransportTheorems StreamReading
    McpProxy McpTheorems AgentState Translators TranslatorTheorems LegacyRouter LegacyTheorems
    Accelerator Gateway GatewayTheorems Catalog CatalogTheorems
begin

text \<open>
  Verification of the durallm gateway.
\<close>

end
